(* ===== verification/Prelude.thy ===== *)
theory Prelude
  imports Main "HOL-Library.Char_ord" "HOL-Library.List_Lexorder"
begin

text \<open>
  Shared vocabulary of the development: the result type of fallible operations, SQL-style
  operations on tables kept as lists of rows, and the functions of Go's \<^verbatim>\<open>strings\<close> and
  \<^verbatim>\<open>strconv\<close> packages that the modelled code calls. A Go string is a byte string, so it is
  an Isabelle \<^typ>\<open>string\<close> (a list of 8-bit characters) and \<open>length\<close> counts bytes, as \<open>len\<close> does.
  Strings compare lexicographically by byte value (the library's list order over the
  character order), which is both Go's \<open>\<^verbatim>\<open><\<close>\<close> and SQLite's BINARY collation.
\<close>

named_theorems table_simps "rewriting for table operations"

type_synonym ('e, 'a) result = "'e + 'a"

section \<open>Tables\<close>

text \<open>\<open>UPDATE t SET ... WHERE ...\<close>, \<open>SELECT count(*)\<close> and \<open>SELECT ... LIMIT 1\<close>.\<close>

definition upd_where :: "('r \<Rightarrow> bool) \<Rightarrow> ('r \<Rightarrow> 'r) \<Rightarrow> 'r list \<Rightarrow> 'r list" where
  "upd_where P f rows = map (\<lambda>r. if P r then f r else r) rows"

definition count_where :: "('r \<Rightarrow> bool) \<Rightarrow> 'r list \<Rightarrow> nat" where
  "count_where P rows = length (filter P rows)"

lemma upd_where_Nil [table_simps, simp]: "upd_where P f [] = []"
  by (simp add: upd_where_def)

lemma upd_where_Cons [table_simps, simp]:
  "upd_where P f (r # rows) = (if P r then f r else r) # upd_where P f rows"
  by (simp add: upd_where_def)

lemma set_upd_where: "set (upd_where P f rows) = (\<lambda>r. if P r then f r else r) ` set rows"
  by (simp add: upd_where_def)

lemma in_upd_where_iff:
  "x \<in> set (upd_where P f rows) \<longleftrightarrow> (\<exists>r \<in> set rows. x = (if P r then f r else r))"
  by (auto simp: set_upd_where)

lemma upd_where_cases:
  assumes "x \<in> set (upd_where P f rows)"
  obtains (hit) r where "r \<in> set rows" "P r" "x = f r"
    | (miss) "x \<in> set rows" "\<not> P x"
  using assms by (auto simp: in_upd_where_iff split: if_splits)

lemma upd_where_origin:
  assumes "x \<in> set (upd_where P f rows)"
    and "\<And>r. r \<in> set rows \<Longrightarrow> P r \<Longrightarrow> Q (f r) r" and "\<And>r. Q r r"
  shows "\<exists>q \<in> set rows. Q x q"
  using assms(1) by (rule upd_where_cases) (use assms(2,3) in blast)+

lemma map_upd_where_same:
  assumes "\<And>r. r \<in> set rows \<Longrightarrow> P r \<Longrightarrow> g (f r) = g r"
  shows "map g (upd_where P f rows) = map g rows"
  using assms by (simp add: upd_where_def)

lemma length_upd_where [simp, table_simps]: "length (upd_where P f rows) = length rows"
  by (simp add: upd_where_def)

lemma upd_where_idle: "(\<And>r. r \<in> set rows \<Longrightarrow> \<not> P r) \<Longrightarrow> upd_where P f rows = rows"
  by (auto simp: upd_where_def intro: map_idI)

lemma count_where_0: "count_where P rows = 0 \<longleftrightarrow> (\<forall>r \<in> set rows. \<not> P r)"
  by (simp add: count_where_def filter_empty_conv)

lemma count_where_pos: "0 < count_where P rows \<longleftrightarrow> (\<exists>r \<in> set rows. P r)"
  using count_where_0 [of P rows] by auto

lemma find_SomeD: "find P rows = Some r \<Longrightarrow> r \<in> set rows \<and> P r"
  by (induction rows) (auto split: if_splits)

lemma find_NoneD: "find P rows = None \<Longrightarrow> r \<in> set rows \<Longrightarrow> \<not> P r"
  by (induction rows) (auto split: if_splits)

lemma find_None_iff_not: "find P rows = None \<longleftrightarrow> (\<forall>r \<in> set rows. \<not> P r)"
  by (induction rows) auto

lemma find_upd_where:
  "(\<And>r. P r \<Longrightarrow> P (f r)) \<Longrightarrow> find P (upd_where P f rows) = map_option f (find P rows)"
  by (induction rows) auto

lemma distinct_map_unique:
  "distinct (map f rows) \<Longrightarrow> r \<in> set rows \<Longrightarrow> r' \<in> set rows \<Longrightarrow> f r = f r' \<Longrightarrow> r = r'"
  by (simp add: distinct_map inj_on_def)

lemma find_unique:
  assumes "distinct (map f rows)" "r \<in> set rows" "f r = k"
  shows "find (\<lambda>x. f x = k) rows = Some r"
  using assms
proof (induction rows)
  case (Cons a rows)
  then show ?case by (cases "f a = k") auto
qed simp

lemma filter_unique:
  assumes "distinct (map f rows)" "r \<in> set rows"
  shows "filter (\<lambda>x. f x = f r) rows = [r]"
  using assms
proof (induction rows)
  case (Cons a rows)
  show ?case
  proof (cases "a = r")
    case True
    with Cons.prems(1) have "f r \<notin> f ` set rows" by simp
    then have "filter (\<lambda>x. f x = f r) rows = []" by (auto simp: filter_empty_conv intro: rev_image_eqI)
    with True show ?thesis by simp
  next
    case False
    with Cons show ?thesis by auto
  qed
qed simp

lemma find_cong_rows: "(\<And>r. r \<in> set rows \<Longrightarrow> P r = Q r) \<Longrightarrow> find P rows = find Q rows"
  by (induction rows) auto

text \<open>An update that keeps the key and never brings a row into the class \<open>L\<close> keeps a partial unique index.\<close>

lemma upd_where_keys_subset:
  assumes "\<And>r. r \<in> set rows \<Longrightarrow> P r \<Longrightarrow> g (f r) = g r \<and> (L (f r) \<longrightarrow> L r)"
  shows "g ` set (filter L (upd_where P f rows)) \<subseteq> g ` set (filter L rows)"
proof
  fix k assume "k \<in> g ` set (filter L (upd_where P f rows))"
  then obtain x where x: "x \<in> set (upd_where P f rows)" "L x" "k = g x" by auto
  from x(1) show "k \<in> g ` set (filter L rows)"
  proof (cases rule: upd_where_cases)
    case (hit r)
    then have "r \<in> set (filter L rows)" "k = g r" using assms[of r] x(2,3) by auto
    then show ?thesis by blast
  next
    case miss
    then show ?thesis using x(2,3) by auto
  qed
qed

lemma upd_where_unique_index:
  assumes "\<And>r. r \<in> set rows \<Longrightarrow> P r \<Longrightarrow> g (f r) = g r \<and> (L (f r) \<longrightarrow> L r)"
    and "distinct (map g (filter L rows))"
  shows "distinct (map g (filter L (upd_where P f rows)))"
  using assms
proof (induction rows)
  case (Cons b rows)
  have IH: "distinct (map g (filter L (upd_where P f rows)))"
    using Cons by (auto split: if_splits)
  have sub: "g ` set (filter L (upd_where P f rows)) \<subseteq> g ` set (filter L rows)"
    using Cons.prems(1) by (intro upd_where_keys_subset) simp
  define b' where "b' = (if P b then f b else b)"
  have b': "g b' = g b" "L b' \<Longrightarrow> L b" using Cons.prems(1)[of b] by (auto simp: b'_def split: if_splits)
  show ?case
  proof (cases "L b'")
    case True
    then have "g b \<notin> g ` set (filter L rows)" using Cons.prems(2) b' by simp
    with sub have "g b' \<notin> g ` set (filter L (upd_where P f rows))" using b'(1) by auto
    with IH True show ?thesis by (simp add: b'_def[symmetric])
  next
    case False
    with IH show ?thesis by (simp add: b'_def[symmetric])
  qed
qed simp

section \<open>Strings\<close>

definition has_prefix :: "string \<Rightarrow> string \<Rightarrow> bool" where
  "has_prefix p s \<longleftrightarrow> take (length p) s = p"

definition trim_prefix :: "string \<Rightarrow> string \<Rightarrow> string" where
  "trim_prefix p s = (if has_prefix p s then drop (length p) s else s)"

lemma has_prefix_append [simp]: "has_prefix p (p @ s)"
  by (simp add: has_prefix_def)

lemma trim_prefix_append [simp]: "trim_prefix p (p @ s) = s"
  by (simp add: trim_prefix_def)

lemma has_prefix_iff: "has_prefix p s \<longleftrightarrow> (\<exists>t. s = p @ t)"
  by (metis append_take_drop_id has_prefix_append has_prefix_def)

text \<open>\<open>strings.Cut(s, sep)\<close> for a one-byte separator: before, after, found.\<close>

fun cut :: "char \<Rightarrow> string \<Rightarrow> (string \<times> string) option" where
  "cut c [] = None"
| "cut c (x # xs) =
     (if x = c then Some ([], xs)
      else map_option (\<lambda>(a, b). (x # a, b)) (cut c xs))"

lemma cut_append: "c \<notin> set a \<Longrightarrow> cut c (a @ c # b) = Some (a, b)"
  by (induction a) auto

lemma cut_SomeD: "cut c s = Some (a, b) \<Longrightarrow> s = a @ c # b \<and> c \<notin> set a"
  by (induction s arbitrary: a) (auto split: if_splits)

text \<open>\<open>strings.Split(s, sep)\<close> and \<open>strings.Join(xs, sep)\<close> for a one-byte separator.\<close>

fun split_on :: "char \<Rightarrow> string \<Rightarrow> string list" where
  "split_on c [] = [[]]"
| "split_on c (x # xs) =
     (if x = c then [] # split_on c xs
      else (case split_on c xs of [] \<Rightarrow> [[x]] | w # ws \<Rightarrow> (x # w) # ws))"

fun join_with :: "string \<Rightarrow> string list \<Rightarrow> string" where
  "join_with sep [] = []"
| "join_with sep [w] = w"
| "join_with sep (w # ws) = w @ sep @ join_with sep ws"

lemma split_on_nonempty [simp]: "split_on c s \<noteq> []"
  by (induction s) (auto split: list.splits)

lemma join_split [simp]: "join_with [c] (split_on c s) = s"
proof (induction s)
  case (Cons x xs)
  then show ?case
    by (cases "split_on c xs"; cases "tl (split_on c xs)") auto
qed simp

lemma split_on_no_sep: "w \<in> set (split_on c s) \<Longrightarrow> c \<notin> set w"
  by (induction s arbitrary: w) (fastforce split: if_splits list.splits)+

lemma split_on_word: "c \<notin> set w \<Longrightarrow> split_on c w = [w]"
  by (induction w) auto

lemma split_on_append: "c \<notin> set w \<Longrightarrow> split_on c (w @ c # s) = w # split_on c s"
  by (induction w) auto

lemma split_join:
  "ws \<noteq> [] \<Longrightarrow> (\<And>w. w \<in> set ws \<Longrightarrow> c \<notin> set w) \<Longrightarrow> split_on c (join_with [c] ws) = ws"
  by (induction "[c]" ws rule: join_with.induct) (auto simp: split_on_word split_on_append)

section \<open>Decimal rendering\<close>

text \<open>\<open>strconv.Itoa\<close> and \<open>fmt.Sprintf("%d")\<close>.\<close>

definition digit_char :: "nat \<Rightarrow> char" where
  "digit_char n = char_of (48 + n)"

fun nat_dec :: "nat \<Rightarrow> string" where
  "nat_dec n = (if n < 10 then [digit_char n] else nat_dec (n div 10) @ [digit_char (n mod 10)])"

declare nat_dec.simps [simp del]

definition int_dec :: "int \<Rightarrow> string" where
  "int_dec i = (if i < 0 then CHR ''-'' # nat_dec (nat (- i)) else nat_dec (nat i))"

text \<open>\<open>net.JoinHostPort\<close>.\<close>

definition JoinHostPort :: "string \<Rightarrow> string \<Rightarrow> string" where
  "JoinHostPort host port = (if CHR '':'' \<in> set host then ''['' @ host @ '']:'' @ port else host @ '':'' @ port)"

definition is_digit :: "char \<Rightarrow> bool" where
  "is_digit c \<longleftrightarrow> CHR ''0'' \<le> c \<and> c \<le> CHR ''9''"

definition digit_val :: "char \<Rightarrow> nat" where
  "digit_val c = of_char c - 48"

definition dec_val :: "string \<Rightarrow> nat" where
  "dec_val s = foldl (\<lambda>v c. 10 * v + digit_val c) 0 s"

lemma digit_val_digit_char [simp]: "n < 10 \<Longrightarrow> digit_val (digit_char n) = n"
  by (simp add: digit_val_def digit_char_def)

lemma is_digit_alt: "is_digit c \<longleftrightarrow> 48 \<le> (of_char c :: nat) \<and> (of_char c :: nat) \<le> 57"
  by (simp add: is_digit_def less_eq_char_def)

lemma is_digit_digit_char: "n < 10 \<Longrightarrow> is_digit (digit_char n)"
  by (simp add: is_digit_alt digit_char_def)

lemma nat_dec_nonempty [simp]: "nat_dec n \<noteq> []"
  by (subst nat_dec.simps) simp

lemma nat_dec_digits: "c \<in> set (nat_dec n) \<Longrightarrow> is_digit c"
proof (induction n rule: nat_dec.induct)
  case (1 n)
  show ?case
  proof (cases "n < 10")
    case True
    with "1.prems" show ?thesis
      by (simp add: nat_dec.simps [of n] is_digit_digit_char)
  next
    case False
    with "1.prems" have "c \<in> set (nat_dec (n div 10)) \<or> c = digit_char (n mod 10)"
      by (auto simp: nat_dec.simps [of n])
    with "1.IH" [OF False] show ?thesis by (auto simp: is_digit_digit_char)
  qed
qed

lemma dec_val_nat_dec [simp]: "dec_val (nat_dec n) = n"
proof (induction n rule: nat_dec.induct)
  case (1 n)
  show ?case
  proof (cases "n < 10")
    case True
    then show ?thesis by (simp add: nat_dec.simps [of n] dec_val_def)
  next
    case False
    with "1.IH" have "dec_val (nat_dec (n div 10)) = n div 10" by simp
    with False show ?thesis
      by (simp add: nat_dec.simps [of n] dec_val_def)
  qed
qed

lemma nat_dec_inj: "nat_dec m = nat_dec n \<longleftrightarrow> m = n"
  by (metis dec_val_nat_dec)

end
