(* ===== verification/Regex.thy ===== *)
theory Regex
  imports Prelude
begin

text \<open>
  The anchored regular expressions the code compiles with \<^verbatim>\<open>regexp.MustCompile\<close>. A pattern is
  transcribed as a term and matched by derivatives; \<open>rx_match_iff\<close> relates the matcher to the
  declarative meaning of the pattern.
\<close>

datatype rx = Empty | Eps | Chars "char \<Rightarrow> bool" | Seq rx rx | Alt rx rx | Star rx

fun nullable :: "rx \<Rightarrow> bool" where
  "nullable Empty = False"
| "nullable Eps = True"
| "nullable (Chars P) = False"
| "nullable (Seq r s) = (nullable r \<and> nullable s)"
| "nullable (Alt r s) = (nullable r \<or> nullable s)"
| "nullable (Star r) = True"

fun deriv :: "char \<Rightarrow> rx \<Rightarrow> rx" where
  "deriv c Empty = Empty"
| "deriv c Eps = Empty"
| "deriv c (Chars P) = (if P c then Eps else Empty)"
| "deriv c (Seq r s) =
     (if nullable r then Alt (Seq (deriv c r) s) (deriv c s) else Seq (deriv c r) s)"
| "deriv c (Alt r s) = Alt (deriv c r) (deriv c s)"
| "deriv c (Star r) = Seq (deriv c r) (Star r)"

fun rx_match :: "rx \<Rightarrow> string \<Rightarrow> bool" where
  "rx_match r [] = nullable r"
| "rx_match r (c # s) = rx_match (deriv c r) s"

text \<open>Derived forms: a literal, \<open>r?\<close>, \<open>r+\<close>, \<open>r{0,n}\<close> and \<open>r{n}\<close>.\<close>

fun rx_lit :: "string \<Rightarrow> rx" where
  "rx_lit [] = Eps"
| "rx_lit (c # s) = Seq (Chars ((=) c)) (rx_lit s)"

definition rx_opt :: "rx \<Rightarrow> rx" where
  "rx_opt r = Alt r Eps"

definition rx_plus :: "rx \<Rightarrow> rx" where
  "rx_plus r = Seq r (Star r)"

fun rx_upto :: "nat \<Rightarrow> rx \<Rightarrow> rx" where
  "rx_upto 0 r = Eps"
| "rx_upto (Suc n) r = Alt (Seq r (rx_upto n r)) Eps"

fun rx_times :: "nat \<Rightarrow> rx \<Rightarrow> rx" where
  "rx_times 0 r = Eps"
| "rx_times (Suc n) r = Seq r (rx_times n r)"

section \<open>Meaning\<close>

inductive matches :: "rx \<Rightarrow> string \<Rightarrow> bool" where
  m_eps: "matches Eps []"
| m_chars: "P c \<Longrightarrow> matches (Chars P) [c]"
| m_seq: "matches r u \<Longrightarrow> matches s v \<Longrightarrow> matches (Seq r s) (u @ v)"
| m_altl: "matches r u \<Longrightarrow> matches (Alt r s) u"
| m_altr: "matches s u \<Longrightarrow> matches (Alt r s) u"
| m_star_nil: "matches (Star r) []"
| m_star: "matches r u \<Longrightarrow> matches (Star r) v \<Longrightarrow> matches (Star r) (u @ v)"

inductive_simps matches_Empty [simp]: "matches Empty s"
inductive_simps matches_Eps [simp]: "matches Eps s"
inductive_simps matches_Chars: "matches (Chars P) s"
inductive_simps matches_Seq: "matches (Seq r t) s"
inductive_simps matches_Alt: "matches (Alt r t) s"

lemma matches_Nil_iff: "matches r [] \<longleftrightarrow> nullable r"
proof
  show "nullable r \<Longrightarrow> matches r []"
    by (induction r) (auto intro: matches.intros simp: matches_Seq)
next
  assume "matches r []"
  moreover have "matches r s \<Longrightarrow> s = [] \<Longrightarrow> nullable r" for s
    by (induction rule: matches.induct) auto
  ultimately show "nullable r" by blast
qed

lemma matches_star_Cons:
  assumes "matches (Star r) s" "s = c # t"
  shows "\<exists>u v. t = u @ v \<and> matches r (c # u) \<and> matches (Star r) v"
proof -
  have "matches q s \<Longrightarrow> q = Star r \<Longrightarrow> s = c # t \<Longrightarrow>
      \<exists>u v. t = u @ v \<and> matches r (c # u) \<and> matches (Star r) v" for q
  proof (induction q s arbitrary: t rule: matches.induct)
    case (m_star r' u v)
    then show ?case by (cases u) auto
  qed auto
  with assms show ?thesis by blast
qed

lemma matches_deriv: "matches (deriv c r) s \<longleftrightarrow> matches r (c # s)"
proof (induction r arbitrary: s)
  case (Chars P)
  then show ?case by (auto simp: matches_Chars)
next
  case (Seq r t)
  have "matches (Seq r t) (c # s) \<longleftrightarrow>
      (nullable r \<and> matches t (c # s)) \<or> (\<exists>u v. s = u @ v \<and> matches r (c # u) \<and> matches t v)"
    by (simp add: matches_Seq Cons_eq_append_conv matches_Nil_iff conj_disj_distribL
        conj_disj_distribR ex_disj_distrib) blast
  also have "\<dots> \<longleftrightarrow> matches (deriv c (Seq r t)) s"
    by (simp add: matches_Seq matches_Alt Seq) blast
  finally show ?case ..
next
  case (Alt r t)
  then show ?case by (simp add: matches_Alt)
next
  case (Star r)
  show ?case
  proof
    assume "matches (deriv c (Star r)) s"
    then obtain u v where "s = u @ v" "matches r (c # u)" "matches (Star r) v"
      by (auto simp: matches_Seq Star)
    then show "matches (Star r) (c # s)"
      using m_star [of r "c # u" v] by simp
  next
    assume "matches (Star r) (c # s)"
    then show "matches (deriv c (Star r)) s"
      using matches_star_Cons by (auto simp: matches_Seq Star)
  qed
qed (auto elim: matches.cases)

theorem rx_match_iff: "rx_match r s \<longleftrightarrow> matches r s"
  by (induction s arbitrary: r) (simp_all add: matches_Nil_iff matches_deriv)

lemma matches_Seq_Chars:
  "matches (Seq (Chars P) r) s \<longleftrightarrow> (case s of [] \<Rightarrow> False | c # t \<Rightarrow> P c \<and> matches r t)"
proof (cases s)
  case (Cons a t)
  have "P a \<and> matches r t \<Longrightarrow> matches (Seq (Chars P) r) (a # t)"
    using m_seq [OF m_chars [of P a], of r t] by simp
  moreover have "matches (Seq (Chars P) r) (a # t) \<Longrightarrow> P a \<and> matches r t"
    by (erule matches.cases) (auto simp: matches_Chars append_eq_Cons_conv)
  ultimately have "matches (Seq (Chars P) r) (a # t) = (P a \<and> matches r t)" by blast
  with Cons show ?thesis by simp
qed (simp add: matches_Seq matches_Chars)

lemma matches_upto_Chars:
  "matches (rx_upto n (Chars P)) s \<longleftrightarrow> length s \<le> n \<and> list_all P s"
proof (induction n arbitrary: s)
  case (Suc n)
  then show ?case
    by (cases s) (auto simp: matches_Alt matches_Seq_Chars)
qed auto

lemma matches_times_Chars:
  "matches (rx_times n (Chars P)) s \<longleftrightarrow> length s = n \<and> list_all P s"
proof (induction n arbitrary: s)
  case (Suc n)
  then show ?case
    by (cases s) (auto simp: matches_Seq_Chars)
qed auto

section \<open>Character classes\<close>

definition in_range :: "char \<Rightarrow> char \<Rightarrow> char \<Rightarrow> bool" where
  "in_range lo hi c \<longleftrightarrow> lo \<le> c \<and> c \<le> hi"

definition low_alnum :: "char \<Rightarrow> bool" where
  "low_alnum c \<longleftrightarrow> in_range (CHR ''a'') (CHR ''z'') c \<or> in_range (CHR ''0'') (CHR ''9'') c"

lemma low_alnum_alt:
  "low_alnum c \<longleftrightarrow> (97 \<le> (of_char c :: nat) \<and> (of_char c :: nat) \<le> 122)
     \<or> (48 \<le> (of_char c :: nat) \<and> (of_char c :: nat) \<le> 57)"
  by (simp add: low_alnum_def in_range_def less_eq_char_def)

lemma is_digit_low_alnum: "is_digit c \<Longrightarrow> low_alnum c"
  by (simp add: is_digit_alt low_alnum_alt)

end
