(* ===== verification/Times.thy ===== *)
theory Times
  imports Prelude
begin

text \<open>
  The timestamps of the registry (\<^verbatim>\<open>src/internal/registry/registry.go\<close>: \<open>TimeString\<close>,
  \<open>msCutoff\<close>). A Go \<open>time.Time\<close> is modelled by its UTC civil fields. Columns hold text in the
  form \<^verbatim>\<open>2006-01-02T15:04:05.000Z\<close> and are compared as text; this theory shows that the text
  order of rendered timestamps is their chronological order, and that a cut-off given in whole
  seconds is normalised so that it does not overtake the timestamps inside its second.
\<close>

record gotime =
  tm_year :: int
  tm_month :: int
  tm_day :: int
  tm_hour :: int
  tm_min :: int
  tm_sec :: int
  tm_nsec :: int

section \<open>Calendar arithmetic (\<open>time.Time.Add\<close>, \<open>Sub\<close>, \<open>UTC\<close>)\<close>

text \<open>Days since 1970-01-01 of a proleptic Gregorian date, and back.\<close>

definition days_from_civil :: "int \<Rightarrow> int \<Rightarrow> int \<Rightarrow> int" where
  "days_from_civil y0 m d =
     (let y = (if m \<le> 2 then y0 - 1 else y0);
          era = y div 400;
          yoe = y - era * 400;
          doy = (153 * (if m > 2 then m - 3 else m + 9) + 2) div 5 + d - 1;
          doe = yoe * 365 + yoe div 4 - yoe div 100 + doy
      in era * 146097 + doe - 719468)"

definition civil_from_days :: "int \<Rightarrow> int \<times> int \<times> int" where
  "civil_from_days z0 =
     (let z = z0 + 719468;
          era = z div 146097;
          doe = z - era * 146097;
          yoe = (doe - doe div 1460 + doe div 36524 - doe div 146096) div 365;
          doy = doe - (365 * yoe + yoe div 4 - yoe div 100);
          mp = (5 * doy + 2) div 153;
          d = doy - (153 * mp + 2) div 5 + 1;
          m = (if mp < 10 then mp + 3 else mp - 9)
      in (yoe + era * 400 + (if m \<le> 2 then 1 else 0), m, d))"

text \<open>Nanoseconds since the Unix epoch, and back.\<close>

definition instant :: "gotime \<Rightarrow> int" where
  "instant t = ((days_from_civil (tm_year t) (tm_month t) (tm_day t) * 24 + tm_hour t) * 60
     + tm_min t) * 60000000000 + tm_sec t * 1000000000 + tm_nsec t"

definition of_instant :: "int \<Rightarrow> gotime" where
  "of_instant n =
     (let s = n div 1000000000; dsec = s mod 86400; (y, m, d) = civil_from_days (s div 86400)
      in \<lparr>tm_year = y, tm_month = m, tm_day = d, tm_hour = dsec div 3600,
          tm_min = dsec mod 3600 div 60, tm_sec = dsec mod 60, tm_nsec = n mod 1000000000\<rparr>)"

definition time_add :: "gotime \<Rightarrow> int \<Rightarrow> gotime" where
  "time_add t d = of_instant (instant t + d)"

definition time_sub :: "gotime \<Rightarrow> gotime \<Rightarrow> int" where
  "time_sub t u = instant t - instant u"

section \<open>Rendering\<close>

fun pad :: "nat \<Rightarrow> nat \<Rightarrow> string" where
  "pad 0 n = []"
| "pad (Suc w) n = pad w (n div 10) @ [digit_char (n mod 10)]"

text \<open>The date and the time of day down to the second, common to both layouts.\<close>

definition stamp_sec :: "gotime \<Rightarrow> string" where
  "stamp_sec t = pad 4 (nat (tm_year t)) @ ''-'' @ pad 2 (nat (tm_month t)) @ ''-''
     @ pad 2 (nat (tm_day t)) @ ''T'' @ pad 2 (nat (tm_hour t)) @ '':''
     @ pad 2 (nat (tm_min t)) @ '':'' @ pad 2 (nat (tm_sec t))"

text \<open>\<open>t.UTC().Format("2006-01-02T15:04:05.000Z")\<close>: the fraction is truncated to milliseconds.\<close>

definition TimeString :: "gotime \<Rightarrow> string" where
  "TimeString t = stamp_sec t @ ''.'' @ pad 3 (nat (tm_nsec t div 1000000)) @ ''Z''"

text \<open>\<open>t.UTC().Format(time.RFC3339)\<close>.\<close>

definition rfc3339 :: "gotime \<Rightarrow> string" where
  "rfc3339 t = stamp_sec t @ ''Z''"

text \<open>
  \<open>time.Duration.String\<close>: hours, minutes and seconds with the fraction's trailing zeros dropped, or below a second the
  largest of the units nanoseconds, microseconds (a UTF-8 micro sign) and milliseconds that leaves a whole part.
\<close>

definition frac_digits :: "nat \<Rightarrow> nat \<Rightarrow> string" where
  "frac_digits prec v = (let ds = rev (dropWhile (\<lambda>c. c = CHR ''0'') (rev (pad prec (v mod 10 ^ prec))))
     in if ds = [] then [] else CHR ''.'' # ds)"

definition Duration_abs :: "nat \<Rightarrow> string" where
  "Duration_abs u =
     (if u = 0 then ''0s''
      else if u < 1000 then nat_dec u @ ''ns''
      else if u < 1000000 then nat_dec (u div 1000) @ frac_digits 3 u @ [CHR 0xC2, CHR 0xB5, CHR ''s'']
      else if u < 1000000000 then nat_dec (u div 1000000) @ frac_digits 6 u @ ''ms''
      else (let s = u div 1000000000; m = s div 60; h = m div 60
            in (if h > 0 then nat_dec h @ ''h'' else []) @ (if m > 0 then nat_dec (m mod 60) @ ''m'' else [])
               @ nat_dec (s mod 60) @ frac_digits 9 u @ ''s''))"

definition Duration_String :: "int \<Rightarrow> string" where
  "Duration_String d = (if d < 0 then CHR ''-'' # Duration_abs (nat (- d)) else Duration_abs (nat d))"

section \<open>Parsing (\<open>time.Parse(time.RFC3339Nano, s)\<close>)\<close>

definition parse_uint :: "string \<Rightarrow> nat \<Rightarrow> nat \<Rightarrow> nat option" where
  "parse_uint s lo hi =
     (if s \<noteq> [] \<and> list_all is_digit s \<and> lo \<le> dec_val s \<and> dec_val s \<le> hi
      then Some (dec_val s) else None)"

definition days_in :: "int \<Rightarrow> int \<Rightarrow> int" where
  "days_in y m =
     (if m = 2 then (if 4 dvd y \<and> (\<not> 100 dvd y \<or> 400 dvd y) then 29 else 28)
      else if m = 4 \<or> m = 6 \<or> m = 9 \<or> m = 11 then 30 else 31)"

text \<open>The optional fraction: nanoseconds from at most nine digits, and the rest of the input.\<close>

definition parse_frac :: "string \<Rightarrow> nat \<times> string" where
  "parse_frac s =
     (case s of c # d # _ \<Rightarrow>
        if c = CHR ''.'' \<and> is_digit d
        then (let ds = takeWhile is_digit (tl s); k = take 9 ds
              in (dec_val k * 10 ^ (9 - length k), drop (length ds) (tl s)))
        else (0, s)
      | _ \<Rightarrow> (0, s))"

text \<open>The zone: \<open>Z\<close>, or a signed \<open>hh:mm\<close> offset in nanoseconds.\<close>

definition parse_zone :: "string \<Rightarrow> int option" where
  "parse_zone s =
     (if s = ''Z'' then Some 0
      else if length s = 6 \<and> (s ! 0 = CHR ''+'' \<or> s ! 0 = CHR ''-'') \<and> s ! 3 = CHR '':''
      then (case (parse_uint (take 2 (drop 1 s)) 0 23, parse_uint (drop 4 s) 0 59) of
              (Some h, Some m) \<Rightarrow>
                Some ((if s ! 0 = CHR ''-'' then -1 else 1) * (int h * 60 + int m) * 60000000000)
            | _ \<Rightarrow> None)
      else None)"

definition parse_rfc3339nano :: "string \<Rightarrow> gotime option" where
  "parse_rfc3339nano s =
     (if length s < 20 \<or> s ! 4 \<noteq> CHR ''-'' \<or> s ! 7 \<noteq> CHR ''-'' \<or> s ! 10 \<noteq> CHR ''T''
         \<or> s ! 13 \<noteq> CHR '':'' \<or> s ! 16 \<noteq> CHR '':'' then None
      else case parse_uint (take 4 s) 0 9999 of None \<Rightarrow> None | Some y \<Rightarrow>
           (case parse_uint (take 2 (drop 5 s)) 1 12 of None \<Rightarrow> None | Some mo \<Rightarrow>
           (case parse_uint (take 2 (drop 8 s)) 1 (nat (days_in (int y) (int mo))) of None \<Rightarrow> None | Some d \<Rightarrow>
           (case parse_uint (take 2 (drop 11 s)) 0 23 of None \<Rightarrow> None | Some h \<Rightarrow>
           (case parse_uint (take 2 (drop 14 s)) 0 59 of None \<Rightarrow> None | Some mi \<Rightarrow>
           (case parse_uint (take 2 (drop 17 s)) 0 59 of None \<Rightarrow> None | Some sec \<Rightarrow>
           (let (ns, rest) = parse_frac (drop 19 s);
                t = \<lparr>tm_year = int y, tm_month = int mo, tm_day = int d, tm_hour = int h,
                     tm_min = int mi, tm_sec = int sec, tm_nsec = int ns\<rparr>
            in case parse_zone rest of None \<Rightarrow> None
               | Some off \<Rightarrow> Some (if off = 0 then t else time_add t (- off)))))))))"

text \<open>\<open>msCutoff\<close>: unparseable input is passed through unchanged.\<close>

definition msCutoff :: "string \<Rightarrow> string" where
  "msCutoff before = (case parse_rfc3339nano before of None \<Rightarrow> before | Some t \<Rightarrow> TimeString t)"

section \<open>Text order is chronological order\<close>

definition valid_time :: "gotime \<Rightarrow> bool" where
  "valid_time t \<longleftrightarrow> 0 \<le> tm_year t \<and> tm_year t \<le> 9999 \<and> 1 \<le> tm_month t \<and> tm_month t \<le> 12
     \<and> 1 \<le> tm_day t \<and> tm_day t \<le> days_in (tm_year t) (tm_month t)
     \<and> 0 \<le> tm_hour t \<and> tm_hour t \<le> 23 \<and> 0 \<le> tm_min t \<and> tm_min t \<le> 59
     \<and> 0 \<le> tm_sec t \<and> tm_sec t \<le> 59 \<and> 0 \<le> tm_nsec t \<and> tm_nsec t < 1000000000"

text \<open>The fields compared most significant first, down to the millisecond.\<close>

definition time_key :: "gotime \<Rightarrow> int list" where
  "time_key t = [tm_year t, tm_month t, tm_day t, tm_hour t, tm_min t, tm_sec t, tm_nsec t div 1000000]"

lemma length_pad [simp]: "length (pad w n) = w"
  by (induction w n rule: pad.induct) auto

lemma dec_val_snoc: "dec_val (s @ [c]) = 10 * dec_val s + digit_val c"
  by (simp add: dec_val_def)

lemma dec_val_pad: "n < 10 ^ w \<Longrightarrow> dec_val (pad w n) = n"
proof (induction w n rule: pad.induct)
  case (1 n)
  then show ?case by (simp add: dec_val_def)
next
  case (2 w n)
  then have "n div 10 < 10 ^ w"
    by (simp add: div_less_iff_less_mult mult.commute)
  with 2 show ?case by (simp add: dec_val_snoc)
qed

lemma pad_digits: "list_all is_digit (pad w n)"
  by (induction w n rule: pad.induct) (auto simp: is_digit_digit_char)

lemma parse_uint_pad:
  "n < 10 ^ w \<Longrightarrow> 0 < w \<Longrightarrow> parse_uint (pad w n) lo hi = (if lo \<le> n \<and> n \<le> hi then Some n else None)"
  using length_pad [of w n]
  by (auto simp: parse_uint_def dec_val_pad pad_digits simp del: length_pad)

text \<open>Equal-length prefixes decide the order of the whole strings.\<close>

lemma less_append_same_length:
  fixes a b :: "'a::linorder list"
  assumes "length a = length b"
  shows "a @ s < b @ t \<longleftrightarrow> a < b \<or> (a = b \<and> s < t)"
  using assms by (induction a b rule: list_induct2) auto

lemma digit_char_less [simp]: "m < 10 \<Longrightarrow> n < 10 \<Longrightarrow> digit_char m < digit_char n \<longleftrightarrow> m < n"
  by (simp add: digit_char_def less_char_def)

lemma digit_char_eq [simp]: "m < 10 \<Longrightarrow> n < 10 \<Longrightarrow> digit_char m = digit_char n \<longleftrightarrow> m = n"
  by (metis digit_val_digit_char)

lemma pad_inj: "m < 10 ^ w \<Longrightarrow> n < 10 ^ w \<Longrightarrow> pad w m = pad w n \<longleftrightarrow> m = n"
  by (metis dec_val_pad)

lemma less_div_mod_10:
  "(m::nat) < n \<longleftrightarrow> m div 10 < n div 10 \<or> (m div 10 = n div 10 \<and> m mod 10 < n mod 10)"
proof -
  have "m = 10 * (m div 10) + m mod 10" "n = 10 * (n div 10) + n mod 10"
    "m mod 10 < 10" "n mod 10 < 10" by simp_all
  then show ?thesis by linarith
qed

lemma pad_less: "m < 10 ^ w \<Longrightarrow> n < 10 ^ w \<Longrightarrow> pad w m < pad w n \<longleftrightarrow> m < n"
proof (induction w arbitrary: m n)
  case (Suc w)
  then have b: "m div 10 < 10 ^ w" "n div 10 < 10 ^ w"
    by (simp_all add: div_less_iff_less_mult mult.commute)
  have "pad (Suc w) m < pad (Suc w) n \<longleftrightarrow>
      m div 10 < n div 10 \<or> (m div 10 = n div 10 \<and> m mod 10 < n mod 10)"
    using b by (simp add: less_append_same_length Suc.IH pad_inj)
  also have "\<dots> \<longleftrightarrow> m < n" by (rule less_div_mod_10 [symmetric])
  finally show ?case .
qed simp

lemma pad_int_less:
  "0 \<le> a \<Longrightarrow> 0 \<le> b \<Longrightarrow> a < 10 ^ w \<Longrightarrow> b < 10 ^ w \<Longrightarrow>
     pad w (nat a) < pad w (nat b) \<longleftrightarrow> a < b"
  by (subst pad_less) (auto simp: nat_less_iff)

lemma pad_int_eq:
  "0 \<le> a \<Longrightarrow> 0 \<le> b \<Longrightarrow> a < 10 ^ w \<Longrightarrow> b < 10 ^ w \<Longrightarrow>
     pad w (nat a) = pad w (nat b) \<longleftrightarrow> a = b"
  by (subst pad_inj) (auto simp: nat_less_iff)

lemma days_in_le: "days_in y m \<le> 31"
  by (simp add: days_in_def)

lemma valid_field_bounds:
  assumes "valid_time t"
  shows "0 \<le> tm_year t" "tm_year t < 10000" "0 \<le> tm_month t" "tm_month t < 100"
    "0 \<le> tm_day t" "tm_day t < 100" "0 \<le> tm_hour t" "tm_hour t < 100"
    "0 \<le> tm_min t" "tm_min t < 100" "0 \<le> tm_sec t" "tm_sec t < 100"
    "0 \<le> tm_nsec t div 1000000" "tm_nsec t div 1000000 < 1000" "0 \<le> tm_nsec t"
  using assms days_in_le [of "tm_year t" "tm_month t"]
  by (auto simp: valid_time_def)

lemma TimeString_less_iff:
  assumes "valid_time t" "valid_time u"
  shows "TimeString t < TimeString u \<longleftrightarrow> time_key t < time_key u"
proof -
  note b = valid_field_bounds [OF assms(1)] valid_field_bounds [OF assms(2)]
  show ?thesis
    unfolding TimeString_def stamp_sec_def time_key_def
    by (simp add: less_append_same_length b pad_int_less pad_int_eq)
qed

lemma pad3: "pad 3 n = [digit_char (n div 10 div 10 mod 10), digit_char (n div 10 mod 10), digit_char (n mod 10)]"
  by (simp add: numeral_3_eq_3)

lemma parse_frac_ms:
  assumes n: "n < 1000"
  shows "parse_frac (''.'' @ pad 3 n @ ''Z'') = (n * 1000000, ''Z'')"
proof -
  have z: "\<not> is_digit (CHR ''Z'')" by (simp add: is_digit_alt)
  have tw: "takeWhile is_digit (pad 3 n @ ''Z'') = pad 3 n"
    using pad_digits [of 3 n] z by (simp add: takeWhile_append list_all_iff)
  have dv: "dec_val (pad 3 n) = n" using n by (intro dec_val_pad) simp
  have "is_digit (digit_char (n div 10 div 10 mod 10))" by (rule is_digit_digit_char) simp
  then have "parse_frac (''.'' @ pad 3 n @ ''Z'') =
      (let ds = takeWhile is_digit (pad 3 n @ ''Z''); k = take 9 ds
       in (dec_val k * 10 ^ (9 - length k), drop (length ds) (pad 3 n @ ''Z'')))"
    by (simp add: parse_frac_def pad3)
  also have "\<dots> = (n * 1000000, ''Z'')" by (simp add: tw dv)
  finally show ?thesis .
qed

text \<open>Reading back a whole-second or a millisecond stamp gives its fields.\<close>

lemma parse_stamp:
  assumes v: "valid_time t" and ns: "parse_frac rest = (nat (tm_nsec t), ''Z'')" and r: "rest \<noteq> []"
  shows "parse_rfc3339nano (stamp_sec t @ rest) = Some t"
proof -
  note b = valid_field_bounds [OF v]
  have u: "parse_uint (pad 4 (nat (tm_year t))) 0 9999 = Some (nat (tm_year t))"
    "parse_uint (pad 2 (nat (tm_month t))) 1 12 = Some (nat (tm_month t))"
    "parse_uint (pad 2 (nat (tm_day t))) 1 (nat (days_in (tm_year t) (tm_month t))) = Some (nat (tm_day t))"
    "parse_uint (pad 2 (nat (tm_hour t))) 0 23 = Some (nat (tm_hour t))"
    "parse_uint (pad 2 (nat (tm_min t))) 0 59 = Some (nat (tm_min t))"
    "parse_uint (pad 2 (nat (tm_sec t))) 0 59 = Some (nat (tm_sec t))"
    using v b by (subst parse_uint_pad; auto simp: valid_time_def nat_less_iff)+
  have l: "length (stamp_sec t) = 19" by (simp add: stamp_sec_def)
  have ix: "(stamp_sec t @ rest) ! 4 = CHR ''-''" "(stamp_sec t @ rest) ! 7 = CHR ''-''"
    "(stamp_sec t @ rest) ! 10 = CHR ''T''" "(stamp_sec t @ rest) ! 13 = CHR '':''"
    "(stamp_sec t @ rest) ! 16 = CHR '':''"
    by (simp_all add: stamp_sec_def nth_append)
  have fl: "take 4 (stamp_sec t @ rest) = pad 4 (nat (tm_year t))"
    "take 2 (drop 5 (stamp_sec t @ rest)) = pad 2 (nat (tm_month t))"
    "take 2 (drop 8 (stamp_sec t @ rest)) = pad 2 (nat (tm_day t))"
    "take 2 (drop 11 (stamp_sec t @ rest)) = pad 2 (nat (tm_hour t))"
    "take 2 (drop 14 (stamp_sec t @ rest)) = pad 2 (nat (tm_min t))"
    "take 2 (drop 17 (stamp_sec t @ rest)) = pad 2 (nat (tm_sec t))"
    "drop 19 (stamp_sec t @ rest) = rest"
    by (simp_all add: stamp_sec_def)
  have ln: "\<not> length (stamp_sec t @ rest) < 20" using l r by (cases rest) auto
  show ?thesis
    unfolding parse_rfc3339nano_def fl ix
    using ns ln by (simp add: u b parse_zone_def del: One_nat_def)
qed

lemma parse_frac_Z: "parse_frac ''Z'' = (0, ''Z'')"
  by (simp add: parse_frac_def)

lemma msCutoff_seconds:
  assumes "valid_time t" "tm_nsec t = 0"
  shows "msCutoff (rfc3339 t) = TimeString t"
  using parse_stamp [OF assms(1), of "''Z''"] assms(2)
  by (simp add: msCutoff_def rfc3339_def parse_frac_Z)

lemma msCutoff_ms:
  assumes "valid_time t"
  shows "msCutoff (TimeString t) = TimeString t"
proof -
  let ?u = "t\<lparr>tm_nsec := tm_nsec t div 1000000 * 1000000\<rparr>"
  have bd: "0 \<le> tm_nsec t div 1000000" "tm_nsec t div 1000000 < 1000"
    using assms by (auto simp: valid_time_def)
  have v: "valid_time ?u"
    using assms bd by (auto simp: valid_time_def)
  have s: "TimeString ?u = TimeString t" "stamp_sec ?u = stamp_sec t"
    by (simp_all add: TimeString_def stamp_sec_def)
  have f: "parse_frac (''.'' @ pad 3 (nat (tm_nsec t div 1000000)) @ ''Z'') = (nat (tm_nsec ?u), ''Z'')"
    using parse_frac_ms [of "nat (tm_nsec t div 1000000)"] bd
    by (simp add: nat_mult_distrib)
  have "parse_rfc3339nano (TimeString t) = Some ?u"
    using parse_stamp [OF v f] s by (simp add: TimeString_def)
  with s show ?thesis by (simp add: msCutoff_def)
qed

text \<open>A whole-second cut-off compared as raw text overtakes its whole second: \<open>'.' < 'Z'\<close>.\<close>

lemma raw_second_cutoff_overtakes:
  assumes "stamp_sec t = stamp_sec u"
  shows "TimeString t < rfc3339 u"
  using assms by (simp add: TimeString_def rfc3339_def less_append_same_length less_char_def)

end
