(* ===== verification/Registry.thy ===== *)
theory Registry
  imports Regex Times
begin

text \<open>
  The registry (\<^verbatim>\<open>src/internal/registry/registry.go\<close>, \<^verbatim>\<open>actor.go\<close>, \<^verbatim>\<open>tokens.go\<close> and the tables,
  indexes, foreign keys and trigger of \<^verbatim>\<open>schema.go\<close> at version 15). The database is a record of
  tables, each a list of rows in insertion order; a registry method is a function on it that takes
  what the Go code reads from outside (the actor on the context, the time SQLite's
  \<open>strftime('now')\<close> returns, the random id of \<open>newID\<close>) as arguments. A transaction that fails
  rolls back, so an error carries no database. Constraint failures of SQLite (unique indexes,
  primary keys, foreign keys) are branches of the model; failures of the SQLite library itself
  (I/O errors, a busy lock that outlives its timeout) are not: such a call returns an error and
  leaves the file as it was. Where a query orders by a column that can hold ties the model keeps
  insertion order among them.
\<close>

section \<open>Data\<close>

datatype source_state = SourceSeeding | SourceReady | SourceFailed

datatype branch_state =
    BranchCreating | BranchReady | BranchFailed | BranchResetting | BranchDestroying | BranchDestroyed

fun source_state_str :: "source_state \<Rightarrow> string" where
  "source_state_str SourceSeeding = ''seeding''"
| "source_state_str SourceReady = ''ready''"
| "source_state_str SourceFailed = ''failed''"

fun branch_state_str :: "branch_state \<Rightarrow> string" where
  "branch_state_str BranchCreating = ''creating''"
| "branch_state_str BranchReady = ''ready''"
| "branch_state_str BranchFailed = ''failed''"
| "branch_state_str BranchResetting = ''resetting''"
| "branch_state_str BranchDestroying = ''destroying''"
| "branch_state_str BranchDestroyed = ''destroyed''"

datatype reg_error =
    ErrNotFound
  | notFound string string
  | ErrAlreadyExists string string string
  | illegalTransition string string string
  | ErrInvalidImage string
  | ErrUnsupportedPGVersion string
  | ErrInvalidTokenName string
  | ErrInvalidRole string
  | ErrConstraint string
  | Diverges
  | Wrapped string reg_error

text \<open>\<open>errors.Is(err, ErrNotFound)\<close> and \<open>errors.Is(err, ErrIllegalTransition)\<close>.\<close>

fun is_not_found :: "reg_error \<Rightarrow> bool" where
  "is_not_found ErrNotFound = True"
| "is_not_found (notFound k n) = True"
| "is_not_found (Wrapped m e) = is_not_found e"
| "is_not_found _ = False"

fun is_illegal_transition :: "reg_error \<Rightarrow> bool" where
  "is_illegal_transition (illegalTransition k f t) = True"
| "is_illegal_transition (Wrapped m e) = is_illegal_transition e"
| "is_illegal_transition _ = False"

record source =
  src_ID :: string
  src_Name :: string
  src_PGVersion :: string
  src_Volume :: string
  src_ConnHost :: string
  src_ConnUser :: string
  src_ConnDB :: string
  src_Network :: string
  src_SeedVia :: string
  src_DumpSchemas :: "string list"
  src_ConnPort :: int
  src_Generation :: nat
  src_State :: source_state
  src_CreatedAt :: string
  src_Image :: string

record branch =
  b_ID :: string
  b_Name :: string
  b_SourceID :: string
  b_ContainerID :: string
  b_RWVolume :: string
  b_SourceVolume :: string
  b_ExpiresAt :: string
  b_Host :: string
  b_BaseLayerID :: string
  b_ParentBranchName :: string
  b_Password :: string
  b_Port :: int
  b_State :: branch_state
  b_CreatedAt :: string
  b_PasswordUnavailable :: bool

record layer =
  lay_ID :: string
  lay_SourceID :: string
  lay_Volume :: string
  lay_ParentLayerID :: string

text \<open>Rows: the columns of \<^verbatim>\<open>schema.go\<close>; a nullable column is an \<open>option\<close>.\<close>

record source_row =
  sr_id :: string
  sr_name :: string
  sr_pg_version :: string
  sr_volume :: string
  sr_conn_host :: string
  sr_conn_port :: int
  sr_conn_user :: string
  sr_conn_db :: string
  sr_network :: string
  sr_seed_via :: string
  sr_dump_schemas :: string
  sr_state :: source_state
  sr_generation :: nat
  sr_created_at :: string
  sr_updated_at :: string
  sr_image :: string
  sr_pending_volume :: string

record branch_row =
  br_id :: string
  br_name :: string
  br_source_id :: string
  br_state :: branch_state
  br_container_id :: string
  br_rw_volume :: string
  br_source_volume :: string
  br_expires_at :: string
  br_host :: string
  br_base_layer_id :: "string option"
  br_parent_branch_name :: string
  br_password :: string
  br_port :: int
  br_created_at :: string
  br_updated_at :: string
  br_pending_volume :: string

record layer_row =
  l_id :: string
  l_source_id :: string
  l_volume :: string
  l_parent_layer_id :: "string option"

record transition_row =
  t_id :: nat
  t_entity :: string
  t_entity_id :: string
  t_from_state :: string
  t_to_state :: string
  t_reason :: string
  t_actor :: string
  t_at :: string
  t_entity_name :: string

record mask_row =
  m_source_id :: string
  m_ord :: nat
  m_name :: string
  m_sql :: string

record token_row =
  tk_id :: string
  tk_name :: string
  tk_token_hash :: string
  tk_role :: string
  tk_created_at :: string

record db =
  sources :: "source_row list"
  branches :: "branch_row list"
  layers :: "layer_row list"
  transitions :: "transition_row list"
  transitions_seq :: nat
  mask_scripts :: "mask_row list"
  api_tokens :: "token_row list"

definition empty_db :: db where
  "empty_db = \<lparr>sources = [], branches = [], layers = [], transitions = [], transitions_seq = 0,
     mask_scripts = [], api_tokens = []\<rparr>"

section \<open>Actors\<close>

record actor =
  act_Name :: string
  act_Role :: string

definition SystemActor :: string where
  "SystemActor = ''system:reconcile''"

definition LocalActorPrefix :: string where
  "LocalActorPrefix = ''local:''"

definition no_actor :: actor where
  "no_actor = \<lparr>act_Name = [], act_Role = []\<rparr>"

definition LocalActor :: "string \<Rightarrow> actor" where
  "LocalActor osUser =
     \<lparr>act_Name = LocalActorPrefix @ (if osUser = [] then ''unknown'' else osUser), act_Role = []\<rparr>"

definition Actor_String :: "actor \<Rightarrow> string" where
  "Actor_String a =
     (if act_Name a = [] then SystemActor
      else if act_Role a = [] then act_Name a
      else act_Name a @ '' ('' @ act_Role a @ '')'')"

section \<open>Validation\<close>

definition imageRefRe :: rx where
  "imageRefRe =
     (let w = rx_plus (Chars low_alnum); dash = Chars (\<lambda>c. c \<in> {CHR ''.'', CHR ''_'', CHR ''-''})
      in Seq w (Seq (Star (Seq dash w))
        (Seq (rx_opt (Seq (rx_lit '':'') (rx_plus (Chars is_digit))))
        (Seq (Star (Seq (rx_lit ''/'') (Seq w (Star (Seq (Seq dash (rx_opt dash)) w)))))
        (Seq (rx_opt (Seq (rx_lit '':'')
           (Seq (Chars (\<lambda>c. low_alnum c \<or> in_range (CHR ''A'') (CHR ''Z'') c \<or> c = CHR ''_''))
             (rx_upto 127 (Chars (\<lambda>c. low_alnum c \<or> in_range (CHR ''A'') (CHR ''Z'') c
                \<or> c \<in> {CHR ''_'', CHR ''.'', CHR ''-''}))))))
         (rx_opt (Seq (rx_lit ''@sha256:'')
           (rx_times 64 (Chars (\<lambda>c. in_range (CHR ''a'') (CHR ''f'') c \<or> is_digit c))))))))))"

definition validateImage :: "string \<Rightarrow> reg_error option" where
  "validateImage img =
     (if img = [] then None
      else if length img > 255 \<or> \<not> rx_match imageRefRe img then Some (ErrInvalidImage img)
      else None)"

definition supportedPGVersions :: "string list" where
  "supportedPGVersions = [''14'', ''15'', ''16'', ''17'', ''18'']"

definition validatePGVersion :: "string \<Rightarrow> reg_error option" where
  "validatePGVersion v =
     (if v = [] then None else if v \<in> set supportedPGVersions then None
      else Some (ErrUnsupportedPGVersion v))"

section \<open>State machines\<close>

fun legalSource :: "source_state \<Rightarrow> source_state list" where
  "legalSource SourceSeeding = [SourceReady, SourceFailed]"
| "legalSource _ = []"

fun legalBranch :: "branch_state \<Rightarrow> branch_state list" where
  "legalBranch BranchCreating = [BranchReady, BranchFailed]"
| "legalBranch BranchReady = [BranchDestroying, BranchResetting]"
| "legalBranch BranchResetting = [BranchReady, BranchFailed]"
| "legalBranch BranchFailed = [BranchResetting, BranchDestroying]"
| "legalBranch BranchDestroying = [BranchDestroyed]"
| "legalBranch BranchDestroyed = []"

definition legalBranchTransition :: "branch_state \<Rightarrow> branch_state \<Rightarrow> bool" where
  "legalBranchTransition from to \<longleftrightarrow> to \<in> set (legalBranch from)"

section \<open>Journal\<close>

definition journalTx ::
  "actor \<Rightarrow> string \<Rightarrow> string \<Rightarrow> string \<Rightarrow> string \<Rightarrow> string \<Rightarrow> string \<Rightarrow> db \<Rightarrow> db" where
  "journalTx a now entity eid from to reason d =
     d\<lparr>transitions_seq := Suc (transitions_seq d),
       transitions := transitions d @
         [\<lparr>t_id = Suc (transitions_seq d), t_entity = entity, t_entity_id = eid, t_from_state = from,
           t_to_state = to, t_reason = reason, t_actor = Actor_String a, t_at = now,
           t_entity_name = []\<rparr>]\<rparr>"

section \<open>Sources\<close>

definition nullable_str :: "string \<Rightarrow> string option" where
  "nullable_str s = (if s = [] then None else Some s)"

definition null_string :: "string option \<Rightarrow> string" where
  "null_string s = (case s of None \<Rightarrow> [] | Some x \<Rightarrow> x)"

definition deleteFailedSources :: "string \<Rightarrow> db \<Rightarrow> (reg_error, nat \<times> db) result" where
  "deleteFailedSources name d =
     (let gone = (\<lambda>s. sr_name s = name \<and> sr_state s = SourceFailed);
          ids = map sr_id (filter gone (sources d));
          d' = d\<lparr>mask_scripts := filter (\<lambda>m. m_source_id m \<notin> set ids) (mask_scripts d),
                 sources := filter (\<lambda>s. \<not> gone s) (sources d)\<rparr>
      in if \<exists>b \<in> set (branches d). br_source_id b \<in> set ids \<and> br_source_id b \<notin> set (map sr_id (sources d'))
         then Inl (ErrConstraint ''FOREIGN KEY'')
         else Inr (count_where gone (sources d), d'))"

definition DeleteFailedSources :: "string \<Rightarrow> db \<Rightarrow> (reg_error, nat \<times> db) result" where
  "DeleteFailedSources name d = deleteFailedSources name d"

definition insert_source :: "source \<Rightarrow> string \<Rightarrow> source_row" where
  "insert_source s now =
     \<lparr>sr_id = src_ID s, sr_name = src_Name s, sr_pg_version = src_PGVersion s,
      sr_volume = src_Volume s, sr_conn_host = src_ConnHost s, sr_conn_port = src_ConnPort s,
      sr_conn_user = src_ConnUser s, sr_conn_db = src_ConnDB s, sr_network = src_Network s,
      sr_seed_via = src_SeedVia s, sr_dump_schemas = join_with '','' (src_DumpSchemas s),
      sr_state = src_State s, sr_generation = 1, sr_created_at = now, sr_updated_at = now,
      sr_image = src_Image s, sr_pending_volume = []\<rparr>"

definition CreateSourceCtx ::
  "actor \<Rightarrow> string \<Rightarrow> string \<Rightarrow> source \<Rightarrow> db \<Rightarrow> (reg_error, source \<times> db) result" where
  "CreateSourceCtx a now newID s0 d =
     (case validatePGVersion (src_PGVersion s0) of Some e \<Rightarrow> Inl e | None \<Rightarrow>
     (case validateImage (src_Image s0) of Some e \<Rightarrow> Inl e | None \<Rightarrow>
      (let s = s0\<lparr>src_SeedVia := (if src_SeedVia s0 = [] then ''basebackup'' else src_SeedVia s0),
                 src_ID := newID, src_State := SourceSeeding\<rparr>
       in case deleteFailedSources (src_Name s) d of
            Inl e \<Rightarrow> Inl (Wrapped (''create source '' @ src_Name s) e)
          | Inr (n, d1) \<Rightarrow>
              if \<exists>x \<in> set (sources d1). sr_id x = newID
              then Inl (Wrapped (''create source '' @ src_Name s) (ErrConstraint ''PRIMARY KEY''))
              else (case find (\<lambda>x. sr_name x = src_Name s \<and> sr_state x \<noteq> SourceFailed) (sources d1) of
                 Some x \<Rightarrow> Inl (ErrAlreadyExists ''source'' (src_Name s) (source_state_str (sr_state x)))
               | None \<Rightarrow>
                   Inr (s, journalTx a now ''source'' newID [] (source_state_str SourceSeeding) ''created''
                          (d1\<lparr>sources := sources d1 @ [insert_source s now]\<rparr>))))))"

definition SetSourceStateCtx ::
  "actor \<Rightarrow> string \<Rightarrow> string \<Rightarrow> source_state \<Rightarrow> string \<Rightarrow> db \<Rightarrow> (reg_error, db) result" where
  "SetSourceStateCtx a now eid to reason d =
     (case find (\<lambda>s. sr_id s = eid) (sources d) of None \<Rightarrow> Inl ErrNotFound
      | Some s \<Rightarrow>
          (let from = sr_state s; hit = (\<lambda>x. sr_id x = eid \<and> sr_state x = from)
           in if to \<notin> set (legalSource from)
              then Inl (illegalTransition ''source'' (source_state_str from) (source_state_str to))
              else if count_where hit (sources d) = 0
              then Inl (illegalTransition ''source'' (source_state_str from) (source_state_str to))
              else Inr (journalTx a now ''source'' eid (source_state_str from) (source_state_str to) reason
                (d\<lparr>sources := upd_where hit (\<lambda>x. x\<lparr>sr_state := to, sr_updated_at := now\<rparr>) (sources d)\<rparr>))))"

definition scanSource :: "source_row \<Rightarrow> source" where
  "scanSource r =
     \<lparr>src_ID = sr_id r, src_Name = sr_name r, src_PGVersion = sr_pg_version r, src_Volume = sr_volume r,
      src_ConnHost = sr_conn_host r, src_ConnUser = sr_conn_user r, src_ConnDB = sr_conn_db r,
      src_Network = sr_network r, src_SeedVia = sr_seed_via r,
      src_DumpSchemas = (if sr_dump_schemas r = [] then [] else split_on (CHR '','') (sr_dump_schemas r)),
      src_ConnPort = sr_conn_port r, src_Generation = sr_generation r, src_State = sr_state r,
      src_CreatedAt = sr_created_at r, src_Image = sr_image r\<rparr>"

text \<open>\<open>ORDER BY created_at DESC LIMIT 1\<close>.\<close>

fun latest :: "source_row list \<Rightarrow> source_row option" where
  "latest [] = None"
| "latest (r # rs) =
     (case latest rs of None \<Rightarrow> Some r
      | Some q \<Rightarrow> if sr_created_at r < sr_created_at q then Some q else Some r)"

definition GetSourceByName :: "string \<Rightarrow> db \<Rightarrow> (reg_error, source) result" where
  "GetSourceByName name d =
     (let named = filter (\<lambda>s. sr_name s = name) (sources d);
          live = filter (\<lambda>s. sr_state s \<noteq> SourceFailed) named
      in case latest (if live \<noteq> [] then live else named) of
           None \<Rightarrow> Inl (notFound ''source'' name)
         | Some r \<Rightarrow> Inr (scanSource r))"

definition GetSourceByID :: "string \<Rightarrow> db \<Rightarrow> (reg_error, source) result" where
  "GetSourceByID eid d =
     (case find (\<lambda>s. sr_id s = eid) (sources d) of None \<Rightarrow> Inl ErrNotFound | Some r \<Rightarrow> Inr (scanSource r))"

definition ListSources :: "db \<Rightarrow> source list" where
  "ListSources d = map scanSource (sort_key sr_created_at (sources d))"

definition BumpSourceGenerationCtx ::
  "actor \<Rightarrow> string \<Rightarrow> string \<Rightarrow> string \<Rightarrow> db \<Rightarrow> (reg_error, db) result" where
  "BumpSourceGenerationCtx a now eid newVolume d =
     (let d1 = d\<lparr>sources := upd_where (\<lambda>s. sr_id s = eid)
                 (\<lambda>s. s\<lparr>sr_generation := sr_generation s + 1, sr_volume := newVolume,
                        sr_pending_volume := [], sr_updated_at := now\<rparr>) (sources d)\<rparr>
      in case find (\<lambda>s. sr_id s = eid) (sources d1) of None \<Rightarrow> Inl ErrNotFound
         | Some s \<Rightarrow>
             Inr (journalTx a now ''source'' eid (source_state_str (sr_state s)) (source_state_str (sr_state s))
               (''refreshed to generation '' @ nat_dec (sr_generation s) @ '' ('' @ newVolume @ '')'') d1))"

definition SetSourcePendingVolume :: "string \<Rightarrow> string \<Rightarrow> db \<Rightarrow> (reg_error, db) result" where
  "SetSourcePendingVolume eid volume d =
     (if count_where (\<lambda>s. sr_id s = eid) (sources d) = 0 then Inl ErrNotFound
      else Inr (d\<lparr>sources := upd_where (\<lambda>s. sr_id s = eid) (\<lambda>s. s\<lparr>sr_pending_volume := volume\<rparr>) (sources d)\<rparr>))"

definition TouchSource :: "string \<Rightarrow> string \<Rightarrow> db \<Rightarrow> db" where
  "TouchSource now eid d =
     d\<lparr>sources := upd_where (\<lambda>s. sr_id s = eid) (\<lambda>s. s\<lparr>sr_updated_at := now\<rparr>) (sources d)\<rparr>"

definition stuck_source :: "string \<Rightarrow> source_row \<Rightarrow> bool" where
  "stuck_source before s \<longleftrightarrow> sr_state s = SourceSeeding \<and> sr_updated_at s < msCutoff before"

definition ListStuckSources :: "string \<Rightarrow> db \<Rightarrow> source list" where
  "ListStuckSources before d = map scanSource (sort_key sr_created_at (filter (stuck_source before) (sources d)))"

definition FailStuckSource ::
  "actor \<Rightarrow> string \<Rightarrow> string \<Rightarrow> string \<Rightarrow> string \<Rightarrow> db \<Rightarrow> bool \<times> db" where
  "FailStuckSource a now eid before reason d =
     (let hit = (\<lambda>s. sr_id s = eid \<and> stuck_source before s)
      in if count_where hit (sources d) \<noteq> 1 then (False, d)
         else (True, journalTx a now ''source'' eid (source_state_str SourceSeeding) (source_state_str SourceFailed) reason
           (d\<lparr>sources := upd_where hit (\<lambda>s. s\<lparr>sr_state := SourceFailed, sr_updated_at := now\<rparr>) (sources d)\<rparr>)))"

section \<open>Branches\<close>

text \<open>
  Every \<open>UPDATE ... SET state\<close> runs the trigger \<open>branches_destroyed_forget_password\<close> of
  \<^verbatim>\<open>migrateV15\<close>: a branch that enters \<open>destroyed\<close> loses its password.
\<close>

definition set_branch_state :: "branch_state \<Rightarrow> branch_row \<Rightarrow> branch_row" where
  "set_branch_state to r =
     (let r' = r\<lparr>br_state := to\<rparr>
      in if to = BranchDestroyed \<and> br_password r' \<noteq> [] then r'\<lparr>br_password := []\<rparr> else r')"

definition live_branch :: "branch_row \<Rightarrow> bool" where
  "live_branch r \<longleftrightarrow> br_state r \<noteq> BranchDestroyed"

definition insert_branch :: "branch \<Rightarrow> string \<Rightarrow> branch_row" where
  "insert_branch b now =
     \<lparr>br_id = b_ID b, br_name = b_Name b, br_source_id = b_SourceID b, br_state = b_State b,
      br_container_id = [], br_rw_volume = b_RWVolume b, br_source_volume = b_SourceVolume b,
      br_expires_at = b_ExpiresAt b, br_host = ''127.0.0.1'',
      br_base_layer_id = nullable_str (b_BaseLayerID b),
      br_parent_branch_name = b_ParentBranchName b, br_password = [], br_port = 0,
      br_created_at = now, br_updated_at = now, br_pending_volume = []\<rparr>"

definition CreateBranchCtx ::
  "actor \<Rightarrow> string \<Rightarrow> string \<Rightarrow> branch \<Rightarrow> db \<Rightarrow> (reg_error, branch \<times> db) result" where
  "CreateBranchCtx a now newID b0 d =
     (let b = b0\<lparr>b_ID := newID, b_State := BranchCreating\<rparr>
      in if \<exists>x \<in> set (branches d). br_id x = newID
         then Inl (Wrapped (''create branch '' @ b_Name b) (ErrConstraint ''PRIMARY KEY''))
         else (case find (\<lambda>x. br_name x = b_Name b \<and> live_branch x) (branches d) of
            Some x \<Rightarrow> Inl (ErrAlreadyExists ''branch'' (b_Name b) (branch_state_str (br_state x)))
          | None \<Rightarrow>
              if b_SourceID b \<notin> set (map sr_id (sources d))
              then Inl (Wrapped (''create branch '' @ b_Name b) (ErrConstraint ''FOREIGN KEY''))
              else Inr (b, journalTx a now ''branch'' newID [] (branch_state_str BranchCreating) ''created''
                     (d\<lparr>branches := branches d @ [insert_branch b now]\<rparr>))))"

definition transitionBranch ::
  "actor \<Rightarrow> string \<Rightarrow> string \<Rightarrow> branch_state \<Rightarrow> string \<Rightarrow> (branch_row \<Rightarrow> branch_row) \<Rightarrow> db
     \<Rightarrow> (reg_error, db) result" where
  "transitionBranch a now eid to reason set_cols d =
     (case find (\<lambda>r. br_id r = eid) (branches d) of None \<Rightarrow> Inl ErrNotFound
      | Some r \<Rightarrow>
          (let from = br_state r; hit = (\<lambda>x. br_id x = eid \<and> br_state x = from)
           in if \<not> legalBranchTransition from to
              then Inl (illegalTransition ''branch'' (branch_state_str from) (branch_state_str to))
              else if count_where hit (branches d) = 0
              then (case find (\<lambda>r. br_id r = eid) (branches d) of None \<Rightarrow> Inl ErrNotFound
                    | Some cur \<Rightarrow> Inl (illegalTransition ''branch'' (branch_state_str (br_state cur)) (branch_state_str to)))
              else Inr (journalTx a now ''branch'' eid (branch_state_str from) (branch_state_str to) reason
                (d\<lparr>branches := upd_where hit
                     (\<lambda>x. (set_branch_state to (set_cols x))\<lparr>br_updated_at := now\<rparr>) (branches d)\<rparr>))))"

definition TransitionBranchCtx ::
  "actor \<Rightarrow> string \<Rightarrow> string \<Rightarrow> branch_state \<Rightarrow> string \<Rightarrow> db \<Rightarrow> (reg_error, db) result" where
  "TransitionBranchCtx a now eid to reason d = transitionBranch a now eid to reason (\<lambda>r. r) d"

definition MarkBranchReadyCtx ::
  "actor \<Rightarrow> string \<Rightarrow> string \<Rightarrow> string \<Rightarrow> string \<Rightarrow> int \<Rightarrow> db \<Rightarrow> (reg_error, db) result" where
  "MarkBranchReadyCtx a now eid containerID host port d =
     transitionBranch a now eid BranchReady ''instance running''
       (\<lambda>r. r\<lparr>br_container_id := containerID, br_host := host, br_port := port\<rparr>) d"

text \<open>\<open>SetBranchPassword\<close> after encryption: \<open>stored\<close> is what \<open>secretBox.encrypt\<close> returned.\<close>

definition store_branch_password :: "string \<Rightarrow> string \<Rightarrow> string \<Rightarrow> db \<Rightarrow> (reg_error, db) result" where
  "store_branch_password now eid stored d =
     (if count_where (\<lambda>r. br_id r = eid) (branches d) = 0 then Inl ErrNotFound
      else Inr (d\<lparr>branches := upd_where (\<lambda>r. br_id r = eid)
             (\<lambda>r. r\<lparr>br_password := stored, br_updated_at := now\<rparr>) (branches d)\<rparr>))"

definition SetBranchContainer :: "string \<Rightarrow> string \<Rightarrow> string \<Rightarrow> db \<Rightarrow> db" where
  "SetBranchContainer now eid containerID d =
     d\<lparr>branches := upd_where (\<lambda>r. br_id r = eid)
        (\<lambda>r. r\<lparr>br_container_id := containerID, br_updated_at := now\<rparr>) (branches d)\<rparr>"

definition TouchBranch :: "string \<Rightarrow> string \<Rightarrow> db \<Rightarrow> db" where
  "TouchBranch now eid d =
     d\<lparr>branches := upd_where (\<lambda>r. br_id r = eid) (\<lambda>r. r\<lparr>br_updated_at := now\<rparr>) (branches d)\<rparr>"

text \<open>
  \<open>scanBranch\<close> decrypts the password on the way out; \<open>dec\<close> is the registry's
  \<open>secretBox.decrypt\<close>, \<open>None\<close> when no configured key opens the value.
\<close>

definition scanBranch :: "(string \<Rightarrow> string option) \<Rightarrow> branch_row \<Rightarrow> branch" where
  "scanBranch dec r =
     \<lparr>b_ID = br_id r, b_Name = br_name r, b_SourceID = br_source_id r, b_ContainerID = br_container_id r,
      b_RWVolume = br_rw_volume r, b_SourceVolume = br_source_volume r, b_ExpiresAt = br_expires_at r,
      b_Host = br_host r, b_BaseLayerID = null_string (br_base_layer_id r),
      b_ParentBranchName = br_parent_branch_name r,
      b_Password = (case dec (br_password r) of None \<Rightarrow> [] | Some pw \<Rightarrow> pw),
      b_Port = br_port r, b_State = br_state r, b_CreatedAt = br_created_at r,
      b_PasswordUnavailable = (dec (br_password r) = None)\<rparr>"

definition getBranch :: "(string \<Rightarrow> string option) \<Rightarrow> (branch_row \<Rightarrow> bool) \<Rightarrow> db \<Rightarrow> (reg_error, branch) result" where
  "getBranch dec wh d =
     (case find wh (branches d) of None \<Rightarrow> Inl ErrNotFound | Some r \<Rightarrow> Inr (scanBranch dec r))"

definition GetBranchByName :: "(string \<Rightarrow> string option) \<Rightarrow> string \<Rightarrow> db \<Rightarrow> (reg_error, branch) result" where
  "GetBranchByName dec name d =
     (case getBranch dec (\<lambda>r. br_name r = name \<and> live_branch r) d of
        Inl e \<Rightarrow> Inl (if is_not_found e then notFound ''branch'' name else e)
      | Inr b \<Rightarrow> Inr b)"

definition GetBranchByID :: "(string \<Rightarrow> string option) \<Rightarrow> string \<Rightarrow> db \<Rightarrow> (reg_error, branch) result" where
  "GetBranchByID dec eid d = getBranch dec (\<lambda>r. br_id r = eid) d"

definition NoteBranchCtx :: "actor \<Rightarrow> string \<Rightarrow> string \<Rightarrow> string \<Rightarrow> db \<Rightarrow> (reg_error, db) result" where
  "NoteBranchCtx a now eid reason d =
     (case find (\<lambda>r. br_id r = eid) (branches d) of None \<Rightarrow> Inl ErrNotFound
      | Some r \<Rightarrow> Inr (journalTx a now ''branch'' eid (branch_state_str (br_state r)) (branch_state_str (br_state r)) reason
          (TouchBranch now eid d)))"

definition listBranches :: "(string \<Rightarrow> string option) \<Rightarrow> (branch_row \<Rightarrow> bool) \<Rightarrow> db \<Rightarrow> branch list" where
  "listBranches dec wh d = map (scanBranch dec) (sort_key br_created_at (filter wh (branches d)))"

definition ListLiveBranches :: "(string \<Rightarrow> string option) \<Rightarrow> db \<Rightarrow> branch list" where
  "ListLiveBranches dec d = listBranches dec live_branch d"

definition ListExpiredBranches :: "(string \<Rightarrow> string option) \<Rightarrow> string \<Rightarrow> db \<Rightarrow> branch list" where
  "ListExpiredBranches dec now d =
     listBranches dec (\<lambda>r. br_state r \<in> {BranchReady, BranchFailed} \<and> br_expires_at r \<noteq> [] \<and> br_expires_at r < now) d"

definition stuck_branch :: "string \<Rightarrow> branch_row \<Rightarrow> bool" where
  "stuck_branch before r \<longleftrightarrow> br_state r \<in> {BranchCreating, BranchResetting} \<and> br_updated_at r < msCutoff before"

definition ListStuckBranches :: "(string \<Rightarrow> string option) \<Rightarrow> string \<Rightarrow> db \<Rightarrow> branch list" where
  "ListStuckBranches dec before d = listBranches dec (stuck_branch before) d"

definition ListStuckDestroyingBranches :: "(string \<Rightarrow> string option) \<Rightarrow> string \<Rightarrow> db \<Rightarrow> branch list" where
  "ListStuckDestroyingBranches dec before d =
     listBranches dec (\<lambda>r. br_state r = BranchDestroying \<and> br_updated_at r < msCutoff before) d"

definition VolumeNameUsed :: "string \<Rightarrow> db \<Rightarrow> bool" where
  "VolumeNameUsed v d \<longleftrightarrow>
     list_ex (\<lambda>r. br_rw_volume r = v) (branches d) \<or> list_ex (\<lambda>r. br_source_volume r = v) (branches d)
     \<or> list_ex (\<lambda>r. br_pending_volume r = v) (branches d) \<or> list_ex (\<lambda>l. l_volume l = v) (layers d)
     \<or> list_ex (\<lambda>s. sr_volume s = v) (sources d) \<or> list_ex (\<lambda>s. sr_pending_volume s = v) (sources d)"

definition LiveVolumeSet :: "db \<Rightarrow> string set" where
  "LiveVolumeSet d =
     set (map br_rw_volume (filter live_branch (branches d))
        @ map br_source_volume (filter live_branch (branches d))
        @ map sr_volume (sources d) @ map l_volume (layers d)
        @ map br_pending_volume (filter (\<lambda>r. br_state r \<in> {BranchCreating, BranchResetting}) (branches d))
        @ map sr_pending_volume (sources d)) - {[]}"

definition SetBranchPendingVolume :: "string \<Rightarrow> string \<Rightarrow> db \<Rightarrow> (reg_error, db) result" where
  "SetBranchPendingVolume eid volume d =
     (if count_where (\<lambda>r. br_id r = eid) (branches d) = 0 then Inl ErrNotFound
      else Inr (d\<lparr>branches := upd_where (\<lambda>r. br_id r = eid) (\<lambda>r. r\<lparr>br_pending_volume := volume\<rparr>) (branches d)\<rparr>))"

section \<open>History\<close>

record transition =
  tr_FromState :: string
  tr_ToState :: string
  tr_Reason :: string
  tr_Actor :: string
  tr_At :: string

definition scan_transition :: "transition_row \<Rightarrow> transition" where
  "scan_transition t = \<lparr>tr_FromState = t_from_state t, tr_ToState = t_to_state t, tr_Reason = t_reason t,
     tr_Actor = t_actor t, tr_At = t_at t\<rparr>"

definition in_history :: "string \<Rightarrow> db \<Rightarrow> transition_row \<Rightarrow> bool" where
  "in_history name d t \<longleftrightarrow> t_entity t = ''branch'' \<and>
     (t_entity_id t \<in> set (map br_id (filter (\<lambda>r. br_name r = name) (branches d)))
      \<or> (t_entity_name t \<noteq> [] \<and> t_entity_name t = name))"

definition BranchHistory :: "string \<Rightarrow> db \<Rightarrow> (reg_error, transition list) result" where
  "BranchHistory name d =
     (case map scan_transition (sort_key t_id (filter (in_history name d) (transitions d))) of
        [] \<Rightarrow> Inl (notFound ''branch'' name)
      | out \<Rightarrow> Inr out)"

section \<open>Masking scripts\<close>

definition SetMaskScripts :: "string \<Rightarrow> (string \<times> string) list \<Rightarrow> db \<Rightarrow> db" where
  "SetMaskScripts sourceID scripts d =
     d\<lparr>mask_scripts := filter (\<lambda>m. m_source_id m \<noteq> sourceID) (mask_scripts d)
        @ map (\<lambda>(i, n, s). \<lparr>m_source_id = sourceID, m_ord = i, m_name = n, m_sql = s\<rparr>) (enumerate 0 scripts)\<rparr>"

definition GetMaskScripts :: "string \<Rightarrow> db \<Rightarrow> (string \<times> string) list" where
  "GetMaskScripts sourceID d =
     map (\<lambda>m. (m_name m, m_sql m)) (sort_key m_ord (filter (\<lambda>m. m_source_id m = sourceID) (mask_scripts d)))"

section \<open>Counting\<close>

definition CountLiveBranches :: "db \<Rightarrow> nat" where
  "CountLiveBranches d = count_where live_branch (branches d)"

definition CountLiveBranchesBySource :: "string \<Rightarrow> db \<Rightarrow> nat" where
  "CountLiveBranchesBySource sourceID d = count_where (\<lambda>r. br_source_id r = sourceID \<and> live_branch r) (branches d)"

definition CountLiveBranchesByVolume :: "string \<Rightarrow> db \<Rightarrow> nat" where
  "CountLiveBranchesByVolume v d = count_where (\<lambda>r. br_source_volume r = v \<and> live_branch r) (branches d)"

definition CountLiveBranchesByRWVolume :: "string \<Rightarrow> db \<Rightarrow> nat" where
  "CountLiveBranchesByRWVolume v d = count_where (\<lambda>r. br_rw_volume r = v \<and> live_branch r) (branches d)"

definition CountLiveBranchesReferencingRW :: "string \<Rightarrow> string \<Rightarrow> db \<Rightarrow> nat" where
  "CountLiveBranchesReferencingRW branchName rwVolume d =
     count_where (\<lambda>r. live_branch r \<and> br_name r \<noteq> branchName \<and>
        (br_source_volume r = rwVolume \<or> (br_parent_branch_name r = branchName \<and> br_base_layer_id r = None)))
       (branches d)"

definition InFlightChildren :: "string \<Rightarrow> db \<Rightarrow> string list" where
  "InFlightChildren name d =
     map br_name (sort_key br_created_at
       (filter (\<lambda>r. br_state r = BranchCreating \<and> br_parent_branch_name r = name) (branches d)))"

section \<open>Layers\<close>

definition has_layer :: "string option \<Rightarrow> layer_row list \<Rightarrow> bool" where
  "has_layer p ls \<longleftrightarrow> (case p of None \<Rightarrow> True | Some i \<Rightarrow> i \<in> set (map l_id ls))"

definition CreateLayer :: "string \<Rightarrow> layer \<Rightarrow> db \<Rightarrow> (reg_error, layer \<times> db) result" where
  "CreateLayer newID l0 d =
     (let l = l0\<lparr>lay_ID := newID\<rparr>;
          row = \<lparr>l_id = newID, l_source_id = lay_SourceID l, l_volume = lay_Volume l,
                 l_parent_layer_id = nullable_str (lay_ParentLayerID l)\<rparr>
      in if newID \<in> set (map l_id (layers d)) \<or> \<not> has_layer (l_parent_layer_id row) (layers d @ [row])
         then Inl (Wrapped (''create layer for volume '' @ lay_Volume l) (ErrConstraint ''layers''))
         else Inr (l, d\<lparr>layers := layers d @ [row]\<rparr>))"

definition scanLayer :: "layer_row \<Rightarrow> layer" where
  "scanLayer r = \<lparr>lay_ID = l_id r, lay_SourceID = l_source_id r, lay_Volume = l_volume r,
     lay_ParentLayerID = null_string (l_parent_layer_id r)\<rparr>"

definition GetLayer :: "string \<Rightarrow> db \<Rightarrow> (reg_error, layer) result" where
  "GetLayer eid d =
     (case find (\<lambda>l. l_id l = eid) (layers d) of None \<Rightarrow> Inl ErrNotFound | Some l \<Rightarrow> Inr (scanLayer l))"

definition DeleteLayer :: "string \<Rightarrow> db \<Rightarrow> (reg_error, db) result" where
  "DeleteLayer eid d =
     (let rest = filter (\<lambda>l. l_id l \<noteq> eid) (layers d)
      in if \<exists>l \<in> set rest. l_parent_layer_id l = Some eid then Inl (ErrConstraint ''FOREIGN KEY'')
         else if count_where (\<lambda>l. l_id l = eid) (layers d) = 0 then Inl ErrNotFound
         else Inr (d\<lparr>layers := rest\<rparr>))"

definition ListLayers :: "db \<Rightarrow> layer list" where
  "ListLayers d = map scanLayer (layers d)"

definition ListLayersBySource :: "string \<Rightarrow> db \<Rightarrow> layer list" where
  "ListLayersBySource sourceID d = map scanLayer (filter (\<lambda>l. l_source_id l = sourceID) (layers d))"

text \<open>
  The loop of \<open>LayerChain\<close>. \<open>Diverges\<close> stands for a walk that finds more layers than the table
  holds, which means it is inside a cycle and the Go loop does not end.
\<close>

fun layer_walk :: "nat \<Rightarrow> string \<Rightarrow> db \<Rightarrow> (reg_error, layer list) result" where
  "layer_walk 0 eid d = (if eid = [] then Inr [] else Inl Diverges)"
| "layer_walk (Suc n) eid d =
     (if eid = [] then Inr []
      else (case GetLayer eid d of
              Inl e \<Rightarrow> Inl (Wrapped (''layer '' @ eid) e)
            | Inr l \<Rightarrow> (case layer_walk n (lay_ParentLayerID l) d of
                 Inl e \<Rightarrow> Inl e | Inr ls \<Rightarrow> Inr (l # ls))))"

definition LayerChain :: "string \<Rightarrow> db \<Rightarrow> (reg_error, layer list) result" where
  "LayerChain branchID d =
     (case getBranch Some (\<lambda>r. br_id r = branchID) d of Inl e \<Rightarrow> Inl e
      | Inr b \<Rightarrow> layer_walk (Suc (length (layers d))) (b_BaseLayerID b) d)"

text \<open>
  The recursive query of \<open>CountBranchesReferencingLayer\<close>: per live branch, its base layer and then
  parent after parent. A row of the query never changes its branch eid and \<open>layers.eid\<close> is the
  primary key, so each branch contributes one sequence; \<open>UNION\<close> drops repetitions, and a sequence
  of more rows than there are layers (plus the base itself) holds nothing new.
\<close>

fun layer_refs :: "nat \<Rightarrow> string \<Rightarrow> layer_row list \<Rightarrow> string list" where
  "layer_refs 0 eid ls = [eid]"
| "layer_refs (Suc n) eid ls =
     eid # (case find (\<lambda>l. l_id l = eid) ls of None \<Rightarrow> []
           | Some l \<Rightarrow> (case l_parent_layer_id l of None \<Rightarrow> [] | Some p \<Rightarrow> layer_refs n p ls))"

definition references_layer :: "string \<Rightarrow> db \<Rightarrow> branch_row \<Rightarrow> bool" where
  "references_layer layerID d r \<longleftrightarrow> live_branch r \<and>
     (case br_base_layer_id r of None \<Rightarrow> False
      | Some base \<Rightarrow> layerID \<in> set (layer_refs (length (layers d)) base (layers d)))"

definition CountBranchesReferencingLayer :: "string \<Rightarrow> db \<Rightarrow> nat" where
  "CountBranchesReferencingLayer layerID d =
     card (set (map br_id (filter (references_layer layerID d) (branches d))))"

definition CommitFreezeCtx ::
  "actor \<Rightarrow> string \<Rightarrow> string \<Rightarrow> string \<Rightarrow> string \<Rightarrow> string \<Rightarrow> string \<Rightarrow> string \<Rightarrow> string \<Rightarrow> int \<Rightarrow> string \<Rightarrow> db
     \<Rightarrow> (reg_error, layer \<times> db) result" where
  "CommitFreezeCtx a now newID parentID childID layerVolume newParentRW containerID host port reason d =
     (case find (\<lambda>r. br_id r = parentID) (branches d) of None \<Rightarrow> Inl ErrNotFound
      | Some p \<Rightarrow>
          if br_state p \<noteq> BranchResetting
          then Inl (Wrapped ''freeze commit requires a resetting parent''
                 (illegalTransition ''branch'' (branch_state_str (br_state p)) (branch_state_str BranchReady)))
          else
            (let row = \<lparr>l_id = newID, l_source_id = br_source_id p, l_volume = layerVolume,
                        l_parent_layer_id = nullable_str (null_string (br_base_layer_id p))\<rparr>
             in if newID \<in> set (map l_id (layers d)) \<or> \<not> has_layer (l_parent_layer_id row) (layers d @ [row])
                then Inl (ErrConstraint ''layers'')
                else
                  (let d1 = d\<lparr>layers := layers d @ [row],
                              branches := upd_where (\<lambda>r. br_id r = parentID)
                                (\<lambda>r. set_branch_state BranchReady
                                  (r\<lparr>br_rw_volume := newParentRW, br_base_layer_id := Some newID,
                                     br_container_id := containerID, br_host := host, br_port := port,
                                     br_pending_volume := [], br_updated_at := now\<rparr>)) (branches d)\<rparr>;
                       d2 = journalTx a now ''branch'' parentID (branch_state_str (br_state p))
                              (branch_state_str BranchReady) reason d1
                   in if count_where (\<lambda>r. br_id r = childID) (branches d2) = 0
                      then Inl (Wrapped ''freeze child branch'' ErrNotFound)
                      else Inr (scanLayer row,
                        d2\<lparr>branches := upd_where (\<lambda>r. br_id r = childID)
                             (\<lambda>r. r\<lparr>br_base_layer_id := Some newID, br_updated_at := now\<rparr>) (branches d2)\<rparr>))))"

section \<open>Removing a source\<close>

definition DeleteSourceCtx :: "actor \<Rightarrow> string \<Rightarrow> string \<Rightarrow> db \<Rightarrow> (reg_error, db) result" where
  "DeleteSourceCtx a now eid d =
     (case find (\<lambda>s. sr_id s = eid) (sources d) of None \<Rightarrow> Inl ErrNotFound
      | Some s \<Rightarrow>
          (let name = sr_name s; gone = filter (\<lambda>r. br_source_id r = eid) (branches d);
               stampB = (\<lambda>t. t_entity t = ''branch'' \<and> t_entity_id t \<in> set (map br_id gone));
               nameOf = (\<lambda>i. case find (\<lambda>r. br_id r = i) (branches d) of None \<Rightarrow> [] | Some r \<Rightarrow> br_name r);
               t1 = upd_where stampB (\<lambda>t. t\<lparr>t_entity_name := nameOf (t_entity_id t)\<rparr>) (transitions d);
               t2 = upd_where (\<lambda>t. t_entity t = ''source'' \<and> t_entity_id t = eid) (\<lambda>t. t\<lparr>t_entity_name := name\<rparr>) t1;
               row = \<lparr>t_id = Suc (transitions_seq d), t_entity = ''source'', t_entity_id = eid,
                      t_from_state = source_state_str (sr_state s), t_to_state = ''deleted'',
                      t_reason = ''source removed'', t_actor = Actor_String a, t_at = now, t_entity_name = name\<rparr>;
               d' = d\<lparr>transitions := t2 @ [row], transitions_seq := Suc (transitions_seq d),
                      layers := filter (\<lambda>l. l_source_id l \<noteq> eid) (layers d),
                      branches := filter (\<lambda>r. br_source_id r \<noteq> eid) (branches d),
                      mask_scripts := filter (\<lambda>m. m_source_id m \<noteq> eid) (mask_scripts d),
                      sources := filter (\<lambda>x. sr_id x \<noteq> eid) (sources d)\<rparr>
           in if \<exists>l \<in> set (layers d'). \<not> has_layer (l_parent_layer_id l) (layers d')
              then Inl (ErrConstraint ''FOREIGN KEY'') else Inr d'))"

section \<open>Reconcile support\<close>

definition at_endpoint :: "string \<Rightarrow> string \<Rightarrow> branch_row \<Rightarrow> bool" where
  "at_endpoint eid fromContainerID r \<longleftrightarrow>
     br_id r = eid \<and> br_state r = BranchReady \<and> br_container_id r = fromContainerID"

definition UpdateBranchEndpoint :: "string \<Rightarrow> string \<Rightarrow> string \<Rightarrow> string \<Rightarrow> int \<Rightarrow> db \<Rightarrow> bool \<times> db" where
  "UpdateBranchEndpoint eid fromContainerID containerID host port d =
     (count_where (at_endpoint eid fromContainerID) (branches d) = 1,
      d\<lparr>branches := upd_where (at_endpoint eid fromContainerID)
         (\<lambda>r. r\<lparr>br_container_id := containerID, br_host := host, br_port := port\<rparr>) (branches d)\<rparr>)"

definition UpdateBranchEndpointCtx ::
  "actor \<Rightarrow> string \<Rightarrow> string \<Rightarrow> string \<Rightarrow> string \<Rightarrow> string \<Rightarrow> int \<Rightarrow> string \<Rightarrow> db \<Rightarrow> bool \<times> db" where
  "UpdateBranchEndpointCtx a now eid fromContainerID containerID host port reason d =
     (if count_where (at_endpoint eid fromContainerID) (branches d) \<noteq> 1 then (False, d)
      else (True, journalTx a now ''branch'' eid (branch_state_str BranchReady) (branch_state_str BranchReady) reason
        (d\<lparr>branches := upd_where (at_endpoint eid fromContainerID)
           (\<lambda>r. r\<lparr>br_container_id := containerID, br_host := host, br_port := port, br_updated_at := now\<rparr>)
           (branches d)\<rparr>)))"

definition FailReadyBranch ::
  "actor \<Rightarrow> string \<Rightarrow> string \<Rightarrow> string \<Rightarrow> string \<Rightarrow> db \<Rightarrow> (reg_error, bool \<times> db) result" where
  "FailReadyBranch a now eid containerID reason d =
     (if \<not> legalBranchTransition BranchReady BranchResetting \<or> \<not> legalBranchTransition BranchResetting BranchFailed
      then Inl (illegalTransition ''branch'' (branch_state_str BranchReady) (branch_state_str BranchFailed))
      else if count_where (at_endpoint eid containerID) (branches d) \<noteq> 1 then Inr (False, d)
      else Inr (True,
        journalTx a now ''branch'' eid (branch_state_str BranchResetting) (branch_state_str BranchFailed) reason
        (journalTx a now ''branch'' eid (branch_state_str BranchReady) (branch_state_str BranchResetting) reason
          (d\<lparr>branches := upd_where (at_endpoint eid containerID)
             (\<lambda>r. (set_branch_state BranchFailed r)\<lparr>br_updated_at := now\<rparr>) (branches d)\<rparr>))))"

definition FailStuckBranch ::
  "actor \<Rightarrow> string \<Rightarrow> string \<Rightarrow> string \<Rightarrow> string \<Rightarrow> db \<Rightarrow> (reg_error, bool \<times> db) result" where
  "FailStuckBranch a now eid before reason d =
     (case find (\<lambda>r. br_id r = eid \<and> stuck_branch before r) (branches d) of None \<Rightarrow> Inr (False, d)
      | Some r \<Rightarrow>
          (let from = br_state r;
               hit = (\<lambda>x. br_id x = eid \<and> br_state x = from \<and> br_updated_at x < msCutoff before)
           in if \<not> legalBranchTransition from BranchFailed
              then Inl (illegalTransition ''branch'' (branch_state_str from) (branch_state_str BranchFailed))
              else if count_where hit (branches d) \<noteq> 1 then Inr (False, d)
              else Inr (True,
                journalTx a now ''branch'' eid (branch_state_str from) (branch_state_str BranchFailed) reason
                  (d\<lparr>branches := upd_where hit
                     (\<lambda>r. (set_branch_state BranchFailed r)\<lparr>br_updated_at := now\<rparr>) (branches d)\<rparr>))))"

section \<open>API tokens\<close>

definition ValidRole :: "string \<Rightarrow> bool" where
  "ValidRole role \<longleftrightarrow> role \<in> {''admin'', ''operator'', ''viewer''}"

definition EnvTokenActor :: string where
  "EnvTokenActor = ''root''"

definition tokenNameRE :: rx where
  "tokenNameRE = Seq (Chars low_alnum)
     (rx_upto 62 (Chars (\<lambda>c. low_alnum c \<or> c \<in> {CHR ''.'', CHR ''_'', CHR ''-''})))"

definition ValidateTokenName :: "string \<Rightarrow> reg_error option" where
  "ValidateTokenName name =
     (if \<not> rx_match tokenNameRE name then Some (ErrInvalidTokenName name)
      else if name = EnvTokenActor then Some (ErrInvalidTokenName name)
      else None)"

text \<open>\<open>hash\<close> is \<open>hashToken\<close> (SHA-256 in hex); \<open>plaintext\<close> the 32 hex digits drawn at random.\<close>

definition CreateAPIToken ::
  "(string \<Rightarrow> string) \<Rightarrow> string \<Rightarrow> string \<Rightarrow> string \<Rightarrow> string \<Rightarrow> string \<Rightarrow> db \<Rightarrow> (reg_error, string \<times> db) result" where
  "CreateAPIToken hash now newID plaintext name role d =
     (case ValidateTokenName name of Some e \<Rightarrow> Inl e
      | None \<Rightarrow>
          if \<not> ValidRole role then Inl (ErrInvalidRole role)
          else if \<exists>t \<in> set (api_tokens d). tk_id t = newID \<or> tk_name t = name \<or> tk_token_hash t = hash plaintext
          then Inl (Wrapped (''create api token '' @ name) (ErrConstraint ''UNIQUE constraint''))
          else Inr (plaintext, d\<lparr>api_tokens := api_tokens d @
             [\<lparr>tk_id = newID, tk_name = name, tk_token_hash = hash plaintext, tk_role = role, tk_created_at = now\<rparr>]\<rparr>))"

definition LookupAPITokenActor :: "(string \<Rightarrow> string) \<Rightarrow> string \<Rightarrow> db \<Rightarrow> (string \<times> string) option" where
  "LookupAPITokenActor hash plaintext d =
     (if plaintext = [] then None
      else map_option (\<lambda>t. (tk_name t, tk_role t)) (find (\<lambda>t. tk_token_hash t = hash plaintext) (api_tokens d)))"

definition LookupAPIToken :: "(string \<Rightarrow> string) \<Rightarrow> string \<Rightarrow> db \<Rightarrow> string option" where
  "LookupAPIToken hash plaintext d =
     (if plaintext = [] then None
      else map_option tk_role (find (\<lambda>t. tk_token_hash t = hash plaintext) (api_tokens d)))"

definition ListAPITokens :: "db \<Rightarrow> (string \<times> string \<times> string) list" where
  "ListAPITokens d = map (\<lambda>t. (tk_name t, tk_role t, tk_created_at t)) (sort_key tk_created_at (api_tokens d))"

definition RevokeAPIToken :: "string \<Rightarrow> db \<Rightarrow> (reg_error, db) result" where
  "RevokeAPIToken name d =
     (if count_where (\<lambda>t. tk_name t = name) (api_tokens d) = 0 then Inl ErrNotFound
      else Inr (d\<lparr>api_tokens := filter (\<lambda>t. tk_name t \<noteq> name) (api_tokens d)\<rparr>))"

end
