(* ===== verification/RegistryInv.thy ===== *)
theory RegistryInv
  imports Registry
begin

text \<open>
  The registry invariant. \<open>struct_ok\<close> is what the tables hold at any time: primary keys are
  unique, at most one live row bears a name, every branch has its source, layers form a forest
  whose parents were recorded earlier and belong to the same source, and the base layer of a live
  branch exists. \<open>journal_ok\<close> says that the audit journal is complete: read in order, the rows of a
  branch (or source) are a path of legal edges from the empty state to the state its row is in.
  \<open>reg_step\<close> is one committed registry call, with the conditions under which the engine makes it;
  both invariants hold in every reachable database.
\<close>

section \<open>The structural invariant\<close>

definition parent_ok :: "layer_row list \<Rightarrow> layer_row \<Rightarrow> bool" where
  "parent_ok seen l \<longleftrightarrow> l_id l \<noteq> [] \<and>
     (case l_parent_layer_id l of None \<Rightarrow> True
      | Some p \<Rightarrow> list_ex (\<lambda>q. l_id q = p \<and> l_source_id q = l_source_id l) seen)"

fun layers_ok :: "layer_row list \<Rightarrow> layer_row list \<Rightarrow> bool" where
  "layers_ok seen [] = True"
| "layers_ok seen (l # ls) = (parent_ok seen l \<and> layers_ok (seen @ [l]) ls)"

definition base_ok :: "layer_row list \<Rightarrow> branch_row \<Rightarrow> bool" where
  "base_ok ls r \<longleftrightarrow>
     (case br_base_layer_id r of None \<Rightarrow> True
      | Some i \<Rightarrow> list_ex (\<lambda>l. l_id l = i \<and> l_source_id l = br_source_id r) ls)"

definition live_source :: "source_row \<Rightarrow> bool" where
  "live_source s \<longleftrightarrow> sr_state s \<noteq> SourceFailed"

definition struct_ok :: "db \<Rightarrow> bool" where
  "struct_ok d \<longleftrightarrow>
     distinct (map sr_id (sources d)) \<and> distinct (map br_id (branches d)) \<and> distinct (map l_id (layers d))
     \<and> distinct (map sr_name (filter live_source (sources d)))
     \<and> distinct (map br_name (filter live_branch (branches d)))
     \<and> list_all (\<lambda>r. br_source_id r \<in> set (map sr_id (sources d))) (branches d)
     \<and> layers_ok [] (layers d)
     \<and> list_all (\<lambda>r. live_branch r \<longrightarrow> base_ok (layers d) r) (branches d)"

lemma struct_okI:
  assumes "distinct (map sr_id (sources d))" "distinct (map br_id (branches d))" "distinct (map l_id (layers d))"
    and "distinct (map sr_name (filter live_source (sources d)))"
    and "distinct (map br_name (filter live_branch (branches d)))"
    and "\<And>r. r \<in> set (branches d) \<Longrightarrow> br_source_id r \<in> sr_id ` set (sources d)"
    and "layers_ok [] (layers d)"
    and "\<And>r. r \<in> set (branches d) \<Longrightarrow> live_branch r \<Longrightarrow> base_ok (layers d) r"
  shows "struct_ok d"
  using assms by (simp add: struct_ok_def list_all_iff)

lemma struct_okD:
  assumes "struct_ok d"
  shows "distinct (map sr_id (sources d))" "distinct (map br_id (branches d))" "distinct (map l_id (layers d))"
    and "distinct (map sr_name (filter live_source (sources d)))"
    and "distinct (map br_name (filter live_branch (branches d)))"
    and "r \<in> set (branches d) \<Longrightarrow> br_source_id r \<in> sr_id ` set (sources d)"
    and "layers_ok [] (layers d)"
    and "r \<in> set (branches d) \<Longrightarrow> live_branch r \<Longrightarrow> base_ok (layers d) r"
  using assms by (simp_all add: struct_ok_def list_all_iff)

subsection \<open>Layer forests\<close>

lemma layers_ok_append:
  "layers_ok seen (ls @ ms) \<longleftrightarrow> layers_ok seen ls \<and> layers_ok (seen @ ls) ms"
  by (induction ls arbitrary: seen) auto

lemma layers_ok_snoc: "layers_ok [] (ls @ [l]) \<longleftrightarrow> layers_ok [] ls \<and> parent_ok ls l"
  by (simp add: layers_ok_append)

lemma parent_ok_filter:
  assumes "parent_ok seen l"
    and "\<And>q. q \<in> set seen \<Longrightarrow> l_parent_layer_id l = Some (l_id q) \<Longrightarrow> l_source_id q = l_source_id l \<Longrightarrow> P q"
  shows "parent_ok (filter P seen) l"
  using assms by (auto simp: parent_ok_def list_ex_iff split: option.splits)

lemma layers_ok_filter:
  assumes "layers_ok seen ls"
    and "\<And>l q. l \<in> set ls \<Longrightarrow> q \<in> set (seen @ ls) \<Longrightarrow> P l \<Longrightarrow> l_parent_layer_id l = Some (l_id q)
           \<Longrightarrow> l_source_id q = l_source_id l \<Longrightarrow> P q"
  shows "layers_ok (filter P seen) (filter P ls)"
  using assms
proof (induction ls arbitrary: seen)
  case (Cons l ls)
  have rest: "layers_ok (filter P (seen @ [l])) (filter P ls)"
    using Cons.prems by (intro Cons.IH) (auto dest: Cons.prems(2))
  have "P l \<Longrightarrow> parent_ok (filter P seen) l"
    using Cons.prems by (intro parent_ok_filter) auto
  with rest show ?case by (cases "P l") simp_all
qed simp

lemma base_ok_mono: "base_ok ls r \<Longrightarrow> set ls \<subseteq> set ms \<Longrightarrow> base_ok ms r"
  by (auto simp: base_ok_def list_ex_iff split: option.splits)

lemma base_ok_filter:
  assumes "base_ok ls r"
    and "\<And>l. l \<in> set ls \<Longrightarrow> br_base_layer_id r = Some (l_id l) \<Longrightarrow> l_source_id l = br_source_id r \<Longrightarrow> P l"
  shows "base_ok (filter P ls) r"
  using assms by (auto simp: base_ok_def list_ex_iff split: option.splits)

lemma base_ok_cong:
  "br_base_layer_id r = br_base_layer_id r' \<Longrightarrow> br_source_id r = br_source_id r' \<Longrightarrow> base_ok ls r = base_ok ls r'"
  by (simp add: base_ok_def split: option.splits)

lemma has_layer_parent_ok:
  assumes "has_layer p (ls @ [l])" "l_parent_layer_id l = p" "l_id l \<noteq> []" "p \<noteq> Some (l_id l)"
    and "\<And>q. q \<in> set ls \<Longrightarrow> p = Some (l_id q) \<Longrightarrow> l_source_id q = l_source_id l"
  shows "parent_ok ls l"
  using assms by (auto simp: has_layer_def parent_ok_def list_ex_iff split: option.splits)

subsection \<open>Updates of branch rows\<close>

definition keeps_branch :: "layer_row list \<Rightarrow> branch_row \<Rightarrow> branch_row \<Rightarrow> bool" where
  "keeps_branch ls r r' \<longleftrightarrow> br_id r' = br_id r \<and> br_name r' = br_name r \<and> br_source_id r' = br_source_id r
     \<and> (live_branch r' \<longrightarrow> live_branch r \<and> (base_ok ls r \<longrightarrow> base_ok ls r'))"

lemma struct_ok_upd_branches:
  assumes "struct_ok d"
    and "\<And>r. r \<in> set (branches d) \<Longrightarrow> P r \<Longrightarrow> keeps_branch (layers d) r (f r)"
    and d': "sources d' = sources d" "layers d' = layers d" "branches d' = upd_where P f (branches d)"
  shows "struct_ok d'"
proof (rule struct_okI)
  show "distinct (map br_id (branches d'))"
    using struct_okD(2)[OF assms(1)] assms(2) by (simp add: d' keeps_branch_def map_upd_where_same)
  show "distinct (map br_name (filter live_branch (branches d')))"
    unfolding d' using assms(2) struct_okD(5)[OF assms(1)]
    by (intro upd_where_unique_index) (auto simp: keeps_branch_def)
next
  fix r assume "r \<in> set (branches d')"
  then obtain q where q: "q \<in> set (branches d)" "r = (if P q then f q else q)"
    by (auto simp: d' in_upd_where_iff)
  with assms(2)[of q] have k: "keeps_branch (layers d) q r"
    by (cases "P q") (auto simp: keeps_branch_def)
  then show "br_source_id r \<in> sr_id ` set (sources d')"
    using struct_okD(6)[OF assms(1) q(1)] by (simp add: d' keeps_branch_def)
  assume "live_branch r"
  with k struct_okD(8)[OF assms(1) q(1)] show "base_ok (layers d') r"
    by (simp add: d' keeps_branch_def)
qed (use struct_okD[OF assms(1)] in \<open>simp_all add: d'\<close>)

definition keeps_source :: "source_row \<Rightarrow> source_row \<Rightarrow> bool" where
  "keeps_source s s' \<longleftrightarrow> sr_id s' = sr_id s \<and> sr_name s' = sr_name s \<and> (live_source s' \<longrightarrow> live_source s)"

lemma struct_ok_upd_sources:
  assumes "struct_ok d"
    and "\<And>s. s \<in> set (sources d) \<Longrightarrow> P s \<Longrightarrow> keeps_source s (f s)"
    and d': "branches d' = branches d" "layers d' = layers d" "sources d' = upd_where P f (sources d)"
  shows "struct_ok d'"
proof (rule struct_okI)
  have ids: "map sr_id (upd_where P f (sources d)) = map sr_id (sources d)"
    using assms(2) by (intro map_upd_where_same) (simp add: keeps_source_def)
  then show "distinct (map sr_id (sources d'))" using struct_okD(1)[OF assms(1)] by (simp add: d')
  show "distinct (map sr_name (filter live_source (sources d')))"
    unfolding d' using assms(2) struct_okD(4)[OF assms(1)]
    by (intro upd_where_unique_index) (auto simp: keeps_source_def)
  have "sr_id ` set (sources d') = sr_id ` set (sources d)"
    using arg_cong[OF ids, of set] by (simp add: d')
  then show "\<And>r. r \<in> set (branches d') \<Longrightarrow> br_source_id r \<in> sr_id ` set (sources d')"
    using struct_okD(6)[OF assms(1)] by (simp add: d')
qed (use struct_okD[OF assms(1)] in \<open>simp_all add: d'\<close>)

lemma struct_ok_other:
  "struct_ok d \<Longrightarrow> sources d' = sources d \<Longrightarrow> branches d' = branches d \<Longrightarrow> layers d' = layers d \<Longrightarrow> struct_ok d'"
  by (simp add: struct_ok_def)

section \<open>The audit journal\<close>

definition legal_branch_edge :: "string \<Rightarrow> string \<Rightarrow> bool" where
  "legal_branch_edge s t \<longleftrightarrow> (s = [] \<and> t = branch_state_str BranchCreating)
     \<or> (\<exists>x. s = branch_state_str x \<and> t = s)
     \<or> (\<exists>x y. legalBranchTransition x y \<and> s = branch_state_str x \<and> t = branch_state_str y)"

definition legal_source_edge :: "string \<Rightarrow> string \<Rightarrow> bool" where
  "legal_source_edge s t \<longleftrightarrow> (s = [] \<and> t = source_state_str SourceSeeding)
     \<or> (\<exists>x. s = source_state_str x \<and> t = s)
     \<or> (\<exists>x y. y \<in> set (legalSource x) \<and> s = source_state_str x \<and> t = source_state_str y)"

fun journal_path :: "(string \<Rightarrow> string \<Rightarrow> bool) \<Rightarrow> string \<Rightarrow> transition_row list \<Rightarrow> string \<Rightarrow> bool" where
  "journal_path E s [] e = (s = e)"
| "journal_path E s (t # ts) e = (t_from_state t = s \<and> E s (t_to_state t) \<and> journal_path E (t_to_state t) ts e)"

definition journal_of :: "string \<Rightarrow> string \<Rightarrow> db \<Rightarrow> transition_row list" where
  "journal_of entity eid d = filter (\<lambda>t. t_entity t = entity \<and> t_entity_id t = eid) (transitions d)"

definition journal_ok :: "db \<Rightarrow> bool" where
  "journal_ok d \<longleftrightarrow>
     list_all (\<lambda>r. journal_path legal_branch_edge [] (journal_of ''branch'' (br_id r) d) (branch_state_str (br_state r)))
       (branches d)
     \<and> list_all (\<lambda>s. journal_path legal_source_edge [] (journal_of ''source'' (sr_id s) d) (source_state_str (sr_state s)))
       (sources d)
     \<and> sorted_wrt (<) (map t_id (transitions d))
     \<and> list_all (\<lambda>t. t_id t \<le> transitions_seq d) (transitions d)"

lemma journal_okI:
  assumes "\<And>r. r \<in> set (branches d) \<Longrightarrow>
       journal_path legal_branch_edge [] (journal_of ''branch'' (br_id r) d) (branch_state_str (br_state r))"
    and "\<And>s. s \<in> set (sources d) \<Longrightarrow>
       journal_path legal_source_edge [] (journal_of ''source'' (sr_id s) d) (source_state_str (sr_state s))"
    and "sorted_wrt (<) (map t_id (transitions d))" "\<And>t. t \<in> set (transitions d) \<Longrightarrow> t_id t \<le> transitions_seq d"
  shows "journal_ok d"
  using assms by (simp add: journal_ok_def list_all_iff)

lemma journal_okD:
  assumes "journal_ok d"
  shows "r \<in> set (branches d) \<Longrightarrow>
       journal_path legal_branch_edge [] (journal_of ''branch'' (br_id r) d) (branch_state_str (br_state r))"
    and "s \<in> set (sources d) \<Longrightarrow>
       journal_path legal_source_edge [] (journal_of ''source'' (sr_id s) d) (source_state_str (sr_state s))"
    and "sorted_wrt (<) (map t_id (transitions d))"
    and "t \<in> set (transitions d) \<Longrightarrow> t_id t \<le> transitions_seq d"
  using assms by (simp_all add: journal_ok_def list_all_iff)

lemma journal_path_append:
  "journal_path E s (ts @ us) e \<longleftrightarrow> (\<exists>m. journal_path E s ts m \<and> journal_path E m us e)"
  by (induction ts arbitrary: s) auto

lemma journal_path_snoc:
  "journal_path E s ts m \<Longrightarrow> t_from_state t = m \<Longrightarrow> E m (t_to_state t) \<Longrightarrow> t_to_state t = e
    \<Longrightarrow> journal_path E s (ts @ [t]) e"
  by (auto simp: journal_path_append)

text \<open>The rows the journal gains, and what else \<open>journalTx\<close> leaves alone.\<close>

definition journal_row :: "actor \<Rightarrow> string \<Rightarrow> string \<Rightarrow> string \<Rightarrow> string \<Rightarrow> string \<Rightarrow> string \<Rightarrow> db \<Rightarrow> transition_row" where
  "journal_row a now entity eid from to reason d =
     \<lparr>t_id = Suc (transitions_seq d), t_entity = entity, t_entity_id = eid, t_from_state = from,
      t_to_state = to, t_reason = reason, t_actor = Actor_String a, t_at = now, t_entity_name = []\<rparr>"

lemma journal_row_simps [simp]:
  "t_id (journal_row a now e i f t r d) = Suc (transitions_seq d)" "t_entity (journal_row a now e i f t r d) = e"
  "t_entity_id (journal_row a now e i f t r d) = i" "t_from_state (journal_row a now e i f t r d) = f"
  "t_to_state (journal_row a now e i f t r d) = t" "t_entity_name (journal_row a now e i f t r d) = []"
  "t_actor (journal_row a now e i f t r d) = Actor_String a" "t_reason (journal_row a now e i f t r d) = r"
  by (simp_all add: journal_row_def)

lemma journalTx_simps [simp]:
  "sources (journalTx a now e i f t r d) = sources d"
  "branches (journalTx a now e i f t r d) = branches d"
  "layers (journalTx a now e i f t r d) = layers d"
  "mask_scripts (journalTx a now e i f t r d) = mask_scripts d"
  "api_tokens (journalTx a now e i f t r d) = api_tokens d"
  "transitions_seq (journalTx a now e i f t r d) = Suc (transitions_seq d)"
  "transitions (journalTx a now e i f t r d) = transitions d @ [journal_row a now e i f t r d]"
  by (simp_all add: journalTx_def journal_row_def)

lemma journal_of_journalTx:
  "journal_of e i (journalTx a now e' i' f t r d) =
     journal_of e i d @ (if e = e' \<and> i = i' then [journal_row a now e' i' f t r d] else [])"
  by (simp add: journal_of_def)

lemma journal_of_cong: "transitions d' = transitions d \<Longrightarrow> journal_of e i d' = journal_of e i d"
  by (simp add: journal_of_def)

lemma journal_ids_snoc:
  assumes "journal_ok d" "transitions d' = transitions d @ [t]" "t_id t = Suc (transitions_seq d)"
    "transitions_seq d' = Suc (transitions_seq d)"
  shows "sorted_wrt (<) (map t_id (transitions d'))" "\<And>t. t \<in> set (transitions d') \<Longrightarrow> t_id t \<le> transitions_seq d'"
  using journal_okD(3,4)[OF assms(1)] by (auto simp: assms sorted_wrt_append less_Suc_eq_le le_SucI)

lemma legal_branch_edgeI:
  "legalBranchTransition x y \<Longrightarrow> legal_branch_edge (branch_state_str x) (branch_state_str y)"
  "legal_branch_edge (branch_state_str x) (branch_state_str x)"
  "legal_branch_edge [] (branch_state_str BranchCreating)"
  by (auto simp: legal_branch_edge_def)

lemma legal_source_edgeI:
  "y \<in> set (legalSource x) \<Longrightarrow> legal_source_edge (source_state_str x) (source_state_str y)"
  "legal_source_edge (source_state_str x) (source_state_str x)"
  "legal_source_edge [] (source_state_str SourceSeeding)"
  by (auto simp: legal_source_edge_def)

lemma legal_edge_created [simp]:
  "legal_branch_edge [] ''creating''" "legal_source_edge [] ''seeding''"
  using legal_branch_edgeI(3) legal_source_edgeI(3) by simp_all

text \<open>Branch rows change without a state change and without a journal row.\<close>

lemma journal_ok_silent:
  assumes "journal_ok d" "transitions d' = transitions d" "transitions_seq d' = transitions_seq d"
    and "\<And>r. r \<in> set (branches d') \<Longrightarrow> \<exists>q \<in> set (branches d). br_id r = br_id q \<and> br_state r = br_state q"
    and "\<And>s. s \<in> set (sources d') \<Longrightarrow> \<exists>q \<in> set (sources d). sr_id s = sr_id q \<and> sr_state s = sr_state q"
  shows "journal_ok d'"
proof (rule journal_okI)
  fix r assume "r \<in> set (branches d')"
  then obtain q where "q \<in> set (branches d)" "br_id r = br_id q" "br_state r = br_state q" using assms(4) by blast
  then show "journal_path legal_branch_edge [] (journal_of ''branch'' (br_id r) d') (branch_state_str (br_state r))"
    using journal_okD(1)[OF assms(1)] by (simp add: journal_of_cong[OF assms(2)])
next
  fix s assume "s \<in> set (sources d')"
  then obtain q where "q \<in> set (sources d)" "sr_id s = sr_id q" "sr_state s = sr_state q" using assms(5) by blast
  then show "journal_path legal_source_edge [] (journal_of ''source'' (sr_id s) d') (source_state_str (sr_state s))"
    using journal_okD(2)[OF assms(1)] by (simp add: journal_of_cong[OF assms(2)])
qed (use journal_okD(3,4)[OF assms(1)] in \<open>simp_all add: assms(2,3)\<close>)

text \<open>One branch moves along a legal edge, with its journal row.\<close>

lemma journal_ok_branch_move:
  assumes "journal_ok d"
    and d': "sources d' = sources d" "transitions_seq d' = Suc (transitions_seq d)"
      "transitions d' = transitions d @ [journal_row a now ''branch'' eid (branch_state_str from) (branch_state_str to) reason d]"
    and edge: "legal_branch_edge (branch_state_str from) (branch_state_str to)"
    and rows: "\<And>r. r \<in> set (branches d') \<Longrightarrow> \<exists>q \<in> set (branches d). br_id r = br_id q
      \<and> (if br_id q = eid then br_state q = from \<and> br_state r = to else br_state r = br_state q)"
  shows "journal_ok d'"
proof (rule journal_okI)
  fix r assume "r \<in> set (branches d')"
  then obtain q where q: "q \<in> set (branches d)" "br_id r = br_id q"
    "if br_id q = eid then br_state q = from \<and> br_state r = to else br_state r = br_state q" using rows by blast
  have p: "journal_path legal_branch_edge [] (journal_of ''branch'' (br_id q) d) (branch_state_str (br_state q))"
    using journal_okD(1)[OF assms(1) q(1)] .
  show "journal_path legal_branch_edge [] (journal_of ''branch'' (br_id r) d') (branch_state_str (br_state r))"
  proof (cases "br_id q = eid")
    case True
    then have "journal_of ''branch'' (br_id r) d' = journal_of ''branch'' (br_id q) d @
        [journal_row a now ''branch'' eid (branch_state_str from) (branch_state_str to) reason d]"
      using q(2) by (simp add: journal_of_def d')
    with True p q(3) edge show ?thesis by (simp add: journal_path_append)
  next
    case False
    then show ?thesis using p q by (auto simp: journal_of_def d')
  qed
next
  fix s assume "s \<in> set (sources d')"
  then show "journal_path legal_source_edge [] (journal_of ''source'' (sr_id s) d') (source_state_str (sr_state s))"
    using journal_okD(2)[OF assms(1)] by (simp add: journal_of_def d')
qed (use journal_ids_snoc[OF assms(1) d'(3) _ d'(2)] in simp_all)

lemma journal_ok_source_move:
  assumes "journal_ok d"
    and d': "branches d' = branches d" "transitions_seq d' = Suc (transitions_seq d)"
      "transitions d' = transitions d @ [journal_row a now ''source'' eid (source_state_str from) (source_state_str to) reason d]"
    and edge: "legal_source_edge (source_state_str from) (source_state_str to)"
    and rows: "\<And>r. r \<in> set (sources d') \<Longrightarrow> \<exists>q \<in> set (sources d). sr_id r = sr_id q
      \<and> (if sr_id q = eid then sr_state q = from \<and> sr_state r = to else sr_state r = sr_state q)"
  shows "journal_ok d'"
proof (rule journal_okI)
  fix r assume "r \<in> set (sources d')"
  then obtain q where q: "q \<in> set (sources d)" "sr_id r = sr_id q"
    "if sr_id q = eid then sr_state q = from \<and> sr_state r = to else sr_state r = sr_state q" using rows by blast
  have p: "journal_path legal_source_edge [] (journal_of ''source'' (sr_id q) d) (source_state_str (sr_state q))"
    using journal_okD(2)[OF assms(1) q(1)] .
  show "journal_path legal_source_edge [] (journal_of ''source'' (sr_id r) d') (source_state_str (sr_state r))"
  proof (cases "sr_id q = eid")
    case True
    then have "journal_of ''source'' (sr_id r) d' = journal_of ''source'' (sr_id q) d @
        [journal_row a now ''source'' eid (source_state_str from) (source_state_str to) reason d]"
      using q(2) by (simp add: journal_of_def d')
    with True p q(3) edge show ?thesis by (simp add: journal_path_append)
  next
    case False
    then show ?thesis using p q by (auto simp: journal_of_def d')
  qed
next
  fix s assume "s \<in> set (branches d')"
  then show "journal_path legal_branch_edge [] (journal_of ''branch'' (br_id s) d') (branch_state_str (br_state s))"
    using journal_okD(1)[OF assms(1)] by (simp add: journal_of_def d')
qed (use journal_ids_snoc[OF assms(1) d'(3) _ d'(2)] in simp_all)

end
