(* ===== verification/RegistrySteps.thy ===== *)
theory RegistrySteps
  imports RegistryInv
begin

text \<open>
  Every registry call keeps the invariant of \<open>RegistryInv\<close>, and therefore every database the
  registry can reach satisfies it. The guards on the step rules are the conditions the engine
  establishes before the call (they are named at each rule); all other rules hold for any
  arguments.
\<close>

definition db_ok :: "db \<Rightarrow> bool" where
  "db_ok d \<longleftrightarrow> struct_ok d \<and> journal_ok d"

lemma db_ok_parts: "db_ok d \<Longrightarrow> struct_ok d" "db_ok d \<Longrightarrow> journal_ok d"
  by (simp_all add: db_ok_def)

lemma db_okI: "struct_ok d \<Longrightarrow> journal_ok d \<Longrightarrow> db_ok d"
  by (simp add: db_ok_def)

lemma db_ok_empty: "db_ok empty_db"
  by (simp add: db_ok_def struct_ok_def journal_ok_def empty_db_def)

lemma db_ok_cong:
  assumes "db_ok d" "sources d' = sources d" "branches d' = branches d" "layers d' = layers d"
    "transitions d' = transitions d" "transitions_seq d' = transitions_seq d"
  shows "db_ok d'"
  using assms by (simp add: db_ok_def struct_ok_def journal_ok_def journal_of_def)

section \<open>Branch rows\<close>

lemma branch_by_id:
  assumes "struct_ok d" "r \<in> set (branches d)"
  shows "find (\<lambda>x. br_id x = br_id r) (branches d) = Some r"
  using struct_okD(2)[OF assms(1)] assms(2) by (rule find_unique) simp

lemma source_by_id:
  assumes "struct_ok d" "r \<in> set (sources d)"
  shows "find (\<lambda>x. sr_id x = sr_id r) (sources d) = Some r"
  using struct_okD(1)[OF assms(1)] assms(2) by (rule find_unique) simp

lemma branch_id_unique:
  "struct_ok d \<Longrightarrow> r \<in> set (branches d) \<Longrightarrow> q \<in> set (branches d) \<Longrightarrow> br_id r = br_id q \<Longrightarrow> r = q"
  by (rule distinct_map_unique[OF struct_okD(2)])

lemma source_id_unique:
  "struct_ok d \<Longrightarrow> r \<in> set (sources d) \<Longrightarrow> q \<in> set (sources d) \<Longrightarrow> sr_id r = sr_id q \<Longrightarrow> r = q"
  by (rule distinct_map_unique[OF struct_okD(1)])

lemma set_branch_state_simps [simp]:
  "br_id (set_branch_state to r) = br_id r" "br_name (set_branch_state to r) = br_name r"
  "br_source_id (set_branch_state to r) = br_source_id r" "br_state (set_branch_state to r) = to"
  "br_base_layer_id (set_branch_state to r) = br_base_layer_id r"
  "br_container_id (set_branch_state to r) = br_container_id r"
  "br_host (set_branch_state to r) = br_host r" "br_port (set_branch_state to r) = br_port r"
  "br_rw_volume (set_branch_state to r) = br_rw_volume r"
  "br_source_volume (set_branch_state to r) = br_source_volume r"
  "br_pending_volume (set_branch_state to r) = br_pending_volume r"
  by (simp_all add: set_branch_state_def Let_def)

lemma set_branch_state_password:
  "br_password (set_branch_state to r) = (if to = BranchDestroyed then [] else br_password r)"
  by (simp add: set_branch_state_def Let_def)

lemma legalBranch_not_from_destroyed: "legalBranchTransition from to \<Longrightarrow> from \<noteq> BranchDestroyed"
  by (auto simp: legalBranchTransition_def)

text \<open>A column update that leaves the identity, the base layer and the state of the rows alone.\<close>

definition same_identity :: "branch_row \<Rightarrow> branch_row \<Rightarrow> bool" where
  "same_identity r r' \<longleftrightarrow> br_id r' = br_id r \<and> br_name r' = br_name r \<and> br_source_id r' = br_source_id r
     \<and> br_base_layer_id r' = br_base_layer_id r \<and> br_state r' = br_state r"

lemma same_identity_keeps: "same_identity r r' \<Longrightarrow> keeps_branch ls r r'"
  by (auto simp: same_identity_def keeps_branch_def live_branch_def base_ok_def split: option.splits)

lemma db_ok_columns:
  assumes "db_ok d" "\<And>r. P r \<Longrightarrow> same_identity r (f r)"
  shows "db_ok (d\<lparr>branches := upd_where P f (branches d)\<rparr>)"
proof (rule db_okI)
  show "struct_ok (d\<lparr>branches := upd_where P f (branches d)\<rparr>)"
    by (rule struct_ok_upd_branches[OF db_ok_parts(1)[OF assms(1)], of P f])
      (simp_all add: assms(2) same_identity_keeps)
  show "journal_ok (d\<lparr>branches := upd_where P f (branches d)\<rparr>)"
  proof (rule journal_ok_silent[OF db_ok_parts(2)[OF assms(1)]])
    fix x assume "x \<in> set (branches (d\<lparr>branches := upd_where P f (branches d)\<rparr>))"
    then show "\<exists>q \<in> set (branches d). br_id x = br_id q \<and> br_state x = br_state q"
      using assms(2) by (intro upd_where_origin[where P = P and f = f]) (auto simp: same_identity_def)
  qed auto
qed

lemma db_ok_source_columns:
  assumes "db_ok d"
    and "\<And>s. P s \<Longrightarrow> sr_id (f s) = sr_id s \<and> sr_name (f s) = sr_name s \<and> sr_state (f s) = sr_state s"
  shows "db_ok (d\<lparr>sources := upd_where P f (sources d)\<rparr>)"
proof (rule db_okI)
  show "struct_ok (d\<lparr>sources := upd_where P f (sources d)\<rparr>)"
    by (rule struct_ok_upd_sources[OF db_ok_parts(1)[OF assms(1)], of P f])
      (simp_all add: assms(2) keeps_source_def live_source_def)
  show "journal_ok (d\<lparr>sources := upd_where P f (sources d)\<rparr>)"
  proof (rule journal_ok_silent[OF db_ok_parts(2)[OF assms(1)]])
    fix x assume "x \<in> set (sources (d\<lparr>sources := upd_where P f (sources d)\<rparr>))"
    then show "\<exists>q \<in> set (sources d). sr_id x = sr_id q \<and> sr_state x = sr_state q"
      using assms(2) by (intro upd_where_origin[where P = P and f = f]) auto
  qed auto
qed

text \<open>
  A branch moves along a legal edge (or stays where it is): every row with the id goes from
  \<open>from\<close> to \<open>to\<close>, and the journal gains the row.
\<close>

definition moves_branch :: "branch_state \<Rightarrow> branch_row \<Rightarrow> branch_row \<Rightarrow> bool" where
  "moves_branch to r r' \<longleftrightarrow> br_id r' = br_id r \<and> br_name r' = br_name r \<and> br_source_id r' = br_source_id r
     \<and> br_base_layer_id r' = br_base_layer_id r \<and> br_state r' = to"

lemma db_ok_move:
  assumes "db_ok d" and r: "r \<in> set (branches d)" "P r" "br_state r = from"
    and P: "\<And>q. q \<in> set (branches d) \<Longrightarrow> P q \<Longrightarrow> br_id q = br_id r"
    and f: "\<And>q. q \<in> set (branches d) \<Longrightarrow> P q \<Longrightarrow> moves_branch to q (f q)"
    and edge: "legalBranchTransition from to \<or> to = from"
  shows "db_ok (journalTx a now ''branch'' (br_id r) (branch_state_str from) (branch_state_str to) reason
    (d\<lparr>branches := upd_where P f (branches d)\<rparr>))" (is "db_ok ?d'")
proof (rule db_okI)
  note ok = db_ok_parts[OF assms(1)]
  have only: "q = r" if "q \<in> set (branches d)" "br_id q = br_id r" for q
    using branch_id_unique[OF ok(1) that(1) r(1) that(2)] .
  have from_live: "live_branch r" if "to \<noteq> BranchDestroyed"
    using edge that r(3) by (auto simp: live_branch_def dest: legalBranch_not_from_destroyed)
  have keep: "keeps_branch (layers d) q (f q)" if "q \<in> set (branches d)" "P q" for q
  proof -
    have "q = r" using only[OF that(1) P[OF that]] .
    with f[OF that] from_live show ?thesis
      by (auto simp: keeps_branch_def moves_branch_def live_branch_def base_ok_def split: option.splits)
  qed
  show "struct_ok ?d'"
    by (rule struct_ok_upd_branches[OF ok(1), of P f]) (simp_all add: keep)
  show "journal_ok ?d'"
  proof (rule journal_ok_branch_move[OF ok(2)])
    show "transitions ?d' = transitions d @
      [journal_row a now ''branch'' (br_id r) (branch_state_str from) (branch_state_str to) reason d]"
      by (simp add: journal_row_def)
    show "legal_branch_edge (branch_state_str from) (branch_state_str to)"
      using edge legal_branch_edgeI by auto
  next
    fix x assume "x \<in> set (branches ?d')"
    then obtain q where q: "q \<in> set (branches d)" "x = (if P q then f q else q)"
      by (auto simp: in_upd_where_iff)
    have Pq: "P q \<longleftrightarrow> br_id q = br_id r" using P[OF q(1)] only[OF q(1)] r(2) by blast
    with q(2) f[OF q(1)] only[OF q(1)] r(3)
    have "br_id x = br_id q \<and> (if br_id q = br_id r then br_state q = from \<and> br_state x = to
        else br_state x = br_state q)"
      by (auto simp: moves_branch_def)
    with q(1) show "\<exists>q \<in> set (branches d). br_id x = br_id q \<and>
        (if br_id q = br_id r then br_state q = from \<and> br_state x = to else br_state x = br_state q)" by blast
  qed simp_all
qed

lemma db_ok_source_move:
  assumes "db_ok d" and r: "r \<in> set (sources d)" "P r" "sr_state r = from"
    and P: "\<And>q. q \<in> set (sources d) \<Longrightarrow> P q \<Longrightarrow> sr_id q = sr_id r"
    and f: "\<And>q. q \<in> set (sources d) \<Longrightarrow> P q \<Longrightarrow>
      sr_id (f q) = sr_id q \<and> sr_name (f q) = sr_name q \<and> sr_state (f q) = to"
    and edge: "to \<in> set (legalSource from) \<or> to = from"
  shows "db_ok (journalTx a now ''source'' (sr_id r) (source_state_str from) (source_state_str to) reason
    (d\<lparr>sources := upd_where P f (sources d)\<rparr>))" (is "db_ok ?d'")
proof (rule db_okI)
  note ok = db_ok_parts[OF assms(1)]
  have only: "q = r" if "q \<in> set (sources d)" "sr_id q = sr_id r" for q
    using source_id_unique[OF ok(1) that(1) r(1) that(2)] .
  have from_live: "to \<noteq> SourceFailed \<Longrightarrow> from \<noteq> SourceFailed" using edge by auto
  have keep: "keeps_source q (f q)" if "q \<in> set (sources d)" "P q" for q
    using only[OF that(1) P[OF that]] f[OF that] from_live r(3) by (auto simp: keeps_source_def live_source_def)
  show "struct_ok ?d'"
    by (rule struct_ok_upd_sources[OF ok(1), of P f]) (simp_all add: keep)
  show "journal_ok ?d'"
  proof (rule journal_ok_source_move[OF ok(2)])
    show "transitions ?d' = transitions d @
      [journal_row a now ''source'' (sr_id r) (source_state_str from) (source_state_str to) reason d]"
      by (simp add: journal_row_def)
    show "legal_source_edge (source_state_str from) (source_state_str to)"
      using edge legal_source_edgeI by auto
  next
    fix x assume "x \<in> set (sources ?d')"
    then obtain q where q: "q \<in> set (sources d)" "x = (if P q then f q else q)"
      by (auto simp: in_upd_where_iff)
    have Pq: "P q \<longleftrightarrow> sr_id q = sr_id r" using P[OF q(1)] only[OF q(1)] r(2) by blast
    with q(2) f[OF q(1)] only[OF q(1)] r(3)
    have "sr_id x = sr_id q \<and> (if sr_id q = sr_id r then sr_state q = from \<and> sr_state x = to
        else sr_state x = sr_state q)"
      by auto
    with q(1) show "\<exists>q \<in> set (sources d). sr_id x = sr_id q \<and>
        (if sr_id q = sr_id r then sr_state q = from \<and> sr_state x = to else sr_state x = sr_state q)" by blast
  qed simp_all
qed

section \<open>Calls that change branch rows\<close>

lemma transitionBranch_InrD:
  assumes "transitionBranch a now eid to reason g d = Inr d'"
  obtains r where "r \<in> set (branches d)" "br_id r = eid" "legalBranchTransition (br_state r) to"
    "d' = journalTx a now ''branch'' (br_id r) (branch_state_str (br_state r)) (branch_state_str to) reason
      (d\<lparr>branches := upd_where (\<lambda>x. br_id x = eid \<and> br_state x = br_state r)
         (\<lambda>x. (set_branch_state to (g x))\<lparr>br_updated_at := now\<rparr>) (branches d)\<rparr>)"
  using assms
  by (auto simp: transitionBranch_def Let_def split: option.splits if_splits dest!: find_SomeD)

lemma transitionBranch_ok:
  assumes "db_ok d" "transitionBranch a now eid to reason g d = Inr d'" "\<And>r. same_identity r (g r)"
  shows "db_ok d'"
proof -
  obtain r where r: "r \<in> set (branches d)" "br_id r = eid" "legalBranchTransition (br_state r) to"
    and d': "d' = journalTx a now ''branch'' (br_id r) (branch_state_str (br_state r)) (branch_state_str to) reason
      (d\<lparr>branches := upd_where (\<lambda>x. br_id x = eid \<and> br_state x = br_state r)
         (\<lambda>x. (set_branch_state to (g x))\<lparr>br_updated_at := now\<rparr>) (branches d)\<rparr>)"
    using assms(2) by (rule transitionBranch_InrD)
  have "moves_branch to q ((set_branch_state to (g q))\<lparr>br_updated_at := now\<rparr>)" for q
    using assms(3)[of q] by (auto simp: moves_branch_def same_identity_def)
  then show ?thesis unfolding d' by (intro db_ok_move[OF assms(1) r(1)]) (use r in auto)
qed

lemma TransitionBranchCtx_ok: "db_ok d \<Longrightarrow> TransitionBranchCtx a now eid to reason d = Inr d' \<Longrightarrow> db_ok d'"
  unfolding TransitionBranchCtx_def by (erule (1) transitionBranch_ok) (simp add: same_identity_def)

lemma MarkBranchReadyCtx_ok: "db_ok d \<Longrightarrow> MarkBranchReadyCtx a now eid c h p d = Inr d' \<Longrightarrow> db_ok d'"
  unfolding MarkBranchReadyCtx_def by (erule (1) transitionBranch_ok) (simp add: same_identity_def)

lemma store_branch_password_ok: "db_ok d \<Longrightarrow> store_branch_password now eid stored d = Inr d' \<Longrightarrow> db_ok d'"
  by (auto simp: store_branch_password_def same_identity_def split: if_splits intro!: db_ok_columns)

lemma SetBranchContainer_ok: "db_ok d \<Longrightarrow> db_ok (SetBranchContainer now eid c d)"
  unfolding SetBranchContainer_def by (rule db_ok_columns) (auto simp: same_identity_def)

lemma TouchBranch_ok: "db_ok d \<Longrightarrow> db_ok (TouchBranch now eid d)"
  unfolding TouchBranch_def by (rule db_ok_columns) (auto simp: same_identity_def)

lemma SetBranchPendingVolume_ok: "db_ok d \<Longrightarrow> SetBranchPendingVolume eid v d = Inr d' \<Longrightarrow> db_ok d'"
  by (auto simp: SetBranchPendingVolume_def same_identity_def split: if_splits intro!: db_ok_columns)

lemma UpdateBranchEndpoint_ok: "db_ok d \<Longrightarrow> db_ok (snd (UpdateBranchEndpoint eid from c h p d))"
  unfolding UpdateBranchEndpoint_def snd_conv by (rule db_ok_columns) (auto simp: same_identity_def)

lemma NoteBranchCtx_ok:
  assumes "db_ok d" "NoteBranchCtx a now eid reason d = Inr d'"
  shows "db_ok d'"
proof -
  obtain r where f: "find (\<lambda>x. br_id x = eid) (branches d) = Some r"
    using assms(2) by (auto simp: NoteBranchCtx_def split: option.splits)
  then have r: "r \<in> set (branches d)" "br_id r = eid" by (auto dest: find_SomeD)
  have d': "d' = journalTx a now ''branch'' (br_id r) (branch_state_str (br_state r)) (branch_state_str (br_state r)) reason
      (d\<lparr>branches := upd_where (\<lambda>x. br_id x = eid) (\<lambda>x. x\<lparr>br_updated_at := now\<rparr>) (branches d)\<rparr>)"
    using assms(2) f r(2) by (simp add: NoteBranchCtx_def TouchBranch_def)
  have "q = r" if "q \<in> set (branches d)" "br_id q = eid" for q
    using branch_id_unique[OF db_ok_parts(1)[OF assms(1)] that(1) r(1)] that(2) r(2) by simp
  then have "moves_branch (br_state r) q (q\<lparr>br_updated_at := now\<rparr>)" if "q \<in> set (branches d)" "br_id q = eid" for q
    using that by (auto simp: moves_branch_def)
  then show ?thesis unfolding d'
    by (intro db_ok_move[OF assms(1) r(1)]) (use r in simp_all)
qed

lemma at_endpoint_ready: "at_endpoint eid c r \<Longrightarrow> br_id r = eid \<and> br_state r = BranchReady"
  by (simp add: at_endpoint_def)

lemma count_where_oneD: "count_where P rows = 1 \<Longrightarrow> \<exists>r \<in> set rows. P r"
  using count_where_pos[of P rows] by simp

lemma UpdateBranchEndpointCtx_ok: 
  assumes "db_ok d" "UpdateBranchEndpointCtx a now eid from c h p reason d = (u, d')"
  shows "db_ok d'"
proof (cases "count_where (at_endpoint eid from) (branches d) = 1")
  case False
  then show ?thesis using assms by (simp add: UpdateBranchEndpointCtx_def)
next
  case True
  then obtain r where r: "r \<in> set (branches d)" "at_endpoint eid from r" using count_where_oneD by blast
  let ?f = "\<lambda>r. r\<lparr>br_container_id := c, br_host := h, br_port := p, br_updated_at := now\<rparr>"
  have d': "d' = journalTx a now ''branch'' (br_id r) (branch_state_str BranchReady) (branch_state_str BranchReady) reason
      (d\<lparr>branches := upd_where (at_endpoint eid from) ?f (branches d)\<rparr>)"
    using assms(2) True at_endpoint_ready[OF r(2)] by (simp add: UpdateBranchEndpointCtx_def)
  show ?thesis unfolding d'
    by (intro db_ok_move[OF assms(1) r(1)]) (use at_endpoint_ready r in \<open>auto simp: moves_branch_def\<close>)
qed

lemma FailReadyBranch_ok:
  assumes "db_ok d" "FailReadyBranch a now eid c reason d = Inr (u, d')"
  shows "db_ok d'"
proof (cases "count_where (at_endpoint eid c) (branches d) = 1")
  case False
  then show ?thesis using assms by (simp add: FailReadyBranch_def split: if_splits)
next
  case True
  then obtain r where r: "r \<in> set (branches d)" "at_endpoint eid c r" using count_where_oneD by blast
  note rr = at_endpoint_ready[OF r(2)]
  let ?J = "\<lambda>x y. journalTx a now ''branch'' eid (branch_state_str x) (branch_state_str y) reason"
  let ?f = "\<lambda>r. (set_branch_state BranchFailed r)\<lparr>br_updated_at := now\<rparr>"
  define mid where "mid = upd_where (at_endpoint eid c) (set_branch_state BranchResetting) (branches d)"
  have at_iff: "at_endpoint eid c q \<longleftrightarrow> br_id q = eid" if "q \<in> set (branches d)" for q
    using branch_id_unique[OF db_ok_parts(1)[OF assms(1)] that r(1)] r(2) rr by (auto simp: at_endpoint_ready)
  have m1: "db_ok (?J BranchReady BranchResetting (d\<lparr>branches := mid\<rparr>))" (is "db_ok ?m")
    unfolding mid_def using rr
      db_ok_move[OF assms(1) r(1), of "at_endpoint eid c" BranchReady BranchResetting "set_branch_state BranchResetting" a now reason]
    by (auto simp: r(2) at_endpoint_ready moves_branch_def legalBranchTransition_def)
  have r': "set_branch_state BranchResetting r \<in> set (branches ?m)"
    using r by (auto simp: mid_def in_upd_where_iff intro!: bexI[of _ r])
  have "db_ok (?J BranchResetting BranchFailed (?m\<lparr>branches := upd_where (\<lambda>x. br_id x = eid) ?f mid\<rparr>))"
    using rr db_ok_move[OF m1 r', of "\<lambda>x. br_id x = eid" BranchResetting BranchFailed ?f a now reason]
    by (auto simp: moves_branch_def legalBranchTransition_def)
  moreover have "upd_where (\<lambda>x. br_id x = eid) ?f mid = upd_where (at_endpoint eid c) ?f (branches d)"
    unfolding mid_def upd_where_def using at_iff by (simp add: set_branch_state_def)
  ultimately show ?thesis using assms(2) True
    by (simp add: FailReadyBranch_def legalBranchTransition_def journalTx_def)
qed

lemma FailStuckBranch_ok:
  assumes "db_ok d" "FailStuckBranch a now eid before reason d = Inr (u, d')"
  shows "db_ok d'"
proof (cases "d' = d")
  case False
  obtain r where r: "r \<in> set (branches d)" "br_id r = eid" "stuck_branch before r"
    "legalBranchTransition (br_state r) BranchFailed"
    and d': "d' = journalTx a now ''branch'' (br_id r) (branch_state_str (br_state r)) (branch_state_str BranchFailed) reason
      (d\<lparr>branches := upd_where (\<lambda>x. br_id x = eid \<and> br_state x = br_state r \<and> br_updated_at x < msCutoff before)
         (\<lambda>r. (set_branch_state BranchFailed r)\<lparr>br_updated_at := now\<rparr>) (branches d)\<rparr>)"
    using assms(2) False
    by (auto simp: FailStuckBranch_def Let_def split: option.splits if_splits dest!: find_SomeD)
  show ?thesis unfolding d'
    by (intro db_ok_move[OF assms(1) r(1)]) (use r in \<open>auto simp: moves_branch_def stuck_branch_def\<close>)
qed (use assms in simp)

text \<open>
  \<open>CreateBranchCtx\<close>: the id is new to the journal (\<open>newID\<close> draws 64 random bits) and the base layer,
  if one is given, is a layer of the branch's source. The engine creates branches without a base
  layer; a freeze sets it.
\<close>

definition fresh_journal_id :: "string \<Rightarrow> string \<Rightarrow> db \<Rightarrow> bool" where
  "fresh_journal_id entity eid d \<longleftrightarrow> list_all (\<lambda>t. t_entity t = entity \<longrightarrow> t_entity_id t \<noteq> eid) (transitions d)"

lemma fresh_journal_of: "fresh_journal_id entity eid d \<Longrightarrow> journal_of entity eid d = []"
  by (auto simp: fresh_journal_id_def journal_of_def list_all_iff filter_empty_conv)

lemma CreateBranchCtx_InrD:
  assumes "CreateBranchCtx a now nid b0 d = Inr (b, d')"
  shows "b = b0\<lparr>b_ID := nid, b_State := BranchCreating\<rparr>"
    "nid \<notin> br_id ` set (branches d)" "b_SourceID b0 \<in> sr_id ` set (sources d)"
    "\<And>x. x \<in> set (branches d) \<Longrightarrow> live_branch x \<Longrightarrow> br_name x \<noteq> b_Name b0"
    "d' = journalTx a now ''branch'' nid [] (branch_state_str BranchCreating) ''created''
       (d\<lparr>branches := branches d @ [insert_branch b now]\<rparr>)"
  using assms by (auto simp: CreateBranchCtx_def Let_def find_None_iff_not split: if_splits option.splits)

lemma insert_branch_simps [simp]:
  "br_id (insert_branch b now) = b_ID b" "br_name (insert_branch b now) = b_Name b"
  "br_source_id (insert_branch b now) = b_SourceID b" "br_state (insert_branch b now) = b_State b"
  "br_base_layer_id (insert_branch b now) = nullable_str (b_BaseLayerID b)"
  "br_rw_volume (insert_branch b now) = b_RWVolume b" "br_source_volume (insert_branch b now) = b_SourceVolume b"
  by (simp_all add: insert_branch_def)

lemma CreateBranchCtx_ok:
  assumes "db_ok d" "CreateBranchCtx a now nid b0 d = Inr (b, d')" "fresh_journal_id ''branch'' nid d"
    and base: "base_ok (layers d) (insert_branch b0 now)"
  shows "db_ok d'"
proof (rule db_okI)
  note ok = db_ok_parts[OF assms(1)]
  note c = CreateBranchCtx_InrD[OF assms(2)]
  have nb: "base_ok (layers d) (insert_branch b now)"
    using base by (subst base_ok_cong[of _ "insert_branch b0 now"]) (simp_all add: c(1))
  show "struct_ok d'"
  proof (rule struct_okI)
    show "distinct (map br_name (filter live_branch (branches d')))"
      using struct_okD(5)[OF ok(1)] c(4) by (fastforce simp: c(5) c(1))
    show "distinct (map br_id (branches d'))" using struct_okD(2)[OF ok(1)] c(2) by (simp add: c(5) c(1))
    show "br_source_id r \<in> sr_id ` set (sources d')" if "r \<in> set (branches d')" for r
      using that struct_okD(6)[OF ok(1)] c(3) by (auto simp: c(5) c(1))
    show "base_ok (layers d') r" if "r \<in> set (branches d')" "live_branch r" for r
      using that struct_okD(8)[OF ok(1)] nb by (auto simp: c(5))
  qed (use struct_okD[OF ok(1)] in \<open>simp_all add: c(5)\<close>)
  show "journal_ok d'"
  proof (rule journal_okI)
    fix r assume r: "r \<in> set (branches d')"
    show "journal_path legal_branch_edge [] (journal_of ''branch'' (br_id r) d') (branch_state_str (br_state r))"
    proof (cases "br_id r = nid")
      case True
      with r c(2) have "r = insert_branch b now" by (auto simp: c(5))
      moreover have "journal_of ''branch'' nid (d\<lparr>branches := branches d @ [insert_branch b now]\<rparr>) = []"
        using fresh_journal_of[OF assms(3)] by (simp add: journal_of_def)
      ultimately show ?thesis using True
        by (simp add: c(5) journal_of_journalTx c(1))
    next
      case False
      with r have "r \<in> set (branches d)" by (auto simp: c(5) c(1))
      with journal_okD(1)[OF ok(2) this] False show ?thesis by (simp add: c(5) journal_of_def)
    qed
  next
    fix r assume "r \<in> set (sources d')"
    then show "journal_path legal_source_edge [] (journal_of ''source'' (sr_id r) d') (source_state_str (sr_state r))"
      using journal_okD(2)[OF ok(2)] by (simp add: c(5) journal_of_def)
  qed (use journal_ids_snoc[OF ok(2), of d'] in \<open>simp_all add: c(5)\<close>)
qed

section \<open>Calls that change layers\<close>

lemma struct_ok_add_layer:
  assumes "struct_ok d" "l_id l \<notin> set (map l_id (layers d))" "parent_ok (layers d) l"
    and d': "sources d' = sources d" "branches d' = branches d" "layers d' = layers d @ [l]"
  shows "struct_ok d'"
proof (rule struct_okI)
  show "distinct (map l_id (layers d'))" using struct_okD(3)[OF assms(1)] assms(2) by (simp add: d')
  show "layers_ok [] (layers d')" using struct_okD(7)[OF assms(1)] assms(3) by (simp add: d' layers_ok_snoc)
  show "base_ok (layers d') r" if "r \<in> set (branches d')" "live_branch r" for r
    using struct_okD(8)[OF assms(1), of r] that base_ok_mono[of "layers d" r "layers d'"] by (simp add: d' subset_insertI)
qed (use struct_okD[OF assms(1)] in \<open>simp_all add: d'\<close>)

lemma CreateLayer_ok:
  assumes "db_ok d" "CreateLayer nid l0 d = Inr (l, d')" "nid \<noteq> []" "lay_ParentLayerID l0 \<noteq> nid"
    and "\<And>q. q \<in> set (layers d) \<Longrightarrow> l_id q = lay_ParentLayerID l0 \<Longrightarrow> l_source_id q = lay_SourceID l0"
  shows "db_ok d'"
proof (rule db_okI)
  define row where "row = \<lparr>l_id = nid, l_source_id = lay_SourceID l0, l_volume = lay_Volume l0,
    l_parent_layer_id = nullable_str (lay_ParentLayerID l0)\<rparr>"
  have c: "nid \<notin> set (map l_id (layers d))" "has_layer (l_parent_layer_id row) (layers d @ [row])"
    "d' = d\<lparr>layers := layers d @ [row]\<rparr>"
    using assms(2) by (auto simp: CreateLayer_def Let_def row_def split: if_splits)
  have "parent_ok (layers d) row"
    using assms(3-5) by (intro has_layer_parent_ok[OF c(2)]) (auto simp: row_def nullable_str_def split: if_splits)
  then show "struct_ok d'"
    using c by (intro struct_ok_add_layer[OF db_ok_parts(1)[OF assms(1)], of row]) (auto simp: row_def)
  show "journal_ok d'"
    using db_ok_parts(2)[OF assms(1)] by (simp add: c(3) journal_ok_def journal_of_def)
qed

lemma layer_refs_base: "eid \<in> set (layer_refs n eid ls)"
  by (cases n) auto

lemma refcount_zero_base:
  assumes "CountBranchesReferencingLayer i d = 0" "r \<in> set (branches d)" "live_branch r"
  shows "br_base_layer_id r \<noteq> Some i"
proof
  assume "br_base_layer_id r = Some i"
  then have "references_layer i d r" using assms(3) by (simp add: references_layer_def layer_refs_base)
  with assms(1,2) show False by (auto simp: CountBranchesReferencingLayer_def filter_empty_conv)
qed

lemma DeleteLayer_ok:
  assumes "db_ok d" "DeleteLayer eid d = Inr d'" "CountBranchesReferencingLayer eid d = 0"
  shows "db_ok d'"
proof (rule db_okI)
  note ok = db_ok_parts[OF assms(1)]
  have d': "d' = d\<lparr>layers := filter (\<lambda>l. l_id l \<noteq> eid) (layers d)\<rparr>"
    and nochild: "\<And>l. l \<in> set (layers d) \<Longrightarrow> l_id l \<noteq> eid \<Longrightarrow> l_parent_layer_id l \<noteq> Some eid"
    using assms(2) by (auto simp: DeleteLayer_def Let_def split: if_splits)
  show "struct_ok d'"
  proof (rule struct_okI)
    show "distinct (map l_id (layers d'))" using struct_okD(3)[OF ok(1)] by (simp add: d' distinct_map_filter)
    show "layers_ok [] (layers d')"
      using layers_ok_filter[OF struct_okD(7)[OF ok(1)], of "\<lambda>l. l_id l \<noteq> eid"] nochild by (auto simp: d')
    show "base_ok (layers d') r" if "r \<in> set (branches d')" "live_branch r" for r
      using that struct_okD(8)[OF ok(1), of r] refcount_zero_base[OF assms(3), of r]
      by (auto simp: d' intro!: base_ok_filter)
  qed (use struct_okD[OF ok(1)] in \<open>simp_all add: d'\<close>)
  show "journal_ok d'" using ok(2) by (simp add: d' journal_ok_def journal_of_def)
qed

text \<open>
  \<open>CommitFreezeCtx\<close>: the child belongs to the parent's source (\<open>createBranchFrom\<close> copies the parent's
  \<open>SourceID\<close> onto the child).
\<close>

lemma CommitFreezeCtx_InrD:
  assumes "CommitFreezeCtx a now nid parentID childID layerVolume newRW c h p reason d = Inr (l, d')"
  obtains pr row where "pr \<in> set (branches d)" "br_id pr = parentID" "br_state pr = BranchResetting"
    "row = \<lparr>l_id = nid, l_source_id = br_source_id pr, l_volume = layerVolume,
        l_parent_layer_id = nullable_str (null_string (br_base_layer_id pr))\<rparr>"
    "nid \<notin> set (map l_id (layers d))" "has_layer (l_parent_layer_id row) (layers d @ [row])"
    "l = scanLayer row"
    "d' = (journalTx a now ''branch'' (br_id pr) (branch_state_str BranchResetting) (branch_state_str BranchReady) reason
       (d\<lparr>layers := layers d @ [row],
          branches := upd_where (\<lambda>r. br_id r = parentID)
            (\<lambda>r. set_branch_state BranchReady
              (r\<lparr>br_rw_volume := newRW, br_base_layer_id := Some nid, br_container_id := c, br_host := h,
                 br_port := p, br_pending_volume := [], br_updated_at := now\<rparr>)) (branches d)\<rparr>))
       \<lparr>branches := upd_where (\<lambda>r. br_id r = childID) (\<lambda>r. r\<lparr>br_base_layer_id := Some nid, br_updated_at := now\<rparr>)
          (upd_where (\<lambda>r. br_id r = parentID)
            (\<lambda>r. set_branch_state BranchReady
              (r\<lparr>br_rw_volume := newRW, br_base_layer_id := Some nid, br_container_id := c, br_host := h,
                 br_port := p, br_pending_volume := [], br_updated_at := now\<rparr>)) (branches d))\<rparr>"
  using assms
  by (auto simp: CommitFreezeCtx_def Let_def split: option.splits if_splits dest!: find_SomeD)

lemma CommitFreezeCtx_ok:
  assumes "db_ok d" "CommitFreezeCtx a now nid parentID childID layerVolume newRW c h p reason d = Inr (l, d')" "nid \<noteq> []"
    and child: "\<And>x y. x \<in> set (branches d) \<Longrightarrow> y \<in> set (branches d) \<Longrightarrow> br_id x = parentID \<Longrightarrow> br_id y = childID
      \<Longrightarrow> br_source_id x = br_source_id y"
  shows "db_ok d'"
proof -
  note ok = db_ok_parts[OF assms(1)]
  define f where "f = (\<lambda>r. set_branch_state BranchReady
      (r\<lparr>br_rw_volume := newRW, br_base_layer_id := Some nid, br_container_id := c, br_host := h,
         br_port := p, br_pending_volume := [], br_updated_at := now\<rparr>))"
  define g where "g = (\<lambda>r :: branch_row. r\<lparr>br_base_layer_id := Some nid, br_updated_at := now\<rparr>)"
  obtain pr row where pr: "pr \<in> set (branches d)" "br_id pr = parentID" "br_state pr = BranchResetting"
    and row: "row = \<lparr>l_id = nid, l_source_id = br_source_id pr, l_volume = layerVolume,
        l_parent_layer_id = nullable_str (null_string (br_base_layer_id pr))\<rparr>"
      "nid \<notin> set (map l_id (layers d))" "has_layer (l_parent_layer_id row) (layers d @ [row])"
    and d': "d' = (journalTx a now ''branch'' (br_id pr) (branch_state_str BranchResetting) (branch_state_str BranchReady) reason
       (d\<lparr>layers := layers d @ [row], branches := upd_where (\<lambda>r. br_id r = parentID) f (branches d)\<rparr>))
       \<lparr>branches := upd_where (\<lambda>r. br_id r = childID) g (upd_where (\<lambda>r. br_id r = parentID) f (branches d))\<rparr>"
    using assms(2) unfolding f_def g_def by (rule CommitFreezeCtx_InrD)
  have only: "q = pr" if "q \<in> set (branches d)" "br_id q = parentID" for q
    using branch_id_unique[OF ok(1) that(1) pr(1)] that(2) pr(2) by simp
  have fg: "br_id (f r) = br_id r" "br_name (f r) = br_name r" "br_source_id (f r) = br_source_id r"
    "br_state (f r) = BranchReady" "br_base_layer_id (f r) = Some nid" "br_id (g r) = br_id r"
    "br_name (g r) = br_name r" "br_source_id (g r) = br_source_id r" "br_state (g r) = br_state r"
    "br_base_layer_id (g r) = Some nid" for r by (simp_all add: f_def g_def)
  let ?ls = "layers d @ [row]" and ?d1 = "d\<lparr>layers := layers d @ [row]\<rparr>"
  let ?d2 = "?d1\<lparr>branches := upd_where (\<lambda>r. br_id r = parentID) f (branches d)\<rparr>"
  have live: "live_branch pr" using pr(3) by (simp add: live_branch_def)
  have "parent_ok (layers d) row"
    using struct_okD(8)[OF ok(1) pr(1) live] assms(3) row(2)
    by (intro has_layer_parent_ok[OF row(3)])
      (auto simp: row(1) nullable_str_def null_string_def base_ok_def list_ex_iff split: if_splits option.splits
        dest: distinct_map_unique[OF struct_okD(3)[OF ok(1)]])
  then have s1: "struct_ok ?d1" using row(2) by (intro struct_ok_add_layer[OF ok(1), of row]) (auto simp: row(1))
  have s2: "struct_ok ?d2"
  proof (rule struct_ok_upd_branches[OF s1, of "\<lambda>r. br_id r = parentID" f])
    fix r assume "r \<in> set (branches ?d1)" "br_id r = parentID"
    then have "r = pr" using only by simp
    with live show "keeps_branch (layers ?d1) r (f r)" by (simp add: keeps_branch_def fg base_ok_def row(1))
  qed simp_all
  have s3: "struct_ok d'"
  proof (rule struct_ok_upd_branches[OF s2, of "\<lambda>r. br_id r = childID" g])
    fix r assume r: "r \<in> set (branches ?d2)" "br_id r = childID"
    then obtain q where q: "q \<in> set (branches d)" "r = (if br_id q = parentID then f q else q)"
      by (auto simp: in_upd_where_iff)
    then have "br_id q = childID" "br_source_id r = br_source_id q" using r(2) by (auto simp: fg split: if_splits)
    then have "br_source_id r = br_source_id pr" using child[OF pr(1) q(1) pr(2)] by simp
    then show "keeps_branch (layers ?d2) r (g r)" by (simp add: keeps_branch_def fg base_ok_def row(1) live_branch_def)
  qed (simp_all add: d')
  have "journal_ok d'"
  proof (rule journal_ok_branch_move[OF ok(2)])
    show "transitions d' = transitions d @
      [journal_row a now ''branch'' (br_id pr) (branch_state_str BranchResetting) (branch_state_str BranchReady) reason d]"
      by (simp add: d' journal_row_def)
    show "legal_branch_edge (branch_state_str BranchResetting) (branch_state_str BranchReady)"
      by (rule legal_branch_edgeI) (simp add: legalBranchTransition_def)
  next
    fix x assume "x \<in> set (branches d')"
    then obtain y q where y: "x = (if br_id y = childID then g y else y)"
      and q: "q \<in> set (branches d)" "y = (if br_id q = parentID then f q else q)"
      by (auto simp: d' in_upd_where_iff)
    have "br_id x = br_id q \<and> br_state x = (if br_id q = parentID then BranchReady else br_state q)"
      by (simp add: y q(2) fg)
    with only[OF q(1)] pr(2,3) q(1) show "\<exists>q \<in> set (branches d). br_id x = br_id q \<and>
        (if br_id q = br_id pr then br_state q = BranchResetting \<and> br_state x = BranchReady else br_state x = br_state q)"
      by (intro bexI[of _ q]) auto
  qed (simp_all add: d')
  with s3 show ?thesis by (rule db_okI)
qed

section \<open>Calls that change sources\<close>

lemma deleteFailedSources_ok:
  assumes "db_ok d" "deleteFailedSources name d = Inr (n, d')"
  shows "db_ok d'"
proof (rule db_okI)
  note ok = db_ok_parts[OF assms(1)]
  let ?gone = "\<lambda>s. sr_name s = name \<and> sr_state s = SourceFailed"
  let ?ids = "set (map sr_id (filter ?gone (sources d)))"
  have d': "sources d' = filter (\<lambda>s. \<not> ?gone s) (sources d)" "branches d' = branches d" "layers d' = layers d"
    "transitions d' = transitions d" "transitions_seq d' = transitions_seq d"
    using assms(2) by (auto simp: deleteFailedSources_def Let_def split: if_splits)
  have fk: "br_source_id b \<in> sr_id ` set (sources d')" if "b \<in> set (branches d)" "br_source_id b \<in> ?ids" for b
    using assms(2) that unfolding d'(1) by (simp add: deleteFailedSources_def Let_def split: if_splits)
  show "struct_ok d'"
  proof (rule struct_okI)
    show "distinct (map sr_id (sources d'))" using struct_okD(1)[OF ok(1)] by (simp add: d' distinct_map_filter)
    have "filter live_source (sources d') = filter live_source (sources d)"
      unfolding d'(1) filter_filter by (rule filter_cong) (auto simp: live_source_def)
    then show "distinct (map sr_name (filter live_source (sources d')))" using struct_okD(4)[OF ok(1)] by simp
    show "br_source_id r \<in> sr_id ` set (sources d')" if r: "r \<in> set (branches d')" for r
    proof (cases "br_source_id r \<in> ?ids")
      case True
      then show ?thesis using fk[of r] r by (simp add: d'(2))
    next
      case False
      obtain s where "s \<in> set (sources d)" "br_source_id r = sr_id s"
        using struct_okD(6)[OF ok(1), of r] r by (auto simp: d'(2))
      with False show ?thesis by (auto simp: d'(1))
    qed
  qed (use struct_okD[OF ok(1)] in \<open>simp_all add: d'\<close>)
  show "journal_ok d'"
    by (rule journal_ok_silent[OF ok(2) d'(4,5)]) (auto simp: d')
qed

lemma deleteFailedSources_frame:
  assumes "deleteFailedSources name d = Inr (n, d')"
  shows "transitions d' = transitions d" "branches d' = branches d" "layers d' = layers d"
    "set (sources d') \<subseteq> set (sources d)" "api_tokens d' = api_tokens d"
  using assms by (auto simp: deleteFailedSources_def Let_def split: if_splits)

lemma CreateSourceCtx_InrD:
  assumes "CreateSourceCtx a now nid s0 d = Inr (s, d')"
  obtains n d1 where "deleteFailedSources (src_Name s0) d = Inr (n, d1)" "src_ID s = nid" "src_Name s = src_Name s0"
    "src_State s = SourceSeeding" "\<forall>x \<in> set (sources d1). sr_id x \<noteq> nid"
    "\<forall>x \<in> set (sources d1). sr_name x = src_Name s0 \<longrightarrow> \<not> live_source x"
    "d' = journalTx a now ''source'' nid [] (source_state_str SourceSeeding) ''created''
       (d1\<lparr>sources := sources d1 @ [insert_source s now]\<rparr>)"
  using assms
  by (auto simp: CreateSourceCtx_def Let_def find_None_iff_not live_source_def
      split: if_splits option.splits sum.splits)

lemma insert_source_simps [simp]:
  "sr_id (insert_source s now) = src_ID s" "sr_name (insert_source s now) = src_Name s"
  "sr_state (insert_source s now) = src_State s" "sr_volume (insert_source s now) = src_Volume s"
  by (simp_all add: insert_source_def)

lemma CreateSourceCtx_ok:
  assumes "db_ok d" "CreateSourceCtx a now nid s0 d = Inr (s, d')" "fresh_journal_id ''source'' nid d"
  shows "db_ok d'"
  using assms(2)
proof (rule CreateSourceCtx_InrD)
  fix n d1
  assume del: "deleteFailedSources (src_Name s0) d = Inr (n, d1)"
    and s: "src_ID s = nid" "src_Name s = src_Name s0" "src_State s = SourceSeeding"
    and new': "\<forall>x \<in> set (sources d1). sr_id x \<noteq> nid"
    and name: "\<forall>x \<in> set (sources d1). sr_name x = src_Name s0 \<longrightarrow> \<not> live_source x"
    and d': "d' = journalTx a now ''source'' nid [] (source_state_str SourceSeeding) ''created''
       (d1\<lparr>sources := sources d1 @ [insert_source s now]\<rparr>)"
  note ok = db_ok_parts[OF deleteFailedSources_ok[OF assms(1) del]]
  from new' have new: "nid \<notin> sr_id ` set (sources d1)" by auto
  show "db_ok d'"
  proof (rule db_okI)
    show "struct_ok d'"
    proof (rule struct_okI)
      show "distinct (map sr_name (filter live_source (sources d')))"
        using struct_okD(4)[OF ok(1)] name by (fastforce simp: d' s)
      show "distinct (map sr_id (sources d'))" using struct_okD(1)[OF ok(1)] new by (simp add: d' s)
      show "br_source_id r \<in> sr_id ` set (sources d')" if "r \<in> set (branches d')" for r
        using that struct_okD(6)[OF ok(1)] by (simp add: d')
    qed (use struct_okD[OF ok(1)] in \<open>simp_all add: d'\<close>)
    show "journal_ok d'"
    proof (rule journal_okI)
      fix r assume r: "r \<in> set (sources d')"
      show "journal_path legal_source_edge [] (journal_of ''source'' (sr_id r) d') (source_state_str (sr_state r))"
      proof (cases "sr_id r = nid")
        case True
        with r new have "r = insert_source s now" by (auto simp: d')
        moreover have "journal_of ''source'' nid (d1\<lparr>sources := sources d1 @ [insert_source s now]\<rparr>) = []"
          using fresh_journal_of[OF assms(3)] deleteFailedSources_frame(1)[OF del] by (simp add: journal_of_def)
        ultimately show ?thesis using True by (simp add: d' journal_of_journalTx s)
      next
        case False
        with r have "r \<in> set (sources d1)" by (auto simp: d' s)
        with journal_okD(2)[OF ok(2) this] False show ?thesis by (simp add: d' journal_of_def)
      qed
    next
      fix r assume "r \<in> set (branches d')"
      then show "journal_path legal_branch_edge [] (journal_of ''branch'' (br_id r) d') (branch_state_str (br_state r))"
        using journal_okD(1)[OF ok(2)] by (simp add: d' journal_of_def)
    qed (use journal_ids_snoc[OF ok(2), of d'] in \<open>simp_all add: d'\<close>)
  qed
qed

lemma SetSourceStateCtx_ok:
  assumes "db_ok d" "SetSourceStateCtx a now eid to reason d = Inr d'"
  shows "db_ok d'"
proof -
  obtain r where r: "r \<in> set (sources d)" "sr_id r = eid" "to \<in> set (legalSource (sr_state r))"
    and d': "d' = journalTx a now ''source'' (sr_id r) (source_state_str (sr_state r)) (source_state_str to) reason
      (d\<lparr>sources := upd_where (\<lambda>x. sr_id x = eid \<and> sr_state x = sr_state r)
         (\<lambda>x. x\<lparr>sr_state := to, sr_updated_at := now\<rparr>) (sources d)\<rparr>)"
    using assms(2) by (auto simp: SetSourceStateCtx_def Let_def split: option.splits if_splits dest!: find_SomeD)
  show ?thesis unfolding d' by (intro db_ok_source_move[OF assms(1) r(1)]) (use r in auto)
qed

lemma BumpSourceGenerationCtx_ok:
  assumes "db_ok d" "BumpSourceGenerationCtx a now eid vol d = Inr d'"
  shows "db_ok d'"
proof -
  let ?f = "\<lambda>s. s\<lparr>sr_generation := Suc (sr_generation s), sr_volume := vol, sr_pending_volume := [], sr_updated_at := now\<rparr>"
  have fnd: "find (\<lambda>s. sr_id s = eid) (upd_where (\<lambda>s. sr_id s = eid) ?f (sources d)) =
      map_option ?f (find (\<lambda>s. sr_id s = eid) (sources d))" by (rule find_upd_where) simp
  obtain r where r': "find (\<lambda>s. sr_id s = eid) (sources d) = Some r"
    using assms(2) by (cases "find (\<lambda>s. sr_id s = eid) (sources d)") (simp_all add: BumpSourceGenerationCtx_def fnd)
  then have r: "r \<in> set (sources d)" "sr_id r = eid" by (auto dest: find_SomeD)
  obtain reason where d': "d' = journalTx a now ''source'' (sr_id r) (source_state_str (sr_state r)) (source_state_str (sr_state r)) reason
      (d\<lparr>sources := upd_where (\<lambda>x. sr_id x = eid) ?f (sources d)\<rparr>)"
    using assms(2) r(2) by (auto simp: BumpSourceGenerationCtx_def fnd r')
  have same: "q = r" if "q \<in> set (sources d)" "sr_id q = eid" for q
    using source_id_unique[OF db_ok_parts(1)[OF assms(1)] that(1) r(1)] that(2) r(2) by simp
  show ?thesis unfolding d'
  proof (rule db_ok_source_move[OF assms(1) r(1)])
    fix q assume "q \<in> set (sources d)" "sr_id q = eid"
    from same[OF this] show "sr_id (?f q) = sr_id q \<and> sr_name (?f q) = sr_name q \<and> sr_state (?f q) = sr_state r" by simp
  qed (use r in simp_all)
qed

lemma FailStuckSource_ok:
  assumes "db_ok d" "FailStuckSource a now eid before reason d = (u, d')"
  shows "db_ok d'"
proof (cases "count_where (\<lambda>s. sr_id s = eid \<and> stuck_source before s) (sources d) = 1")
  case False
  then show ?thesis using assms by (simp add: FailStuckSource_def)
next
  case True
  then obtain r where r: "r \<in> set (sources d)" "sr_id r = eid" "stuck_source before r" using count_where_oneD by blast
  then have d': "d' = journalTx a now ''source'' (sr_id r) (source_state_str SourceSeeding) (source_state_str SourceFailed) reason
      (d\<lparr>sources := upd_where (\<lambda>s. sr_id s = eid \<and> stuck_source before s)
         (\<lambda>s. s\<lparr>sr_state := SourceFailed, sr_updated_at := now\<rparr>) (sources d)\<rparr>)"
    using assms(2) True by (simp add: FailStuckSource_def)
  show ?thesis unfolding d'
    by (intro db_ok_source_move[OF assms(1) r(1)]) (use r in \<open>auto simp: stuck_source_def\<close>)
qed

lemma SetSourcePendingVolume_ok: "db_ok d \<Longrightarrow> SetSourcePendingVolume eid v d = Inr d' \<Longrightarrow> db_ok d'"
  by (auto simp: SetSourcePendingVolume_def split: if_splits intro!: db_ok_source_columns)

lemma TouchSource_ok: "db_ok d \<Longrightarrow> db_ok (TouchSource now eid d)"
  unfolding TouchSource_def by (rule db_ok_source_columns) auto

text \<open>Removing a source: stamping the journal changes no state, id or order of its rows.\<close>

definition same_edge :: "transition_row \<Rightarrow> transition_row \<Rightarrow> bool" where
  "same_edge t t' \<longleftrightarrow> t_id t' = t_id t \<and> t_entity t' = t_entity t \<and> t_entity_id t' = t_entity_id t
     \<and> t_from_state t' = t_from_state t \<and> t_to_state t' = t_to_state t"

lemma journal_path_same_edge:
  "list_all2 same_edge ts us \<Longrightarrow> journal_path E s us e = journal_path E s ts e"
  by (induction arbitrary: s rule: list_all2_induct) (auto simp: same_edge_def)

lemma same_edge_filter:
  "list_all2 same_edge ts us \<Longrightarrow> list_all2 same_edge (filter (\<lambda>t. t_entity t = e \<and> t_entity_id t = i) ts)
     (filter (\<lambda>t. t_entity t = e \<and> t_entity_id t = i) us)"
  by (induction rule: list_all2_induct) (auto simp: same_edge_def)

lemma same_edge_ids: "list_all2 same_edge ts us \<Longrightarrow> map t_id us = map t_id ts"
  by (induction rule: list_all2_induct) (auto simp: same_edge_def)

lemma list_all2_upd_where:
  "(\<And>x. R x x) \<Longrightarrow> (\<And>x. P x \<Longrightarrow> R x (f x)) \<Longrightarrow> list_all2 R rows (upd_where P f rows)"
  by (induction rows) auto

lemma same_edge_trans: "list_all2 same_edge ts us \<Longrightarrow> list_all2 same_edge us vs \<Longrightarrow> list_all2 same_edge ts vs"
  by (rule list_all2_trans) (auto simp: same_edge_def)

definition stamp_branches :: "string \<Rightarrow> db \<Rightarrow> transition_row list" where
  "stamp_branches eid d =
     upd_where (\<lambda>t. t_entity t = ''branch'' \<and> t_entity_id t \<in> set (map br_id (filter (\<lambda>r. br_source_id r = eid) (branches d))))
       (\<lambda>t. t\<lparr>t_entity_name := (case find (\<lambda>r. br_id r = t_entity_id t) (branches d) of None \<Rightarrow> [] | Some r \<Rightarrow> br_name r)\<rparr>)
       (transitions d)"

lemma DeleteSourceCtx_InrD:
  assumes "DeleteSourceCtx a now eid d = Inr d'"
  obtains s t2 row where "s \<in> set (sources d)" "sr_id s = eid"
    "t2 = upd_where (\<lambda>t. t_entity t = ''source'' \<and> t_entity_id t = eid) (\<lambda>t. t\<lparr>t_entity_name := sr_name s\<rparr>) (stamp_branches eid d)"
    "transitions d' = t2 @ [row]" "t_entity row = ''source''" "t_entity_id row = eid" "t_id row = Suc (transitions_seq d)"
    "t_from_state row = source_state_str (sr_state s)" "t_to_state row = ''deleted''" "t_actor row = Actor_String a"
    "transitions_seq d' = Suc (transitions_seq d)" "layers d' = filter (\<lambda>l. l_source_id l \<noteq> eid) (layers d)"
    "branches d' = filter (\<lambda>r. br_source_id r \<noteq> eid) (branches d)" "sources d' = filter (\<lambda>x. sr_id x \<noteq> eid) (sources d)"
proof -
  obtain s where s: "find (\<lambda>s. sr_id s = eid) (sources d) = Some s"
    using assms by (auto simp: DeleteSourceCtx_def split: option.splits)
  show thesis
    by (rule that[of s "butlast (transitions d')" "last (transitions d')"])
      (use assms find_SomeD[OF s] in \<open>auto simp: DeleteSourceCtx_def s Let_def stamp_branches_def butlast_append split: if_splits\<close>)
qed

lemma stamp_same_edge:
  "list_all2 same_edge (transitions d)
     (upd_where (\<lambda>t. t_entity t = ''source'' \<and> t_entity_id t = eid) (\<lambda>t. t\<lparr>t_entity_name := n\<rparr>) (stamp_branches eid d))"
  by (rule same_edge_trans[of _ "stamp_branches eid d"])
    (auto simp: stamp_branches_def same_edge_def intro!: list_all2_upd_where)

lemma DeleteSourceCtx_struct_ok:
  assumes "struct_ok d" "DeleteSourceCtx a now eid d = Inr d'"
  shows "struct_ok d'"
proof -
  obtain s where d': "layers d' = filter (\<lambda>l. l_source_id l \<noteq> eid) (layers d)"
    "branches d' = filter (\<lambda>r. br_source_id r \<noteq> eid) (branches d)" "sources d' = filter (\<lambda>x. sr_id x \<noteq> eid) (sources d)"
    using assms(2) by (rule DeleteSourceCtx_InrD)
  note ok = struct_okD[OF assms(1)]
  show ?thesis
  proof (rule struct_okI)
    show "distinct (map sr_id (sources d'))" "distinct (map br_id (branches d'))" "distinct (map l_id (layers d'))"
      using ok(1-3) by (simp_all add: d' distinct_map_filter)
    show "distinct (map sr_name (filter live_source (sources d')))"
      using distinct_map_filter[OF ok(4), of "\<lambda>x. sr_id x \<noteq> eid"] by (simp add: d' conj_commute)
    show "distinct (map br_name (filter live_branch (branches d')))"
      using distinct_map_filter[OF ok(5), of "\<lambda>x. br_source_id x \<noteq> eid"] by (simp add: d' conj_commute)
    show "layers_ok [] (layers d')"
      using layers_ok_filter[OF ok(7), of "\<lambda>l. l_source_id l \<noteq> eid"] by (simp add: d')
    show "br_source_id r \<in> sr_id ` set (sources d')" if "r \<in> set (branches d')" for r
      using that ok(6)[of r] by (auto simp: d')
    show "base_ok (layers d') r" if "r \<in> set (branches d')" "live_branch r" for r
      using that ok(8)[of r] by (auto simp: d' intro!: base_ok_filter)
  qed
qed

lemma DeleteSourceCtx_journal_ok:
  assumes "journal_ok d" "DeleteSourceCtx a now eid d = Inr d'"
  shows "journal_ok d'"
  using assms(2)
proof (rule DeleteSourceCtx_InrD)
  fix s t2 row
  assume t2: "t2 = upd_where (\<lambda>t. t_entity t = ''source'' \<and> t_entity_id t = eid) (\<lambda>t. t\<lparr>t_entity_name := sr_name s\<rparr>) (stamp_branches eid d)"
    and d': "transitions d' = t2 @ [row]" "t_entity row = ''source''" "t_entity_id row = eid" "t_id row = Suc (transitions_seq d)"
      "transitions_seq d' = Suc (transitions_seq d)"
    and rows: "branches d' = filter (\<lambda>r. br_source_id r \<noteq> eid) (branches d)" "sources d' = filter (\<lambda>x. sr_id x \<noteq> eid) (sources d)"
  have e: "list_all2 same_edge (transitions d) t2" unfolding t2 by (rule stamp_same_edge)
  have path: "journal_path E s (filter (\<lambda>t. t_entity t = en \<and> t_entity_id t = i) t2) x = journal_path E s (journal_of en i d) x" for E s en i x
    unfolding journal_of_def by (rule journal_path_same_edge[OF same_edge_filter[OF e]])
  have ids: "map t_id t2 = map t_id (transitions d)" using e by (rule same_edge_ids)
  show "journal_ok d'"
  proof (rule journal_okI)
    fix r assume "r \<in> set (branches d')"
    then show "journal_path legal_branch_edge [] (journal_of ''branch'' (br_id r) d') (branch_state_str (br_state r))"
      using journal_okD(1)[OF assms(1), of r] by (simp add: journal_of_def[of _ _ d'] d' rows path)
  next
    fix r assume "r \<in> set (sources d')"
    then show "journal_path legal_source_edge [] (journal_of ''source'' (sr_id r) d') (source_state_str (sr_state r))"
      using journal_okD(2)[OF assms(1), of r] by (auto simp: journal_of_def[of _ _ d'] d' rows path)
  next
    have "t_id ` set t2 = t_id ` set (transitions d)" using arg_cong[OF ids, of set] by simp
    then have le: "t_id t \<le> transitions_seq d" if "t \<in> set t2" for t
      using journal_okD(4)[OF assms(1)] that by (metis image_iff)
    show "sorted_wrt (<) (map t_id (transitions d'))"
      using journal_okD(3,4)[OF assms(1)] by (auto simp: d' ids sorted_wrt_append less_Suc_eq_le)
    show "t_id t \<le> transitions_seq d'" if "t \<in> set (transitions d')" for t
      using that le by (auto simp: d' le_SucI)
  qed
qed

lemma DeleteSourceCtx_ok: "db_ok d \<Longrightarrow> DeleteSourceCtx a now eid d = Inr d' \<Longrightarrow> db_ok d'"
  by (auto simp: db_ok_def intro: DeleteSourceCtx_struct_ok DeleteSourceCtx_journal_ok)

section \<open>Reachable databases\<close>

inductive reg_step :: "db \<Rightarrow> db \<Rightarrow> bool" where
  create_source: "CreateSourceCtx a now nid s0 d = Inr (s, d') \<Longrightarrow> fresh_journal_id ''source'' nid d \<Longrightarrow> reg_step d d'"
| delete_failed: "DeleteFailedSources name d = Inr (n, d') \<Longrightarrow> reg_step d d'"
| source_state: "SetSourceStateCtx a now eid sto reason d = Inr d' \<Longrightarrow> reg_step d d'"
| bump_source: "BumpSourceGenerationCtx a now eid vol d = Inr d' \<Longrightarrow> reg_step d d'"
| source_pending: "SetSourcePendingVolume eid vol d = Inr d' \<Longrightarrow> reg_step d d'"
| touch_source: "reg_step d (TouchSource now eid d)"
| stuck_source: "FailStuckSource a now eid before reason d = (u, d') \<Longrightarrow> reg_step d d'"
| delete_source: "DeleteSourceCtx a now eid d = Inr d' \<Longrightarrow> reg_step d d'"
| create_branch: "CreateBranchCtx a now nid b0 d = Inr (b, d') \<Longrightarrow> fresh_journal_id ''branch'' nid d
    \<Longrightarrow> base_ok (layers d) (insert_branch b0 now) \<Longrightarrow> reg_step d d'"
| transition_branch: "TransitionBranchCtx a now eid to reason d = Inr d' \<Longrightarrow> reg_step d d'"
| branch_ready: "MarkBranchReadyCtx a now eid c h p d = Inr d' \<Longrightarrow> reg_step d d'"
| branch_password: "store_branch_password now eid stored d = Inr d' \<Longrightarrow> reg_step d d'"
| branch_container: "reg_step d (SetBranchContainer now eid c d)"
| touch_branch: "reg_step d (TouchBranch now eid d)"
| note_branch: "NoteBranchCtx a now eid reason d = Inr d' \<Longrightarrow> reg_step d d'"
| branch_pending: "SetBranchPendingVolume eid vol d = Inr d' \<Longrightarrow> reg_step d d'"
| endpoint: "reg_step d (snd (UpdateBranchEndpoint eid from c h p d))"
| endpoint_journaled: "UpdateBranchEndpointCtx a now eid from c h p reason d = (u, d') \<Longrightarrow> reg_step d d'"
| fail_ready: "FailReadyBranch a now eid c reason d = Inr (u, d') \<Longrightarrow> reg_step d d'"
| stuck_branch: "FailStuckBranch a now eid before reason d = Inr (u, d') \<Longrightarrow> reg_step d d'"
| delete_layer: "DeleteLayer eid d = Inr d' \<Longrightarrow> CountBranchesReferencingLayer eid d = 0 \<Longrightarrow> reg_step d d'"
| commit_freeze: "CommitFreezeCtx a now nid parentID childID vol rw c h p reason d = Inr (l, d') \<Longrightarrow> nid \<noteq> []
    \<Longrightarrow> (\<And>x y. x \<in> set (branches d) \<Longrightarrow> y \<in> set (branches d) \<Longrightarrow> br_id x = parentID \<Longrightarrow> br_id y = childID
          \<Longrightarrow> br_source_id x = br_source_id y) \<Longrightarrow> reg_step d d'"
| mask_scripts: "reg_step d (SetMaskScripts sid scripts d)"
| create_token: "CreateAPIToken hash now nid plain name role d = Inr (t, d') \<Longrightarrow> reg_step d d'"
| revoke_token: "RevokeAPIToken name d = Inr d' \<Longrightarrow> reg_step d d'"

inductive reg_reachable :: "db \<Rightarrow> bool" where
  start: "reg_reachable empty_db"
| step: "reg_reachable d \<Longrightarrow> reg_step d d' \<Longrightarrow> reg_reachable d'"

lemma DeleteFailedSources_ok: "db_ok d \<Longrightarrow> DeleteFailedSources name d = Inr (n, d') \<Longrightarrow> db_ok d'"
  unfolding DeleteFailedSources_def by (rule deleteFailedSources_ok)

lemma CreateAPIToken_ok: "db_ok d \<Longrightarrow> CreateAPIToken hash now nid plain name role d = Inr (t, d') \<Longrightarrow> db_ok d'"
  by (auto simp: CreateAPIToken_def split: option.splits if_splits intro: db_ok_cong)

lemma RevokeAPIToken_ok: "db_ok d \<Longrightarrow> RevokeAPIToken name d = Inr d' \<Longrightarrow> db_ok d'"
  by (auto simp: RevokeAPIToken_def split: if_splits intro: db_ok_cong)

lemma SetMaskScripts_ok: "db_ok d \<Longrightarrow> db_ok (SetMaskScripts sid scripts d)"
  by (erule db_ok_cong) (simp_all add: SetMaskScripts_def)

lemmas registry_calls_ok =
  CreateSourceCtx_ok DeleteFailedSources_ok SetSourceStateCtx_ok BumpSourceGenerationCtx_ok SetSourcePendingVolume_ok
  TouchSource_ok FailStuckSource_ok DeleteSourceCtx_ok CreateBranchCtx_ok TransitionBranchCtx_ok MarkBranchReadyCtx_ok
  store_branch_password_ok SetBranchContainer_ok TouchBranch_ok NoteBranchCtx_ok SetBranchPendingVolume_ok
  UpdateBranchEndpoint_ok UpdateBranchEndpointCtx_ok FailReadyBranch_ok FailStuckBranch_ok DeleteLayer_ok
  CommitFreezeCtx_ok SetMaskScripts_ok CreateAPIToken_ok RevokeAPIToken_ok

lemma reg_step_ok: "reg_step d d' \<Longrightarrow> db_ok d \<Longrightarrow> db_ok d'"
  by (induction rule: reg_step.induct) (blast intro: registry_calls_ok)+

lemma reachable_db_ok: "reg_reachable d \<Longrightarrow> db_ok d"
  by (induction rule: reg_reachable.induct) (auto intro: db_ok_empty reg_step_ok)

end
