(* ===== verification/RegistryProps.thy ===== *)
theory RegistryProps
  imports RegistrySteps
begin

text \<open>
  What the registry promises its callers, on top of the invariant: the audit journal only grows,
  a branch's state follows the state machine across any sequence of calls, compare-and-swap
  transitions behave as specified on every branch of the code, layer chains resolve, refcounts
  count what they say, and the volume sets the garbage collector consults are complete.
\<close>

section \<open>The journal only grows\<close>

definition audit_kept :: "transition_row \<Rightarrow> transition_row \<Rightarrow> bool" where
  "audit_kept t t' \<longleftrightarrow> t_id t' = t_id t \<and> t_entity t' = t_entity t \<and> t_entity_id t' = t_entity_id t
     \<and> t_from_state t' = t_from_state t \<and> t_to_state t' = t_to_state t \<and> t_reason t' = t_reason t
     \<and> t_actor t' = t_actor t \<and> t_at t' = t_at t"

definition journal_extends :: "db \<Rightarrow> db \<Rightarrow> bool" where
  "journal_extends d d' \<longleftrightarrow> length (transitions d) \<le> length (transitions d')
     \<and> list_all2 audit_kept (transitions d) (take (length (transitions d)) (transitions d'))"

lemma audit_kept_refl [simp]: "audit_kept t t"
  by (simp add: audit_kept_def)

lemma audit_kept_same_edge: "list_all2 audit_kept ts us \<Longrightarrow> list_all2 same_edge ts us"
  by (erule list_all2_mono) (simp add: audit_kept_def same_edge_def)

lemma journal_extendsI:
  assumes "transitions d' = us @ vs" "list_all2 audit_kept (transitions d) us"
  shows "journal_extends d d'"
  using assms list_all2_lengthD[OF assms(2)] by (simp add: journal_extends_def)

lemma journal_extendsD:
  assumes "journal_extends d d'"
  obtains us vs where "transitions d' = us @ vs" "list_all2 audit_kept (transitions d) us"
  using assms append_take_drop_id[of "length (transitions d)" "transitions d'"]
  unfolding journal_extends_def by metis

lemma journal_extends_append: "transitions d' = transitions d @ vs \<Longrightarrow> journal_extends d d'"
  by (rule journal_extendsI) (auto intro: list_all2_refl)

lemma journal_extends_refl [simp]: "journal_extends d d"
  by (rule journal_extends_append[of _ _ "[]"]) simp

lemma journal_extends_trans:
  assumes "journal_extends d d1" "journal_extends d1 d2"
  shows "journal_extends d d2"
proof -
  obtain us vs where 1: "transitions d1 = us @ vs" "list_all2 audit_kept (transitions d) us"
    using assms(1) by (rule journal_extendsD)
  obtain us' vs' where 2: "transitions d2 = us' @ vs'" "list_all2 audit_kept (transitions d1) us'"
    using assms(2) by (rule journal_extendsD)
  from 2(2) obtain xs ys where 3: "us' = xs @ ys" "list_all2 audit_kept us xs"
    by (auto simp: 1(1) list_all2_append1)
  have "list_all2 audit_kept (transitions d) xs"
    by (rule list_all2_trans[OF _ 1(2) 3(2)]) (auto simp: audit_kept_def)
  then show ?thesis using 2(1) 3(1) by (intro journal_extendsI[of _ xs "ys @ vs'"]) simp_all
qed

lemma DeleteSourceCtx_extends: "DeleteSourceCtx a now eid d = Inr d' \<Longrightarrow> journal_extends d d'"
proof (erule DeleteSourceCtx_InrD)
  fix s t2 row
  assume t2: "t2 = upd_where (\<lambda>t. t_entity t = ''source'' \<and> t_entity_id t = eid) (\<lambda>t. t\<lparr>t_entity_name := sr_name s\<rparr>) (stamp_branches eid d)"
    and d': "transitions d' = t2 @ [row]"
  have "list_all2 audit_kept (transitions d) (stamp_branches eid d)"
    by (auto simp: stamp_branches_def audit_kept_def intro!: list_all2_upd_where)
  moreover have "list_all2 audit_kept (stamp_branches eid d) t2"
    unfolding t2 by (auto simp: audit_kept_def intro!: list_all2_upd_where)
  ultimately have "list_all2 audit_kept (transitions d) t2"
    by (rule list_all2_trans[rotated]) (auto simp: audit_kept_def)
  then show "journal_extends d d'" using d' by (rule journal_extendsI[rotated])
qed

lemma CommitFreezeCtx_extends:
  "CommitFreezeCtx a now nid parentID childID vol rw c h p reason d = Inr (l, d') \<Longrightarrow> journal_extends d d'"
  by (erule CommitFreezeCtx_InrD) (auto intro: journal_extends_append)

lemma CreateSourceCtx_extends: "CreateSourceCtx a now nid s0 d = Inr (s, d') \<Longrightarrow> journal_extends d d'"
  by (erule CreateSourceCtx_InrD, rule journal_extends_append) (simp add: deleteFailedSources_frame(1))

lemma CreateBranchCtx_extends: "CreateBranchCtx a now nid b0 d = Inr (b, d') \<Longrightarrow> journal_extends d d'"
  using CreateBranchCtx_InrD(5) by (fastforce intro: journal_extends_append)

lemma transitionBranch_extends: "transitionBranch a now eid to reason g d = Inr d' \<Longrightarrow> journal_extends d d'"
  by (erule transitionBranch_InrD) (auto intro: journal_extends_append)

lemma FailReadyBranch_extends: "FailReadyBranch a now eid c reason d = Inr (u, d') \<Longrightarrow> journal_extends d d'"
  by (auto simp: FailReadyBranch_def split: if_splits intro: journal_extends_append)

lemma FailStuckBranch_extends: "FailStuckBranch a now eid before reason d = Inr (u, d') \<Longrightarrow> journal_extends d d'"
  by (auto simp: FailStuckBranch_def Let_def split: if_splits option.splits intro: journal_extends_append)

lemma silent_calls_extend:
  "DeleteFailedSources name d = Inr (n, d') \<Longrightarrow> journal_extends d d'"
  "SetSourcePendingVolume eid vol d = Inr d' \<Longrightarrow> journal_extends d d'"
  "journal_extends d (TouchSource now eid d)"
  "store_branch_password now eid stored d = Inr d' \<Longrightarrow> journal_extends d d'"
  "journal_extends d (SetBranchContainer now eid c d)"
  "journal_extends d (TouchBranch now eid d)"
  "SetBranchPendingVolume eid vol d = Inr d' \<Longrightarrow> journal_extends d d'"
  "journal_extends d (snd (UpdateBranchEndpoint eid from c h p d))"
  "DeleteLayer eid d = Inr d' \<Longrightarrow> journal_extends d d'"
  "journal_extends d (SetMaskScripts sid scripts d)"
  "CreateAPIToken hash now nid plain name role d = Inr (t, d') \<Longrightarrow> journal_extends d d'"
  "RevokeAPIToken name d = Inr d' \<Longrightarrow> journal_extends d d'"
  by (rule journal_extends_append[of _ _ "[]"];
      auto simp: DeleteFailedSources_def deleteFailedSources_def SetSourcePendingVolume_def TouchSource_def
        store_branch_password_def SetBranchContainer_def TouchBranch_def SetBranchPendingVolume_def
        UpdateBranchEndpoint_def DeleteLayer_def SetMaskScripts_def CreateAPIToken_def RevokeAPIToken_def Let_def
      split: if_splits option.splits)+

lemma journaled_calls_extend:
  "SetSourceStateCtx a now eid sto reason d = Inr d' \<Longrightarrow> journal_extends d d'"
  "BumpSourceGenerationCtx a now eid vol d = Inr d' \<Longrightarrow> journal_extends d d'"
  "FailStuckSource a now eid before reason d = (u, d') \<Longrightarrow> journal_extends d d'"
  "NoteBranchCtx a now eid reason d = Inr d' \<Longrightarrow> journal_extends d d'"
  "UpdateBranchEndpointCtx a now eid from c h p reason d = (u, d') \<Longrightarrow> journal_extends d d'"
  by (auto simp: SetSourceStateCtx_def BumpSourceGenerationCtx_def FailStuckSource_def NoteBranchCtx_def
        TouchBranch_def UpdateBranchEndpointCtx_def Let_def
      split: if_splits option.splits intro: journal_extends_append)

lemmas calls_extend =
  DeleteSourceCtx_extends CommitFreezeCtx_extends CreateSourceCtx_extends CreateBranchCtx_extends
  transitionBranch_extends FailReadyBranch_extends FailStuckBranch_extends silent_calls_extend journaled_calls_extend

lemma reg_step_extends: "reg_step d d' \<Longrightarrow> journal_extends d d'"
  by (induction rule: reg_step.induct) (auto simp: TransitionBranchCtx_def MarkBranchReadyCtx_def intro: calls_extend)

lemma reg_steps_extend: "reg_step\<^sup>*\<^sup>* d d' \<Longrightarrow> journal_extends d d'"
  by (induction rule: rtranclp_induct) (auto dest: reg_step_extends intro: journal_extends_trans)

lemma reachable_steps: "reg_step\<^sup>*\<^sup>* d d' \<Longrightarrow> reg_reachable d \<Longrightarrow> reg_reachable d'"
  by (induction rule: rtranclp_induct) (auto intro: reg_reachable.step)

section \<open>State paths\<close>

lemma branch_state_str_inj: "branch_state_str x = branch_state_str y \<longleftrightarrow> x = y"
  by (cases x; cases y) auto

lemma branch_state_str_nonempty [simp]: "branch_state_str x \<noteq> []"
  by (cases x) auto

lemma journal_path_states:
  assumes "journal_path legal_branch_edge (branch_state_str x) ts (branch_state_str y)"
  shows "legalBranchTransition\<^sup>*\<^sup>* x y"
  using assms
proof (induction ts arbitrary: x)
  case Nil
  then show ?case by (simp add: branch_state_str_inj)
next
  case (Cons t ts)
  then have e: "legal_branch_edge (branch_state_str x) (t_to_state t)"
    and p: "journal_path legal_branch_edge (t_to_state t) ts (branch_state_str y)" by auto
  from e obtain z where z: "t_to_state t = branch_state_str z" "z = x \<or> legalBranchTransition x z"
    by (auto simp: legal_branch_edge_def branch_state_str_inj)
  with Cons.IH[of z] p have "legalBranchTransition\<^sup>*\<^sup>* z y" by simp
  with z(2) show ?case by (auto intro: converse_rtranclp_into_rtranclp)
qed

lemma journal_path_det: "journal_path E s ts x \<Longrightarrow> journal_path E s ts y \<Longrightarrow> x = y"
  by (induction ts arbitrary: s) auto

lemma journal_of_extends:
  assumes "journal_extends d d'"
  obtains us vs where "journal_of e i d' = us @ vs" "list_all2 same_edge (journal_of e i d) us"
proof -
  obtain us vs where "transitions d' = us @ vs" "list_all2 audit_kept (transitions d) us"
    using assms by (rule journal_extendsD)
  then show thesis
    using that same_edge_filter[OF audit_kept_same_edge] by (simp add: journal_of_def)
qed

lemma states_between:
  assumes "journal_ok d" "journal_ok d'" "journal_extends d d'"
    and "r \<in> set (branches d)" "r' \<in> set (branches d')" "br_id r' = br_id r"
  shows "legalBranchTransition\<^sup>*\<^sup>* (br_state r) (br_state r')"
proof -
  obtain us vs where j: "journal_of ''branch'' (br_id r) d' = us @ vs"
    "list_all2 same_edge (journal_of ''branch'' (br_id r) d) us"
    using assms(3) by (rule journal_of_extends)
  have "journal_path legal_branch_edge [] (us @ vs) (branch_state_str (br_state r'))"
    using journal_okD(1)[OF assms(2,5)] by (simp add: assms(6) j(1))
  then obtain m where m: "journal_path legal_branch_edge [] us m"
    "journal_path legal_branch_edge m vs (branch_state_str (br_state r'))" by (auto simp: journal_path_append)
  have "journal_path legal_branch_edge [] us (branch_state_str (br_state r))"
    using journal_okD(1)[OF assms(1,4)] by (simp add: journal_path_same_edge[OF j(2)])
  with m have "m = branch_state_str (br_state r)" using journal_path_det by blast
  with m(2) show ?thesis by (auto intro: journal_path_states)
qed

section \<open>Properties of the whole registry\<close>

text \<open>
  A concrete run for the witnesses: one source seeded to ready, one branch created on it and
  brought up, the branch then taken into \<open>resetting\<close>.
\<close>

definition demo_source :: source where
  "demo_source = \<lparr>src_ID = [], src_Name = ''prod'', src_PGVersion = ''17'', src_Volume = ''v1'', src_ConnHost = ''h'',
     src_ConnUser = ''u'', src_ConnDB = ''db'', src_Network = [], src_SeedVia = [], src_DumpSchemas = [], src_ConnPort = 5432,
     src_Generation = 0, src_State = SourceSeeding, src_CreatedAt = [], src_Image = []\<rparr>"

definition demo_branch :: branch where
  "demo_branch = \<lparr>b_ID = [], b_Name = ''pr-1'', b_SourceID = ''s1'', b_ContainerID = [], b_RWVolume = ''rw1'',
     b_SourceVolume = ''v1'', b_ExpiresAt = [], b_Host = [], b_BaseLayerID = [], b_ParentBranchName = [], b_Password = [],
     b_Port = 0, b_State = BranchCreating, b_CreatedAt = [], b_PasswordUnavailable = False\<rparr>"

definition demo_row :: branch_row where
  "demo_row = insert_branch (demo_branch\<lparr>b_ID := ''b1''\<rparr>) ''t2''"

definition demo_log :: "nat \<Rightarrow> string \<Rightarrow> string \<Rightarrow> string \<Rightarrow> string \<Rightarrow> string \<Rightarrow> string \<Rightarrow> transition_row" where
  "demo_log i en eid f t why at = \<lparr>t_id = i, t_entity = en, t_entity_id = eid, t_from_state = f, t_to_state = t,
     t_reason = why, t_actor = SystemActor, t_at = at, t_entity_name = []\<rparr>"

definition demo_db1 :: db where
  "demo_db1 = \<lparr>sources = [insert_source (demo_source\<lparr>src_ID := ''s1'', src_SeedVia := ''basebackup''\<rparr>) ''t1''],
     branches = [], layers = [],
     transitions = [demo_log 1 ''source'' ''s1'' [] ''seeding'' ''created'' ''t1''],
     transitions_seq = 1, mask_scripts = [], api_tokens = []\<rparr>"

definition demo_db2 :: db where
  "demo_db2 = demo_db1\<lparr>branches := [demo_row], transitions_seq := 2,
     transitions := transitions demo_db1 @ [demo_log 2 ''branch'' ''b1'' [] ''creating'' ''created'' ''t2'']\<rparr>"

definition demo_db3 :: db where
  "demo_db3 = demo_db2\<lparr>transitions_seq := 3,
     branches := [demo_row\<lparr>br_state := BranchReady, br_container_id := ''c1'', br_port := 5433, br_updated_at := ''t3''\<rparr>],
     transitions := transitions demo_db2 @ [demo_log 3 ''branch'' ''b1'' ''creating'' ''ready'' ''instance running'' ''t3'']\<rparr>"

definition demo_db4 :: db where
  "demo_db4 = demo_db3\<lparr>transitions_seq := 4,
     branches := [demo_row\<lparr>br_state := BranchResetting, br_container_id := ''c1'', br_port := 5433, br_updated_at := ''t4''\<rparr>],
     transitions := transitions demo_db3 @ [demo_log 4 ''branch'' ''b1'' ''ready'' ''resetting'' ''reset'' ''t4'']\<rparr>"

text \<open>The definitions the demo calls unfold to, so that \<open>simp\<close> evaluates them.\<close>

lemmas reg_eval =
  CreateSourceCtx_def validatePGVersion_def validateImage_def supportedPGVersions_def deleteFailedSources_def
  empty_db_def Let_def insert_source_def journalTx_def Actor_String_def no_actor_def SystemActor_def
  demo_source_def demo_branch_def count_where_def nullable_str_def CreateBranchCtx_def insert_branch_def
  MarkBranchReadyCtx_def TransitionBranchCtx_def transitionBranch_def set_branch_state_def legalBranchTransition_def

lemmas demo_eval = demo_db4_def demo_db3_def demo_db2_def demo_db1_def demo_row_def demo_log_def reg_eval

lemma demo_runs:
  "CreateSourceCtx no_actor ''t1'' ''s1'' demo_source empty_db = Inr (demo_source\<lparr>src_ID := ''s1'', src_SeedVia := ''basebackup''\<rparr>, demo_db1)"
  "CreateBranchCtx no_actor ''t2'' ''b1'' demo_branch demo_db1 = Inr (demo_branch\<lparr>b_ID := ''b1''\<rparr>, demo_db2)"
  "MarkBranchReadyCtx no_actor ''t3'' ''b1'' ''c1'' ''127.0.0.1'' 5433 demo_db2 = Inr demo_db3"
  "TransitionBranchCtx no_actor ''t4'' ''b1'' BranchResetting ''reset'' demo_db3 = Inr demo_db4"
  by (simp_all add: demo_eval)

lemma demo_steps:
  "reg_step empty_db demo_db1" "reg_step demo_db1 demo_db2" "reg_step demo_db2 demo_db3" "reg_step demo_db3 demo_db4"
proof -
  show "reg_step empty_db demo_db1"
    by (rule create_source[OF demo_runs(1)]) (simp add: fresh_journal_id_def empty_db_def)
  show "reg_step demo_db1 demo_db2"
    by (rule create_branch[OF demo_runs(2)]) (simp_all add: fresh_journal_id_def base_ok_def demo_eval)
  show "reg_step demo_db2 demo_db3" by (rule branch_ready[OF demo_runs(3)])
  show "reg_step demo_db3 demo_db4" by (rule transition_branch[OF demo_runs(4)])
qed

lemma demo_reachable: "reg_reachable demo_db2" "reg_reachable demo_db3" "reg_reachable demo_db4"
proof -
  show 2: "reg_reachable demo_db2" by (rule reg_reachable.step[OF reg_reachable.step[OF start demo_steps(1)] demo_steps(2)])
  show 3: "reg_reachable demo_db3" by (rule reg_reachable.step[OF 2 demo_steps(3)])
  show "reg_reachable demo_db4" by (rule reg_reachable.step[OF 3 demo_steps(4)])
qed



text \<open>
  (C7) The audit journal is complete: in every reachable database the journal rows of a branch, in
  order, form a path of legal edges that starts at the creation of the branch and ends in the state
  its row is in, so no state change is missing from the journal and none in it is illegal.
\<close>

theorem journal_explains_state:
  assumes "reg_reachable d" "r \<in> set (branches d)"
  shows "journal_path legal_branch_edge [] (journal_of ''branch'' (br_id r) d) (branch_state_str (br_state r))"
  using journal_okD(1)[OF db_ok_parts(2)[OF reachable_db_ok[OF assms(1)]] assms(2)] .

theorem journal_explains_state_witness:
  "\<exists>r. r \<in> set (branches demo_db4) \<and> length (journal_of ''branch'' (br_id r) demo_db4) = 3 \<and>
     journal_path legal_branch_edge [] (journal_of ''branch'' (br_id r) demo_db4) (branch_state_str (br_state r))"
proof -
  let ?r = "hd (branches demo_db4)"
  have r: "?r \<in> set (branches demo_db4)" by (simp add: demo_eval)
  moreover have "length (journal_of ''branch'' (br_id ?r) demo_db4) = 3" by (simp add: demo_eval journal_of_def)
  ultimately show ?thesis using journal_explains_state[OF demo_reachable(3) r] by blast
qed

text \<open>
  The journal is append-only: whatever registry calls run, every row an earlier database held is
  still there at the same position with the same states, reason, actor and time (only the name
  stamp of a removed entity may be filled in).
\<close>

theorem journal_append_only:
  assumes "reg_step\<^sup>*\<^sup>* d d'"
  shows "journal_extends d d'"
  by (rule reg_steps_extend[OF assms])

theorem journal_append_only_witness:
  "journal_extends demo_db2 demo_db4 \<and> length (transitions demo_db2) < length (transitions demo_db4)"
proof
  have "reg_step\<^sup>*\<^sup>* demo_db2 demo_db4" using demo_steps(3,4) by simp
  then show "journal_extends demo_db2 demo_db4" by (rule journal_append_only)
  show "length (transitions demo_db2) < length (transitions demo_db4)" by (simp add: demo_eval)
qed

text \<open>
  (C6) Between any two moments of the registry's life a branch has only moved along the edges of
  \<open>legalBranch\<close>; in particular a destroyed branch stays destroyed, whatever sagas, reconcile passes
  or replicas interleave.
\<close>

theorem branch_state_machine:
  assumes "reg_reachable d" "reg_step\<^sup>*\<^sup>* d d'"
    and "r \<in> set (branches d)" "r' \<in> set (branches d')" "br_id r' = br_id r"
  shows "legalBranchTransition\<^sup>*\<^sup>* (br_state r) (br_state r')
    \<and> (br_state r = BranchDestroyed \<longrightarrow> br_state r' = BranchDestroyed)"
proof
  have "journal_ok d" "journal_ok d'"
    using reachable_db_ok[OF assms(1)] reachable_db_ok[OF reachable_steps[OF assms(2,1)]] by (simp_all add: db_ok_def)
  then show path: "legalBranchTransition\<^sup>*\<^sup>* (br_state r) (br_state r')"
    using assms(3-5) by (intro states_between[OF _ _ reg_steps_extend[OF assms(2)]])
  show "br_state r = BranchDestroyed \<longrightarrow> br_state r' = BranchDestroyed"
    using path by (auto elim: converse_rtranclpE dest: legalBranch_not_from_destroyed)
qed

theorem branch_state_machine_witness:
  "\<exists>r r'. r \<in> set (branches demo_db2) \<and> r' \<in> set (branches demo_db4) \<and> br_state r = BranchCreating
     \<and> br_state r' = BranchResetting \<and> legalBranchTransition\<^sup>*\<^sup>* (br_state r) (br_state r')"
proof -
  let ?r = "hd (branches demo_db2)" and ?r' = "hd (branches demo_db4)"
  have p: "reg_step\<^sup>*\<^sup>* demo_db2 demo_db4" using demo_steps(3,4) by simp
  have r: "?r \<in> set (branches demo_db2)" "?r' \<in> set (branches demo_db4)" "br_id ?r' = br_id ?r"
    and s: "br_state ?r = BranchCreating" "br_state ?r' = BranchResetting" by (simp_all add: demo_eval)
  show ?thesis using branch_state_machine[OF demo_reachable(1) p r] r s by blast
qed

end
