(* ===== verification/RegistryLayers.thy ===== *)
theory RegistryLayers
  imports RegistryProps
begin

text \<open>
  Layer chains, refcounts and volume sets. In a database that satisfies the invariant the walk of
  \<open>LayerChain\<close> ends and visits exactly the ancestors of the branch's base layer, the recursive query
  of \<open>CountBranchesReferencingLayer\<close> counts the live branches whose chain holds the layer, and
  \<open>LiveVolumeSet\<close> names every volume a live branch can mount.
\<close>

section \<open>Walking a layer chain\<close>

lemma layers_ok_parent:
  assumes "layers_ok seen ls" "i < length ls" "l_parent_layer_id (ls ! i) = Some p"
  shows "\<exists>q \<in> set (seen @ take i ls). l_id q = p \<and> l_source_id q = l_source_id (ls ! i)"
  using assms
proof (induction ls arbitrary: seen i)
  case (Cons l ls)
  show ?case
  proof (cases i)
    case 0
    then show ?thesis using Cons.prems by (auto simp: parent_ok_def list_ex_iff)
  next
    case (Suc j)
    then show ?thesis using Cons.IH[of "seen @ [l]" j] Cons.prems by auto
  qed
qed simp

lemma layers_ok_id_nonempty:
  assumes "layers_ok seen ls" "l \<in> set ls"
  shows "l_id l \<noteq> []"
  using assms by (induction ls arbitrary: seen) (auto simp: parent_ok_def)

lemma GetLayer_nth:
  assumes "distinct (map l_id (layers d))" "i < length (layers d)"
  shows "GetLayer (l_id (layers d ! i)) d = Inr (scanLayer (layers d ! i))"
    "find (\<lambda>l. l_id l = l_id (layers d ! i)) (layers d) = Some (layers d ! i)"
  using find_unique[OF assms(1) nth_mem[OF assms(2)] refl] by (simp_all add: GetLayer_def)

fun chain_from :: "string \<Rightarrow> layer list \<Rightarrow> bool" where
  "chain_from eid [] = (eid = [])"
| "chain_from eid (l # ls) = (eid \<noteq> [] \<and> lay_ID l = eid \<and> chain_from (lay_ParentLayerID l) ls)"

text \<open>
  The walk from the \<open>i\<close>-th layer: it succeeds with any fuel above \<open>i\<close>, follows the parent links to
  a root, stays in the source and lists the ids of the recursive query.
\<close>

lemma layer_walk_nth:
  assumes "layers_ok [] (layers d)" "distinct (map l_id (layers d))" "i < length (layers d)"
  shows "\<exists>chain. (\<forall>n>i. layer_walk n (l_id (layers d ! i)) d = Inr chain)
    \<and> chain_from (l_id (layers d ! i)) chain
    \<and> (\<forall>l \<in> set chain. lay_SourceID l = l_source_id (layers d ! i) \<and> l \<in> scanLayer ` set (layers d))
    \<and> (\<forall>m\<ge>i. layer_refs m (l_id (layers d ! i)) (layers d) = map lay_ID chain)"
  using assms(3)
proof (induction i rule: less_induct)
  case (less i)
  let ?l = "layers d ! i"
  have mem: "?l \<in> set (layers d)" using less.prems by simp
  have ne: "l_id ?l \<noteq> []" using layers_ok_id_nonempty[OF assms(1) mem] .
  note get = GetLayer_nth[OF assms(2) less.prems]
  show ?case
  proof (cases "l_parent_layer_id ?l")
    case None
    have "layer_walk n (l_id ?l) d = Inr [scanLayer ?l]" if "n > i" for n
      using that None ne get by (cases n; cases "n - 1") (auto simp: scanLayer_def null_string_def)
    moreover have "layer_refs m (l_id ?l) (layers d) = [l_id ?l]" for m
      using None get by (cases m) auto
    ultimately show ?thesis using None ne mem
      by (intro exI[of _ "[scanLayer ?l]"]) (auto simp: scanLayer_def null_string_def)
  next
    case (Some p)
    obtain q where q: "q \<in> set (take i (layers d))" "l_id q = p" "l_source_id q = l_source_id ?l"
      using layers_ok_parent[OF assms(1) less.prems Some] by auto
    then obtain j where j: "j < i" "layers d ! j = q" using less.prems by (auto simp: in_set_conv_nth)
    obtain chain where c: "\<forall>n>j. layer_walk n p d = Inr chain" "chain_from p chain"
      "\<forall>l \<in> set chain. lay_SourceID l = l_source_id q \<and> l \<in> scanLayer ` set (layers d)"
      "\<forall>m\<ge>j. layer_refs m p (layers d) = map lay_ID chain"
      using less.IH[OF j(1)] less.prems j q(2) by auto
    have parent: "lay_ParentLayerID (scanLayer ?l) = p" using Some by (simp add: scanLayer_def null_string_def)
    have "layer_walk n (l_id ?l) d = Inr (scanLayer ?l # chain)" if "n > i" for n
      using that ne get c(1) j(1) parent by (cases n) auto
    moreover have "layer_refs m (l_id ?l) (layers d) = l_id ?l # map lay_ID chain" if "m \<ge> i" for m
      using that Some get c(4) j(1) by (cases m) auto
    ultimately show ?thesis using c(2,3) q(3) ne mem parent
      by (intro exI[of _ "scanLayer ?l # chain"]) (auto simp: scanLayer_def)
  qed
qed

text \<open>The chain of a branch whose base layer exists, and the ids its recursive query lists.\<close>

lemma LayerChain_resolves:
  assumes "struct_ok d" "r \<in> set (branches d)" "live_branch r"
  shows "\<exists>chain. LayerChain (br_id r) d = Inr chain \<and> chain_from (null_string (br_base_layer_id r)) chain
    \<and> (\<forall>l \<in> set chain. lay_SourceID l = br_source_id r \<and> l \<in> scanLayer ` set (layers d))
    \<and> (case br_base_layer_id r of None \<Rightarrow> chain = []
       | Some b \<Rightarrow> layer_refs (length (layers d)) b (layers d) = map lay_ID chain)"
proof -
  have row: "getBranch Some (\<lambda>x. br_id x = br_id r) d = Inr (scanBranch Some r)"
    by (simp add: getBranch_def branch_by_id[OF assms(1,2)])
  show ?thesis
  proof (cases "br_base_layer_id r")
    case None
    then show ?thesis by (simp add: LayerChain_def row scanBranch_def null_string_def)
  next
    case (Some b)
    with struct_okD(8)[OF assms] obtain l where l: "l \<in> set (layers d)" "l_id l = b" "l_source_id l = br_source_id r"
      by (auto simp: base_ok_def list_ex_iff)
    then obtain i where i: "i < length (layers d)" "layers d ! i = l" by (auto simp: in_set_conv_nth)
    from layer_walk_nth[OF struct_okD(7,3)[OF assms(1)] i(1)] i l Some show ?thesis
      by (auto simp: LayerChain_def row scanBranch_def null_string_def less_Suc_eq simp del: layer_walk.simps)
  qed
qed

lemma references_layer_chain:
  assumes "struct_ok d" "r \<in> set (branches d)"
  shows "references_layer i d r \<longleftrightarrow>
    live_branch r \<and> (\<exists>chain. LayerChain (br_id r) d = Inr chain \<and> i \<in> lay_ID ` set chain)"
proof (cases "live_branch r")
  case True
  from LayerChain_resolves[OF assms True] obtain chain where c: "LayerChain (br_id r) d = Inr chain"
    "case br_base_layer_id r of None \<Rightarrow> chain = []
       | Some b \<Rightarrow> layer_refs (length (layers d)) b (layers d) = map lay_ID chain" by auto
  then show ?thesis using True by (cases "br_base_layer_id r") (auto simp: references_layer_def)
qed (simp add: references_layer_def)

section \<open>Properties\<close>

text \<open>
  A second concrete database for the witnesses: a ready parent and its child, both based on the
  layer \<open>l2\<close>, which sits on \<open>l1\<close>.
\<close>

definition fork_row :: "string \<Rightarrow> string \<Rightarrow> string \<Rightarrow> branch_row" where
  "fork_row i name rw = demo_row\<lparr>br_id := i, br_name := name, br_rw_volume := rw, br_state := BranchReady,
     br_base_layer_id := Some ''l2''\<rparr>"

definition fork_db :: db where
  "fork_db = demo_db1\<lparr>branches := [fork_row ''b1'' ''pr-1'' ''rw3'', fork_row ''b2'' ''pr-2'' ''rw4''],
     layers := [\<lparr>l_id = ''l1'', l_source_id = ''s1'', l_volume = ''rw1'', l_parent_layer_id = None\<rparr>,
                \<lparr>l_id = ''l2'', l_source_id = ''s1'', l_volume = ''rw2'', l_parent_layer_id = Some ''l1''\<rparr>]\<rparr>"

lemmas fork_eval = fork_db_def fork_row_def demo_db1_def demo_row_def insert_branch_def demo_branch_def
  insert_source_def demo_source_def live_branch_def

lemma fork_db_ok: "struct_ok fork_db"
  by (simp add: struct_ok_def fork_eval live_source_def parent_ok_def base_ok_def)

text \<open>
  For every live branch the loop of \<open>LayerChain\<close> ends without an error; the layers it returns
  start at the branch's base layer, each is followed by its parent, the last one sits on the source
  volume, and all belong to the branch's source.
\<close>

theorem layer_chain_complete:
  assumes "struct_ok d" "r \<in> set (branches d)" "live_branch r"
  shows "\<exists>chain. LayerChain (br_id r) d = Inr chain \<and> chain_from (null_string (br_base_layer_id r)) chain
    \<and> (\<forall>l \<in> set chain. lay_SourceID l = br_source_id r)"
  using LayerChain_resolves[OF assms] by blast

theorem layer_chain_complete_witness:
  "\<exists>r chain. r \<in> set (branches fork_db) \<and> LayerChain (br_id r) fork_db = Inr chain \<and> chain_from ''l2'' chain \<and> chain \<noteq> []"
proof -
  let ?r = "fork_row ''b2'' ''pr-2'' ''rw4''"
  have r: "?r \<in> set (branches fork_db)" "live_branch ?r" "null_string (br_base_layer_id ?r) = ''l2''"
    by (simp_all add: fork_eval null_string_def)
  with layer_chain_complete[OF fork_db_ok r(1,2)] show ?thesis
    by (metis chain_from.simps(1) list.distinct(1))
qed

text \<open>
  (C12) The refcount of a layer, computed by the recursive query, is exactly the number of live
  branches whose \<open>LayerChain\<close> contains the layer.
\<close>

theorem layer_refcount_exact:
  assumes "struct_ok d"
  shows "CountBranchesReferencingLayer i d =
    length (filter (\<lambda>r. live_branch r \<and> (\<exists>chain. LayerChain (br_id r) d = Inr chain \<and> i \<in> lay_ID ` set chain)) (branches d))"
proof -
  have "filter (references_layer i d) (branches d) =
    filter (\<lambda>r. live_branch r \<and> (\<exists>chain. LayerChain (br_id r) d = Inr chain \<and> i \<in> lay_ID ` set chain)) (branches d)"
    by (rule filter_cong[OF refl references_layer_chain[OF assms]])
  moreover have "distinct (map br_id (filter (references_layer i d) (branches d)))"
    using struct_okD(2)[OF assms] by (rule distinct_map_filter)
  ultimately show ?thesis
    by (metis CountBranchesReferencingLayer_def distinct_card length_map)
qed

theorem layer_refcount_exact_witness:
  "CountBranchesReferencingLayer ''l1'' fork_db = 2 \<and>
   length (filter (\<lambda>r. live_branch r \<and> (\<exists>chain. LayerChain (br_id r) fork_db = Inr chain \<and> ''l1'' \<in> lay_ID ` set chain)) (branches fork_db)) = 2"
proof -
  have "CountBranchesReferencingLayer ''l1'' fork_db = 2"
    by (simp add: CountBranchesReferencingLayer_def references_layer_def fork_eval)
  with layer_refcount_exact[OF fork_db_ok, of "''l1''"] show ?thesis by simp
qed



end
