(* ===== verification/RegistryCalls.thy ===== *)
theory RegistryCalls
  imports RegistryLayers
begin

text \<open>
  Contracts of single registry calls and of pairs of calls that race: compare-and-swap transitions,
  the stuck-row cut-off, the history of removed branches, retried sources, and API tokens and the
  identities they leave in the audit journal.
\<close>

section \<open>Racing transitions\<close>

lemma find_after_transition:
  assumes "find (\<lambda>x. br_id x = eid) rows = Some r" "br_state r = from"
    and "\<And>x. br_id (f x) = br_id x"
  shows "find (\<lambda>x. br_id x = eid) (upd_where (\<lambda>x. br_id x = eid \<and> br_state x = from) f rows) = Some (f r)"
  using assms by (induction rows) (auto split: if_splits)

lemma transitionBranch_row:
  assumes "transitionBranch a now eid to reason g d = Inr d'" "\<And>x. br_id (g x) = br_id x"
  obtains r where "find (\<lambda>x. br_id x = eid) (branches d) = Some r" "legalBranchTransition (br_state r) to"
    "find (\<lambda>x. br_id x = eid) (branches d') = Some ((set_branch_state to (g r))\<lparr>br_updated_at := now\<rparr>)"
proof -
  obtain r where r: "find (\<lambda>x. br_id x = eid) (branches d) = Some r" "legalBranchTransition (br_state r) to"
    and d': "branches d' = upd_where (\<lambda>x. br_id x = eid \<and> br_state x = br_state r)
      (\<lambda>x. (set_branch_state to (g x))\<lparr>br_updated_at := now\<rparr>) (branches d)"
    using assms(1) by (auto simp: transitionBranch_def Let_def split: option.splits if_splits)
  show thesis
    by (rule that[OF r]) (simp add: d' find_after_transition[OF r(1) refl] assms(2))
qed

lemma competing_targets: "legalBranchTransition s x \<Longrightarrow> legalBranchTransition s y \<Longrightarrow> \<not> legalBranchTransition x y"
  by (cases s; cases x; cases y) (auto simp: legalBranchTransition_def)

text \<open>
  Two callers that saw the same branch in the same state and both want to move it along a legal
  edge never both succeed: once the first has committed, the second is refused with the
  illegal-transition error that names the state the first one set, and leaves no trace. This holds
  with and without the extra columns that \<open>MarkBranchReady\<close> writes.
\<close>

theorem racing_transitions_one_wins:
  assumes "transitionBranch a now eid x reason g d = Inr d'" "\<And>r. br_id (g r) = br_id r"
    and "find (\<lambda>q. br_id q = eid) (branches d) = Some r" "legalBranchTransition (br_state r) y"
  shows "transitionBranch a2 now2 eid y reason2 h d' = Inl (illegalTransition ''branch'' (branch_state_str x) (branch_state_str y))"
  using assms(1,2)
proof (rule transitionBranch_row)
  fix q
  assume q: "find (\<lambda>x. br_id x = eid) (branches d) = Some q" "legalBranchTransition (br_state q) x"
    and n: "find (\<lambda>x. br_id x = eid) (branches d') = Some ((set_branch_state x (g q))\<lparr>br_updated_at := now\<rparr>)"
  then have "\<not> legalBranchTransition x y" using assms(3,4) by (intro competing_targets[of "br_state q"]) auto
  then show ?thesis by (simp add: transitionBranch_def n)
qed

theorem racing_transitions_one_wins_witness:
  "transitionBranch no_actor ''t5'' ''b1'' BranchDestroying ''destroy'' (\<lambda>r. r) demo_db4
     = Inl (illegalTransition ''branch'' ''resetting'' ''destroying'')"
proof -
  have f: "find (\<lambda>q. br_id q = ''b1'') (branches demo_db3) = Some (hd (branches demo_db3))"
    "legalBranchTransition (br_state (hd (branches demo_db3))) BranchDestroying" by (simp_all add: demo_eval)
  have "transitionBranch no_actor ''t4'' ''b1'' BranchResetting ''reset'' (\<lambda>r. r) demo_db3 = Inr demo_db4"
    using demo_runs(4) by (simp add: TransitionBranchCtx_def)
  from racing_transitions_one_wins[OF this _ f, of no_actor "''t5''" "''destroy''" "\<lambda>r. r"] show ?thesis by simp
qed

text \<open>
  A transition succeeds exactly when the branch exists and the state machine has the edge; then
  the row is in the new state, a branch that enters \<open>destroyed\<close> has lost its password, no other
  row changed, and the journal gained exactly one row that names the old state, the new state and the
  actor. Otherwise the caller gets not-found or illegal-transition.
\<close>

theorem transition_contract:
  assumes "struct_ok d"
  shows "case TransitionBranchCtx a now eid to reason d of
      Inr d' \<Rightarrow> (\<exists>r \<in> set (branches d). br_id r = eid \<and> legalBranchTransition (br_state r) to
         \<and> branches d' = map (\<lambda>q. if br_id q = eid
               then q\<lparr>br_state := to, br_password := (if to = BranchDestroyed then [] else br_password q), br_updated_at := now\<rparr>
               else q) (branches d)
         \<and> transitions d' = transitions d @ [journal_row a now ''branch'' eid (branch_state_str (br_state r)) (branch_state_str to) reason d]
         \<and> sources d' = sources d \<and> layers d' = layers d)
    | Inl e \<Rightarrow> (is_not_found e \<and> eid \<notin> br_id ` set (branches d))
         \<or> (is_illegal_transition e \<and> (\<exists>r \<in> set (branches d). br_id r = eid \<and> \<not> legalBranchTransition (br_state r) to))"
proof (cases "find (\<lambda>r. br_id r = eid) (branches d)")
  case None
  then have "eid \<notin> br_id ` set (branches d)" by (auto simp: find_None_iff_not)
  with None show ?thesis by (simp add: TransitionBranchCtx_def transitionBranch_def)
next
  case (Some r)
  note r = find_SomeD[OF Some]
  have only: "q = r" if "q \<in> set (branches d)" "br_id q = eid" for q
    using branch_id_unique[OF assms that(1)] r that(2) by metis
  let ?f = "\<lambda>x. (set_branch_state to x)\<lparr>br_updated_at := now\<rparr>"
  have "upd_where (\<lambda>x. br_id x = eid \<and> br_state x = br_state r) ?f (branches d) = map (\<lambda>q. if br_id q = eid
      then q\<lparr>br_state := to, br_password := (if to = BranchDestroyed then [] else br_password q), br_updated_at := now\<rparr>
      else q) (branches d)"
    unfolding upd_where_def using only by (intro map_cong[OF refl]) (auto simp: set_branch_state_def Let_def)
  moreover have "count_where (\<lambda>x. br_id x = eid \<and> br_state x = br_state r) (branches d) \<noteq> 0"
    using r by (auto simp: count_where_0)
  ultimately show ?thesis using Some r
    by (auto simp: TransitionBranchCtx_def transitionBranch_def Let_def journal_row_def intro!: bexI[of _ r])
qed

theorem transition_contract_witness:
  "struct_ok demo_db3 \<and> TransitionBranchCtx no_actor ''t4'' ''b1'' BranchResetting ''reset'' demo_db3 = Inr demo_db4
   \<and> (\<exists>r \<in> set (branches demo_db3). br_id r = ''b1'' \<and> legalBranchTransition (br_state r) BranchResetting
       \<and> sources demo_db4 = sources demo_db3)"
proof -
  have ok: "struct_ok demo_db3" using reachable_db_ok[OF demo_reachable(2)] by (simp add: db_ok_def)
  from transition_contract[OF ok, where a = no_actor and now = "''t4''" and eid = "''b1''" and to = BranchResetting and reason = "''reset''"] ok
  show ?thesis by (simp only: demo_runs(4) sum.case) blast
qed

section \<open>History outlives its source\<close>

text \<open>Rows of branches that still exist carry no name stamp (\<^verbatim>\<open>schema.go\<close>, version 15).\<close>

definition stamps_ok :: "db \<Rightarrow> bool" where
  "stamps_ok d \<longleftrightarrow> list_all (\<lambda>t. t_entity t = ''branch'' \<longrightarrow> t_entity_id t \<in> br_id ` set (branches d) \<longrightarrow> t_entity_name t = [])
     (transitions d)"

lemma branch_ids_upd:
  assumes "\<And>r. br_id (f r) = br_id r"
  shows "br_id ` set (upd_where P f rows) = br_id ` set rows"
  using assms by (induction rows) auto

lemma stamps_ok_same:
  "stamps_ok d \<Longrightarrow> br_id ` set (branches d') = br_id ` set (branches d) \<Longrightarrow> transitions d' = transitions d \<Longrightarrow> stamps_ok d'"
  by (simp add: stamps_ok_def)

lemma stamps_ok_simps:
  "stamps_ok (journalTx a now e i f t r d) = stamps_ok d"
  "stamps_ok (d\<lparr>sources := ss\<rparr>) = stamps_ok d"
  "stamps_ok (d\<lparr>layers := ls\<rparr>) = stamps_ok d"
  by (simp_all add: stamps_ok_def)

lemma stamps_ok_upd:
  assumes "\<And>r. br_id (f r) = br_id r"
  shows "stamps_ok (d\<lparr>branches := upd_where P f (branches d)\<rparr>) = stamps_ok d"
  by (simp add: stamps_ok_def branch_ids_upd[of f, OF assms])

lemma transitionBranch_stamps:
  assumes "stamps_ok d" "transitionBranch a now eid to reason g d = Inr d'" "\<And>r. br_id (g r) = br_id r"
  shows "stamps_ok d'"
  using assms(2) by (rule transitionBranch_InrD) (simp add: stamps_ok_simps stamps_ok_upd assms(1,3))

lemma CommitFreezeCtx_stamps:
  assumes "stamps_ok d" "CommitFreezeCtx a now nid parentID childID vol rw c h p reason d = Inr (l, d')"
  shows "stamps_ok d'"
  using assms(2) by (rule CommitFreezeCtx_InrD) (use assms(1) in \<open>simp add: stamps_ok_def branch_ids_upd\<close>)

lemma CreateSourceCtx_stamps:
  assumes "stamps_ok d" "CreateSourceCtx a now nid s0 d = Inr (s, d')"
  shows "stamps_ok d'"
  using assms(2)
proof (rule CreateSourceCtx_InrD)
  fix n d1
  assume "deleteFailedSources (src_Name s0) d = Inr (n, d1)"
    and d': "d' = journalTx a now ''source'' nid [] (source_state_str SourceSeeding) ''created''
       (d1\<lparr>sources := sources d1 @ [insert_source s now]\<rparr>)"
  then have "stamps_ok d1" using assms(1) deleteFailedSources_frame(1,2) by (auto intro: stamps_ok_same)
  then show "stamps_ok d'" by (simp add: d' stamps_ok_simps)
qed

lemma CreateBranchCtx_stamps:
  assumes "stamps_ok d" "CreateBranchCtx a now nid b0 d = Inr (b, d')" "fresh_journal_id ''branch'' nid d"
  shows "stamps_ok d'"
  using assms CreateBranchCtx_InrD[OF assms(2)]
  by (auto simp: stamps_ok_def fresh_journal_id_def list_all_iff)

lemma DeleteSourceCtx_stamps:
  assumes "stamps_ok d" "struct_ok d" "DeleteSourceCtx a now eid d = Inr d'"
  shows "stamps_ok d'"
  using assms(3)
proof (rule DeleteSourceCtx_InrD)
  fix s t2 row
  assume t2: "t2 = upd_where (\<lambda>t. t_entity t = ''source'' \<and> t_entity_id t = eid) (\<lambda>t. t\<lparr>t_entity_name := sr_name s\<rparr>) (stamp_branches eid d)"
    and d': "transitions d' = t2 @ [row]" "t_entity row = ''source''" "branches d' = filter (\<lambda>r. br_source_id r \<noteq> eid) (branches d)"
  have out: "br_id r \<noteq> br_id q" if "r \<in> set (branches d)" "br_source_id r = eid" "q \<in> set (branches d')" for r q
    using that branch_id_unique[OF assms(2), of r q] by (auto simp: d'(3))
  have "t_entity_name t = []"
    if t: "t \<in> set (transitions d')" "t_entity t = ''branch''" "t_entity_id t \<in> br_id ` set (branches d')" for t
  proof -
    have "t \<in> set t2" using t(1,2) d'(1,2) by auto
    then have "t \<in> set (stamp_branches eid d)"
      unfolding t2 by (rule upd_where_cases) (use t(2) in auto)
    then show ?thesis unfolding stamp_branches_def
    proof (rule upd_where_cases)
      fix q assume "t_entity q = ''branch'' \<and> t_entity_id q \<in> set (map br_id (filter (\<lambda>r. br_source_id r = eid) (branches d)))"
        and "t = q\<lparr>t_entity_name := (case find (\<lambda>r. br_id r = t_entity_id q) (branches d) of None \<Rightarrow> [] | Some r \<Rightarrow> br_name r)\<rparr>"
      then have False using out t(3) by fastforce
      then show ?thesis ..
    next
      assume "t \<in> set (transitions d)"
      then show ?thesis using assms(1) t(2,3) by (auto simp: stamps_ok_def list_all_iff d'(3))
    qed
  qed
  then show "stamps_ok d'" by (simp add: stamps_ok_def list_all_iff)
qed

lemma column_calls_stamps:
  assumes "stamps_ok d"
  shows "store_branch_password now eid stored d = Inr d' \<Longrightarrow> stamps_ok d'"
    "stamps_ok (SetBranchContainer now eid c d)"
    "stamps_ok (TouchBranch now eid d)"
    "SetBranchPendingVolume eid vol d = Inr d' \<Longrightarrow> stamps_ok d'"
    "stamps_ok (snd (UpdateBranchEndpoint eid from c h p d))"
    "SetSourcePendingVolume eid vol d = Inr d' \<Longrightarrow> stamps_ok d'"
    "stamps_ok (TouchSource now eid d)"
    "DeleteLayer eid d = Inr d' \<Longrightarrow> stamps_ok d'"
  using assms
  by (auto simp: SetSourcePendingVolume_def TouchSource_def store_branch_password_def SetBranchContainer_def TouchBranch_def
        SetBranchPendingVolume_def UpdateBranchEndpoint_def DeleteLayer_def Let_def stamps_ok_simps stamps_ok_upd
      split: if_splits)

lemma other_calls_stamps:
  assumes "stamps_ok d"
  shows "DeleteFailedSources name d = Inr (n, d') \<Longrightarrow> stamps_ok d'"
    "stamps_ok (SetMaskScripts sid scripts d)"
    "CreateAPIToken hash now nid plain name role d = Inr (t, d') \<Longrightarrow> stamps_ok d'"
    "RevokeAPIToken name d = Inr d' \<Longrightarrow> stamps_ok d'"
  by (rule stamps_ok_same[OF assms];
      auto simp: DeleteFailedSources_def deleteFailedSources_def SetMaskScripts_def CreateAPIToken_def RevokeAPIToken_def Let_def
      split: if_splits option.splits)+

lemma transition_calls_stamps:
  assumes "stamps_ok d"
  shows "TransitionBranchCtx a now eid to reason d = Inr d' \<Longrightarrow> stamps_ok d'"
    "MarkBranchReadyCtx a now eid c h p d = Inr d' \<Longrightarrow> stamps_ok d'"
  unfolding TransitionBranchCtx_def MarkBranchReadyCtx_def
  by (erule transitionBranch_stamps[OF assms]; simp)+

lemma journaled_calls_stamps:
  assumes "stamps_ok d"
  shows "SetSourceStateCtx a now eid sto reason d = Inr d' \<Longrightarrow> stamps_ok d'"
    "BumpSourceGenerationCtx a now eid vol d = Inr d' \<Longrightarrow> stamps_ok d'"
    "FailStuckSource a now eid before reason d = (u, d') \<Longrightarrow> stamps_ok d'"
    "NoteBranchCtx a now eid reason d = Inr d' \<Longrightarrow> stamps_ok d'"
    "UpdateBranchEndpointCtx a now eid from c h p reason d = (u, d') \<Longrightarrow> stamps_ok d'"
    "FailReadyBranch a now eid c reason d = Inr (u, d') \<Longrightarrow> stamps_ok d'"
    "FailStuckBranch a now eid before reason d = Inr (u, d') \<Longrightarrow> stamps_ok d'"
  using assms
  by (auto simp: SetSourceStateCtx_def BumpSourceGenerationCtx_def FailStuckSource_def NoteBranchCtx_def FailReadyBranch_def
        FailStuckBranch_def TouchBranch_def UpdateBranchEndpointCtx_def Let_def stamps_ok_simps stamps_ok_upd
      split: if_splits option.splits)

lemmas calls_stamps = CommitFreezeCtx_stamps CreateSourceCtx_stamps CreateBranchCtx_stamps DeleteSourceCtx_stamps
  transition_calls_stamps column_calls_stamps other_calls_stamps journaled_calls_stamps

lemma reg_step_stamps: "reg_step d d' \<Longrightarrow> struct_ok d \<Longrightarrow> stamps_ok d \<Longrightarrow> stamps_ok d'"
  by (induction rule: reg_step.induct) (blast intro: calls_stamps)+

lemma reachable_stamps_ok: "reg_reachable d \<Longrightarrow> stamps_ok d"
proof (induction rule: reg_reachable.induct)
  case (step d d')
  then show ?case using reg_step_stamps db_ok_parts(1)[OF reachable_db_ok] by blast
qed (simp add: stamps_ok_def empty_db_def)

text \<open>The stamping that \<open>DeleteSourceCtx\<close> applies to one journal row.\<close>

definition stamp_row :: "string \<Rightarrow> string \<Rightarrow> db \<Rightarrow> transition_row \<Rightarrow> transition_row" where
  "stamp_row eid name d t =
     (let t1 = (if t_entity t = ''branch'' \<and> t_entity_id t \<in> set (map br_id (filter (\<lambda>r. br_source_id r = eid) (branches d)))
                then t\<lparr>t_entity_name := (case find (\<lambda>r. br_id r = t_entity_id t) (branches d) of None \<Rightarrow> [] | Some r \<Rightarrow> br_name r)\<rparr>
                else t)
      in if t_entity t1 = ''source'' \<and> t_entity_id t1 = eid then t1\<lparr>t_entity_name := name\<rparr> else t1)"

lemma stamp_row_eq:
  "upd_where (\<lambda>t. t_entity t = ''source'' \<and> t_entity_id t = eid) (\<lambda>t. t\<lparr>t_entity_name := n\<rparr>) (stamp_branches eid d)
    = map (stamp_row eid n d) (transitions d)"
  by (simp add: upd_where_def stamp_branches_def stamp_row_def Let_def comp_def)

lemma stamp_row_keeps [simp]:
  "scan_transition (stamp_row eid n d t) = scan_transition t" "t_id (stamp_row eid n d t) = t_id t"
  "t_entity (stamp_row eid n d t) = t_entity t" "t_entity_id (stamp_row eid n d t) = t_entity_id t"
  by (simp_all add: stamp_row_def scan_transition_def Let_def)

lemma in_history_stamped:
  assumes "struct_ok d" "stamps_ok d" "t \<in> set (transitions d)" "name \<noteq> []"
    and d': "branches d' = filter (\<lambda>r. br_source_id r \<noteq> eid) (branches d)"
  shows "in_history name d' (stamp_row eid n d t) = in_history name d t"
proof (cases "t_entity t = ''branch'' \<and> (\<exists>r \<in> set (branches d). br_source_id r = eid \<and> br_id r = t_entity_id t)")
  case True
  then obtain r where r: "t_entity t = ''branch''" "r \<in> set (branches d)" "br_source_id r = eid" "br_id r = t_entity_id t"
    by blast
  have only: "q = r" if "q \<in> set (branches d)" "br_id q = t_entity_id t" for q
    using branch_id_unique[OF assms(1) that(1) r(2)] that(2) r(4) by simp
  have "t_entity_id t \<in> br_id ` set (branches d)" using imageI[OF r(2), of br_id] by (simp add: r(4))
  then have "t_entity_name t = []" using assms(2,3) r(1) by (simp add: stamps_ok_def list_all_iff)
  moreover have "t_entity_name (stamp_row eid n d t) = br_name r"
    using r(1,4) branch_by_id[OF assms(1) r(2)] imageI[of r "{x \<in> set (branches d). br_source_id x = eid}" br_id] r(2,3)
    by (simp add: stamp_row_def Let_def)
  moreover have "t_entity_id t \<notin> br_id ` set (branches d')" using only r(3) by (auto simp: d')
  moreover have "t_entity_id t \<in> br_id ` {q \<in> set (branches d). br_name q = name} \<longleftrightarrow> br_name r = name"
  proof
    assume "t_entity_id t \<in> br_id ` {q \<in> set (branches d). br_name q = name}"
    then obtain q where "q \<in> set (branches d)" "br_name q = name" "br_id q = t_entity_id t" by auto
    with only[of q] show "br_name r = name" by simp
  next
    assume "br_name r = name"
    then show "t_entity_id t \<in> br_id ` {q \<in> set (branches d). br_name q = name}"
      using imageI[of r "{q \<in> set (branches d). br_name q = name}" br_id] r(2,4) by simp
  qed
  ultimately show ?thesis using r(1) assms(4) by (auto simp: in_history_def)
next
  case False
  then have "t_entity t = ''branch'' \<Longrightarrow> stamp_row eid n d t = t" by (auto simp: stamp_row_def Let_def)
  then show ?thesis using False by (auto simp: in_history_def d')
qed

lemma BranchHistory_sorted:
  assumes "sorted_wrt (<) (map t_id ts)"
  shows "sort_key t_id (filter P ts) = filter P ts"
proof -
  have "sorted (map t_id ts)" using assms by (simp add: strict_sorted_iff)
  then have "sorted (map t_id (filter P ts))" by (rule sorted_filter)
  then show ?thesis by (rule sort_key_id_if_sorted)
qed

lemma DeleteSourceCtx_rows:
  assumes "DeleteSourceCtx a now eid d = Inr d'"
  shows "\<exists>(s :: source_row) row. transitions d' = map (stamp_row eid (sr_name s) d) (transitions d) @ [row] \<and> t_entity row = ''source''
    \<and> branches d' = filter (\<lambda>r. br_source_id r \<noteq> eid) (branches d)"
  using assms
proof (rule DeleteSourceCtx_InrD)
  fix s :: source_row and t2 row
  assume "t2 = upd_where (\<lambda>t. t_entity t = ''source'' \<and> t_entity_id t = eid) (\<lambda>t. t\<lparr>t_entity_name := sr_name s\<rparr>) (stamp_branches eid d)"
    "transitions d' = t2 @ [row]" "t_entity row = ''source''" "branches d' = filter (\<lambda>r. br_source_id r \<noteq> eid) (branches d)"
  then show ?thesis by (intro exI[of _ s] exI[of _ row]) (simp only: stamp_row_eq)
qed

text \<open>
  Removing a source does not shorten any audit trail: for every branch name, \<open>BranchHistory\<close>
  returns after \<open>DeleteSourceCtx\<close> exactly the rows it returned before, although the branch rows
  that carried the name are gone.
\<close>

theorem history_survives_source_removal:
  assumes "reg_reachable d" "DeleteSourceCtx a now eid d = Inr d'" "name \<noteq> []"
  shows "BranchHistory name d' = BranchHistory name d"
proof -
  have ok: "struct_ok d" "journal_ok d" "stamps_ok d"
    using reachable_db_ok[OF assms(1)] reachable_stamps_ok[OF assms(1)] by (simp_all add: db_ok_def)
  obtain s :: source_row and row where d': "transitions d' = map (stamp_row eid (sr_name s) d) (transitions d) @ [row]" "t_entity row = ''source''"
      "branches d' = filter (\<lambda>r. br_source_id r \<noteq> eid) (branches d)"
    using DeleteSourceCtx_rows[OF assms(2)] by blast
  have sorted': "sorted_wrt (<) (map t_id (transitions d'))"
    using journal_okD(3)[OF DeleteSourceCtx_journal_ok[OF ok(2) assms(2)]] .
  have "filter (\<lambda>t. in_history name d' (stamp_row eid (sr_name s) d t)) (transitions d) = filter (in_history name d) (transitions d)"
    using in_history_stamped[OF ok(1,3) _ assms(3) d'(3)] by (intro filter_cong) simp_all
  then have "filter (in_history name d') (transitions d') =
      map (stamp_row eid (sr_name s) d) (filter (in_history name d) (transitions d))"
    using d'(2) by (simp add: d'(1) filter_map comp_def in_history_def[of name d' row])
  then have "map scan_transition (filter (in_history name d') (transitions d')) =
      map scan_transition (filter (in_history name d) (transitions d))" by simp
  then show ?thesis
    by (simp add: BranchHistory_def BranchHistory_sorted[OF sorted'] BranchHistory_sorted[OF journal_okD(3)[OF ok(2)]])
qed

theorem history_survives_source_removal_witness:
  "\<exists>d'. DeleteSourceCtx no_actor ''t5'' ''s1'' demo_db4 = Inr d' \<and> branches d' = []
     \<and> BranchHistory ''pr-1'' d' = BranchHistory ''pr-1'' demo_db4"
proof -
  obtain d' where d': "DeleteSourceCtx no_actor ''t5'' ''s1'' demo_db4 = Inr d'" "branches d' = []"
    by (simp add: DeleteSourceCtx_def demo_eval)
  with history_survives_source_removal[OF demo_reachable(3) d'(1), of "''pr-1''"] show ?thesis by auto
qed

section \<open>Stuck rows\<close>

lemma count_where_unique:
  assumes "struct_ok d" "r \<in> set (branches d)" "P r" "\<And>q. P q \<Longrightarrow> br_id q = br_id r"
  shows "count_where P (branches d) = 1"
proof -
  have "q \<in> set (branches d) \<Longrightarrow> P q \<longleftrightarrow> br_id q = br_id r" for q
    using branch_id_unique[OF assms(1) _ assms(2)] assms(3,4) by blast
  then have "count_where P (branches d) = length (filter (\<lambda>q. br_id q = br_id r) (branches d))"
    unfolding count_where_def by (metis (mono_tags, lifting) filter_cong)
  also have "\<dots> = 1" by (simp add: filter_unique[OF struct_okD(2)[OF assms(1)] assms(2)])
  finally show ?thesis .
qed

text \<open>
  A branch in \<open>creating\<close> or \<open>resetting\<close> is failed by \<open>FailStuckBranch\<close> exactly when its last
  update is earlier than the cut-off in time, to the millisecond, although both are compared as
  text and the cut-off is given as an RFC 3339 time without fractions; otherwise nothing changes.
\<close>

theorem stuck_cutoff_exact:
  assumes "struct_ok d" "r \<in> set (branches d)" "br_state r \<in> {BranchCreating, BranchResetting}"
    and "br_updated_at r = TimeString u" "valid_time u" "valid_time t" "tm_nsec t = 0"
  shows "if time_key u < time_key t
    then \<exists>d'. FailStuckBranch a now (br_id r) (rfc3339 t) reason d = Inr (True, d')
      \<and> (\<exists>r' \<in> set (branches d'). br_id r' = br_id r \<and> br_state r' = BranchFailed)
    else FailStuckBranch a now (br_id r) (rfc3339 t) reason d = Inr (False, d)"
proof -
  have old: "br_updated_at r < msCutoff (rfc3339 t) \<longleftrightarrow> time_key u < time_key t"
    using TimeString_less_iff[OF assms(5,6)] by (simp add: msCutoff_seconds[OF assms(6,7)] assms(4))
  have only: "q \<in> set (branches d) \<Longrightarrow> br_id q = br_id r \<Longrightarrow> q = r" for q
    using branch_id_unique[OF assms(1) _ assms(2)] .
  show ?thesis
  proof (cases "time_key u < time_key t")
    case True
    then have stuck: "stuck_branch (rfc3339 t) r" using assms(3) old by (simp add: stuck_branch_def)
    have f: "find (\<lambda>q. br_id q = br_id r \<and> stuck_branch (rfc3339 t) q) (branches d) = Some r"
    proof -
      have "find (\<lambda>q. br_id q = br_id r \<and> stuck_branch (rfc3339 t) q) (branches d) = find (\<lambda>q. br_id q = br_id r) (branches d)"
        using only stuck by (intro find_cong_rows) blast
      then show ?thesis using branch_by_id[OF assms(1,2)] by simp
    qed
    let ?hit = "\<lambda>x. br_id x = br_id r \<and> br_state x = br_state r \<and> br_updated_at x < msCutoff (rfc3339 t)"
    have c: "count_where ?hit (branches d) = 1"
      using old True by (intro count_where_unique[OF assms(1,2)]) simp_all
    have legal: "legalBranchTransition (br_state r) BranchFailed" using assms(3) by (auto simp: legalBranchTransition_def)
    have "\<exists>r' \<in> set (upd_where ?hit (\<lambda>q. (set_branch_state BranchFailed q)\<lparr>br_updated_at := now\<rparr>) (branches d)).
        br_id r' = br_id r \<and> br_state r' = BranchFailed"
      using assms(2) old True by (intro bexI[of _ "(set_branch_state BranchFailed r)\<lparr>br_updated_at := now\<rparr>"])
        (auto simp: in_upd_where_iff intro!: bexI[of _ r])
    then show ?thesis using True f c legal by (simp add: FailStuckBranch_def Let_def)
  next
    case False
    have "find (\<lambda>q. br_id q = br_id r \<and> stuck_branch (rfc3339 t) q) (branches d) = None"
      unfolding find_None_iff_not using only old False by (auto simp: stuck_branch_def)
    then show ?thesis using False by (simp add: FailStuckBranch_def)
  qed
qed

definition noon :: "int \<Rightarrow> int \<Rightarrow> gotime" where
  "noon sec ns = \<lparr>tm_year = 2026, tm_month = 3, tm_day = 1, tm_hour = 12, tm_min = 0, tm_sec = sec, tm_nsec = ns\<rparr>"

definition stuck_db :: db where
  "stuck_db = demo_db2\<lparr>branches := [demo_row\<lparr>br_updated_at := TimeString (noon 0 999000000)\<rparr>]\<rparr>"

theorem stuck_cutoff_exact_witness:
  "(\<exists>d'. FailStuckBranch no_actor [] ''b1'' (rfc3339 (noon 1 0)) ''stuck'' stuck_db = Inr (True, d'))
   \<and> FailStuckBranch no_actor [] ''b1'' (rfc3339 (noon 0 0)) ''stuck'' stuck_db = Inr (False, stuck_db)"
proof -
  let ?r = "demo_row\<lparr>br_updated_at := TimeString (noon 0 999000000)\<rparr>"
  have ok: "struct_ok stuck_db"
    by (simp add: struct_ok_def stuck_db_def demo_db2_def demo_db1_def base_ok_def demo_row_def demo_branch_def demo_source_def
        nullable_str_def insert_branch_def)
  have r: "?r \<in> set (branches stuck_db)" "br_state ?r \<in> {BranchCreating, BranchResetting}"
    "br_updated_at ?r = TimeString (noon 0 999000000)" and i: "br_id ?r = ''b1''"
    by (simp_all add: stuck_db_def demo_row_def demo_branch_def)
  have v: "valid_time (noon 0 999000000)" "valid_time (noon 1 0)" "valid_time (noon 0 0)" "tm_nsec (noon 1 0) = 0" "tm_nsec (noon 0 0) = 0"
    by (simp_all add: valid_time_def noon_def days_in_def)
  have k: "time_key (noon 0 999000000) < time_key (noon 1 0)" "\<not> time_key (noon 0 999000000) < time_key (noon 0 0)"
    by (simp_all add: time_key_def noon_def)
  show ?thesis
    using stuck_cutoff_exact[OF ok r v(1,2,4), of no_actor "[]" "''stuck''"]
      stuck_cutoff_exact[OF ok r v(1,3,5), of no_actor "[]" "''stuck''"] k i by auto
qed

section \<open>Sources\<close>

text \<open>
  Creating a source is safe to retry: on success exactly one row bears the name, the new one;
  the rows that went are the failed ones of that name, and the rows of every other name are
  untouched.
\<close>

theorem create_source_retry:
  assumes "CreateSourceCtx a now nid s0 d = Inr (s, d')"
  shows "filter (\<lambda>x. sr_name x = src_Name s0) (sources d') = [insert_source s now]
    \<and> filter (\<lambda>x. sr_name x \<noteq> src_Name s0) (sources d') = filter (\<lambda>x. sr_name x \<noteq> src_Name s0) (sources d)
    \<and> (\<forall>x \<in> set (sources d). sr_name x = src_Name s0 \<longrightarrow> sr_state x = SourceFailed)"
  using assms
proof (rule CreateSourceCtx_InrD)
  fix n d1
  assume del: "deleteFailedSources (src_Name s0) d = Inr (n, d1)" and s: "src_Name s = src_Name s0"
    and name: "\<forall>x \<in> set (sources d1). sr_name x = src_Name s0 \<longrightarrow> \<not> live_source x"
    and d': "d' = journalTx a now ''source'' nid [] (source_state_str SourceSeeding) ''created''
       (d1\<lparr>sources := sources d1 @ [insert_source s now]\<rparr>)"
  have d1: "sources d1 = filter (\<lambda>x. \<not> (sr_name x = src_Name s0 \<and> sr_state x = SourceFailed)) (sources d)"
    using del by (auto simp: deleteFailedSources_def Let_def split: if_splits)
  have failed: "\<forall>x \<in> set (sources d). sr_name x = src_Name s0 \<longrightarrow> sr_state x = SourceFailed"
    using name by (auto simp: d1 live_source_def)
  then have "filter (\<lambda>x. sr_name x = src_Name s0) (sources d1) = []" by (auto simp: d1 filter_empty_conv)
  moreover have "filter (\<lambda>x. sr_name x \<noteq> src_Name s0) (sources d1) = filter (\<lambda>x. sr_name x \<noteq> src_Name s0) (sources d)"
    unfolding d1 filter_filter by (rule filter_cong) auto
  ultimately show ?thesis using failed by (simp add: d' s)
qed

theorem create_source_retry_witness:
  "filter (\<lambda>x. sr_name x = ''prod'') (sources demo_db1)
     = [insert_source (demo_source\<lparr>src_ID := ''s1'', src_SeedVia := ''basebackup''\<rparr>) ''t1'']"
  using create_source_retry[OF demo_runs(1)] by (simp add: demo_source_def)

end
