(* ===== verification/Tokens.thy ===== *)
theory Tokens
  imports RegistryCalls
begin

text \<open>
  API tokens (\<^verbatim>\<open>src/internal/registry/tokens.go\<close>) and the identities they leave in the audit
  journal (\<^verbatim>\<open>actor.go\<close>): the texts the journal records for stored tokens, for the built-in token,
  for the local command line and for the daemon itself can never be confused.
\<close>

lemma tokenNameRE_iff:
  "rx_match tokenNameRE s \<longleftrightarrow>
     (case s of [] \<Rightarrow> False
      | c # t \<Rightarrow> low_alnum c \<and> length t \<le> 62
          \<and> list_all (\<lambda>c. low_alnum c \<or> c \<in> {CHR ''.'', CHR ''_'', CHR ''-''}) t)"
  by (simp add: rx_match_iff tokenNameRE_def matches_Seq_Chars matches_upto_Chars split: list.splits)

lemma token_name_chars:
  assumes "ValidateTokenName n = None"
  shows "n \<noteq> []" "n \<noteq> EnvTokenActor" "c \<in> set n \<Longrightarrow> low_alnum c \<or> c \<in> {CHR ''.'', CHR ''_'', CHR ''-''}"
proof -
  have m: "rx_match tokenNameRE n" "n \<noteq> EnvTokenActor"
    using assms by (auto simp: ValidateTokenName_def split: if_splits)
  then show "n \<noteq> []" "n \<noteq> EnvTokenActor" by (auto simp: tokenNameRE_iff)
  show "c \<in> set n \<Longrightarrow> low_alnum c \<or> c \<in> {CHR ''.'', CHR ''_'', CHR ''-''}"
    using m(1) by (auto simp: tokenNameRE_iff list_all_iff split: list.splits)
qed

lemma token_name_plain:
  assumes "ValidateTokenName n = None"
  shows "CHR '' '' \<notin> set n" "CHR '':'' \<notin> set n"
  using token_name_chars(3)[OF assms, of "CHR '' ''"] token_name_chars(3)[OF assms, of "CHR '':''"]
  by (auto simp: low_alnum_alt)

lemma split_at_first:
  fixes a b x y :: string
  assumes "a @ c # x = b @ c # y" "c \<notin> set a" "c \<notin> set b"
  shows "a = b \<and> x = y"
proof -
  have "Some (a, x) = Some (b, y)"
    using cut_append[OF assms(2), of x] cut_append[OF assms(3), of y] unfolding assms(1) by (rule trans[OF sym])
  then show ?thesis by simp
qed

lemma Actor_String_token:
  assumes "ValidateTokenName n = None" "ValidRole r"
  shows "Actor_String \<lparr>act_Name = n, act_Role = r\<rparr> = n @ CHR '' '' # ''('' @ r @ '')''"
  using token_name_chars(1)[OF assms(1)] assms(2) by (auto simp: Actor_String_def ValidRole_def)

lemma not_local_prefix:
  assumes "CHR '' '' \<notin> set p" "CHR '':'' \<notin> set n" "CHR '':'' \<in> set p"
  shows "n @ CHR '' '' # z \<noteq> p @ w"
proof
  assume "n @ CHR '' '' # z = p @ w"
  then consider us where "n = p @ us" | us where "n @ us = p" "CHR '' '' # z = us @ w"
    by (auto simp: append_eq_append_conv2)
  then show False
  proof cases
    case 1
    then show False using assms(2,3) by auto
  next
    case (2 us)
    then show False using assms by (cases us) auto
  qed
qed

lemma demo_token: "ValidateTokenName ''ci-bot'' = None" "ValidRole ''operator''"
  by (simp_all add: ValidateTokenName_def tokenNameRE_iff low_alnum_alt EnvTokenActor_def ValidRole_def del: rx_match.simps)

text \<open>
  The actor recorded for a stored token names that token and its role and nobody else: two
  stored tokens with the same recorded text are the same token name in the same role, and the text
  is never the one recorded for the daemon, for the built-in \<^verbatim>\<open>PGOVERLAY_TOKEN\<close> or for a local user.
\<close>

theorem token_identity_unambiguous:
  assumes "ValidateTokenName n = None" "ValidRole r"
  shows "Actor_String \<lparr>act_Name = n, act_Role = r\<rparr> \<noteq> SystemActor
    \<and> Actor_String \<lparr>act_Name = n, act_Role = r\<rparr> \<noteq> Actor_String (LocalActor u)
    \<and> Actor_String \<lparr>act_Name = n, act_Role = r\<rparr> \<noteq> Actor_String \<lparr>act_Name = EnvTokenActor, act_Role = r'\<rparr>
    \<and> (ValidateTokenName n2 = None \<and> ValidRole r2
        \<and> Actor_String \<lparr>act_Name = n, act_Role = r\<rparr> = Actor_String \<lparr>act_Name = n2, act_Role = r2\<rparr> \<longrightarrow> n = n2 \<and> r = r2)"
proof (intro conjI impI)
  note str = Actor_String_token[OF assms] and plain = token_name_plain[OF assms(1)]
  have "CHR '' '' \<in> set (n @ CHR '' '' # ''('' @ r @ '')'')" "CHR '' '' \<notin> set SystemActor" by (simp_all add: SystemActor_def)
  then show "Actor_String \<lparr>act_Name = n, act_Role = r\<rparr> \<noteq> SystemActor" unfolding str by metis
  have "Actor_String (LocalActor u) = LocalActorPrefix @ (if u = [] then ''unknown'' else u)"
    by (simp add: LocalActor_def Actor_String_def LocalActorPrefix_def)
  then show "Actor_String \<lparr>act_Name = n, act_Role = r\<rparr> \<noteq> Actor_String (LocalActor u)"
    unfolding str using plain by (simp add: not_local_prefix LocalActorPrefix_def del: append_Cons append.simps)
  have "Actor_String \<lparr>act_Name = EnvTokenActor, act_Role = r'\<rparr> = EnvTokenActor
      \<or> (\<exists>z. Actor_String \<lparr>act_Name = EnvTokenActor, act_Role = r'\<rparr> = EnvTokenActor @ CHR '' '' # z)"
    by (simp add: Actor_String_def EnvTokenActor_def)
  moreover have "CHR '' '' \<notin> set EnvTokenActor" by (simp add: EnvTokenActor_def)
  ultimately show "Actor_String \<lparr>act_Name = n, act_Role = r\<rparr> \<noteq> Actor_String \<lparr>act_Name = EnvTokenActor, act_Role = r'\<rparr>"
    unfolding str using split_at_first[OF _ plain(1), of _ EnvTokenActor] token_name_chars(2)[OF assms(1)]
    by (metis in_set_conv_decomp)
next
  assume a: "ValidateTokenName n2 = None \<and> ValidRole r2
    \<and> Actor_String \<lparr>act_Name = n, act_Role = r\<rparr> = Actor_String \<lparr>act_Name = n2, act_Role = r2\<rparr>"
  then have "n @ CHR '' '' # ''('' @ r @ '')'' = n2 @ CHR '' '' # ''('' @ r2 @ '')''"
    using Actor_String_token assms by metis
  then have "n = n2 \<and> ''('' @ r @ '')'' = ''('' @ r2 @ '')''"
    using a split_at_first[OF _ token_name_plain(1)[OF assms(1)] token_name_plain(1)[of n2]] by blast
  then show "n = n2" "r = r2" by simp_all
qed

theorem token_identity_unambiguous_witness:
  "ValidateTokenName ''ci-bot'' = None
   \<and> Actor_String \<lparr>act_Name = ''ci-bot'', act_Role = ''operator''\<rparr> \<noteq> Actor_String (LocalActor ''ci-bot'')"
proof -
  have "ValidateTokenName ''ci-bot'' = None" "ValidRole ''operator''"
    by (simp_all add: demo_token)
  then show ?thesis using token_identity_unambiguous[of "''ci-bot''" "''operator''" "''ci-bot''"] by blast
qed

text \<open>
  Token lifecycle: the plaintext returned by \<open>CreateAPIToken\<close> resolves to the name and role it was
  created with, every token that resolved before keeps resolving to the same actor, and after
  \<open>RevokeAPIToken\<close> the plaintext resolves to nobody.
\<close>

theorem token_lifecycle:
  assumes "CreateAPIToken hash now nid plain name role d = Inr (tok, d')" "plain \<noteq> []"
  shows "tok = plain \<and> LookupAPITokenActor hash tok d' = Some (name, role) \<and> LookupAPIToken hash tok d' = Some role
    \<and> (\<forall>p actor. LookupAPITokenActor hash p d = Some actor \<longrightarrow> LookupAPITokenActor hash p d' = Some actor)
    \<and> (\<exists>d''. RevokeAPIToken name d' = Inr d'' \<and> LookupAPITokenActor hash tok d'' = None)"
proof -
  have tok: "tok = plain"
    and d': "d' = d\<lparr>api_tokens := api_tokens d @ [\<lparr>tk_id = nid, tk_name = name, tk_token_hash = hash plain, tk_role = role, tk_created_at = now\<rparr>]\<rparr>"
    and new: "\<forall>t \<in> set (api_tokens d). tk_token_hash t \<noteq> hash plain"
    using assms(1) by (auto simp: CreateAPIToken_def split: option.splits if_splits)
  have none: "find (\<lambda>t. tk_token_hash t = hash plain) (api_tokens d) = None"
    using new by (simp add: find_None_iff_not)
  have app: "find P (xs @ ys) = (case find P xs of None \<Rightarrow> find P ys | Some x \<Rightarrow> Some x)" for P and xs ys :: "token_row list"
    by (induction xs) auto
  have "find (\<lambda>t. tk_token_hash t = hash plain) (filter (\<lambda>t. tk_name t \<noteq> name) (api_tokens d')) = None"
    using new by (auto simp: d' find_None_iff_not)
  then have "\<exists>d''. RevokeAPIToken name d' = Inr d'' \<and> LookupAPITokenActor hash tok d'' = None"
    by (simp add: RevokeAPIToken_def count_where_0 d' LookupAPITokenActor_def tok)
  moreover have "LookupAPITokenActor hash tok d' = Some (name, role)" "LookupAPIToken hash tok d' = Some role"
    using none assms(2) by (simp_all add: LookupAPITokenActor_def LookupAPIToken_def d' tok app)
  moreover have "LookupAPITokenActor hash p d = Some actor \<longrightarrow> LookupAPITokenActor hash p d' = Some actor" for p actor
    by (auto simp: LookupAPITokenActor_def d' app split: if_splits option.splits)
  ultimately show ?thesis using tok by blast
qed

theorem token_lifecycle_witness:
  "\<exists>d'. CreateAPIToken (\<lambda>s. s) ''t'' ''k1'' ''secret'' ''ci-bot'' ''operator'' empty_db = Inr (''secret'', d')
     \<and> LookupAPITokenActor (\<lambda>s. s) ''secret'' d' = Some (''ci-bot'', ''operator'')"
proof -
  have v: "ValidateTokenName ''ci-bot'' = None" "ValidRole ''operator''"
    by (simp_all add: demo_token)
  obtain d' where "CreateAPIToken (\<lambda>s. s) ''t'' ''k1'' ''secret'' ''ci-bot'' ''operator'' empty_db = Inr (''secret'', d')"
    using v by (simp add: CreateAPIToken_def empty_db_def)
  from token_lifecycle[OF this] this show ?thesis by simp
qed

end
