(* ===== verification/Secrets.thy ===== *)
theory Secrets
  imports RegistryProps
begin

text \<open>
  Branch passwords at rest (\<^verbatim>\<open>src/internal/registry/crypto.go\<close>, \<^verbatim>\<open>secrets.go\<close> and
  \<open>SetBranchPassword\<close>). AES-256-GCM and SHA-256 are parameters: \<open>seal\<close> and \<open>gcm_open\<close> take key, nonce and
  text, and what the code relies on is \<open>gcm_ok\<close> (opening what was sealed under the same key and
  nonce returns it) and that SHA-256 digests have 32 bytes. Hex and base64 are defined here. Random
  nonces are arguments.
\<close>

section \<open>Hex and base64\<close>

definition hex_digit :: "nat \<Rightarrow> char" where
  "hex_digit n = (if n < 10 then char_of (48 + n) else char_of (87 + n))"

definition hex_encode :: "string \<Rightarrow> string" where
  "hex_encode s = concat (map (\<lambda>c. [hex_digit (of_char c div 16), hex_digit (of_char c mod 16)]) s)"

definition b64_char :: "nat \<Rightarrow> char" where
  "b64_char n = (if n < 26 then char_of (65 + n) else if n < 52 then char_of (71 + n)
     else if n < 62 then char_of (n - 4) else if n = 62 then CHR ''+'' else CHR ''/'')"

definition b64_val :: "char \<Rightarrow> nat option" where
  "b64_val c = (let n = of_char c in
     if 65 \<le> n \<and> n \<le> 90 then Some (n - 65) else if 97 \<le> n \<and> n \<le> 122 then Some (n - 71)
     else if 48 \<le> n \<and> n \<le> 57 then Some (n + 4) else if n = 43 then Some 62 else if n = 47 then Some 63 else None)"

fun b64_encode :: "string \<Rightarrow> string" where
  "b64_encode [] = []"
| "b64_encode [a] = (let x = of_char a in [b64_char (x div 4), b64_char (x mod 4 * 16), CHR ''='', CHR ''=''])"
| "b64_encode [a, b] = (let x = of_char a; y = of_char b in
     [b64_char (x div 4), b64_char (x mod 4 * 16 + y div 16), b64_char (y mod 16 * 4), CHR ''=''])"
| "b64_encode (a # b # c # s) = (let x = of_char a; y = of_char b; z = of_char c in
     b64_char (x div 4) # b64_char (x mod 4 * 16 + y div 16) # b64_char (y mod 16 * 4 + z div 64)
     # b64_char (z mod 64) # b64_encode s)"

text \<open>\<open>StdEncoding.DecodeString\<close>: line breaks are skipped, padding is required, nothing may follow it.\<close>

fun b64_quads :: "string \<Rightarrow> string option" where
  "b64_quads [] = Some []"
| "b64_quads (a # b # c # d # s) =
     (case (b64_val a, b64_val b) of
        (Some p, Some q) \<Rightarrow>
          if c = CHR ''='' then (if d = CHR ''='' \<and> s = [] then Some [char_of (p * 4 + q div 16)] else None)
          else (case b64_val c of None \<Rightarrow> None
            | Some r \<Rightarrow>
                if d = CHR ''='' then (if s = [] then Some [char_of (p * 4 + q div 16), char_of (q mod 16 * 16 + r div 4)] else None)
                else (case b64_val d of None \<Rightarrow> None
                  | Some t \<Rightarrow> map_option (\<lambda>rest. char_of (p * 4 + q div 16) # char_of (q mod 16 * 16 + r div 4)
                       # char_of (r mod 4 * 64 + t) # rest) (b64_quads s)))
      | _ \<Rightarrow> None)"
| "b64_quads _ = None"

definition b64_decode :: "string \<Rightarrow> string option" where
  "b64_decode s = b64_quads (filter (\<lambda>c. c \<noteq> CHR 0x0A \<and> c \<noteq> CHR 0x0D) s)"

lemma of_char_256: "of_char (c :: char) < (256 :: nat)"
  by (rule nat_of_char_less_256)

lemma b64_val_char [simp]: "n < 64 \<Longrightarrow> b64_val (b64_char n) = Some n"
  by (auto simp: b64_val_def b64_char_def Let_def)

lemma b64_char_plain [simp]: "n < 64 \<Longrightarrow> b64_char n \<noteq> CHR ''=''" "n < 64 \<Longrightarrow> b64_char n \<noteq> CHR 0x0A" "n < 64 \<Longrightarrow> b64_char n \<noteq> CHR 0x0D"
  using b64_val_char[of n] by (auto simp: b64_val_def)

lemma b64_fields:
  fixes a b c :: char
  shows "of_char a div 4 < (64::nat)" "of_char a mod 4 * 16 < (64::nat)" "of_char a mod 4 * 16 + of_char b div 16 < (64::nat)"
    "of_char b mod 16 * 4 < (64::nat)" "of_char b mod 16 * 4 + of_char c div 64 < (64::nat)" "of_char c mod 64 < (64::nat)"
  using of_char_256[of a] of_char_256[of b] of_char_256[of c] by linarith+

lemma b64_roundtrip_quads: "b64_quads (b64_encode s) = Some s"
proof (induction s rule: b64_encode.induct)
  case (2 a)
  then show ?case by (simp add: Let_def b64_fields)
next
  case (3 a b)
  have "of_char b div 16 < (16::nat)" using of_char_256[of b] by linarith
  then show ?case by (simp add: Let_def b64_fields)
next
  case (4 a b c s)
  have "of_char b div 16 < (16::nat)" "of_char c div 64 < (4::nat)" using of_char_256[of b] of_char_256[of c] by linarith+
  then show ?case using 4 by (simp add: Let_def b64_fields)
qed simp

lemma b64_encode_plain: "filter (\<lambda>c. c \<noteq> CHR 0x0A \<and> c \<noteq> CHR 0x0D) (b64_encode s) = b64_encode s"
  by (induction s rule: b64_encode.induct) (simp_all add: Let_def b64_fields)

lemma b64_roundtrip: "b64_decode (b64_encode s) = Some s"
  by (simp add: b64_decode_def b64_encode_plain b64_roundtrip_quads)

lemma hex_digit_plain: "n < 16 \<Longrightarrow> hex_digit n \<noteq> CHR '':''"
  by (auto simp: hex_digit_def dest!: arg_cong[of "char_of _" _ "of_char :: char \<Rightarrow> nat"])

lemma hex_encode_plain: "CHR '':'' \<notin> set (hex_encode s)"
proof -
  have "of_char (c :: char) div 16 < (16::nat)" for c using of_char_256[of c] by linarith
  then have "hex_digit (of_char c div 16) \<noteq> CHR '':''" "hex_digit (of_char c mod 16) \<noteq> CHR '':''" for c
    by (simp_all add: hex_digit_plain)
  then show ?thesis by (fastforce simp: hex_encode_def)
qed

section \<open>Keys and the secret box\<close>

definition encPrefix :: string where "encPrefix = ''enc:''"
definition encPrefixV1 :: string where "encPrefixV1 = ''enc:v1:''"
definition encPrefixV2 :: string where "encPrefixV2 = ''enc:v2:''"

datatype secret_error = KeyLength nat | PreviousKey secret_error | LegacyKey secret_error | ErrSecretUnavailable string

record SecretKeys =
  Primary :: string
  Previous :: "string list"
  Legacy :: "string list"

text \<open>The primitives the code takes from the Go crypto packages.\<close>

record crypto =
  sha256 :: "string \<Rightarrow> string"
  gcm_seal :: "string \<Rightarrow> string \<Rightarrow> string \<Rightarrow> string"
  gcm_open :: "string \<Rightarrow> string \<Rightarrow> string \<Rightarrow> string option"

definition NonceSize :: nat where "NonceSize = 12"

definition LegacyTokenKey :: "crypto \<Rightarrow> string \<Rightarrow> string" where
  "LegacyTokenKey cr token = (if token = [] then [] else sha256 cr token)"

definition KeyID :: "crypto \<Rightarrow> string \<Rightarrow> string" where
  "KeyID cr key =
     (if length key \<noteq> 32 then []
      else hex_encode (take 4 (sha256 cr (''pgoverlay/at-rest-key-id/v1'' @ [CHR 0x00] @ key))))"

record secretBox =
  primaryID :: string
  byID :: "string \<rightharpoonup> string"
  legacy :: "string list"

text \<open>An AEAD is represented by the key it was built from.\<close>

definition newAEAD :: "string \<Rightarrow> (secret_error, string) result" where
  "newAEAD key = (if length key \<noteq> 32 then Inl (KeyLength (length key)) else Inr key)"

fun add_previous :: "crypto \<Rightarrow> string list \<Rightarrow> secretBox \<Rightarrow> (secret_error, secretBox) result" where
  "add_previous cr [] b = Inr b"
| "add_previous cr (key # ks) b =
     (if key = [] then add_previous cr ks b
      else (case newAEAD key of Inl e \<Rightarrow> Inl (PreviousKey e)
        | Inr aead \<Rightarrow> add_previous cr ks
            (if byID b (KeyID cr key) = None then b\<lparr>byID := (byID b)(KeyID cr key \<mapsto> aead)\<rparr> else b)))"

fun add_legacy :: "string list \<Rightarrow> secretBox \<Rightarrow> (secret_error, secretBox) result" where
  "add_legacy [] b = Inr b"
| "add_legacy (key # ks) b =
     (if key = [] then add_legacy ks b
      else (case newAEAD key of Inl e \<Rightarrow> Inl (LegacyKey e)
        | Inr aead \<Rightarrow> add_legacy ks (b\<lparr>legacy := legacy b @ [aead]\<rparr>)))"

definition newSecretBox :: "crypto \<Rightarrow> SecretKeys \<Rightarrow> (secret_error, secretBox option) result" where
  "newSecretBox cr k =
     (if Primary k = [] \<and> Previous k = [] \<and> Legacy k = [] then Inr None
      else
        (let b0 = \<lparr>primaryID = [], byID = Map.empty, legacy = []\<rparr>;
             b1 = (if Primary k \<noteq> []
                   then (case newAEAD (Primary k) of Inl e \<Rightarrow> Inl e
                     | Inr aead \<Rightarrow> Inr (b0\<lparr>primaryID := KeyID cr (Primary k), byID := [KeyID cr (Primary k) \<mapsto> aead]\<rparr>))
                   else Inr b0)
         in case b1 of Inl e \<Rightarrow> Inl e
            | Inr b \<Rightarrow> (case add_previous cr (Previous k) b of Inl e \<Rightarrow> Inl e
              | Inr b' \<Rightarrow> (case add_legacy (Legacy k) b' of Inl e \<Rightarrow> Inl e | Inr b'' \<Rightarrow> Inr (Some b'')))))"

definition encrypt :: "crypto \<Rightarrow> secretBox option \<Rightarrow> string \<Rightarrow> string \<Rightarrow> string" where
  "encrypt cr box nonce plaintext =
     (case box of None \<Rightarrow> plaintext
      | Some b \<Rightarrow>
          if primaryID b = [] \<or> plaintext = [] then plaintext
          else encPrefixV2 @ primaryID b @ '':'' @
            b64_encode (nonce @ gcm_seal cr (the (byID b (primaryID b))) nonce plaintext))"

definition openSealed :: "crypto \<Rightarrow> string \<Rightarrow> string \<Rightarrow> string option" where
  "openSealed cr aead body =
     (case b64_decode body of None \<Rightarrow> None
      | Some raw \<Rightarrow> if length raw < NonceSize then None
          else gcm_open cr aead (take NonceSize raw) (drop NonceSize raw))"

fun try_legacy :: "crypto \<Rightarrow> string list \<Rightarrow> string \<Rightarrow> string option" where
  "try_legacy cr [] body = None"
| "try_legacy cr (k # ks) body = (case openSealed cr k body of Some pt \<Rightarrow> Some pt | None \<Rightarrow> try_legacy cr ks body)"

definition decrypt :: "crypto \<Rightarrow> secretBox option \<Rightarrow> string \<Rightarrow> (secret_error, string) result" where
  "decrypt cr box stored =
     (if \<not> has_prefix encPrefix stored then Inr stored
      else if has_prefix encPrefixV2 stored then
        (case cut (CHR '':'') (trim_prefix encPrefixV2 stored) of
           None \<Rightarrow> Inl (ErrSecretUnavailable ''malformed enc:v2 value'')
         | Some (kid, body) \<Rightarrow>
             (case (case box of None \<Rightarrow> None | Some b \<Rightarrow> byID b kid) of
                None \<Rightarrow> Inl (ErrSecretUnavailable (''it was encrypted under at-rest key '' @ kid @ '', which is not configured''))
              | Some aead \<Rightarrow> (case openSealed cr aead body of
                  None \<Rightarrow> Inl (ErrSecretUnavailable (''at-rest key '' @ kid)) | Some pt \<Rightarrow> Inr pt)))
      else if has_prefix encPrefixV1 stored then
        (case (case box of None \<Rightarrow> None | Some b \<Rightarrow> try_legacy cr (legacy b) (trim_prefix encPrefixV1 stored)) of
           Some pt \<Rightarrow> Inr pt
         | None \<Rightarrow> Inl (ErrSecretUnavailable ''it predates the dedicated at-rest key''))
      else Inl (ErrSecretUnavailable ''unknown encryption scheme''))"

definition isCurrent :: "secretBox option \<Rightarrow> string \<Rightarrow> bool" where
  "isCurrent box stored =
     (case box of None \<Rightarrow> True
      | Some b \<Rightarrow> stored = [] \<or> primaryID b = [] \<or> has_prefix (encPrefixV2 @ primaryID b @ '':'') stored)"

definition SetBranchPassword :: "crypto \<Rightarrow> secretBox option \<Rightarrow> string \<Rightarrow> string \<Rightarrow> string \<Rightarrow> string \<Rightarrow> db \<Rightarrow> (reg_error, db) result" where
  "SetBranchPassword cr box nonce now eid password d = store_branch_password now eid (encrypt cr box nonce password) d"

section \<open>Re-encryption\<close>

record SecretsReport =
  Reencrypted :: nat
  Unavailable :: "string list"

fun reencrypt_loop ::
  "crypto \<Rightarrow> secretBox option \<Rightarrow> (string \<Rightarrow> string) \<Rightarrow> (string \<times> string \<times> string) list \<Rightarrow> SecretsReport \<times> db
     \<Rightarrow> SecretsReport \<times> db" where
  "reencrypt_loop cr box nonce [] (rep, d) = (rep, d)"
| "reencrypt_loop cr box nonce ((i, name, stored) # todo) (rep, d) =
     (case decrypt cr box stored of
        Inl e \<Rightarrow> reencrypt_loop cr box nonce todo (rep\<lparr>Unavailable := Unavailable rep @ [name]\<rparr>, d)
      | Inr plain \<Rightarrow>
          (let enc = encrypt cr box (nonce i) plain; hit = (\<lambda>r. br_id r = i \<and> br_password r = stored);
               n = count_where hit (branches d);
               rep' = (if n = 1 then rep\<lparr>Reencrypted := Reencrypted rep + 1\<rparr> else rep)
           in reencrypt_loop cr box nonce todo
                (rep', d\<lparr>branches := upd_where hit (\<lambda>r. r\<lparr>br_password := enc\<rparr>) (branches d)\<rparr>)))"

definition stale_password :: "secretBox option \<Rightarrow> branch_row \<Rightarrow> bool" where
  "stale_password box r \<longleftrightarrow> br_password r \<noteq> [] \<and> live_branch r \<and> \<not> isCurrent box (br_password r)"

definition ReencryptSecrets :: "crypto \<Rightarrow> secretBox option \<Rightarrow> (string \<Rightarrow> string) \<Rightarrow> db \<Rightarrow> SecretsReport \<times> db" where
  "ReencryptSecrets cr box nonce d =
     (let rep = \<lparr>Reencrypted = 0, Unavailable = []\<rparr>
      in if (case box of None \<Rightarrow> True | Some b \<Rightarrow> primaryID b = []) then (rep, d)
         else reencrypt_loop cr box nonce
           (map (\<lambda>r. (br_id r, br_name r, br_password r)) (filter (stale_password box) (sort_key br_created_at (branches d))))
           (rep, d))"

section \<open>What the code relies on\<close>

definition gcm_ok :: "crypto \<Rightarrow> bool" where
  "gcm_ok cr \<longleftrightarrow> (\<forall>k n p. length k = 32 \<longrightarrow> length n = NonceSize \<longrightarrow> gcm_open cr k n (gcm_seal cr k n p) = Some p)"

definition sha256_ok :: "crypto \<Rightarrow> bool" where
  "sha256_ok cr \<longleftrightarrow> (\<forall>s. length (sha256 cr s) = 32)"

definition box_ok :: "secretBox \<Rightarrow> bool" where
  "box_ok b \<longleftrightarrow> CHR '':'' \<notin> set (primaryID b) \<and>
     (primaryID b \<noteq> [] \<longrightarrow> (case byID b (primaryID b) of None \<Rightarrow> False | Some k \<Rightarrow> length k = 32))"

lemma newAEAD_length: "newAEAD key = Inr k \<Longrightarrow> length k = 32"
  by (simp add: newAEAD_def split: if_splits)

lemma add_previous_ok: "add_previous cr ks b = Inr b' \<Longrightarrow> box_ok b \<Longrightarrow> box_ok b' \<and> primaryID b' = primaryID b"
proof (induction ks arbitrary: b)
  case (Cons key ks)
  show ?case
  proof (cases "key = []")
    case False
    with Cons.prems(1) obtain aead where k: "newAEAD key = Inr aead" by (cases "newAEAD key") auto
    let ?b = "if byID b (KeyID cr key) = None then b\<lparr>byID := (byID b)(KeyID cr key \<mapsto> aead)\<rparr> else b"
    have "box_ok ?b" using Cons.prems(2) newAEAD_length[OF k] by (auto simp: box_ok_def split: option.splits)
    moreover have "add_previous cr ks ?b = Inr b'" using Cons.prems(1) False k by simp
    ultimately show ?thesis using Cons.IH[of ?b] by (auto split: if_splits)
  qed (use Cons in simp)
qed simp

lemma add_legacy_ok: "add_legacy ks b = Inr b' \<Longrightarrow> box_ok b \<Longrightarrow> box_ok b' \<and> primaryID b' = primaryID b \<and> byID b' = byID b"
proof (induction ks arbitrary: b)
  case (Cons key ks)
  show ?case
  proof (cases "key = []")
    case False
    with Cons.prems(1) obtain aead where k: "newAEAD key = Inr aead" by (cases "newAEAD key") auto
    have "box_ok (b\<lparr>legacy := legacy b @ [aead]\<rparr>)" using Cons.prems(2) by (simp add: box_ok_def)
    then show ?thesis using Cons.IH[of "b\<lparr>legacy := legacy b @ [aead]\<rparr>"] Cons.prems(1) False k by simp
  qed (use Cons in simp)
qed simp

lemma newSecretBox_ok:
  assumes "newSecretBox cr k = Inr (Some b)"
  shows "box_ok b \<and> primaryID b = KeyID cr (Primary k)"
proof (cases "Primary k = []")
  case True
  let ?b0 = "\<lparr>primaryID = [], byID = Map.empty, legacy = []\<rparr>"
  have 0: "box_ok ?b0" by (simp add: box_ok_def)
  obtain b1 where "add_previous cr (Previous k) ?b0 = Inr b1" "add_legacy (Legacy k) b1 = Inr b"
    using assms True by (auto simp: newSecretBox_def Let_def split: if_splits sum.splits)
  with add_previous_ok[OF _ 0] add_legacy_ok True show ?thesis by (fastforce simp: KeyID_def)
next
  case False
  let ?i = "KeyID cr (Primary k)"
  obtain key where key: "newAEAD (Primary k) = Inr key"
    using assms False by (cases "newAEAD (Primary k)") (auto simp: newSecretBox_def Let_def)
  let ?b0 = "\<lparr>primaryID = ?i, byID = [?i \<mapsto> key], legacy = []\<rparr>"
  have 0: "box_ok ?b0" using newAEAD_length[OF key] hex_encode_plain by (simp add: box_ok_def KeyID_def)
  obtain b1 where "add_previous cr (Previous k) ?b0 = Inr b1" "add_legacy (Legacy k) b1 = Inr b"
    using assms False key by (auto simp: newSecretBox_def Let_def split: if_splits sum.splits)
  with add_previous_ok[OF _ 0] add_legacy_ok show ?thesis by fastforce
qed

lemma KeyID_nonempty: "sha256_ok cr \<Longrightarrow> length key = 32 \<Longrightarrow> KeyID cr key \<noteq> []"
  by (cases "sha256 cr (''pgoverlay/at-rest-key-id/v1'' @ [CHR 0x00] @ key)")
    (auto simp: KeyID_def hex_encode_def sha256_ok_def dest!: spec[of _ "''pgoverlay/at-rest-key-id/v1'' @ [CHR 0x00] @ key"])

text \<open>A value sealed under the primary key: what it looks like and how it opens.\<close>

lemma decrypt_v2:
  assumes "CHR '':'' \<notin> set kid"
  shows "decrypt cr (Some b) (encPrefixV2 @ kid @ '':'' @ body) =
    (case byID b kid of
       None \<Rightarrow> Inl (ErrSecretUnavailable (''it was encrypted under at-rest key '' @ kid @ '', which is not configured''))
     | Some aead \<Rightarrow> (case openSealed cr aead body of
         None \<Rightarrow> Inl (ErrSecretUnavailable (''at-rest key '' @ kid)) | Some pt \<Rightarrow> Inr pt))"
proof -
  have "has_prefix encPrefix (encPrefixV2 @ kid @ '':'' @ body)" by (simp add: has_prefix_def encPrefix_def encPrefixV2_def)
  then show ?thesis using cut_append[OF assms, of body] by (simp add: decrypt_def)
qed

lemma encrypt_sealed:
  assumes "gcm_ok cr" "box_ok b" "primaryID b \<noteq> []" "length nonce = NonceSize"
  shows "decrypt cr (Some b) (encrypt cr (Some b) nonce p) = Inr p" "isCurrent (Some b) (encrypt cr (Some b) nonce p)"
proof -
  obtain k where k: "byID b (primaryID b) = Some k" "length k = 32" "CHR '':'' \<notin> set (primaryID b)"
    using assms(2,3) by (auto simp: box_ok_def split: option.splits)
  have "openSealed cr k (b64_encode (nonce @ gcm_seal cr k nonce p)) = Some p"
    using assms(1,4) k(2) by (simp add: openSealed_def b64_roundtrip gcm_ok_def)
  moreover have "decrypt cr (Some b) [] = Inr []" by (simp add: decrypt_def has_prefix_def encPrefix_def)
  ultimately show "decrypt cr (Some b) (encrypt cr (Some b) nonce p) = Inr p"
    using assms(3) k by (cases "p = []") (simp_all add: encrypt_def decrypt_v2[simplified])
  show "isCurrent (Some b) (encrypt cr (Some b) nonce p)"
    using assms(3) has_prefix_append[of "encPrefixV2 @ primaryID b @ '':''"] by (simp add: encrypt_def isCurrent_def)
qed

text \<open>The registry's \<open>scanBranch\<close> decrypts with the configured box; \<open>None\<close> is \<open>PasswordUnavailable\<close>.\<close>

definition read_password :: "crypto \<Rightarrow> secretBox option \<Rightarrow> string \<Rightarrow> string option" where
  "read_password cr box stored = (case decrypt cr box stored of Inl e \<Rightarrow> None | Inr p \<Rightarrow> Some p)"

text \<open>A toy cipher and digest that satisfy what the code relies on, for the witnesses.\<close>

definition demo_crypto :: crypto where
  "demo_crypto = \<lparr>sha256 = (\<lambda>s. replicate 32 (if s = [] then CHR ''0'' else last s)), gcm_seal = (\<lambda>k n p. rev p),
     gcm_open = (\<lambda>k n c. Some (rev c))\<rparr>"

lemma demo_crypto_ok: "gcm_ok demo_crypto" "sha256_ok demo_crypto"
  by (simp_all add: gcm_ok_def sha256_ok_def demo_crypto_def)

text \<open>
  A password stored with \<open>SetBranchPassword\<close> is the one the read paths return: with a primary
  key it is stored sealed under that key, and reading the branch back opens it; without one it is
  stored as it is, which is faithful for every password that does not itself begin with the marker
  \<^verbatim>\<open>enc:\<close>.
\<close>

theorem password_roundtrip:
  assumes "gcm_ok cr" "sha256_ok cr" "newSecretBox cr k = Inr box" "length nonce = NonceSize"
    and "Primary k \<noteq> [] \<or> \<not> has_prefix encPrefix p"
    and "SetBranchPassword cr box nonce now eid p d = Inr d'"
  shows "\<exists>b. GetBranchByID (read_password cr box) eid d' = Inr b \<and> b_Password b = p \<and> \<not> b_PasswordUnavailable b"
proof -
  have rd: "read_password cr box (encrypt cr box nonce p) = Some p"
  proof (cases "Primary k = []")
    case True
    then have "encrypt cr box nonce p = p"
      using newSecretBox_ok[of cr k "the box"] assms(3) by (auto simp: encrypt_def KeyID_def split: option.splits)
    then show ?thesis using True assms(5) by (simp add: read_password_def decrypt_def)
  next
    case False
    then obtain b where b: "box = Some b" using assms(3) by (auto simp: newSecretBox_def Let_def split: if_splits sum.splits)
    have "newAEAD (Primary k) = Inr (Primary k)" "length (Primary k) = 32"
      using assms(3) False by (auto simp: newSecretBox_def newAEAD_def split: if_splits)
    then have "primaryID b \<noteq> []" using newSecretBox_ok[of cr k b] assms(3) b KeyID_nonempty[OF assms(2)] by simp
    then show ?thesis
      using encrypt_sealed(1)[OF assms(1), of b nonce p] newSecretBox_ok[of cr k b] assms(3,4) b by (simp add: read_password_def)
  qed
  let ?f = "\<lambda>r. r\<lparr>br_password := encrypt cr box nonce p, br_updated_at := now\<rparr>"
  have d': "branches d' = upd_where (\<lambda>r. br_id r = eid) ?f (branches d)" and "count_where (\<lambda>r. br_id r = eid) (branches d) \<noteq> 0"
    using assms(6) by (auto simp: SetBranchPassword_def store_branch_password_def split: if_splits)
  then obtain r where "find (\<lambda>r. br_id r = eid) (branches d) = Some r"
    by (cases "find (\<lambda>r. br_id r = eid) (branches d)") (auto simp: count_where_0 find_None_iff_not)
  then have "find (\<lambda>r. br_id r = eid) (branches d') = Some (?f r)" unfolding d' by (subst find_upd_where) auto
  then show ?thesis using rd by (simp add: GetBranchByID_def getBranch_def scanBranch_def)
qed

definition demo_key :: string where
  "demo_key = replicate 32 (CHR ''a'')"

definition demo_box :: secretBox where
  "demo_box = \<lparr>primaryID = KeyID demo_crypto demo_key, byID = [KeyID demo_crypto demo_key \<mapsto> demo_key], legacy = []\<rparr>"

lemma demo_key_length: "length demo_key = 32" "demo_key \<noteq> []"
  by (simp_all add: demo_key_def)

lemma demo_box_new: "newSecretBox demo_crypto \<lparr>Primary = demo_key, Previous = [], Legacy = []\<rparr> = Inr (Some demo_box)"
  by (simp add: newSecretBox_def newAEAD_def demo_box_def demo_key_length)

theorem password_roundtrip_witness:
  "\<exists>d' b. SetBranchPassword demo_crypto (Some demo_box) (replicate 12 (CHR ''n'')) ''t'' ''b1'' ''enc:me'' demo_db2 = Inr d'
     \<and> GetBranchByID (read_password demo_crypto (Some demo_box)) ''b1'' d' = Inr b \<and> b_Password b = ''enc:me''"
proof -
  obtain d' where d': "SetBranchPassword demo_crypto (Some demo_box) (replicate 12 (CHR ''n'')) ''t'' ''b1'' ''enc:me'' demo_db2 = Inr d'"
    by (simp add: SetBranchPassword_def store_branch_password_def count_where_def demo_db2_def demo_row_def demo_branch_def)
  with password_roundtrip[OF demo_crypto_ok demo_box_new _ _ d'] show ?thesis
    by (auto simp: NonceSize_def demo_key_length)
qed

section \<open>Moving passwords under the primary key\<close>

text \<open>What the loop does to one row.\<close>

definition reencrypted :: "crypto \<Rightarrow> secretBox option \<Rightarrow> (string \<Rightarrow> string) \<Rightarrow> branch_row \<Rightarrow> branch_row" where
  "reencrypted cr box nonce r =
     (case decrypt cr box (br_password r) of Inl e \<Rightarrow> r | Inr p \<Rightarrow> r\<lparr>br_password := encrypt cr box (nonce (br_id r)) p\<rparr>)"

abbreviation todo_entry :: "branch_row \<Rightarrow> string \<times> string \<times> string" where
  "todo_entry r \<equiv> (br_id r, br_name r, br_password r)"

lemma reencrypt_loop_rows:
  assumes "distinct (map br_id (branches d))" "set todo \<subseteq> set (branches d)" "distinct (map br_id todo)"
  shows "snd (reencrypt_loop cr box nonce (map todo_entry todo) (rep, d)) =
      d\<lparr>branches := map (\<lambda>r. if r \<in> set todo then reencrypted cr box nonce r else r) (branches d)\<rparr>
    \<and> Unavailable (fst (reencrypt_loop cr box nonce (map todo_entry todo) (rep, d))) =
      Unavailable rep @ map br_name (filter (\<lambda>r. \<exists>e. decrypt cr box (br_password r) = Inl e) todo)"
  using assms
proof (induction todo arbitrary: d rep)
  case Nil
  then show ?case by (simp add: map_idI)
next
  case (Cons w todo)
  have w: "w \<in> set (branches d)" using Cons.prems(2) by simp
  have only: "q = w" if "q \<in> set (branches d)" "br_id q = br_id w" for q
    using distinct_map_unique[OF Cons.prems(1) that(1) w that(2)] .
  have notin: "w \<notin> set todo" using Cons.prems(3) by auto
  show ?case
  proof (cases "decrypt cr box (br_password w)")
    case (Inl e)
    have "map (\<lambda>r. if r \<in> set todo then reencrypted cr box nonce r else r) (branches d) =
        map (\<lambda>r. if r \<in> set (w # todo) then reencrypted cr box nonce r else r) (branches d)"
      using Inl by (auto simp: reencrypted_def)
    then show ?thesis using Cons.IH[of d "rep\<lparr>Unavailable := Unavailable rep @ [br_name w]\<rparr>"] Cons.prems Inl by simp
  next
    case (Inr p)
    let ?f = "\<lambda>r. r\<lparr>br_password := encrypt cr box (nonce (br_id w)) p\<rparr>"
    let ?bs = "map (\<lambda>r. if r = w then ?f r else r) (branches d)"
    have upd: "upd_where (\<lambda>r. br_id r = br_id w \<and> br_password r = br_password w) ?f (branches d) = ?bs"
      unfolding upd_where_def by (rule map_cong[OF refl]) (use only in auto)
    have todo: "set todo \<subseteq> set ?bs" using Cons.prems(2) notin by fastforce
    have ids: "map br_id ?bs = map br_id (branches d)" by simp
    have fresh: "?f w \<notin> set todo"
    proof
      assume "?f w \<in> set todo"
      from imageI[OF this, of br_id] show False using Cons.prems(3) by simp
    qed
    have rows: "map (\<lambda>r. if r \<in> set todo then reencrypted cr box nonce r else r) ?bs =
        map (\<lambda>r. if r \<in> set (w # todo) then reencrypted cr box nonce r else r) (branches d)"
      using notin fresh Inr by (auto simp: reencrypted_def)
    define rep' where "rep' = (if count_where (\<lambda>r. br_id r = br_id w \<and> br_password r = br_password w) (branches d) = 1
      then rep\<lparr>Reencrypted := Reencrypted rep + 1\<rparr> else rep)"
    let ?d = "d\<lparr>branches := ?bs\<rparr>"
    have step: "reencrypt_loop cr box nonce (map todo_entry (w # todo)) (rep, d) =
        reencrypt_loop cr box nonce (map todo_entry todo) (rep', ?d)"
      by (simp add: Inr Let_def upd rep'_def)
    have bs: "branches ?d = ?bs" by simp
    have "distinct (map br_id (branches ?d))" unfolding bs ids by (rule Cons.prems(1))
    moreover have "set todo \<subseteq> set (branches ?d)" unfolding bs by (rule todo)
    ultimately have IH: "snd (reencrypt_loop cr box nonce (map todo_entry todo) (rep', ?d)) =
          ?d\<lparr>branches := map (\<lambda>r. if r \<in> set todo then reencrypted cr box nonce r else r) ?bs\<rparr>"
        "Unavailable (fst (reencrypt_loop cr box nonce (map todo_entry todo) (rep', ?d))) =
          Unavailable rep' @ map br_name (filter (\<lambda>r. \<exists>e. decrypt cr box (br_password r) = Inl e) todo)"
      using Cons.IH[of ?d rep'] Cons.prems(3) by (simp_all del: map_map)
    show ?thesis unfolding step IH rows using Inr by (simp add: rep'_def)
  qed
qed

lemma primary_box:
  assumes "sha256_ok cr" "newSecretBox cr k = Inr (Some b)" "Primary k \<noteq> []"
  shows "box_ok b" "primaryID b \<noteq> []"
proof -
  have "length (Primary k) = 32" using assms(2,3) by (auto simp: newSecretBox_def newAEAD_def split: if_splits)
  then show "box_ok b" "primaryID b \<noteq> []"
    using newSecretBox_ok[OF assms(2)] KeyID_nonempty[OF assms(1)] by simp_all
qed

lemma ReencryptSecrets_rows:
  assumes "struct_ok d" "primaryID b \<noteq> []" "ReencryptSecrets cr (Some b) nonce d = (rep, d')"
  shows "d' = d\<lparr>branches := map (\<lambda>r. if stale_password (Some b) r then reencrypted cr (Some b) nonce r else r) (branches d)\<rparr>"
    "Unavailable rep = map br_name (filter (\<lambda>r. \<exists>e. decrypt cr (Some b) (br_password r) = Inl e)
       (filter (stale_password (Some b)) (sort_key br_created_at (branches d))))"
proof -
  let ?todo = "filter (stale_password (Some b)) (sort_key br_created_at (branches d))"
  have "distinct (map br_id (sort_key br_created_at (branches d)))"
    using struct_okD(2)[OF assms(1)] by (simp add: distinct_map)
  then have dist: "distinct (map br_id ?todo)" by (rule distinct_map_filter)
  note rows = reencrypt_loop_rows[OF struct_okD(2)[OF assms(1)] _ dist, of cr "Some b" nonce "\<lparr>Reencrypted = 0, Unavailable = []\<rparr>"]
  have run: "reencrypt_loop cr (Some b) nonce (map todo_entry ?todo) (\<lparr>Reencrypted = 0, Unavailable = []\<rparr>, d) = (rep, d')"
    using assms(2,3) by (simp add: ReencryptSecrets_def Let_def)
  have "map (\<lambda>r. if r \<in> set ?todo then reencrypted cr (Some b) nonce r else r) (branches d) =
      map (\<lambda>r. if stale_password (Some b) r then reencrypted cr (Some b) nonce r else r) (branches d)"
    by simp
  with rows run show "d' = d\<lparr>branches := map (\<lambda>r. if stale_password (Some b) r then reencrypted cr (Some b) nonce r else r) (branches d)\<rparr>"
    "Unavailable rep = map br_name (filter (\<lambda>r. \<exists>e. decrypt cr (Some b) (br_password r) = Inl e) ?todo)"
    by auto
qed


definition demo_pw_db :: db where
  "demo_pw_db = demo_db2\<lparr>branches := [demo_row\<lparr>br_password := ''hunter2''\<rparr>]\<rparr>"


end
