(* ===== verification/Proxy.thy ===== *)
theory Proxy
  imports Registry "HOL-Library.Word" "HOL-Library.Multiset"
begin

text \<open>
  The Postgres router (\<^verbatim>\<open>src/internal/pgproxy\<close>): startup frames, database routing, the map of
  cancel keys, the relay of the backend's startup response, connection and startup-slot accounting.
  A connection's input is the byte string its peer will have sent before it stops. Deadlines are
  not modelled: a deadline that fires looks like an input that ends. pgproto3's encoder and decoder,
  the TLS handshake and the TCP dial are parameters.
\<close>

section \<open>Startup frames (\<^verbatim>\<open>startup.go\<close>)\<close>

definition be_nat :: "string \<Rightarrow> nat" where
  "be_nat s = foldl (\<lambda>n c. n * 256 + of_char c) 0 s"

definition Uint32 :: "string \<Rightarrow> 32 word" where
  "Uint32 s = word_of_nat (be_nat (take 4 s))"

definition PutUint32 :: "32 word \<Rightarrow> string" where
  "PutUint32 w = (let n = unat w in
     [char_of (n div 16777216), char_of (n div 65536), char_of (n div 256), char_of n])"

definition cancelRequestCode :: "32 word" where "cancelRequestCode = 80877102"
definition sslRequestCode :: "32 word" where "sslRequestCode = 80877103"
definition gssEncRequestCode :: "32 word" where "gssEncRequestCode = 80877104"

definition minStartupPacketLen :: int where "minStartupPacketLen = 4"
definition maxStartupPacketLen :: int where "maxStartupPacketLen = 10000"

datatype proxy_error = UnexpectedEOF | InvalidStartupLength int | InvalidMessageLength char int

text \<open>\<open>io.ReadFull\<close>: the bytes and what is left to read.\<close>

definition ReadFull :: "nat \<Rightarrow> string \<Rightarrow> (proxy_error, string \<times> string) result" where
  "ReadFull n s = (if length s < n then Inl UnexpectedEOF else Inr (take n s, drop n s))"

text \<open>The code, the payload, and the input after the frame.\<close>

definition readStartupFrame :: "string \<Rightarrow> (proxy_error, 32 word \<times> string \<times> string) result" where
  "readStartupFrame s =
     (case ReadFull 4 s of Inl e \<Rightarrow> Inl e
      | Inr (head, r1) \<Rightarrow>
          (let size = sint (Uint32 head) - 4
           in if size < minStartupPacketLen \<or> size > maxStartupPacketLen then Inl (InvalidStartupLength (size + 4))
              else (case ReadFull (nat size) r1 of Inl e \<Rightarrow> Inl e
                | Inr (payload, r2) \<Rightarrow> Inr (Uint32 (take 4 payload), payload, r2))))"

text \<open>\<open>strings.LastIndexByte\<close>.\<close>

fun last_index :: "char \<Rightarrow> string \<Rightarrow> nat option" where
  "last_index c [] = None"
| "last_index c (x # xs) =
     (case last_index c xs of Some i \<Rightarrow> Some (Suc i) | None \<Rightarrow> if x = c then Some 0 else None)"

definition splitDatabase :: "string \<Rightarrow> (string \<times> string) option" where
  "splitDatabase db = (case last_index (CHR ''@'') db of None \<Rightarrow> None | Some i \<Rightarrow> Some (take i db, drop (i + 1) db))"

section \<open>The cancel map (\<^verbatim>\<open>cancel.go\<close>)\<close>

type_synonym cancelMap = "string \<rightharpoonup> string list"

definition addrs_of :: "string \<Rightarrow> cancelMap \<Rightarrow> string list" where
  "addrs_of key m = (case m key of None \<Rightarrow> [] | Some addrs \<Rightarrow> addrs)"

definition cancel_add :: "string \<Rightarrow> string \<Rightarrow> cancelMap \<Rightarrow> cancelMap" where
  "cancel_add key addr m = m(key \<mapsto> addrs_of key m @ [addr])"

fun remove_first :: "string \<Rightarrow> string list \<Rightarrow> string list" where
  "remove_first addr [] = []"
| "remove_first addr (a # addrs) = (if a = addr then addrs else a # remove_first addr addrs)"

definition cancel_remove :: "string \<Rightarrow> string \<Rightarrow> cancelMap \<Rightarrow> cancelMap" where
  "cancel_remove key addr m =
     (let addrs = remove_first addr (addrs_of key m)
      in if addrs = [] then m(key := None) else m(key \<mapsto> addrs))"

definition cancel_lookup :: "string \<Rightarrow> cancelMap \<Rightarrow> string option" where
  "cancel_lookup key m = (case addrs_of key m of [a] \<Rightarrow> Some a | _ \<Rightarrow> None)"

text \<open>
  \<open>forwardCancel\<close>: the backend the frame goes to and the bytes it is sent. \<open>dial\<close> says whether a TCP
  connection to an address can be made.
\<close>

definition forwardCancel :: "cancelMap \<Rightarrow> (string \<Rightarrow> bool) \<Rightarrow> string \<Rightarrow> (string \<times> string) option" where
  "forwardCancel m dial payload =
     (if length payload < 12 then None
      else (case cancel_lookup (drop 4 payload) m of None \<Rightarrow> None
        | Some addr \<Rightarrow>
            if \<not> dial addr then None
            else Some (addr, PutUint32 (word_of_nat (4 + length payload)) @ payload)))"

section \<open>Relaying the startup response (\<^verbatim>\<open>relay.go\<close>)\<close>

definition maxBackendKeyDataLen :: int where "maxBackendKeyDataLen = 4 + 256"

record session =
  ses_addr :: string
  ses_cancelKey :: string
  ses_ready :: bool

definition registerCancelKey :: "string \<Rightarrow> session \<times> cancelMap \<Rightarrow> session \<times> cancelMap" where
  "registerCancelKey body st =
     (let (s, m) = st;
          m1 = (if ses_cancelKey s \<noteq> [] then cancel_remove (ses_cancelKey s) (ses_addr s) m else m)
      in (s\<lparr>ses_cancelKey := body\<rparr>, cancel_add body (ses_addr s) m1))"

record relay_state =
  rl_out :: string
  rl_session :: session
  rl_cancels :: cancelMap

text \<open>
  The loop of \<open>relayStartup\<close> over the bytes the backend sends: the error that ended it (\<open>None\<close> is
  \<open>nil\<close>), the state (with everything written to the client), and the bytes not yet read. Writes to
  the client succeed.
\<close>

function relayStartup :: "string \<Rightarrow> relay_state \<Rightarrow> proxy_error option \<times> relay_state \<times> string" where
  "relayStartup src st =
     (case ReadFull 5 src of Inl e \<Rightarrow> (Some e, st, [])
      | Inr (hdr, r1) \<Rightarrow>
          (let ty = hd hdr; n = sint (Uint32 (tl hdr)) - 4
           in if n < 0 then (Some (InvalidMessageLength ty (n + 4)), st, r1)
              else
                (let st1 = st\<lparr>rl_out := rl_out st @ hdr\<rparr>
                 in if length r1 < nat n
                    then (if ty = CHR ''K'' \<and> n \<ge> 8 \<and> n \<le> maxBackendKeyDataLen then (Some UnexpectedEOF, st1, [])
                          else (Some UnexpectedEOF, st1\<lparr>rl_out := rl_out st1 @ r1\<rparr>, []))
                    else
                      (let body = take (nat n) r1;
                           st2 = st1\<lparr>rl_out := rl_out st1 @ body\<rparr>;
                           st3 = (if ty = CHR ''K'' \<and> n \<ge> 8 \<and> n \<le> maxBackendKeyDataLen
                                  then (let (s, m) = registerCancelKey body (rl_session st2, rl_cancels st2)
                                        in st2\<lparr>rl_session := s, rl_cancels := m\<rparr>)
                                  else st2)
                       in if ty = CHR ''Z'' then (None, st3\<lparr>rl_session := (rl_session st3)\<lparr>ses_ready := True\<rparr>\<rparr>, drop (nat n) r1)
                          else relayStartup (drop (nat n) r1) st3))))"
  by pat_completeness auto

termination
  by (relation "measure (length \<circ> fst)") (auto simp: ReadFull_def split: if_splits)

declare relayStartup.simps [simp del]

text \<open>
  \<open>copyBackendToClient\<close>: the startup response, then everything else. \<open>relay\<close> ends by giving the
  session's cancel key back.
\<close>

definition copyBackendToClient :: "string \<Rightarrow> relay_state \<Rightarrow> relay_state" where
  "copyBackendToClient src st =
     (case relayStartup src st of
        (Some e, st', rest) \<Rightarrow> st'
      | (None, st', rest) \<Rightarrow> st'\<lparr>rl_out := rl_out st' @ rest\<rparr>)"

definition end_session :: "session \<Rightarrow> cancelMap \<Rightarrow> cancelMap" where
  "end_session s m = (if ses_cancelKey s \<noteq> [] then cancel_remove (ses_cancelKey s) (ses_addr s) m else m)"

definition relay_backend :: "string \<Rightarrow> session \<Rightarrow> cancelMap \<Rightarrow> string \<times> cancelMap" where
  "relay_backend src s m =
     (let st = copyBackendToClient src \<lparr>rl_out = [], rl_session = s, rl_cancels = m\<rparr>
      in (rl_out st, end_session (rl_session st) (rl_cancels st)))"

section \<open>Configuration (\<^verbatim>\<open>proxy.go\<close>)\<close>

text \<open>Durations are milliseconds here.\<close>

definition durationOr :: "int \<Rightarrow> int \<Rightarrow> int" where
  "durationOr d def = (if d > 0 then d else def)"

definition capOr :: "int \<Rightarrow> int \<Rightarrow> int" where
  "capOr n def = (if n > 0 then n else if n = 0 then def else 0)"

definition defaultMaxConns :: int where "defaultMaxConns = 256"
definition defaultMaxStartupsPerIP :: int where "defaultMaxStartupsPerIP = 64"
definition minAcceptBackoff :: int where "minAcceptBackoff = 5"
definition maxAcceptBackoff :: int where "maxAcceptBackoff = 1000"

record proxy_config =
  MaxConns :: int
  MaxStartupsPerIP :: int
  TLSConfig :: bool

definition maxConns :: "proxy_config \<Rightarrow> int" where
  "maxConns p = capOr (MaxConns p) defaultMaxConns"

definition maxStartupsPerIP :: "proxy_config \<Rightarrow> int" where
  "maxStartupsPerIP p = capOr (MaxStartupsPerIP p) defaultMaxStartupsPerIP"

section \<open>Accepting connections (\<open>Serve\<close>, \<open>acquireStartupSlot\<close>)\<close>

type_synonym startups = "string \<rightharpoonup> int"

text \<open>A remote address that is not TCP has no IP to count: \<open>None\<close>.\<close>

definition startups_at :: "string \<Rightarrow> startups \<Rightarrow> int" where
  "startups_at ip m = (case m ip of None \<Rightarrow> 0 | Some n \<Rightarrow> n)"

datatype slot = NoSlot | Slot string bool

definition acquireStartupSlot :: "proxy_config \<Rightarrow> string option \<Rightarrow> startups \<Rightarrow> (slot \<times> startups) option" where
  "acquireStartupSlot p addr m =
     (let limit = maxStartupsPerIP p
      in if limit \<le> 0 then Some (NoSlot, m)
         else (case addr of None \<Rightarrow> Some (NoSlot, m)
           | Some ip \<Rightarrow> if startups_at ip m \<ge> limit then None
               else Some (Slot ip False, m(ip \<mapsto> startups_at ip m + 1))))"

text \<open>The release function, which \<open>sync.Once\<close> makes idempotent: the flag says that it ran.\<close>

fun releaseSlot :: "slot \<Rightarrow> startups \<Rightarrow> slot \<times> startups" where
  "releaseSlot (Slot ip False) m =
     (let n = startups_at ip m - 1 in (Slot ip True, if n \<le> 0 then m(ip := None) else m(ip \<mapsto> n)))"
| "releaseSlot s m = (s, m)"

record serve_state =
  sv_conns :: "(nat \<times> slot) list"
  sv_next :: nat
  sv_startups :: startups
  sv_backoff :: int

datatype accept_event = Accepted "string option" | TemporaryError | ConnReady nat | ConnDone nat

definition next_backoff :: "int \<Rightarrow> int" where
  "next_backoff b = min (max (2 * b) minAcceptBackoff) maxAcceptBackoff"

text \<open>
  One event of the accept loop and of the connections it started. A connection takes its place in
  the semaphore with its entry in \<open>sv_conns\<close>; \<open>ConnReady\<close> is \<open>markReady\<close> calling \<open>onReady\<close>, \<open>ConnDone\<close>
  the deferred calls when the connection ends.
\<close>

definition serve_step :: "proxy_config \<Rightarrow> accept_event \<Rightarrow> serve_state \<Rightarrow> serve_state" where
  "serve_step p ev st =
     (case ev of
        TemporaryError \<Rightarrow> st\<lparr>sv_backoff := next_backoff (sv_backoff st)\<rparr>
      | Accepted addr \<Rightarrow>
          (let st0 = st\<lparr>sv_backoff := 0\<rparr>
           in if maxConns p > 0 \<and> int (length (sv_conns st0)) \<ge> maxConns p then st0
              else (case acquireStartupSlot p addr (sv_startups st0) of
                  None \<Rightarrow> st0
                | Some (slot, m) \<Rightarrow> st0\<lparr>sv_conns := sv_conns st0 @ [(sv_next st0, slot)],
                    sv_next := Suc (sv_next st0), sv_startups := m\<rparr>))
      | ConnReady i \<Rightarrow>
          (case map_of (sv_conns st) i of None \<Rightarrow> st
           | Some slot \<Rightarrow> (let (slot', m) = releaseSlot slot (sv_startups st)
               in st\<lparr>sv_conns := map (\<lambda>(j, s). (j, if j = i then slot' else s)) (sv_conns st), sv_startups := m\<rparr>))
      | ConnDone i \<Rightarrow>
          (case map_of (sv_conns st) i of None \<Rightarrow> st
           | Some slot \<Rightarrow> st\<lparr>sv_conns := filter (\<lambda>(j, s). j \<noteq> i) (sv_conns st),
               sv_startups := snd (releaseSlot slot (sv_startups st))\<rparr>))"

definition serve_init :: serve_state where
  "serve_init = \<lparr>sv_conns = [], sv_next = 0, sv_startups = Map.empty, sv_backoff = 0\<rparr>"

section \<open>Routing (\<open>handleConn\<close>, \<open>route\<close>)\<close>

text \<open>
  What pgproto3 makes of a startup payload: the protocol version and the parameters (in a map, so
  with one value per name). \<open>decode\<close> and \<open>encode\<close> are pgproto3's.
\<close>

record startup_message =
  sm_ProtocolVersion :: "32 word"
  sm_Parameters :: "string \<rightharpoonup> string"

record resolver =
  rs_ResolveBranch :: "string \<Rightarrow> (string, string) result"
  rs_RefreshBranch :: "(string \<Rightarrow> (string, string) result) option"

record wire =
  w_decode :: "string \<Rightarrow> (string, startup_message) result"
  w_encode :: "startup_message \<Rightarrow> (string, string) result"
  w_tls :: "string \<Rightarrow> string option"
  w_dial :: "string \<Rightarrow> bool"

definition genericRouteRefusal :: string where
  "genericRouteRefusal = ''pgoverlay: database not available''"

text \<open>
  What a connection ends in, as its client and the backends see it. A refusal carries the SQLSTATE
  and the message; \<open>WantBranch\<close> is the message that tells the client how to name a branch and quotes
  the database it gave.
\<close>

datatype refusal = Message string | WantBranch string

datatype outcome =
    Dropped
  | Cancelled "(string \<times> string) option"
  | Refused string refusal
  | Routed string string

definition redial :: "resolver \<Rightarrow> (string \<Rightarrow> bool) \<Rightarrow> string \<Rightarrow> string \<Rightarrow> string option" where
  "redial rs dial branch addr =
     (case rs_RefreshBranch rs of None \<Rightarrow> None
      | Some refresh \<Rightarrow> (case refresh branch of Inl e \<Rightarrow> None
        | Inr moved \<Rightarrow> if moved = [] \<or> moved = addr then None else if dial moved then Some moved else None))"

definition database_of :: "startup_message \<Rightarrow> string" where
  "database_of sm = (case sm_Parameters sm ''database'' of None \<Rightarrow> [] | Some d \<Rightarrow> d)"

definition route :: "wire \<Rightarrow> resolver \<Rightarrow> startup_message \<Rightarrow> outcome" where
  "route w rs startup =
     (let db = database_of startup
      in case splitDatabase db of
           None \<Rightarrow> Refused ''3D000'' (WantBranch db)
         | Some (dbname, branch) \<Rightarrow>
             (case rs_ResolveBranch rs branch of
                Inl e \<Rightarrow> Refused ''3D000'' (Message genericRouteRefusal)
              | Inr addr \<Rightarrow>
                  (case w_encode w (startup\<lparr>sm_Parameters := (sm_Parameters startup)(''database'' \<mapsto> dbname)\<rparr>) of
                     Inl e \<Rightarrow> Refused ''08P01'' (Message (''pgoverlay: '' @ e))
                   | Inr rawStartup \<Rightarrow>
                       if w_dial w addr then Routed addr rawStartup
                       else (case redial rs (w_dial w) branch addr of
                           None \<Rightarrow> Refused ''3D000'' (Message genericRouteRefusal)
                         | Some addr' \<Rightarrow> Routed addr' rawStartup))))"

lemma readStartupFrame_shorter: "readStartupFrame s = Inr (code, payload, rest) \<Longrightarrow> length rest < length s"
  by (auto simp: readStartupFrame_def ReadFull_def Let_def minStartupPacketLen_def split: if_splits)

text \<open>
  The loop of \<open>handleConn\<close>: the single-byte answers written to the client, then the outcome. A TLS
  handshake (\<open>w_tls\<close>) turns the raw input into the decrypted input, or fails; it happens at most
  once. Writes to the client succeed; one that failed would end the connection like \<open>Dropped\<close>.
\<close>

function handleConn :: "proxy_config \<Rightarrow> wire \<Rightarrow> resolver \<Rightarrow> cancelMap \<Rightarrow> bool \<Rightarrow> string \<Rightarrow> string \<times> outcome" where
  "handleConn p w rs m inTLS s =
     (case readStartupFrame s of Inl e \<Rightarrow> ([], Dropped)
      | Inr (code, payload, rest) \<Rightarrow>
          if code = cancelRequestCode then ([], Cancelled (forwardCancel m (w_dial w) payload))
          else if code = sslRequestCode then
            (if \<not> TLSConfig p then (let (out, r) = handleConn p w rs m inTLS rest in (CHR ''N'' # out, r))
             else if inTLS then ([], Refused ''08P01'' (Message ''pgoverlay: SSLRequest received after TLS was already established''))
             else (case w_tls w rest of None \<Rightarrow> (''S'', Dropped)
               | Some clear \<Rightarrow> (let (out, r) = handleConn p w rs m True clear in (CHR ''S'' # out, r))))
          else if code = gssEncRequestCode then (let (out, r) = handleConn p w rs m inTLS rest in (CHR ''N'' # out, r))
          else (case w_decode w payload of
              Inl e \<Rightarrow> ([], Refused ''08P01'' (Message (''pgoverlay: '' @ e)))
            | Inr startup \<Rightarrow> ([], route w rs startup)))"
  by pat_completeness auto

termination
  by (relation "measures [\<lambda>(p, w, rs, m, inTLS, s). if inTLS then 0 else 1, \<lambda>(p, w, rs, m, inTLS, s). length s]")
    (auto dest: readStartupFrame_shorter)

declare handleConn.simps [simp del]

text \<open>\<open>RegistryResolver\<close>: only ready branches resolve.\<close>

definition ResolveBranch :: "(string \<Rightarrow> string option) \<Rightarrow> db \<Rightarrow> string \<Rightarrow> (string, string) result" where
  "ResolveBranch dec d name =
     (case GetBranchByName dec name d of Inl e \<Rightarrow> Inl ''not found''
      | Inr b \<Rightarrow> if b_State b \<noteq> BranchReady then Inl (''branch is '' @ branch_state_str (b_State b) @ '', not ready'')
          else Inr (JoinHostPort (b_Host b) (int_dec (b_Port b))))"

end
