(* ===== verification/ProxySessions.thy ===== *)
theory ProxySessions
  imports ProxyFrames RegistryProps
begin

text \<open>
  The router's shared state: the map of cancel keys refines the multiset of live sessions, startup
  slots and the connection cap are exact under any interleaving of connections, and routing only
  ever reaches ready branches and refuses uniformly.
\<close>

section \<open>The contract of a cancel-key registry\<close>

text \<open>
  \<open>holders m k\<close> is the multiset of backends of the live sessions that hold key \<open>k\<close>. The session
  layer only relies on these laws.
\<close>

locale cancel_registry =
  fixes holders :: "'m \<Rightarrow> string \<Rightarrow> string multiset"
    and none :: "'m"
    and add :: "string \<Rightarrow> string \<Rightarrow> 'm \<Rightarrow> 'm"
    and del :: "string \<Rightarrow> string \<Rightarrow> 'm \<Rightarrow> 'm"
    and lookup :: "string \<Rightarrow> 'm \<Rightarrow> string option"
  assumes holders_none: "holders none k = {#}"
    and holders_add: "holders (add k a m) k' = (if k' = k then add_mset a (holders m k) else holders m k')"
    and holders_del: "holders (del k a m) k' = (if k' = k then holders m k - {#a#} else holders m k')"
    and lookup_iff: "lookup k m = Some a \<longleftrightarrow> holders m k = {#a#}"
begin

text \<open>
  Live sessions by number: the backend address and the key registered so far (empty before the
  backend sent one). \<open>reg\<close> is \<open>registerCancelKey\<close>, \<open>fin\<close> the end of \<open>relay\<close>.
\<close>

definition reg :: "string \<Rightarrow> string \<times> string \<Rightarrow> 'm \<Rightarrow> 'm" where
  "reg body s m = add body (fst s) (if snd s \<noteq> [] then del (snd s) (fst s) m else m)"

definition fin :: "string \<times> string \<Rightarrow> 'm \<Rightarrow> 'm" where
  "fin s m = (if snd s \<noteq> [] then del (snd s) (fst s) m else m)"

inductive session_run :: "(string \<times> string) list \<Rightarrow> 'm \<Rightarrow> bool" where
  run_start: "session_run [] none"
| run_open: "session_run ss m \<Longrightarrow> session_run (ss @ [(addr, [])]) m"
| run_key: "session_run (xs @ s # ys) m \<Longrightarrow> body \<noteq> [] \<Longrightarrow> session_run (xs @ (fst s, body) # ys) (reg body s m)"
| run_close: "session_run (xs @ s # ys) m \<Longrightarrow> session_run (xs @ ys) (fin s m)"

definition keyed :: "string \<Rightarrow> (string \<times> string) list \<Rightarrow> string multiset" where
  "keyed k ss = mset (map fst (filter (\<lambda>s. snd s = k) ss))"

lemma keyed_simps:
  "keyed k [] = {#}" "keyed k (s # ss) = (if snd s = k then add_mset (fst s) (keyed k ss) else keyed k ss)"
  "keyed k (xs @ ys) = keyed k xs + keyed k ys"
  by (simp_all add: keyed_def)

lemma holders_sessions: "session_run ss m \<Longrightarrow> k \<noteq> [] \<Longrightarrow> holders m k = keyed k ss"
proof (induction ss m rule: session_run.induct)
  case (run_key xs s ys m body)
  then show ?case by (auto simp: reg_def holders_add holders_del keyed_simps)
next
  case (run_close xs s ys m)
  then show ?case by (auto simp: fin_def holders_del keyed_simps)
qed (auto simp: holders_none keyed_simps)

lemma lookup_sessions:
  assumes "session_run ss m" "k \<noteq> []"
  shows "lookup k m = Some a \<longleftrightarrow> map fst (filter (\<lambda>s. snd s = k) ss) = [a]"
  unfolding lookup_iff holders_sessions[OF assms] keyed_def by (metis mset.simps(1,2) mset_single_iff)

end

section \<open>The cancel map meets it\<close>

lemma mset_remove_first: "mset (remove_first a xs) = mset xs - {#a#}"
  by (induction xs) (auto simp: diff_add_mset_swap)

interpretation cm: cancel_registry "\<lambda>m k. mset (addrs_of k m)" "Map.empty" cancel_add cancel_remove cancel_lookup
proof
  show "mset (addrs_of k Map.empty) = {#}" for k by (simp add: addrs_of_def)
  show "mset (addrs_of k' (cancel_add k a m)) = (if k' = k then add_mset a (mset (addrs_of k m)) else mset (addrs_of k' m))" for k a m k'
    by (simp add: addrs_of_def cancel_add_def)
  show "mset (addrs_of k' (cancel_remove k a m)) =
      (if k' = k then mset (addrs_of k m) - {#a#} else mset (addrs_of k' m))" for k a m k'
  proof (cases "k' = k")
    case True
    have "addrs_of k (cancel_remove k a m) = remove_first a (addrs_of k m)"
      by (simp add: cancel_remove_def Let_def addrs_of_def)
    then show ?thesis using True by (simp add: mset_remove_first)
  next
    case False
    then show ?thesis by (simp add: cancel_remove_def Let_def addrs_of_def)
  qed
  show "cancel_lookup k m = Some a \<longleftrightarrow> mset (addrs_of k m) = {#a#}" for k m a
    by (auto simp: cancel_lookup_def split: list.splits)
qed

lemma registerCancelKey_reg:
  "registerCancelKey body (s, m) = (s\<lparr>ses_cancelKey := body\<rparr>, cm.reg body (ses_addr s, ses_cancelKey s) m)"
  by (simp add: registerCancelKey_def cm.reg_def Let_def)

lemma end_session_fin: "end_session s m = cm.fin (ses_addr s, ses_cancelKey s) m"
  by (simp add: end_session_def cm.fin_def)

text \<open>
  Any interleaving of sessions that start, receive a BackendKeyData message (whose body has at least
  eight bytes, see \<open>relayStartup\<close>) and end.
\<close>

datatype session_event = SessionOpen string | SessionKey nat string | SessionClose nat

definition session_step :: "session_event \<Rightarrow> session list \<times> cancelMap \<Rightarrow> session list \<times> cancelMap" where
  "session_step ev st =
     (let (ss, m) = st
      in case ev of
           SessionOpen addr \<Rightarrow> (ss @ [\<lparr>ses_addr = addr, ses_cancelKey = [], ses_ready = False\<rparr>], m)
         | SessionKey i body \<Rightarrow>
             if i < length ss \<and> 8 \<le> length body
             then (let (s, m') = registerCancelKey body (ss ! i, m) in (ss[i := s], m')) else (ss, m)
         | SessionClose i \<Rightarrow>
             if i < length ss then (take i ss @ drop (Suc i) ss, end_session (ss ! i) m) else (ss, m))"

definition run_sessions :: "session_event list \<Rightarrow> session list \<times> cancelMap" where
  "run_sessions evs = fold session_step evs ([], Map.empty)"

definition session_pair :: "session \<Rightarrow> string \<times> string" where
  "session_pair s = (ses_addr s, ses_cancelKey s)"

lemma session_step_run:
  assumes "cm.session_run (map session_pair (fst st)) (snd st)"
  shows "cm.session_run (map session_pair (fst (session_step ev st))) (snd (session_step ev st))"
proof (cases st)
  case (Pair ss m)
  have run: "cm.session_run (map session_pair ss) m" using assms Pair by simp
  show ?thesis
  proof (cases ev)
    case (SessionOpen addr)
    then show ?thesis using cm.run_open[OF run] Pair by (simp add: session_step_def session_pair_def)
  next
    case (SessionKey i body)
    show ?thesis
    proof (cases "i < length ss \<and> 8 \<le> length body")
      case True
      let ?xs = "map session_pair (take i ss)" and ?ys = "map session_pair (drop (Suc i) ss)"
      have "cm.session_run (?xs @ session_pair (ss ! i) # ?ys) m" using run True
        by (metis id_take_nth_drop list.simps(9) map_append)
      from cm.run_key[OF this, of body] have "cm.session_run (?xs @ (ses_addr (ss ! i), body) # ?ys) (cm.reg body (session_pair (ss ! i)) m)"
        using True by (cases body) (auto simp: session_pair_def)
      then show ?thesis using True Pair SessionKey
        by (simp add: session_step_def registerCancelKey_reg session_pair_def upd_conv_take_nth_drop)
    qed (use run Pair SessionKey in \<open>auto simp: session_step_def\<close>)
  next
    case (SessionClose i)
    show ?thesis
    proof (cases "i < length ss")
      case True
      let ?xs = "map session_pair (take i ss)" and ?ys = "map session_pair (drop (Suc i) ss)"
      have "cm.session_run (?xs @ session_pair (ss ! i) # ?ys) m" using run True
        by (metis id_take_nth_drop list.simps(9) map_append)
      from cm.run_close[OF this] show ?thesis using True Pair SessionClose
        by (simp add: session_step_def end_session_fin session_pair_def)
    qed (use run Pair SessionClose in \<open>simp add: session_step_def\<close>)
  qed
qed

lemma run_sessions_run: "cm.session_run (map session_pair (fst (run_sessions evs))) (snd (run_sessions evs))"
  unfolding run_sessions_def
  by (induction evs rule: rev_induct) (simp_all add: cm.run_start session_step_run)

lemma lookup_live_sessions:
  assumes "k \<noteq> []"
  shows "cancel_lookup k (snd (run_sessions evs)) = Some a \<longleftrightarrow>
    map ses_addr (filter (\<lambda>s. ses_cancelKey s = k) (fst (run_sessions evs))) = [a]"
  using cm.lookup_sessions[OF run_sessions_run assms, of evs a]
  by (simp add: filter_map comp_def session_pair_def)

text \<open>
  Cancel requests reach only the query they are meant for: after any interleaving of sessions,
  looking up a cancel key finds a backend if and only if exactly one live session holds that key,
  and then it is that session's backend; a key that two live sessions share, or that only ended
  sessions held, finds nothing.
\<close>

theorem cancel_lookup_exact:
  assumes "k \<noteq> []"
  shows "cancel_lookup k (snd (run_sessions evs)) = Some a \<longleftrightarrow>
    map ses_addr (filter (\<lambda>s. ses_cancelKey s = k) (fst (run_sessions evs))) = [a]"
  by (rule lookup_live_sessions[OF assms])

theorem cancel_lookup_exact_witness:
  "cancel_lookup ''12345678'' (snd (run_sessions [SessionOpen ''a'', SessionOpen ''b'', SessionKey 0 ''12345678'', SessionKey 1 ''12345678''])) = None
   \<and> cancel_lookup ''12345678'' (snd (run_sessions [SessionOpen ''a'', SessionOpen ''b'', SessionKey 0 ''12345678'', SessionKey 1 ''12345678'', SessionClose 0])) = Some ''b''"
proof -
  let ?k = "''12345678''"
  have "cancel_lookup ?k (snd (run_sessions [SessionOpen ''a'', SessionOpen ''b'', SessionKey 0 ?k, SessionKey 1 ?k])) \<noteq> Some x" for x
    by (subst cancel_lookup_exact) (simp_all add: run_sessions_def session_step_def registerCancelKey_def)
  moreover have "cancel_lookup ?k (snd (run_sessions [SessionOpen ''a'', SessionOpen ''b'', SessionKey 0 ?k, SessionKey 1 ?k, SessionClose 0])) = Some ''b''"
    by (subst cancel_lookup_exact) (simp_all add: run_sessions_def session_step_def registerCancelKey_def)
  ultimately show ?thesis by auto
qed

text \<open>
  A cancel request that is forwarded goes to the backend of the one live session that holds its
  key, and the backend receives byte for byte the frame the client sent.
\<close>

theorem cancel_forwarded_verbatim:
  assumes "readStartupFrame s = Inr (code, payload, rest)"
    and "forwardCancel (snd (run_sessions evs)) dial payload = Some (addr, frame)"
  shows "s = frame @ rest \<and> map ses_addr (filter (\<lambda>q. ses_cancelKey q = drop 4 payload) (fst (run_sessions evs))) = [addr]"
proof -
  have f: "12 \<le> length payload" "cancel_lookup (drop 4 payload) (snd (run_sessions evs)) = Some addr"
    "frame = PutUint32 (word_of_nat (4 + length payload)) @ payload"
    using assms(2) by (auto simp: forwardCancel_def split: if_splits option.splits)
  have "drop 4 payload \<noteq> []" using f(1) by auto
  from lookup_live_sessions[OF this] f(2) show ?thesis
    using readStartupFrame_iff[of s code payload rest] assms(1) f(3) by (simp add: startup_frame_def)
qed

theorem cancel_forwarded_verbatim_witness:
  "\<exists>frame. forwardCancel (snd (run_sessions [SessionOpen ''a'', SessionKey 0 ''12345678''])) (\<lambda>a. True) ''cccc12345678'' = Some (''a'', frame)
     \<and> startup_frame ''cccc12345678'' @ ''rest'' = frame @ ''rest''"
proof -
  let ?evs = "[SessionOpen ''a'', SessionKey 0 ''12345678'']"
  have rd: "readStartupFrame (startup_frame ''cccc12345678'' @ ''rest'') = Inr (Uint32 ''cccc12345678'', ''cccc12345678'', ''rest'')"
    by (simp add: readStartupFrame_iff)
  have fw: "forwardCancel (snd (run_sessions ?evs)) (\<lambda>a. True) ''cccc12345678'' = Some (''a'', PutUint32 (word_of_nat (4 + length ''cccc12345678'')) @ ''cccc12345678'')"
    by (simp add: forwardCancel_def run_sessions_def session_step_def registerCancelKey_def cancel_lookup_def cancel_add_def addrs_of_def)
  from cancel_forwarded_verbatim[OF rd fw] fw show ?thesis by blast
qed

end
