(* ===== verification/ProxyServe.thy ===== *)
theory ProxyServe
  imports ProxySessions
begin

text \<open>
  Admission control of the router (\<open>Serve\<close>, \<open>acquireStartupSlot\<close>) under any order of accepted
  connections, sessions that become ready and connections that end; and routing.
\<close>

section \<open>Connection cap and startup slots\<close>

definition unready :: "string \<Rightarrow> (nat \<times> slot) list \<Rightarrow> int" where
  "unready ip conns = int (length (filter (\<lambda>c. snd c = Slot ip False) conns))"

definition serve_ok :: "proxy_config \<Rightarrow> serve_state \<Rightarrow> bool" where
  "serve_ok p st \<longleftrightarrow> distinct (map fst (sv_conns st)) \<and> (\<forall>c \<in> set (sv_conns st). fst c < sv_next st)
     \<and> (0 < maxConns p \<longrightarrow> int (length (sv_conns st)) \<le> maxConns p)
     \<and> (\<forall>ip. startups_at ip (sv_startups st) = unready ip (sv_conns st))
     \<and> (\<forall>ip. 0 < maxStartupsPerIP p \<longrightarrow> unready ip (sv_conns st) \<le> maxStartupsPerIP p)
     \<and> (\<forall>ip. maxStartupsPerIP p \<le> 0 \<longrightarrow> unready ip (sv_conns st) = 0)"

lemma unready_simps [simp]:
  "unready ip [] = 0" "unready ip (c # cs) = (if snd c = Slot ip False then 1 else 0) + unready ip cs"
  "unready ip (xs @ ys) = unready ip xs + unready ip ys"
  by (simp_all add: unready_def)

lemma unready_nonneg: "0 \<le> unready ip cs"
  by (simp add: unready_def)

lemma conn_split:
  assumes "distinct (map fst conns)" "map_of conns i = Some s"
  obtains xs ys where "conns = xs @ (i, s) # ys"
    "map (\<lambda>(j, q). (j, if j = i then s' else q)) conns = xs @ (i, s') # ys"
    "filter (\<lambda>(j, q). j \<noteq> i) conns = xs @ ys"
proof -
  obtain xs ys where c: "conns = xs @ (i, s) # ys" using map_of_SomeD[OF assms(2)] split_list by metis
  then have ni: "\<forall>c \<in> set xs \<union> set ys. fst c \<noteq> i" using assms(1) by force
  have "map (\<lambda>(j, q). (j, if j = i then s' else q)) xs = xs" "map (\<lambda>(j, q). (j, if j = i then s' else q)) ys = ys"
    by (rule map_idI, use ni in force)+
  moreover have "filter (\<lambda>(j, q). j \<noteq> i) xs = xs" "filter (\<lambda>(j, q). j \<noteq> i) ys = ys"
    using ni by (force simp: filter_id_conv)+
  ultimately show thesis using that c by simp
qed

lemma releaseSlot_count:
  assumes "\<And>ip. startups_at ip m = unready ip xs + (if s = Slot ip False then 1 else 0) + unready ip ys"
  shows "startups_at ip (snd (releaseSlot s m)) = unready ip xs + unready ip ys"
    "fst (releaseSlot s m) \<noteq> Slot ip False"
proof -
  have "startups_at ip (snd (releaseSlot s m)) = unready ip xs + unready ip ys \<and> fst (releaseSlot s m) \<noteq> Slot ip False"
  proof (cases "\<exists>jp. s = Slot jp False")
    case True
    then obtain jp where s: "s = Slot jp False" by blast
    have "0 \<le> unready jp xs + unready jp ys" by (simp add: unready_nonneg)
    with assms[of jp] assms[of ip] s show ?thesis by (auto simp: Let_def startups_at_def)
  next
    case False
    then have "releaseSlot s m = (s, m)" by (cases "(s, m)" rule: releaseSlot.cases) auto
    then show ?thesis using False assms[of ip] by auto
  qed
  then show "startups_at ip (snd (releaseSlot s m)) = unready ip xs + unready ip ys" "fst (releaseSlot s m) \<noteq> Slot ip False"
    by auto
qed

lemma serve_accept_ok:
  assumes "serve_ok p st"
  shows "serve_ok p (serve_step p (Accepted addr) st)"
proof (cases "maxConns p > 0 \<and> int (length (sv_conns st)) \<ge> maxConns p")
  case True
  then show ?thesis using assms by (simp add: serve_step_def Let_def serve_ok_def)
next
  case False
  show ?thesis
  proof (cases "acquireStartupSlot p addr (sv_startups st)")
    case None
    then show ?thesis using assms False by (auto simp: serve_step_def Let_def serve_ok_def)
  next
    case (Some r)
    obtain slot m where r: "r = (slot, m)" by (cases r)
    have new: "sv_next st \<notin> fst ` set (sv_conns st)" using assms by (auto simp: serve_ok_def)
    have cases: "(slot = NoSlot \<and> m = sv_startups st) \<or> (\<exists>ip. slot = Slot ip False \<and> 0 < maxStartupsPerIP p
        \<and> startups_at ip (sv_startups st) < maxStartupsPerIP p \<and> m = (sv_startups st)(ip \<mapsto> startups_at ip (sv_startups st) + 1))"
      using Some r by (auto simp: acquireStartupSlot_def Let_def split: if_splits option.splits)
    have step: "serve_step p (Accepted addr) st = st\<lparr>sv_backoff := 0, sv_conns := sv_conns st @ [(sv_next st, slot)],
        sv_next := Suc (sv_next st), sv_startups := m\<rparr>"
      using False Some r by (auto simp: serve_step_def Let_def)
    show ?thesis using cases assms False new unfolding step serve_ok_def
      by (auto simp: less_SucI startups_at_def)
  qed
qed

lemma serve_release_ok:
  assumes "serve_ok p st" "map_of (sv_conns st) i = Some slot"
  shows "serve_ok p (serve_step p (ConnReady i) st)" "serve_ok p (serve_step p (ConnDone i) st)"
proof -
  let ?s' = "fst (releaseSlot slot (sv_startups st))"
  have inv: "distinct (map fst (sv_conns st))" "\<forall>c \<in> set (sv_conns st). fst c < sv_next st"
    "0 < maxConns p \<longrightarrow> int (length (sv_conns st)) \<le> maxConns p"
    "\<And>ip. startups_at ip (sv_startups st) = unready ip (sv_conns st)"
    "\<And>ip. 0 < maxStartupsPerIP p \<Longrightarrow> unready ip (sv_conns st) \<le> maxStartupsPerIP p"
    "\<And>ip. maxStartupsPerIP p \<le> 0 \<Longrightarrow> unready ip (sv_conns st) = 0"
    using assms(1) by (simp_all add: serve_ok_def)
  obtain xs ys where c: "sv_conns st = xs @ (i, slot) # ys"
    "map (\<lambda>(j, q). (j, if j = i then ?s' else q)) (sv_conns st) = xs @ (i, ?s') # ys"
    "filter (\<lambda>(j, q). j \<noteq> i) (sv_conns st) = xs @ ys"
    by (rule conn_split[OF inv(1) assms(2)])
  note cnt = releaseSlot_count[of "sv_startups st" xs slot ys]
  have cnt': "startups_at ip (snd (releaseSlot slot (sv_startups st))) = unready ip xs + unready ip ys" "?s' \<noteq> Slot ip False" for ip
    using cnt inv(4) by (auto simp: c(1))
  have le: "unready ip xs + unready ip ys \<le> unready ip (sv_conns st)" for ip by (simp add: c(1))
  have ready: "serve_step p (ConnReady i) st = st\<lparr>sv_conns := xs @ (i, ?s') # ys, sv_startups := snd (releaseSlot slot (sv_startups st))\<rparr>"
    using assms(2) c(2) by (simp add: serve_step_def case_prod_beta Let_def)
  have done': "serve_step p (ConnDone i) st = st\<lparr>sv_conns := xs @ ys, sv_startups := snd (releaseSlot slot (sv_startups st))\<rparr>"
    using assms(2) c(3) by (simp add: serve_step_def)
  have bound: "0 < maxStartupsPerIP p \<Longrightarrow> unready ip xs + unready ip ys \<le> maxStartupsPerIP p"
    "maxStartupsPerIP p \<le> 0 \<Longrightarrow> unready ip xs + unready ip ys = 0" for ip
    using inv(5,6)[of ip] le[of ip] unready_nonneg[of ip xs] unready_nonneg[of ip ys] by linarith+
  show "serve_ok p (serve_step p (ConnReady i) st)" "serve_ok p (serve_step p (ConnDone i) st)"
    unfolding ready done' serve_ok_def using inv(1-3) cnt' bound by (auto simp: c(1))
qed

lemma serve_step_ok: "serve_ok p st \<Longrightarrow> serve_ok p (serve_step p ev st)"
proof (cases ev)
  case (ConnReady i)
  assume ok: "serve_ok p st"
  show ?thesis by (cases "map_of (sv_conns st) i") (use ok serve_release_ok[OF ok] ConnReady in \<open>auto simp: serve_step_def\<close>)
next
  case (ConnDone i)
  assume ok: "serve_ok p st"
  show ?thesis by (cases "map_of (sv_conns st) i") (use ok serve_release_ok[OF ok] ConnDone in \<open>auto simp: serve_step_def\<close>)
qed (use serve_accept_ok in \<open>auto simp: serve_step_def serve_ok_def\<close>)

lemma serve_run_ok: "serve_ok p (fold (serve_step p) evs serve_init)"
proof (induction evs rule: rev_induct)
  case Nil
  then show ?case by (auto simp: serve_ok_def serve_init_def startups_at_def maxConns_def capOr_def)
qed (simp add: serve_step_ok)

lemma backoff_after_failures:
  "sv_backoff (fold (serve_step p) (replicate n TemporaryError) st) = (next_backoff ^^ n) (sv_backoff st)"
  by (induction n arbitrary: st) (simp_all add: serve_step_def funpow_swap1)

lemma backoff_closed_form: "(next_backoff ^^ Suc n) 0 = min (5 * 2 ^ n) 1000"
proof (induction n)
  case 0
  show ?case by (simp add: next_backoff_def minAcceptBackoff_def maxAcceptBackoff_def)
next
  case (Suc n)
  have "1 \<le> (2 :: int) ^ n" by simp
  then have "next_backoff (min (5 * 2 ^ n) 1000) = min (5 * 2 ^ Suc n) 1000"
    unfolding next_backoff_def minAcceptBackoff_def maxAcceptBackoff_def power_Suc by linarith
  then show ?case using Suc by simp
qed

text \<open>
  Admission control is exact under every interleaving: at any time at most \<open>MaxConns\<close>
  connections are handled (256 unless configured, no limit if negative), the startup count of a
  client address equals the number of its connections that have not become ready and have not
  ended (a slot is given back exactly once, however often release runs), and it never exceeds
  \<open>MaxStartupsPerIP\<close>.
\<close>

theorem admission_exact:
  assumes "st = fold (serve_step p) evs serve_init"
  shows "(0 \<le> MaxConns p \<longrightarrow> int (length (sv_conns st)) \<le> (if MaxConns p = 0 then 256 else MaxConns p))
    \<and> startups_at ip (sv_startups st) = unready ip (sv_conns st)
    \<and> (0 \<le> MaxStartupsPerIP p \<longrightarrow> unready ip (sv_conns st) \<le> (if MaxStartupsPerIP p = 0 then 64 else MaxStartupsPerIP p))"
  using serve_run_ok[of p evs] assms
  by (auto simp: serve_ok_def maxConns_def maxStartupsPerIP_def capOr_def defaultMaxConns_def defaultMaxStartupsPerIP_def
      split: if_splits)

theorem admission_exact_witness:
  "\<exists>st. st = fold (serve_step \<lparr>MaxConns = 2, MaxStartupsPerIP = 1, TLSConfig = False\<rparr>)
        [Accepted (Some ''10.0.0.1''), Accepted (Some ''10.0.0.1''), ConnReady 0, ConnReady 0, Accepted (Some ''10.0.0.1'')] serve_init
     \<and> length (sv_conns st) = 2 \<and> startups_at ''10.0.0.1'' (sv_startups st) = 1 \<and> unready ''10.0.0.1'' (sv_conns st) = 1"
proof -
  let ?st = "fold (serve_step \<lparr>MaxConns = 2, MaxStartupsPerIP = 1, TLSConfig = False\<rparr>)
        [Accepted (Some ''10.0.0.1''), Accepted (Some ''10.0.0.1''), ConnReady 0, ConnReady 0, Accepted (Some ''10.0.0.1'')] serve_init"
  have l: "length (sv_conns ?st) = 2 \<and> unready ''10.0.0.1'' (sv_conns ?st) = 1"
    by (simp add: serve_step_def serve_init_def maxConns_def maxStartupsPerIP_def capOr_def acquireStartupSlot_def startups_at_def Let_def)
  moreover have "startups_at ''10.0.0.1'' (sv_startups ?st) = unready ''10.0.0.1'' (sv_conns ?st)"
    by (rule admission_exact[OF refl, THEN conjunct2, THEN conjunct1])
  ultimately show ?thesis by (intro exI[of _ ?st]) simp
qed

text \<open>
  The accept loop backs off exponentially and boundedly: after \<open>n\<close> consecutive temporary failures
  following a successful accept the wait is 5 ms doubled \<open>n - 1\<close> times, never more than a second.
\<close>

theorem accept_backoff_exponential:
  "sv_backoff (fold (serve_step p) (replicate (Suc n) TemporaryError) (serve_step p (Accepted addr) st)) = min (5 * 2 ^ n) 1000"
proof -
  have "sv_backoff (serve_step p (Accepted addr) st) = 0"
    by (auto simp: serve_step_def Let_def split: option.splits)
  then show ?thesis unfolding backoff_after_failures by (simp only: backoff_closed_form)
qed

section \<open>Routing\<close>

text \<open>
  What a \<open>BranchResolver\<close> promises (\<^verbatim>\<open>proxy.go\<close>): it only resolves branches that can accept
  connections; \<open>serves name addr\<close> says that the branch does, there.
\<close>

locale branch_resolver =
  fixes resolve :: "string \<Rightarrow> (string, string) result"
    and serves :: "string \<Rightarrow> string \<Rightarrow> bool"
  assumes resolves_serving: "resolve name = Inr addr \<Longrightarrow> serves name addr"
begin

lemma routed_to_serving:
  assumes "route w \<lparr>rs_ResolveBranch = resolve, rs_RefreshBranch = None\<rparr> startup = Routed addr raw"
  shows "\<exists>name branch. splitDatabase (database_of startup) = Some (name, branch) \<and> serves branch addr
    \<and> w_encode w (startup\<lparr>sm_Parameters := (sm_Parameters startup)(''database'' \<mapsto> name)\<rparr>) = Inr raw"
  using assms resolves_serving
  by (auto simp: route_def redial_def Let_def split: option.splits sum.splits if_splits)

end

definition ready_at :: "db \<Rightarrow> string \<Rightarrow> string \<Rightarrow> bool" where
  "ready_at d name addr \<longleftrightarrow>
     list_ex (\<lambda>r. br_name r = name \<and> br_state r = BranchReady \<and> addr = JoinHostPort (br_host r) (int_dec (br_port r))) (branches d)"

interpretation rr: branch_resolver "ResolveBranch dec d" "ready_at d" for dec d
proof
  fix name addr assume "ResolveBranch dec d name = Inr addr"
  then obtain b where b: "GetBranchByName dec name d = Inr b" "b_State b = BranchReady"
    "addr = JoinHostPort (b_Host b) (int_dec (b_Port b))"
    by (auto simp: ResolveBranch_def split: sum.splits if_splits)
  then obtain r where r: "find (\<lambda>r. br_name r = name \<and> live_branch r) (branches d) = Some r" "b = scanBranch dec r"
    by (auto simp: GetBranchByName_def getBranch_def split: option.splits sum.splits if_splits)
  then have "r \<in> set (branches d)" "br_name r = name" by (auto dest: find_SomeD)
  then show "ready_at d name addr" using b(2,3) r(2) by (auto simp: ready_at_def list_ex_iff scanBranch_def)
qed


definition demo_wire :: wire where
  "demo_wire = \<lparr>w_decode = (\<lambda>s. Inr \<lparr>sm_ProtocolVersion = 196608, sm_Parameters = [''database'' \<mapsto> s]\<rparr>),
     w_encode = (\<lambda>m. Inr (database_of m)), w_tls = (\<lambda>s. None), w_dial = (\<lambda>a. a \<noteq> [])\<rparr>"

definition demo_startup :: "string \<Rightarrow> startup_message" where
  "demo_startup db = \<lparr>sm_ProtocolVersion = 196608, sm_Parameters = [''database'' \<mapsto> db]\<rparr>"


text \<open>
  An unauthenticated client cannot tell routing failures apart: an unknown branch, a branch that
  is not ready, any other resolver error, and a ready branch whose backend cannot be reached (also
  after its address was refreshed) all end in one and the same refusal.
\<close>

theorem refusal_uniform:
  assumes "splitDatabase (database_of startup) = Some (name, branch)"
    and "\<exists>raw. w_encode w (startup\<lparr>sm_Parameters := (sm_Parameters startup)(''database'' \<mapsto> name)\<rparr>) = Inr raw"
    and "(\<exists>e. rs_ResolveBranch rs branch = Inl e) \<or>
      (\<exists>addr. rs_ResolveBranch rs branch = Inr addr \<and> \<not> w_dial w addr \<and> redial rs (w_dial w) branch addr = None)"
  shows "route w rs startup = Refused ''3D000'' (Message genericRouteRefusal)"
  using assms by (auto simp: route_def)

theorem refusal_uniform_witness:
  "route demo_wire \<lparr>rs_ResolveBranch = ResolveBranch Some demo_db3, rs_RefreshBranch = None\<rparr> (demo_startup ''app@nosuch'')
     = route demo_wire \<lparr>rs_ResolveBranch = ResolveBranch Some demo_db4, rs_RefreshBranch = None\<rparr> (demo_startup ''app@pr-1'')"
proof -
  let ?R = "\<lambda>d. \<lparr>rs_ResolveBranch = ResolveBranch Some d, rs_RefreshBranch = None\<rparr>"
  have s: "splitDatabase (database_of (demo_startup ''app@nosuch'')) = Some (''app'', ''nosuch'')"
    "splitDatabase (database_of (demo_startup ''app@pr-1'')) = Some (''app'', ''pr-1'')"
    by (simp_all add: demo_startup_def database_of_def splitDatabase_def)
  have e: "\<exists>raw. w_encode demo_wire m = Inr raw" for m by (simp add: demo_wire_def)
  have f: "\<exists>e. rs_ResolveBranch (?R demo_db3) ''nosuch'' = Inl e" "\<exists>e. rs_ResolveBranch (?R demo_db4) ''pr-1'' = Inl e"
    by (simp_all add: ResolveBranch_def GetBranchByName_def getBranch_def scanBranch_def demo_eval live_branch_def)
  show ?thesis using refusal_uniform[OF s(1) e disjI1[OF f(1)]] refusal_uniform[OF s(2) e disjI1[OF f(2)]] by simp
qed

end
