(* ===== verification/Names.thy ===== *)
theory Names
  imports Registry Secrets
begin

text \<open>
  Names: the branch names the GitHub App derives (\<^verbatim>\<open>src/pgoverlayconnect/names.go\<close>), the naming rule
  the engine enforces (\<^verbatim>\<open>src/internal/engine/saga.go\<close>), and the volume names and overlay layout of
  \<^verbatim>\<open>src/internal/cow/plan.go\<close> together with the engine's choice of a fresh writable volume. SHA-256 is
  the parameter \<open>cr\<close> of theory \<open>Secrets\<close>; repository names are ASCII, so \<open>strings.ToLower\<close> is the ASCII
  mapping.
\<close>

section \<open>Branch names from pull requests\<close>

definition GitHubBranchPrefix :: string where "GitHubBranchPrefix = ''gh-''"
definition MaxBranchNameLen :: nat where "MaxBranchNameLen = 41"
definition repoKeyLen :: nat where "repoKeyLen = 6"
definition refHashLen :: nat where "refHashLen = 6"

definition ascii_lower :: "char \<Rightarrow> char" where
  "ascii_lower c = (if in_range (CHR ''A'') (CHR ''Z'') c then char_of (of_char c + (32 :: nat)) else c)"

definition shortHash :: "crypto \<Rightarrow> string \<Rightarrow> nat \<Rightarrow> string" where
  "shortHash cr s n = take n (hex_encode (sha256 cr s))"

definition RepoKey :: "crypto \<Rightarrow> string \<Rightarrow> string" where
  "RepoKey cr repo = shortHash cr (map ascii_lower repo) repoKeyLen"

definition repoPrefix :: "crypto \<Rightarrow> string \<Rightarrow> string" where
  "repoPrefix cr repo = GitHubBranchPrefix @ RepoKey cr repo @ ''-''"

definition trim_right_dash :: "string \<Rightarrow> string" where
  "trim_right_dash s = rev (dropWhile (\<lambda>c. c = CHR ''-'') (rev s))"

text \<open>The loop of \<open>sanitize\<close>: the builder's content, the pending-dash flag, the bytes still to read.\<close>

fun sanitize_loop :: "string \<Rightarrow> bool \<Rightarrow> string \<Rightarrow> string" where
  "sanitize_loop b dash [] = b"
| "sanitize_loop b dash (x # xs) =
     (let c = ascii_lower x
      in if \<not> low_alnum c then sanitize_loop b True xs
         else sanitize_loop ((if dash \<and> b \<noteq> [] then b @ ''-'' else b) @ [c]) False xs)"

definition sanitize :: "string \<Rightarrow> nat \<Rightarrow> string" where
  "sanitize ref maxLen =
     (let s = sanitize_loop [] False ref
      in if maxLen > 0 \<and> length s > maxLen then trim_right_dash (take maxLen s) else s)"

definition SanitizeRef :: "string \<Rightarrow> string" where
  "SanitizeRef ref = sanitize ref MaxBranchNameLen"

definition PRBranchName :: "crypto \<Rightarrow> string \<Rightarrow> int \<Rightarrow> string" where
  "PRBranchName cr repo pr = repoPrefix cr repo @ ''pr-'' @ int_dec pr"

definition RefBranchName :: "crypto \<Rightarrow> string \<Rightarrow> string \<Rightarrow> string" where
  "RefBranchName cr repo ref =
     (let s = sanitize ref 0
      in if s = [] then []
         else
           (let prefix = repoPrefix cr repo; budget = MaxBranchNameLen - length prefix
            in if length s > budget
               then prefix @ trim_right_dash (take (budget - refHashLen - 1) s) @ ''-'' @ shortHash cr ref refHashLen
               else prefix @ s))"

section \<open>The naming rule\<close>

definition branchNameRe :: rx where
  "branchNameRe = Seq (Chars low_alnum) (rx_upto 40 (Chars (\<lambda>c. low_alnum c \<or> c = CHR ''-'')))"

definition validateName :: "string \<Rightarrow> string \<Rightarrow> (string \<times> string) option" where
  "validateName kind name = (if \<not> rx_match branchNameRe name then Some (kind, name) else None)"

definition validateBranchName :: "string \<Rightarrow> (string \<times> string) option" where
  "validateBranchName name = validateName ''branch'' name"

definition validateSourceName :: "string \<Rightarrow> (string \<times> string) option" where
  "validateSourceName name = validateName ''source'' name"

section \<open>Volumes and the overlay layout\<close>

datatype Backend = BackendOverlay | BackendZFS | BackendCSI

definition ParseBackend :: "string \<Rightarrow> Backend option" where
  "ParseBackend s = (if s = ''overlay'' then Some BackendOverlay else if s = ''zfs'' then Some BackendZFS
     else if s = ''csi'' then Some BackendCSI else None)"

record Planner =
  pl_Backend :: Backend
  pl_Dataset :: string

definition SourceVolumeName :: "string \<Rightarrow> nat \<Rightarrow> string" where
  "SourceVolumeName source gen =
     (if gen \<le> 1 then ''pgoverlay-src-'' @ source else ''pgoverlay-src-'' @ source @ ''-g'' @ nat_dec gen)"

definition BranchRWVolumeName :: "string \<Rightarrow> string" where
  "BranchRWVolumeName branch = ''pgoverlay-br-'' @ branch @ ''-rw''"

definition BranchRWVolumeNameGen :: "string \<Rightarrow> nat \<Rightarrow> string" where
  "BranchRWVolumeNameGen branch gen =
     (if gen \<le> 1 then BranchRWVolumeName branch else BranchRWVolumeName branch @ ''-g'' @ nat_dec gen)"

definition SourceLayerName :: "Planner \<Rightarrow> string \<Rightarrow> nat \<Rightarrow> string" where
  "SourceLayerName p source gen =
     (if pl_Backend p = BackendZFS then pl_Dataset p @ ''/src-'' @ source @ ''-g'' @ nat_dec gen
      else SourceVolumeName source gen)"

definition BranchLayerName :: "Planner \<Rightarrow> string \<Rightarrow> string" where
  "BranchLayerName p branch =
     (if pl_Backend p = BackendZFS then pl_Dataset p @ ''/br-'' @ branch else BranchRWVolumeName branch)"

definition SnapshotName :: "string \<Rightarrow> string \<Rightarrow> string" where
  "SnapshotName sourceDataset branch = sourceDataset @ ''@br-'' @ branch"

definition Mountpoint :: "string \<Rightarrow> string" where
  "Mountpoint dataset = ''/'' @ dataset"

definition ZFSCreate :: "string \<Rightarrow> string list" where
  "ZFSCreate dataset = [''zfs'', ''create'', ''-p'', dataset]"

definition ZFSSnapshot :: "string \<Rightarrow> string \<Rightarrow> string list" where
  "ZFSSnapshot sourceDataset branch = [''zfs'', ''snapshot'', SnapshotName sourceDataset branch]"

definition ZFSClone :: "Planner \<Rightarrow> string \<Rightarrow> string \<Rightarrow> string list" where
  "ZFSClone p sourceDataset branch = [''zfs'', ''clone'', SnapshotName sourceDataset branch, BranchLayerName p branch]"

definition ZFSDestroyClone :: "Planner \<Rightarrow> string \<Rightarrow> string list" where
  "ZFSDestroyClone p branch = [''zfs'', ''destroy'', ''-r'', BranchLayerName p branch]"

definition ZFSDestroySnapshot :: "string \<Rightarrow> string \<Rightarrow> string list" where
  "ZFSDestroySnapshot sourceDataset branch = [''zfs'', ''destroy'', ''-r'', SnapshotName sourceDataset branch]"

definition LowerMountTarget :: "nat \<Rightarrow> string" where
  "LowerMountTarget i = ''/pgoverlay/lower'' @ nat_dec i"

record Plan =
  p_SourceVolume :: string
  p_RWVolume :: string
  p_LayerVolumes :: "string list"
  p_Lowers :: "string list"

definition PlanBranch :: "string \<Rightarrow> string \<Rightarrow> string list \<Rightarrow> Plan" where
  "PlanBranch rwVolume sourceVolume layerVolumes =
     \<lparr>p_SourceVolume = sourceVolume, p_RWVolume = rwVolume, p_LayerVolumes = layerVolumes,
      p_Lowers = map (\<lambda>i. LowerMountTarget (i + 1) @ ''/upper'') [0..<length layerVolumes] @ [LowerMountTarget 0 @ ''/data'']\<rparr>"

definition LowerEnv :: "Plan \<Rightarrow> string" where
  "LowerEnv p = join_with '':'' (p_Lowers p)"

section \<open>A fresh writable volume\<close>

definition maxLayerGenerations :: nat where "maxLayerGenerations = 10000"

text \<open>The loop of \<open>freshBranchLayer\<close> over the generations still to try.\<close>

fun pick_generation :: "string \<Rightarrow> db \<Rightarrow> nat list \<Rightarrow> string option" where
  "pick_generation name d [] = None"
| "pick_generation name d (gen # gens) =
     (let v = BranchRWVolumeNameGen name gen in if \<not> VolumeNameUsed v d then Some v else pick_generation name d gens)"

definition freshBranchLayer :: "Planner \<Rightarrow> string \<Rightarrow> nat \<Rightarrow> db \<Rightarrow> string option" where
  "freshBranchLayer p name minGen d =
     (if pl_Backend p = BackendZFS then Some (BranchLayerName p name)
      else pick_generation name d [max minGen 1..<minGen + maxLayerGenerations])"

end
