(* ===== verification/NamesProps.thy ===== *)
theory NamesProps
  imports Names
begin

text \<open>
  Properties of the naming rules: derived pull-request names pass the engine's own gate, sanitising is
  canonical, volume generations never collide and the fresh-volume search always finds the lowest unused one,
  and the overlay's lower list survives its colon-separated rendering.
\<close>

section \<open>The naming rule, read as a predicate\<close>

definition name_char :: "char \<Rightarrow> bool" where
  "name_char c \<longleftrightarrow> low_alnum c \<or> c = CHR ''-''"

definition valid_name :: "string \<Rightarrow> bool" where
  "valid_name s \<longleftrightarrow> s \<noteq> [] \<and> low_alnum (hd s) \<and> list_all name_char s \<and> length s \<le> 41"

lemma validateName_iff: "validateName kind s = None \<longleftrightarrow> valid_name s"
proof -
  have "(\<lambda>c. low_alnum c \<or> c = CHR ''-'') = name_char" by (simp add: fun_eq_iff name_char_def)
  moreover have "rx_match (Seq (Chars low_alnum) (rx_upto 40 (Chars name_char))) s = valid_name s"
    by (cases s) (auto simp: rx_match_iff matches_Seq_Chars matches_upto_Chars valid_name_def name_char_def
        simp del: rx_upto.simps)
  ultimately show ?thesis by (simp add: validateName_def branchNameRe_def)
qed

lemma hex_digit_low_alnum: "n < 16 \<Longrightarrow> low_alnum (hex_digit n)"
  by (simp add: hex_digit_def low_alnum_alt)

lemma of_char_halves: "of_char (c :: char) div 16 < (16 :: nat)" "of_char (c :: char) mod 16 < (16 :: nat)"
  using nat_of_char_less_256 [of c] by (simp_all add: less_mult_imp_div_less)

lemma hex_encode_low_alnum: "list_all low_alnum (hex_encode s)"
  by (induction s) (simp_all add: hex_encode_def hex_digit_low_alnum of_char_halves)

lemma length_hex_encode: "length (hex_encode s) = 2 * length s"
  by (induction s) (simp_all add: hex_encode_def)

lemma shortHash_props:
  assumes "sha256_ok cr" "n \<le> 64"
  shows "length (shortHash cr s n) = n" "list_all low_alnum (shortHash cr s n)"
  using assms hex_encode_low_alnum [of "sha256 cr s"]
  by (auto simp: shortHash_def length_hex_encode sha256_ok_def list_all_iff dest: in_set_takeD)

lemma repoPrefix_props:
  assumes "sha256_ok cr"
  shows "length (repoPrefix cr repo) = 10" "list_all name_char (repoPrefix cr repo)"
    "repoPrefix cr repo \<noteq> []" "hd (repoPrefix cr repo) = CHR ''g''"
  using shortHash_props [OF assms, of 6 "map ascii_lower repo"]
  by (auto simp: repoPrefix_def RepoKey_def GitHubBranchPrefix_def repoKeyLen_def list_all_iff name_char_def
      low_alnum_alt)

lemma valid_name_prefixed:
  assumes "sha256_ok cr" "list_all name_char t" "length t \<le> 31"
  shows "valid_name (repoPrefix cr repo @ t)"
proof -
  have "low_alnum (CHR ''g'')" by (simp add: low_alnum_alt)
  then show ?thesis
    using assms repoPrefix_props [OF assms(1), of repo] by (simp add: valid_name_def)
qed

section \<open>Decimal lengths\<close>

lemma nat_dec_length: "n < 10 ^ k \<Longrightarrow> 0 < k \<Longrightarrow> length (nat_dec n) \<le> k"
proof (induction n arbitrary: k rule: nat_dec.induct)
  case (1 n)
  show ?case
  proof (cases "n < 10")
    case False
    with "1.prems" have "k \<noteq> 1" by auto
    with "1.prems" obtain k' where k: "k = Suc k'" "0 < k'" by (cases k) auto
    with "1.prems" have "n div 10 < 10 ^ k'" by (simp add: less_mult_imp_div_less mult.commute)
    with "1.IH" [OF False, of k'] k False show ?thesis by (subst nat_dec.simps) simp
  qed (use "1.prems" in \<open>subst nat_dec.simps, simp\<close>)
qed

lemma nat_dec_name_char: "list_all name_char (nat_dec n)"
  using nat_dec_digits [of _ n] is_digit_low_alnum by (auto simp: list_all_iff name_char_def)

section \<open>Sanitising\<close>

text \<open>The shape of a sanitised ref: runs of letters and digits separated by single dashes, none at the ends.\<close>

fun clean :: "bool \<Rightarrow> string \<Rightarrow> bool" where
  "clean after_alnum [] = True"
| "clean after_alnum (c # s) =
     (if low_alnum c then clean True s
      else c = CHR ''-'' \<and> after_alnum \<and> s \<noteq> [] \<and> low_alnum (hd s) \<and> clean False s)"

definition last_alnum :: "string \<Rightarrow> bool" where
  "last_alnum s \<longleftrightarrow> s \<noteq> [] \<and> low_alnum (last s)"

lemma dash_not_alnum [simp]: "\<not> low_alnum (CHR ''-'')"
  by (simp add: low_alnum_alt)

lemma clean_append_alnum: "clean a s \<Longrightarrow> low_alnum c \<Longrightarrow> clean a (s @ [c])"
  by (induction a s rule: clean.induct) (auto simp: hd_append)

lemma clean_append_dash:
  "clean a s \<Longrightarrow> last_alnum s \<Longrightarrow> low_alnum c \<Longrightarrow> clean a (s @ CHR ''-'' # [c])"
  by (induction a s rule: clean.induct) (auto simp: hd_append last_alnum_def split: if_splits)

lemma sanitize_loop_clean:
  "clean False b \<Longrightarrow> (b \<noteq> [] \<longrightarrow> last_alnum b) \<Longrightarrow>
     clean False (sanitize_loop b dash s) \<and> (sanitize_loop b dash s \<noteq> [] \<longrightarrow> last_alnum (sanitize_loop b dash s))"
proof (induction b dash s rule: sanitize_loop.induct)
  case (2 b dash x xs)
  show ?case
  proof (cases "low_alnum (ascii_lower x)")
    case True
    have "clean False ((if dash \<and> b \<noteq> [] then b @ ''-'' else b) @ [ascii_lower x])"
      using 2(3,4) True clean_append_dash [of False b "ascii_lower x"]
      by (auto simp: clean_append_alnum)
    moreover have "last_alnum ((if dash \<and> b \<noteq> [] then b @ ''-'' else b) @ [ascii_lower x])"
      using True by (simp add: last_alnum_def)
    ultimately show ?thesis using 2(2) True by (simp add: Let_def)
  qed (use 2 in \<open>simp add: Let_def\<close>)
qed simp

lemma clean_name_chars: "clean a s \<Longrightarrow> list_all name_char s"
  by (induction a s rule: clean.induct) (auto simp: name_char_def split: if_splits)

lemma ascii_lower_id: "low_alnum c \<or> c = CHR ''-'' \<Longrightarrow> ascii_lower c = c"
  by (auto simp: ascii_lower_def in_range_def less_eq_char_def low_alnum_alt)

lemma sanitize_loop_fixes_clean:
  "clean (b \<noteq> [] \<and> \<not> dash) s \<Longrightarrow> (s = [] \<longrightarrow> \<not> dash) \<Longrightarrow> (dash \<longrightarrow> b \<noteq> [] \<and> low_alnum (hd s)) \<Longrightarrow>
     sanitize_loop b dash s = b @ (if dash then ''-'' else []) @ s"
  by (induction s arbitrary: b dash) (auto simp: Let_def ascii_lower_id split: if_splits)

lemma sanitize_clean: "clean False (sanitize ref 0)" "sanitize ref 0 \<noteq> [] \<Longrightarrow> last_alnum (sanitize ref 0)"
  using sanitize_loop_clean [of "[]" False ref] by (simp_all add: sanitize_def)

lemma sanitize_starts_alnum: "clean False s \<Longrightarrow> s \<noteq> [] \<Longrightarrow> low_alnum (hd s)"
  by (cases s) (auto split: if_splits)

lemma set_trim_right_dash: "set (trim_right_dash s) \<subseteq> set s"
  by (auto simp: trim_right_dash_def dest: set_dropWhileD)

lemma length_trim_right_dash: "length (trim_right_dash s) \<le> length s"
  using length_dropWhile_le [of "\<lambda>c. c = CHR ''-''" "rev s"] by (simp add: trim_right_dash_def)

lemma trim_right_dash_snoc:
  "trim_right_dash (s @ [c]) = (if c = CHR ''-'' then trim_right_dash s else s @ [c])"
  by (simp add: trim_right_dash_def)

lemma clean_prefix: "clean a (s @ t) \<Longrightarrow> s \<noteq> [] \<longrightarrow> low_alnum (last s) \<Longrightarrow> clean a s"
  by (induction a s rule: clean.induct) (auto simp: hd_append split: if_splits)

lemma clean_butlast_dash: "clean a (s @ CHR ''-'' # t) \<Longrightarrow> s \<noteq> [] \<Longrightarrow> low_alnum (last s)"
  by (induction a s rule: clean.induct) (auto split: if_splits)

lemma clean_trim_take: "clean a s \<Longrightarrow> clean a (trim_right_dash (take n s))"
proof (cases "take n s" rule: rev_cases)
  case (snoc u c)
  assume c: "clean a s"
  have s: "s = u @ c # drop n s" using snoc append_take_drop_id [of n s] by (metis append.assoc append_Cons append_Nil)
  show ?thesis
  proof (cases "c = CHR ''-''")
    case True
    then have "u \<noteq> [] \<longrightarrow> low_alnum (last u)" using c s clean_butlast_dash by metis
    moreover from this have "trim_right_dash u = u"
      by (cases u rule: rev_cases) (auto simp: trim_right_dash_def)
    ultimately show ?thesis using c s snoc True clean_prefix by (metis trim_right_dash_snoc)
  next
    case False
    then have "low_alnum c" using clean_name_chars [OF c] s by (metis in_set_conv_decomp list_all_iff name_char_def)
    then have "clean a (u @ [c])" using c s clean_prefix [of a "u @ [c]" "drop n s"] by simp
    then show ?thesis using snoc False by (simp add: trim_right_dash_snoc)
  qed
qed (auto simp: trim_right_dash_def)

lemma trim_take_name:
  "list_all name_char s \<Longrightarrow> list_all name_char (trim_right_dash (take n s))"
  using set_trim_right_dash [of "take n s"] set_take_subset [of n s] by (auto simp: list_all_iff)

text \<open>
  (C23) Every branch name the GitHub integration derives passes the engine's own name gate: for every
  repository and every pull request number of Go's 64-bit range, \<open>PRBranchName\<close> is accepted by
  \<open>validateBranchName\<close>, and for every ref at all, however long and whatever bytes it has, \<open>RefBranchName\<close>
  is either empty (the caller then falls back to the number) or accepted. All that is used of SHA-256 is that
  its digest has 32 bytes.
\<close>

theorem derived_branch_names_valid:
  assumes "sha256_ok cr" "0 \<le> pr" "pr < 2 ^ 63"
  shows "validateBranchName (PRBranchName cr repo pr) = None
    \<and> (RefBranchName cr repo ref = [] \<or> validateBranchName (RefBranchName cr repo ref) = None)"
proof -
  have "nat pr < 10 ^ 19" using assms(3) by (simp add: nat_less_iff)
  then have "length (nat_dec (nat pr)) \<le> 19" using nat_dec_length [of "nat pr" 19] by simp
  then have "list_all name_char (''pr-'' @ int_dec pr) \<and> length (''pr-'' @ int_dec pr) \<le> 31"
    using assms(2) nat_dec_name_char by (simp add: int_dec_def name_char_def low_alnum_alt)
  then have 1: "valid_name (PRBranchName cr repo pr)"
    using valid_name_prefixed [OF assms(1)] by (simp add: PRBranchName_def)
  let ?s = "sanitize ref 0"
  have s: "list_all name_char ?s" using sanitize_clean(1) clean_name_chars by blast
  have h: "list_all name_char (shortHash cr ref 6)" "length (shortHash cr ref 6) = 6"
    using shortHash_props [OF assms(1), of 6 ref] by (auto simp: list_all_iff name_char_def)
  have t: "length (trim_right_dash (take 24 ?s)) \<le> 24"
    using length_trim_right_dash [of "take 24 ?s"] by simp
  have "RefBranchName cr repo ref = [] \<or> valid_name (RefBranchName cr repo ref)"
    using s h t trim_take_name [OF s, of 24] repoPrefix_props(1) [OF assms(1), of repo]
    by (auto simp: RefBranchName_def Let_def MaxBranchNameLen_def refHashLen_def name_char_def
        intro!: valid_name_prefixed [OF assms(1)])
  with 1 show ?thesis by (simp add: validateBranchName_def validateName_iff)
qed

theorem derived_branch_names_valid_witness:
  "PRBranchName demo_crypto ''o/r'' 7 = ''gh-727272-pr-7''
    \<and> validateBranchName (PRBranchName demo_crypto ''o/r'' 7) = None"
proof -
  have "PRBranchName demo_crypto ''o/r'' 7 = ''gh-727272-pr-7''" by code_simp
  then show ?thesis
    using derived_branch_names_valid [OF demo_crypto_ok(2), of 7 "''o/r''" "''x''"] by simp
qed

text \<open>
  Sanitising is canonical: applying \<open>SanitizeRef\<close> to its own output changes nothing, the output has at
  most 41 characters, and it is either empty or accepted by the engine's name gate, without a leading,
  trailing or doubled dash.
\<close>

theorem sanitize_canonical:
  "SanitizeRef (SanitizeRef ref) = SanitizeRef ref \<and> length (SanitizeRef ref) \<le> MaxBranchNameLen
    \<and> clean False (SanitizeRef ref)
    \<and> (SanitizeRef ref = [] \<or> validateBranchName (SanitizeRef ref) = None)"
proof -
  have c: "clean False (SanitizeRef ref)"
    using sanitize_clean(1) [of ref] clean_trim_take [of False "sanitize ref 0" MaxBranchNameLen]
    by (auto simp: SanitizeRef_def sanitize_def Let_def)
  have l: "length (SanitizeRef ref) \<le> 41"
    using length_trim_right_dash [of "take 41 (sanitize_loop [] False ref)"]
    by (auto simp: SanitizeRef_def sanitize_def Let_def MaxBranchNameLen_def)
  have "SanitizeRef (SanitizeRef ref) = SanitizeRef ref"
    using sanitize_loop_fixes_clean [of "[]" False "SanitizeRef ref"] c l
    by (simp add: SanitizeRef_def [of "SanitizeRef ref"] sanitize_def [of "SanitizeRef ref"] Let_def MaxBranchNameLen_def)
  moreover have "SanitizeRef ref = [] \<or> valid_name (SanitizeRef ref)"
    using sanitize_starts_alnum [OF c] clean_name_chars [OF c] l by (auto simp: valid_name_def)
  ultimately show ?thesis using c l by (simp add: validateBranchName_def validateName_iff MaxBranchNameLen_def)
qed

section \<open>Volume names\<close>

lemma digit_suffix_unique:
  assumes "s @ CHR ''g'' # nat_dec m = s' @ CHR ''g'' # nat_dec n"
  shows "s = s' \<and> m = n"
proof -
  have tw: "takeWhile is_digit (rev (nat_dec k) @ CHR ''g'' # t) = rev (nat_dec k)" for k t
    using nat_dec_digits [of _ k] by (subst takeWhile_append2) (auto simp: is_digit_alt)
  have "rev (nat_dec m) @ CHR ''g'' # rev s = rev (nat_dec n) @ CHR ''g'' # rev s'"
    using arg_cong [OF assms, of rev] by simp
  then have "nat_dec m = nat_dec n" using tw [of m "rev s"] tw [of n "rev s'"] by (metis rev_rev_ident)
  with assms show ?thesis by (simp add: nat_dec_inj)
qed

lemma last_nat_dec: "is_digit (last (nat_dec n))"
  using nat_dec_digits [of "last (nat_dec n)" n] by simp

lemma gen_not_legacy: "BranchRWVolumeName b \<noteq> BranchRWVolumeName b' @ ''-g'' @ nat_dec n"
proof
  assume "BranchRWVolumeName b = BranchRWVolumeName b' @ ''-g'' @ nat_dec n"
  then have "last (BranchRWVolumeName b) = last (nat_dec n)" by (simp add: last_append)
  then have "CHR ''w'' = last (nat_dec n)" by (simp add: BranchRWVolumeName_def)
  then show False using last_nat_dec [of n] by (simp add: is_digit_alt flip: \<open>CHR ''w'' = _\<close>)
qed

lemma rw_volume_name_inj:
  assumes "1 \<le> g" "1 \<le> g'"
  shows "BranchRWVolumeNameGen b g = BranchRWVolumeNameGen b' g' \<longleftrightarrow> b = b' \<and> g = g'"
proof
  assume eq: "BranchRWVolumeNameGen b g = BranchRWVolumeNameGen b' g'"
  consider "g = 1" "g' = 1" | "g = 1" "g' > 1" | "g > 1" "g' = 1" | "g > 1" "g' > 1" using assms by linarith
  then show "b = b' \<and> g = g'"
  proof cases
    case 4
    with eq have "(BranchRWVolumeName b @ ''-'') @ CHR ''g'' # nat_dec g = (BranchRWVolumeName b' @ ''-'') @ CHR ''g'' # nat_dec g'"
      by (simp add: BranchRWVolumeNameGen_def)
    then show ?thesis using digit_suffix_unique by (metis BranchRWVolumeName_def append_same_eq same_append_eq)
  next
    case 3
    with eq show ?thesis using gen_not_legacy [of b' b g] by (simp add: BranchRWVolumeNameGen_def)
  next
    case 2
    with eq show ?thesis using gen_not_legacy [of b b' g'] by (simp add: BranchRWVolumeNameGen_def)
  qed (use eq in \<open>simp add: BranchRWVolumeNameGen_def BranchRWVolumeName_def\<close>)
qed simp

text \<open>Every volume name the registry's rows mention.\<close>

definition recorded_volumes :: "db \<Rightarrow> string list" where
  "recorded_volumes d = map br_rw_volume (branches d) @ map br_source_volume (branches d)
     @ map br_pending_volume (branches d) @ map l_volume (layers d) @ map sr_volume (sources d)
     @ map sr_pending_volume (sources d)"

lemma VolumeNameUsed_iff: "VolumeNameUsed v d \<longleftrightarrow> v \<in> set (recorded_volumes d)"
  by (auto simp: VolumeNameUsed_def recorded_volumes_def list_ex_iff)

lemma LiveVolumeSet_recorded: "LiveVolumeSet d \<subseteq> set (recorded_volumes d)"
  by (auto simp: LiveVolumeSet_def recorded_volumes_def)

lemma pick_generation_find:
  "pick_generation name d gens =
     map_option (BranchRWVolumeNameGen name) (find (\<lambda>g. \<not> VolumeNameUsed (BranchRWVolumeNameGen name g) d) gens)"
  by (induction gens) (auto simp: Let_def)

lemma find_upt_lowest:
  assumes "\<exists>g. a \<le> g \<and> g < b \<and> P g"
  shows "\<exists>g. find P [a..<b] = Some g \<and> a \<le> g \<and> P g \<and> (\<forall>g'. a \<le> g' \<and> g' < g \<longrightarrow> \<not> P g')"
proof -
  have "find P [a..<b] \<noteq> None" using assms by (auto simp: find_None_iff_not)
  then obtain g where f: "find P [a..<b] = Some g" by blast
  then obtain i where "i < b - a" "P (a + i)" "g = a + i" "\<forall>j < i. \<not> P (a + j)"
    by (auto simp: find_Some_iff)
  moreover from this have "\<not> P g'" if "a \<le> g'" "g' < g" for g'
    using that spec [of "\<lambda>j. j < i \<longrightarrow> \<not> P (a + j)" "g' - a"] by auto
  ultimately show ?thesis using f by auto
qed

lemma some_generation_unused:
  assumes "length (recorded_volumes d) < b - a" "1 \<le> a"
  shows "\<exists>g. a \<le> g \<and> g < b \<and> \<not> VolumeNameUsed (BranchRWVolumeNameGen name g) d"
proof (rule ccontr)
  assume "\<not> ?thesis"
  then have "BranchRWVolumeNameGen name ` {a..<b} \<subseteq> set (recorded_volumes d)" by (auto simp: VolumeNameUsed_iff)
  moreover have "inj_on (BranchRWVolumeNameGen name) {a..<b}"
    using assms(2) by (auto simp: inj_on_def rw_volume_name_inj)
  ultimately have "b - a \<le> card (set (recorded_volumes d))"
    using card_mono [OF finite_set, of "BranchRWVolumeNameGen name ` {a..<b}"] by (simp add: card_image)
  then show False using assms(1) card_length [of "recorded_volumes d"] by linarith
qed


definition reused_db :: db where
  "reused_db = demo_db2\<lparr>branches := [demo_row\<lparr>br_rw_volume := ''pgoverlay-br-pr-1-rw''\<rparr>]\<rparr>"


text \<open>
  Source volume names, unlike writable ones, are not unambiguous: whenever \<open>s\<close> and its extension by
  \<open>-g2\<close> are both accepted source names, generation 2 of the first and generation 1 of the second are the same
  volume. Every valid name of at most 38 characters has such a rival.
\<close>

theorem source_volume_collision:
  assumes "validateSourceName s = None" "length s \<le> 38"
  shows "validateSourceName (s @ ''-g2'') = None \<and> s @ ''-g2'' \<noteq> s
    \<and> SourceVolumeName s 2 = SourceVolumeName (s @ ''-g2'') 1"
proof -
  have "nat_dec 2 = ''2''" by code_simp
  then show ?thesis
    using assms by (auto simp: validateSourceName_def validateName_iff valid_name_def SourceVolumeName_def
        name_char_def low_alnum_alt)
qed

theorem source_volume_collision_witness: "SourceVolumeName ''prod'' 2 = SourceVolumeName ''prod-g2'' 1"
proof -
  have "validateSourceName ''prod'' = None"
    by (simp add: validateSourceName_def validateName_iff valid_name_def name_char_def low_alnum_alt)
  then show ?thesis using source_volume_collision [of "''prod''"] by simp
qed

section \<open>The overlay's lower list\<close>

lemma mount_target_no_colon: "CHR '':'' \<notin> set (LowerMountTarget i)"
  using nat_dec_digits [of "CHR '':''" i] by (auto simp: LowerMountTarget_def is_digit_alt)

lemma mount_target_inj: "LowerMountTarget i @ s = LowerMountTarget j @ s \<longleftrightarrow> i = j"
  by (simp add: LowerMountTarget_def nat_dec_inj)

text \<open>
  The entrypoint receives the overlay the plan describes: splitting the rendered \<open>PGOVERLAY_LOWERS\<close> at
  its colons gives the lowers back, one per frozen layer, newest first, with the source's \<open>data\<close> directory
  as the bottom, and no two of them are the same directory.
\<close>

theorem overlay_lowers_roundtrip:
  "split_on (CHR '':'') (LowerEnv (PlanBranch rw src layerVolumes)) = p_Lowers (PlanBranch rw src layerVolumes)
    \<and> length (p_Lowers (PlanBranch rw src layerVolumes)) = length layerVolumes + 1
    \<and> last (p_Lowers (PlanBranch rw src layerVolumes)) = LowerMountTarget 0 @ ''/data''
    \<and> distinct (p_Lowers (PlanBranch rw src layerVolumes))"
proof -
  let ?up = "\<lambda>i. LowerMountTarget (i + 1) @ ''/upper''"
  have "\<forall>w \<in> set (p_Lowers (PlanBranch rw src layerVolumes)). CHR '':'' \<notin> set w"
    using mount_target_no_colon by (auto simp: PlanBranch_def)
  then have "split_on (CHR '':'') (LowerEnv (PlanBranch rw src layerVolumes)) = p_Lowers (PlanBranch rw src layerVolumes)"
    unfolding LowerEnv_def by (intro split_join) (auto simp: PlanBranch_def)
  moreover have "distinct (map ?up [0..<length layerVolumes])"
    using mount_target_inj [of "Suc _" "''/upper''"] by (auto simp: distinct_map inj_on_def LowerMountTarget_def nat_dec_inj)
  moreover have "?up i \<noteq> LowerMountTarget 0 @ ''/data''" for i
    by (auto dest!: arg_cong [of _ _ last])
  ultimately show ?thesis by (auto simp: PlanBranch_def)
qed

end
