(* ===== verification/Runtime.thy ===== *)
theory Runtime
  imports Names RegistrySteps "HOL-Library.State_Monad"
begin

text \<open>
  The runtime interface of \<^verbatim>\<open>src/internal/runtime/runtime.go\<close> and the machinery the engine's sagas run in. The
  container runtime (Docker, Kubernetes) is a parameter: a record of functions over a runtime state of any
  type, each of which may fail at any call with any error text. So are the clock, the random sources and
  everything that runs beside a saga: at every step other sagas, heartbeats, reconcile passes and other
  processes may change the registry (\<open>e_interfere\<close>). A saga is a state transformer over a world that holds the
  registry database, the runtime state and the log of the runtime calls made.
\<close>

section \<open>The driver interface\<close>

type_synonym labels = "(string \<times> string) list"

datatype MountKind = MountVolume | MountHostPath

record Mount =
  mnt_Kind :: MountKind
  mnt_Volume :: string
  mnt_Target :: string
  mnt_ReadOnly :: bool

record HelperSpec =
  hs_Image :: string
  hs_Cmd :: "string list"
  hs_Env :: "string list"
  hs_Mounts :: "Mount list"
  hs_Network :: string
  hs_User :: string
  hs_Privileged :: bool
  hs_HostDevices :: "string list"
  hs_SysAdmin :: bool

record BranchSpec =
  bs_Name :: string
  bs_Image :: string
  bs_Env :: "string list"
  bs_Mounts :: "Mount list"
  bs_Entrypoint :: "string list"
  bs_Labels :: labels
  bs_Network :: string

record ContainerInfo =
  ci_ID :: string
  ci_Running :: bool
  ci_Stopped :: bool
  ci_Status :: string
  ci_Host :: string
  ci_Port :: int
  ci_Created :: "gotime option"
  ci_Labels :: labels

record VolumeInfo =
  vi_Name :: string
  vi_Created :: "gotime option"
  vi_Leftover :: bool

definition LabelInstance :: string where "LabelInstance = ''pgoverlay.instance''"
definition LabelBranchID :: string where "LabelBranchID = ''pgoverlay.branch.id''"

text \<open>The pinned utility image.\<close>

definition UtilityImage :: string where
  "UtilityImage = ''alpine:3.24@sha256:294b683cb724975bec92580e1e685676bd4b50bda910ddb8c51d4cabeaec77e6''"

text \<open>A call without a result returns \<open>None\<close> for a nil error.\<close>

record 'rt driver =
  drv_CreateVolume :: "string \<Rightarrow> labels \<Rightarrow> 'rt \<Rightarrow> string option \<times> 'rt"
  drv_RemoveVolume :: "string \<Rightarrow> 'rt \<Rightarrow> string option \<times> 'rt"
  drv_CloneVolume :: "string \<Rightarrow> string \<Rightarrow> labels \<Rightarrow> 'rt \<Rightarrow> string option \<times> 'rt"
  drv_RunHelper :: "HelperSpec \<Rightarrow> 'rt \<Rightarrow> (string, string) result \<times> 'rt"
  drv_StartBranch :: "BranchSpec \<Rightarrow> 'rt \<Rightarrow> (string, string) result \<times> 'rt"
  drv_Exec :: "string \<Rightarrow> string list \<Rightarrow> 'rt \<Rightarrow> string option \<times> 'rt"
  drv_ExecOutput :: "string \<Rightarrow> string list \<Rightarrow> 'rt \<Rightarrow> (string, string) result \<times> 'rt"
  drv_Inspect :: "string \<Rightarrow> 'rt \<Rightarrow> (string, ContainerInfo) result \<times> 'rt"
  drv_StopRemove :: "string \<Rightarrow> 'rt \<Rightarrow> string option \<times> 'rt"
  drv_ListManaged :: "'rt \<Rightarrow> (string, ContainerInfo list) result \<times> 'rt"
  drv_ListHelpers :: "'rt \<Rightarrow> (string, ContainerInfo list) result \<times> 'rt"
  drv_ListManagedVolumes :: "string \<Rightarrow> 'rt \<Rightarrow> (string, VolumeInfo list) result \<times> 'rt"
  drv_DiagnoseContainer :: "(string \<Rightarrow> 'rt \<Rightarrow> (string \<times> bool) \<times> 'rt) option"

section \<open>Errors\<close>

text \<open>
  Error values of the engine. \<open>Msg\<close> is an \<open>fmt.Errorf\<close> without a wrapped error, \<open>Wrap m e\<close> is
  \<open>fmt.Errorf("m: %w", e)\<close>, \<open>Prefixed m e\<close> is \<open>fmt.Errorf("m%w", e)\<close>, \<open>Marked\<close> a sentinel attached to an error without changing its text.
\<close>

datatype sentinel = ErrQuotaExceeded | ErrMaskingFailed | ErrNotRecoverable | ErrBaseGone | ErrParentQuiesce
  | ErrInvalidSpec | ErrSeedFailed | ErrVersionMismatch

datatype engine_error =
    invalidNameError string string
  | RegErr reg_error
  | DrvErr string
  | Msg string
  | Kinded sentinel string
  | Wrap string engine_error
  | Prefixed string engine_error
  | Suffixed engine_error string
  | Marked sentinel engine_error
  | redactedError string engine_error
  | DestroyError string string bool bool engine_error

text \<open>\<open>errors.Is(err, registry.ErrNotFound)\<close> and \<open>errors.Is(err, registry.ErrIllegalTransition)\<close>.\<close>

fun err_not_found :: "engine_error \<Rightarrow> bool" where
  "err_not_found (RegErr e) = is_not_found e"
| "err_not_found (Wrap m e) = err_not_found e"
| "err_not_found (Prefixed m e) = err_not_found e"
| "err_not_found (Suffixed e m) = err_not_found e"
| "err_not_found (Marked k e) = err_not_found e"
| "err_not_found (redactedError m e) = err_not_found e"
| "err_not_found (DestroyError b r i u e) = err_not_found e"
| "err_not_found _ = False"

fun err_illegal_transition :: "engine_error \<Rightarrow> bool" where
  "err_illegal_transition (RegErr e) = is_illegal_transition e"
| "err_illegal_transition (Wrap m e) = err_illegal_transition e"
| "err_illegal_transition (Prefixed m e) = err_illegal_transition e"
| "err_illegal_transition (Suffixed e m) = err_illegal_transition e"
| "err_illegal_transition (Marked k e) = err_illegal_transition e"
| "err_illegal_transition (redactedError m e) = err_illegal_transition e"
| "err_illegal_transition (DestroyError b r i u e) = err_illegal_transition e"
| "err_illegal_transition _ = False"

text \<open>The text of the sentinels, and of an error; \<open>regText\<close> renders the registry's own errors.\<close>

fun sentinel_text :: "sentinel \<Rightarrow> string" where
  "sentinel_text ErrQuotaExceeded = ''branch quota exceeded''"
| "sentinel_text ErrMaskingFailed = ''masking script failed''"
| "sentinel_text ErrNotRecoverable = ''branch not recoverable''"
| "sentinel_text ErrBaseGone = ''branch base is gone''"
| "sentinel_text ErrParentQuiesce = ''diff would stop the parent branch''"
| "sentinel_text ErrInvalidSpec = ''invalid seed spec''"
| "sentinel_text ErrSeedFailed = ''seed command failed''"
| "sentinel_text ErrVersionMismatch = ''source PostgreSQL major version does not match the branch image''"

fun err_text :: "(reg_error \<Rightarrow> string) \<Rightarrow> engine_error \<Rightarrow> string" where
  "err_text regText (invalidNameError kind name) =
     ''invalid '' @ kind @ '' name \"'' @ name @ ''\": '' @ kind @ '' name must match [a-z0-9][a-z0-9-]{0,40} (lowercase letters, digits and hyphens, starting with a letter or digit, at most 41 characters)''"
| "err_text regText (RegErr e) = regText e"
| "err_text regText (DrvErr m) = m"
| "err_text regText (Msg m) = m"
| "err_text regText (Kinded k m) = sentinel_text k @ '': '' @ m"
| "err_text regText (Wrap m e) = m @ '': '' @ err_text regText e"
| "err_text regText (Prefixed m e) = m @ err_text regText e"
| "err_text regText (Suffixed e m) = err_text regText e @ m"
| "err_text regText (Marked k e) = err_text regText e"
| "err_text regText (redactedError m e) = m"
| "err_text regText (DestroyError b r i u e) = err_text regText e"

section \<open>The environment and the world\<close>

record 'rt env =
  e_drv :: "'rt driver"
  e_actor :: actor
  e_now :: "nat \<Rightarrow> gotime"
  e_newID :: "nat \<Rightarrow> db \<Rightarrow> string"
  e_rand :: "nat \<Rightarrow> string option"
  e_nonce :: "nat \<Rightarrow> string"
  e_cancelled :: "nat \<Rightarrow> bool"
  e_expired :: "nat \<Rightarrow> bool"
  e_interfere :: "nat \<Rightarrow> db \<Rightarrow> db"
  e_regFault :: "nat \<Rightarrow> string option"
  e_crypto :: crypto
  e_box :: "secretBox option"
  e_regText :: "reg_error \<Rightarrow> string"
  e_inUse :: "engine_error \<Rightarrow> bool"
  e_unavailable :: "engine_error \<Rightarrow> bool"
  e_rtNotFound :: "engine_error \<Rightarrow> bool"
  e_claimed :: "nat \<Rightarrow> string \<Rightarrow> bool"

text \<open>
  \<open>e_inUse\<close>, \<open>e_unavailable\<close> and \<open>e_rtNotFound\<close> classify driver errors (\<open>runtime.IsInUse\<close>, \<open>runtime.IsUnavailable\<close>,
  \<open>errors.Is(err, runtime.ErrNotFound)\<close>); \<open>e_claimed\<close> tells which keys of the in-process bookkeeping other goroutines
  hold at a step.
\<close>

text \<open>One entry of the log of runtime calls; a \<open>bool\<close> says whether the call succeeded.\<close>

datatype event =
    EvCreateVolume string bool
  | EvRemoveVolume string bool
  | EvCloneVolume string string bool
  | EvRunHelper HelperSpec bool
  | EvStartBranch BranchSpec "string option"
  | EvExec string "string list" bool
  | EvExecOutput string "string list" bool
  | EvInspect string bool
  | EvStopRemove string bool
  | EvListManaged bool
  | EvListHelpers bool
  | EvListManagedVolumes bool

record 'rt world =
  w_db :: db
  w_rt :: 'rt
  w_tick :: nat
  w_log :: "event list"
  w_compensationFailures :: nat
  w_cowModes :: "(string \<times> string) list"
  w_refreshed :: "(string \<times> gotime) list"

type_synonym ('rt, 'a) act = "('rt world, 'a) state"
type_synonym ('rt, 'a) op = "('rt world, engine_error + 'a) state"

text \<open>
  Control flow: \<open>x, err := m; if err != nil { return h(err) }; k(x)\<close>, and the same with the error returned
  unchanged.
\<close>

definition attempt :: "('rt, 'a) op \<Rightarrow> (engine_error \<Rightarrow> ('rt, 'b) op) \<Rightarrow> ('a \<Rightarrow> ('rt, 'b) op) \<Rightarrow> ('rt, 'b) op" where
  "attempt m h k = do { r \<leftarrow> m; case r of Inl e \<Rightarrow> h e | Inr x \<Rightarrow> k x }"

definition fail_with :: "engine_error \<Rightarrow> ('rt, 'a) op" where
  "fail_with e = State_Monad.return (Inl e)"

definition ok :: "'a \<Rightarrow> ('rt, 'a) op" where
  "ok x = State_Monad.return (Inr x)"

definition seq_ok :: "('rt, 'a) op \<Rightarrow> ('a \<Rightarrow> ('rt, 'b) op) \<Rightarrow> ('rt, 'b) op" where
  "seq_ok m k = attempt m fail_with k"

definition wrap_err :: "string \<Rightarrow> ('rt, 'a) op \<Rightarrow> ('rt, 'a) op" where
  "wrap_err msg m = attempt m (\<lambda>e. fail_with (Wrap msg e)) ok"

section \<open>Time, randomness, interference\<close>

definition tick :: "'rt env \<Rightarrow> ('rt, nat) act" where
  "tick E = State (\<lambda>w. (w_tick w, w\<lparr>w_tick := w_tick w + 1, w_db := e_interfere E (w_tick w) (w_db w)\<rparr>))"

definition stamp :: "'rt env \<Rightarrow> nat \<Rightarrow> string" where
  "stamp E t = TimeString (e_now E t)"

section \<open>Registry calls\<close>

text \<open>
  A registry call may also fail for reasons of the database itself (a cancelled context, a busy file, an
  I/O error): \<open>e_regFault\<close>. The transaction is then rolled back.
\<close>

definition reg_read :: "'rt env \<Rightarrow> (db \<Rightarrow> (reg_error, 'a) result) \<Rightarrow> ('rt, 'a) op" where
  "reg_read E f = do { t \<leftarrow> tick E;
     State (\<lambda>w. (case e_regFault E t of Some m \<Rightarrow> Inl (Msg m)
       | None \<Rightarrow> (case f (w_db w) of Inl e \<Rightarrow> Inl (RegErr e) | Inr x \<Rightarrow> Inr x), w)) }"

definition reg_write :: "'rt env \<Rightarrow> (nat \<Rightarrow> db \<Rightarrow> (reg_error, 'a \<times> db) result) \<Rightarrow> ('rt, 'a) op" where
  "reg_write E f = do { t \<leftarrow> tick E;
     State (\<lambda>w. case e_regFault E t of Some m \<Rightarrow> (Inl (Msg m), w)
       | None \<Rightarrow> (case f t (w_db w) of Inl e \<Rightarrow> (Inl (RegErr e), w) | Inr (x, d) \<Rightarrow> (Inr x, w\<lparr>w_db := d\<rparr>))) }"

definition no_result :: "(reg_error, db) result \<Rightarrow> (reg_error, unit \<times> db) result" where
  "no_result r = (case r of Inl e \<Rightarrow> Inl e | Inr d \<Rightarrow> Inr ((), d))"

section \<open>Driver calls\<close>

definition drv_call :: "'rt env \<Rightarrow> ((string, 'a) result \<Rightarrow> event) \<Rightarrow> ('rt \<Rightarrow> (string, 'a) result \<times> 'rt) \<Rightarrow> ('rt, 'a) op" where
  "drv_call E ev f = do { _ \<leftarrow> tick E;
     State (\<lambda>w. case f (w_rt w) of (r, s) \<Rightarrow>
       (case r of Inl m \<Rightarrow> Inl (DrvErr m) | Inr x \<Rightarrow> Inr x, w\<lparr>w_rt := s, w_log := w_log w @ [ev r]\<rparr>)) }"

definition succeeded :: "('e, 'a) result \<Rightarrow> bool" where
  "succeeded r = (case r of Inl _ \<Rightarrow> False | Inr _ \<Rightarrow> True)"

definition unit_call :: "('rt \<Rightarrow> string option \<times> 'rt) \<Rightarrow> 'rt \<Rightarrow> (string, unit) result \<times> 'rt" where
  "unit_call f s = (case f s of (None, s') \<Rightarrow> (Inr (), s') | (Some m, s') \<Rightarrow> (Inl m, s'))"

definition CreateVolume :: "'rt env \<Rightarrow> string \<Rightarrow> labels \<Rightarrow> ('rt, unit) op" where
  "CreateVolume E v ls = drv_call E (\<lambda>r. EvCreateVolume v (succeeded r)) (unit_call (drv_CreateVolume (e_drv E) v ls))"

definition RemoveVolume :: "'rt env \<Rightarrow> string \<Rightarrow> ('rt, unit) op" where
  "RemoveVolume E v = drv_call E (\<lambda>r. EvRemoveVolume v (succeeded r)) (unit_call (drv_RemoveVolume (e_drv E) v))"

definition CloneVolume :: "'rt env \<Rightarrow> string \<Rightarrow> string \<Rightarrow> labels \<Rightarrow> ('rt, unit) op" where
  "CloneVolume E src dst ls =
     drv_call E (\<lambda>r. EvCloneVolume src dst (succeeded r)) (unit_call (drv_CloneVolume (e_drv E) src dst ls))"

definition RunHelper :: "'rt env \<Rightarrow> HelperSpec \<Rightarrow> ('rt, string) op" where
  "RunHelper E spec = drv_call E (\<lambda>r. EvRunHelper spec (succeeded r)) (drv_RunHelper (e_drv E) spec)"

definition StartBranch :: "'rt env \<Rightarrow> BranchSpec \<Rightarrow> ('rt, string) op" where
  "StartBranch E spec = drv_call E (\<lambda>r. EvStartBranch spec (case r of Inl _ \<Rightarrow> None | Inr c \<Rightarrow> Some c)) (drv_StartBranch (e_drv E) spec)"

definition Exec :: "'rt env \<Rightarrow> string \<Rightarrow> string list \<Rightarrow> ('rt, unit) op" where
  "Exec E cid cmd = drv_call E (\<lambda>r. EvExec cid cmd (succeeded r)) (unit_call (drv_Exec (e_drv E) cid cmd))"

definition ExecOutput :: "'rt env \<Rightarrow> string \<Rightarrow> string list \<Rightarrow> ('rt, string) op" where
  "ExecOutput E cid cmd = drv_call E (\<lambda>r. EvExecOutput cid cmd (succeeded r)) (drv_ExecOutput (e_drv E) cid cmd)"

definition Inspect :: "'rt env \<Rightarrow> string \<Rightarrow> ('rt, ContainerInfo) op" where
  "Inspect E cid = drv_call E (\<lambda>r. EvInspect cid (succeeded r)) (drv_Inspect (e_drv E) cid)"

definition StopRemove :: "'rt env \<Rightarrow> string \<Rightarrow> ('rt, unit) op" where
  "StopRemove E cid = drv_call E (\<lambda>r. EvStopRemove cid (succeeded r)) (unit_call (drv_StopRemove (e_drv E) cid))"

definition ListManagedVolumes :: "'rt env \<Rightarrow> string \<Rightarrow> ('rt, VolumeInfo list) op" where
  "ListManagedVolumes E inst = drv_call E (\<lambda>r. EvListManagedVolumes (succeeded r)) (drv_ListManagedVolumes (e_drv E) inst)"

definition ListManaged :: "'rt env \<Rightarrow> ('rt, ContainerInfo list) op" where
  "ListManaged E = drv_call E (\<lambda>r. EvListManaged (succeeded r)) (drv_ListManaged (e_drv E))"

definition ListHelpers :: "'rt env \<Rightarrow> ('rt, ContainerInfo list) op" where
  "ListHelpers E = drv_call E (\<lambda>r. EvListHelpers (succeeded r)) (drv_ListHelpers (e_drv E))"

text \<open>The optional diagnosing capability: the driver's explanation and whether waiting is pointless.\<close>

definition DiagnoseContainer :: "'rt env \<Rightarrow> string \<Rightarrow> ('rt, (string \<times> bool) option) act" where
  "DiagnoseContainer E cid = (case drv_DiagnoseContainer (e_drv E) of None \<Rightarrow> State_Monad.return None
     | Some f \<Rightarrow> State (\<lambda>w. case f cid (w_rt w) of (r, s) \<Rightarrow> (Some r, w\<lparr>w_rt := s\<rparr>)))"

section \<open>Compensation\<close>

text \<open>\<open>logCompensationErr\<close>: a best-effort step; a failure is only counted.\<close>

definition logCompensationErr :: "('rt, 'a) op \<Rightarrow> ('rt, unit) act" where
  "logCompensationErr m = do { r \<leftarrow> m;
     case r of Inl e \<Rightarrow> State (\<lambda>w. ((), w\<lparr>w_compensationFailures := w_compensationFailures w + 1\<rparr>))
     | Inr x \<Rightarrow> State_Monad.return () }"

text \<open>The \<open>undo\<close> stack of a saga, oldest first, and its \<open>fail\<close> closure: unwind in reverse order, return the error.\<close>

fun run_all :: "('rt, unit) act list \<Rightarrow> ('rt, unit) act" where
  "run_all [] = State_Monad.return ()"
| "run_all (m # ms) = do { _ \<leftarrow> m; run_all ms }"

definition unwind :: "('rt, unit) act list \<Rightarrow> engine_error \<Rightarrow> ('rt, 'a) op" where
  "unwind undo e = do { _ \<leftarrow> run_all (rev undo); fail_with e }"

end
