(* ===== verification/Texts.thy ===== *)
theory Texts
  imports Runtime NamesProps
begin

text \<open>
  What the engine does to text: searching and replacing, redacting a rotated password from an error
  (\<open>redactSecret\<close>), the failure reason written to the journal (\<open>failureReason\<close>) and the shell quoting of the
  zfs helper commands. Strings are byte strings, as in Go.
\<close>

section \<open>strings.Contains and strings.ReplaceAll\<close>

fun contains :: "string \<Rightarrow> string \<Rightarrow> bool" where
  "contains [] p = (p = [])"
| "contains (c # s) p = (has_prefix p (c # s) \<or> contains s p)"

text \<open>Left to right, without overlaps; the pattern is not empty.\<close>

fun replace_all :: "string \<Rightarrow> string \<Rightarrow> string \<Rightarrow> string" where
  "replace_all [] old new = []"
| "replace_all (c # s) old new =
     (if old \<noteq> [] \<and> has_prefix old (c # s) then new @ replace_all (drop (length old - 1) s) old new
      else c # replace_all s old new)"

lemma contains_iff: "contains s p \<longleftrightarrow> (\<exists>u v. s = u @ p @ v)"
proof (induction s)
  case (Cons c s)
  have "(\<exists>u v. c # s = u @ p @ v) \<longleftrightarrow> (\<exists>v. c # s = p @ v) \<or> (\<exists>u v. s = u @ p @ v)"
    by (auto simp: Cons_eq_append_conv)
  with Cons.IH show ?case by (simp add: has_prefix_iff)
qed simp

section \<open>Redaction\<close>

definition redacted :: string where "redacted = ''[REDACTED]''"

definition redactSecret :: "(reg_error \<Rightarrow> string) \<Rightarrow> engine_error \<Rightarrow> string \<Rightarrow> engine_error" where
  "redactSecret regText err secret =
     (if secret = [] \<or> \<not> contains (err_text regText err) secret then err
      else redactedError (replace_all (err_text regText err) secret redacted) err)"

text \<open>
  The replacement of a secret whose characters all differ from those of the marker leaves no occurrence
  behind: an occurrence would have to lie in a stretch of the old text without a marker, and every such
  stretch was scanned.
\<close>

definition apart :: "string \<Rightarrow> string \<Rightarrow> bool" where
  "apart p m \<longleftrightarrow> set p \<inter> set m = {}"

lemma no_contains_marker:
  assumes "apart p m" "m \<noteq> []" "p \<noteq> []" "\<not> contains r p"
  shows "\<not> contains (m @ r) p"
proof -
  have "\<not> contains (w @ r) p" if "set w \<inter> set p = {}" for w
    using that
  proof (induction w)
    case (Cons c w)
    then have "\<not> has_prefix p (c # w @ r)" using assms(3) by (cases p) (auto simp: has_prefix_iff)
    with Cons show ?case by simp
  qed (simp add: assms(4))
  then show ?thesis using assms(1) by (simp add: apart_def inf_commute)
qed

text \<open>A prefix of the rewritten text that the marker cannot contain is a prefix of the original.\<close>

lemma replace_all_prefix:
  "has_prefix q (replace_all s p new) \<Longrightarrow> set q \<subseteq> set p \<Longrightarrow> apart p new \<Longrightarrow> new \<noteq> [] \<Longrightarrow> has_prefix q s"
proof (induction s p new arbitrary: q rule: replace_all.induct)
  case (2 c s old new)
  show ?case
  proof (cases "old \<noteq> [] \<and> has_prefix old (c # s)")
    case True
    then have "has_prefix q (new @ replace_all (drop (length old - 1) s) old new)" using 2(3) by simp
    then have "q = []" using 2(4-6)
      by (cases q; cases new) (auto simp: has_prefix_iff apart_def)
    then show ?thesis by (simp add: has_prefix_iff)
  next
    case False
    then have "has_prefix q (c # replace_all s old new)" using 2(3) by (auto split: if_splits)
    then show ?thesis
    proof (cases q)
      case (Cons x q')
      with \<open>has_prefix q (c # replace_all s old new)\<close> have "x = c" "has_prefix q' (replace_all s old new)"
        by (auto simp: has_prefix_iff)
      then show ?thesis using 2(2)[OF False] 2(4-6) Cons by (auto simp: has_prefix_iff)
    qed (simp add: has_prefix_iff)
  qed
qed simp

lemma replace_all_free:
  "p \<noteq> [] \<Longrightarrow> apart p new \<Longrightarrow> new \<noteq> [] \<Longrightarrow> \<not> contains (replace_all s p new) p"
proof (induction s p new rule: replace_all.induct)
  case (2 c s old new)
  show ?case
  proof (cases "has_prefix old (c # s)")
    case True
    then show ?thesis using 2 no_contains_marker[OF 2(4,5,3)] by simp
  next
    case False
    have "\<not> has_prefix old (c # replace_all s old new)"
    proof
      assume "has_prefix old (c # replace_all s old new)"
      then obtain q where q: "old = c # q" "has_prefix q (replace_all s old new)"
        using 2(3) by (cases old) (auto simp: has_prefix_iff)
      have "has_prefix q s" by (rule replace_all_prefix[OF q(2) _ 2(4,5)]) (auto simp: q(1))
      then show False using False by (auto simp: q(1) has_prefix_iff)
    qed
    then show ?thesis using 2 False by simp
  qed
qed simp

lemma hex_apart: "list_all low_alnum p \<Longrightarrow> apart p redacted"
  by (auto simp: apart_def redacted_def list_all_iff low_alnum_alt)

text \<open>
  A rotated password never reaches the journal through the error of the command that set it: whatever
  text the runtime put into the error, after \<open>redactSecret\<close> the error's text does not contain the password,
  which is the hexadecimal rendering of the random bytes. Other errors keep their text unchanged.
\<close>

theorem redaction_complete:
  assumes "pw = hex_encode buf" "buf \<noteq> []"
  shows "\<not> contains (err_text regText (redactSecret regText err pw)) pw
    \<and> (\<not> contains (err_text regText err) pw \<longrightarrow> redactSecret regText err pw = err)"
proof -
  have "pw \<noteq> []" using assms by (cases buf) (auto simp: hex_encode_def)
  moreover have "list_all low_alnum pw"
    unfolding assms(1) list_all_iff using of_char_halves hex_digit_low_alnum
    by (fastforce simp: hex_encode_def)
  ultimately show ?thesis
    using replace_all_free[OF _ hex_apart] by (simp add: redactSecret_def) (simp add: redacted_def)
qed

theorem redaction_complete_witness:
  "\<not> contains (err_text (\<lambda>e. []) (redactSecret (\<lambda>e. []) (DrvErr (''PASSWORD '' @ hex_encode ''k'')) (hex_encode ''k''))) (hex_encode ''k'')
    \<and> contains (err_text (\<lambda>e. []) (DrvErr (''PASSWORD '' @ hex_encode ''k''))) (hex_encode ''k'')"
proof -
  have "contains (''PASSWORD '' @ hex_encode ''k'') (hex_encode ''k'')" unfolding contains_iff by (metis append_Nil2)
  then show ?thesis
    using redaction_complete[of "hex_encode ''k''" "''k''" "\<lambda>e. []" "DrvErr (''PASSWORD '' @ hex_encode ''k'')"] by simp
qed

section \<open>Numbers\<close>

text \<open>\<open>strconv.Atoi\<close>: an optional sign and decimal digits; numbers of any size, the callers bound them.\<close>

definition atoi :: "string \<Rightarrow> int option" where
  "atoi s = (let (neg, ds) = (case s of c # r \<Rightarrow> if c = CHR ''-'' then (True, r) else if c = CHR ''+'' then (False, r) else (False, s) | [] \<Rightarrow> (False, s))
     in if ds \<noteq> [] \<and> list_all is_digit ds then Some (if neg then - int (dec_val ds) else int (dec_val ds)) else None)"

section \<open>The journaled failure reason\<close>

text \<open>\<open>strings.ToValidUTF8(s, "")\<close>: the number of bytes of the well-formed sequence at the front of \<open>s\<close>, 0 if there is none.\<close>

definition cont_byte :: "char \<Rightarrow> bool" where
  "cont_byte c \<longleftrightarrow> 128 \<le> (of_char c :: nat) \<and> (of_char c :: nat) < 192"

definition byte_at :: "string \<Rightarrow> nat \<Rightarrow> nat" where
  "byte_at s i = (if i < length s then of_char (s ! i) else 0)"

definition cont_at :: "string \<Rightarrow> nat \<Rightarrow> bool" where
  "cont_at s i \<longleftrightarrow> i < length s \<and> cont_byte (s ! i)"

definition rune_len :: "string \<Rightarrow> nat" where
  "rune_len s =
     (let b = byte_at s 0; b1 = byte_at s 1
      in if s = [] then 0
         else if b < 128 then 1
         else if 194 \<le> b \<and> b < 224 then (if cont_at s 1 then 2 else 0)
         else if 224 \<le> b \<and> b < 240
         then (if cont_at s 1 \<and> cont_at s 2 \<and> (b = 224 \<longrightarrow> 160 \<le> b1) \<and> (b = 237 \<longrightarrow> b1 < 160) then 3 else 0)
         else if 240 \<le> b \<and> b < 245
         then (if cont_at s 1 \<and> cont_at s 2 \<and> cont_at s 3 \<and> (b = 240 \<longrightarrow> 144 \<le> b1) \<and> (b = 244 \<longrightarrow> b1 < 144) then 4 else 0)
         else 0)"

fun to_valid_utf8 :: "nat \<Rightarrow> string \<Rightarrow> string" where
  "to_valid_utf8 skip [] = []"
| "to_valid_utf8 (Suc skip) (c # s) = c # to_valid_utf8 skip s"
| "to_valid_utf8 0 (c # s) =
     (let n = rune_len (c # s) in if n = 0 then to_valid_utf8 0 s else c # to_valid_utf8 (n - 1) s)"

definition maxFailureReason :: nat where "maxFailureReason = 1024"

text \<open>The suffix \<open>" ...(truncated)"\<close>, with the ellipsis in UTF-8.\<close>

definition truncated_mark :: string where
  "truncated_mark = CHR '' '' # CHR 0xE2 # CHR 0x80 # CHR 0xA6 # ''(truncated)''"

definition kept_line :: "string \<Rightarrow> bool" where
  "kept_line l \<longleftrightarrow> \<not> (contains l ''DETAIL:'' \<or> contains l ''CONTEXT:'')"

definition failure_reason :: "string \<Rightarrow> string" where
  "failure_reason text =
     (let reason = join_with [CHR 0x0A] (filter kept_line (split_on (CHR 0x0A) text))
      in if length reason > maxFailureReason
         then to_valid_utf8 0 (take maxFailureReason reason) @ truncated_mark else reason)"

definition failureReason :: "(reg_error \<Rightarrow> string) \<Rightarrow> engine_error \<Rightarrow> string" where
  "failureReason regText err = failure_reason (err_text regText err)"

lemma length_to_valid_utf8: "length (to_valid_utf8 n s) \<le> length s"
  by (induction n s rule: to_valid_utf8.induct) (auto simp: Let_def le_SucI)

lemma length_failure_reason: "length (failure_reason text) \<le> 1024 + 15"
  using length_to_valid_utf8[of 0 "take 1024 (join_with [CHR 0x0A] (filter kept_line (split_on (CHR 0x0A) text)))"]
  by (simp add: failure_reason_def Let_def maxFailureReason_def truncated_mark_def)

lemma contains_append_apart:
  assumes "contains (u @ m) p" "apart p m" "p \<noteq> []"
  shows "contains u p"
  using assms(1)
proof (induction u)
  case Nil
  then show ?case using no_contains_marker[of p m "[]"] assms(2,3) by (cases "m = []") auto
next
  case (Cons c u)
  have "has_prefix p (c # u)" if pre: "has_prefix p (c # u @ m)"
  proof -
    obtain t where t: "(c # u) @ m = p @ t" using pre by (auto simp: has_prefix_iff)
    then consider us where "c # u = p @ us" | us where "p = (c # u) @ us" "m = us @ t"
      unfolding append_eq_append_conv2 by blast
    then show ?thesis
    proof cases
      case 2
      then have "us = []" using assms(2) by (cases us) (auto simp: apart_def)
      with 2 show ?thesis by (simp add: has_prefix_iff)
    qed (simp add: has_prefix_iff)
  qed
  with Cons show ?case by auto
qed

lemma contains_sep:
  assumes "c \<notin> set p" "p \<noteq> []"
  shows "contains (a @ c # b) p \<longleftrightarrow> contains a p \<or> contains b p"
proof
  assume "contains (a @ c # b) p"
  then obtain u v where e: "a @ c # b = u @ p @ v" by (auto simp: contains_iff)
  then consider us where "a = u @ us" "us @ c # b = p @ v" | us where "u = a @ us" "c # b = us @ p @ v"
    by (auto simp: append_eq_append_conv2)
  then show "contains a p \<or> contains b p"
  proof cases
    case 1
    then consider vs where "us = p @ vs" | vs where "p = us @ vs" "c # b = vs @ v"
      by (auto simp: append_eq_append_conv2)
    then show ?thesis
    proof cases
      case 2
      then have "vs = []" using assms(1) by (cases vs) auto
      with 2 1 show ?thesis unfolding contains_iff by (metis append_Nil2)
    qed (use 1 in \<open>auto simp: contains_iff\<close>)
  next
    case 2
    then have "us \<noteq> []" using assms by (cases p) auto
    with 2 have "\<exists>us'. b = us' @ p @ v" by (cases us) auto
    then show ?thesis by (auto simp: contains_iff)
  qed
next
  have "a @ c # b = u @ p @ v @ c # b" if "a = u @ p @ v" for u v using that by simp
  moreover have "a @ c # b = (a @ c # u) @ p @ v" if "b = u @ p @ v" for u v using that by simp
  moreover assume "contains a p \<or> contains b p"
  ultimately show "contains (a @ c # b) p" unfolding contains_iff by metis
qed

lemma contains_join:
  "c \<notin> set p \<Longrightarrow> p \<noteq> [] \<Longrightarrow> contains (join_with [c] ls) p \<longleftrightarrow> (\<exists>l \<in> set ls. contains l p)"
  by (induction "[c]" ls rule: join_with.induct) (auto simp: contains_sep)

lemma contains_take: "contains (take n s) p \<Longrightarrow> contains s p"
  unfolding contains_iff by (metis append.assoc append_take_drop_id)

lemma valid_ascii: "list_all (\<lambda>c. of_char c < (128 :: nat)) s \<Longrightarrow> to_valid_utf8 0 s = s"
  by (induction s) (auto simp: Let_def rune_len_def byte_at_def)

lemma kept_lines_free:
  assumes "p \<in> {''DETAIL:'', ''CONTEXT:''}"
  shows "\<not> contains (join_with [CHR 0x0A] (filter kept_line ls)) p"
  using assms contains_join[of "CHR 0x0A" p "filter kept_line ls"] by (auto simp: kept_line_def)

lemma split_on_chars: "w \<in> set (split_on c s) \<Longrightarrow> set w \<subseteq> set s"
  by (induction c s arbitrary: w rule: split_on.induct) (force split: if_splits list.splits)+

lemma join_chars: "set (join_with sep ws) \<subseteq> set sep \<union> (\<Union>w \<in> set ws. set w)"
  by (induction sep ws rule: join_with.induct) auto

text \<open>
  No row value that Postgres prints in a \<open>DETAIL:\<close> or \<open>CONTEXT:\<close> line is written to the journal: for
  every ASCII error text, of any length and wherever the cut falls, the stored reason contains neither marker,
  and it never exceeds the cap of 1024 bytes by more than the truncation mark.
\<close>

theorem failure_reason_private:
  assumes "list_all (\<lambda>c. of_char c < (128 :: nat)) (err_text regText err)"
  shows "\<not> contains (failureReason regText err) ''DETAIL:'' \<and> \<not> contains (failureReason regText err) ''CONTEXT:''
    \<and> length (failureReason regText err) \<le> maxFailureReason + length truncated_mark"
proof -
  let ?text = "err_text regText err"
  let ?r = "join_with [CHR 0x0A] (filter kept_line (split_on (CHR 0x0A) ?text))"
  have "set ?r \<subseteq> {CHR 0x0A} \<union> set ?text"
    using join_chars[of "[CHR 0x0A]" "filter kept_line (split_on (CHR 0x0A) ?text)"] split_on_chars[of _ "CHR 0x0A" ?text]
    by auto
  then have "list_all (\<lambda>c. of_char c < (128 :: nat)) (take 1024 ?r)"
    using assms set_take_subset[of 1024 ?r] by (auto simp: list_all_iff)
  then have v: "to_valid_utf8 0 (take 1024 ?r) = take 1024 ?r" by (rule valid_ascii)
  have "\<not> contains (failureReason regText err) p" if p: "p \<in> {''DETAIL:'', ''CONTEXT:''}" for p
  proof -
    have a: "apart p truncated_mark" "p \<noteq> []" using p by (auto simp: apart_def truncated_mark_def)
    then show ?thesis
      using kept_lines_free[OF p, of "split_on (CHR 0x0A) ?text"] contains_take[of 1024 ?r p] contains_append_apart[OF _ a]
      by (auto simp: failureReason_def failure_reason_def Let_def v maxFailureReason_def)
  qed
  moreover have "length (failureReason regText err) \<le> 1024 + 15" unfolding failureReason_def by (rule length_failure_reason)
  ultimately show ?thesis by (simp add: maxFailureReason_def truncated_mark_def)
qed

theorem failure_reason_private_witness:
  "\<not> contains (failureReason (\<lambda>e. []) (DrvErr (''ERROR: dup'' @ CHR 0x0A # ''DETAIL:  Key (email)''))) ''DETAIL:''
    \<and> contains (err_text (\<lambda>e. []) (DrvErr (''ERROR: dup'' @ CHR 0x0A # ''DETAIL:  Key (email)''))) ''DETAIL:''"
  using failure_reason_private[of "\<lambda>e. []" "DrvErr (''ERROR: dup'' @ CHR 0x0A # ''DETAIL:  Key (email)'')"]
  by (simp add: has_prefix_def)

section \<open>Shell quoting (\<^verbatim>\<open>zfs.go\<close>)\<close>

definition shell_safe :: "char \<Rightarrow> bool" where
  "shell_safe c \<longleftrightarrow> in_range (CHR ''A'') (CHR ''Z'') c \<or> low_alnum c \<or> c \<in> set ''@%_+=:,./-''"

definition shellSafeRe :: rx where "shellSafeRe = rx_plus (Chars shell_safe)"

definition quote_escape :: string where "quote_escape = [CHR 0x27, CHR 0x5C, CHR 0x27, CHR 0x27]"

definition shellQuoteArg :: "string \<Rightarrow> string" where
  "shellQuoteArg a = (if rx_match shellSafeRe a then a
     else CHR 0x27 # replace_all a [CHR 0x27] quote_escape @ [CHR 0x27])"

definition shellJoin :: "string list \<Rightarrow> string" where
  "shellJoin argv = join_with '' '' (map shellQuoteArg argv)"

text \<open>
  Word splitting of a POSIX shell, for the part of the grammar the helper scripts use: single quotes,
  backslashes and blanks; any other unquoted character outside the safe set makes the splitter give up.
\<close>

fun sh_words :: "bool \<Rightarrow> string option \<Rightarrow> string \<Rightarrow> string list option" where
  "sh_words q cur [] = (if q then None else Some (case cur of None \<Rightarrow> [] | Some w \<Rightarrow> [w]))"
| "sh_words True cur (c # s) =
     (let w = (case cur of None \<Rightarrow> [] | Some w \<Rightarrow> w)
      in if c = CHR 0x27 then sh_words False (Some w) s else sh_words True (Some (w @ [c])) s)"
| "sh_words False cur (c # s) =
     (let w = (case cur of None \<Rightarrow> [] | Some w \<Rightarrow> w)
      in if c = CHR '' '' then map_option (\<lambda>ws. (case cur of None \<Rightarrow> [] | Some w \<Rightarrow> [w]) @ ws) (sh_words False None s)
         else if c = CHR 0x27 then sh_words True (Some w) s
         else if c = CHR 0x5C then (case s of [] \<Rightarrow> None | x # s' \<Rightarrow> sh_words False (Some (w @ [x])) s')
         else if shell_safe c then sh_words False (Some (w @ [c])) s else None)"

lemma shell_safe_plain: "shell_safe c \<Longrightarrow> c \<noteq> CHR '' '' \<and> c \<noteq> CHR 0x27 \<and> c \<noteq> CHR 0x5C"
  by (auto simp: shell_safe_def low_alnum_alt in_range_def less_eq_char_def)

lemma sh_words_safe:
  "list_all shell_safe w \<Longrightarrow> sh_words False (Some u) (w @ rest) = sh_words False (Some (u @ w)) rest"
  by (induction w arbitrary: u) (auto simp: Let_def dest: shell_safe_plain)

lemma sh_words_quoted:
  "sh_words True (Some w) (replace_all a [CHR 0x27] quote_escape @ CHR 0x27 # rest) = sh_words False (Some (w @ a)) rest"
  by (induction a arbitrary: w) (auto simp: Let_def quote_escape_def has_prefix_def)

lemma shellSafeRe_iff: "rx_match shellSafeRe a \<longleftrightarrow> a \<noteq> [] \<and> list_all shell_safe a"
proof -
  have star: "matches (Star (Chars P)) s \<longleftrightarrow> list_all P s" for P s
  proof
    have "matches r s \<Longrightarrow> r = Star (Chars P) \<Longrightarrow> list_all P s" for r
      by (induction rule: matches.induct) (auto simp: matches_Chars)
    then show "matches (Star (Chars P)) s \<Longrightarrow> list_all P s" by blast
    show "list_all P s \<Longrightarrow> matches (Star (Chars P)) s"
    proof (induction s)
      case (Cons c s)
      then show ?case using m_star[OF m_chars[of P c], of s] by simp
    qed (rule m_star_nil)
  qed
  show ?thesis by (cases a) (simp_all add: shellSafeRe_def rx_plus_def rx_match_iff matches_Seq_Chars star)
qed

lemma sh_words_arg: "sh_words False None (shellQuoteArg a @ rest) = sh_words False (Some a) rest"
proof (cases "rx_match shellSafeRe a")
  case True
  then have "a \<noteq> [] \<and> list_all shell_safe a" using shellSafeRe_iff by blast
  then obtain c w where "a = c # w" "shell_safe c" "list_all shell_safe w" by (cases a) auto
  with True show ?thesis using shell_safe_plain[of c] sh_words_safe[of w "[c]" rest] by (simp add: shellQuoteArg_def Let_def)
next
  case False
  then show ?thesis using sh_words_quoted[of "[]" a rest] by (simp add: shellQuoteArg_def Let_def)
qed

text \<open>
  The zfs helper runs exactly the command the planner built: splitting the rendered command line the way
  a shell does gives the argument vector back, whatever bytes the arguments contain, so a dataset or branch
  name cannot inject a word or a command.
\<close>

theorem shell_join_roundtrip: "sh_words False None (shellJoin argv) = Some argv"
proof (induction argv)
  case (Cons a argv)
  then show ?case
    using sh_words_arg[of a "[]"] sh_words_arg[of a "CHR '' '' # shellJoin argv"]
    by (cases argv) (simp_all add: shellJoin_def)
qed (simp add: shellJoin_def)

end
