(* ===== verification/Engine.thy ===== *)
theory Engine
  imports Texts "HOL-Library.AList"
begin

text \<open>
  The engine's building blocks (\<^verbatim>\<open>src/internal/engine/engine.go\<close>, \<^verbatim>\<open>saga.go\<close>, \<^verbatim>\<open>zfs.go\<close>, \<^verbatim>\<open>cowmode.go\<close>,
  \<^verbatim>\<open>recover.go\<close>): policies, the helper and container specifications, the readiness wait, masking, credential
  rotation and the restart of a branch on the data it has. \<open>G\<close> is the engine's configuration, \<open>E\<close> its
  environment. The heartbeat goroutine of \<open>keepAlive\<close> only touches \<open>updated_at\<close> and is part of the interference
  every step is subject to.
\<close>

record engine =
  g_planner :: Planner
  g_defaultImage :: string
  g_rotateCredentials :: bool
  g_maxBranches :: int
  g_defaultTTL :: int
  g_maxTTL :: int
  g_maxLayerDepth :: int
  g_lazyrwOff :: bool
  g_walRecycleOff :: bool
  g_instanceID :: string
  g_overlayInstall :: "string list \<times> string list"
  g_entrypointDirect :: string

definition MergedPath :: string where "MergedPath = ''/pgoverlay/merged''"
definition RWPath :: string where "RWPath = ''/pgoverlay/rw''"
definition DirectDataPath :: string where "DirectDataPath = RWPath @ ''/data''"

definition zfs :: "engine \<Rightarrow> bool" where "zfs G \<longleftrightarrow> pl_Backend (g_planner G) = BackendZFS"
definition csi :: "engine \<Rightarrow> bool" where "csi G \<longleftrightarrow> pl_Backend (g_planner G) = BackendCSI"

text \<open>\<open>%q\<close> of a name.\<close>

definition quoted :: "string \<Rightarrow> string" where "quoted s = CHR 0x22 # s @ [CHR 0x22]"

section \<open>Registry calls of the sagas\<close>

definition reg_branch_by_name :: "'rt env \<Rightarrow> string \<Rightarrow> ('rt, branch) op" where
  "reg_branch_by_name E name = reg_read E (GetBranchByName (read_password (e_crypto E) (e_box E)) name)"

definition reg_branch_by_id :: "'rt env \<Rightarrow> string \<Rightarrow> ('rt, branch) op" where
  "reg_branch_by_id E eid = reg_read E (GetBranchByID (read_password (e_crypto E) (e_box E)) eid)"

definition reg_create_branch :: "'rt env \<Rightarrow> branch \<Rightarrow> ('rt, branch) op" where
  "reg_create_branch E b = reg_write E (\<lambda>t d. CreateBranchCtx (e_actor E) (stamp E t) (e_newID E t d) b d)"

definition reg_transition :: "'rt env \<Rightarrow> string \<Rightarrow> branch_state \<Rightarrow> string \<Rightarrow> ('rt, unit) op" where
  "reg_transition E eid to reason =
     reg_write E (\<lambda>t d. no_result (TransitionBranchCtx (e_actor E) (stamp E t) eid to reason d))"

definition reg_mark_ready :: "'rt env \<Rightarrow> string \<Rightarrow> string \<Rightarrow> string \<Rightarrow> int \<Rightarrow> ('rt, unit) op" where
  "reg_mark_ready E eid cid host port =
     reg_write E (\<lambda>t d. no_result (MarkBranchReadyCtx (e_actor E) (stamp E t) eid cid host port d))"

definition reg_set_container :: "'rt env \<Rightarrow> string \<Rightarrow> string \<Rightarrow> ('rt, unit) op" where
  "reg_set_container E eid cid = reg_write E (\<lambda>t d. Inr ((), SetBranchContainer (stamp E t) eid cid d))"

definition reg_touch_branch :: "'rt env \<Rightarrow> string \<Rightarrow> ('rt, unit) op" where
  "reg_touch_branch E eid = reg_write E (\<lambda>t d. Inr ((), TouchBranch (stamp E t) eid d))"

definition reg_note :: "'rt env \<Rightarrow> string \<Rightarrow> string \<Rightarrow> ('rt, unit) op" where
  "reg_note E eid reason = reg_write E (\<lambda>t d. no_result (NoteBranchCtx (e_actor E) (stamp E t) eid reason d))"

definition reg_set_password :: "'rt env \<Rightarrow> string \<Rightarrow> string \<Rightarrow> ('rt, unit) op" where
  "reg_set_password E eid pw =
     reg_write E (\<lambda>t d. no_result (SetBranchPassword (e_crypto E) (e_box E) (e_nonce E t) (stamp E t) eid pw d))"

definition reg_set_pending :: "'rt env \<Rightarrow> string \<Rightarrow> string \<Rightarrow> ('rt, unit) op" where
  "reg_set_pending E eid vol = reg_write E (\<lambda>t d. no_result (SetBranchPendingVolume eid vol d))"

definition reg_fail_stuck :: "'rt env \<Rightarrow> string \<Rightarrow> string \<Rightarrow> string \<Rightarrow> ('rt, bool) op" where
  "reg_fail_stuck E eid before reason = reg_write E (\<lambda>t d. FailStuckBranch (e_actor E) (stamp E t) eid before reason d)"

definition reg_fail_stuck_source :: "'rt env \<Rightarrow> string \<Rightarrow> string \<Rightarrow> string \<Rightarrow> ('rt, bool) op" where
  "reg_fail_stuck_source E eid before reason = reg_write E (\<lambda>t d. Inr (FailStuckSource (e_actor E) (stamp E t) eid before reason d))"

definition reg_update_endpoint :: "'rt env \<Rightarrow> string \<Rightarrow> string \<Rightarrow> string \<Rightarrow> string \<Rightarrow> int \<Rightarrow> ('rt, bool) op" where
  "reg_update_endpoint E eid from cid host port = reg_write E (\<lambda>t d. Inr (UpdateBranchEndpoint eid from cid host port d))"

definition reg_update_endpoint_ctx ::
  "'rt env \<Rightarrow> string \<Rightarrow> string \<Rightarrow> string \<Rightarrow> string \<Rightarrow> int \<Rightarrow> string \<Rightarrow> ('rt, bool) op" where
  "reg_update_endpoint_ctx E eid from cid host port reason =
     reg_write E (\<lambda>t d. Inr (UpdateBranchEndpointCtx (e_actor E) (stamp E t) eid from cid host port reason d))"

definition reg_fail_ready :: "'rt env \<Rightarrow> string \<Rightarrow> string \<Rightarrow> string \<Rightarrow> ('rt, bool) op" where
  "reg_fail_ready E eid cid reason = reg_write E (\<lambda>t d. FailReadyBranch (e_actor E) (stamp E t) eid cid reason d)"

definition reg_delete_layer :: "'rt env \<Rightarrow> string \<Rightarrow> ('rt, unit) op" where
  "reg_delete_layer E eid = reg_write E (\<lambda>t d. no_result (DeleteLayer eid d))"

section \<open>Policies\<close>

definition checkQuota :: "engine \<Rightarrow> 'rt env \<Rightarrow> ('rt, unit) op" where
  "checkQuota G E =
     (if g_maxBranches G \<le> 0 then ok ()
      else seq_ok (reg_read E (\<lambda>d. Inr (CountLiveBranches d))) (\<lambda>n.
        if int n \<ge> g_maxBranches G
        then fail_with (Kinded ErrQuotaExceeded
               (nat_dec n @ '' live branch(es) at the --max-branches='' @ int_dec (g_maxBranches G) @ '' cap''))
        else ok ()))"

definition DefaultMaxLayerDepth :: int where "DefaultMaxLayerDepth = 100"

definition checkLayerDepth :: "engine \<Rightarrow> branch \<Rightarrow> layer list \<Rightarrow> ('rt, unit) op" where
  "checkLayerDepth G parent chain =
     (let limit = (if g_maxLayerDepth G \<le> 0 then DefaultMaxLayerDepth else g_maxLayerDepth G)
      in if int (length chain) \<ge> limit
         then fail_with (Kinded ErrQuotaExceeded (''branch '' @ quoted (b_Name parent) @ '' already stacks ''
                @ nat_dec (length chain) @ '' frozen layers (--max-layer-depth='' @ int_dec limit
                @ ''); branching from it again would exceed the limit. Branch from a branch with a shorter history, or recreate ''
                @ quoted (b_Name parent) @ '' from its source''))
         else ok ())"

definition effectiveTTL :: "engine \<Rightarrow> int \<Rightarrow> int" where
  "effectiveTTL G ttl =
     (let ttl1 = (if ttl \<le> 0 \<and> g_defaultTTL G > 0 then g_defaultTTL G else ttl)
      in if g_maxTTL G > 0 \<and> ttl1 > g_maxTTL G then g_maxTTL G else ttl1)"

definition expiresAtFor :: "engine \<Rightarrow> 'rt env \<Rightarrow> int \<Rightarrow> ('rt, string) act" where
  "expiresAtFor G E ttl = do { t \<leftarrow> tick E;
     State_Monad.return (let d = effectiveTTL G ttl in if d \<le> 0 then [] else rfc3339 (time_add (e_now E t) d)) }"

definition image :: "engine \<Rightarrow> source \<Rightarrow> string" where
  "image G src = (if src_Image src \<noteq> [] then src_Image src
     else if src_PGVersion src = [] then g_defaultImage G else ''postgres:'' @ src_PGVersion src)"

definition reg_fresh_layer :: "engine \<Rightarrow> 'rt env \<Rightarrow> string \<Rightarrow> nat \<Rightarrow> ('rt, string) op" where
  "reg_fresh_layer G E name minGen = seq_ok (reg_read E (\<lambda>d. Inr (freshBranchLayer (g_planner G) name minGen d))) (\<lambda>r.
     case r of Some v \<Rightarrow> ok v
     | None \<Rightarrow> fail_with (Msg (''pick writable volume for branch '' @ quoted name @ '': no unused name in ''
                 @ nat_dec maxLayerGenerations @ '' generations'')))"

section \<open>Specifications\<close>

definition helper_spec :: HelperSpec where
  "helper_spec = \<lparr>hs_Image = UtilityImage, hs_Cmd = [], hs_Env = [], hs_Mounts = [], hs_Network = [], hs_User = [],
     hs_Privileged = False, hs_HostDevices = [], hs_SysAdmin = False\<rparr>"

definition vol_mount :: "string \<Rightarrow> string \<Rightarrow> bool \<Rightarrow> Mount" where
  "vol_mount v target ro = \<lparr>mnt_Kind = MountVolume, mnt_Volume = v, mnt_Target = target, mnt_ReadOnly = ro\<rparr>"

definition host_mount :: "string \<Rightarrow> string \<Rightarrow> Mount" where
  "host_mount path target = \<lparr>mnt_Kind = MountHostPath, mnt_Volume = path, mnt_Target = target, mnt_ReadOnly = False\<rparr>"

definition instanceLabels :: "engine \<Rightarrow> labels \<Rightarrow> labels" where
  "instanceLabels G ls = ls @ [(LabelInstance, g_instanceID G)]"

definition branchLabels :: "engine \<Rightarrow> branch \<Rightarrow> labels" where
  "branchLabels G b = instanceLabels G [(''pgoverlay.managed'', ''true''), (''pgoverlay.role'', ''branch''),
     (''pgoverlay.branch.id'', b_ID b), (''pgoverlay.branch.name'', b_Name b)]"

definition volumeLabels :: "engine \<Rightarrow> branch \<Rightarrow> labels" where
  "volumeLabels G b = instanceLabels G [(''pgoverlay.managed'', ''true''), (''pgoverlay.branch.id'', b_ID b)]"

definition psqlCmd :: "source \<Rightarrow> string \<Rightarrow> string list" where
  "psqlCmd src sql = [''psql'', ''-v'', ''ON_ERROR_STOP=1'', ''-U'', (if src_ConnUser src = [] then ''postgres'' else src_ConnUser src),
     ''-d'', (if src_ConnDB src = [] then ''postgres'' else src_ConnDB src), ''-c'', sql]"

definition layerVolumes :: "layer list \<Rightarrow> string list" where
  "layerVolumes chain = map lay_Volume chain"

definition overlayBranchEnv :: "engine \<Rightarrow> string list" where
  "overlayBranchEnv G = (if g_lazyrwOff G then ''PGOVERLAY_LAZYRW=off'' else ''PGOVERLAY_LAZYRW=on'')
     # (if g_walRecycleOff G then [''PGOVERLAY_WAL_RECYCLE=off''] else [])"

definition installOverlayEntrypoint :: "engine \<Rightarrow> 'rt env \<Rightarrow> string \<Rightarrow> ('rt, unit) op" where
  "installOverlayEntrypoint G E rwVolume = seq_ok (RunHelper E (helper_spec\<lparr>hs_Cmd := fst (g_overlayInstall G),
     hs_Env := snd (g_overlayInstall G), hs_Mounts := [vol_mount rwVolume RWPath False]\<rparr>)) (\<lambda>_. ok ())"

text \<open>The mounts of an overlay branch: the source read-only at lower 0, the layers read-only above it, the writable volume.\<close>

definition overlay_mounts :: "Plan \<Rightarrow> Mount list" where
  "overlay_mounts plan = vol_mount (p_SourceVolume plan) (LowerMountTarget 0) True
     # map (\<lambda>(i, lv). vol_mount lv (LowerMountTarget (i + 1)) True) (enumerate 0 (p_LayerVolumes plan))
     @ [vol_mount (p_RWVolume plan) RWPath False]"

definition branch_spec :: "string \<Rightarrow> string \<Rightarrow> string list \<Rightarrow> Mount list \<Rightarrow> labels \<Rightarrow> BranchSpec" where
  "branch_spec name img envs mounts ls = \<lparr>bs_Name = ''pgoverlay-br-'' @ name, bs_Image = img, bs_Env = envs, bs_Mounts = mounts,
     bs_Entrypoint = [''/bin/sh'', RWPath @ ''/entrypoint.sh''], bs_Labels = ls, bs_Network = []\<rparr>"

definition startOverlayBranch :: "engine \<Rightarrow> 'rt env \<Rightarrow> string \<Rightarrow> Plan \<Rightarrow> string \<Rightarrow> labels \<Rightarrow> ('rt, string) op" where
  "startOverlayBranch G E name plan img ls = StartBranch E (branch_spec name img
     ([''PGDATA='' @ MergedPath, ''PGOVERLAY_LOWERS='' @ LowerEnv plan] @ overlayBranchEnv G) (overlay_mounts plan) ls)"

definition direct_env :: "string list" where "direct_env = [''PGDATA='' @ DirectDataPath]"

definition startZFSBranch :: "engine \<Rightarrow> 'rt env \<Rightarrow> branch \<Rightarrow> string \<Rightarrow> ('rt, string) op" where
  "startZFSBranch G E b img = StartBranch E (branch_spec (b_Name b) img direct_env
     [host_mount (Mountpoint (b_RWVolume b)) RWPath] (branchLabels G b))"

definition startDirectBranch :: "'rt env \<Rightarrow> string \<Rightarrow> string \<Rightarrow> string \<Rightarrow> labels \<Rightarrow> ('rt, string) op" where
  "startDirectBranch E name volume img ls = StartBranch E (branch_spec name img direct_env [vol_mount volume RWPath False] ls)"

definition direct_install :: "engine \<Rightarrow> Mount \<Rightarrow> HelperSpec" where
  "direct_install G m = helper_spec\<lparr>
     hs_Cmd := [''sh'', ''-c'', ''printf '' @ [CHR 0x27] @ ''%s'' @ [CHR 0x27] @ '' '' @ quoted ''$PGOVERLAY_ENTRYPOINT''
       @ '' > /pgoverlay/rw/entrypoint.sh && chmod 0755 /pgoverlay/rw/entrypoint.sh''],
     hs_Env := [''PGOVERLAY_ENTRYPOINT='' @ g_entrypointDirect G], hs_Mounts := [m]\<rparr>"

definition installDirectEntrypoint :: "engine \<Rightarrow> 'rt env \<Rightarrow> string \<Rightarrow> ('rt, unit) op" where
  "installDirectEntrypoint G E volume = seq_ok (RunHelper E (direct_install G (vol_mount volume RWPath False))) (\<lambda>_. ok ())"

section \<open>ZFS helpers and the backend-neutral layer operations\<close>

definition zfsSpec :: "string \<Rightarrow> HelperSpec" where
  "zfsSpec script = helper_spec\<lparr>hs_Cmd := [''sh'', ''-c'', ''apk add --quiet zfs && '' @ script],
     hs_Privileged := True, hs_HostDevices := [''/dev/zfs'']\<rparr>"

definition zfsHelperSpec :: "string list \<Rightarrow> HelperSpec" where
  "zfsHelperSpec argv = zfsSpec (shellJoin argv)"

definition zfsDestroySpec :: "string list \<Rightarrow> HelperSpec" where
  "zfsDestroySpec argv = zfsSpec (''{ '' @ shellJoin argv @ '' || ! zfs list -t all '' @ shellQuoteArg (last argv) @ '' >/dev/null 2>&1; }'')"

definition runZFS :: "'rt env \<Rightarrow> HelperSpec \<Rightarrow> ('rt, unit) op" where
  "runZFS E spec = seq_ok (RunHelper E spec) (\<lambda>_. ok ())"

definition ZFSDestroyDataset :: "string \<Rightarrow> string list" where
  "ZFSDestroyDataset dataset = [''zfs'', ''destroy'', ''-r'', dataset]"

definition ZFSUsed :: "string \<Rightarrow> string list" where
  "ZFSUsed dataset = [''zfs'', ''list'', ''-Hp'', ''-o'', ''used'', dataset]"

definition createSourceLayer :: "engine \<Rightarrow> 'rt env \<Rightarrow> string \<Rightarrow> labels \<Rightarrow> ('rt, unit) op" where
  "createSourceLayer G E name ls = (if zfs G then runZFS E (zfsHelperSpec (ZFSCreate name)) else CreateVolume E name ls)"

definition removeSourceLayer :: "engine \<Rightarrow> 'rt env \<Rightarrow> string \<Rightarrow> ('rt, unit) op" where
  "removeSourceLayer G E name = (if zfs G then runZFS E (zfsDestroySpec (ZFSDestroyDataset name)) else RemoveVolume E name)"

definition removeBranchLayer :: "engine \<Rightarrow> 'rt env \<Rightarrow> branch \<Rightarrow> ('rt, unit) op" where
  "removeBranchLayer G E b =
     (if zfs G
      then seq_ok (wrap_err ''destroy zfs clone'' (runZFS E (zfsDestroySpec (ZFSDestroyClone (g_planner G) (b_Name b))))) (\<lambda>_.
             wrap_err ''destroy zfs snapshot'' (runZFS E (zfsDestroySpec (ZFSDestroySnapshot (b_SourceVolume b) (b_Name b)))))
      else RemoveVolume E (b_RWVolume b))"

section \<open>Waiting for an instance\<close>

text \<open>
  Both waits poll once per second against a deadline, so their number of polls is bounded: the readiness wait
  starts at most 90 probes in 90 seconds, the address wait inspects at most 32 times. \<open>e_expired\<close> says that the
  deadline has passed earlier than that (slow calls), \<open>e_cancelled\<close> that the context is done.
\<close>

definition pgIsReady :: "string list" where
  "pgIsReady = [''pg_isready'', ''-U'', ''postgres'', ''-h'', ''/var/run/postgresql'']"

definition ctxErr :: engine_error where "ctxErr = Msg ''context canceled''"

definition wait_timeout :: "'rt env \<Rightarrow> string \<Rightarrow> engine_error option \<Rightarrow> ('rt, unit) op" where
  "wait_timeout E cid lastErr = do { dg \<leftarrow> DiagnoseContainer E cid;
     case dg of
       Some (reason, fatal) \<Rightarrow>
         if reason \<noteq> [] then fail_with (case lastErr of Some e \<Rightarrow> Suffixed e (''; '' @ reason) | None \<Rightarrow> Msg (''%!w(<nil>); '' @ reason))
         else (case lastErr of None \<Rightarrow> ok () | Some e \<Rightarrow> fail_with e)
     | None \<Rightarrow> (case lastErr of None \<Rightarrow> ok () | Some e \<Rightarrow> fail_with e) }"

fun wait_loop :: "nat \<Rightarrow> 'rt env \<Rightarrow> string \<Rightarrow> engine_error option \<Rightarrow> ('rt, unit) op" where
  "wait_loop 0 E cid lastErr = wait_timeout E cid lastErr"
| "wait_loop (Suc n) E cid lastErr = do { t \<leftarrow> tick E;
     if e_expired E t then wait_timeout E cid lastErr
     else attempt (Exec E cid pgIsReady) (\<lambda>err. do { dg \<leftarrow> DiagnoseContainer E cid;
       case dg of
         Some (reason, True) \<Rightarrow> fail_with (Suffixed (Wrap (reason @ '' (last readiness probe'') err) '')'')
       | _ \<Rightarrow> do { t' \<leftarrow> tick E; if e_cancelled E t' then fail_with ctxErr else wait_loop n E cid (Some err) } }) ok }"

definition waitReady :: "'rt env \<Rightarrow> string \<Rightarrow> ('rt, unit) op" where
  "waitReady E cid = wait_loop 90 E cid None"

fun inspect_loop :: "nat \<Rightarrow> 'rt env \<Rightarrow> string \<Rightarrow> ('rt, ContainerInfo) op" where
  "inspect_loop n E cid = seq_ok (Inspect E cid) (\<lambda>info.
     if ci_Host info \<noteq> [] then ok info
     else do { t \<leftarrow> tick E;
       if e_expired E t then fail_with (Msg (''instance '' @ cid @ '' reported no address within 30s''))
       else do { t' \<leftarrow> tick E;
         if e_cancelled E t' then fail_with ctxErr
         else (case n of 0 \<Rightarrow> fail_with (Msg (''instance '' @ cid @ '' reported no address within 30s''))
               | Suc m \<Rightarrow> inspect_loop m E cid) } })"

declare inspect_loop.simps [simp del]

definition inspectAddr :: "'rt env \<Rightarrow> string \<Rightarrow> ('rt, ContainerInfo) op" where
  "inspectAddr E cid = inspect_loop 31 E cid"

section \<open>Copy-on-write mode\<close>

definition is_space :: "char \<Rightarrow> bool" where
  "is_space c \<longleftrightarrow> c \<in> {CHR '' '', CHR 0x09, CHR 0x0A, CHR 0x0B, CHR 0x0C, CHR 0x0D}"

definition TrimSpace :: "string \<Rightarrow> string" where
  "TrimSpace s = rev (dropWhile is_space (rev (dropWhile is_space s)))"

definition CowModeUnknown :: string where "CowModeUnknown = ''unknown''"

definition cowModeCmd :: "string list" where
  "cowModeCmd = [''sh'', ''-c'', ''cat '' @ RWPath @ ''/cow-mode 2>/dev/null || echo legacy'']"

definition parse_cow_mode :: "string \<Rightarrow> (string, string \<times> string) result" where
  "parse_cow_mode out =
     (let (l1, rest) = (case cut (CHR 0x0A) (TrimSpace out) of None \<Rightarrow> (TrimSpace out, []) | Some p \<Rightarrow> p);
          m = TrimSpace l1
      in if m \<in> {''lazyrw'', ''eager'', ''off''} then Inr (m, TrimSpace rest)
         else if m = ''legacy'' then Inr (''eager'', ''the branch'' @ [CHR 0x27] @ ''s entrypoint predates lazyrw; reset the branch to install the current one'')
         else Inl (''unexpected '' @ RWPath @ ''/cow-mode content '' @ quoted out))"

definition readCowMode :: "'rt env \<Rightarrow> string \<Rightarrow> ('rt, string) act" where
  "readCowMode E cid = do { r \<leftarrow> ExecOutput E cid cowModeCmd;
     State_Monad.return (case r of Inl e \<Rightarrow> CowModeUnknown
       | Inr out \<Rightarrow> (case parse_cow_mode out of Inl e \<Rightarrow> CowModeUnknown | Inr (m, detail) \<Rightarrow> m)) }"

definition cowModes_set :: "string \<Rightarrow> string \<Rightarrow> ('rt, unit) act" where
  "cowModes_set eid mode = State (\<lambda>w. ((), w\<lparr>w_cowModes := AList.update eid mode (w_cowModes w)\<rparr>))"

definition cowModes_forget :: "string \<Rightarrow> ('rt, unit) act" where
  "cowModes_forget eid = State (\<lambda>w. ((), w\<lparr>w_cowModes := AList.delete eid (w_cowModes w)\<rparr>))"

definition observeCowMode :: "engine \<Rightarrow> 'rt env \<Rightarrow> branch \<Rightarrow> string \<Rightarrow> ('rt, unit) act" where
  "observeCowMode G E b cid = (if zfs G \<or> csi G then State_Monad.return ()
     else do { m \<leftarrow> readCowMode E cid; cowModes_set (b_ID b) m })"

section \<open>Masking and credentials\<close>

fun run_masks :: "'rt env \<Rightarrow> string \<Rightarrow> source \<Rightarrow> (string \<times> string) list \<Rightarrow> ('rt, unit) op" where
  "run_masks E cid src [] = ok ()"
| "run_masks E cid src ((name, sql) # scripts) =
     attempt (Exec E cid (psqlCmd src sql))
       (\<lambda>e. fail_with (Marked ErrMaskingFailed (Wrap (''masking script '' @ quoted name) e)))
       (\<lambda>_. run_masks E cid src scripts)"

definition applyMasking :: "'rt env \<Rightarrow> string \<Rightarrow> source \<Rightarrow> ('rt, unit) op" where
  "applyMasking E cid src = seq_ok (reg_read E (\<lambda>d. Inr (GetMaskScripts (src_ID src) d))) (run_masks E cid src)"

definition alterRole :: "source \<Rightarrow> string \<Rightarrow> string" where
  "alterRole src pw = ''ALTER ROLE '' @ quoted (replace_all (if src_ConnUser src = [] then ''postgres'' else src_ConnUser src)
     [CHR 0x22] [CHR 0x22, CHR 0x22]) @ '' WITH PASSWORD '' @ [CHR 0x27] @ pw @ [CHR 0x27]"

definition rotateBranchCredentials :: "engine \<Rightarrow> 'rt env \<Rightarrow> string \<Rightarrow> branch \<Rightarrow> source \<Rightarrow> ('rt, unit) op" where
  "rotateBranchCredentials G E cid b src =
     (if \<not> g_rotateCredentials G
      then (if b_Password b \<noteq> [] \<or> b_PasswordUnavailable b
            then wrap_err (''clear stale password for branch '' @ quoted (b_Name b)) (reg_set_password E (b_ID b) [])
            else ok ())
      else do { t \<leftarrow> tick E;
        case e_rand E t of None \<Rightarrow> fail_with (Wrap ''rotate credentials'' (Msg ''random source failed''))
        | Some buf \<Rightarrow>
            (let pw = hex_encode buf
             in attempt (Exec E cid (psqlCmd src (alterRole src pw)))
                  (\<lambda>e. fail_with (Wrap (''rotate credentials for branch '' @ quoted (b_Name b)) (redactSecret (e_regText E) e pw)))
                  (\<lambda>_. wrap_err (''persist rotated password for branch '' @ quoted (b_Name b)) (reg_set_password E (b_ID b) pw))) })"

section \<open>Readiness tail and restarts\<close>

definition awaitAndMark :: "engine \<Rightarrow> 'rt env \<Rightarrow> branch \<Rightarrow> source \<Rightarrow> string \<Rightarrow> ('rt, unit) op" where
  "awaitAndMark G E b src cid =
     seq_ok (reg_set_container E (b_ID b) cid) (\<lambda>_.
     seq_ok (wrap_err ''instance never became ready'' (waitReady E cid)) (\<lambda>_. do { _ \<leftarrow> observeCowMode G E b cid;
     seq_ok (applyMasking E cid src) (\<lambda>_.
     seq_ok (rotateBranchCredentials G E cid b src) (\<lambda>_.
     seq_ok (inspectAddr E cid) (\<lambda>info.
     reg_mark_ready E (b_ID b) cid (ci_Host info) (ci_Port info)))) }))"

definition startOnOwnData :: "engine \<Rightarrow> 'rt env \<Rightarrow> branch \<Rightarrow> source \<Rightarrow> layer list \<Rightarrow> ('rt, string) op" where
  "startOnOwnData G E b src chain =
     (if zfs G then startZFSBranch G E b (image G src)
      else if csi G then startDirectBranch E (b_Name b) (b_RWVolume b) (image G src) (branchLabels G b)
      else startOverlayBranch G E (b_Name b) (PlanBranch (b_RWVolume b) (b_SourceVolume b) (layerVolumes chain))
             (image G src) (branchLabels G b))"

definition restartOnOwnData :: "engine \<Rightarrow> 'rt env \<Rightarrow> branch \<Rightarrow> source \<Rightarrow> layer list \<Rightarrow> ('rt, string \<times> ContainerInfo) op" where
  "restartOnOwnData G E b src chain =
     attempt (startOnOwnData G E b src chain) (\<lambda>e. fail_with (Wrap ''start instance'' e)) (\<lambda>cid.
       do { _ \<leftarrow> logCompensationErr (reg_set_container E (b_ID b) cid);
       attempt (waitReady E cid)
         (\<lambda>e. do { _ \<leftarrow> logCompensationErr (StopRemove E cid); fail_with (Wrap ''instance never became ready'' e) })
         (\<lambda>_. do { _ \<leftarrow> observeCowMode G E b cid;
           attempt (inspectAddr E cid)
             (\<lambda>e. do { _ \<leftarrow> logCompensationErr (StopRemove E cid); fail_with e })
             (\<lambda>info. ok (cid, info)) }) })"

definition restartAndMarkReady :: "engine \<Rightarrow> 'rt env \<Rightarrow> branch \<Rightarrow> source \<Rightarrow> layer list \<Rightarrow> ('rt, unit) op" where
  "restartAndMarkReady G E b src chain =
     seq_ok (restartOnOwnData G E b src chain) (\<lambda>(cid, info).
       attempt (reg_mark_ready E (b_ID b) cid (ci_Host info) (ci_Port info))
         (\<lambda>e. do { _ \<leftarrow> logCompensationErr (StopRemove E cid); fail_with (Wrap ''mark ready'' e) }) ok)"

end
