(* ===== verification/Sagas.thy ===== *)
theory Sagas
  imports Engine
begin

text \<open>
  The engine's sagas (\<^verbatim>\<open>saga.go\<close>, \<^verbatim>\<open>freeze.go\<close>, \<^verbatim>\<open>csi.go\<close>, \<^verbatim>\<open>recover.go\<close>, and the source removal and TTL pass of
  \<^verbatim>\<open>engine.go\<close>): every driver call, registry call, compensation and early return, in the order of the code.
  Calls the code detaches from the request context differ from the others only in how they may fail, which
  the driver decides.
\<close>

section \<open>Provisioning\<close>

text \<open>The overlay part of \<open>provision\<close>.\<close>

definition provisionOverlay :: "engine \<Rightarrow> 'rt env \<Rightarrow> branch \<Rightarrow> source \<Rightarrow> ('rt, unit) op" where
  "provisionOverlay G E b src =
     seq_ok (reg_read E (LayerChain (b_ID b))) (\<lambda>chain.
       let plan = PlanBranch (b_RWVolume b) (b_SourceVolume b) (layerVolumes chain);
           undoVolume = logCompensationErr (RemoveVolume E (p_RWVolume plan))
       in attempt (CreateVolume E (p_RWVolume plan) (volumeLabels G b)) (\<lambda>e. unwind [] (Wrap ''create rw volume'' e)) (\<lambda>_.
          attempt (installOverlayEntrypoint G E (p_RWVolume plan)) (\<lambda>e. unwind [undoVolume] (Wrap ''install entrypoint'' e)) (\<lambda>_.
          attempt (startOverlayBranch G E (b_Name b) plan (image G src) (branchLabels G b))
            (\<lambda>e. unwind [undoVolume] (Wrap ''start instance'' e)) (\<lambda>cid.
          attempt (awaitAndMark G E b src cid) (unwind [undoVolume, logCompensationErr (StopRemove E cid)]) ok))))"

definition provisionZFS :: "engine \<Rightarrow> 'rt env \<Rightarrow> branch \<Rightarrow> source \<Rightarrow> ('rt, unit) op" where
  "provisionZFS G E b src =
     (let undoSnapshot = logCompensationErr (runZFS E (zfsDestroySpec (ZFSDestroySnapshot (b_SourceVolume b) (b_Name b))));
          undoClone = logCompensationErr (runZFS E (zfsDestroySpec (ZFSDestroyClone (g_planner G) (b_Name b))))
      in attempt (runZFS E (zfsHelperSpec (ZFSSnapshot (b_SourceVolume b) (b_Name b)))) (\<lambda>e. unwind [] (Wrap ''zfs snapshot'' e)) (\<lambda>_.
         attempt (runZFS E (zfsHelperSpec (ZFSClone (g_planner G) (b_SourceVolume b) (b_Name b))))
           (\<lambda>e. unwind [undoSnapshot] (Wrap ''zfs clone'' e)) (\<lambda>_.
         attempt (RunHelper E (direct_install G (host_mount (Mountpoint (b_RWVolume b)) RWPath)))
           (\<lambda>e. unwind [undoSnapshot, undoClone] (Wrap ''install entrypoint'' e)) (\<lambda>_.
         attempt (startZFSBranch G E b (image G src)) (\<lambda>e. unwind [undoSnapshot, undoClone] (Wrap ''start instance'' e)) (\<lambda>cid.
         attempt (awaitAndMark G E b src cid) (unwind [undoSnapshot, undoClone, logCompensationErr (StopRemove E cid)]) ok)))))"

definition csiQuiesceTarget :: "'rt env \<Rightarrow> branch \<Rightarrow> ('rt, branch option) op" where
  "csiQuiesceTarget E b =
     (if b_ParentBranchName b = [] then ok None
      else attempt (reg_branch_by_name E (b_ParentBranchName b))
        (\<lambda>e. if err_not_found e then ok None else fail_with e)
        (\<lambda>p. if b_RWVolume p \<noteq> b_SourceVolume b \<or> b_ContainerID p = [] then ok None
             else if b_State p \<noteq> BranchReady
             then fail_with (Msg (''parent branch '' @ quoted (b_Name p) @ '' is '' @ branch_state_str (b_State p) @ '', not ready''))
             else ok (Some p)))"

definition restartCSIBranch :: "engine \<Rightarrow> 'rt env \<Rightarrow> branch \<Rightarrow> source \<Rightarrow> engine_error option \<Rightarrow> ('rt, unit) act" where
  "restartCSIBranch G E b src cause = do { r \<leftarrow> restartAndMarkReady G E b src [];
     case r of Inr _ \<Rightarrow> State_Monad.return ()
     | Inl err \<Rightarrow> logCompensationErr (reg_transition E (b_ID b) BranchFailed
         (case cause of None \<Rightarrow> ''restart failed: '' @ err_text (e_regText E) err
          | Some c \<Rightarrow> ''clone failed ('' @ err_text (e_regText E) c @ ''); restart failed: '' @ err_text (e_regText E) err)) }"

text \<open>Quiescing the parent before its volume is cloned: journal, CHECKPOINT, stop.\<close>

definition quiesceParent :: "'rt env \<Rightarrow> branch \<Rightarrow> source \<Rightarrow> string \<Rightarrow> string \<Rightarrow> string \<Rightarrow> ('rt, unit) op" where
  "quiesceParent E parent src startReason abortReason stopReason =
     seq_ok (reg_transition E (b_ID parent) BranchResetting startReason) (\<lambda>_.
     attempt (Exec E (b_ContainerID parent) (psqlCmd src ''CHECKPOINT''))
       (\<lambda>e. do { _ \<leftarrow> logCompensationErr (reg_transition E (b_ID parent) BranchReady abortReason);
                 fail_with (Wrap (''checkpoint parent '' @ quoted (b_Name parent)) e) }) (\<lambda>_.
     attempt (StopRemove E (b_ContainerID parent))
       (\<lambda>e. do { _ \<leftarrow> logCompensationErr (reg_transition E (b_ID parent) BranchFailed (stopReason @ err_text (e_regText E) e));
                 fail_with (Wrap (''stop parent '' @ quoted (b_Name parent)) e) }) ok))"

definition csiFail :: "engine \<Rightarrow> 'rt env \<Rightarrow> branch option \<Rightarrow> source \<Rightarrow> ('rt, unit) act list \<Rightarrow> engine_error \<Rightarrow> ('rt, 'a) op" where
  "csiFail G E parent src undo e = do { _ \<leftarrow> run_all (rev undo);
     _ \<leftarrow> (case parent of None \<Rightarrow> State_Monad.return () | Some p \<Rightarrow> restartCSIBranch G E p src (Some e));
     fail_with e }"

definition provisionCSI :: "engine \<Rightarrow> 'rt env \<Rightarrow> branch \<Rightarrow> source \<Rightarrow> ('rt, unit) op" where
  "provisionCSI G E b src =
     seq_ok (csiQuiesceTarget E b) (\<lambda>parent.
     seq_ok (case parent of None \<Rightarrow> ok ()
       | Some p \<Rightarrow> quiesceParent E p src (''stop for clone to '' @ b_Name b)
           (''clone to '' @ b_Name b @ '' aborted: checkpoint failed'') (''stop for clone to '' @ b_Name b @ '' failed: '')) (\<lambda>_.
     let undoClone = logCompensationErr (RemoveVolume E (b_RWVolume b))
     in attempt (CloneVolume E (b_SourceVolume b) (b_RWVolume b) (volumeLabels G b))
          (\<lambda>e. csiFail G E parent src [] (Wrap ''clone volume'' e)) (\<lambda>_.
        attempt (installDirectEntrypoint G E (b_RWVolume b))
          (\<lambda>e. csiFail G E parent src [undoClone] (Wrap ''install entrypoint'' e)) (\<lambda>_.
        attempt (case parent of None \<Rightarrow> ok () | Some p \<Rightarrow> restartAndMarkReady G E p src [])
          (\<lambda>e. csiFail G E parent src [undoClone]
             (Wrap (''restart parent '' @ quoted (case parent of None \<Rightarrow> [] | Some p \<Rightarrow> b_Name p)) e)) (\<lambda>_.
        attempt (startDirectBranch E (b_Name b) (b_RWVolume b) (image G src) (branchLabels G b))
          (\<lambda>e. csiFail G E None src [undoClone] (Wrap ''start instance'' e)) (\<lambda>cid.
        attempt (awaitAndMark G E b src cid)
          (csiFail G E None src [undoClone, logCompensationErr (StopRemove E cid)]) ok))))))"

definition provision :: "engine \<Rightarrow> 'rt env \<Rightarrow> branch \<Rightarrow> source \<Rightarrow> ('rt, unit) op" where
  "provision G E b src =
     (if zfs G then provisionZFS G E b src
      else if csi G then provisionCSI G E b src
      else provisionOverlay G E b src)"

section \<open>Create\<close>

text \<open>A branch record with the fields the create paths set; the rest are Go's zero values.\<close>

definition newBranch :: "string \<Rightarrow> string \<Rightarrow> string \<Rightarrow> string \<Rightarrow> string \<Rightarrow> string \<Rightarrow> branch" where
  "newBranch name sourceID rw sourceVolume expiresAt parentName =
     \<lparr>b_ID = [], b_Name = name, b_SourceID = sourceID, b_ContainerID = [], b_RWVolume = rw, b_SourceVolume = sourceVolume,
      b_ExpiresAt = expiresAt, b_Host = [], b_BaseLayerID = [], b_ParentBranchName = parentName, b_Password = [], b_Port = 0,
      b_State = BranchCreating, b_CreatedAt = [], b_PasswordUnavailable = False\<rparr>"

definition checkName :: "string \<Rightarrow> ('rt, unit) op" where
  "checkName name = (case validateBranchName name of None \<Rightarrow> ok () | Some (kind, n) \<Rightarrow> fail_with (invalidNameError kind n))"

definition CreateBranch :: "engine \<Rightarrow> 'rt env \<Rightarrow> string \<Rightarrow> string \<Rightarrow> int \<Rightarrow> ('rt, branch) op" where
  "CreateBranch G E name sourceName ttl =
     seq_ok (checkName name) (\<lambda>_.
     seq_ok (checkQuota G E) (\<lambda>_.
     seq_ok (reg_read E (GetSourceByName sourceName)) (\<lambda>src.
     if src_State src \<noteq> SourceReady
     then fail_with (Msg (''source '' @ quoted sourceName @ '' is '' @ source_state_str (src_State src) @ '', not ready''))
     else seq_ok (reg_fresh_layer G E name 1) (\<lambda>rw. do { expiresAt \<leftarrow> expiresAtFor G E ttl;
       seq_ok (reg_create_branch E (newBranch name (src_ID src) rw (src_Volume src) expiresAt [])) (\<lambda>b.
       attempt (provision G E b src)
         (\<lambda>e. do { _ \<leftarrow> logCompensationErr (reg_transition E (b_ID b) BranchFailed (failureReason (e_regText E) e)); fail_with e })
         (\<lambda>_. reg_branch_by_name E name)) }))))"

section \<open>Reset and recover\<close>

definition checkCSIChildBase :: "engine \<Rightarrow> 'rt env \<Rightarrow> branch \<Rightarrow> ('rt, unit) op" where
  "checkCSIChildBase G E b =
     (let gone = Kinded ErrBaseGone (''branch '' @ quoted (b_Name b) @ '' was cloned from parent '' @ quoted (b_ParentBranchName b)
            @ '', which has been destroyed: its base volume '' @ b_SourceVolume b @ '' is gone, so it can no longer be reset or diffed (the branch itself still works; destroy it and branch again to start over)'')
      in if \<not> csi G \<or> b_ParentBranchName b = [] then ok ()
         else attempt (reg_branch_by_name E (b_ParentBranchName b))
           (\<lambda>e. if \<not> err_not_found e then fail_with e else fail_with gone)
           (\<lambda>p. if b_RWVolume p \<noteq> b_SourceVolume b \<or> b_CreatedAt p > b_CreatedAt b then fail_with gone else ok ()))"

definition checkChildCommitted :: "engine \<Rightarrow> branch \<Rightarrow> ('rt, unit) op" where
  "checkChildCommitted G b =
     (if zfs G \<or> csi G \<or> b_ParentBranchName b = [] \<or> b_BaseLayerID b \<noteq> [] then ok ()
      else fail_with (Kinded ErrNotRecoverable (''branch '' @ quoted (b_Name b) @ '' was never created from '' @ quoted (b_ParentBranchName b)
        @ '': the freeze that gives it '' @ quoted (b_ParentBranchName b) @ [CHR 0x27] @ ''s data did not complete, so it has no base to reset or restart on; destroy it and create it again (pgb branch create ''
        @ b_Name b @ '' --from-branch '' @ b_ParentBranchName b @ '')'')))"

definition childrenError :: "string \<Rightarrow> nat \<Rightarrow> engine_error" where
  "childrenError name n = Msg (''branch '' @ quoted name @ '' has '' @ nat_dec n @ '' child branch(es) cloned from it; destroy them first'')"

definition checkChildrenAllowReprovision :: "engine \<Rightarrow> 'rt env \<Rightarrow> branch \<Rightarrow> ('rt, unit) op" where
  "checkChildrenAllowReprovision G E b =
     seq_ok (if zfs G then reg_read E (\<lambda>d. Inr (CountLiveBranchesByVolume (b_RWVolume b) d)) else ok 0) (\<lambda>n.
     if n > 0 then fail_with (childrenError (b_Name b) n)
     else seq_ok (reg_read E (\<lambda>d. Inr (InFlightChildren (b_Name b) d))) (\<lambda>kids.
       case kids of [] \<Rightarrow> ok ()
       | k # _ \<Rightarrow> fail_with (Msg (''branch '' @ quoted (b_Name b) @ '' has an in-flight child branch '' @ quoted k
           @ '' being created from it; wait for it to finish or destroy it first''))))"

definition ResetBranch :: "engine \<Rightarrow> 'rt env \<Rightarrow> string \<Rightarrow> ('rt, branch) op" where
  "ResetBranch G E name =
     seq_ok (reg_branch_by_name E name) (\<lambda>b.
     seq_ok (wrap_err (''reset '' @ quoted name) (checkCSIChildBase G E b)) (\<lambda>_.
     seq_ok (checkChildCommitted G b) (\<lambda>_.
     seq_ok (reg_read E (GetSourceByID (b_SourceID b))) (\<lambda>src.
     seq_ok (checkChildrenAllowReprovision G E b) (\<lambda>_.
     seq_ok (reg_transition E (b_ID b) BranchResetting
       (if b_State b = BranchFailed then ''reset requested (from failed)'' else ''reset requested'')) (\<lambda>_.
     let fail = (\<lambda>e. do { _ \<leftarrow> logCompensationErr (reg_transition E (b_ID b) BranchFailed (failureReason (e_regText E) e)); fail_with e })
     in attempt (if b_ContainerID b \<noteq> [] then StopRemove E (b_ContainerID b) else ok ()) (\<lambda>e. fail (Wrap ''remove container'' e)) (\<lambda>_.
        attempt (removeBranchLayer G E b) (\<lambda>e. fail (Wrap ''remove branch layer'' e)) (\<lambda>_.
        attempt (provision G E b src) (\<lambda>e. fail (Wrap (''reset '' @ quoted name) e)) (\<lambda>_.
        reg_branch_by_name E name)))))))))"

definition checkBranchData :: "engine \<Rightarrow> 'rt env \<Rightarrow> branch \<Rightarrow> layer list \<Rightarrow> ('rt, unit) op" where
  "checkBranchData G E b chain =
     (if zfs G
      then attempt (runZFS E (zfsHelperSpec (ZFSUsed (b_RWVolume b))))
        (\<lambda>e. fail_with (Kinded ErrNotRecoverable (''branch '' @ quoted (b_Name b) @ '': its writable dataset '' @ b_RWVolume b
           @ '' is not available ('' @ err_text (e_regText E) e @ ''); reset or destroy it''))) ok
      else seq_ok (wrap_err ''list volumes'' (ListManagedVolumes E (g_instanceID G))) (\<lambda>vols.
        let need = b_RWVolume b # (if csi G then [] else layerVolumes chain @ [b_SourceVolume b]);
            have_vols = map vi_Name (filter (\<lambda>v. \<not> vi_Leftover v) vols);
            missing = filter (\<lambda>v. v \<notin> set have_vols) need
        in if missing = [] then ok ()
           else fail_with (Kinded ErrNotRecoverable (''branch '' @ quoted (b_Name b) @ '': volume(s) '' @ join_with '', '' missing
             @ '' not found among this instance'' @ [CHR 0x27] @ ''s managed volumes; reset or destroy it''))))"

definition RecoverBranch :: "engine \<Rightarrow> 'rt env \<Rightarrow> string \<Rightarrow> ('rt, branch) op" where
  "RecoverBranch G E name =
     seq_ok (reg_branch_by_name E name) (\<lambda>b.
     if b_State b \<noteq> BranchFailed
     then fail_with (Kinded ErrNotRecoverable (''branch '' @ quoted name @ '' is '' @ branch_state_str (b_State b)
            @ ''; only a failed branch can be recovered''))
     else
     seq_ok (checkChildCommitted G b) (\<lambda>_.
     seq_ok (reg_read E (GetSourceByID (b_SourceID b))) (\<lambda>src.
     seq_ok (checkChildrenAllowReprovision G E b) (\<lambda>_.
     seq_ok (reg_read E (LayerChain (b_ID b))) (\<lambda>chain.
     seq_ok (checkBranchData G E b chain) (\<lambda>_.
     seq_ok (reg_transition E (b_ID b) BranchResetting ''recover requested: restart on existing data'') (\<lambda>_.
     let fail = (\<lambda>e. do { _ \<leftarrow> logCompensationErr (reg_transition E (b_ID b) BranchFailed (''recover failed: '' @ failureReason (e_regText E) e)); fail_with e })
     in attempt (if b_ContainerID b \<noteq> [] then StopRemove E (b_ContainerID b) else ok ()) (\<lambda>e. fail (Wrap ''remove old container'' e)) (\<lambda>_.
        attempt (if \<not> zfs G \<and> \<not> csi G then installOverlayEntrypoint G E (b_RWVolume b) else ok ())
          (\<lambda>e. fail (Wrap ''install entrypoint'' e)) (\<lambda>_.
        attempt (restartAndMarkReady G E b src chain) fail (\<lambda>_.
        reg_branch_by_name E name))))))))))"

section \<open>Destroy\<close>

definition teardownBranch :: "engine \<Rightarrow> 'rt env \<Rightarrow> branch \<Rightarrow> bool \<Rightarrow> ('rt, unit) op" where
  "teardownBranch G E b guarded =
     seq_ok (if b_ContainerID b \<noteq> [] then wrap_err ''remove container'' (StopRemove E (b_ContainerID b)) else ok ()) (\<lambda>_.
     seq_ok (if guarded then reg_read E (\<lambda>d. Inr (CountLiveBranchesReferencingRW (b_Name b) (b_RWVolume b) d)) else ok 0) (\<lambda>referenced.
     if referenced > 0 then ok ()
     else wrap_err ''remove branch layer'' (removeBranchLayer G E b)))"

text \<open>One layer: when no live branch references it, its volume is removed, then its row. True when both are gone.\<close>

definition gcLayer :: "engine \<Rightarrow> 'rt env \<Rightarrow> layer \<Rightarrow> ('rt, bool) op" where
  "gcLayer G E l = seq_ok (reg_read E (\<lambda>d. Inr (CountBranchesReferencingLayer (lay_ID l) d))) (\<lambda>n.
     if n > 0 then ok False
     else seq_ok (removeSourceLayer G E (lay_Volume l)) (\<lambda>_. seq_ok (reg_delete_layer E (lay_ID l)) (\<lambda>_. ok True)))"

fun gcLayers :: "engine \<Rightarrow> 'rt env \<Rightarrow> layer list \<Rightarrow> ('rt, unit) act" where
  "gcLayers G E [] = State_Monad.return ()"
| "gcLayers G E (l # chain) = do { r \<leftarrow> gcLayer G E l;
     case r of Inr True \<Rightarrow> gcLayers G E chain | _ \<Rightarrow> State_Monad.return () }"

definition gcSourceVolume :: "engine \<Rightarrow> 'rt env \<Rightarrow> string \<Rightarrow> string \<Rightarrow> ('rt, unit) act" where
  "gcSourceVolume G E sourceID volume =
     (if volume = [] then State_Monad.return ()
      else do { s \<leftarrow> reg_read E (GetSourceByID sourceID);
        if (case s of Inr src \<Rightarrow> src_Volume src = volume | Inl e \<Rightarrow> False) then State_Monad.return ()
        else do { _ \<leftarrow> seq_ok (reg_read E (\<lambda>d. Inr (CountLiveBranchesByVolume volume d))) (\<lambda>n.
            if n > 0 then ok ()
            else seq_ok (reg_read E (\<lambda>d. Inr (CountLiveBranchesByRWVolume volume d))) (\<lambda>n'.
              if n' > 0 then ok () else removeSourceLayer G E volume));
          State_Monad.return () } })"

text \<open>The state the branch is moved to before its teardown: a wedged branch is forced to failed first.\<close>

definition enterDestroying :: "'rt env \<Rightarrow> branch \<Rightarrow> ('rt, unit) op" where
  "enterDestroying E b =
     (let destroying = reg_transition E (b_ID b) BranchDestroying ''destroy requested''
      in case b_State b of
           BranchCreating \<Rightarrow> seq_ok (reg_transition E (b_ID b) BranchFailed
             (''destroy requested: forcing stuck '' @ branch_state_str (b_State b))) (\<lambda>_. destroying)
         | BranchResetting \<Rightarrow> seq_ok (reg_transition E (b_ID b) BranchFailed
             (''destroy requested: forcing stuck '' @ branch_state_str (b_State b))) (\<lambda>_. destroying)
         | BranchReady \<Rightarrow> destroying
         | BranchFailed \<Rightarrow> destroying
         | BranchDestroying \<Rightarrow> do { _ \<leftarrow> logCompensationErr (reg_note E (b_ID b) ''destroy retried''); ok () }
         | BranchDestroyed \<Rightarrow> ok ())"

definition DestroyBranch :: "engine \<Rightarrow> 'rt env \<Rightarrow> string \<Rightarrow> ('rt, unit) op" where
  "DestroyBranch G E name =
     seq_ok (reg_branch_by_name E name) (\<lambda>b.
     seq_ok (if zfs G then reg_read E (\<lambda>d. Inr (CountLiveBranchesByVolume (b_RWVolume b) d)) else ok 0) (\<lambda>n.
     if n > 0 then fail_with (childrenError name n)
     else seq_ok (reg_read E (LayerChain (b_ID b))) (\<lambda>chain.
     seq_ok (enterDestroying E b) (\<lambda>_.
     attempt (teardownBranch G E b (b_State b \<noteq> BranchReady \<and> b_State b \<noteq> BranchFailed))
       (\<lambda>e. let reason = failureReason (e_regText E) e
            in do { _ \<leftarrow> logCompensationErr (reg_note E (b_ID b) (''destroy failed, destroy again to retry: '' @ reason));
              fail_with (DestroyError (b_Name b) reason (e_inUse E e) (e_unavailable E e) e) }) (\<lambda>_.
     attempt (reg_transition E (b_ID b) BranchDestroyed [])
       (\<lambda>e. if err_illegal_transition e
            then do { c \<leftarrow> reg_branch_by_id E (b_ID b);
              case c of Inr cur \<Rightarrow> if b_State cur = BranchDestroyed then ok () else fail_with e | Inl _ \<Rightarrow> fail_with e }
            else fail_with e) (\<lambda>_.
     do { _ \<leftarrow> cowModes_forget (b_ID b); _ \<leftarrow> gcLayers G E chain; _ \<leftarrow> gcSourceVolume G E (b_SourceID b) (b_SourceVolume b); ok () }))))))"

section \<open>Branch from branch\<close>

definition restoreParent :: "engine \<Rightarrow> 'rt env \<Rightarrow> branch \<Rightarrow> source \<Rightarrow> layer list \<Rightarrow> engine_error \<Rightarrow> ('rt, unit) act" where
  "restoreParent G E parent src chain cause = do { r \<leftarrow> restartAndMarkReady G E parent src chain;
     case r of Inr _ \<Rightarrow> State_Monad.return ()
     | Inl err \<Rightarrow> logCompensationErr (reg_transition E (b_ID parent) BranchFailed
         (''freeze failed ('' @ err_text (e_regText E) cause @ ''); parent restore failed: '' @ err_text (e_regText E) err)) }"

text \<open>The \<open>fail\<close> closure of the freeze: unwind, then bring the parent back on its original volume.\<close>

definition freezeFail :: "engine \<Rightarrow> 'rt env \<Rightarrow> branch \<Rightarrow> source \<Rightarrow> layer list \<Rightarrow> ('rt, unit) act list \<Rightarrow> engine_error \<Rightarrow> ('rt, 'a) op" where
  "freezeFail G E parent src chain undo e =
     do { _ \<leftarrow> run_all (rev undo); _ \<leftarrow> restoreParent G E parent src chain e; fail_with e }"

text \<open>Step 6 of the freeze: the registry commit.\<close>

definition reg_commit_freeze ::
  "'rt env \<Rightarrow> string \<Rightarrow> string \<Rightarrow> string \<Rightarrow> string \<Rightarrow> string \<Rightarrow> ContainerInfo \<Rightarrow> string \<Rightarrow> ('rt, layer) op" where
  "reg_commit_freeze E parentID childID layerVolume newRW cid info reason =
     reg_write E (\<lambda>t d. CommitFreezeCtx (e_actor E) (stamp E t) (e_newID E t d) parentID childID layerVolume newRW cid
       (ci_Host info) (ci_Port info) reason d)"

text \<open>Steps 5 to 7: the child over the frozen chain, the commit, the child's transition to ready.\<close>

definition freezeChild ::
  "engine \<Rightarrow> 'rt env \<Rightarrow> branch \<Rightarrow> branch \<Rightarrow> source \<Rightarrow> Plan \<Rightarrow> string \<Rightarrow> string \<Rightarrow> ('rt, unit) act list
     \<Rightarrow> (('rt, unit) act list \<Rightarrow> engine_error \<Rightarrow> ('rt, unit) op) \<Rightarrow> ('rt, unit) op" where
  "freezeChild G E child parent src childPlan newRW parentCID undo fail =
     (let undo1 = undo @ [logCompensationErr (RemoveVolume E (p_RWVolume childPlan))]
      in attempt (CreateVolume E (p_RWVolume childPlan) (volumeLabels G child)) (\<lambda>e. fail undo (Wrap ''create rw volume'' e)) (\<lambda>_.
         attempt (installOverlayEntrypoint G E (p_RWVolume childPlan)) (\<lambda>e. fail undo1 (Wrap ''install entrypoint'' e)) (\<lambda>_.
         attempt (startOverlayBranch G E (b_Name child) childPlan (image G src) (branchLabels G child))
           (\<lambda>e. fail undo1 (Wrap ''start instance'' e)) (\<lambda>childCID.
         let undo2 = undo1 @ [logCompensationErr (StopRemove E childCID)]
         in do { _ \<leftarrow> logCompensationErr (reg_set_container E (b_ID child) childCID);
         attempt (waitReady E childCID) (\<lambda>e. fail undo2 (Wrap ''instance never became ready'' e)) (\<lambda>_.
         do { _ \<leftarrow> observeCowMode G E child childCID;
         attempt (applyMasking E childCID src) (fail undo2) (\<lambda>_.
         attempt (rotateBranchCredentials G E childCID child src) (fail undo2) (\<lambda>_.
         attempt (inspectAddr E childCID) (fail undo2) (\<lambda>childInfo.
         attempt (inspectAddr E parentCID) (fail undo2) (\<lambda>parentInfo.
         attempt (reg_commit_freeze E (b_ID parent) (b_ID child) (b_RWVolume parent) newRW parentCID parentInfo
                    (''freeze for child '' @ b_Name child @ '' complete''))
           (\<lambda>e. fail undo2 (Wrap ''commit freeze'' e)) (\<lambda>_.
         reg_mark_ready E (b_ID child) childCID (ci_Host childInfo) (ci_Port childInfo)))))) }) }))))"

text \<open>Steps 3 and 4: the parent's fresh volume and its restart over the frozen chain.\<close>

definition freezeParent ::
  "engine \<Rightarrow> 'rt env \<Rightarrow> branch \<Rightarrow> branch \<Rightarrow> source \<Rightarrow> Plan \<Rightarrow> Plan \<Rightarrow> string
     \<Rightarrow> (('rt, unit) act list \<Rightarrow> engine_error \<Rightarrow> ('rt, unit) op) \<Rightarrow> ('rt, unit) op" where
  "freezeParent G E child parent src parentPlan childPlan newRW fail =
     (let undo1 = [logCompensationErr (reg_set_pending E (b_ID parent) [])];
          undo2 = undo1 @ [logCompensationErr (RemoveVolume E newRW)]
      in attempt (reg_set_pending E (b_ID parent) newRW) (\<lambda>e. fail [] (Wrap ''claim parent rw volume'' e)) (\<lambda>_.
         attempt (CreateVolume E newRW (volumeLabels G parent)) (\<lambda>e. fail undo1 (Wrap ''create parent rw volume'' e)) (\<lambda>_.
         attempt (installOverlayEntrypoint G E newRW) (\<lambda>e. fail undo2 (Wrap ''install parent entrypoint'' e)) (\<lambda>_.
         attempt (startOverlayBranch G E (b_Name parent) parentPlan (image G src) (branchLabels G parent))
           (\<lambda>e. fail undo2 (Wrap (''restart parent '' @ quoted (b_Name parent)) e)) (\<lambda>parentCID.
         let undo3 = undo2 @ [logCompensationErr (StopRemove E parentCID)]
         in do { _ \<leftarrow> logCompensationErr (reg_set_container E (b_ID parent) parentCID);
         attempt (waitReady E parentCID)
           (\<lambda>e. fail undo3 (Wrap (''parent '' @ quoted (b_Name parent) @ '' never became ready after freeze'') e)) (\<lambda>_.
         do { _ \<leftarrow> observeCowMode G E parent parentCID;
              _ \<leftarrow> logCompensationErr (reg_touch_branch E (b_ID parent));
              _ \<leftarrow> logCompensationErr (reg_touch_branch E (b_ID child));
              freezeChild G E child parent src childPlan newRW parentCID undo3 fail }) })))))"

definition freezeAndProvision :: "engine \<Rightarrow> 'rt env \<Rightarrow> branch \<Rightarrow> branch \<Rightarrow> source \<Rightarrow> ('rt, unit) op" where
  "freezeAndProvision G E child parent src =
     seq_ok (reg_read E (LayerChain (b_ID parent))) (\<lambda>chain.
     let frozen = b_RWVolume parent # layerVolumes chain
     in seq_ok (reg_fresh_layer G E (b_Name parent) (length chain + 2)) (\<lambda>newRW.
        let parentPlan = PlanBranch newRW (b_SourceVolume parent) frozen;
            childPlan = PlanBranch (b_RWVolume child) (b_SourceVolume child) frozen
        in seq_ok (quiesceParent E parent src (''freeze for child '' @ b_Name child)
             (''freeze for child '' @ b_Name child @ '' aborted: checkpoint failed'')
             (''freeze for child '' @ b_Name child @ '': stop parent failed: '')) (\<lambda>_.
           freezeParent G E child parent src parentPlan childPlan newRW (freezeFail G E parent src chain))))"

definition CreateBranchFrom :: "engine \<Rightarrow> 'rt env \<Rightarrow> string \<Rightarrow> string \<Rightarrow> int \<Rightarrow> ('rt, branch) op" where
  "CreateBranchFrom G E name parentName ttl =
     seq_ok (checkName name) (\<lambda>_.
     seq_ok (checkQuota G E) (\<lambda>_.
     attempt (reg_branch_by_name E parentName) (\<lambda>e. fail_with (Prefixed ''parent '' e)) (\<lambda>parent.
     if b_State parent \<noteq> BranchReady
     then fail_with (Msg (''parent branch '' @ quoted parentName @ '' is '' @ branch_state_str (b_State parent) @ '', not ready''))
     else
     seq_ok (if \<not> zfs G \<and> \<not> csi G
             then seq_ok (reg_read E (LayerChain (b_ID parent))) (checkLayerDepth G parent) else ok ()) (\<lambda>_.
     seq_ok (reg_read E (GetSourceByID (b_SourceID parent))) (\<lambda>src.
     seq_ok (reg_fresh_layer G E name 1) (\<lambda>rw. do { expiresAt \<leftarrow> expiresAtFor G E ttl;
     seq_ok (reg_create_branch E (newBranch name (b_SourceID parent) rw
         (if zfs G \<or> csi G then b_RWVolume parent else b_SourceVolume parent) expiresAt parentName)) (\<lambda>child.
     attempt (if csi G then provisionCSI G E child src else if zfs G then provisionZFS G E child src
              else freezeAndProvision G E child parent src)
       (\<lambda>e. do { _ \<leftarrow> logCompensationErr (reg_transition E (b_ID child) BranchFailed (failureReason (e_regText E) e)); fail_with e })
       (\<lambda>_. reg_branch_by_name E name)) }))))))"

section \<open>Removing a source, the TTL pass\<close>

fun checkLayersUnused :: "'rt env \<Rightarrow> string \<Rightarrow> layer list \<Rightarrow> ('rt, unit) op" where
  "checkLayersUnused E name [] = ok ()"
| "checkLayersUnused E name (l # ls) =
     seq_ok (reg_read E (\<lambda>d. Inr (CountBranchesReferencingLayer (lay_ID l) d))) (\<lambda>n.
     if n > 0 then fail_with (Msg (''source '' @ quoted name @ '' has a frozen layer ('' @ lay_Volume l @ '') still referenced by ''
            @ nat_dec n @ '' live branch(es); destroy them first''))
     else checkLayersUnused E name ls)"

fun removeLayerVolumes :: "engine \<Rightarrow> 'rt env \<Rightarrow> layer list \<Rightarrow> ('rt, unit) op" where
  "removeLayerVolumes G E [] = ok ()"
| "removeLayerVolumes G E (l # ls) =
     seq_ok (wrap_err (''remove layer volume '' @ quoted (lay_Volume l)) (removeSourceLayer G E (lay_Volume l))) (\<lambda>_.
     removeLayerVolumes G E ls)"

definition RemoveSource :: "engine \<Rightarrow> 'rt env \<Rightarrow> string \<Rightarrow> ('rt, unit) op" where
  "RemoveSource G E name =
     seq_ok (reg_read E (GetSourceByName name)) (\<lambda>src.
     seq_ok (reg_read E (\<lambda>d. Inr (CountLiveBranchesBySource (src_ID src) d))) (\<lambda>n.
     if n > 0 then fail_with (Msg (''source '' @ quoted name @ '' has '' @ nat_dec n @ '' live branch(es); destroy them first''))
     else seq_ok (reg_read E (\<lambda>d. Inr (ListLayersBySource (src_ID src) d))) (\<lambda>ls.
     seq_ok (checkLayersUnused E name ls) (\<lambda>_.
     seq_ok (removeLayerVolumes G E ls) (\<lambda>_.
     seq_ok (attempt (removeSourceLayer G E (src_Volume src))
        (\<lambda>e. if src_State src = SourceReady then fail_with (Wrap ''remove source layer'' e) else ok ()) ok) (\<lambda>_.
     seq_ok (reg_write E (\<lambda>t d. no_result (DeleteSourceCtx (e_actor E) (stamp E t) (src_ID src) d))) (\<lambda>_.
     wrap_err (''remove failed attempts of source '' @ quoted name)
       (seq_ok (reg_write E (\<lambda>t d. DeleteFailedSources name d)) (\<lambda>_. ok ())))))))))"

fun reap_all :: "engine \<Rightarrow> 'rt env \<Rightarrow> branch list \<Rightarrow> ('rt, string list \<times> engine_error list) act" where
  "reap_all G E [] = State_Monad.return ([], [])"
| "reap_all G E (b # bs) = do { r \<leftarrow> DestroyBranch G E (b_Name b);
     (names, errs) \<leftarrow> reap_all G E bs;
     State_Monad.return (case r of Inl e \<Rightarrow> (names, Wrap (''reap '' @ quoted (b_Name b)) e # errs)
       | Inr _ \<Rightarrow> (b_Name b # names, errs)) }"

definition ReapExpired :: "engine \<Rightarrow> 'rt env \<Rightarrow> gotime \<Rightarrow> ('rt, string list \<times> engine_error list) op" where
  "ReapExpired G E now =
     seq_ok (reg_read E (\<lambda>d. Inr (ListExpiredBranches (read_password (e_crypto E) (e_box E)) (rfc3339 now) d))) (\<lambda>expired.
     do { r \<leftarrow> reap_all G E expired; ok r })"

end
