(* ===== verification/Reconcile.thy ===== *)
theory Reconcile
  imports Sagas
begin

text \<open>
  The reconcile loop (\<^verbatim>\<open>src/internal/engine/reconcile.go\<close>): the read-only plan that compares the registry with the
  runtime in both directions, the apply step of each action with its re-checks, the restart of a ready branch
  that lost its container, and the endpoint refresh the router asks for. Claims held by other goroutines of the
  process are part of the environment; the claim a pass takes itself is released before it returns, so a pass sees
  only those of others. Metrics and log lines are left out.
\<close>

section \<open>Actions and plans\<close>

datatype ActionKind = ActionReap | ActionFailStuck | ActionFailStuckSource | ActionRetryDestroy | ActionRestartBranch
  | ActionUpdateEndpoint | ActionRemoveOrphanContainer | ActionRemoveOrphanHelper | ActionGCLayer | ActionGCVolume

fun ActionKind_str :: "ActionKind \<Rightarrow> string" where
  "ActionKind_str ActionReap = ''reap''"
| "ActionKind_str ActionFailStuck = ''fail_stuck''"
| "ActionKind_str ActionFailStuckSource = ''fail_stuck_source''"
| "ActionKind_str ActionRetryDestroy = ''retry_destroy''"
| "ActionKind_str ActionRestartBranch = ''restart_branch''"
| "ActionKind_str ActionUpdateEndpoint = ''update_endpoint''"
| "ActionKind_str ActionRemoveOrphanContainer = ''remove_orphan_container''"
| "ActionKind_str ActionRemoveOrphanHelper = ''remove_orphan_helper''"
| "ActionKind_str ActionGCLayer = ''gc_layer''"
| "ActionKind_str ActionGCVolume = ''gc_volume''"

record Action =
  a_Kind :: ActionKind
  a_Target :: string
  a_Reason :: string

type_synonym ReconcilePlan = "Action list"

definition act :: "ActionKind \<Rightarrow> string \<Rightarrow> string \<Rightarrow> Action" where
  "act kind target reason = \<lparr>a_Kind = kind, a_Target = target, a_Reason = reason\<rparr>"

definition Drift :: "ReconcilePlan \<Rightarrow> bool" where "Drift p \<longleftrightarrow> p \<noteq> []"

definition sourceClaim :: "string \<Rightarrow> string" where "sourceClaim eid = ''source:'' @ eid"
definition branchClaim :: "string \<Rightarrow> string" where "branchClaim name = ''branch:'' @ name"

definition claimed :: "'rt env \<Rightarrow> string \<Rightarrow> ('rt, bool) act" where
  "claimed E key = do { t \<leftarrow> tick E; State_Monad.return (e_claimed E t key) }"

section \<open>Pure parts of the plan\<close>

definition shortID :: "string \<Rightarrow> string" where
  "shortID eid = (if eid = [] then ''(none)'' else if length eid = 64 then take 12 eid else eid)"

definition hostPort :: "string \<Rightarrow> int \<Rightarrow> string" where "hostPort h p = JoinHostPort h (int_dec p)"

definition readyDrift :: "branch \<Rightarrow> (string \<rightharpoonup> ContainerInfo) \<Rightarrow> (ActionKind \<times> string) option" where
  "readyDrift b infos =
     (case (if b_ContainerID b = [] then None else infos (b_ContainerID b)) of
        None \<Rightarrow> Some (ActionRestartBranch, ''container '' @ shortID (b_ContainerID b) @ '' of the ready branch is gone'')
      | Some c \<Rightarrow>
          if ci_Stopped c
          then Some (ActionRestartBranch, ''container '' @ shortID (ci_ID c) @ '' of the ready branch is not running ('' @ ci_Status c @ '')'')
          else if ci_Running c \<and> ci_Host c \<noteq> [] \<and> ci_Port c \<noteq> 0 \<and> (ci_Host c \<noteq> b_Host b \<or> ci_Port c \<noteq> b_Port b)
          then Some (ActionUpdateEndpoint, ''address moved from '' @ hostPort (b_Host b) (b_Port b) @ '' to '' @ hostPort (ci_Host c) (ci_Port c))
          else None)"

text \<open>A Go map lookup \<open>labels[k]\<close>: the empty string when absent; a map literal keeps the last value of a key.\<close>

definition label :: "labels \<Rightarrow> string \<Rightarrow> string" where
  "label ls k = (case map_of (rev ls) k of None \<Rightarrow> [] | Some v \<Rightarrow> v)"

definition by_id :: "('a \<Rightarrow> string) \<Rightarrow> 'a list \<Rightarrow> (string \<rightharpoonup> 'a)" where
  "by_id key xs = map_of (rev (map (\<lambda>x. (key x, x)) xs))"

definition ownedInFlight :: "ContainerInfo \<Rightarrow> (string \<rightharpoonup> branch) \<Rightarrow> bool" where
  "ownedInFlight c liveByID = (case liveByID (label (ci_Labels c) LabelBranchID) of None \<Rightarrow> False
     | Some b \<Rightarrow> b_State b \<in> {BranchCreating, BranchResetting, BranchReady})"

definition orphanHelper :: "ContainerInfo \<Rightarrow> gotime \<Rightarrow> int \<Rightarrow> bool" where
  "orphanHelper h now grace \<longleftrightarrow> ci_Stopped h \<and> (case ci_Created h of None \<Rightarrow> False | Some c \<Rightarrow> time_sub now c \<ge> grace)"

definition stuck_cutoff :: "gotime \<Rightarrow> int \<Rightarrow> string" where
  "stuck_cutoff now stuckTimeout = TimeString (time_add now (- stuckTimeout))"

definition plan_reap :: "branch list \<Rightarrow> ReconcilePlan" where
  "plan_reap expired = map (\<lambda>b. act ActionReap (b_Name b) (''ttl expired at '' @ b_ExpiresAt b)) expired"

definition plan_stuck :: "int \<Rightarrow> branch list \<Rightarrow> ReconcilePlan" where
  "plan_stuck stuckTimeout stuck = map (\<lambda>b. act ActionFailStuck (b_Name b)
     (''stuck in '' @ branch_state_str (b_State b) @ '' longer than '' @ Duration_String stuckTimeout)) stuck"

definition plan_destroying :: "int \<Rightarrow> branch list \<Rightarrow> ReconcilePlan" where
  "plan_destroying stuckTimeout destroying = map (\<lambda>b. act ActionRetryDestroy (b_Name b)
     (''stuck in destroying longer than '' @ Duration_String stuckTimeout)) destroying"

text \<open>(c): ready branches against the containers; \<open>reaping\<close> and \<open>busy\<close> are the names that are skipped.\<close>

definition plan_ready :: "branch list \<Rightarrow> ContainerInfo list \<Rightarrow> string set \<Rightarrow> (string \<Rightarrow> bool) \<Rightarrow> ReconcilePlan" where
  "plan_ready live managed reaping busy =
     List.map_filter (\<lambda>b. if b_State b \<noteq> BranchReady \<or> b_Name b \<in> reaping \<or> busy (b_Name b) then None
       else map_option (\<lambda>(kind, reason). act kind (b_Name b) reason) (readyDrift b (by_id ci_ID managed))) live"

text \<open>(d): containers without a row, and finished helpers.\<close>

definition orphan_container :: "string \<Rightarrow> branch list \<Rightarrow> ContainerInfo \<Rightarrow> bool" where
  "orphan_container instanceID live c \<longleftrightarrow> label (ci_Labels c) LabelInstance = instanceID
     \<and> ci_ID c \<notin> {cid \<in> set (map b_ContainerID live). cid \<noteq> []} \<and> \<not> ownedInFlight c (by_id b_ID live)"

definition plan_orphans :: "string \<Rightarrow> branch list \<Rightarrow> ContainerInfo list \<Rightarrow> ReconcilePlan" where
  "plan_orphans instanceID live managed =
     map (\<lambda>c. act ActionRemoveOrphanContainer (ci_ID c) ''managed container with no live branch row'')
       (filter (orphan_container instanceID live) managed)"

definition plan_helpers :: "gotime \<Rightarrow> int \<Rightarrow> ContainerInfo list \<Rightarrow> ReconcilePlan" where
  "plan_helpers now stuckTimeout helpers =
     map (\<lambda>h. act ActionRemoveOrphanHelper (ci_ID h) (''helper finished ('' @ ci_Status h @ '') and was never removed''))
       (filter (\<lambda>h. orphanHelper h now stuckTimeout) helpers)"

text \<open>(e): volumes no row names or claims, old enough, and not already planned as a layer.\<close>

definition orphan_volume :: "gotime \<Rightarrow> int \<Rightarrow> string set \<Rightarrow> ReconcilePlan \<Rightarrow> VolumeInfo \<Rightarrow> bool" where
  "orphan_volume now stuckTimeout liveVols plan v \<longleftrightarrow>
     vi_Name v \<notin> liveVols \<and> vi_Name v \<notin> {a_Target a |a. a \<in> set plan \<and> a_Kind a = ActionGCLayer}
     \<and> (case vi_Created v of None \<Rightarrow> True | Some c \<Rightarrow> time_sub now c \<ge> stuckTimeout)"

lemma orphan_volume_code [code]:
  "orphan_volume now stuckTimeout liveVols plan v \<longleftrightarrow>
     vi_Name v \<notin> liveVols \<and> \<not> list_ex (\<lambda>a. a_Target a = vi_Name v \<and> a_Kind a = ActionGCLayer) plan
     \<and> (case vi_Created v of None \<Rightarrow> True | Some c \<Rightarrow> time_sub now c \<ge> stuckTimeout)"
  by (auto simp: orphan_volume_def list_ex_iff)

definition plan_volumes :: "gotime \<Rightarrow> int \<Rightarrow> string set \<Rightarrow> ReconcilePlan \<Rightarrow> VolumeInfo list \<Rightarrow> ReconcilePlan" where
  "plan_volumes now stuckTimeout liveVols plan vols =
     map (\<lambda>v. act ActionGCVolume (vi_Name v) ''managed volume owned by no live branch or source'')
       (filter (orphan_volume now stuckTimeout liveVols plan) vols)"

section \<open>Planning\<close>

fun plan_sources :: "'rt env \<Rightarrow> int \<Rightarrow> source list \<Rightarrow> ('rt, ReconcilePlan) act" where
  "plan_sources E stuckTimeout [] = State_Monad.return []"
| "plan_sources E stuckTimeout (s # ss) = do { c \<leftarrow> claimed E (sourceClaim (src_ID s));
     rest \<leftarrow> plan_sources E stuckTimeout ss;
     State_Monad.return (if c then rest
       else act ActionFailStuckSource (src_Name s) (''seeding with no progress for longer than '' @ Duration_String stuckTimeout) # rest) }"

fun busy_names :: "'rt env \<Rightarrow> branch list \<Rightarrow> ('rt, string list) act" where
  "busy_names E [] = State_Monad.return []"
| "busy_names E (b # bs) = do { c \<leftarrow> claimed E (branchClaim (b_Name b)); rest \<leftarrow> busy_names E bs;
     State_Monad.return (if c then b_Name b # rest else rest) }"

fun plan_layers :: "'rt env \<Rightarrow> layer list \<Rightarrow> ('rt, ReconcilePlan) op" where
  "plan_layers E [] = ok []"
| "plan_layers E (l # ls) = seq_ok (reg_read E (\<lambda>d. Inr (CountBranchesReferencingLayer (lay_ID l) d))) (\<lambda>n.
     seq_ok (plan_layers E ls) (\<lambda>rest.
     ok (if n = 0 then act ActionGCLayer (lay_Volume l) ''frozen layer referenced by 0 live branches'' # rest else rest)))"

definition reg_branches :: "'rt env \<Rightarrow> ((string \<Rightarrow> string option) \<Rightarrow> db \<Rightarrow> branch list) \<Rightarrow> ('rt, branch list) op" where
  "reg_branches E f = reg_read E (\<lambda>d. Inr (f (read_password (e_crypto E) (e_box E)) d))"

definition PlanReconcile :: "engine \<Rightarrow> 'rt env \<Rightarrow> gotime \<Rightarrow> int \<Rightarrow> ('rt, ReconcilePlan) op" where
  "PlanReconcile G E now stuckTimeout =
     (let before = stuck_cutoff now stuckTimeout
      in seq_ok (reg_branches E (\<lambda>dec. ListExpiredBranches dec (rfc3339 now))) (\<lambda>expired.
         seq_ok (reg_branches E (\<lambda>dec. ListStuckBranches dec before)) (\<lambda>stuck.
         seq_ok (reg_read E (\<lambda>d. Inr (ListStuckSources before d))) (\<lambda>stuckSources. do {
         planSrc \<leftarrow> plan_sources E stuckTimeout stuckSources;
         seq_ok (reg_branches E (\<lambda>dec. ListStuckDestroyingBranches dec before)) (\<lambda>destroying.
         seq_ok (reg_branches E ListLiveBranches) (\<lambda>live.
         seq_ok (ListManaged E) (\<lambda>managed. do {
         busy \<leftarrow> busy_names E (filter (\<lambda>b. b_State b = BranchReady \<and> b_Name b \<notin> set (map b_Name expired)) live);
         seq_ok (ListHelpers E) (\<lambda>helpers.
         seq_ok (reg_read E (\<lambda>d. Inr (ListLayers d))) (\<lambda>ls.
         seq_ok (plan_layers E ls) (\<lambda>planLay.
         seq_ok (ListManagedVolumes E (g_instanceID G)) (\<lambda>vols.
         seq_ok (if vols = [] then ok {} else reg_read E (\<lambda>d. Inr (LiveVolumeSet d))) (\<lambda>liveVols.
         let plan = plan_reap expired @ plan_stuck stuckTimeout stuck @ planSrc @ plan_destroying stuckTimeout destroying
               @ plan_ready live managed (set (map b_Name expired)) (\<lambda>n. n \<in> set busy)
               @ plan_orphans (g_instanceID G) live managed @ plan_helpers now stuckTimeout helpers @ planLay
         in ok (plan @ plan_volumes now stuckTimeout liveVols plan vols)))))) }))) }))))"

section \<open>Applying\<close>

record reconcilePass =
  rp_now :: gotime
  rp_stuckTimeout :: int

definition rp_before :: "reconcilePass \<Rightarrow> string" where
  "rp_before p = stuck_cutoff (rp_now p) (rp_stuckTimeout p)"

text \<open>\<open>GetBranchByName\<close> where a missing branch means there is nothing to do.\<close>

definition with_branch :: "'rt env \<Rightarrow> string \<Rightarrow> (branch \<Rightarrow> ('rt, bool) op) \<Rightarrow> ('rt, bool) op" where
  "with_branch E name k = attempt (reg_branch_by_name E name) (\<lambda>e. if err_not_found e then ok False else fail_with e) k"

text \<open>\<open>Inspect\<close> where a missing container means there is nothing to do.\<close>

definition with_container :: "'rt env \<Rightarrow> string \<Rightarrow> (ContainerInfo \<Rightarrow> ('rt, bool) op) \<Rightarrow> ('rt, bool) op" where
  "with_container E cid k = attempt (Inspect E cid) (\<lambda>e. if e_rtNotFound E e then ok False else fail_with e) k"

definition applyReap :: "engine \<Rightarrow> 'rt env \<Rightarrow> string \<Rightarrow> ('rt, bool) op" where
  "applyReap G E target = with_branch E target (\<lambda>b.
     if b_ExpiresAt b = [] \<or> (b_State b \<noteq> BranchReady \<and> b_State b \<noteq> BranchFailed) then ok False
     else seq_ok (DestroyBranch G E (b_Name b)) (\<lambda>_. ok True))"

text \<open>A call whose failure is only logged.\<close>

definition ignore_err :: "('rt, 'a) op \<Rightarrow> ('rt, unit) act" where
  "ignore_err m = do { _ \<leftarrow> m; State_Monad.return () }"

definition applyFailStuck :: "engine \<Rightarrow> 'rt env \<Rightarrow> reconcilePass \<Rightarrow> string \<Rightarrow> ('rt, bool) op" where
  "applyFailStuck G E p target = with_branch E target (\<lambda>b.
     seq_ok (reg_fail_stuck E (b_ID b) (rp_before p) (''reconcile: stuck '' @ branch_state_str (b_State b))) (\<lambda>failed.
     if \<not> failed then ok False
     else do { c \<leftarrow> reg_branch_by_name E target;
       let cid = (case c of Inr cur \<Rightarrow> if b_ID cur = b_ID b then b_ContainerID cur else b_ContainerID b | Inl e \<Rightarrow> b_ContainerID b)
       in do { _ \<leftarrow> (if cid \<noteq> [] then ignore_err (StopRemove E cid) else State_Monad.return ());
         seq_ok (reg_read E (\<lambda>d. Inr (CountLiveBranchesReferencingRW (b_Name b) (b_RWVolume b) d))) (\<lambda>referenced.
         do { _ \<leftarrow> (if referenced > 0 then State_Monad.return () else ignore_err (removeBranchLayer G E b)); ok True }) } }))"

definition applyFailStuckSource :: "engine \<Rightarrow> 'rt env \<Rightarrow> reconcilePass \<Rightarrow> string \<Rightarrow> ('rt, bool) op" where
  "applyFailStuckSource G E p target =
     attempt (reg_read E (GetSourceByName target)) (\<lambda>e. if err_not_found e then ok False else fail_with e) (\<lambda>src.
     do { c \<leftarrow> claimed E (sourceClaim (src_ID src));
       if src_State src \<noteq> SourceSeeding \<or> c then ok False
       else seq_ok (reg_fail_stuck_source E (src_ID src) (rp_before p)
           (''reconcile: seeding made no progress for '' @ Duration_String (rp_stuckTimeout p) @ '' (the seeding process stopped)'')) (\<lambda>failed.
         if \<not> failed then ok False
         else do { _ \<leftarrow> ignore_err (removeSourceLayer G E (src_Volume src)); ok True }) })"

definition applyRetryDestroy :: "engine \<Rightarrow> 'rt env \<Rightarrow> string \<Rightarrow> ('rt, bool) op" where
  "applyRetryDestroy G E target = with_branch E target (\<lambda>b.
     if b_State b \<noteq> BranchDestroying then ok False
     else seq_ok (DestroyBranch G E (b_Name b)) (\<lambda>_. ok True))"

definition errBranchMoved :: engine_error where
  "errBranchMoved = Msg ''branch changed while it was being restarted; left to the operation that changed it''"

definition branchContainerName :: "string \<Rightarrow> string" where "branchContainerName branch = ''pgoverlay-br-'' @ branch"

definition removeStrayBranchContainer :: "engine \<Rightarrow> 'rt env \<Rightarrow> branch \<Rightarrow> ('rt, unit) op" where
  "removeStrayBranchContainer G E b =
     attempt (Inspect E (branchContainerName (b_Name b))) (\<lambda>e. if e_rtNotFound E e then ok () else fail_with e) (\<lambda>info.
     if label (ci_Labels info) LabelInstance \<noteq> g_instanceID G \<or> label (ci_Labels info) LabelBranchID \<noteq> b_ID b
     then fail_with (Msg (''container name '' @ branchContainerName (b_Name b) @ '' is taken by '' @ shortID (ci_ID info)
            @ '', which is not this branch'' @ [CHR 0x27] @ ''s container''))
     else StopRemove E (ci_ID info))"

text \<open>The \<open>notReady\<close> closure of \<open>restartBranch\<close>.\<close>

definition notReady :: "'rt env \<Rightarrow> branch \<Rightarrow> string \<Rightarrow> engine_error \<Rightarrow> ('rt, 'a) op" where
  "notReady E b cid cause = do { t \<leftarrow> tick E;
     if e_cancelled E t then fail_with cause
     else do { _ \<leftarrow> logCompensationErr (StopRemove E cid);
       attempt (reg_fail_ready E (b_ID b) cid (''reconcile: container lost and restart failed: '' @ err_text (e_regText E) cause))
         (\<lambda>err. fail_with (Wrap (''restart branch '' @ quoted (b_Name b) @ '': '' @ err_text (e_regText E) cause @ ''; marking it failed'') err))
         (\<lambda>failed. if \<not> failed
            then fail_with (Suffixed (Wrap (''restart branch '' @ quoted (b_Name b)) cause) ('' ('' @ err_text (e_regText E) errBranchMoved @ '')''))
            else fail_with (Suffixed (Wrap (''restart branch '' @ quoted (b_Name b)) cause) ''; branch marked failed, its volumes are kept'')) } }"

definition restartBranch :: "engine \<Rightarrow> 'rt env \<Rightarrow> branch \<Rightarrow> string \<Rightarrow> ('rt, unit) op" where
  "restartBranch G E b why =
     attempt (reg_read E (GetSourceByID (b_SourceID b))) (\<lambda>e. fail_with (Wrap (''source of branch '' @ quoted (b_Name b)) e)) (\<lambda>src.
     seq_ok (if b_ContainerID b \<noteq> [] then wrap_err ''remove the stopped container'' (StopRemove E (b_ContainerID b)) else ok ()) (\<lambda>_.
     seq_ok (removeStrayBranchContainer G E b) (\<lambda>_.
     seq_ok (reg_read E (LayerChain (b_ID b))) (\<lambda>chain.
     attempt (startOnOwnData G E b src chain) (\<lambda>e. fail_with (Wrap (''start branch '' @ quoted (b_Name b)) e)) (\<lambda>cid.
     attempt (reg_update_endpoint E (b_ID b) (b_ContainerID b) cid (b_Host b) (b_Port b))
       (\<lambda>e. do { _ \<leftarrow> logCompensationErr (StopRemove E cid); fail_with e }) (\<lambda>owned.
     if \<not> owned then do { _ \<leftarrow> logCompensationErr (StopRemove E cid); fail_with errBranchMoved }
     else attempt (waitReady E cid) (\<lambda>e. notReady E b cid (Wrap ''never became ready'' e)) (\<lambda>_.
       do { _ \<leftarrow> observeCowMode G E b cid;
       attempt (inspectAddr E cid) (notReady E b cid) (\<lambda>info.
       let addr = hostPort (ci_Host info) (ci_Port info);
           why1 = (if why = [] then ''container '' @ shortID (b_ContainerID b) @ '' of the ready branch is gone or stopped'' else why)
       in seq_ok (reg_update_endpoint_ctx E (b_ID b) cid cid (ci_Host info) (ci_Port info)
            (''reconcile: '' @ why1 @ ''; restarted the branch on its volumes as container '' @ shortID cid @ '' at '' @ addr)) (\<lambda>moved.
          if moved then ok () else fail_with errBranchMoved)) })))))))"

definition applyRestartBranch :: "engine \<Rightarrow> 'rt env \<Rightarrow> string \<Rightarrow> string \<Rightarrow> ('rt, bool) op" where
  "applyRestartBranch G E target reason = do { busy \<leftarrow> claimed E (branchClaim target);
     if busy then ok False
     else with_branch E target (\<lambda>b.
       if b_State b \<noteq> BranchReady then ok False
       else seq_ok (if b_ContainerID b = [] then ok True
                    else attempt (Inspect E (b_ContainerID b)) (\<lambda>e. if e_rtNotFound E e then ok True else fail_with e) (\<lambda>info. ok (ci_Stopped info)))
         (\<lambda>down. if \<not> down then ok False else seq_ok (restartBranch G E b reason) (\<lambda>_. ok True))) }"

definition moved_to :: "branch \<Rightarrow> ContainerInfo \<Rightarrow> bool" where
  "moved_to b info \<longleftrightarrow> \<not> (\<not> ci_Running info \<or> ci_Host info = [] \<or> ci_Port info = 0 \<or> (ci_Host info = b_Host b \<and> ci_Port info = b_Port b))"

definition applyUpdateEndpoint :: "'rt env \<Rightarrow> string \<Rightarrow> ('rt, bool) op" where
  "applyUpdateEndpoint E target = with_branch E target (\<lambda>b.
     if b_State b \<noteq> BranchReady \<or> b_ContainerID b = [] then ok False
     else with_container E (b_ContainerID b) (\<lambda>info.
       if \<not> moved_to b info then ok False
       else reg_update_endpoint_ctx E (b_ID b) (b_ContainerID b) (b_ContainerID b) (ci_Host info) (ci_Port info)
         (''reconcile: container '' @ shortID (b_ContainerID b) @ '' moved from '' @ hostPort (b_Host b) (b_Port b) @ '' to ''
            @ hostPort (ci_Host info) (ci_Port info) @ ''; recorded the new address'')))"

definition applyRemoveOrphanContainer :: "'rt env \<Rightarrow> string \<Rightarrow> ('rt, bool) op" where
  "applyRemoveOrphanContainer E target =
     seq_ok (reg_branches E ListLiveBranches) (\<lambda>live.
     if target \<in> set (map b_ContainerID live) then ok False
     else with_container E target (\<lambda>info.
       if ownedInFlight info (by_id b_ID live) then ok False
       else seq_ok (StopRemove E target) (\<lambda>_. ok True)))"

definition applyRemoveOrphanHelper :: "'rt env \<Rightarrow> string \<Rightarrow> ('rt, bool) op" where
  "applyRemoveOrphanHelper E target = with_container E target (\<lambda>info.
     if \<not> ci_Stopped info then ok False else seq_ok (StopRemove E target) (\<lambda>_. ok True))"

definition applyGCLayer :: "engine \<Rightarrow> 'rt env \<Rightarrow> string \<Rightarrow> ('rt, bool) op" where
  "applyGCLayer G E target = seq_ok (reg_read E (\<lambda>d. Inr (ListLayers d))) (\<lambda>ls.
     case find (\<lambda>l. lay_Volume l = target) ls of None \<Rightarrow> ok False | Some l \<Rightarrow> gcLayer G E l)"

definition applyGCVolume :: "'rt env \<Rightarrow> string \<Rightarrow> ('rt, bool) op" where
  "applyGCVolume E target = seq_ok (reg_read E (\<lambda>d. Inr (LiveVolumeSet d))) (\<lambda>liveVols.
     if target \<in> liveVols then ok False else seq_ok (RemoveVolume E target) (\<lambda>_. ok True))"

definition applyAction :: "engine \<Rightarrow> 'rt env \<Rightarrow> reconcilePass \<Rightarrow> Action \<Rightarrow> ('rt, bool) op" where
  "applyAction G E p a = (case a_Kind a of
       ActionReap \<Rightarrow> applyReap G E (a_Target a)
     | ActionFailStuck \<Rightarrow> applyFailStuck G E p (a_Target a)
     | ActionFailStuckSource \<Rightarrow> applyFailStuckSource G E p (a_Target a)
     | ActionRetryDestroy \<Rightarrow> applyRetryDestroy G E (a_Target a)
     | ActionRestartBranch \<Rightarrow> applyRestartBranch G E (a_Target a) (a_Reason a)
     | ActionUpdateEndpoint \<Rightarrow> applyUpdateEndpoint E (a_Target a)
     | ActionRemoveOrphanContainer \<Rightarrow> applyRemoveOrphanContainer E (a_Target a)
     | ActionRemoveOrphanHelper \<Rightarrow> applyRemoveOrphanHelper E (a_Target a)
     | ActionGCLayer \<Rightarrow> applyGCLayer G E (a_Target a)
     | ActionGCVolume \<Rightarrow> applyGCVolume E (a_Target a))"

fun apply_all :: "engine \<Rightarrow> 'rt env \<Rightarrow> reconcilePass \<Rightarrow> ReconcilePlan \<Rightarrow> ('rt, ReconcilePlan \<times> engine_error list) act" where
  "apply_all G E p [] = State_Monad.return ([], [])"
| "apply_all G E p (a # as) = do { r \<leftarrow> applyAction G E p a; (taken, errs) \<leftarrow> apply_all G E p as;
     State_Monad.return (case r of Inl e \<Rightarrow> (taken, Wrap (ActionKind_str (a_Kind a) @ '' '' @ a_Target a) e # errs)
       | Inr applied \<Rightarrow> (if applied then a # taken else taken, errs)) }"

definition ApplyReconcile :: "engine \<Rightarrow> 'rt env \<Rightarrow> gotime \<Rightarrow> int \<Rightarrow> ('rt, ReconcilePlan \<times> engine_error list) op" where
  "ApplyReconcile G E now stuckTimeout = seq_ok (PlanReconcile G E now stuckTimeout) (\<lambda>plan.
     do { r \<leftarrow> apply_all G E \<lparr>rp_now = now, rp_stuckTimeout = stuckTimeout\<rparr> plan; ok r })"

section \<open>Refreshing an endpoint\<close>

definition endpointRefreshInterval :: int where "endpointRefreshInterval = 5 * 1000000000"

definition allowRefresh :: "string \<Rightarrow> gotime \<Rightarrow> ('rt, bool) act" where
  "allowRefresh name now = State (\<lambda>w.
     if (case map_of (w_refreshed w) name of None \<Rightarrow> False | Some prev \<Rightarrow> time_sub now prev < endpointRefreshInterval)
     then (False, w) else (True, w\<lparr>w_refreshed := AList.update name now (w_refreshed w)\<rparr>))"

text \<open>The result: the address to dial, and an error that may accompany it.\<close>

definition RefreshBranchEndpoint :: "'rt env \<Rightarrow> string \<Rightarrow> ('rt, string \<times> engine_error option) act" where
  "RefreshBranchEndpoint E name = do { rb \<leftarrow> reg_branch_by_name E name;
     case rb of Inl e \<Rightarrow> State_Monad.return ([], Some e)
     | Inr b \<Rightarrow>
         if b_State b \<noteq> BranchReady
         then State_Monad.return ([], Some (Msg (''branch is '' @ branch_state_str (b_State b) @ '', not ready'')))
         else let addr = hostPort (b_Host b) (b_Port b)
         in if b_ContainerID b = [] then State_Monad.return (addr, None)
         else do { t \<leftarrow> tick E; go \<leftarrow> allowRefresh name (e_now E t);
           if \<not> go then State_Monad.return (addr, None)
           else do { ri \<leftarrow> Inspect E (b_ContainerID b);
             case ri of Inl e \<Rightarrow> State_Monad.return (addr, Some e)
             | Inr info \<Rightarrow>
                 if \<not> moved_to b info then State_Monad.return (addr, None)
                 else let moved = hostPort (ci_Host info) (ci_Port info)
                 in do { ru \<leftarrow> reg_update_endpoint_ctx E (b_ID b) (b_ContainerID b) (b_ContainerID b) (ci_Host info) (ci_Port info)
                     (''router: container '' @ shortID (b_ContainerID b) @ '' moved from '' @ addr @ '' to '' @ moved
                        @ '' (found after a failed connection); recorded the new address'');
                   case ru of Inl e \<Rightarrow> State_Monad.return (addr, Some e)
                   | Inr done_ \<Rightarrow> State_Monad.return (if done_ then moved else addr, None) } } } }"

end
