(* ===== verification/Seeding.thy ===== *)
theory Seeding
  imports Sagas
begin

text \<open>
  Seeding a source: \<^verbatim>\<open>src/internal/pgctl/seed.go\<close>, \<^verbatim>\<open>seeddump.go\<close>, \<^verbatim>\<open>settle.go\<close> and the operations of
  \<^verbatim>\<open>src/internal/engine/engine.go\<close> that use them (\<open>AddSource\<close>, \<open>RefreshSource\<close>). The helper scripts are shell text the code passes on
  unread; their texts are fields of \<open>seeding\<close>, with the value of the environment variable and of the engine option the code reads.
\<close>

record seeding =
  sd_sslmode_env :: string
  sd_seedSettle :: string
  sd_fixupScript :: string
  sd_settleScript :: string
  sd_dumpScript :: "string \<Rightarrow> string"

section \<open>Settle modes\<close>

definition SettleFreeze :: string where "SettleFreeze = ''freeze''"
definition SettleRecover :: string where "SettleRecover = ''recover''"
definition SettleOff :: string where "SettleOff = ''off''"
definition DefaultSettleMode :: string where "DefaultSettleMode = SettleFreeze"
definition settleModes :: "string list" where "settleModes = [SettleFreeze, SettleRecover, SettleOff]"

definition lower_char :: "char \<Rightarrow> char" where
  "lower_char c = (if CHR ''A'' \<le> c \<and> c \<le> CHR ''Z'' then char_of ((of_char c :: nat) + 32) else c)"

definition ToLower :: "string \<Rightarrow> string" where "ToLower s = map lower_char s"

definition ParseSettleMode :: "string \<Rightarrow> (string, string) result" where
  "ParseSettleMode s = (let m = ToLower (TrimSpace s)
     in if m = [] then Inr DefaultSettleMode
        else if m \<notin> set settleModes then Inl (''unknown seed settle mode '' @ quoted s @ '' (want freeze, recover or off)'') else Inr m)"

section \<open>The seed specification\<close>

record SeedSpec =
  ss_Image :: string
  ss_Volume :: string
  ss_MountKind :: MountKind
  ss_Network :: string
  ss_Host :: string
  ss_Port :: int
  ss_User :: string
  ss_Password :: string
  ss_SSLMode :: string
  ss_Settle :: string
  ss_Owner :: string

definition DefaultOwner :: string where "DefaultOwner = ''999:999''"

definition seed_owner :: "SeedSpec \<Rightarrow> string" where
  "seed_owner s = (if ss_Owner s \<noteq> [] then ss_Owner s else DefaultOwner)"

definition helperUser :: "SeedSpec \<Rightarrow> string" where
  "helperUser s = (if ss_Owner s \<noteq> [] then ss_Owner s else ''postgres'')"

definition DefaultSSLMode :: string where "DefaultSSLMode = ''prefer''"
definition SSLModeEnv :: string where "SSLModeEnv = ''PGOVERLAY_SEED_SSLMODE''"
definition sslModes :: "string list" where
  "sslModes = [''disable'', ''allow'', ''prefer'', ''require'', ''verify-ca'', ''verify-full'']"

definition sslMode :: "seeding \<Rightarrow> SeedSpec \<Rightarrow> string" where
  "sslMode S s = (if ss_SSLMode s \<noteq> [] then ss_SSLMode s
     else if sd_sslmode_env S \<noteq> [] then sd_sslmode_env S else DefaultSSLMode)"

text \<open>\<open>^\\d+:\\d+$\<close>, also the shape of an owner line.\<close>

definition digits :: "string \<Rightarrow> bool" where "digits s \<longleftrightarrow> s \<noteq> [] \<and> list_all is_digit s"

definition ownerSpecRe :: "string \<Rightarrow> bool" where
  "ownerSpecRe s = (case cut (CHR '':'') s of None \<Rightarrow> False | Some (u, g) \<Rightarrow> digits u \<and> digits g)"

definition Validate :: "seeding \<Rightarrow> SeedSpec \<Rightarrow> engine_error option" where
  "Validate S s = (let host = TrimSpace (ss_Host s)
     in if host = [] then Some (Kinded ErrInvalidSpec ''source host is empty'')
        else if has_prefix ''/'' host then Some (Kinded ErrInvalidSpec (''source host '' @ quoted (ss_Host s)
          @ '' is a Unix socket directory, which the seed helper container cannot reach; use an address reachable from containers''))
        else if ss_Port s < 1 \<or> ss_Port s > 65535 then Some (Kinded ErrInvalidSpec (''source port '' @ int_dec (ss_Port s) @ '' is out of range 1-65535''))
        else if TrimSpace (ss_User s) = [] then Some (Kinded ErrInvalidSpec ''source user is empty'')
        else if sslMode S s \<notin> set sslModes then Some (Kinded ErrInvalidSpec (''sslmode '' @ quoted (sslMode S s)
          @ '' (from the seed request or $'' @ SSLModeEnv @ ''): want one of '' @ join_with '', '' sslModes))
        else (case ParseSettleMode (ss_Settle s) of Inl e \<Rightarrow> Some (Kinded ErrInvalidSpec e)
          | Inr m \<Rightarrow> if ss_Owner s \<noteq> [] \<and> \<not> ownerSpecRe (ss_Owner s)
              then Some (Kinded ErrInvalidSpec (''owner '' @ quoted (ss_Owner s) @ '' is not a numeric uid:gid'')) else None))"

definition seed_addr :: "SeedSpec \<Rightarrow> string" where
  "seed_addr s = JoinHostPort (ss_Host s) (int_dec (ss_Port s))"

definition ConnectTimeoutSeconds :: int where "ConnectTimeoutSeconds = 10"

definition connEnv :: "seeding \<Rightarrow> SeedSpec \<Rightarrow> string list" where
  "connEnv S s = [''PGSSLMODE='' @ sslMode S s, ''PGCONNECT_TIMEOUT='' @ int_dec ConnectTimeoutSeconds]"

section \<open>The postgres user of an image\<close>

definition ownerScript :: string where
  "ownerScript = ''set -e'' @ [CHR 0x0A] @ ''u=$(id -u postgres)'' @ [CHR 0x0A] @ ''g=$(id -g postgres)'' @ [CHR 0x0A]
     @ ''echo '' @ quoted ''pgoverlay-owner=$u:$g''"

text \<open>
  \<open>ownerRe\<close> on one line: the prefix, two numbers and blanks. With the flag \<open>m\<close> the pattern starts and ends at line ends; blanks that run on over
  the end of the line change neither whether it matches nor its groups.
\<close>

definition re_space :: "char \<Rightarrow> bool" where
  "re_space c \<longleftrightarrow> c \<in> {CHR '' '', CHR 0x09, CHR 0x0C, CHR 0x0D}"

definition owner_line :: "string \<Rightarrow> string option" where
  "owner_line l = (if has_prefix ''pgoverlay-owner='' l then
     (let r = trim_prefix ''pgoverlay-owner='' l; u = takeWhile is_digit r; r1 = dropWhile is_digit r;
          g = takeWhile is_digit (tl r1); r2 = dropWhile is_digit (tl r1)
      in if u \<noteq> [] \<and> r1 \<noteq> [] \<and> hd r1 = CHR '':'' \<and> g \<noteq> [] \<and> list_all re_space r2 then Some (u @ '':'' @ g) else None) else None)"

fun first_owner :: "string list \<Rightarrow> string option" where
  "first_owner [] = None"
| "first_owner (l # ls) = (case owner_line l of Some m \<Rightarrow> Some m | None \<Rightarrow> first_owner ls)"

definition DetectOwner :: "'rt env \<Rightarrow> string \<Rightarrow> ('rt, string) op" where
  "DetectOwner E img = attempt (RunHelper E (helper_spec\<lparr>hs_Image := img, hs_Cmd := [''sh'', ''-c'', ownerScript]\<rparr>))
     (\<lambda>e. fail_with (Marked ErrSeedFailed (Wrap (''find the postgres user in image '' @ img @ '' (seeding and branches run as it)'') e)))
     (\<lambda>out. ok (case first_owner (split_on (CHR 0x0A) out) of Some m \<Rightarrow> m | None \<Rightarrow> []))"

section \<open>Base backup\<close>

record seededCluster =
  sc_dataMajor :: string
  sc_serverMajor :: string
  sc_removed :: "string list"
  sc_stripped :: "string list"

text \<open>\<open>serverMajorRe\<close>: the digits after the first \<open>(PostgreSQL) \<close> that a digit follows.\<close>

fun server_major :: "string \<Rightarrow> string option" where
  "server_major [] = None"
| "server_major (c # s) = (let r = trim_prefix ''(PostgreSQL) '' (c # s)
     in if has_prefix ''(PostgreSQL) '' (c # s) \<and> takeWhile is_digit r \<noteq> [] then Some (takeWhile is_digit r) else server_major s)"

definition key_value :: "string \<Rightarrow> (string \<times> string) option" where
  "key_value line = cut (CHR ''='') (TrimSpace line)"

definition seeded_line :: "string \<Rightarrow> seededCluster \<Rightarrow> seededCluster" where
  "seeded_line line c = (case key_value line of None \<Rightarrow> c | Some (k, v) \<Rightarrow>
     if k = ''pgoverlay-data-version'' then c\<lparr>sc_dataMajor := TrimSpace v\<rparr>
     else if k = ''pgoverlay-server-version'' then (case server_major v of Some m \<Rightarrow> c\<lparr>sc_serverMajor := m\<rparr> | None \<Rightarrow> c)
     else if k = ''pgoverlay-removed'' then c\<lparr>sc_removed := sc_removed c @ [v]\<rparr>
     else if k = ''pgoverlay-stripped'' then c\<lparr>sc_stripped := sc_stripped c @ [v]\<rparr> else c)"

definition parseSeededCluster :: "string \<Rightarrow> seededCluster" where
  "parseSeededCluster out = fold seeded_line (split_on (CHR 0x0A) out) \<lparr>sc_dataMajor = [], sc_serverMajor = [], sc_removed = [], sc_stripped = []\<rparr>"

definition seedMount :: "SeedSpec \<Rightarrow> Mount" where
  "seedMount s = \<lparr>mnt_Kind = ss_MountKind s, mnt_Volume = ss_Volume s, mnt_Target = ''/seed'', mnt_ReadOnly = False\<rparr>"

definition prepareSpec :: "SeedSpec \<Rightarrow> HelperSpec" where
  "prepareSpec s = helper_spec\<lparr>hs_Image := UtilityImage, hs_Cmd := [''sh'', ''-c'', ''mkdir -p /seed && chown '' @ seed_owner s @ '' /seed''],
     hs_Mounts := [seedMount s]\<rparr>"

definition basebackupSpec :: "seeding \<Rightarrow> SeedSpec \<Rightarrow> HelperSpec" where
  "basebackupSpec S s = helper_spec\<lparr>hs_Image := ss_Image s, hs_User := helperUser s,
     hs_Cmd := [''pg_basebackup'', ''-h'', ss_Host s, ''-p'', int_dec (ss_Port s), ''-U'', ss_User s,
       ''-D'', ''/seed/data'', ''-X'', ''stream'', ''--checkpoint=fast'', ''--no-password''],
     hs_Env := (''PGPASSWORD='' @ ss_Password s) # connEnv S s, hs_Mounts := [seedMount s], hs_Network := ss_Network s\<rparr>"

definition fixupSpec :: "seeding \<Rightarrow> SeedSpec \<Rightarrow> HelperSpec" where
  "fixupSpec S s = helper_spec\<lparr>hs_Image := ss_Image s, hs_User := helperUser s,
     hs_Cmd := [''sh'', ''-c'', sd_fixupScript S, ''pgoverlay-seed-fixup'', ''/seed/data''], hs_Mounts := [seedMount s]\<rparr>"

definition version_error :: "SeedSpec \<Rightarrow> seededCluster \<Rightarrow> engine_error option" where
  "version_error s c = (if sc_dataMajor c = [] \<or> sc_serverMajor c = [] then None
     else if sc_dataMajor c \<noteq> sc_serverMajor c
     then Some (Kinded ErrVersionMismatch (''the source at '' @ seed_addr s @ '' is PostgreSQL '' @ sc_dataMajor c @ '' but the branch image '' @ ss_Image s
       @ '' runs PostgreSQL '' @ sc_serverMajor c @ ''; add the source with pg_version '' @ sc_dataMajor c @ '' (pgb source add --pg-version '' @ sc_dataMajor c @ '')''))
     else None)"

definition check_err :: "engine_error option \<Rightarrow> ('rt, unit) op" where
  "check_err r = (case r of None \<Rightarrow> ok () | Some e \<Rightarrow> fail_with e)"

definition Seed :: "seeding \<Rightarrow> 'rt env \<Rightarrow> SeedSpec \<Rightarrow> ('rt, unit) op" where
  "Seed S E s =
     seq_ok (check_err (Validate S s)) (\<lambda>_.
     seq_ok (wrap_err ''prepare seed volume'' (RunHelper E (prepareSpec s))) (\<lambda>_.
     attempt (RunHelper E (basebackupSpec S s))
       (\<lambda>e. fail_with (Marked ErrSeedFailed (Wrap (''pg_basebackup from '' @ seed_addr s) e))) (\<lambda>_.
     seq_ok (wrap_err ''prepare seeded data dir'' (RunHelper E (fixupSpec S s))) (\<lambda>out.
     check_err (version_error s (parseSeededCluster out))))))"

section \<open>Settling\<close>

definition settleWaitSeconds :: int where "settleWaitSeconds = 86400"

record settleReport =
  sr_vacuum :: string
  sr_statistics :: string
  sr_wal :: string
  sr_walRemoved :: int
  sr_superuser :: string
  sr_locked :: int
  sr_cluster_state :: string
  sr_errors :: "string list"

text \<open>\<open>strconv.Atoi\<close> with its error ignored: 0 for no number, the nearest 64-bit value for one out of range.\<close>

definition count_of :: "string \<Rightarrow> int" where
  "count_of v = (case atoi v of None \<Rightarrow> 0 | Some i \<Rightarrow> max (- (2 ^ 63)) (min (2 ^ 63 - 1) i))"

definition settle_line :: "string \<Rightarrow> settleReport \<Rightarrow> settleReport" where
  "settle_line line r = (case key_value line of None \<Rightarrow> r | Some (k, v) \<Rightarrow>
     if k = ''pgoverlay-settle-vacuum'' then r\<lparr>sr_vacuum := v\<rparr>
     else if k = ''pgoverlay-settle-superuser'' then r\<lparr>sr_superuser := v\<rparr>
     else if k = ''pgoverlay-settle-statistics'' then r\<lparr>sr_statistics := v\<rparr>
     else if k = ''pgoverlay-settle-wal'' then r\<lparr>sr_wal := v\<rparr>
     else if k = ''pgoverlay-settle-wal-removed'' then r\<lparr>sr_walRemoved := count_of v\<rparr>
     else if k = ''pgoverlay-settle-locked'' then r\<lparr>sr_locked := count_of v\<rparr>
     else if k = ''pgoverlay-settle-state'' then r\<lparr>sr_cluster_state := v\<rparr>
     else if k = ''pgoverlay-settle-vacuum-error'' then r\<lparr>sr_errors := sr_errors r @ [v]\<rparr> else r)"

definition parseSettleReport :: "string \<Rightarrow> settleReport" where
  "parseSettleReport out = fold settle_line (split_on (CHR 0x0A) out) \<lparr>sr_vacuum = [], sr_statistics = [], sr_wal = [], sr_walRemoved = 0,
     sr_superuser = [], sr_locked = 0, sr_cluster_state = [], sr_errors = []\<rparr>"

definition settleSpec :: "seeding \<Rightarrow> SeedSpec \<Rightarrow> string \<Rightarrow> HelperSpec" where
  "settleSpec S s mode = helper_spec\<lparr>hs_Image := ss_Image s, hs_User := helperUser s,
     hs_Cmd := [''sh'', ''-c'', sd_settleScript S, ''pgoverlay-settle'', ''/seed/data''],
     hs_Env := [''PGB_SETTLE='' @ mode, ''PGB_USER='' @ ss_User s, ''PGCTLTIMEOUT='' @ int_dec settleWaitSeconds],
     hs_Mounts := [seedMount s]\<rparr>"

text \<open>The report is only logged.\<close>

definition Settle :: "seeding \<Rightarrow> 'rt env \<Rightarrow> SeedSpec \<Rightarrow> ('rt, unit) op" where
  "Settle S E s = (case ParseSettleMode (ss_Settle s) of Inl e \<Rightarrow> fail_with (Kinded ErrInvalidSpec e)
     | Inr mode \<Rightarrow> if mode = SettleOff then ok ()
        else attempt (RunHelper E (settleSpec S s mode))
          (\<lambda>e. fail_with (Marked ErrSeedFailed (Wrap (''settle the seed from '' @ seed_addr s @ '' (--seed-settle='' @ mode @ ''; off skips this step)'') e)))
          (\<lambda>out. ok ()))"

section \<open>Logical dump\<close>

record SeedDumpSpec = SeedSpec +
  sp_Database :: string
  sp_Schemas :: "string list"

fun check_schemas :: "string list \<Rightarrow> engine_error option" where
  "check_schemas [] = None"
| "check_schemas (x # xs) = (if TrimSpace x = [] then Some (Kinded ErrInvalidSpec ''empty dump schema pattern'')
     else if CHR '','' \<in> set x then Some (Kinded ErrInvalidSpec (''dump schema pattern '' @ quoted x
       @ '' contains a comma, which cannot be stored; match that character with the ? wildcard outside double quotes''))
     else check_schemas xs)"

definition Validate_dump :: "seeding \<Rightarrow> SeedDumpSpec \<Rightarrow> engine_error option" where
  "Validate_dump S s = (case Validate S (SeedSpec.truncate s) of Some e \<Rightarrow> Some e | None \<Rightarrow> check_schemas (sp_Schemas s))"

definition shellQuote :: "string \<Rightarrow> string" where
  "shellQuote s = CHR 0x27 # replace_all s [CHR 0x27] quote_escape @ [CHR 0x27]"

definition schemaFlags :: "string list \<Rightarrow> string" where
  "schemaFlags schemas = concat (map (\<lambda>x. '' -n '' @ shellQuote x) schemas)"

definition dumpSpec :: "seeding \<Rightarrow> SeedDumpSpec \<Rightarrow> HelperSpec" where
  "dumpSpec S s = (let db = (if sp_Database s = [] then ''postgres'' else sp_Database s);
       settle = (case ParseSettleMode (ss_Settle s) of Inr m \<Rightarrow> m | Inl e \<Rightarrow> [])
     in helper_spec\<lparr>hs_Image := ss_Image s, hs_User := helperUser (SeedSpec.truncate s),
       hs_Cmd := [''bash'', ''-c'', sd_dumpScript S (schemaFlags (sp_Schemas s))],
       hs_Env := [''PGB_DATA=/seed/data'', ''PGB_USER='' @ ss_User s, ''PGB_PASSWORD='' @ ss_Password s, ''PGB_DB='' @ db,
         ''PGB_SCOPED='' @ (if sp_Schemas s \<noteq> [] then ''1'' else []), ''PGB_REMOTE_HOST='' @ ss_Host s, ''PGB_REMOTE_PORT='' @ int_dec (ss_Port s),
         ''PGB_SSLMODE='' @ sslMode S (SeedSpec.truncate s), ''PGB_CONNECT_TIMEOUT='' @ int_dec ConnectTimeoutSeconds, ''PGB_SETTLE='' @ settle],
       hs_Mounts := [seedMount (SeedSpec.truncate s)], hs_Network := ss_Network s\<rparr>)"

definition SeedDump :: "seeding \<Rightarrow> 'rt env \<Rightarrow> SeedDumpSpec \<Rightarrow> ('rt, unit) op" where
  "SeedDump S E s =
     seq_ok (check_err (Validate_dump S s)) (\<lambda>_.
     seq_ok (wrap_err ''prepare seed volume'' (RunHelper E (prepareSpec (SeedSpec.truncate s)))) (\<lambda>_.
     attempt (RunHelper E (dumpSpec S s))
       (\<lambda>e. fail_with (Marked ErrSeedFailed (Wrap (''pg_dump seed from '' @ seed_addr (SeedSpec.truncate s)) e)))
       (\<lambda>out. ok ())))"

section \<open>Sources\<close>

definition seedTarget :: "engine \<Rightarrow> string \<Rightarrow> string \<times> MountKind" where
  "seedTarget G layer = (if zfs G then (Mountpoint layer, MountHostPath) else (layer, MountVolume))"

definition seed_spec :: "seeding \<Rightarrow> engine \<Rightarrow> source \<Rightarrow> string \<Rightarrow> string \<Rightarrow> string \<Rightarrow> SeedSpec" where
  "seed_spec S G s layer password owner = \<lparr>ss_Image = image G s, ss_Volume = fst (seedTarget G layer), ss_MountKind = snd (seedTarget G layer),
     ss_Network = src_Network s, ss_Host = src_ConnHost s, ss_Port = src_ConnPort s, ss_User = src_ConnUser s, ss_Password = password,
     ss_SSLMode = [], ss_Settle = sd_seedSettle S, ss_Owner = owner\<rparr>"

definition dump_spec :: "source \<Rightarrow> SeedSpec \<Rightarrow> SeedDumpSpec" where
  "dump_spec s spec = SeedSpec.extend spec (SeedDumpSpec.fields (src_ConnDB s) (src_DumpSchemas s))"

definition seedSource :: "seeding \<Rightarrow> engine \<Rightarrow> 'rt env \<Rightarrow> source \<Rightarrow> string \<Rightarrow> string \<Rightarrow> ('rt, unit) op" where
  "seedSource S G E s layer password =
     seq_ok (DetectOwner E (image G s)) (\<lambda>owner.
     let spec = seed_spec S G s layer password owner
     in if src_SeedVia s = ''dump'' then SeedDump S E (dump_spec s spec)
        else seq_ok (Seed S E spec) (\<lambda>_. Settle S E spec))"

definition reg_create_source :: "'rt env \<Rightarrow> source \<Rightarrow> ('rt, source) op" where
  "reg_create_source E s = reg_write E (\<lambda>t d. CreateSourceCtx (e_actor E) (stamp E t) (e_newID E t d) s d)"

definition reg_source_state :: "'rt env \<Rightarrow> string \<Rightarrow> source_state \<Rightarrow> string \<Rightarrow> ('rt, unit) op" where
  "reg_source_state E sid to reason = reg_write E (\<lambda>t d. no_result (SetSourceStateCtx (e_actor E) (stamp E t) sid to reason d))"

definition reg_source_pending :: "'rt env \<Rightarrow> string \<Rightarrow> string \<Rightarrow> ('rt, unit) op" where
  "reg_source_pending E sid vol = reg_write E (\<lambda>t d. no_result (SetSourcePendingVolume sid vol d))"

definition reg_bump_source :: "'rt env \<Rightarrow> string \<Rightarrow> string \<Rightarrow> ('rt, unit) op" where
  "reg_bump_source E sid vol = reg_write E (\<lambda>t d. no_result (BumpSourceGenerationCtx (e_actor E) (stamp E t) sid vol d))"

definition sourceLabels :: "engine \<Rightarrow> string \<Rightarrow> labels" where
  "sourceLabels G name = instanceLabels G [(''pgoverlay.managed'', ''true''), (''pgoverlay.source.name'', name)]"

definition checkSourceName :: "string \<Rightarrow> ('rt, unit) op" where
  "checkSourceName name = (case validateSourceName name of None \<Rightarrow> ok () | Some (k, n) \<Rightarrow> fail_with (invalidNameError k n))"

text \<open>The connection settings \<open>AddSource\<close> checks before any row or layer exists.\<close>

definition conn_spec :: "source \<Rightarrow> SeedDumpSpec" where
  "conn_spec s = \<lparr>ss_Image = [], ss_Volume = [], ss_MountKind = MountVolume, ss_Network = [], ss_Host = src_ConnHost s, ss_Port = src_ConnPort s,
     ss_User = src_ConnUser s, ss_Password = [], ss_SSLMode = [], ss_Settle = [], ss_Owner = [], sp_Database = [], sp_Schemas = src_DumpSchemas s\<rparr>"

text \<open>\<open>AddSource\<close> up to the seeded layer, and its last step. The heartbeat of \<open>trackSeeding\<close> is interference.\<close>

definition addSourceSeeded :: "seeding \<Rightarrow> engine \<Rightarrow> 'rt env \<Rightarrow> source \<Rightarrow> string \<Rightarrow> ('rt, source) op" where
  "addSourceSeeded S G E s0 password =
     seq_ok (checkSourceName (src_Name s0)) (\<lambda>_.
     seq_ok (wrap_err (''source '' @ quoted (src_Name s0)) (check_err (Validate_dump S (conn_spec s0)))) (\<lambda>_.
     seq_ok (reg_create_source E (s0\<lparr>src_Volume := SourceLayerName (g_planner G) (src_Name s0) 1\<rparr>)) (\<lambda>s.
     attempt (createSourceLayer G E (src_Volume s) (sourceLabels G (src_Name s)))
       (\<lambda>e. do { _ \<leftarrow> logCompensationErr (reg_source_state E (src_ID s) SourceFailed ''source layer create failed''); fail_with e }) (\<lambda>_.
     attempt (seedSource S G E s (src_Volume s) password)
       (\<lambda>e. do { _ \<leftarrow> logCompensationErr (removeSourceLayer G E (src_Volume s));
          _ \<leftarrow> logCompensationErr (reg_source_state E (src_ID s) SourceFailed (failureReason (e_regText E) e));
          fail_with (Wrap (''seed source '' @ quoted (src_Name s)) e) })
       (\<lambda>_. ok s)))))"

definition AddSource :: "seeding \<Rightarrow> engine \<Rightarrow> 'rt env \<Rightarrow> source \<Rightarrow> string \<Rightarrow> ('rt, unit) op" where
  "AddSource S G E s0 password = seq_ok (addSourceSeeded S G E s0 password) (\<lambda>s. reg_source_state E (src_ID s) SourceReady ''seed complete'')"

definition releaseClaim :: "'rt env \<Rightarrow> string \<Rightarrow> ('rt, unit) act" where
  "releaseClaim E sid = logCompensationErr (reg_source_pending E sid [])"

text \<open>\<open>RefreshSource\<close> up to the seeded layer of the next generation, and its commit.\<close>

definition refreshSeeded :: "seeding \<Rightarrow> engine \<Rightarrow> 'rt env \<Rightarrow> string \<Rightarrow> string \<Rightarrow> ('rt, source \<times> string) op" where
  "refreshSeeded S G E name password =
     seq_ok (reg_read E (GetSourceByName name)) (\<lambda>src.
     if src_State src \<noteq> SourceReady
     then fail_with (Msg (''source '' @ quoted name @ '' is '' @ source_state_str (src_State src) @ '', not ready''))
     else let newVol = SourceLayerName (g_planner G) name (src_Generation src + 1)
     in seq_ok (wrap_err (''refresh source '' @ quoted name @ '': claim '' @ newVol) (reg_source_pending E (src_ID src) newVol)) (\<lambda>_.
     attempt (createSourceLayer G E newVol (sourceLabels G name))
       (\<lambda>e. do { _ \<leftarrow> releaseClaim E (src_ID src); fail_with e }) (\<lambda>_.
     attempt (seedSource S G E src newVol password)
       (\<lambda>e. do { _ \<leftarrow> logCompensationErr (removeSourceLayer G E newVol); _ \<leftarrow> releaseClaim E (src_ID src);
          fail_with (Wrap (''refresh source '' @ quoted name) e) })
       (\<lambda>_. ok (src, newVol)))))"

definition RefreshSource :: "seeding \<Rightarrow> engine \<Rightarrow> 'rt env \<Rightarrow> string \<Rightarrow> string \<Rightarrow> ('rt, unit) op" where
  "RefreshSource S G E name password = seq_ok (refreshSeeded S G E name password) (\<lambda>(src, newVol).
     seq_ok (reg_bump_source E (src_ID src) newVol) (\<lambda>_.
     do { _ \<leftarrow> gcSourceVolume G E (src_ID src) (src_Volume src); ok () }))"

end
