(* ===== verification/SagaCalculus.thy ===== *)
theory SagaCalculus
  imports Reconcile Seeding
begin

text \<open>
  A calculus for properties of sagas that relate the world before an operation to the world after it. The
  locale \<open>saga_relation\<close> takes a preorder on worlds and has one introduction rule per control construct of the
  model. Five locales extend it, each by more calls the relation survives: those that read (\<open>read_relation\<close>), those
  that observe and journal (\<open>probe_relation\<close>), those that restart instances (\<open>restart_relation\<close>), those that create volumes
  (\<open>build_relation\<close>), and all (\<open>engine_relation\<close>); each lifts the relation to the operations made of such calls.
  They are interpreted with the growth of the call log (here), the registry's steps (\<open>SagaSteps\<close>), the masking
  scripts (\<open>SagaMasking\<close>) and the resources a saga leaves behind (\<open>SagaCompensation\<close>).
\<close>

named_theorems saga_rules \<open>introduction rules for keeps\<close>

definition keeps :: "('rt world \<Rightarrow> 'rt world \<Rightarrow> bool) \<Rightarrow> ('rt, 'a) act \<Rightarrow> bool" where
  "keeps R m \<longleftrightarrow> (\<forall>w. R w (snd (run_state m w)))"

lemma keepsD: "keeps R m \<Longrightarrow> run_state m w = (x, w') \<Longrightarrow> R w w'"
  unfolding keeps_def by (metis snd_conv)

section \<open>Case distinctions\<close>

lemma keeps_case_sum [saga_rules]:
  "(\<And>e. r = Inl e \<Longrightarrow> keeps R (f e)) \<Longrightarrow> (\<And>x. r = Inr x \<Longrightarrow> keeps R (g x)) \<Longrightarrow> keeps R (case r of Inl e \<Rightarrow> f e | Inr x \<Rightarrow> g x)"
  by (cases r) simp_all

lemma keeps_case_option [saga_rules]:
  "(r = None \<Longrightarrow> keeps R m) \<Longrightarrow> (\<And>x. r = Some x \<Longrightarrow> keeps R (g x)) \<Longrightarrow> keeps R (case r of None \<Rightarrow> m | Some x \<Rightarrow> g x)"
  by (cases r) simp_all

lemma keeps_case_prod [saga_rules]: "(\<And>x y. r = (x, y) \<Longrightarrow> keeps R (g x y)) \<Longrightarrow> keeps R (case r of (x, y) \<Rightarrow> g x y)"
  by (cases r) simp

lemma keeps_case_list [saga_rules]:
  "(r = [] \<Longrightarrow> keeps R m) \<Longrightarrow> (\<And>x xs. r = x # xs \<Longrightarrow> keeps R (g x xs)) \<Longrightarrow> keeps R (case r of [] \<Rightarrow> m | x # xs \<Rightarrow> g x xs)"
  by (cases r) simp_all

lemma keeps_case_bool [saga_rules]: "keeps R m \<Longrightarrow> keeps R m' \<Longrightarrow> keeps R (case r of True \<Rightarrow> m | False \<Rightarrow> m')"
  by (cases r) simp_all

lemma keeps_case_nat [saga_rules]: "keeps R m \<Longrightarrow> (\<And>n. r = Suc n \<Longrightarrow> keeps R (g n)) \<Longrightarrow> keeps R (case r of 0 \<Rightarrow> m | Suc n \<Rightarrow> g n)"
  by (cases r) simp_all

lemma keeps_if [saga_rules]: "(b \<Longrightarrow> keeps R m) \<Longrightarrow> (\<not> b \<Longrightarrow> keeps R m') \<Longrightarrow> keeps R (if b then m else m')"
  by simp

lemma keeps_let [saga_rules]: "(\<And>x. keeps R (f x)) \<Longrightarrow> keeps R (let x = e in f x)"
  by (simp add: Let_def)

lemma keeps_list_all [saga_rules]:
  "list_all (keeps R) []" "keeps R m \<Longrightarrow> list_all (keeps R) ms \<Longrightarrow> list_all (keeps R) (m # ms)"
  "list_all (keeps R) ms \<Longrightarrow> list_all (keeps R) ms' \<Longrightarrow> list_all (keeps R) (ms @ ms')"
  "list_all (keeps R) ms \<Longrightarrow> list_all (keeps R) (rev ms)"
  by simp_all

section \<open>Running the calls\<close>

lemma run_tick: "run_state (tick E) w = (w_tick w, w\<lparr>w_tick := w_tick w + 1, w_db := e_interfere E (w_tick w) (w_db w)\<rparr>)"
  by (simp add: tick_def)

lemma run_reg_read: "run_state (reg_read E f) w =
    (let w1 = w\<lparr>w_tick := w_tick w + 1, w_db := e_interfere E (w_tick w) (w_db w)\<rparr>
     in (case e_regFault E (w_tick w) of Some m \<Rightarrow> Inl (Msg m)
         | None \<Rightarrow> (case f (w_db w1) of Inl e \<Rightarrow> Inl (RegErr e) | Inr x \<Rightarrow> Inr x), w1))"
  by (simp add: reg_read_def run_tick Let_def)

lemma run_reg_write: "run_state (reg_write E f) w =
    (let w1 = w\<lparr>w_tick := w_tick w + 1, w_db := e_interfere E (w_tick w) (w_db w)\<rparr>
     in case e_regFault E (w_tick w) of Some m \<Rightarrow> (Inl (Msg m), w1)
        | None \<Rightarrow> (case f (w_tick w) (w_db w1) of Inl e \<Rightarrow> (Inl (RegErr e), w1) | Inr (x, d) \<Rightarrow> (Inr x, w1\<lparr>w_db := d\<rparr>)))"
  by (simp add: reg_write_def run_tick Let_def)

lemma run_attempt: "run_state (attempt m h k) w =
    (case run_state m w of (Inl e, w1) \<Rightarrow> run_state (h e) w1 | (Inr x, w1) \<Rightarrow> run_state (k x) w1)"
  by (simp add: attempt_def split: prod.splits sum.splits)

lemma run_ok [simp]: "run_state (ok x) w = (Inr x, w)" "run_state (fail_with e) w = (Inl e, w)"
  by (simp_all add: ok_def fail_with_def)

lemma run_seq_ok: "run_state (seq_ok m k) w =
    (case run_state m w of (Inl e, w1) \<Rightarrow> (Inl e, w1) | (Inr x, w1) \<Rightarrow> run_state (k x) w1)"
  by (simp add: seq_ok_def run_attempt split: prod.splits sum.splits)

lemma run_seq_ok_ok: "snd (run_state (seq_ok m (\<lambda>_. ok x)) w) = snd (run_state m w)"
  by (simp add: run_seq_ok split: prod.splits sum.splits)

text \<open>Sequencing is a monad, so a saga may be cut into stages anywhere.\<close>

lemma seq_ok_assoc: "seq_ok (seq_ok m k) l = seq_ok m (\<lambda>x. seq_ok (k x) l)"
  "seq_ok (State_Monad.bind n k') l = State_Monad.bind n (\<lambda>x. seq_ok (k' x) l)" "seq_ok (ok x) l' = l' x"
  by (rule state.expand, rule ext, simp add: run_seq_ok split: prod.splits sum.splits)+

text \<open>Runs that succeed have succeeded in every step; \<open>fails\<close> marks the compensating continuations, which never do.\<close>

definition fails :: "('rt, 'a) op \<Rightarrow> bool" where
  "fails m \<longleftrightarrow> (\<forall>w x. fst (run_state m w) \<noteq> Inr x)"

lemma run_attempt_InrE:
  assumes "run_state (attempt m h k) w = (Inr y, w')" "\<And>e. fails (h e)"
  obtains x w1 where "run_state m w = (Inr x, w1)" "run_state (k x) w1 = (Inr y, w')"
proof -
  obtain r w1 where m: "run_state m w = (r, w1)" by (cases "run_state m w")
  show thesis
  proof (cases r)
    case (Inl e)
    then show thesis using assms(1) assms(2)[of e] by (auto simp: run_attempt m fails_def) (metis fst_conv)
  next
    case (Inr x)
    then show thesis using assms(1) m that by (simp add: run_attempt)
  qed
qed

lemma fails_rules [simp]: "fails (fail_with e)" "fails (unwind undo e)" "fails (csiFail G E p src undo e)"
  "fails (freezeFail G E parent src chain undo e)" "(\<And>x. fails (k x)) \<Longrightarrow> fails (State_Monad.bind m k)"
  by (auto simp: fails_def unwind_def csiFail_def freezeFail_def split: prod.splits)

lemma run_seq_ok_InrE:
  assumes "run_state (seq_ok m k) w = (Inr y, w')"
  obtains x w1 where "run_state m w = (Inr x, w1)" "run_state (k x) w1 = (Inr y, w')"
  using assms unfolding seq_ok_def by (rule run_attempt_InrE) simp_all

lemma run_wrap_err_Inr [simp]: "run_state (wrap_err s m) w = (Inr y, w') \<longleftrightarrow> run_state m w = (Inr y, w')"
  by (auto simp: wrap_err_def run_attempt split: prod.splits sum.splits)

lemma run_bindE:
  assumes "run_state (State_Monad.bind m k) w = (y, w')"
  obtains x w1 where "run_state m w = (x, w1)" "run_state (k x) w1 = (y, w')"
  using assms by (cases "run_state m w") simp

text \<open>The total counterpart: from world \<open>w\<close> the operation returns a result, and it is in \<open>Q\<close>.\<close>

definition succeeds :: "('rt, 'a) op \<Rightarrow> 'rt world \<Rightarrow> ('a \<Rightarrow> 'rt world \<Rightarrow> bool) \<Rightarrow> bool" where
  "succeeds m w Q \<longleftrightarrow> (\<exists>x w'. run_state m w = (Inr x, w') \<and> Q x w')"

lemma succeeds_attempt: "succeeds m w (\<lambda>x w1. succeeds (k x) w1 Q) \<Longrightarrow> succeeds (attempt m h k) w Q"
  by (auto simp: succeeds_def run_attempt)

lemma succeeds_seq: "succeeds m w (\<lambda>x w1. succeeds (k x) w1 Q) \<Longrightarrow> succeeds (seq_ok m k) w Q"
  by (auto simp: succeeds_def run_seq_ok)

lemma succeeds_bind: "run_state m w = (x, w1) \<Longrightarrow> succeeds (k x) w1 Q \<Longrightarrow> succeeds (State_Monad.bind m k) w Q"
  by (auto simp: succeeds_def)

lemma succeeds_ok [simp]: "succeeds (ok y) w Q \<longleftrightarrow> Q y w"
  by (simp add: succeeds_def)

lemma succeeds_run: "run_state m w = (Inr x, w') \<Longrightarrow> Q x w' \<Longrightarrow> succeeds m w Q"
  by (auto simp: succeeds_def)

lemma succeeds_mono: "succeeds m w Q \<Longrightarrow> (\<And>x w'. Q x w' \<Longrightarrow> Q' x w') \<Longrightarrow> succeeds m w Q'"
  by (auto simp: succeeds_def)

section \<open>Preorders on worlds\<close>

locale saga_relation =
  fixes R :: "'rt world \<Rightarrow> 'rt world \<Rightarrow> bool"
  assumes R_refl: "R w w"
    and R_trans: "R w w1 \<Longrightarrow> R w1 w2 \<Longrightarrow> R w w2"
    and R_count: "R w (w\<lparr>w_compensationFailures := w_compensationFailures w + 1\<rparr>)"
begin

lemma keeps_return [saga_rules]: "keeps R (State_Monad.return x)" "keeps R (ok x)" "keeps R (fail_with e)"
  by (simp_all add: keeps_def ok_def fail_with_def R_refl)

lemma keeps_bind [saga_rules]:
  assumes "keeps R m" "\<And>x. keeps R (f x)"
  shows "keeps R (State_Monad.bind m f)"
  unfolding keeps_def
proof
  fix w
  obtain x w1 where m: "run_state m w = (x, w1)" by (cases "run_state m w")
  then show "R w (snd (run_state (State_Monad.bind m f) w))"
    using R_trans[OF keepsD[OF assms(1) m]] assms(2)[of x] by (simp add: keeps_def)
qed

lemma keeps_State [saga_rules]: "(\<And>w. R w (snd (f w))) \<Longrightarrow> keeps R (State f)"
  by (simp add: keeps_def)

lemma keeps_attempt [saga_rules]: "keeps R m \<Longrightarrow> (\<And>e. keeps R (h e)) \<Longrightarrow> (\<And>x. keeps R (k x)) \<Longrightarrow> keeps R (attempt m h k)"
  unfolding attempt_def by (intro saga_rules)

lemma keeps_seq_ok [saga_rules]: "keeps R m \<Longrightarrow> (\<And>x. keeps R (k x)) \<Longrightarrow> keeps R (seq_ok m k)"
  unfolding seq_ok_def by (intro saga_rules)

lemma keeps_wrap_err [saga_rules]: "keeps R m \<Longrightarrow> keeps R (wrap_err s m)"
  unfolding wrap_err_def by (intro saga_rules)

lemma keeps_log [saga_rules]: "keeps R m \<Longrightarrow> keeps R (logCompensationErr m)"
  unfolding logCompensationErr_def using R_count by (intro saga_rules) simp_all

lemma keeps_run_all [saga_rules]: "list_all (keeps R) ms \<Longrightarrow> keeps R (run_all ms)"
  by (induction ms) (auto intro!: saga_rules)

lemma keeps_unwind [saga_rules]: "list_all (keeps R) ms \<Longrightarrow> keeps R (unwind ms e)"
  unfolding unwind_def by (intro saga_rules) simp_all

lemma keeps_check [saga_rules]: "keeps R (check_err r)" "keeps R (checkSourceName name)"
  unfolding check_err_def checkSourceName_def by (intro saga_rules)+

end

lemma keeps_drv_call:
  assumes "keeps R (tick E)" "\<And>w w1 w2. R w w1 \<Longrightarrow> R w1 w2 \<Longrightarrow> R w w2"
    and "\<And>w r s. f (w_rt w) = (r, s) \<Longrightarrow> R w (w\<lparr>w_rt := s, w_log := w_log w @ [ev r]\<rparr>)"
  shows "keeps R (drv_call E ev f)"
  unfolding keeps_def
proof
  fix w :: "'a world"
  let ?w1 = "w\<lparr>w_tick := w_tick w + 1, w_db := e_interfere E (w_tick w) (w_db w)\<rparr>"
  obtain r s where f: "f (w_rt ?w1) = (r, s)" by fastforce
  have "R w ?w1" using assms(1) by (simp add: keeps_def tick_def)
  then show "R w (snd (run_state (drv_call E ev f) w))"
    using assms(2)[OF _ assms(3)[OF f]] f by (simp add: drv_call_def tick_def)
qed

lemma keeps_diagnose:
  "(\<And>w s. R w (w\<lparr>w_rt := s\<rparr>)) \<Longrightarrow> (\<And>w. R w w) \<Longrightarrow> keeps R (DiagnoseContainer E cid)"
  by (simp add: keeps_def DiagnoseContainer_def split: option.splits prod.splits)

section \<open>Relations the reading calls respect\<close>

text \<open>A relation that survives time and interference, registry reads and the runtime calls that only list and inspect.\<close>

locale read_relation = saga_relation R for R :: "'rt world \<Rightarrow> 'rt world \<Rightarrow> bool" +
  fixes E :: "'rt env"
  assumes tick_rule: "keeps R (tick E)"
    and inspect_rule: "keeps R (Inspect E cid)"
    and list_volumes_rule: "keeps R (ListManagedVolumes E inst)"
    and list_managed_rule: "keeps R (ListManaged E)"
    and list_helpers_rule: "keeps R (ListHelpers E)"
begin

lemmas read_rules [saga_rules] = tick_rule inspect_rule list_volumes_rule list_managed_rule list_helpers_rule

lemma keeps_reg_read [saga_rules]: "keeps R (reg_read E f)"
  unfolding reg_read_def by (intro saga_rules) (simp_all add: R_refl)

lemma keeps_reads [saga_rules]: "keeps R (reg_branch_by_name E name)" "keeps R (reg_branch_by_id E eid)"
  unfolding reg_branch_by_name_def reg_branch_by_id_def by (intro saga_rules)+

lemma keeps_policies [saga_rules]:
  "keeps R (checkQuota G E)" "keeps R (expiresAtFor G E ttl)" "keeps R (reg_fresh_layer G E name g)"
  "keeps R (checkLayerDepth G b chain)" "keeps R (checkName name)" "keeps R (checkChildCommitted G b)"
  unfolding checkQuota_def expiresAtFor_def reg_fresh_layer_def checkLayerDepth_def checkName_def checkChildCommitted_def
  by (intro saga_rules)+

lemma keeps_checks [saga_rules]:
  "keeps R (csiQuiesceTarget E b)" "keeps R (checkCSIChildBase G E b)" "keeps R (checkChildrenAllowReprovision G E b)"
  unfolding csiQuiesceTarget_def checkCSIChildBase_def checkChildrenAllowReprovision_def by (intro saga_rules)+

lemma keeps_checkLayersUnused [saga_rules]: "keeps R (checkLayersUnused E name ls)"
  by (induction ls) (auto intro!: saga_rules)

lemma keeps_claimed [saga_rules]: "keeps R (claimed E key)"
  unfolding claimed_def by (intro saga_rules)

lemma keeps_reg_branches [saga_rules]: "keeps R (reg_branches E f)"
  unfolding reg_branches_def by (intro saga_rules)

lemma keeps_plan_loops [saga_rules]:
  "keeps R (plan_sources E n ss)" "keeps R (busy_names E bs)" "keeps R (plan_layers E ls)"
proof -
  show "keeps R (plan_sources E n ss)" by (induction ss) (auto intro!: saga_rules)
  show "keeps R (busy_names E bs)" by (induction bs) (auto intro!: saga_rules)
  show "keeps R (plan_layers E ls)" by (induction ls) (auto intro!: saga_rules)
qed

lemma keeps_PlanReconcile [saga_rules]: "keeps R (PlanReconcile G E now n)"
  unfolding PlanReconcile_def Let_def by (intro saga_rules)

lemma keeps_with [saga_rules]:
  "(\<And>b. keeps R (k b)) \<Longrightarrow> keeps R (with_branch E name k)" "(\<And>i. keeps R (k' i)) \<Longrightarrow> keeps R (with_container E cid k')"
  unfolding with_branch_def with_container_def by (intro saga_rules; assumption)+

lemma keeps_ignore [saga_rules]: "keeps R m \<Longrightarrow> keeps R (ignore_err m)"
  unfolding ignore_err_def by (intro saga_rules)

end

section \<open>Relations the observing calls respect\<close>

text \<open>In addition the registry is journaled in and commands run in containers.\<close>

locale probe_relation = read_relation +
  assumes cow_rule: "R w (w\<lparr>w_cowModes := ms\<rparr>)"
    and diagnose_rule: "keeps R (DiagnoseContainer E cid)"
    and transition_rule: "keeps R (reg_transition E eid to reason)"
    and mark_ready_rule: "keeps R (reg_mark_ready E eid cid host port)"
    and set_container_rule: "keeps R (reg_set_container E eid cid)"
    and touch_rule: "keeps R (reg_touch_branch E eid)"
    and note_rule: "keeps R (reg_note E eid reason)"
    and password_rule: "keeps R (reg_set_password E eid pw)"
    and pending_rule: "keeps R (reg_set_pending E eid vol)"
    and exec_rule: "keeps R (Exec E cid cmd)"
    and exec_output_rule: "keeps R (ExecOutput E cid cmd)"
    and fail_stuck_rule: "keeps R (reg_fail_stuck E eid before reason)"
    and fail_stuck_source_rule: "keeps R (reg_fail_stuck_source E eid before reason)"
    and endpoint_rule: "keeps R (reg_update_endpoint E eid from cid host port)"
    and endpoint_ctx_rule: "keeps R (reg_update_endpoint_ctx E eid from cid host port reason)"
    and fail_ready_rule: "keeps R (reg_fail_ready E eid cid reason)"
    and refreshed_rule: "R w (w\<lparr>w_refreshed := rs\<rparr>)"
begin

lemmas probe_rules [saga_rules] = diagnose_rule transition_rule mark_ready_rule set_container_rule
  touch_rule note_rule password_rule pending_rule exec_rule exec_output_rule
  fail_stuck_rule fail_stuck_source_rule endpoint_rule endpoint_ctx_rule fail_ready_rule

lemma keeps_wait_timeout [saga_rules]: "keeps R (wait_timeout E cid lastErr)"
  unfolding wait_timeout_def by (intro saga_rules)

lemma keeps_wait_loop: "keeps R (wait_loop n E cid lastErr)"
proof (induction n arbitrary: lastErr)
  case (Suc n)
  show ?case unfolding wait_loop.simps by (intro saga_rules Suc)
qed (simp add: keeps_wait_timeout)

lemma keeps_inspect_loop: "keeps R (inspect_loop n E cid)"
proof (induction n)
  case 0
  show ?case by (subst inspect_loop.simps, intro saga_rules) simp_all
next
  case (Suc n)
  show ?case by (subst inspect_loop.simps, intro saga_rules) (use Suc in simp_all)
qed

lemma keeps_waits [saga_rules]: "keeps R (waitReady E cid)" "keeps R (inspectAddr E cid)"
  by (simp_all only: waitReady_def inspectAddr_def keeps_wait_loop keeps_inspect_loop)

lemma keeps_cow [saga_rules]: "keeps R (cowModes_set eid m)" "keeps R (cowModes_forget eid)"
  by (simp_all add: cowModes_set_def cowModes_forget_def keeps_def cow_rule)

lemma keeps_observe [saga_rules]: "keeps R (observeCowMode G E b cid)"
  unfolding observeCowMode_def readCowMode_def by (intro saga_rules)

lemma keeps_run_masks [saga_rules]: "keeps R (run_masks E cid src scripts)"
proof (induction scripts)
  case (Cons s scripts)
  then show ?case by (cases s) (auto intro!: saga_rules)
qed (simp add: saga_rules)

lemma keeps_tail [saga_rules]:
  "keeps R (applyMasking E cid src)" "keeps R (rotateBranchCredentials G E cid b src)"
  unfolding applyMasking_def rotateBranchCredentials_def by (intro saga_rules)+

lemma keeps_awaitAndMark [saga_rules]: "keeps R (awaitAndMark G E b src cid)"
  unfolding awaitAndMark_def by (intro saga_rules)

lemma keeps_enterDestroying [saga_rules]: "keeps R (enterDestroying E b)"
  unfolding enterDestroying_def Let_def by (cases "b_State b") (simp_all add: saga_rules)

lemma keeps_applyUpdateEndpoint [saga_rules]: "keeps R (applyUpdateEndpoint E target)"
  unfolding applyUpdateEndpoint_def by (intro saga_rules)

lemma keeps_allowRefresh [saga_rules]: "keeps R (allowRefresh name now)"
  unfolding allowRefresh_def by (rule keeps_State) (simp add: R_refl refreshed_rule)

lemma keeps_RefreshBranchEndpoint: "keeps R (RefreshBranchEndpoint E name)"
  unfolding RefreshBranchEndpoint_def Let_def by (intro saga_rules)

end

section \<open>Relations that survive restarts\<close>

text \<open>In addition containers are started and stopped and helpers run; volumes stay as they are.\<close>

locale restart_relation = probe_relation +
  assumes start_rule: "keeps R (StartBranch E bspec)"
    and stop_rule: "keeps R (StopRemove E cid)"
    and helper_rule: "keeps R (RunHelper E spec)"
begin

lemmas restart_rules [saga_rules] = start_rule stop_rule helper_rule

lemma keeps_layers [saga_rules]:
  "keeps R (installOverlayEntrypoint G E v)" "keeps R (startOverlayBranch G E name plan img ls)"
  "keeps R (startZFSBranch G E b img)" "keeps R (startDirectBranch E name v img ls)" "keeps R (installDirectEntrypoint G E v)"
  "keeps R (runZFS E spec)"
  unfolding installOverlayEntrypoint_def startOverlayBranch_def startZFSBranch_def startDirectBranch_def
    installDirectEntrypoint_def runZFS_def by (intro saga_rules)+

lemma keeps_startOnOwnData [saga_rules]: "keeps R (startOnOwnData G E b src chain)"
  unfolding startOnOwnData_def by (intro saga_rules)+

lemma keeps_restart [saga_rules]: "keeps R (restartAndMarkReady G E b src chain)"
  unfolding restartAndMarkReady_def restartOnOwnData_def by (intro saga_rules)

lemma keeps_parent [saga_rules]:
  "keeps R (restartCSIBranch G E b src cause)" "keeps R (quiesceParent E b src r1 r2 r3)" "keeps R (restoreParent G E b src chain e)"
  unfolding restartCSIBranch_def quiesceParent_def restoreParent_def by (intro saga_rules)+

lemma keeps_fails [saga_rules]:
  "list_all (keeps R) undo \<Longrightarrow> keeps R (csiFail G E p src undo e)"
  "list_all (keeps R) undo \<Longrightarrow> keeps R (freezeFail G E parent src chain undo e)"
  unfolding csiFail_def freezeFail_def by ((intro saga_rules; assumption)+)

lemma keeps_provisionZFS [saga_rules]: "keeps R (provisionZFS G E b src)"
  unfolding provisionZFS_def Let_def by (intro saga_rules)

lemma keeps_checkBranchData [saga_rules]: "keeps R (checkBranchData G E b chain)"
  unfolding checkBranchData_def by (intro saga_rules)

lemma keeps_RecoverBranch: "keeps R (RecoverBranch G E name)"
  unfolding RecoverBranch_def Let_def by (intro saga_rules)

lemma keeps_restart_ready [saga_rules]: "keeps R (removeStrayBranchContainer G E b)" "keeps R (notReady E b cid e)"
  unfolding removeStrayBranchContainer_def notReady_def by (intro saga_rules)+

lemma keeps_restartBranch [saga_rules]: "keeps R (restartBranch G E b why)"
  unfolding restartBranch_def Let_def by (intro saga_rules)

lemma keeps_container_actions [saga_rules]:
  "keeps R (applyRestartBranch G E target reason)" "keeps R (applyRemoveOrphanContainer E target)" "keeps R (applyRemoveOrphanHelper E target)"
  unfolding applyRestartBranch_def applyRemoveOrphanContainer_def applyRemoveOrphanHelper_def by (intro saga_rules)+

lemma keeps_seedSource [saga_rules]: "keeps R (seedSource S G E src layer password)"
  unfolding seedSource_def DetectOwner_def SeedDump_def Seed_def Settle_def Let_def by (intro saga_rules)

end

section \<open>Relations the building calls respect\<close>

text \<open>
  In addition volumes are created. Nothing is removed but what the caller allows: the rules of the provisioning
  sagas ask for the volume the saga made itself.
\<close>

locale build_relation = restart_relation +
  assumes create_rule: "keeps R (CreateVolume E v ls)"
    and clone_rule: "keeps R (CloneVolume E v v' ls)"
begin

lemmas build_rules [saga_rules] = create_rule clone_rule

lemma keeps_createSourceLayer [saga_rules]: "keeps R (createSourceLayer G E v ls)"
  unfolding createSourceLayer_def by (intro saga_rules)

lemma keeps_provisionOverlay:
  "keeps R (RemoveVolume E (b_RWVolume b)) \<Longrightarrow> keeps R (provisionOverlay G E b src)"
  unfolding provisionOverlay_def Let_def PlanBranch_def by (intro saga_rules) (simp_all add: saga_rules)

lemma keeps_provisionCSI:
  "keeps R (RemoveVolume E (b_RWVolume b)) \<Longrightarrow> keeps R (provisionCSI G E b src)"
  unfolding provisionCSI_def Let_def by (intro saga_rules)

lemma keeps_provision: "keeps R (RemoveVolume E (b_RWVolume b)) \<Longrightarrow> keeps R (provision G E b src)"
  unfolding provision_def by (intro saga_rules keeps_provisionOverlay keeps_provisionCSI)

end

section \<open>Relations every call respects\<close>

locale engine_relation = build_relation +
  assumes remove_rule: "keeps R (RemoveVolume E v)"
begin

lemmas engine_rules [saga_rules] = remove_rule keeps_provision[OF remove_rule]
  keeps_provisionOverlay[OF remove_rule] keeps_provisionCSI[OF remove_rule]

lemma keeps_backend_layers [saga_rules]: "keeps R (removeSourceLayer G E v)" "keeps R (removeBranchLayer G E b)"
  unfolding removeSourceLayer_def removeBranchLayer_def by (intro saga_rules)+

lemma keeps_ResetBranch: "keeps R (ResetBranch G E name)"
  unfolding ResetBranch_def Let_def by (intro saga_rules)

lemma keeps_destroy_parts [saga_rules]:
  "keeps R (teardownBranch G E b guarded)" "keeps R (gcSourceVolume G E sid v)"
  unfolding teardownBranch_def gcSourceVolume_def by (intro saga_rules)+

lemma keeps_removeLayerVolumes [saga_rules]: "keeps R (removeLayerVolumes G E ls)"
  by (induction ls) (auto intro!: saga_rules)

lemma keeps_volume_actions [saga_rules]:
  "keeps R (applyFailStuck G E p target)" "keeps R (applyFailStuckSource G E p target)" "keeps R (applyGCVolume E target)"
  unfolding applyFailStuck_def applyFailStuckSource_def applyGCVolume_def Let_def by (intro saga_rules)+

end

section \<open>Relations the source calls respect\<close>

locale source_relation = engine_relation +
  assumes create_source_rule: "keeps R (reg_create_source E s)"
    and source_state_rule: "keeps R (reg_source_state E sid sto reason)"
    and source_pending_rule: "keeps R (reg_source_pending E sid vol)"
    and bump_source_rule: "keeps R (reg_bump_source E sid vol)"
begin

lemmas source_rules [saga_rules] = create_source_rule source_state_rule source_pending_rule bump_source_rule

lemma keeps_AddSource: "keeps R (AddSource S G E s password)"
  unfolding AddSource_def addSourceSeeded_def by (intro saga_rules)

lemma keeps_RefreshSource: "keeps R (RefreshSource S G E name password)"
  unfolding RefreshSource_def refreshSeeded_def releaseClaim_def Let_def by (intro saga_rules)

end

section \<open>Every operation extends the call log\<close>

lemmas driver_defs = CreateVolume_def RemoveVolume_def CloneVolume_def RunHelper_def StartBranch_def Exec_def ExecOutput_def
  Inspect_def StopRemove_def ListManagedVolumes_def ListManaged_def ListHelpers_def

lemmas reg_call_defs = reg_transition_def reg_mark_ready_def reg_set_container_def reg_touch_branch_def reg_note_def
  reg_set_password_def reg_set_pending_def reg_fail_stuck_def reg_fail_stuck_source_def reg_update_endpoint_def
  reg_update_endpoint_ctx_def reg_fail_ready_def

definition log_grows :: "'rt world \<Rightarrow> 'rt world \<Rightarrow> bool" where
  "log_grows w w' \<longleftrightarrow> (\<exists>es. w_log w' = w_log w @ es)"

lemma log_grows_trans: "log_grows w w1 \<Longrightarrow> log_grows w1 w2 \<Longrightarrow> log_grows w w2"
  by (auto simp: log_grows_def)

lemma log_grows_same: "w_log w' = w_log w \<Longrightarrow> log_grows w w'"
  by (simp add: log_grows_def)

lemma log_grows_write: "keeps log_grows (reg_write E f)"
  by (auto simp: keeps_def log_grows_def reg_write_def tick_def split: sum.splits option.splits)

lemma log_grows_tick: "keeps log_grows (tick E)"
  by (simp add: keeps_def log_grows_def tick_def)

lemma log_grows_call: "keeps log_grows (drv_call E ev f)"
  by (rule keeps_drv_call[OF log_grows_tick log_grows_trans]) (simp_all add: log_grows_def)

lemma log_grows_diagnose: "keeps log_grows (DiagnoseContainer E cid)"
  by (rule keeps_diagnose) (simp_all add: log_grows_same)

interpretation lg: engine_relation log_grows E for E
  by unfold_locales (auto intro: log_grows_trans log_grows_same log_grows_tick log_grows_diagnose
      simp: log_grows_write log_grows_call driver_defs reg_call_defs)

end
