(* ===== verification/SagaSteps.thy ===== *)
theory SagaSteps
  imports SagaCalculus RegistryProps
begin

text \<open>
  The engine refines the registry's transition system: whatever a saga does, whatever the driver returns and
  whatever runs beside it, the database moves by registry steps only, so everything proved of reachable
  databases holds under the engine. The calculus of theory \<open>SagaCalculus\<close>
  is instantiated with the reflexive transitive closure of the registry's steps.
\<close>

section \<open>Facts that survive registry steps\<close>

definition stable :: "(db \<Rightarrow> bool) \<Rightarrow> bool" where
  "stable P \<longleftrightarrow> (\<forall>d d'. P d \<longrightarrow> reg_step d d' \<longrightarrow> P d')"

lemma stableD: "stable P \<Longrightarrow> reg_step\<^sup>*\<^sup>* d d' \<Longrightarrow> P d \<Longrightarrow> P d'"
  by (rotate_tac 1, induction rule: rtranclp_induct) (auto simp: stable_def)

lemma stable_conj: "stable P \<Longrightarrow> stable Q \<Longrightarrow> stable (\<lambda>d. P d \<and> Q d)"
  by (auto simp: stable_def)

lemma stable_True: "stable (\<lambda>d. True)"
  by (simp add: stable_def)

lemma stable_db_ok: "stable db_ok"
  by (auto simp: stable_def intro: reg_step_ok)

text \<open>A branch id the journal knows, whose rows all belong to one source.\<close>

definition branch_from :: "string \<Rightarrow> string \<Rightarrow> db \<Rightarrow> bool" where
  "branch_from x s d \<longleftrightarrow> \<not> fresh_journal_id ''branch'' x d \<and> (\<forall>r \<in> set (branches d). br_id r = x \<longrightarrow> br_source_id r = s)"

definition rows_kept :: "db \<Rightarrow> db \<Rightarrow> bool" where
  "rows_kept d d' \<longleftrightarrow> (\<forall>r' \<in> set (branches d'). (\<exists>r \<in> set (branches d). br_id r = br_id r' \<and> br_source_id r = br_source_id r' \<and> br_name r = br_name r')
     \<or> fresh_journal_id ''branch'' (br_id r') d)"

lemma rows_keptI:
  "(\<And>r'. r' \<in> set (branches d') \<Longrightarrow> \<exists>r \<in> set (branches d). br_id r = br_id r' \<and> br_source_id r = br_source_id r' \<and> br_name r = br_name r') \<Longrightarrow> rows_kept d d'"
  by (auto simp: rows_kept_def)

lemma rows_kept_same: "branches d' = branches d \<Longrightarrow> rows_kept d d'"
  by (intro rows_keptI) auto

lemma rows_kept_journal [simp]: "rows_kept d (journalTx a now en eid f to r d1) = rows_kept d d1"
  by (simp add: rows_kept_def)

lemma rows_kept_upd [simp]:
  "(\<And>r. br_id (f r) = br_id r \<and> br_source_id (f r) = br_source_id r \<and> br_name (f r) = br_name r) \<Longrightarrow> rows_kept d (d\<lparr>branches := upd_where P f (branches d)\<rparr>)"
  by (rule rows_keptI) (auto simp: set_upd_where split: if_splits)

lemma rows_kept_other [simp]:
  "rows_kept d (d\<lparr>sources := ss\<rparr>)" "rows_kept d (d\<lparr>layers := ls\<rparr>)" "rows_kept d d"
  by (rule rows_kept_same, simp)+

lemma transitionBranch_rows:
  assumes "transitionBranch a now eid to reason g d = Inr d'" "\<And>r. br_id (g r) = br_id r \<and> br_source_id (g r) = br_source_id r \<and> br_name (g r) = br_name r"
  shows "rows_kept d d'"
  using assms(1) by (rule transitionBranch_InrD) (simp add: assms(2))

lemma CommitFreezeCtx_rows:
  assumes "CommitFreezeCtx a now nid parentID childID vol rw c h p reason d = Inr (l, d')"
  shows "rows_kept d d'"
  using assms by (rule CommitFreezeCtx_InrD) (rule rows_keptI, auto simp: set_upd_where split: if_splits)

lemma CreateBranchCtx_rows:
  assumes "CreateBranchCtx a now nid b0 d = Inr (b, d')" "fresh_journal_id ''branch'' nid d"
  shows "rows_kept d d'"
  using CreateBranchCtx_InrD[OF assms(1)] assms(2) by (auto simp: rows_kept_def)

lemma CreateSourceCtx_rows: "CreateSourceCtx a now nid s0 d = Inr (s, d') \<Longrightarrow> rows_kept d d'"
  by (erule CreateSourceCtx_InrD) (rule rows_kept_same, simp add: deleteFailedSources_frame(2))

lemma DeleteSourceCtx_rows_kept: "DeleteSourceCtx a now eid d = Inr d' \<Longrightarrow> rows_kept d d'"
  by (erule DeleteSourceCtx_InrD) (rule rows_keptI, auto)

lemma column_calls_rows:
  "store_branch_password now eid stored d = Inr d' \<Longrightarrow> rows_kept d d'"
  "rows_kept d (SetBranchContainer now eid c d)"
  "rows_kept d (TouchBranch now eid d)"
  "SetBranchPendingVolume eid vol d = Inr d' \<Longrightarrow> rows_kept d d'"
  "rows_kept d (snd (UpdateBranchEndpoint eid from c h p d))"
  "SetSourcePendingVolume eid vol d = Inr d' \<Longrightarrow> rows_kept d d'"
  "rows_kept d (TouchSource now eid d)"
  "DeleteLayer eid d = Inr d' \<Longrightarrow> rows_kept d d'"
  by (auto simp: SetSourcePendingVolume_def TouchSource_def store_branch_password_def SetBranchContainer_def TouchBranch_def
        SetBranchPendingVolume_def UpdateBranchEndpoint_def DeleteLayer_def Let_def split: if_splits)

lemma other_calls_rows:
  "DeleteFailedSources name d = Inr (n, d') \<Longrightarrow> rows_kept d d'"
  "rows_kept d (SetMaskScripts sid scripts d)"
  "CreateAPIToken hash now nid plain name role d = Inr (t, d') \<Longrightarrow> rows_kept d d'"
  "RevokeAPIToken name d = Inr d' \<Longrightarrow> rows_kept d d'"
  by (rule rows_kept_same;
      auto simp: DeleteFailedSources_def deleteFailedSources_def SetMaskScripts_def CreateAPIToken_def RevokeAPIToken_def Let_def
      split: if_splits option.splits)+

lemma transition_calls_rows:
  "TransitionBranchCtx a now eid to reason d = Inr d' \<Longrightarrow> rows_kept d d'"
  "MarkBranchReadyCtx a now eid c h p d = Inr d' \<Longrightarrow> rows_kept d d'"
  unfolding TransitionBranchCtx_def MarkBranchReadyCtx_def by (erule transitionBranch_rows; simp)+

lemma journaled_calls_rows:
  "SetSourceStateCtx a now eid sto reason d = Inr d' \<Longrightarrow> rows_kept d d'"
  "BumpSourceGenerationCtx a now eid vol d = Inr d' \<Longrightarrow> rows_kept d d'"
  "FailStuckSource a now eid before reason d = (u, d') \<Longrightarrow> rows_kept d d'"
  "NoteBranchCtx a now eid reason d = Inr d' \<Longrightarrow> rows_kept d d'"
  "UpdateBranchEndpointCtx a now eid from c h p reason d = (u, d') \<Longrightarrow> rows_kept d d'"
  "FailReadyBranch a now eid c reason d = Inr (u, d') \<Longrightarrow> rows_kept d d'"
  "FailStuckBranch a now eid before reason d = Inr (u, d') \<Longrightarrow> rows_kept d d'"
  by (auto simp: SetSourceStateCtx_def BumpSourceGenerationCtx_def FailStuckSource_def NoteBranchCtx_def FailReadyBranch_def
        FailStuckBranch_def TouchBranch_def UpdateBranchEndpointCtx_def Let_def split: if_splits option.splits)

lemma reg_step_rows: "reg_step d d' \<Longrightarrow> rows_kept d d'"
  by (induction rule: reg_step.induct)
    (blast intro: CommitFreezeCtx_rows CreateBranchCtx_rows CreateSourceCtx_rows DeleteSourceCtx_rows_kept
      column_calls_rows other_calls_rows transition_calls_rows journaled_calls_rows)+

lemma fresh_journal_mono: "reg_step d d' \<Longrightarrow> fresh_journal_id entity x d' \<Longrightarrow> fresh_journal_id entity x d"
  by (drule reg_step_extends, erule journal_extendsD)
    (fastforce simp: fresh_journal_id_def list_all_iff list_all2_conv_all_nth in_set_conv_nth audit_kept_def)

text \<open>A branch keeps its name.\<close>

definition branch_named :: "string \<Rightarrow> string \<Rightarrow> db \<Rightarrow> bool" where
  "branch_named x name d \<longleftrightarrow> \<not> fresh_journal_id ''branch'' x d \<and> (\<forall>r \<in> set (branches d). br_id r = x \<longrightarrow> br_name r = name)"

lemma stable_branch_named: "stable (branch_named x name)"
  unfolding stable_def branch_named_def using reg_step_rows fresh_journal_mono by (fastforce simp: rows_kept_def)

lemma stable_branch_from: "stable (branch_from x s)"
  unfolding stable_def branch_from_def using reg_step_rows fresh_journal_mono by (fastforce simp: rows_kept_def)

section \<open>Registry steps under an environment\<close>

text \<open>
  What the environment is relied on for: it changes the registry through registry steps only, a fresh id is
  one the journal has never seen, and a frozen layer that no live branch references gains no reference.
\<close>

definition env_ok :: "'rt env \<Rightarrow> bool" where
  "env_ok E \<longleftrightarrow> (\<forall>n d. reg_step\<^sup>*\<^sup>* d (e_interfere E n d))
     \<and> (\<forall>n d. e_newID E n d \<noteq> [] \<and> fresh_journal_id ''branch'' (e_newID E n d) d \<and> fresh_journal_id ''source'' (e_newID E n d) d)
     \<and> (\<forall>n d l. CountBranchesReferencingLayer l d = 0 \<longrightarrow> CountBranchesReferencingLayer l (e_interfere E n d) = 0)"

definition steps_under :: "'rt env \<Rightarrow> (db \<Rightarrow> bool) \<Rightarrow> 'rt world \<Rightarrow> 'rt world \<Rightarrow> bool" where
  "steps_under E P w w' \<longleftrightarrow> (env_ok E \<and> stable P \<and> P (w_db w) \<longrightarrow> reg_step\<^sup>*\<^sup>* (w_db w) (w_db w'))"

abbreviation saga :: "'rt env \<Rightarrow> (db \<Rightarrow> bool) \<Rightarrow> ('rt, 'a) act \<Rightarrow> bool" where
  "saga E P \<equiv> keeps (steps_under E P)"

lemma sagaD:
  "saga E P m \<Longrightarrow> env_ok E \<Longrightarrow> stable P \<Longrightarrow> P (w_db w) \<Longrightarrow> reg_step\<^sup>*\<^sup>* (w_db w) (w_db (snd (run_state m w)))"
  by (simp add: keeps_def steps_under_def)

lemma sagaI:
  "(\<And>w. env_ok E \<Longrightarrow> stable P \<Longrightarrow> P (w_db w) \<Longrightarrow> reg_step\<^sup>*\<^sup>* (w_db w) (w_db (snd (run_state m w)))) \<Longrightarrow> saga E P m"
  by (simp add: keeps_def steps_under_def)

lemma steps_under_trans: "steps_under E P w w1 \<Longrightarrow> steps_under E P w1 w2 \<Longrightarrow> steps_under E P w w2"
  unfolding steps_under_def by (meson rtranclp_trans stableD)

lemma steps_under_same: "w_db w' = w_db w \<Longrightarrow> steps_under E P w w'"
  by (simp add: steps_under_def)

lemma saga_tick: "saga E P (tick E)"
  by (simp add: keeps_def steps_under_def tick_def env_ok_def)

lemma saga_reg_write:
  assumes "\<And>t d x d'. env_ok E \<Longrightarrow> stable P \<Longrightarrow> P d \<Longrightarrow> f t d = Inr (x, d') \<Longrightarrow> reg_step d d'"
  shows "saga E P (reg_write E f)"
proof (rule sagaI)
  fix w :: "'b world"
  assume A: "env_ok E" "stable P" "P (w_db w)"
  let ?d = "e_interfere E (w_tick w) (w_db w)"
  have 1: "reg_step\<^sup>*\<^sup>* (w_db w) ?d" using A(1) by (simp add: env_ok_def)
  then have "P ?d" using stableD[OF A(2)] A(3) by blast
  then have "\<And>x d'. f (w_tick w) ?d = Inr (x, d') \<Longrightarrow> reg_step ?d d'" using assms A by blast
  with 1 show "reg_step\<^sup>*\<^sup>* (w_db w) (w_db (snd (run_state (reg_write E f) w)))"
    by (auto simp: reg_write_def tick_def split: sum.splits option.splits intro: rtranclp.rtrancl_into_rtrancl)
qed

lemma no_result_Inr: "no_result r = Inr (x, d) \<longleftrightarrow> r = Inr d"
  by (cases r) (auto simp: no_result_def)

lemma saga_writes:
  "saga E P (reg_transition E eid to reason)" "saga E P (reg_mark_ready E eid cid host port)" "saga E P (reg_set_container E eid cid)"
  "saga E P (reg_touch_branch E eid)" "saga E P (reg_note E eid reason)" "saga E P (reg_set_password E eid pw)"
  "saga E P (reg_set_pending E eid vol)" "saga E P (reg_fail_stuck E eid before reason)"
  "saga E P (reg_fail_stuck_source E eid before reason)" "saga E P (reg_update_endpoint E eid from cid host port)"
  "saga E P (reg_update_endpoint_ctx E eid from cid host port reason)" "saga E P (reg_fail_ready E eid cid reason)"
proof -
  show "saga E P (reg_update_endpoint E eid from cid host port)"
    unfolding reg_update_endpoint_def by (rule saga_reg_write) (metis endpoint snd_conv sum.inject(2))
qed (unfold reg_call_defs SetBranchPassword_def, auto intro!: saga_reg_write simp: no_result_Inr
      intro: transition_branch branch_ready branch_container touch_branch note_branch branch_password branch_pending stuck_source
        reg_step.stuck_branch endpoint_journaled fail_ready)

lemma saga_call: "saga E P (drv_call E ev f)"
  by (rule keeps_drv_call[OF saga_tick steps_under_trans]) (simp_all add: steps_under_same)

lemma saga_diagnose: "saga E P (DiagnoseContainer E cid)"
  by (rule keeps_diagnose) (simp_all add: steps_under_same)

interpretation sg: engine_relation "steps_under E P" E for E P
  by unfold_locales (auto intro: steps_under_same steps_under_trans saga_tick saga_writes saga_diagnose simp: saga_call driver_defs)

lemma saga_source_writes:
  "saga E P (reg_create_source E s)" "saga E P (reg_source_state E sid sto reason)" "saga E P (reg_source_pending E sid vol)"
  "saga E P (reg_bump_source E sid vol)"
  unfolding reg_create_source_def reg_source_state_def reg_source_pending_def reg_bump_source_def
  by (auto intro!: saga_reg_write simp: no_result_Inr env_ok_def intro: create_source source_state source_pending bump_source)

interpretation sgs: source_relation "steps_under E P" E for E P
  by unfold_locales (rule saga_source_writes)+

section \<open>Facts established on the way\<close>

text \<open>A first step that establishes a fact the rest relies on.\<close>

lemma saga_attempt_post:
  assumes "saga E P m" "\<And>e. saga E P (h e)" "\<And>x. saga E (\<lambda>d. P d \<and> Q x d) (k x)" "\<And>x. stable (Q x)"
    and "\<And>w x w'. env_ok E \<Longrightarrow> stable P \<Longrightarrow> P (w_db w) \<Longrightarrow> run_state m w = (Inr x, w') \<Longrightarrow> Q x (w_db w')"
  shows "saga E P (attempt m h k)"
proof (rule sagaI)
  fix w :: "'a world"
  assume P: "env_ok E" "stable P" "P (w_db w)"
  obtain r w1 where m: "run_state m w = (r, w1)" by (cases "run_state m w")
  then have 1: "reg_step\<^sup>*\<^sup>* (w_db w) (w_db w1)" using sagaD[OF assms(1) P] by simp
  then have P1: "P (w_db w1)" using stableD[OF P(2)] P(3) by blast
  show "reg_step\<^sup>*\<^sup>* (w_db w) (w_db (snd (run_state (attempt m h k) w)))"
  proof (cases r)
    case (Inl e)
    then show ?thesis using rtranclp_trans[OF 1 sagaD[OF assms(2)[of e] P(1,2) P1]] by (simp add: attempt_def m)
  next
    case (Inr x)
    then have "Q x (w_db w1)" using assms(5)[OF P] m by simp
    then show ?thesis
      using rtranclp_trans[OF 1 sagaD[OF assms(3)[of x] P(1) stable_conj[OF P(2) assms(4)[of x]], of w1]] P1 Inr
      by (simp add: attempt_def m)
  qed
qed

lemma saga_create_branch [saga_rules]: "b_BaseLayerID b = [] \<Longrightarrow> saga E P (reg_create_branch E b)"
  unfolding reg_create_branch_def
  by (rule saga_reg_write, erule create_branch) (auto simp: env_ok_def base_ok_def insert_branch_def nullable_str_def)

lemma saga_CreateBranch: "saga E P (CreateBranch G E name sourceName ttl)"
  unfolding CreateBranch_def by (intro saga_rules) (simp_all add: newBranch_def)

end
