(* ===== verification/SimEnv.thy ===== *)
theory SimEnv
  imports SagaSteps RegistryCalls
begin

text \<open>
  A concrete environment for the witnesses: a runtime that keeps a list of volumes and one of containers and
  fails only for a taken name or the command \<^verbatim>\<open>false\<close>, with nothing running beside the engine. Fresh ids are
  longer than every id in the journal.
\<close>

record sim =
  sim_vols :: "string list"
  sim_conts :: "string list"

definition sim_info :: "string \<Rightarrow> ContainerInfo" where
  "sim_info cid = \<lparr>ci_ID = cid, ci_Running = True, ci_Stopped = False, ci_Status = [], ci_Host = ''127.0.0.1'', ci_Port = 5433, ci_Created = None, ci_Labels = []\<rparr>"

definition sim_driver :: "sim driver" where
  "sim_driver = \<lparr>
     drv_CreateVolume = (\<lambda>v ls s. if v \<in> set (sim_vols s) then (Some ''volume already exists'', s) else (None, s\<lparr>sim_vols := v # sim_vols s\<rparr>)),
     drv_RemoveVolume = (\<lambda>v s. (None, s\<lparr>sim_vols := filter (\<lambda>x. x \<noteq> v) (sim_vols s)\<rparr>)),
     drv_CloneVolume = (\<lambda>src dst ls s. if dst \<in> set (sim_vols s) then (Some ''volume already exists'', s) else (None, s\<lparr>sim_vols := dst # sim_vols s\<rparr>)),
     drv_RunHelper = (\<lambda>spec s. (Inr [], s)),
     drv_StartBranch = (\<lambda>spec s. if bs_Name spec \<in> set (sim_conts s) then (Inl ''name in use'', s)
        else (Inr (bs_Name spec), s\<lparr>sim_conts := bs_Name spec # sim_conts s\<rparr>)),
     drv_Exec = (\<lambda>cid cmd s. (if cmd = [''false''] then Some ''exit status 1'' else None, s)),
     drv_ExecOutput = (\<lambda>cid cmd s. (Inr ''lazyrw'', s)),
     drv_Inspect = (\<lambda>cid s. (Inr (sim_info cid), s)),
     drv_StopRemove = (\<lambda>cid s. (None, s\<lparr>sim_conts := filter (\<lambda>x. x \<noteq> cid) (sim_conts s)\<rparr>)),
     drv_ListManaged = (\<lambda>s. (Inr (map sim_info (sim_conts s)), s)),
     drv_ListHelpers = (\<lambda>s. (Inr [], s)),
     drv_ListManagedVolumes = (\<lambda>inst s. (Inr (map (\<lambda>v. \<lparr>vi_Name = v, vi_Created = None, vi_Leftover = False\<rparr>) (sim_vols s)), s)),
     drv_DiagnoseContainer = None\<rparr>"

definition sim_newID :: "nat \<Rightarrow> db \<Rightarrow> string" where
  "sim_newID n d = replicate (Suc (sum_list (map (length \<circ> t_entity_id) (transitions d)))) (CHR ''x'')"

definition sim_env :: "sim env" where
  "sim_env = \<lparr>e_drv = sim_driver, e_actor = no_actor, e_now = (\<lambda>n. noon 0 0), e_newID = sim_newID, e_rand = (\<lambda>n. Some ''0123456789abcdef''),
     e_nonce = (\<lambda>n. ''nonce-nonce-''), e_cancelled = (\<lambda>n. False), e_expired = (\<lambda>n. False), e_interfere = (\<lambda>n d. d), e_regFault = (\<lambda>n. None),
     e_crypto = demo_crypto, e_box = None, e_regText = (\<lambda>e. ''registry error''), e_inUse = (\<lambda>e. False), e_unavailable = (\<lambda>e. False), e_rtNotFound = (\<lambda>e. False), e_claimed = (\<lambda>n k. False)\<rparr>"

lemma length_id_bound: "t \<in> set ts \<Longrightarrow> length (t_entity_id t) \<le> sum_list (map (length \<circ> t_entity_id) ts)"
  by (induction ts) auto

lemma sim_newID_fresh: "fresh_journal_id entity (sim_newID n d) d"
  using length_id_bound[of _ "transitions d"] by (force simp: fresh_journal_id_def list_all_iff sim_newID_def)

lemma sim_env_ok: "env_ok sim_env"
  using sim_newID_fresh by (auto simp: env_ok_def sim_env_def) (auto simp: sim_newID_def)

definition sim_engine :: engine where
  "sim_engine = \<lparr>g_planner = \<lparr>pl_Backend = BackendOverlay, pl_Dataset = []\<rparr>, g_defaultImage = ''postgres:17'', g_rotateCredentials = False,
     g_maxBranches = 0, g_defaultTTL = 0, g_maxTTL = 0, g_maxLayerDepth = 0, g_lazyrwOff = False, g_walRecycleOff = False,
     g_instanceID = ''i'', g_overlayInstall = ([], []), g_entrypointDirect = []\<rparr>"

definition sim_world :: "db \<Rightarrow> sim world" where
  "sim_world d = \<lparr>w_db = d, w_rt = \<lparr>sim_vols = [''v1''], sim_conts = []\<rparr>, w_tick = 0, w_log = [], w_compensationFailures = 0, w_cowModes = [], w_refreshed = []\<rparr>"

section \<open>Running in it\<close>

named_theorems sim_run \<open>runs of single calls in the concrete environment\<close>

lemma sim_tick [sim_run]: "run_state (tick sim_env) w = (w_tick w, w\<lparr>w_tick := Suc (w_tick w)\<rparr>)"
  by (simp add: run_tick sim_env_def)

lemma sim_reg [sim_run]:
  "run_state (reg_read sim_env f) w =
     (case f (w_db w) of Inl e \<Rightarrow> Inl (RegErr e) | Inr x \<Rightarrow> Inr x, w\<lparr>w_tick := Suc (w_tick w)\<rparr>)"
  "run_state (reg_write sim_env g) w = (case g (w_tick w) (w_db w) of Inl e \<Rightarrow> (Inl (RegErr e), w\<lparr>w_tick := Suc (w_tick w)\<rparr>)
     | Inr (x, d) \<Rightarrow> (Inr x, w\<lparr>w_tick := Suc (w_tick w), w_db := d\<rparr>))"
  by (simp_all add: run_reg_read run_reg_write sim_env_def Let_def split: sum.splits)

lemma sim_calls [sim_run]:
  "run_state (Exec sim_env cid cmd) w = (if cmd = [''false''] then Inl (DrvErr ''exit status 1'') else Inr (),
     w\<lparr>w_tick := Suc (w_tick w), w_log := w_log w @ [EvExec cid cmd (cmd \<noteq> [''false''])]\<rparr>)"
  "run_state (ExecOutput sim_env cid cmd) w = (Inr ''lazyrw'',
     w\<lparr>w_tick := Suc (w_tick w), w_log := w_log w @ [EvExecOutput cid cmd True]\<rparr>)"
  "run_state (Inspect sim_env cid) w = (Inr (sim_info cid), w\<lparr>w_tick := Suc (w_tick w), w_log := w_log w @ [EvInspect cid True]\<rparr>)"
  "run_state (RunHelper sim_env spec) w = (Inr [], w\<lparr>w_tick := Suc (w_tick w), w_log := w_log w @ [EvRunHelper spec True]\<rparr>)"
  "run_state (StartBranch sim_env bspec) w =
     (if bs_Name bspec \<in> set (sim_conts (w_rt w))
      then (Inl (DrvErr ''name in use''), w\<lparr>w_tick := Suc (w_tick w), w_log := w_log w @ [EvStartBranch bspec None]\<rparr>)
      else (Inr (bs_Name bspec), w\<lparr>w_tick := Suc (w_tick w), w_rt := (w_rt w)\<lparr>sim_conts := bs_Name bspec # sim_conts (w_rt w)\<rparr>,
              w_log := w_log w @ [EvStartBranch bspec (Some (bs_Name bspec))]\<rparr>))"
  "run_state (CreateVolume sim_env v ls) w =
     (if v \<in> set (sim_vols (w_rt w))
      then (Inl (DrvErr ''volume already exists''), w\<lparr>w_tick := Suc (w_tick w), w_log := w_log w @ [EvCreateVolume v False]\<rparr>)
      else (Inr (), w\<lparr>w_tick := Suc (w_tick w), w_rt := (w_rt w)\<lparr>sim_vols := v # sim_vols (w_rt w)\<rparr>, w_log := w_log w @ [EvCreateVolume v True]\<rparr>))"
  "run_state (RemoveVolume sim_env v) w = (Inr (), w\<lparr>w_tick := Suc (w_tick w),
     w_rt := (w_rt w)\<lparr>sim_vols := filter (\<lambda>x. x \<noteq> v) (sim_vols (w_rt w))\<rparr>, w_log := w_log w @ [EvRemoveVolume v True]\<rparr>)"
  "run_state (StopRemove sim_env cid) w = (Inr (), w\<lparr>w_tick := Suc (w_tick w),
     w_rt := (w_rt w)\<lparr>sim_conts := filter (\<lambda>x. x \<noteq> cid) (sim_conts (w_rt w))\<rparr>, w_log := w_log w @ [EvStopRemove cid True]\<rparr>)"
  by (simp_all add: driver_defs drv_call_def unit_call_def succeeded_def run_tick sim_env_def sim_driver_def)

lemma sim_wait [sim_run]: "run_state (waitReady sim_env cid) w = (Inr (), w\<lparr>w_tick := Suc (Suc (w_tick w)), w_log := w_log w @ [EvExec cid pgIsReady True]\<rparr>)"
proof -
  have "pgIsReady \<noteq> [''false'']" "e_expired sim_env t = False" for t by (simp_all add: pgIsReady_def sim_env_def)
  then have "run_state (wait_loop (Suc n) sim_env cid None) w =
      (Inr (), w\<lparr>w_tick := Suc (Suc (w_tick w)), w_log := w_log w @ [EvExec cid pgIsReady True]\<rparr>)" for n
    by (simp add: sim_tick sim_calls run_attempt)
  from this[of 89] show ?thesis by (simp add: waitReady_def del: wait_loop.simps)
qed

lemma sim_inspect [sim_run]: "run_state (inspectAddr sim_env cid) w = (Inr (sim_info cid), w\<lparr>w_tick := Suc (w_tick w), w_log := w_log w @ [EvInspect cid True]\<rparr>)"
  by (simp add: inspectAddr_def inspect_loop.simps run_seq_ok sim_calls) (simp add: sim_info_def)

lemma sim_observe [sim_run]: "run_state (observeCowMode sim_engine sim_env b cid) w = ((), w\<lparr>w_tick := Suc (w_tick w),
    w_log := w_log w @ [EvExecOutput cid cowModeCmd True], w_cowModes := AList.update (b_ID b) ''lazyrw'' (w_cowModes w)\<rparr>)"
proof -
  have "parse_cow_mode ''lazyrw'' = Inr (''lazyrw'', [])" by code_simp
  then show ?thesis
    by (simp add: observeCowMode_def readCowMode_def sim_calls cowModes_set_def zfs_def csi_def sim_engine_def)
qed

lemma sim_fields [simp]:
  "e_newID sim_env = sim_newID" "e_actor sim_env = no_actor" "e_crypto sim_env = demo_crypto" "e_box sim_env = None"
  "\<not> zfs sim_engine" "\<not> csi sim_engine"
  by (simp_all add: sim_env_def sim_engine_def zfs_def csi_def)

lemma sim_policies [sim_run]:
  "run_state (checkQuota sim_engine sim_env) w = (Inr (), w)"
  "run_state (expiresAtFor sim_engine sim_env 0) w = ([], w\<lparr>w_tick := Suc (w_tick w)\<rparr>)"
  by (simp_all add: sim_engine_def checkQuota_def expiresAtFor_def effectiveTTL_def sim_run)

lemma sim_rotate [sim_run]:
  "b_Password b = [] \<Longrightarrow> \<not> b_PasswordUnavailable b \<Longrightarrow> run_state (rotateBranchCredentials sim_engine sim_env cid b src) w = (Inr (), w)"
  by (simp add: rotateBranchCredentials_def sim_engine_def)

lemma sim_masks [sim_run]: "run_state (run_masks sim_env cid src scripts) w = (Inr (), w\<lparr>w_tick := w_tick w + length scripts,
    w_log := w_log w @ map (\<lambda>(n, sql). EvExec cid (psqlCmd src sql) True) scripts\<rparr>)"
proof (induction scripts arbitrary: w)
  case (Cons s scripts)
  then show ?case by (cases s) (simp add: run_attempt sim_run psqlCmd_def)
qed simp

lemma first_generation:
  assumes "pl_Backend p \<noteq> BackendZFS" "0 < minGen" "\<not> VolumeNameUsed (BranchRWVolumeNameGen name minGen) d"
  shows "freshBranchLayer p name minGen d = Some (BranchRWVolumeNameGen name minGen)"
proof -
  have "[max minGen 1..<minGen + maxLayerGenerations] = minGen # [Suc minGen..<minGen + maxLayerGenerations]"
    using assms(2) by (subst upt_conv_Cons) (auto simp: maxLayerGenerations_def max_def le_Suc_eq)
  then show ?thesis using assms by (simp add: freshBranchLayer_def)
qed

lemma sim_leaf:
  "f (w_db w) = Inr x \<Longrightarrow> Q x (w\<lparr>w_tick := Suc (w_tick w)\<rparr>) \<Longrightarrow> succeeds (reg_read sim_env f) w Q"
  "v \<notin> set (sim_vols (w_rt w)) \<Longrightarrow> Q' () (w\<lparr>w_tick := Suc (w_tick w), w_rt := (w_rt w)\<lparr>sim_vols := v # sim_vols (w_rt w)\<rparr>,
     w_log := w_log w @ [EvCreateVolume v True]\<rparr>) \<Longrightarrow> succeeds (CreateVolume sim_env v ls) w Q'"
  "Q2 [] (w\<lparr>w_tick := Suc (w_tick w), w_log := w_log w @ [EvRunHelper spec True]\<rparr>) \<Longrightarrow> succeeds (RunHelper sim_env spec) w Q2"
  "bs_Name bspec \<notin> set (sim_conts (w_rt w)) \<Longrightarrow> Q3 (bs_Name bspec) (w\<lparr>w_tick := Suc (w_tick w),
     w_rt := (w_rt w)\<lparr>sim_conts := bs_Name bspec # sim_conts (w_rt w)\<rparr>,
     w_log := w_log w @ [EvStartBranch bspec (Some (bs_Name bspec))]\<rparr>) \<Longrightarrow> succeeds (StartBranch sim_env bspec) w Q3"
  by (simp_all add: succeeds_def sim_run)

text \<open>In this environment the readiness tail and the overlay provisioning go through.\<close>

lemma sim_await:
  assumes "b_Password b = []" "\<not> b_PasswordUnavailable b"
    "\<And>t t'. \<exists>d'. MarkBranchReadyCtx no_actor (stamp sim_env t') (b_ID b) cid ''127.0.0.1'' 5433
       (SetBranchContainer (stamp sim_env t) (b_ID b) cid (w_db w)) = Inr d' \<and> Q d'"
  shows "succeeds (awaitAndMark sim_engine sim_env b src cid) w (\<lambda>_ w'. Q (w_db w'))"
  unfolding succeeds_def
  using assms(3) by (auto simp: awaitAndMark_def run_seq_ok run_attempt sim_run applyMasking_def assms(1,2) wrap_err_def
      reg_set_container_def reg_mark_ready_def sim_info_def no_result_def split: sum.splits) (metis sum.distinct(1) sum.inject(2))+

lemma sim_provision:
  assumes "b_Password b = []" "\<not> b_PasswordUnavailable b" "LayerChain (b_ID b) (w_db w) = Inr chain"
    "b_RWVolume b \<notin> set (sim_vols (w_rt w))" "''pgoverlay-br-'' @ b_Name b \<notin> set (sim_conts (w_rt w))"
    "\<And>t t'. \<exists>d'. MarkBranchReadyCtx no_actor (stamp sim_env t') (b_ID b) (''pgoverlay-br-'' @ b_Name b) ''127.0.0.1'' 5433
        (SetBranchContainer (stamp sim_env t) (b_ID b) (''pgoverlay-br-'' @ b_Name b) (w_db w)) = Inr d' \<and> Q d'"
  shows "succeeds (provision sim_engine sim_env b src) w (\<lambda>_ w'. Q (w_db w'))"
proof -
  have aw: "succeeds (awaitAndMark sim_engine sim_env b src (''pgoverlay-br-'' @ b_Name b)) w1 (\<lambda>_ w'. Q (w_db w'))"
    if "w_db w1 = w_db w" for w1
    using sim_await[OF assms(1,2)] assms(6) that by simp
  have "succeeds (provisionOverlay sim_engine sim_env b src) w (\<lambda>_ w'. Q (w_db w'))"
    unfolding provisionOverlay_def Let_def installOverlayEntrypoint_def startOverlayBranch_def branch_spec_def PlanBranch_def
    by (rule succeeds_attempt succeeds_seq sim_leaf assms(3) | simp add: assms(4) assms(5)[simplified] aw[simplified])+
  then show ?thesis by (simp add: provision_def)
qed

end
