(* ===== verification/SagaRefine.thy ===== *)
theory SagaRefine
  imports SimEnv
begin

text \<open>
  The sagas whose registry calls have side conditions of their own: garbage collection deletes a layer only
  while nothing references it, and the freeze commits a layer for two branches of one source.
\<close>

section \<open>Garbage collection\<close>

lemma db_drv_call: "w_db (snd (run_state (drv_call E ev f) w)) = e_interfere E (w_tick w) (w_db w)"
  by (simp add: drv_call_def run_tick split: prod.splits)

lemma db_removeSourceLayer: "w_db (snd (run_state (removeSourceLayer G E v) w)) = e_interfere E (w_tick w) (w_db w)"
  by (simp add: removeSourceLayer_def runZFS_def RunHelper_def RemoveVolume_def run_seq_ok_ok db_drv_call)

lemma interfere_unreferenced:
  "env_ok E \<Longrightarrow> CountBranchesReferencingLayer l d = 0 \<Longrightarrow> CountBranchesReferencingLayer l (e_interfere E n d) = 0"
  by (simp add: env_ok_def)

lemma interfere_steps: "env_ok E \<Longrightarrow> reg_step\<^sup>*\<^sup>* d (e_interfere E n d)"
  by (simp add: env_ok_def)

lemma gc_delete_steps:
  assumes "env_ok E" "CountBranchesReferencingLayer l (w_db w) = 0"
  shows "reg_step\<^sup>*\<^sup>* (w_db w) (w_db (snd (run_state (reg_delete_layer E l) w)))"
proof -
  let ?d = "e_interfere E (w_tick w) (w_db w)"
  have "reg_step\<^sup>*\<^sup>* (w_db w) ?d" "CountBranchesReferencingLayer l ?d = 0"
    using assms by (simp_all add: interfere_steps interfere_unreferenced)
  then show ?thesis
    by (auto simp: reg_delete_layer_def run_reg_write Let_def no_result_def split: sum.splits option.splits
        intro: rtranclp.rtrancl_into_rtrancl delete_layer)
qed

lemma saga_gcLayer [saga_rules]: "saga E P (gcLayer G E ly)"
  unfolding gcLayer_def
proof (rule sagaI)
  fix w :: "'a world"
  assume E: "env_ok E"
  let ?l = "lay_ID ly" and ?v = "lay_Volume ly"
  let ?m = "seq_ok (reg_read E (\<lambda>d. Inr (CountBranchesReferencingLayer ?l d))) (\<lambda>n.
       if n > 0 then ok False
       else seq_ok (removeSourceLayer G E ?v) (\<lambda>_. seq_ok (reg_delete_layer E ?l) (\<lambda>_. ok True)))"
  let ?w1 = "w\<lparr>w_tick := w_tick w + 1, w_db := e_interfere E (w_tick w) (w_db w)\<rparr>"
  have 1: "reg_step\<^sup>*\<^sup>* (w_db w) (w_db ?w1)" using interfere_steps[OF E] by simp
  show "reg_step\<^sup>*\<^sup>* (w_db w) (w_db (snd (run_state ?m w)))"
  proof (cases "CountBranchesReferencingLayer ?l (w_db ?w1)")
    case 0
    obtain r w2 where r: "run_state (removeSourceLayer G E ?v) ?w1 = (r, w2)" by (cases "run_state (removeSourceLayer G E ?v) ?w1")
    then have d2: "w_db w2 = e_interfere E (w_tick ?w1) (w_db ?w1)" using db_removeSourceLayer[of G E ?v ?w1] by simp
    then have 2: "reg_step\<^sup>*\<^sup>* (w_db w) (w_db w2)" using 1 interfere_steps[OF E] by (metis rtranclp_trans)
    have "CountBranchesReferencingLayer ?l (w_db w2) = 0" using d2 interfere_unreferenced[OF E 0] by simp
    then have "reg_step\<^sup>*\<^sup>* (w_db w) (w_db (snd (run_state (reg_delete_layer E ?l) w2)))"
      using 2 gc_delete_steps[OF E] by (metis rtranclp_trans)
    then show ?thesis using 0 r 1 2
      by (cases r; cases "run_state (reg_delete_layer E ?l) w2") (auto simp: run_seq_ok run_reg_read Let_def split: sum.splits option.splits)
  qed (use 1 in \<open>simp add: run_seq_ok run_reg_read Let_def split: option.splits\<close>)
qed

lemma saga_gcLayers [saga_rules]: "saga E P (gcLayers G E chain)"
proof (induction G E chain rule: gcLayers.induct)
  case (2 G E l chain)
  show ?case unfolding gcLayers.simps by (intro saga_rules 2)
qed (simp add: sg.keeps_return)

lemma saga_DestroyBranch [saga_rules]: "saga E P (DestroyBranch G E name)"
  unfolding DestroyBranch_def Let_def by (intro saga_rules)

lemma saga_reap_all [saga_rules]: "saga E P (reap_all G E bs)"
  by (induction bs) (auto intro!: saga_rules)

lemma saga_ReapExpired: "saga E P (ReapExpired G E now)"
  unfolding ReapExpired_def by (intro saga_rules)

lemma saga_applyAction [saga_rules]: "saga E P (applyAction G E p a)"
  unfolding applyAction_def applyReap_def applyRetryDestroy_def applyGCLayer_def
  by (cases "a_Kind a") (simp_all, (intro saga_rules)+)

lemma saga_apply_all [saga_rules]: "saga E P (apply_all G E p as)"
  by (induction as) (auto intro!: saga_rules)

lemma saga_ApplyReconcile: "saga E P (ApplyReconcile G E now n)"
  unfolding ApplyReconcile_def by (intro saga_rules)

section \<open>Removing a source\<close>

lemma saga_RemoveSource: "saga E P (RemoveSource G E name)"
proof -
  have 1: "saga E P (reg_write E (\<lambda>t d. no_result (DeleteSourceCtx (e_actor E) (stamp E t) sid d)))" for sid
    by (rule saga_reg_write) (auto simp: no_result_Inr intro: delete_source)
  have 2: "saga E P (reg_write E (\<lambda>t d. DeleteFailedSources name d))"
    by (rule saga_reg_write) (auto intro: delete_failed)
  show ?thesis unfolding RemoveSource_def by (intro saga_rules 1 2)
qed

section \<open>Branch from branch\<close>

lemma journal_knows_row:
  assumes "db_ok d" "r \<in> set (branches d)"
  shows "\<not> fresh_journal_id ''branch'' (br_id r) d"
proof
  assume "fresh_journal_id ''branch'' (br_id r) d"
  then have "journal_path legal_branch_edge [] [] (branch_state_str (br_state r))"
    using journal_okD(1)[OF db_ok_parts(2)[OF assms(1)] assms(2)] by (simp add: fresh_journal_of)
  then show False using branch_state_str_nonempty[of "br_state r"] by simp
qed

lemma row_branch_from:
  assumes "db_ok d" "r \<in> set (branches d)"
  shows "branch_from (br_id r) (br_source_id r) d"
  using journal_knows_row[OF assms] branch_id_unique[OF db_ok_parts(1)[OF assms(1)] _ assms(2)]
  by (fastforce simp: branch_from_def)

lemma read_branch_from:
  assumes "env_ok E" "db_ok (w_db w)" "run_state (reg_branch_by_name E name) w = (Inr b, w')"
  shows "branch_from (b_ID b) (b_SourceID b) (w_db w')"
proof -
  have "db_ok (w_db w')"
    using stableD[OF stable_db_ok sagaD[OF sg.keeps_reads(1)[of E db_ok name] assms(1) stable_db_ok assms(2)] assms(2)] assms(3) by simp
  moreover from assms(3) obtain r where "r \<in> set (branches (w_db w'))" "br_id r = b_ID b" "br_source_id r = b_SourceID b"
    by (auto simp: reg_branch_by_name_def run_reg_read Let_def GetBranchByName_def getBranch_def scanBranch_def
        split: sum.splits option.splits dest!: find_SomeD)
  ultimately show ?thesis using row_branch_from by metis
qed

lemma create_branch_from:
  assumes "run_state (reg_create_branch E b0) w = (Inr b, w')"
  shows "branch_from (b_ID b) (b_SourceID b0) (w_db w')"
proof -
  obtain d nid d' t where c: "CreateBranchCtx (e_actor E) t nid b0 d = Inr (b, d')" "w_db w' = d'"
    using assms by (auto simp: reg_create_branch_def run_reg_write Let_def split: sum.splits option.splits)
  show ?thesis using CreateBranchCtx_InrD[OF c(1)]
    by (auto simp: c(2) branch_from_def fresh_journal_id_def)
qed

lemma saga_commit_freeze:
  assumes P: "\<And>d. P d \<Longrightarrow> branch_from pid s d \<and> branch_from cid s d"
  shows "saga E P (reg_commit_freeze E pid cid vol rw c info reason)"
  unfolding reg_commit_freeze_def
proof (rule saga_reg_write)
  fix t d x d'
  assume "env_ok E" "P d"
    "CommitFreezeCtx (e_actor E) (stamp E t) (e_newID E t d) pid cid vol rw c (ci_Host info) (ci_Port info) reason d = Inr (x, d')"
  then show "reg_step d d'"
    by (intro commit_freeze) (use P[OF \<open>P d\<close>] in \<open>auto simp: env_ok_def branch_from_def\<close>)
qed

lemma saga_freezeChild:
  assumes undo: "list_all (saga E P) undo" and fail: "\<And>undo e. list_all (saga E P) undo \<Longrightarrow> saga E P (fail undo e)"
    and commit: "\<And>vol rw c info reason. saga E P (reg_commit_freeze E (b_ID parent) (b_ID child) vol rw c info reason)"
  shows "saga E P (freezeChild G E child parent src plan newRW pcid undo fail)"
  unfolding freezeChild_def Let_def by (intro saga_rules undo fail commit)

lemma saga_freezeParent:
  assumes fail: "\<And>undo e. list_all (saga E P) undo \<Longrightarrow> saga E P (fail undo e)"
    and commit: "\<And>vol rw c info reason. saga E P (reg_commit_freeze E (b_ID parent) (b_ID child) vol rw c info reason)"
  shows "saga E P (freezeParent G E child parent src pplan cplan newRW fail)"
  unfolding freezeParent_def Let_def by (intro saga_rules fail saga_freezeChild commit)

lemma saga_freezeAndProvision:
  assumes P: "\<And>d. P d \<Longrightarrow> branch_from (b_ID parent) s d \<and> branch_from (b_ID child) s d"
  shows "saga E P (freezeAndProvision G E child parent src)"
  unfolding freezeAndProvision_def Let_def by (intro saga_rules saga_freezeParent saga_commit_freeze[OF P])

lemma saga_attempt_from:
  assumes P: "\<And>d. P d \<Longrightarrow> db_ok d" and h: "\<And>e. saga E P (h e)"
    and k: "\<And>b. saga E (\<lambda>d. P d \<and> branch_from (b_ID b) (b_SourceID b) d) (k b)"
  shows "saga E P (attempt (reg_branch_by_name E name) h k)"
  by (rule saga_attempt_post[OF sg.keeps_reads(1) h k stable_branch_from]) (auto dest: P intro: read_branch_from)

lemma saga_create_from:
  assumes "b_BaseLayerID b0 = []" and k: "\<And>b. saga E (\<lambda>d. P d \<and> branch_from (b_ID b) (b_SourceID b0) d) (k b)"
  shows "saga E P (seq_ok (reg_create_branch E b0) k)"
  unfolding seq_ok_def
  by (rule saga_attempt_post[OF saga_create_branch[OF assms(1)] sg.keeps_return(3) k stable_branch_from]) (auto intro: create_branch_from)

lemma saga_CreateBranchFrom: "saga E db_ok (CreateBranchFrom G E name parentName ttl)"
proof -
  have "saga E (\<lambda>d. (db_ok d \<and> branch_from (b_ID parent) (b_SourceID parent) d) \<and> branch_from (b_ID child) (b_SourceID parent) d)
      (freezeAndProvision G E child parent src)" for parent child src
    by (rule saga_freezeAndProvision[where s = "b_SourceID parent"]) auto
  then show ?thesis unfolding CreateBranchFrom_def
    by (intro saga_attempt_from saga_create_from saga_rules) (simp_all add: newBranch_def)
qed

section \<open>Refinement\<close>

text \<open>The database after running an operation.\<close>

definition db_after :: "('rt, 'a) act \<Rightarrow> 'rt world \<Rightarrow> db" where
  "db_after m w = w_db (snd (run_state m w))"

lemma saga_db_after: "env_ok E \<Longrightarrow> saga E db_ok m \<Longrightarrow> db_ok (w_db w) \<Longrightarrow> reg_step\<^sup>*\<^sup>* (w_db w) (db_after m w)"
  unfolding db_after_def by (rule sagaD[OF _ _ stable_db_ok])



end
