(* ===== verification/SagaMasking.thy ===== *)
theory SagaMasking
  imports SagaRefine
begin

text \<open>
  Masking: no create path hands out a branch before every masking script of its source has run in the branch's
  own instance.
\<close>

section \<open>The scripts stay the same\<close>

definition masks_stable :: "'rt env \<Rightarrow> bool" where
  "masks_stable E \<longleftrightarrow> (\<forall>n d. mask_scripts (e_interfere E n d) = mask_scripts d)"

definition masks_under :: "'rt env \<Rightarrow> 'rt world \<Rightarrow> 'rt world \<Rightarrow> bool" where
  "masks_under E w w' \<longleftrightarrow> (masks_stable E \<longrightarrow> mask_scripts (w_db w') = mask_scripts (w_db w))"

lemma masks_under_trans: "masks_under E w w1 \<Longrightarrow> masks_under E w1 w2 \<Longrightarrow> masks_under E w w2"
  by (simp add: masks_under_def)

lemma masks_under_same: "w_db w' = w_db w \<Longrightarrow> masks_under E w w'"
  by (simp add: masks_under_def)

lemma masks_tick: "keeps (masks_under E) (tick E)"
  by (simp add: keeps_def masks_under_def masks_stable_def tick_def)

lemma masks_write:
  assumes "\<And>t d x d'. f t d = Inr (x, d') \<Longrightarrow> mask_scripts d' = mask_scripts d"
  shows "keeps (masks_under E) (reg_write E f)"
  using assms by (auto simp: keeps_def masks_under_def masks_stable_def reg_write_def tick_def split: sum.splits option.splits)

lemma masks_call: "keeps (masks_under E) (drv_call E ev f)"
  by (rule keeps_drv_call[OF masks_tick masks_under_trans]) (simp_all add: masks_under_same)

lemma transitionBranch_masks: "transitionBranch a now eid to reason g d = Inr d' \<Longrightarrow> mask_scripts d' = mask_scripts d"
  by (erule transitionBranch_InrD) simp

lemma masks_writes:
  "keeps (masks_under E) (reg_transition E eid to reason)" "keeps (masks_under E) (reg_mark_ready E eid cid host port)"
  "keeps (masks_under E) (reg_set_container E eid cid)" "keeps (masks_under E) (reg_touch_branch E eid)"
  "keeps (masks_under E) (reg_note E eid reason)" "keeps (masks_under E) (reg_set_password E eid pw)"
  "keeps (masks_under E) (reg_set_pending E eid vol)" "keeps (masks_under E) (reg_fail_stuck E eid before reason)"
  "keeps (masks_under E) (reg_fail_stuck_source E eid before reason)" "keeps (masks_under E) (reg_update_endpoint E eid from cid host port)"
  "keeps (masks_under E) (reg_update_endpoint_ctx E eid from cid host port reason)" "keeps (masks_under E) (reg_fail_ready E eid cid reason)"
  unfolding reg_call_defs
  by (auto intro!: masks_write dest: transitionBranch_masks simp: no_result_Inr TransitionBranchCtx_def MarkBranchReadyCtx_def
      SetBranchContainer_def TouchBranch_def NoteBranchCtx_def SetBranchPassword_def store_branch_password_def
      SetBranchPendingVolume_def FailStuckBranch_def FailStuckSource_def UpdateBranchEndpoint_def UpdateBranchEndpointCtx_def
      FailReadyBranch_def Let_def split: if_splits option.splits)

lemma masks_diagnose: "keeps (masks_under E) (DiagnoseContainer E cid)"
  by (rule keeps_diagnose) (simp_all add: masks_under_same)

interpretation mk: engine_relation "masks_under E" E for E
  by unfold_locales (auto intro: masks_under_same masks_under_trans masks_tick masks_writes masks_diagnose simp: masks_call driver_defs)

lemma masks_create [saga_rules]: "keeps (masks_under E) (reg_create_branch E b)"
  unfolding reg_create_branch_def by (rule masks_write) (auto dest!: CreateBranchCtx_InrD)

lemma masks_keptD:
  assumes "keeps (masks_under E) m" "masks_stable E" "run_state m w = (x, w')"
  shows "GetMaskScripts sid (w_db w') = GetMaskScripts sid (w_db w)"
  using keepsD[OF assms(1,3)] assms(2) by (simp add: masks_under_def GetMaskScripts_def)

section \<open>Masking runs\<close>

definition mask_events :: "string \<Rightarrow> source \<Rightarrow> (string \<times> string) list \<Rightarrow> event list" where
  "mask_events cid src scripts = map (\<lambda>(n, sql). EvExec cid (psqlCmd src sql) True) scripts"

text \<open>An instance of the branch was started, and then all the scripts ran in it, in their order.\<close>

definition masked_run :: "source \<Rightarrow> (string \<times> string) list \<Rightarrow> string \<Rightarrow> event list \<Rightarrow> bool" where
  "masked_run src scripts name es \<longleftrightarrow> (\<exists>es1 spec cid es2 es3. bs_Name spec = ''pgoverlay-br-'' @ name
     \<and> es = es1 @ EvStartBranch spec (Some cid) # es2 @ mask_events cid src scripts @ es3)"

lemma masked_run_pad: "masked_run src scripts name es \<Longrightarrow> masked_run src scripts name (es @ es')"
  unfolding masked_run_def by (metis append.assoc append_Cons)

lemma log_growsE:
  assumes "keeps log_grows m" "run_state m w = (x, w')"
  obtains es where "w_log w' = w_log w @ es"
  using keepsD[OF assms] by (auto simp: log_grows_def)

lemma run_drv_call_Inr:
  "run_state (drv_call E ev f) w = (Inr x, w') \<Longrightarrow> w_log w' = w_log w @ [ev (Inr x)]"
  by (auto simp: drv_call_def run_tick split: prod.splits sum.splits)

lemma run_masks_log: "run_state (run_masks E cid src scripts) w = (Inr (), w') \<Longrightarrow> w_log w' = w_log w @ mask_events cid src scripts"
proof (induction E cid src scripts arbitrary: w rule: run_masks.induct)
  case (2 E cid src n sql scripts)
  from 2(2) obtain w1 where "run_state (Exec E cid (psqlCmd src sql)) w = (Inr (), w1)"
    "run_state (run_masks E cid src scripts) w1 = (Inr (), w')"
    unfolding run_masks.simps by (rule run_attempt_InrE) auto
  with 2(1) show ?case by (auto simp: mask_events_def Exec_def succeeded_def dest: run_drv_call_Inr)
qed (simp add: mask_events_def)

lemma applyMasking_log:
  assumes E: "masks_stable E" and r: "run_state (applyMasking E cid src) w = (Inr (), w')"
  shows "w_log w' = w_log w @ mask_events cid src (GetMaskScripts (src_ID src) (w_db w))"
proof -
  from r obtain scripts w1 where 1: "run_state (reg_read E (\<lambda>d. Inr (GetMaskScripts (src_ID src) d))) w = (Inr scripts, w1)"
    and 2: "run_state (run_masks E cid src scripts) w1 = (Inr (), w')"
    unfolding applyMasking_def by (rule run_seq_ok_InrE)
  have "scripts = GetMaskScripts (src_ID src) (w_db w1)" "w_log w1 = w_log w"
    using 1 by (auto simp: run_reg_read Let_def split: option.splits)
  then show ?thesis using run_masks_log[OF 2] masks_keptD[OF mk.keeps_reg_read E 1] by simp
qed

section \<open>Phases of a create\<close>

text \<open>\<open>yields P m Q\<close>: whenever \<open>m\<close> runs from a world in \<open>P\<close> and succeeds, it ends in \<open>Q\<close>.\<close>

definition yields :: "('rt world \<Rightarrow> bool) \<Rightarrow> ('rt, 'a) op \<Rightarrow> ('rt world \<Rightarrow> bool) \<Rightarrow> bool" where
  "yields P m Q \<longleftrightarrow> (\<forall>w x w'. P w \<longrightarrow> run_state m w = (Inr x, w') \<longrightarrow> Q w')"

lemma yieldsD: "yields P m Q \<Longrightarrow> P w \<Longrightarrow> run_state m w = (Inr x, w') \<Longrightarrow> Q w'"
  by (simp add: yields_def)

lemma yields_attempt:
  assumes "\<And>x w w'. P w \<Longrightarrow> run_state m w = (Inr x, w') \<Longrightarrow> P' x w'" "\<And>e. fails (h e)" "\<And>x. yields (P' x) (k x) Q"
  shows "yields P (attempt m h k) Q"
  unfolding yields_def
proof (intro allI impI)
  fix w y w' assume "P w" "run_state (attempt m h k) w = (Inr y, w')"
  then obtain x w1 where "run_state m w = (Inr x, w1)" "run_state (k x) w1 = (Inr y, w')"
    using assms(2) by (metis run_attempt_InrE)
  then show "Q w'" using assms(1)[OF \<open>P w\<close>] yieldsD[OF assms(3)] by blast
qed

text \<open>The three phases: no instance yet, an instance started, all scripts run in it. \<open>w0\<close> is the world at the start.\<close>

definition pre_start :: "'rt world \<Rightarrow> 'rt world \<Rightarrow> bool" where
  "pre_start w0 w \<longleftrightarrow> log_grows w0 w \<and> mask_scripts (w_db w) = mask_scripts (w_db w0)"

definition started :: "'rt world \<Rightarrow> string \<Rightarrow> string \<Rightarrow> 'rt world \<Rightarrow> bool" where
  "started w0 name cid w \<longleftrightarrow> (\<exists>es1 spec es2. bs_Name spec = ''pgoverlay-br-'' @ name
     \<and> w_log w = w_log w0 @ es1 @ EvStartBranch spec (Some cid) # es2 \<and> mask_scripts (w_db w) = mask_scripts (w_db w0))"

definition masked_since :: "'rt world \<Rightarrow> source \<Rightarrow> string \<Rightarrow> 'rt world \<Rightarrow> bool" where
  "masked_since w0 src name w \<longleftrightarrow>
     (\<exists>es. w_log w = w_log w0 @ es \<and> masked_run src (GetMaskScripts (src_ID src) (w_db w0)) name es)"

definition absorbs :: "'rt env \<Rightarrow> ('rt world \<Rightarrow> bool) \<Rightarrow> bool" where
  "absorbs E P \<longleftrightarrow> masks_stable E \<and> (\<forall>w w'. P w \<longrightarrow> log_grows w w' \<longrightarrow> mask_scripts (w_db w') = mask_scripts (w_db w) \<longrightarrow> P w')"

lemma absorbs_phases:
  assumes "masks_stable E"
  shows "absorbs E (pre_start w0)" "absorbs E (started w0 name cid)" "absorbs E (masked_since w0 src name)"
proof -
  show "absorbs E (pre_start w0)" using assms by (auto simp: absorbs_def pre_start_def intro: log_grows_trans)
  show "absorbs E (started w0 name cid)" using assms by (fastforce simp: absorbs_def started_def log_grows_def)
  show "absorbs E (masked_since w0 src name)"
    unfolding absorbs_def masked_since_def log_grows_def using assms masked_run_pad by fastforce
qed

lemma absorbs_run:
  assumes "absorbs E P" "keeps log_grows m" "keeps (masks_under E) m" "P w" "run_state m w = (x, w')"
  shows "P w'"
  using assms(1,4) keepsD[OF assms(2,5)] keepsD[OF assms(3,5)] unfolding absorbs_def masks_under_def by blast

lemma pass_final: "absorbs E P \<Longrightarrow> keeps log_grows m \<Longrightarrow> keeps (masks_under E) m \<Longrightarrow> yields P m P"
  unfolding yields_def using absorbs_run[of E P m] by simp

lemma pass_attempt:
  "absorbs E P \<Longrightarrow> keeps log_grows m \<Longrightarrow> keeps (masks_under E) m \<Longrightarrow> (\<And>e. fails (h e)) \<Longrightarrow> (\<And>x. yields P (k x) Q)
     \<Longrightarrow> yields P (attempt m h k) Q"
  by (rule yields_attempt[where P' = "\<lambda>_. P"]) (use absorbs_run[of E P m] in simp_all)

lemma pass_bind:
  "absorbs E P \<Longrightarrow> keeps log_grows m \<Longrightarrow> keeps (masks_under E) m \<Longrightarrow> (\<And>x. yields P (k x) Q) \<Longrightarrow> yields P (State_Monad.bind m k) Q"
  unfolding yields_def using absorbs_run[of E P m] by (auto split: prod.splits) blast

lemma start_attempt:
  assumes E: "masks_stable E" "bs_Name spec = ''pgoverlay-br-'' @ name" "\<And>e. fails (h e)"
    and k: "\<And>cid. yields (started w0 name cid) (k cid) Q"
  shows "yields (pre_start w0) (attempt (StartBranch E spec) h k) Q"
proof (rule yields_attempt[OF _ assms(3) k])
  fix cid w w' assume P: "pre_start w0 w" and s: "run_state (StartBranch E spec) w = (Inr cid, w')"
  have "w_log w' = w_log w @ [EvStartBranch spec (Some cid)]" using s by (auto simp: StartBranch_def dest: run_drv_call_Inr)
  moreover have "mask_scripts (w_db w') = mask_scripts (w_db w)"
    using keepsD[OF mk.start_rule s] E(1) by (simp add: masks_under_def)
  ultimately show "started w0 name cid w'" using P E(2) by (fastforce simp: started_def pre_start_def log_grows_def)
qed

lemma mask_attempt:
  assumes E: "masks_stable E" "\<And>e. fails (h e)" and k: "\<And>u. yields (masked_since w0 src name) (k u) Q"
  shows "yields (started w0 name cid) (attempt (applyMasking E cid src) h k) Q"
proof (rule yields_attempt[OF _ assms(2) k])
  fix w w' and u :: unit assume P: "started w0 name cid w" and s: "run_state (applyMasking E cid src) w = (Inr u, w')"
  have "w_log w' = w_log w @ mask_events cid src (GetMaskScripts (src_ID src) (w_db w0))"
    using applyMasking_log[OF E(1)] s P by (auto simp: started_def GetMaskScripts_def)
  then show "masked_since w0 src name w'"
    using P unfolding started_def masked_since_def masked_run_def by (metis append.assoc append_Cons append_Nil2)
qed

lemmas phase_rules = start_attempt mask_attempt start_attempt[where h = fail_with, folded seq_ok_def]
  mask_attempt[where h = fail_with, folded seq_ok_def]
lemmas pass_rules = pass_attempt pass_attempt[where h = fail_with, folded seq_ok_def] pass_bind

lemma awaitAndMark_yields:
  assumes E: "masks_stable E"
  shows "yields (started w0 name cid) (awaitAndMark G E b src cid) (masked_since w0 src name)"
  unfolding awaitAndMark_def
  by (rule phase_rules[OF E] | (rule pass_rules pass_final, rule absorbs_phases[OF E]) | intro saga_rules | simp)+

lemma await_attempt:
  assumes "masks_stable E" "\<And>e. fails (h e)"
  shows "yields (started w0 name cid) (attempt (awaitAndMark G E b src cid) h ok) (masked_since w0 src name)"
  by (rule yields_attempt[where P' = "\<lambda>_. masked_since w0 src name"])
    (use assms yieldsD[OF awaitAndMark_yields[OF assms(1)]] in \<open>auto simp: yields_def\<close>)

lemma provision_yields:
  assumes E: "masks_stable E"
  shows "yields (pre_start w0) (provisionOverlay G E b src) (masked_since w0 src (b_Name b))"
    "yields (pre_start w0) (provisionZFS G E b src) (masked_since w0 src (b_Name b))"
    "yields (pre_start w0) (provisionCSI G E b src) (masked_since w0 src (b_Name b))"
  unfolding provisionOverlay_def provisionZFS_def provisionCSI_def startOverlayBranch_def startZFSBranch_def startDirectBranch_def Let_def
  by (rule phase_rules[OF E] await_attempt[OF E] | (rule pass_rules, rule absorbs_phases[OF E]) | intro saga_rules
      | simp add: branch_spec_def)+

lemma commit_freeze_rules [saga_rules]:
  "keeps log_grows (reg_commit_freeze E p c vol rw cid info reason)"
  "keeps (masks_under E) (reg_commit_freeze E p c vol rw cid info reason)"
  unfolding reg_commit_freeze_def by (rule log_grows_write) (rule masks_write, auto elim!: CommitFreezeCtx_InrD)

lemma freezeChild_yields:
  assumes E: "masks_stable E" and fail: "\<And>undo e. fails (fail undo e)"
  shows "yields (pre_start w0) (freezeChild G E child parent src plan newRW pcid undo fail) (masked_since w0 src (b_Name child))"
  unfolding freezeChild_def startOverlayBranch_def Let_def
  by (rule phase_rules[OF E] | (rule pass_rules pass_final, rule absorbs_phases[OF E]) | intro saga_rules
      | simp add: branch_spec_def fail)+

lemma freezeAndProvision_yields:
  assumes E: "masks_stable E"
  shows "yields (pre_start w0) (freezeAndProvision G E child parent src) (masked_since w0 src (b_Name child))"
  unfolding freezeAndProvision_def freezeParent_def Let_def
  by (rule freezeChild_yields[OF E] | (rule pass_rules, rule absorbs_phases[OF E]) | intro saga_rules | simp)+

section \<open>The create paths\<close>

lemma yields_fail: "yields P (fail_with e) Q"
  by (simp add: yields_def)

lemma yields_if: "(b \<Longrightarrow> yields P m Q) \<Longrightarrow> (\<not> b \<Longrightarrow> yields P m' Q) \<Longrightarrow> yields P (if b then m else m') Q"
  by simp

lemma yields_then:
  assumes "masks_stable E" "yields P m (masked_since w0 src name)" "\<And>e. fails (h e)" "\<And>x. keeps log_grows (k x)" "\<And>x. keeps (masks_under E) (k x)"
  shows "yields P (attempt m h k) (masked_since w0 src name)"
  by (rule yields_attempt[where P' = "\<lambda>_. masked_since w0 src name", OF _ assms(3)])
    (use yieldsD[OF assms(2)] pass_final[OF absorbs_phases(3)[OF assms(1)] assms(4,5)] in auto)

text \<open>While the operation only reads, the database moves by registry steps, so what it reads was there.\<close>

definition reading :: "'rt world \<Rightarrow> 'rt world \<Rightarrow> bool" where
  "reading w0 w \<longleftrightarrow> pre_start w0 w \<and> reg_step\<^sup>*\<^sup>* (w_db w0) (w_db w)"

lemma reading_run:
  assumes "env_ok E" "masks_stable E" "keeps log_grows m" "keeps (masks_under E) m" "saga E (\<lambda>d. True) m"
    and "reading w0 w" "run_state m w = (x, w')"
  shows "reading w0 w'"
  using absorbs_run[OF absorbs_phases(1)[OF assms(2)] assms(3,4) _ assms(7)] sagaD[OF assms(5,1) stable_True, of w] assms(6,7)
  unfolding reading_def by auto

lemma reading_seq:
  assumes "env_ok E" "masks_stable E" "keeps log_grows m" "keeps (masks_under E) m" "saga E (\<lambda>d. True) m" "\<And>x. yields (reading w0) (k x) Q"
  shows "yields (reading w0) (seq_ok m k) Q"
  unfolding seq_ok_def
  by (rule yields_attempt[where P' = "\<lambda>_. reading w0"]) (use reading_run[OF assms(1-5)] assms(6) in auto)

lemma reading_read:
  assumes "env_ok E" "masks_stable E" "\<And>e. fails (h e)"
    and "\<And>x d. reg_step\<^sup>*\<^sup>* (w_db w0) d \<Longrightarrow> f d = Inr x \<Longrightarrow> yields (reading w0) (k x) Q"
  shows "yields (reading w0) (attempt (reg_read E f) h k) Q"
proof -
  have "yields (\<lambda>w. reading w0 w \<and> (\<exists>d. reg_step\<^sup>*\<^sup>* (w_db w0) d \<and> f d = Inr x)) (k x) Q" for x
    using assms(4) unfolding yields_def by blast
  moreover have "\<exists>d. reg_step\<^sup>*\<^sup>* (w_db w0) d \<and> f d = Inr x" if "reading w0 w" "run_state (reg_read E f) w = (Inr x, w')" for x w w'
    using reading_run[OF assms(1,2) lg.keeps_reg_read mk.keeps_reg_read sg.keeps_reg_read that] that(2)
    by (auto simp: reading_def run_reg_read Let_def split: option.splits sum.splits)
  ultimately show ?thesis
    by (intro yields_attempt[where P' = "\<lambda>x w. reading w0 w \<and> (\<exists>d. reg_step\<^sup>*\<^sup>* (w_db w0) d \<and> f d = Inr x)"] assms(3))
      (use reading_run[OF assms(1,2) lg.keeps_reg_read mk.keeps_reg_read sg.keeps_reg_read] in auto)
qed

lemma reading_pre: "yields (pre_start w0) m Q \<Longrightarrow> yields (reading w0) m Q"
  unfolding yields_def reading_def by blast

definition masked_for :: "(source \<Rightarrow> db \<Rightarrow> bool) \<Rightarrow> string \<Rightarrow> 'rt world \<Rightarrow> 'rt world \<Rightarrow> bool" where
  "masked_for sel name w0 w \<longleftrightarrow> (\<exists>src d. reg_step\<^sup>*\<^sup>* (w_db w0) d \<and> sel src d \<and> masked_since w0 src name w)"

lemma masked_forI:
  "reg_step\<^sup>*\<^sup>* (w_db w0) d \<Longrightarrow> sel src d \<Longrightarrow> yields (pre_start w0) m (masked_since w0 src name) \<Longrightarrow> yields (reading w0) m (masked_for sel name w0)"
  by (rule reading_pre) (unfold yields_def masked_for_def, blast)

lemma lg_create [saga_rules]: "keeps log_grows (reg_create_branch E b)"
  unfolding reg_create_branch_def by (rule log_grows_write)

lemma create_tail:
  assumes E: "masks_stable E" and p: "\<And>b. yields (pre_start w0) (p b) (masked_since w0 src (b_Name b))" and h: "\<And>b e. fails (h b e)"
    and k: "\<And>b x. keeps log_grows (k b x)" "\<And>b x. keeps (masks_under E) (k b x)" and "b_Name b0 = nm"
  shows "yields (pre_start w0) (seq_ok (reg_create_branch E b0) (\<lambda>b. attempt (p b) (h b) (k b))) (masked_since w0 src nm)"
proof -
  have name: "b_Name b = b_Name b0" if "run_state (reg_create_branch E b0) w = (Inr b, w')" for b w w'
    using that by (auto simp: reg_create_branch_def run_reg_write Let_def split: sum.splits option.splits dest: CreateBranchCtx_InrD(1))
  have "yields (\<lambda>w. pre_start w0 w \<and> b_Name b = b_Name b0) (attempt (p b) (h b) (k b)) (masked_since w0 src (b_Name b0))" for b
    using yields_then[OF E p[of b] h[of b] k(1)[of b] k(2)[of b]] by (cases "b_Name b = b_Name b0") (simp_all add: yields_def)
  then show ?thesis unfolding seq_ok_def
    by (intro yields_attempt[where P' = "\<lambda>b w. pre_start w0 w \<and> b_Name b = b_Name b0"])
      (use name absorbs_run[OF absorbs_phases(1)[OF E] lg_create masks_create] in \<open>auto simp: assms(6)\<close>)
qed

lemmas reading_rules = reading_read reading_read[where h = fail_with, folded seq_ok_def]

lemma provision_any_yields:
  assumes E: "masks_stable E"
  shows "yields (pre_start w0) (provision G E b src) (masked_since w0 src (b_Name b))"
    "yields (pre_start w0) (if csi G then provisionCSI G E b src else if zfs G then provisionZFS G E b src
       else freezeAndProvision G E b parent src) (masked_since w0 src (b_Name b))"
  by (simp_all add: provision_def provision_yields[OF E] freezeAndProvision_yields[OF E])

lemma CreateBranch_masked:
  assumes E: "env_ok E" "masks_stable E"
  shows "yields (reading w0) (CreateBranch G E name sourceName ttl) (masked_for (\<lambda>src d. GetSourceByName sourceName d = Inr src) name w0)"
  unfolding CreateBranch_def
  by (rule reading_rules[OF E] | rule reading_seq[OF E] | (rule masked_forI, assumption, assumption) | rule yields_if | rule yields_fail
    | (rule create_tail[OF E(2)], rule provision_any_yields[OF E(2)])
    | (rule pass_rules, rule absorbs_phases[OF E(2)]) | intro saga_rules | simp add: newBranch_def)+

text \<open>The source of the branch the parent's name resolved to.\<close>

definition parent_source :: "'rt env \<Rightarrow> string \<Rightarrow> db \<Rightarrow> source \<Rightarrow> db \<Rightarrow> bool" where
  "parent_source E parentName d0 src d \<longleftrightarrow> (\<exists>d1 parent. reg_step\<^sup>*\<^sup>* d0 d1
     \<and> GetBranchByName (read_password (e_crypto E) (e_box E)) parentName d1 = Inr parent \<and> GetSourceByID (b_SourceID parent) d = Inr src)"

lemma CreateBranchFrom_masked:
  assumes E: "env_ok E" "masks_stable E"
  shows "yields (reading w0) (CreateBranchFrom G E name parentName ttl) (masked_for (parent_source E parentName (w_db w0)) name w0)"
  unfolding CreateBranchFrom_def reg_branch_by_name_def
  by (rule reading_rules[OF E] | rule reading_seq[OF E] | rule yields_if | rule yields_fail
    | (rule masked_forI, assumption, unfold parent_source_def, (rule exI)+, intro conjI, assumption, assumption, assumption)
    | (rule create_tail[OF E(2)], rule provision_any_yields[OF E(2)])
    | (rule pass_rules, rule absorbs_phases[OF E(2)]) | intro saga_rules | simp add: newBranch_def)+


section \<open>A concrete run\<close>

definition mask_db :: db where
  "mask_db = demo_db1\<lparr>sources := map (\<lambda>s. s\<lparr>sr_state := SourceReady\<rparr>) (sources demo_db1),
     mask_scripts := [\<lparr>m_source_id = ''s1'', m_ord = 0, m_name = ''emails'', m_sql = ''UPDATE u SET email = NULL''\<rparr>]\<rparr>"

lemma mask_db_facts:
  "\<exists>src. GetSourceByName ''prod'' mask_db = Inr src \<and> src_State src = SourceReady \<and> src_ID src = ''s1'' \<and> src_Volume src = ''v1''"
  "freshBranchLayer (g_planner sim_engine) ''x'' (Suc 0) mask_db = Some ''pgoverlay-br-x-rw''"
proof -
  show "freshBranchLayer (g_planner sim_engine) ''x'' (Suc 0) mask_db = Some ''pgoverlay-br-x-rw''"
    by (subst first_generation)
      (simp_all add: sim_engine_def VolumeNameUsed_def mask_db_def demo_eval BranchRWVolumeNameGen_def BranchRWVolumeName_def)
qed (simp add: mask_db_def demo_eval GetSourceByName_def scanSource_def)

definition mask_branch :: branch where
  "mask_branch = newBranch ''x'' ''s1'' ''pgoverlay-br-x-rw'' ''v1'' [] []"

lemma mask_db_create:
  "\<exists>d. CreateBranchCtx no_actor (stamp sim_env t) (sim_newID t mask_db) mask_branch mask_db = Inr (mask_branch\<lparr>b_ID := ''xxx''\<rparr>, d)
     \<and> LayerChain ''xxx'' d = Inr []
     \<and> (\<forall>t1 t2. \<exists>d'. MarkBranchReadyCtx no_actor (stamp sim_env t1) ''xxx'' ''pgoverlay-br-x'' ''127.0.0.1'' 5433
          (SetBranchContainer (stamp sim_env t2) ''xxx'' ''pgoverlay-br-x'' d) = Inr d'
        \<and> (\<exists>b'. GetBranchByName (read_password demo_crypto None) ''x'' d' = Inr b'))"
  by (simp add: mask_db_def mask_branch_def sim_newID_def newBranch_def demo_eval SetBranchContainer_def LayerChain_def
      GetBranchByName_def getBranch_def scanBranch_def null_string_def live_branch_def)

lemma sim_CreateBranch: "succeeds (CreateBranch sim_engine sim_env ''x'' ''prod'' 0) (sim_world mask_db) (\<lambda>b w. True)"
proof -
  obtain src where src: "GetSourceByName ''prod'' mask_db = Inr src" "src_State src = SourceReady" "src_ID src = ''s1''" "src_Volume src = ''v1''"
    using mask_db_facts(1) by blast
  let ?b = "mask_branch\<lparr>b_ID := ''xxx''\<rparr>"
  obtain d where d: "CreateBranchCtx no_actor (stamp sim_env 3) (sim_newID 3 mask_db) mask_branch mask_db = Inr (?b, d)"
      "LayerChain ''xxx'' d = Inr []"
    and m: "\<And>t1 t2. \<exists>d'. MarkBranchReadyCtx no_actor (stamp sim_env t1) ''xxx'' ''pgoverlay-br-x'' ''127.0.0.1'' 5433
        (SetBranchContainer (stamp sim_env t2) ''xxx'' ''pgoverlay-br-x'' d) = Inr d'
      \<and> (\<exists>b'. GetBranchByName (read_password demo_crypto None) ''x'' d' = Inr b')"
    using mask_db_create[of 3] by blast
  have fin: "succeeds (provision sim_engine sim_env ?b src) w1 (\<lambda>x w2. succeeds (reg_branch_by_name sim_env ''x'') w2 (\<lambda>b w. True))"
    if "w_db w1 = d" "w_rt w1 = w_rt (sim_world mask_db)" for w1
    by (rule succeeds_mono[OF sim_provision[where chain = "[]" and Q = "\<lambda>d. \<exists>b'. GetBranchByName (read_password demo_crypto None) ''x'' d = Inr b'"]])
      (use d(2) m that in \<open>auto simp: mask_branch_def newBranch_def sim_world_def succeeds_def reg_branch_by_name_def sim_run\<close>)
  have c: "succeeds (reg_create_branch sim_env mask_branch) w1 Q" if "w_tick w1 = 3" "w_db w1 = mask_db" "Q ?b (w1\<lparr>w_tick := 4, w_db := d\<rparr>)" for w1 Q
    using that d(1) by (simp add: succeeds_def reg_create_branch_def sim_run)
  have n: "run_state (checkName ''x'') w = (Inr (), w)" for w :: "sim world"
  proof -
    have "validateBranchName ''x'' = None" by code_simp
    then show ?thesis by (simp add: checkName_def)
  qed
  show ?thesis unfolding CreateBranch_def reg_fresh_layer_def
    apply (rule succeeds_seq[OF succeeds_run[OF n]], rule succeeds_seq[OF succeeds_run[OF sim_policies(1)]])
    apply (rule succeeds_seq[OF sim_leaf(1)], simp add: sim_world_def src, simp only: src if_False simp_thms)
    apply (rule succeeds_seq[OF succeeds_seq[OF sim_leaf(1)]], simp add: sim_world_def mask_db_facts(2), simp only: option.case succeeds_ok)
    apply (rule succeeds_bind[OF sim_policies(2)], fold mask_branch_def, rule succeeds_seq[OF c])
    apply (simp_all add: sim_world_def)
    apply (rule succeeds_attempt[OF fin], simp_all add: sim_world_def)
    done
qed

lemma sim_masks_stable: "masks_stable sim_env"
  by (simp add: masks_stable_def sim_env_def)


end
