(* ===== verification/SagaCompensation.thy ===== *)
theory SagaCompensation
  imports SagaMasking
begin

text \<open>
  Compensation: a provisioning saga that fails leaves behind no volume and no container it made, unless a
  compensating call itself failed, which the engine counts and logs.
\<close>

section \<open>What is relied on of the runtime\<close>

text \<open>
  \<open>vols\<close> and \<open>conts\<close> read off a runtime state which volumes and containers exist. The documented contract of the
  driver: a create adds at most the named volume, and nothing when it fails; a remove that succeeds has removed
  it; a start adds at most the container it returns, and nothing when it fails; a stop that succeeds has removed the
  container; the other calls create nothing.
\<close>

definition driver_ok :: "('rt \<Rightarrow> string set) \<Rightarrow> ('rt \<Rightarrow> string set) \<Rightarrow> 'rt driver \<Rightarrow> bool" where
  "driver_ok vols conts D \<longleftrightarrow>
     (\<forall>v ls s r s'. drv_CreateVolume D v ls s = (r, s') \<longrightarrow> conts s' \<subseteq> conts s \<and> vols s' \<subseteq> (if r = None then insert v (vols s) else vols s))
   \<and> (\<forall>v v' ls s r s'. drv_CloneVolume D v v' ls s = (r, s') \<longrightarrow> conts s' \<subseteq> conts s \<and> vols s' \<subseteq> (if r = None then insert v' (vols s) else vols s))
   \<and> (\<forall>v s r s'. drv_RemoveVolume D v s = (r, s') \<longrightarrow> conts s' \<subseteq> conts s \<and> vols s' \<subseteq> (if r = None then vols s - {v} else vols s))
   \<and> (\<forall>spec s r s'. drv_StartBranch D spec s = (r, s') \<longrightarrow> vols s' \<subseteq> vols s
        \<and> conts s' \<subseteq> (case r of Inl m \<Rightarrow> conts s | Inr c \<Rightarrow> insert c (conts s)))
   \<and> (\<forall>c s r s'. drv_StopRemove D c s = (r, s') \<longrightarrow> vols s' \<subseteq> vols s \<and> conts s' \<subseteq> (if r = None then conts s - {c} else conts s))
   \<and> (\<forall>spec s r s'. drv_RunHelper D spec s = (r, s') \<longrightarrow> vols s' \<subseteq> vols s \<and> conts s' \<subseteq> conts s)
   \<and> (\<forall>c cmd s r s'. drv_Exec D c cmd s = (r, s') \<longrightarrow> vols s' \<subseteq> vols s \<and> conts s' \<subseteq> conts s)
   \<and> (\<forall>c cmd s r s'. drv_ExecOutput D c cmd s = (r, s') \<longrightarrow> vols s' \<subseteq> vols s \<and> conts s' \<subseteq> conts s)
   \<and> (\<forall>c s r s'. drv_Inspect D c s = (r, s') \<longrightarrow> vols s' \<subseteq> vols s \<and> conts s' \<subseteq> conts s)
   \<and> (\<forall>i s r s'. drv_ListManagedVolumes D i s = (r, s') \<longrightarrow> vols s' \<subseteq> vols s \<and> conts s' \<subseteq> conts s)
   \<and> (\<forall>s r s'. drv_ListManaged D s = (r, s') \<longrightarrow> vols s' \<subseteq> vols s \<and> conts s' \<subseteq> conts s)
   \<and> (\<forall>s r s'. drv_ListHelpers D s = (r, s') \<longrightarrow> vols s' \<subseteq> vols s \<and> conts s' \<subseteq> conts s)
   \<and> (\<forall>f c s r s'. drv_DiagnoseContainer D = Some f \<longrightarrow> f c s = (r, s') \<longrightarrow> vols s' \<subseteq> vols s \<and> conts s' \<subseteq> conts s)"

lemma driver_ok_volumes: "driver_ok vols conts D \<Longrightarrow> driver_ok vols (\<lambda>s. {}) D"
  unfolding driver_ok_def by (simp split: sum.splits)

lemma driver_okD:
  assumes "driver_ok vols conts D"
  shows "drv_CreateVolume D v ls s = (r, s') \<Longrightarrow> conts s' \<subseteq> conts s \<and> vols s' \<subseteq> (if r = None then insert v (vols s) else vols s)"
    "drv_CloneVolume D v v' ls s = (r, s') \<Longrightarrow> conts s' \<subseteq> conts s \<and> vols s' \<subseteq> (if r = None then insert v' (vols s) else vols s)"
    "drv_RemoveVolume D v s = (r, s') \<Longrightarrow> conts s' \<subseteq> conts s \<and> vols s' \<subseteq> (if r = None then vols s - {v} else vols s)"
    "drv_StartBranch D spec s = (r2, s') \<Longrightarrow> vols s' \<subseteq> vols s \<and> conts s' \<subseteq> (case r2 of Inl m \<Rightarrow> conts s | Inr c \<Rightarrow> insert c (conts s))"
    "drv_StopRemove D c s = (r, s') \<Longrightarrow> vols s' \<subseteq> vols s \<and> conts s' \<subseteq> (if r = None then conts s - {c} else conts s)"
    "drv_RunHelper D hspec s = (r2, s') \<Longrightarrow> vols s' \<subseteq> vols s \<and> conts s' \<subseteq> conts s"
    "drv_Exec D c cmd s = (r, s') \<Longrightarrow> vols s' \<subseteq> vols s \<and> conts s' \<subseteq> conts s"
    "drv_ExecOutput D c cmd s = (r2, s') \<Longrightarrow> vols s' \<subseteq> vols s \<and> conts s' \<subseteq> conts s"
    "drv_Inspect D c s = (r3, s') \<Longrightarrow> vols s' \<subseteq> vols s \<and> conts s' \<subseteq> conts s"
    "drv_ListManagedVolumes D i s = (r4, s') \<Longrightarrow> vols s' \<subseteq> vols s \<and> conts s' \<subseteq> conts s"
    "drv_DiagnoseContainer D = Some f \<Longrightarrow> f c s = (r5, s') \<Longrightarrow> vols s' \<subseteq> vols s \<and> conts s' \<subseteq> conts s"
    "drv_ListManaged D s = (r6, s') \<Longrightarrow> vols s' \<subseteq> vols s \<and> conts s' \<subseteq> conts s"
    "drv_ListHelpers D s = (r6, s') \<Longrightarrow> vols s' \<subseteq> vols s \<and> conts s' \<subseteq> conts s"
  using assms unfolding driver_ok_def by (elim conjE; metis)+

section \<open>Calls that create nothing\<close>

definition shrinks :: "('rt \<Rightarrow> string set) \<Rightarrow> ('rt \<Rightarrow> string set) \<Rightarrow> 'rt env \<Rightarrow> 'rt world \<Rightarrow> 'rt world \<Rightarrow> bool" where
  "shrinks vols conts E w w' \<longleftrightarrow> (driver_ok vols conts (e_drv E) \<longrightarrow> w_compensationFailures w \<le> w_compensationFailures w'
     \<and> vols (w_rt w') \<subseteq> vols (w_rt w) \<and> conts (w_rt w') \<subseteq> conts (w_rt w))"

lemma shrinks_trans: "shrinks vols conts E w w1 \<Longrightarrow> shrinks vols conts E w1 w2 \<Longrightarrow> shrinks vols conts E w w2"
  unfolding shrinks_def by fastforce

lemma shrinks_same: "w_rt w' = w_rt w \<Longrightarrow> w_compensationFailures w' = w_compensationFailures w \<Longrightarrow> shrinks vols conts E w w'"
  by (simp add: shrinks_def)

lemma shrinks_tick: "keeps (shrinks vols conts E) (tick E)"
  by (simp add: keeps_def tick_def shrinks_def)

lemma shrinks_write: "keeps (shrinks vols conts E) (reg_write E f)"
  by (auto simp: keeps_def shrinks_def reg_write_def tick_def split: sum.splits option.splits)

lemma shrinks_call:
  assumes "\<And>s r s'. driver_ok vols conts (e_drv E) \<Longrightarrow> f s = (r, s') \<Longrightarrow> vols s' \<subseteq> vols s \<and> conts s' \<subseteq> conts s"
  shows "keeps (shrinks vols conts E) (drv_call E ev f)"
  by (rule keeps_drv_call[OF shrinks_tick shrinks_trans]) (use assms in \<open>auto simp: shrinks_def\<close>)

lemma unit_call_eq: "unit_call f s = (r, s') \<longleftrightarrow> (case r of Inl m \<Rightarrow> f s = (Some m, s') | Inr u \<Rightarrow> f s = (None, s'))"
  by (auto simp: unit_call_def split: prod.splits option.splits sum.splits)

lemma shrinks_calls:
  "keeps (shrinks vols conts E) (Exec E cid cmd)" "keeps (shrinks vols conts E) (ExecOutput E cid cmd)"
  "keeps (shrinks vols conts E) (Inspect E cid)" "keeps (shrinks vols conts E) (ListManagedVolumes E inst)"
  "keeps (shrinks vols conts E) (RunHelper E spec)" "keeps (shrinks vols conts E) (RemoveVolume E v)"
  "keeps (shrinks vols conts E) (StopRemove E cid)" "keeps (shrinks vols (\<lambda>s. {}) E) (StartBranch E bspec)"
  "keeps (shrinks vols conts E) (ListManaged E)" "keeps (shrinks vols conts E) (ListHelpers E)"
proof -
  show "keeps (shrinks vols conts E) (ListManaged E)" "keeps (shrinks vols conts E) (ListHelpers E)"
    unfolding ListManaged_def ListHelpers_def by (rule shrinks_call, erule (1) driver_okD(12,13))+
  show "keeps (shrinks vols conts E) (Exec E cid cmd)"
    unfolding Exec_def by (rule shrinks_call) (auto simp: unit_call_eq dest: driver_okD(7) split: sum.splits)
  show "keeps (shrinks vols conts E) (ExecOutput E cid cmd)"
    unfolding ExecOutput_def by (rule shrinks_call) (rule driver_okD(8))
  show "keeps (shrinks vols conts E) (Inspect E cid)"
    unfolding Inspect_def by (rule shrinks_call) (rule driver_okD(9))
  show "keeps (shrinks vols conts E) (ListManagedVolumes E inst)"
    unfolding ListManagedVolumes_def by (rule shrinks_call) (rule driver_okD(10))
  show "keeps (shrinks vols conts E) (RunHelper E spec)"
    unfolding RunHelper_def by (rule shrinks_call) (rule driver_okD(6))
  show "keeps (shrinks vols conts E) (RemoveVolume E v)"
    unfolding RemoveVolume_def by (rule shrinks_call) (force simp: unit_call_eq dest: driver_okD(3) split: sum.splits)
  show "keeps (shrinks vols conts E) (StopRemove E cid)"
    unfolding StopRemove_def by (rule shrinks_call) (force simp: unit_call_eq dest: driver_okD(5) split: sum.splits)
  show "keeps (shrinks vols (\<lambda>s. {}) E) (StartBranch E bspec)"
    unfolding StartBranch_def by (rule shrinks_call) (force dest: driver_okD(4))
qed

lemma shrinks_diagnose: "keeps (shrinks vols conts E) (DiagnoseContainer E cid)"
proof (cases "drv_DiagnoseContainer (e_drv E)")
  case (Some f)
  then show ?thesis
    by (auto simp: keeps_def DiagnoseContainer_def shrinks_def split: prod.splits dest!: driver_okD(11)[OF _ Some])
qed (simp add: DiagnoseContainer_def keeps_def shrinks_same)

interpretation sh: probe_relation "shrinks vols conts E" E for vols conts E
  by unfold_locales (auto intro: shrinks_trans shrinks_same shrinks_tick shrinks_diagnose shrinks_calls shrinks_write
      simp: reg_call_defs shrinks_def)

interpretation vs: restart_relation "shrinks vols (\<lambda>s. {}) E" E for vols E
  by unfold_locales (rule shrinks_calls)+

declare shrinks_calls(5-7) [saga_rules]

section \<open>What a failed run has left\<close>

text \<open>\<open>holds V C\<close>: if no compensation has failed since \<open>w0\<close>, only the volumes \<open>V\<close> and the containers \<open>C\<close> are new.\<close>

definition holds :: "('rt \<Rightarrow> string set) \<Rightarrow> ('rt \<Rightarrow> string set) \<Rightarrow> 'rt world \<Rightarrow> string set \<Rightarrow> string set \<Rightarrow> 'rt world \<Rightarrow> bool" where
  "holds vols conts w0 V C w \<longleftrightarrow> w_compensationFailures w0 \<le> w_compensationFailures w
     \<and> (w_compensationFailures w = w_compensationFailures w0 \<longrightarrow> vols (w_rt w) \<subseteq> vols (w_rt w0) \<union> V \<and> conts (w_rt w) \<subseteq> conts (w_rt w0) \<union> C)"

definition aborts :: "('rt world \<Rightarrow> bool) \<Rightarrow> ('rt, 'a) op \<Rightarrow> ('rt world \<Rightarrow> bool) \<Rightarrow> bool" where
  "aborts P m Q \<longleftrightarrow> (\<forall>w e w'. P w \<longrightarrow> run_state m w = (Inl e, w') \<longrightarrow> Q w')"

lemma abortsD: "aborts P m Q \<Longrightarrow> P w \<Longrightarrow> run_state m w = (Inl e, w') \<Longrightarrow> Q w'"
  by (simp add: aborts_def)

lemma aborts_attempt:
  assumes "\<And>w x w'. P w \<Longrightarrow> run_state m w = (Inr x, w') \<Longrightarrow> PS x w'" "\<And>w e w'. P w \<Longrightarrow> run_state m w = (Inl e, w') \<Longrightarrow> PF w'"
    and "\<And>x. aborts (PS x) (k x) Q" "\<And>e. aborts PF (h e) Q"
  shows "aborts P (attempt m h k) Q"
  unfolding aborts_def
proof (intro allI impI)
  fix w e w' assume P: "P w" and r: "run_state (attempt m h k) w = (Inl e, w')"
  obtain y w1 where m: "run_state m w = (y, w1)" by (cases "run_state m w")
  show "Q w'"
  proof (cases y)
    case (Inl e1)
    then show ?thesis using r m abortsD[OF assms(4) assms(2)[OF P]] by (simp add: run_attempt)
  next
    case (Inr x)
    then show ?thesis using r m abortsD[OF assms(3) assms(1)[OF P]] by (simp add: run_attempt)
  qed
qed

lemma aborts_ok: "aborts P (ok x) Q"
  by (simp add: aborts_def)

lemma aborts_fail: "aborts P (fail_with e) P"
  by (auto simp: aborts_def)

text \<open>The environment is fixed; what holds survives the calls that create nothing.\<close>

lemma holds_shrinks:
  "driver_ok vols conts (e_drv E) \<Longrightarrow> shrinks vols conts E w w' \<Longrightarrow> holds vols conts w0 V C w \<Longrightarrow> holds vols conts w0 V C w'"
  unfolding holds_def shrinks_def by auto

lemma holds_run:
  assumes "driver_ok vols conts (e_drv E)" "keeps (shrinks vols conts E) m" "run_state m w = (x, w')" "holds vols conts w0 V C w"
  shows "holds vols conts w0 V C w'"
  using holds_shrinks[OF assms(1) keepsD[OF assms(2,3)] assms(4)] .

lemma aborts_keeps:
  "driver_ok vols conts (e_drv E) \<Longrightarrow> keeps (shrinks vols conts E) m \<Longrightarrow> aborts (holds vols conts w0 V C) m (holds vols conts w0 V C)"
  unfolding aborts_def using holds_run by fastforce

lemma aborts_pass:
  assumes D: "driver_ok vols conts (e_drv E)" and m: "keeps (shrinks vols conts E) m"
    and "\<And>e. aborts (holds vols conts w0 V C) (h e) Q" "\<And>x. aborts (holds vols conts w0 V C) (k x) Q"
  shows "aborts (holds vols conts w0 V C) (attempt m h k) Q"
  by (rule aborts_attempt[where PS = "\<lambda>_. holds vols conts w0 V C" and PF = "holds vols conts w0 V C"])
    (use holds_run[OF D m] assms(3,4) in auto)

lemma aborts_bind:
  assumes D: "driver_ok vols conts (e_drv E)" and m: "keeps (shrinks vols conts E) m"
    and "\<And>x. aborts (holds vols conts w0 V C) (k x) Q"
  shows "aborts (holds vols conts w0 V C) (State_Monad.bind m k) Q"
  unfolding aborts_def
  by (auto split: prod.splits dest: holds_run[OF D m]) (metis abortsD assms(3) D holds_run m)

lemma aborts_call:
  assumes D: "driver_ok vols conts (e_drv E)"
    and f: "\<And>s r s'. f s = (r, s') \<Longrightarrow> vols s' \<subseteq> vols s \<union> (if succeeded r then V' r else {}) \<and> conts s' \<subseteq> conts s \<union> (if succeeded r then C' r else {})"
    and "\<And>e. aborts (holds vols conts w0 V C) (h e) Q" "\<And>x. aborts (holds vols conts w0 (V \<union> V' (Inr x)) (C \<union> C' (Inr x))) (k x) Q"
  shows "aborts (holds vols conts w0 V C) (attempt (drv_call E ev f) h k) Q"
proof (rule aborts_attempt[where PS = "\<lambda>x. holds vols conts w0 (V \<union> V' (Inr x)) (C \<union> C' (Inr x))" and PF = "holds vols conts w0 V C"])
  fix w x w' assume P: "holds vols conts w0 V C w" and r: "run_state (drv_call E ev f) w = (Inr x, w')"
  then obtain s where "f (w_rt w) = (Inr x, s)" "w_rt w' = s" "w_compensationFailures w' = w_compensationFailures w"
    by (auto simp: drv_call_def run_tick split: prod.splits sum.splits)
  then show "holds vols conts w0 (V \<union> V' (Inr x)) (C \<union> C' (Inr x)) w'" using P f[of "w_rt w"] unfolding holds_def succeeded_def by fastforce
next
  fix w e w' assume P: "holds vols conts w0 V C w" and r: "run_state (drv_call E ev f) w = (Inl e, w')"
  then obtain s m where "f (w_rt w) = (Inl m, s)" "w_rt w' = s" "w_compensationFailures w' = w_compensationFailures w"
    by (auto simp: drv_call_def run_tick split: prod.splits sum.splits)
  then show "holds vols conts w0 V C w'" using P f[of "w_rt w"] unfolding holds_def succeeded_def by fastforce
qed (use assms in auto)

lemma aborts_create:
  assumes D: "driver_ok vols conts (e_drv E)"
    and "\<And>e. aborts (holds vols conts w0 V C) (h e) Q" "\<And>x. aborts (holds vols conts w0 (insert v V) C) (k x) Q"
  shows "aborts (holds vols conts w0 V C) (attempt (CreateVolume E v ls) h k) Q"
  unfolding CreateVolume_def
  by (rule aborts_call[OF D, where V' = "\<lambda>_. {v}" and C' = "\<lambda>_. {}"])
    (use assms driver_okD(1)[OF D, of v ls] in \<open>force simp: unit_call_eq succeeded_def split: sum.splits\<close>)+

lemma aborts_clone:
  assumes D: "driver_ok vols conts (e_drv E)"
    and "\<And>e. aborts (holds vols conts w0 V C) (h e) Q" "\<And>x. aborts (holds vols conts w0 (insert v V) C) (k x) Q"
  shows "aborts (holds vols conts w0 V C) (attempt (CloneVolume E u v ls) h k) Q"
  unfolding CloneVolume_def
  by (rule aborts_call[OF D, where V' = "\<lambda>_. {v}" and C' = "\<lambda>_. {}"])
    (use assms driver_okD(2)[OF D, of u v ls] in \<open>force simp: unit_call_eq succeeded_def split: sum.splits\<close>)+

lemma aborts_start:
  assumes D: "driver_ok vols conts (e_drv E)"
    and "\<And>e. aborts (holds vols conts w0 V C) (h e) Q" "\<And>c. aborts (holds vols conts w0 V (insert c C)) (k c) Q"
  shows "aborts (holds vols conts w0 V C) (attempt (StartBranch E spec) h k) Q"
  unfolding StartBranch_def
  by (rule aborts_call[OF D, where V' = "\<lambda>_. {}" and C' = "\<lambda>r. case r of Inr c \<Rightarrow> {c} | Inl m \<Rightarrow> {}"])
    (use assms driver_okD(4)[OF D, of spec] in \<open>force simp: succeeded_def split: sum.splits\<close>)+

section \<open>Undoing\<close>

text \<open>Running a list of compensations, in execution order.\<close>

definition clears :: "('rt world \<Rightarrow> bool) \<Rightarrow> ('rt, unit) act list \<Rightarrow> ('rt world \<Rightarrow> bool) \<Rightarrow> bool" where
  "clears P us Q \<longleftrightarrow> (\<forall>w. P w \<longrightarrow> Q (snd (run_state (run_all us) w)))"

lemma clears_Nil: "clears P [] P"
  by (simp add: clears_def)

lemma clears_Cons:
  assumes "\<And>w. P w \<Longrightarrow> P' (snd (run_state u w))" "clears P' us Q"
  shows "clears P (u # us) Q"
  using assms unfolding clears_def by (auto split: prod.splits) (metis snd_conv)

lemma run_logCompensationErr: "run_state (logCompensationErr m) w = (case run_state m w of
    (Inl e, w1) \<Rightarrow> ((), w1\<lparr>w_compensationFailures := w_compensationFailures w1 + 1\<rparr>) | (Inr x, w1) \<Rightarrow> ((), w1))"
  by (simp add: logCompensationErr_def split: prod.splits sum.splits)

lemma logged_call:
  assumes P: "holds vols conts w0 V C w"
    and f: "\<And>s r s'. f s = (r, s') \<Longrightarrow> succeeded r \<Longrightarrow> vols s' \<subseteq> vols s - V' \<and> conts s' \<subseteq> conts s - C'"
  shows "holds vols conts w0 (V - V') (C - C') (snd (run_state (logCompensationErr (drv_call E ev f)) w))"
proof -
  obtain r s where fr: "f (w_rt w) = (r, s)" by (cases "f (w_rt w)")
  show ?thesis
  proof (cases r)
    case (Inl m)
    then show ?thesis using P fr by (simp add: run_logCompensationErr drv_call_def run_tick holds_def)
  next
    case (Inr x)
    then show ?thesis using P fr f[OF fr] by (auto simp: run_logCompensationErr drv_call_def run_tick holds_def succeeded_def)
  qed
qed

lemma clears_remove:
  assumes D: "driver_ok vols conts (e_drv E)" and "clears (holds vols conts w0 (V - {v}) C) us Q"
  shows "clears (holds vols conts w0 V C) (logCompensationErr (RemoveVolume E v) # us) Q"
proof (rule clears_Cons[OF _ assms(2)])
  fix w assume "holds vols conts w0 V C w"
  then have "holds vols conts w0 (V - {v}) (C - {}) (snd (run_state (logCompensationErr (RemoveVolume E v)) w))"
    unfolding RemoveVolume_def
    by (rule logged_call) (use driver_okD(3)[OF D, of v] in \<open>force simp: unit_call_eq succeeded_def split: sum.splits\<close>)
  then show "holds vols conts w0 (V - {v}) C (snd (run_state (logCompensationErr (RemoveVolume E v)) w))" by simp
qed

lemma clears_stop:
  assumes D: "driver_ok vols conts (e_drv E)" and "clears (holds vols conts w0 V (C - {c})) us Q"
  shows "clears (holds vols conts w0 V C) (logCompensationErr (StopRemove E c) # us) Q"
proof (rule clears_Cons[OF _ assms(2)])
  fix w assume "holds vols conts w0 V C w"
  then have "holds vols conts w0 (V - {}) (C - {c}) (snd (run_state (logCompensationErr (StopRemove E c)) w))"
    unfolding StopRemove_def
    by (rule logged_call) (use driver_okD(5)[OF D, of c] in \<open>force simp: unit_call_eq succeeded_def split: sum.splits\<close>)
  then show "holds vols conts w0 V (C - {c}) (snd (run_state (logCompensationErr (StopRemove E c)) w))" by simp
qed

lemma clears_keep:
  assumes D: "driver_ok vols conts (e_drv E)" and u: "keeps (shrinks vols conts E) u" and "clears (holds vols conts w0 V C) us Q"
  shows "clears (holds vols conts w0 V C) (u # us) Q"
  by (rule clears_Cons[OF _ assms(3)]) (use holds_run[OF D u] in \<open>metis surjective_pairing\<close>)

lemma aborts_unwind: "clears P (rev us) Q \<Longrightarrow> aborts P (unwind us e) Q"
  unfolding aborts_def clears_def unwind_def by (fastforce split: prod.splits)

lemma aborts_after:
  assumes D: "driver_ok vols conts (e_drv E)" and "clears P (rev us) (holds vols conts w0 V C)" "keeps (shrinks vols conts E) m"
  shows "aborts P (do { _ \<leftarrow> run_all (rev us); _ \<leftarrow> m; fail_with e }) (holds vols conts w0 V C)"
  unfolding aborts_def
proof (intro allI impI)
  fix w e' w' assume P: "P w" and r: "run_state (do { _ \<leftarrow> run_all (rev us); _ \<leftarrow> m; fail_with e }) w = (Inl e', w')"
  obtain u w1 x where 1: "run_state (run_all (rev us)) w = (u, w1)" and 2: "run_state m w1 = (x, w')"
    using r by (auto split: prod.splits elim: run_bindE)
  have "holds vols conts w0 V C w1" using assms(2) P 1 unfolding clears_def by (metis snd_conv)
  then show "holds vols conts w0 V C w'" by (rule holds_run[OF D assms(3) 2])
qed

lemma aborts_weaken: "aborts P m Q' \<Longrightarrow> (\<And>w. Q' w \<Longrightarrow> Q w) \<Longrightarrow> aborts P m Q"
  by (auto simp: aborts_def)

lemmas abort_rules = aborts_create aborts_clone aborts_start
  aborts_create[where h = fail_with, folded seq_ok_def] aborts_start[where h = fail_with, folded seq_ok_def]
lemmas abort_pass = aborts_pass aborts_pass[where h = fail_with, folded seq_ok_def] aborts_bind
lemmas clear_rules = clears_remove clears_stop clears_keep

section \<open>The provisioning sagas\<close>

lemma provisionOverlay_aborts:
  assumes D: "driver_ok vols conts (e_drv E)"
  shows "aborts (holds vols conts w0 {} {}) (provisionOverlay G E b src) (holds vols conts w0 {} {})"
  unfolding provisionOverlay_def Let_def PlanBranch_def startOverlayBranch_def installOverlayEntrypoint_def Plan.simps
  by (rule abort_rules[OF D] aborts_ok aborts_fail | rule abort_pass[OF D] | rule aborts_unwind | rule clear_rules[OF D]
    | intro saga_rules | simp add: clears_Nil)+

lemma aborts_if: "(b \<Longrightarrow> aborts P m Q) \<Longrightarrow> (\<not> b \<Longrightarrow> aborts P m' Q) \<Longrightarrow> aborts P (if b then m else m') Q"
  by simp

lemma aborts_csiFail:
  assumes D: "driver_ok vols (\<lambda>s. {}) (e_drv E)" and "clears P (rev us) (holds vols (\<lambda>s. {}) w0 V C)"
  shows "aborts P (csiFail G E p src us e) (holds vols (\<lambda>s. {}) w0 V C)"
  unfolding csiFail_def by (rule aborts_after[OF D assms(2)]) (intro saga_rules)

lemmas abort_volume_rules = aborts_create aborts_clone
  aborts_create[where h = fail_with, folded seq_ok_def]

lemma provisionCSI_aborts:
  assumes D: "driver_ok vols (\<lambda>s. {}) (e_drv E)"
  shows "aborts (holds vols (\<lambda>s. {}) w0 {} {}) (provisionCSI G E b src) (holds vols (\<lambda>s. {}) w0 {} {})"
  unfolding provisionCSI_def Let_def
  by (rule abort_volume_rules[OF D] aborts_ok aborts_fail | rule aborts_csiFail[OF D] | rule abort_pass[OF D] | rule clear_rules[OF D]
    | intro saga_rules | simp add: clears_Nil)+

lemma provisionZFS_aborts:
  assumes D: "driver_ok vols conts (e_drv E)"
  shows "aborts (holds vols conts w0 {} {}) (provisionZFS G E b src) (holds vols conts w0 {} {})"
  unfolding provisionZFS_def Let_def startZFSBranch_def runZFS_def
  by (rule abort_rules[OF D] aborts_ok aborts_fail | rule abort_pass[OF D] | rule aborts_unwind | rule clear_rules[OF D]
    | intro saga_rules | simp add: clears_Nil)+


section \<open>A concrete failure\<close>

lemma sim_driver_ok: "driver_ok (\<lambda>s. set (sim_vols s)) (\<lambda>s. set (sim_conts s)) sim_driver"
  unfolding driver_ok_def sim_driver_def by (auto split: if_splits)

text \<open>The name of the container is taken, so the start fails and the volume is removed again.\<close>

definition taken_world :: "sim world" where
  "taken_world = (sim_world demo_db3)\<lparr>w_rt := \<lparr>sim_vols = [''v1''], sim_conts = [''pgoverlay-br-pr-1'']\<rparr>\<rparr>"


end
