(* ===== verification/SagaSafety.thy ===== *)
theory SagaSafety
  imports SagaCompensation
begin

text \<open>
  What the sagas never do to data, and what a destroy guarantees.
\<close>

section \<open>Which volumes a saga removes\<close>

definition removed :: "event list \<Rightarrow> string set" where
  "removed es = {v. \<exists>ok. EvRemoveVolume v ok \<in> set es}"

definition removes_only :: "string set \<Rightarrow> 'rt world \<Rightarrow> 'rt world \<Rightarrow> bool" where
  "removes_only S w w' \<longleftrightarrow> (\<exists>es. w_log w' = w_log w @ es \<and> removed es \<subseteq> S)"

lemma removed_append [simp]: "removed (es @ es') = removed es \<union> removed es'"
  by (auto simp: removed_def)

lemma removes_only_trans: "removes_only S w w1 \<Longrightarrow> removes_only S w1 w2 \<Longrightarrow> removes_only S w w2"
  unfolding removes_only_def by (metis append.assoc removed_append Un_least)

lemma removes_only_same: "w_log w' = w_log w \<Longrightarrow> removes_only S w w'"
  unfolding removes_only_def by (rule exI[of _ "[]"]) (simp add: removed_def)

lemma removes_only_tick: "keeps (removes_only S) (tick E)"
  by (simp add: keeps_def tick_def removes_only_same)

lemma removes_only_write: "keeps (removes_only S) (reg_write E f)"
  by (auto simp: keeps_def reg_write_def tick_def intro: removes_only_same split: sum.splits option.splits)

lemma removes_only_call: "(\<And>r. removed [ev r] \<subseteq> S) \<Longrightarrow> keeps (removes_only S) (drv_call E ev f)"
  by (rule keeps_drv_call[OF removes_only_tick removes_only_trans]) (auto simp: removes_only_def)

lemma removes_only_diagnose: "keeps (removes_only S) (DiagnoseContainer E cid)"
  by (rule keeps_diagnose) (simp_all add: removes_only_same)

interpretation ro: build_relation "removes_only S" E for S E
  by unfold_locales (auto intro: removes_only_trans removes_only_same removes_only_tick removes_only_diagnose removes_only_write removes_only_call
      simp: driver_defs removed_def reg_call_defs)

lemma removes_own [saga_rules]: "v \<in> S \<Longrightarrow> keeps (removes_only S) (RemoveVolume E v)"
  unfolding RemoveVolume_def by (rule removes_only_call) (auto simp: removed_def)

lemma commit_removes [saga_rules]: "keeps (removes_only S) (reg_commit_freeze E p c vol rw cid info reason)"
  unfolding reg_commit_freeze_def by (rule removes_only_write)

lemma freezeParent_removes:
  "newRW \<in> S \<Longrightarrow> p_RWVolume cplan \<in> S
     \<Longrightarrow> keeps (removes_only S) (freezeParent G E child parent src pplan cplan newRW (freezeFail G E parent src chain))"
  unfolding freezeParent_def freezeChild_def Let_def by (intro saga_rules)

lemma keeps_run: "keeps R m \<Longrightarrow> R w (snd (run_state m w))"
  by (simp add: keeps_def)

text \<open>The freeze: the name of the parent's new volume was unused in a database the saga read.\<close>

lemma fresh_layer_run:
  assumes "env_ok E" "run_state (reg_fresh_layer G E name g) w = (Inr v, w')"
  shows "freshBranchLayer (g_planner G) name g (w_db w') = Some v"
  using assms(2) by (auto simp: reg_fresh_layer_def run_seq_ok run_reg_read Let_def split: option.splits)

lemma freeze_removes:
  assumes E: "env_ok E"
  shows "\<exists>es. w_log (snd (run_state (freezeAndProvision G E child parent src) w)) = w_log w @ es
    \<and> removed es \<subseteq> insert (b_RWVolume child) {v. \<exists>d g. reg_step\<^sup>*\<^sup>* (w_db w) d \<and> freshBranchLayer (g_planner G) (b_Name parent) g d = Some v}"
    (is "\<exists>es. _ \<and> removed es \<subseteq> ?S")
proof -
  define pick where "pick = (seq_ok (reg_read E (LayerChain (b_ID parent))) (\<lambda>chain.
      seq_ok (reg_fresh_layer G E (b_Name parent) (length chain + 2)) (\<lambda>newRW. ok (chain, newRW))))"
  define rest where "rest = (\<lambda>(chain, newRW).
      let frozen = b_RWVolume parent # layerVolumes chain;
          parentPlan = PlanBranch newRW (b_SourceVolume parent) frozen;
          childPlan = PlanBranch (b_RWVolume child) (b_SourceVolume child) frozen
        in seq_ok (quiesceParent E parent src (''freeze for child '' @ b_Name child)
             (''freeze for child '' @ b_Name child @ '' aborted: checkpoint failed'')
             (''freeze for child '' @ b_Name child @ '': stop parent failed: '')) (\<lambda>_.
           freezeParent G E child parent src parentPlan childPlan newRW (freezeFail G E parent src chain)))"
  have split: "freezeAndProvision G E child parent src = seq_ok pick rest"
    by (simp add: freezeAndProvision_def pick_def rest_def seq_ok_assoc Let_def)
  have keeps: "keeps (removes_only ?S) pick" "saga E (\<lambda>d. True) pick" unfolding pick_def by (intro saga_rules)+
  obtain r w1 where p: "run_state pick w = (r, w1)" by (cases "run_state pick w")
  have "removes_only ?S w (snd (run_state (freezeAndProvision G E child parent src) w))"
  proof (cases r)
    case (Inl e)
    then show ?thesis using keepsD[OF keeps(1) p] p by (simp add: split run_seq_ok)
  next
    case (Inr cn)
    then obtain chain newRW where cn: "r = Inr (chain, newRW)" by (cases cn) simp
    have steps: "reg_step\<^sup>*\<^sup>* (w_db w) (w_db w1)" using sagaD[OF keeps(2) E stable_True, of w] p by simp
    have "freshBranchLayer (g_planner G) (b_Name parent) (length chain + 2) (w_db w1) = Some newRW"
      using p cn fresh_layer_run[OF E, of G "b_Name parent"] unfolding pick_def
      by (auto simp: run_seq_ok split: prod.splits sum.splits)
    then have "newRW \<in> ?S" using steps by blast
    then have "keeps (removes_only ?S) (rest (chain, newRW))"
      unfolding rest_def Let_def by (auto intro!: saga_rules freezeParent_removes simp: PlanBranch_def)
    from removes_only_trans[OF keepsD[OF keeps(1) p] keeps_run[OF this, of w1]] show ?thesis
      using p cn by (simp add: split run_seq_ok)
  qed
  then show ?thesis by (simp add: removes_only_def)
qed

text \<open>
  No saga removes data it did not make. Whatever the runtime and the registry answer, recovering a branch
  removes no volume at all; provisioning one removes at most that branch's own writable volume; and branching from
  a branch, whose freeze moves the parent onto a new volume, removes at most the child's volume and a volume
  whose name no branch, source or layer had used: never the parent's data, not even while it restores a parent
  after a failure.
\<close>

theorem sagas_remove_only_own:
  assumes "env_ok E"
  shows "(\<exists>es. w_log (snd (run_state (RecoverBranch G E name) w)) = w_log w @ es \<and> removed es = {})
    \<and> (\<exists>es. w_log (snd (run_state (provision G E b src) w)) = w_log w @ es \<and> removed es \<subseteq> {b_RWVolume b})
    \<and> (\<exists>es. w_log (snd (run_state (freezeAndProvision G E child parent src) w)) = w_log w @ es
        \<and> removed es \<subseteq> insert (b_RWVolume child)
            {v. \<exists>d g. reg_step\<^sup>*\<^sup>* (w_db w) d \<and> freshBranchLayer (g_planner G) (b_Name parent) g d = Some v})"
proof (intro conjI)
  show "\<exists>es. w_log (snd (run_state (RecoverBranch G E name) w)) = w_log w @ es \<and> removed es = {}"
    using keeps_run[OF ro.keeps_RecoverBranch, of "{}"] by (simp add: removes_only_def)
  show "\<exists>es. w_log (snd (run_state (provision G E b src) w)) = w_log w @ es \<and> removed es \<subseteq> {b_RWVolume b}"
    using keeps_run[OF ro.keeps_provision[OF removes_own], of b "{b_RWVolume b}"] by (simp add: removes_only_def)
qed (rule freeze_removes[OF assms])

theorem sagas_remove_only_own_witness:
  "\<exists>es. w_log (snd (run_state (RecoverBranch sim_engine sim_env ''pr-1'') (sim_world demo_db3))) = es \<and> removed es = {}"
  using sagas_remove_only_own[OF sim_env_ok, of sim_engine "''pr-1''" "sim_world demo_db3"] by (simp add: sim_world_def)

section \<open>Destroy\<close>

definition gone :: "string \<Rightarrow> db \<Rightarrow> bool" where
  "gone x d \<longleftrightarrow> db_ok d \<and> \<not> fresh_journal_id ''branch'' x d \<and> (\<forall>r \<in> set (branches d). br_id r = x \<longrightarrow> br_state r = BranchDestroyed)"

lemma stable_gone: "stable (gone x)"
  unfolding stable_def
proof (intro allI impI)
  fix d d' assume g: "gone x d" and s: "reg_step d d'"
  then have ok: "db_ok d" "db_ok d'" by (auto simp: gone_def intro: reg_step_ok)
  have "br_state r' = BranchDestroyed" if r': "r' \<in> set (branches d')" "br_id r' = x" for r'
  proof -
    obtain r where r: "r \<in> set (branches d)" "br_id r = x"
      using reg_step_rows[OF s] r' g by (auto simp: rows_kept_def gone_def)
    then have "legalBranchTransition\<^sup>*\<^sup>* BranchDestroyed (br_state r')"
      using states_between[OF db_ok_parts(2)[OF ok(1)] db_ok_parts(2)[OF ok(2)] reg_step_extends[OF s] r(1) r'(1)] r' g by (auto simp: gone_def)
    then show ?thesis by (auto elim: converse_rtranclpE dest: legalBranch_not_from_destroyed)
  qed
  then show "gone x d'" using ok g fresh_journal_mono[OF s] by (auto simp: gone_def)
qed

lemma gone_row: "db_ok d \<Longrightarrow> r \<in> set (branches d) \<Longrightarrow> br_state r = BranchDestroyed \<Longrightarrow> gone (br_id r) d"
  unfolding gone_def using journal_knows_row branch_id_unique[OF db_ok_parts(1)] by metis

lemma saga_db_ok: "saga E db_ok m \<Longrightarrow> env_ok E \<Longrightarrow> db_ok (w_db w) \<Longrightarrow> run_state m w = (x, w') \<Longrightarrow> db_ok (w_db w')"
  using stableD[OF stable_db_ok sagaD[OF _ _ stable_db_ok]] by (metis snd_conv)

lemma destroyed_transition:
  assumes "env_ok E" "db_ok (w_db w)" "run_state (reg_transition E x BranchDestroyed reason) w = (Inr u, w')"
  shows "gone x (w_db w')"
proof -
  obtain d' where d': "transitionBranch (e_actor E) (stamp E (w_tick w)) x BranchDestroyed reason (\<lambda>r. r) (e_interfere E (w_tick w) (w_db w)) = Inr d'" "w_db w' = d'"
    using assms(3) by (auto simp: reg_transition_def run_reg_write Let_def no_result_def TransitionBranchCtx_def split: option.splits sum.splits)
  have ok: "db_ok (w_db w')" by (rule saga_db_ok[OF saga_writes(1) assms])
  from d'(1) have "\<exists>r \<in> set (branches d'). br_id r = x \<and> br_state r = BranchDestroyed"
  proof (rule transitionBranch_InrD)
    fix r assume "r \<in> set (branches (e_interfere E (w_tick w) (w_db w)))" "br_id r = x"
      "d' = journalTx (e_actor E) (stamp E (w_tick w)) ''branch'' (br_id r) (branch_state_str (br_state r)) (branch_state_str BranchDestroyed) reason
        (e_interfere E (w_tick w) (w_db w)\<lparr>branches := upd_where (\<lambda>xa. br_id xa = x \<and> br_state xa = br_state r)
           (\<lambda>x. set_branch_state BranchDestroyed x\<lparr>br_updated_at := stamp E (w_tick w)\<rparr>) (branches (e_interfere E (w_tick w) (w_db w)))\<rparr>)"
    then show ?thesis
      by (intro bexI[of _ "set_branch_state BranchDestroyed r\<lparr>br_updated_at := stamp E (w_tick w)\<rparr>"])
        (auto simp: in_upd_where_iff set_branch_state_def Let_def)
  qed
  then show ?thesis using gone_row[OF ok] d'(2) by auto
qed

lemma yields_ok_attempt:
  assumes E: "env_ok E" and m: "saga E db_ok m" and k: "\<And>x. yields (\<lambda>w. db_ok (w_db w)) (k x) Q" and h: "\<And>e. fails (h e)"
  shows "yields (\<lambda>w. db_ok (w_db w)) (attempt m h k) Q"
  by (rule yields_attempt[where P' = "\<lambda>_ w. db_ok (w_db w)", OF _ h k]) (use saga_db_ok[OF m E] in auto)

lemmas yields_ok_seq = yields_ok_attempt[where h = fail_with, folded seq_ok_def]

lemma read_by_id_gone:
  assumes "env_ok E" "db_ok (w_db w)" "run_state (reg_branch_by_id E x) w = (Inr cur, w')" "b_State cur = BranchDestroyed"
  shows "gone x (w_db w')"
proof -
  have "db_ok (w_db w')" by (rule saga_db_ok[OF sg.keeps_reads(2) assms(1-3)])
  moreover obtain r where "r \<in> set (branches (w_db w'))" "br_id r = x" "br_state r = BranchDestroyed"
    using assms(3,4) by (auto simp: reg_branch_by_id_def run_reg_read Let_def GetBranchByID_def getBranch_def scanBranch_def
        split: sum.splits option.splits dest!: find_SomeD)
  ultimately show ?thesis using gone_row by auto
qed

lemma destroy_tail:
  assumes E: "env_ok E"
  shows "yields (\<lambda>w. db_ok (w_db w))
    (attempt (reg_transition E x BranchDestroyed [])
       (\<lambda>e. if err_illegal_transition e
            then do { c \<leftarrow> reg_branch_by_id E x;
              case c of Inr cur \<Rightarrow> if b_State cur = BranchDestroyed then ok () else fail_with e | Inl _ \<Rightarrow> fail_with e }
            else fail_with e)
       (\<lambda>_. do { _ \<leftarrow> cowModes_forget x; _ \<leftarrow> gcLayers G E chain; _ \<leftarrow> gcSourceVolume G E sid v; ok () }))
    (\<lambda>w. gone x (w_db w))"
  unfolding yields_def
proof (intro allI impI)
  let ?gc = "do { _ \<leftarrow> cowModes_forget x; _ \<leftarrow> gcLayers G E chain; _ \<leftarrow> gcSourceVolume G E sid v; ok () }"
  fix w u w'
  assume P: "db_ok (w_db w)" and r: "run_state (attempt (reg_transition E x BranchDestroyed [])
       (\<lambda>e. if err_illegal_transition e
            then do { c \<leftarrow> reg_branch_by_id E x;
              case c of Inr cur \<Rightarrow> if b_State cur = BranchDestroyed then ok () else fail_with e | Inl _ \<Rightarrow> fail_with e }
            else fail_with e) (\<lambda>_. ?gc)) w = (Inr u, w')"
  obtain y w1 where t: "run_state (reg_transition E x BranchDestroyed []) w = (y, w1)" by (cases "run_state (reg_transition E x BranchDestroyed []) w")
  have ok1: "db_ok (w_db w1)" by (rule saga_db_ok[OF saga_writes(1) E P t])
  show "gone x (w_db w')"
  proof (cases y)
    case (Inr z)
    then have "gone x (w_db w1)" using destroyed_transition[OF E P] t by simp
    moreover have "saga E (gone x) ?gc" by (intro saga_rules)
    ultimately have "gone x (w_db (snd (run_state ?gc w1)))" using stableD[OF stable_gone sagaD[OF _ E stable_gone]] by blast
    then show ?thesis using r t Inr by (simp add: run_attempt)
  next
    case (Inl e)
    then show ?thesis using r t read_by_id_gone[OF E ok1]
      by (auto simp: run_attempt split: if_splits prod.splits sum.splits)
  qed
qed

lemma resolve_name:
  assumes E: "env_ok E" and k: "\<And>b. yields (\<lambda>w. db_ok (w_db w)) (k b) (\<lambda>w. gone (b_ID b) (w_db w))"
  shows "yields (\<lambda>w. w = w0 \<and> db_ok (w_db w)) (seq_ok (reg_branch_by_name E name) k)
    (\<lambda>w. \<exists>d r. reg_step\<^sup>*\<^sup>* (w_db w0) d \<and> r \<in> set (branches d) \<and> br_name r = name \<and> live_branch r \<and> gone (br_id r) (w_db w))"
  unfolding seq_ok_def
proof (rule yields_attempt[where P' = "\<lambda>b w. db_ok (w_db w) \<and> (\<exists>d r. reg_step\<^sup>*\<^sup>* (w_db w0) d \<and> r \<in> set (branches d) \<and> br_name r = name \<and> live_branch r \<and> br_id r = b_ID b)"])
  fix b w w' assume P: "w = w0 \<and> db_ok (w_db w)" and r: "run_state (reg_branch_by_name E name) w = (Inr b, w')"
  have "reg_step\<^sup>*\<^sup>* (w_db w0) (w_db w')" using sagaD[OF sg.keeps_reads(1) E stable_True, of w0 name] P r by simp
  moreover have "db_ok (w_db w')" using saga_db_ok[OF sg.keeps_reads(1) E _ r] P by blast
  moreover obtain q where "q \<in> set (branches (w_db w'))" "br_name q = name" "live_branch q" "br_id q = b_ID b"
    using r by (auto simp: reg_branch_by_name_def run_reg_read Let_def GetBranchByName_def getBranch_def scanBranch_def
        split: sum.splits option.splits dest!: find_SomeD)
  ultimately show "db_ok (w_db w') \<and> (\<exists>d r. reg_step\<^sup>*\<^sup>* (w_db w0) d \<and> r \<in> set (branches d) \<and> br_name r = name \<and> live_branch r \<and> br_id r = b_ID b)" by blast
next
  fix b
  show "yields (\<lambda>w. db_ok (w_db w) \<and> (\<exists>d r. reg_step\<^sup>*\<^sup>* (w_db w0) d \<and> r \<in> set (branches d) \<and> br_name r = name \<and> live_branch r \<and> br_id r = b_ID b)) (k b)
     (\<lambda>w. \<exists>d r. reg_step\<^sup>*\<^sup>* (w_db w0) d \<and> r \<in> set (branches d) \<and> br_name r = name \<and> live_branch r \<and> gone (br_id r) (w_db w))"
    using k[of b] unfolding yields_def by metis
qed simp

text \<open>Destroy resolves the name once; what follows destroys the branch it found.\<close>

lemma destroy_parts:
  assumes "env_ok E"
  obtains k where "DestroyBranch G E name = seq_ok (reg_branch_by_name E name) k" "\<And>b P. saga E P (k b)"
    "\<And>b. yields (\<lambda>w. db_ok (w_db w)) (k b) (\<lambda>w. gone (b_ID b) (w_db w))"
  apply (rule that[OF DestroyBranch_def])
  subgoal unfolding Let_def by (intro saga_rules)
  subgoal unfolding Let_def
    by (rule yields_ok_seq[OF assms] yields_if yields_fail destroy_tail[OF assms]
      | rule yields_ok_attempt[OF assms] | intro saga_rules | simp)+
  done

text \<open>
  (C8) A destroy that reports success has destroyed the branch. Whatever the runtime answers and whatever runs
  beside it, when \<open>DestroyBranch\<close> returns without an error there was a live branch of that name, every row with its
  id is in the final state \<open>destroyed\<close> and, by the registry's state machine, stays there.
\<close>

theorem destroy_is_final:
  assumes "env_ok E" "db_ok (w_db w)" "run_state (DestroyBranch G E name) w = (Inr (), w')"
  shows "\<exists>d r. reg_step\<^sup>*\<^sup>* (w_db w) d \<and> r \<in> set (branches d) \<and> br_name r = name \<and> live_branch r
    \<and> (\<forall>d'. reg_step\<^sup>*\<^sup>* (w_db w') d' \<longrightarrow> (\<forall>r' \<in> set (branches d'). br_id r' = br_id r \<longrightarrow> br_state r' = BranchDestroyed))"
proof -
  obtain k where k: "DestroyBranch G E name = seq_ok (reg_branch_by_name E name) k" "\<And>b P. saga E P (k b)"
      "\<And>b. yields (\<lambda>w. db_ok (w_db w)) (k b) (\<lambda>w. gone (b_ID b) (w_db w))" by (rule destroy_parts[OF assms(1), of G name]) (rule that)
  have "yields (\<lambda>v. v = w \<and> db_ok (w_db v)) (DestroyBranch G E name)
     (\<lambda>v. \<exists>d r. reg_step\<^sup>*\<^sup>* (w_db w) d \<and> r \<in> set (branches d) \<and> br_name r = name \<and> live_branch r \<and> gone (br_id r) (w_db v))"
    unfolding k(1) by (rule resolve_name[OF assms(1) k(3)])
  from yieldsD[OF this _ assms(3)] assms(2) obtain d r where r: "reg_step\<^sup>*\<^sup>* (w_db w) d" "r \<in> set (branches d)" "br_name r = name" "live_branch r"
    "gone (br_id r) (w_db w')" by auto
  have "gone (br_id r) d'" if "reg_step\<^sup>*\<^sup>* (w_db w') d'" for d' by (rule stableD[OF stable_gone that r(5)])
  then show ?thesis using r(1-4) unfolding gone_def by blast
qed

lemma demo_destroy_facts:
  "\<exists>b. GetBranchByName dec ''pr-1'' demo_db3 = Inr b \<and> b_ID b = ''b1'' \<and> b_State b = BranchReady \<and> b_ContainerID b = ''c1'' \<and> b_RWVolume b = ''rw1''"
  "LayerChain ''b1'' demo_db3 = Inr []"
  "\<exists>d1. TransitionBranchCtx no_actor t ''b1'' BranchDestroying reason demo_db3 = Inr d1
     \<and> (\<forall>t'. \<exists>d2. TransitionBranchCtx no_actor t' ''b1'' BranchDestroyed [] d1 = Inr d2)"
  by (simp_all add: GetBranchByName_def LayerChain_def getBranch_def scanBranch_def demo_eval live_branch_def null_string_def)

lemma sim_destroy: "\<exists>w'. run_state (DestroyBranch sim_engine sim_env ''pr-1'') (sim_world demo_db3) = (Inr (), w')"
proof -
  obtain b where b: "GetBranchByName (read_password demo_crypto None) ''pr-1'' demo_db3 = Inr b" "b_ID b = ''b1''" "b_State b = BranchReady"
    "b_ContainerID b = ''c1''" "b_RWVolume b = ''rw1''" using demo_destroy_facts(1) by blast
  have st: "stamp sim_env t = TimeString (noon 0 0)" for t by (simp add: stamp_def sim_env_def)
  obtain d1 where d1: "TransitionBranchCtx no_actor (TimeString (noon 0 0)) ''b1'' BranchDestroying ''destroy requested'' demo_db3 = Inr d1"
    "\<And>t'. \<exists>d2. TransitionBranchCtx no_actor t' ''b1'' BranchDestroyed [] d1 = Inr d2" using demo_destroy_facts(3) by blast
  obtain d2 where d2: "TransitionBranchCtx no_actor (TimeString (noon 0 0)) ''b1'' BranchDestroyed [] d1 = Inr d2" using d1(2) by blast
  show ?thesis
    by (simp add: DestroyBranch_def run_seq_ok run_attempt sim_run reg_branch_by_name_def sim_world_def b demo_destroy_facts(2) enterDestroying_def
      reg_transition_def d1 d2 no_result_def teardownBranch_def wrap_err_def removeBranchLayer_def Let_def st split: prod.splits)
qed

theorem destroy_is_final_witness:
  "\<exists>w'. run_state (DestroyBranch sim_engine sim_env ''pr-1'') (sim_world demo_db3) = (Inr (), w')
    \<and> (\<exists>d r. reg_step\<^sup>*\<^sup>* demo_db3 d \<and> r \<in> set (branches d) \<and> br_name r = ''pr-1'' \<and> live_branch r)"
proof -
  obtain w' where r: "run_state (DestroyBranch sim_engine sim_env ''pr-1'') (sim_world demo_db3) = (Inr (), w')" using sim_destroy by blast
  have "db_ok (w_db (sim_world demo_db3))" using reachable_db_ok[OF demo_reachable(2)] by (simp add: sim_world_def)
  from destroy_is_final[OF sim_env_ok this r] show ?thesis using r by (auto simp: sim_world_def)
qed

end
