(* ===== verification/ReconcileProps.thy ===== *)
theory ReconcileProps
  imports SagaSafety
begin

text \<open>
  Reconcile: planning reads only, the plan is exactly the drift between the registry and the runtime, and
  garbage collection removes no volume a live branch is built on.
\<close>

section \<open>Planning only reads\<close>

fun is_read :: "event \<Rightarrow> bool" where
  "is_read (EvInspect c b) = True"
| "is_read (EvListManaged b) = True"
| "is_read (EvListHelpers b) = True"
| "is_read (EvListManagedVolumes b) = True"
| "is_read _ = False"

definition alone :: "'rt env \<Rightarrow> bool" where
  "alone E \<longleftrightarrow> (\<forall>n d. e_interfere E n d = d)"

definition reads_only :: "'rt env \<Rightarrow> 'rt world \<Rightarrow> 'rt world \<Rightarrow> bool" where
  "reads_only E w w' \<longleftrightarrow> (\<exists>es. w_log w' = w_log w @ es \<and> list_all is_read es) \<and> (alone E \<longrightarrow> w_db w' = w_db w)"

lemma reads_only_trans: "reads_only E w w1 \<Longrightarrow> reads_only E w1 w2 \<Longrightarrow> reads_only E w w2"
  unfolding reads_only_def by (metis append.assoc list_all_append)

lemma reads_only_same: "w_log w' = w_log w \<Longrightarrow> w_db w' = w_db w \<Longrightarrow> reads_only E w w'"
  unfolding reads_only_def by simp

lemma reads_only_tick: "keeps (reads_only E) (tick E)"
  by (simp add: keeps_def tick_def reads_only_def alone_def)

lemma reads_only_call: "(\<And>r. is_read (ev r)) \<Longrightarrow> keeps (reads_only E) (drv_call E ev f)"
  by (rule keeps_drv_call[OF reads_only_tick reads_only_trans]) (auto simp: reads_only_def)

interpretation rd: read_relation "reads_only E" E for E
  by unfold_locales (auto intro: reads_only_trans reads_only_same reads_only_tick reads_only_call simp: driver_defs)

text \<open>
  The doctor never operates. Whatever it finds and however it ends, computing a reconcile plan makes only
  listing and inspecting calls on the runtime, and the registry changes only through others.
\<close>

theorem plan_is_read_only:
  "(\<exists>es. w_log (snd (run_state (PlanReconcile G E now stuckTimeout) w)) = w_log w @ es \<and> list_all is_read es)
    \<and> (w_db (snd (run_state (PlanReconcile G E now stuckTimeout) w)) = w_db w \<or> \<not> alone E)"
  using keeps_run[OF rd.keeps_PlanReconcile[where E = E and G = G and now = now and n = stuckTimeout], where w = w]
  by (auto simp: reads_only_def)

theorem plan_is_read_only_witness:
  "w_db (snd (run_state (PlanReconcile sim_engine sim_env (noon 0 0) 0) (sim_world demo_db3))) = demo_db3"
proof -
  have "alone sim_env" by (simp add: alone_def sim_env_def)
  then show ?thesis using plan_is_read_only[of sim_engine sim_env "noon 0 0" 0 "sim_world demo_db3"] by (simp add: sim_world_def)
qed

section \<open>The plan is the drift\<close>

text \<open>
  What the registry and the runtime disagree on, in terms of rows, containers, helpers and volumes: the specification of the
  plan. \<open>busy\<close> are the claims other goroutines hold.
\<close>

definition expired_row :: "gotime \<Rightarrow> branch_row \<Rightarrow> bool" where
  "expired_row now r \<longleftrightarrow> br_state r \<in> {BranchReady, BranchFailed} \<and> br_expires_at r \<noteq> [] \<and> br_expires_at r < rfc3339 now"

definition ready_drift :: "db \<Rightarrow> gotime \<Rightarrow> (string \<Rightarrow> bool) \<Rightarrow> ContainerInfo list \<Rightarrow> (ActionKind \<times> string) set" where
  "ready_drift d now busy managed =
     {(kind, br_name r) |kind r. r \<in> set (branches d) \<and> br_state r = BranchReady
        \<and> br_name r \<notin> br_name ` {q \<in> set (branches d). expired_row now q} \<and> \<not> busy (branchClaim (br_name r))
        \<and> (case (if br_container_id r = [] then None else by_id ci_ID managed (br_container_id r)) of
             None \<Rightarrow> kind = ActionRestartBranch
           | Some c \<Rightarrow> if ci_Stopped c then kind = ActionRestartBranch
               else kind = ActionUpdateEndpoint \<and> ci_Running c \<and> ci_Host c \<noteq> [] \<and> ci_Port c \<noteq> 0
                 \<and> (ci_Host c \<noteq> br_host r \<or> ci_Port c \<noteq> br_port r))}"

definition drift ::
  "string \<Rightarrow> db \<Rightarrow> gotime \<Rightarrow> int \<Rightarrow> (string \<Rightarrow> bool) \<Rightarrow> ContainerInfo list \<Rightarrow> ContainerInfo list \<Rightarrow> VolumeInfo list
     \<Rightarrow> (ActionKind \<times> string) set" where
  "drift inst d now timeout busy managed helpers vols =
     (let before = stuck_cutoff now timeout
      in {(ActionReap, br_name r) |r. r \<in> set (branches d) \<and> expired_row now r}
       \<union> {(ActionFailStuck, br_name r) |r. r \<in> set (branches d) \<and> stuck_branch before r}
       \<union> {(ActionFailStuckSource, sr_name s) |s. s \<in> set (sources d) \<and> stuck_source before s \<and> \<not> busy (sourceClaim (sr_id s))}
       \<union> {(ActionRetryDestroy, br_name r) |r. r \<in> set (branches d) \<and> br_state r = BranchDestroying \<and> br_updated_at r < msCutoff before}
       \<union> ready_drift d now busy managed
       \<union> {(ActionRemoveOrphanContainer, ci_ID c) |c. c \<in> set managed \<and> label (ci_Labels c) LabelInstance = inst
            \<and> (ci_ID c = [] \<or> ci_ID c \<notin> br_container_id ` {r \<in> set (branches d). live_branch r})
            \<and> (\<forall>r \<in> set (branches d). br_id r = label (ci_Labels c) LabelBranchID
                 \<longrightarrow> br_state r \<in> {BranchFailed, BranchDestroying, BranchDestroyed})}
       \<union> {(ActionRemoveOrphanHelper, ci_ID h) |h. h \<in> set helpers \<and> orphanHelper h now timeout}
       \<union> {(ActionGCLayer, l_volume l) |l. l \<in> set (layers d) \<and> CountBranchesReferencingLayer (l_id l) d = 0}
       \<union> {(ActionGCVolume, vi_Name v) |v. v \<in> set vols \<and> vi_Name v \<notin> LiveVolumeSet d
            \<and> vi_Name v \<notin> l_volume ` {l \<in> set (layers d). CountBranchesReferencingLayer (l_id l) d = 0}
            \<and> (case vi_Created v of None \<Rightarrow> True | Some c \<Rightarrow> time_sub now c \<ge> timeout)})"

definition kinds :: "ReconcilePlan \<Rightarrow> (ActionKind \<times> string) set" where
  "kinds p = (\<lambda>a. (a_Kind a, a_Target a)) ` set p"

lemma act_sel [simp]: "a_Kind (act kind t why) = kind" "a_Target (act kind t why) = t"
  by (simp_all add: act_def)

lemma kinds_append [simp]: "kinds (p @ q) = kinds p \<union> kinds q"
  by (auto simp: kinds_def)

lemma set_listBranches: "set (listBranches dec wh d) = scanBranch dec ` {r \<in> set (branches d). wh r}"
  by (simp add: listBranches_def)

lemma set_by_state:
  "set (ListExpiredBranches dec (rfc3339 now) d) = scanBranch dec ` {r \<in> set (branches d). expired_row now r}"
  "set (ListStuckBranches dec before d) = scanBranch dec ` {r \<in> set (branches d). stuck_branch before r}"
  "set (ListStuckDestroyingBranches dec before d) =
     scanBranch dec ` {r \<in> set (branches d). br_state r = BranchDestroying \<and> br_updated_at r < msCutoff before}"
  "set (ListLiveBranches dec d) = scanBranch dec ` {r \<in> set (branches d). live_branch r}"
  by (auto simp: ListExpiredBranches_def ListStuckBranches_def ListStuckDestroyingBranches_def ListLiveBranches_def
      set_listBranches expired_row_def)

lemma scan_fields [simp]:
  "b_Name (scanBranch dec r) = br_name r" "b_ID (scanBranch dec r) = br_id r" "b_State (scanBranch dec r) = br_state r"
  "b_ContainerID (scanBranch dec r) = br_container_id r" "b_Host (scanBranch dec r) = br_host r" "b_Port (scanBranch dec r) = br_port r"
  by (simp_all add: scanBranch_def)

text \<open>Successful runs of the plan, with nothing running beside it: the database and the runtime state it sees.\<close>

definition at :: "db \<Rightarrow> 'rt \<Rightarrow> 'rt world \<Rightarrow> bool" where
  "at d s w \<longleftrightarrow> w_db w = d \<and> w_rt w = s"

definition returns :: "('rt world \<Rightarrow> bool) \<Rightarrow> ('rt, 'a) op \<Rightarrow> ('a \<Rightarrow> bool) \<Rightarrow> bool" where
  "returns P m Q \<longleftrightarrow> (\<forall>w x w'. P w \<longrightarrow> run_state m w = (Inr x, w') \<longrightarrow> Q x)"

lemma returnsD: "returns P m Q \<Longrightarrow> P w \<Longrightarrow> run_state m w = (Inr x, w') \<Longrightarrow> Q x"
  by (simp add: returns_def)

lemma returns_ok: "Q x \<Longrightarrow> returns P (ok x) Q"
  by (simp add: returns_def)

lemma returns_seq:
  assumes "\<And>w x w'. P w \<Longrightarrow> run_state m w = (Inr x, w') \<Longrightarrow> P' x w'" "\<And>x. returns (P' x) (k x) Q"
  shows "returns P (seq_ok m k) Q"
  unfolding returns_def
proof (intro allI impI)
  fix w y w' assume P: "P w" and "run_state (seq_ok m k) w = (Inr y, w')"
  then obtain x w1 where "run_state m w = (Inr x, w1)" "run_state (k x) w1 = (Inr y, w')" by (metis run_seq_ok_InrE)
  then show "Q y" using returnsD[OF assms(2) assms(1)[OF P]] by blast
qed

lemma returns_read:
  assumes "alone E" "\<And>x. f d = Inr x \<Longrightarrow> returns (at d s) (k x) Q"
  shows "returns (at d s) (seq_ok (reg_read E f) k) Q"
proof (rule returns_seq[where P' = "\<lambda>x w. at d s w \<and> f d = Inr x"])
  show "at d s w' \<and> f d = Inr x" if "at d s w" "run_state (reg_read E f) w = (Inr x, w')" for w x w'
    using that assms(1) by (auto simp: run_reg_read Let_def at_def alone_def split: option.splits sum.splits)
  show "returns (\<lambda>w. at d s w \<and> f d = Inr x) (k x) Q" for x
    using assms(2)[of x] unfolding returns_def by blast
qed

lemma returns_read_if:
  assumes "alone E" "returns (at d s) (k (if c then x else f d)) Q"
  shows "returns (at d s) (seq_ok (if c then ok x else reg_read E (\<lambda>d. Inr (f d))) k) Q"
  using assms(2) returns_read[OF assms(1), of "\<lambda>d. Inr (f d)" d s k Q] by (cases c) (auto simp: seq_ok_assoc)

lemma returns_given: "(C \<Longrightarrow> returns P m Q) \<Longrightarrow> returns (\<lambda>w. P w \<and> C) m Q"
  by (auto simp: returns_def)

lemma returns_call:
  assumes "alone E" "\<And>x s'. f s = (Inr x, s') \<Longrightarrow> returns (at d s') (k x) Q"
  shows "returns (at d s) (seq_ok (drv_call E ev f) k) Q"
proof (rule returns_seq[where P' = "\<lambda>x w. \<exists>s'. at d s' w \<and> f s = (Inr x, s')"])
  show "\<exists>s'. at d s' w' \<and> f s = (Inr x, s')" if "at d s w" "run_state (drv_call E ev f) w = (Inr x, w')" for w x w'
    using that assms(1) by (auto simp: drv_call_def run_tick at_def alone_def split: prod.splits sum.splits)
  show "returns (\<lambda>w. \<exists>s'. at d s' w \<and> f s = (Inr x, s')) (k x) Q" for x
    using assms(2)[of x] unfolding returns_def by blast
qed

lemma returns_pure:
  assumes "\<And>w. at d s w \<Longrightarrow> fst (run_state m w) = x \<and> at d s (snd (run_state m w))" "returns (at d s) (k x) Q"
  shows "returns (at d s) (State_Monad.bind m k) Q"
  unfolding returns_def
proof (intro allI impI)
  fix w y w' assume P: "at d s w" and r: "run_state (State_Monad.bind m k) w = (Inr y, w')"
  obtain z w1 where "run_state m w = (z, w1)" by (cases "run_state m w")
  then show "Q y" using r assms(1)[OF P] returnsD[OF assms(2)] by auto
qed

definition claims :: "'rt env \<Rightarrow> (string \<Rightarrow> bool) \<Rightarrow> bool" where
  "claims E busy \<longleftrightarrow> (\<forall>t. e_claimed E t = busy)"

lemma at_tick: "at d s w \<Longrightarrow> at d s (w\<lparr>w_tick := Suc (w_tick w)\<rparr>)"
  by (simp add: at_def)

lemma claims_run:
  assumes "alone E" "claims E busy" "at d s w"
  shows "run_state (claimed E key) w = (busy key, w\<lparr>w_tick := Suc (w_tick w)\<rparr>)"
  using assms by (simp add: claimed_def run_tick claims_def alone_def)

lemma plan_sources_run:
  assumes E: "alone E" "claims E busy"
  shows "at d s w \<Longrightarrow> fst (run_state (plan_sources E n ss) w) =
      map (\<lambda>x. act ActionFailStuckSource (src_Name x) (''seeding with no progress for longer than '' @ Duration_String n))
        (filter (\<lambda>x. \<not> busy (sourceClaim (src_ID x))) ss) \<and> at d s (snd (run_state (plan_sources E n ss) w))"
proof (induction ss arbitrary: w)
  case (Cons x ss)
  show ?case using Cons.IH[OF at_tick[OF Cons.prems]] by (auto simp: claims_run[OF E Cons.prems] split: prod.splits)
qed simp

lemma busy_names_run:
  assumes E: "alone E" "claims E busy"
  shows "at d s w \<Longrightarrow> fst (run_state (busy_names E bs) w) = map b_Name (filter (\<lambda>b. busy (branchClaim (b_Name b))) bs)
    \<and> at d s (snd (run_state (busy_names E bs) w))"
proof (induction bs arbitrary: w)
  case (Cons x ss)
  show ?case using Cons.IH[OF at_tick[OF Cons.prems]] by (auto simp: claims_run[OF E Cons.prems] split: prod.splits)
qed simp

lemma plan_layers_run:
  assumes E: "alone E"
  shows "at d s w \<Longrightarrow> run_state (plan_layers E ls) w = (Inr p, w') \<Longrightarrow> at d s w' \<and>
    p = map (\<lambda>l. act ActionGCLayer (lay_Volume l) ''frozen layer referenced by 0 live branches'')
      (filter (\<lambda>l. CountBranchesReferencingLayer (lay_ID l) d = 0) ls)"
proof (induction ls arbitrary: w p w')
  case (Cons l ls)
  from Cons.prems(2) obtain n w1 where 1: "run_state (reg_read E (\<lambda>d. Inr (CountBranchesReferencingLayer (lay_ID l) d))) w = (Inr n, w1)"
    and r: "run_state (seq_ok (plan_layers E ls) (\<lambda>rest. ok (if n = 0
      then act ActionGCLayer (lay_Volume l) ''frozen layer referenced by 0 live branches'' # rest else rest))) w1 = (Inr p, w')"
    unfolding plan_layers.simps by (rule run_seq_ok_InrE)
  from r obtain rest where 2: "run_state (plan_layers E ls) w1 = (Inr rest, w')"
    and p: "p = (if n = 0 then act ActionGCLayer (lay_Volume l) ''frozen layer referenced by 0 live branches'' # rest else rest)"
    by (auto elim!: run_seq_ok_InrE)
  have "at d s w1" "n = CountBranchesReferencingLayer (lay_ID l) d"
    using 1 Cons.prems(1) E by (auto simp: run_reg_read Let_def at_def alone_def split: option.splits)
  then show ?case using Cons.IH[OF _ 2] p by auto
qed simp


text \<open>The plan as a function of what was read.\<close>

definition plan_of ::
  "(string \<Rightarrow> string option) \<Rightarrow> string \<Rightarrow> db \<Rightarrow> gotime \<Rightarrow> int \<Rightarrow> (string \<Rightarrow> bool) \<Rightarrow> ContainerInfo list \<Rightarrow> ContainerInfo list
     \<Rightarrow> VolumeInfo list \<Rightarrow> ReconcilePlan" where
  "plan_of dec inst d now timeout busy managed helpers vols =
     (let before = stuck_cutoff now timeout; expired = ListExpiredBranches dec (rfc3339 now) d; live = ListLiveBranches dec d;
          ready = filter (\<lambda>b. b_State b = BranchReady \<and> b_Name b \<notin> set (map b_Name expired)) live;
          plan = plan_reap expired @ plan_stuck timeout (ListStuckBranches dec before d)
            @ map (\<lambda>x. act ActionFailStuckSource (src_Name x) (''seeding with no progress for longer than '' @ Duration_String timeout))
                (filter (\<lambda>x. \<not> busy (sourceClaim (src_ID x))) (ListStuckSources before d))
            @ plan_destroying timeout (ListStuckDestroyingBranches dec before d)
            @ plan_ready live managed (set (map b_Name expired)) (\<lambda>n. n \<in> set (map b_Name (filter (\<lambda>b. busy (branchClaim (b_Name b))) ready)))
            @ plan_orphans inst live managed @ plan_helpers now timeout helpers
            @ map (\<lambda>l. act ActionGCLayer (lay_Volume l) ''frozen layer referenced by 0 live branches'')
                (filter (\<lambda>l. CountBranchesReferencingLayer (lay_ID l) d = 0) (ListLayers d))
      in plan @ plan_volumes now timeout (if vols = [] then {} else LiveVolumeSet d) plan vols)"

lemma kinds_map: "kinds (map (\<lambda>x. act kind (t x) (why x)) xs) = {(kind, t x) |x. x \<in> set xs}"
  by (auto simp: kinds_def act_def image_image)

lemma kinds_reap: "kinds (plan_reap (ListExpiredBranches dec (rfc3339 now) d)) = {(ActionReap, br_name r) |r. r \<in> set (branches d) \<and> expired_row now r}"
  by (force simp: kinds_map plan_reap_def set_by_state)

lemma kinds_stuck: "kinds (plan_stuck n (ListStuckBranches dec before d)) = {(ActionFailStuck, br_name r) |r. r \<in> set (branches d) \<and> stuck_branch before r}"
  by (force simp: kinds_map plan_stuck_def set_by_state)

lemma kinds_destroying: "kinds (plan_destroying n (ListStuckDestroyingBranches dec before d)) =
    {(ActionRetryDestroy, br_name r) |r. r \<in> set (branches d) \<and> br_state r = BranchDestroying \<and> br_updated_at r < msCutoff before}"
  by (force simp: kinds_map plan_destroying_def set_by_state)

lemma kinds_sources: "kinds (map (\<lambda>x. act ActionFailStuckSource (src_Name x) why)
      (filter (\<lambda>x. \<not> busy (sourceClaim (src_ID x))) (ListStuckSources before d))) =
    {(ActionFailStuckSource, sr_name s) |s. s \<in> set (sources d) \<and> stuck_source before s \<and> \<not> busy (sourceClaim (sr_id s))}"
  by (force simp: kinds_map ListStuckSources_def scanSource_def)

lemma kinds_helpers: "kinds (plan_helpers now n hs) = {(ActionRemoveOrphanHelper, ci_ID h) |h. h \<in> set hs \<and> orphanHelper h now n}"
  by (force simp: kinds_map plan_helpers_def)

lemma kinds_layers: "kinds (map (\<lambda>l. act ActionGCLayer (lay_Volume l) why) (filter (\<lambda>l. CountBranchesReferencingLayer (lay_ID l) d = 0) (ListLayers d))) =
    {(ActionGCLayer, l_volume l) |l. l \<in> set (layers d) \<and> CountBranchesReferencingLayer (l_id l) d = 0}"
  by (force simp: kinds_map ListLayers_def scanLayer_def)

lemma by_id_Some: "by_id key xs k = Some x \<Longrightarrow> x \<in> set xs \<and> key x = k"
  by (auto simp: by_id_def dest!: map_of_SomeD)

lemma by_id_None: "by_id key xs k = None \<longleftrightarrow> k \<notin> key ` set xs"
  by (auto simp: by_id_def map_of_eq_None_iff image_image)

lemma owned_iff:
  assumes "distinct (map br_id (branches d))"
  shows "ownedInFlight c (by_id b_ID (ListLiveBranches dec d)) \<longleftrightarrow> \<not> (\<forall>r \<in> set (branches d).
     br_id r = label (ci_Labels c) LabelBranchID \<longrightarrow> br_state r \<in> {BranchFailed, BranchDestroying, BranchDestroyed})"
proof -
  let ?k = "label (ci_Labels c) LabelBranchID"
  have inj: "r = q" if "r \<in> set (branches d)" "q \<in> set (branches d)" "br_id r = br_id q" for r q
    using assms that by (auto simp: distinct_map dest: inj_onD)
  show ?thesis
  proof (cases "by_id b_ID (ListLiveBranches dec d) ?k")
    case None
    then have "br_state r = BranchDestroyed" if "r \<in> set (branches d)" "br_id r = ?k" for r
      using that by (force simp: by_id_None set_by_state live_branch_def image_image)
    then show ?thesis using None by (auto simp: ownedInFlight_def)
  next
    case (Some b)
    then obtain q where q: "q \<in> set (branches d)" "br_id q = ?k" "b_State b = br_state q" "live_branch q"
      by (auto dest!: by_id_Some simp: set_by_state)
    then have "(\<forall>r \<in> set (branches d). br_id r = ?k \<longrightarrow> br_state r \<in> {BranchFailed, BranchDestroying, BranchDestroyed})
        \<longleftrightarrow> br_state q \<in> {BranchFailed, BranchDestroying, BranchDestroyed}" using inj by metis
    then show ?thesis using q Some by (cases "br_state q") (auto simp: ownedInFlight_def live_branch_def)
  qed
qed

lemma kinds_orphans:
  assumes "distinct (map br_id (branches d))"
  shows "kinds (plan_orphans inst (ListLiveBranches dec d) managed) =
    {(ActionRemoveOrphanContainer, ci_ID c) |c. c \<in> set managed \<and> label (ci_Labels c) LabelInstance = inst
       \<and> (ci_ID c = [] \<or> ci_ID c \<notin> br_container_id ` {r \<in> set (branches d). live_branch r})
       \<and> (\<forall>r \<in> set (branches d). br_id r = label (ci_Labels c) LabelBranchID
            \<longrightarrow> br_state r \<in> {BranchFailed, BranchDestroying, BranchDestroyed})}"
  unfolding plan_orphans_def kinds_map
  by (simp add: orphan_container_def owned_iff[OF assms] set_by_state image_image) blast

lemma readyDrift_scan: "map_option fst (readyDrift (scanBranch dec r) infos) =
    (case (if br_container_id r = [] then None else infos (br_container_id r)) of
       None \<Rightarrow> Some ActionRestartBranch
     | Some c \<Rightarrow> if ci_Stopped c then Some ActionRestartBranch
         else if ci_Running c \<and> ci_Host c \<noteq> [] \<and> ci_Port c \<noteq> 0 \<and> (ci_Host c \<noteq> br_host r \<or> ci_Port c \<noteq> br_port r)
         then Some ActionUpdateEndpoint else None)"
  by (auto simp: readyDrift_def split: option.split)

lemma kinds_map_filter: "kinds (List.map_filter (\<lambda>b. if skip b then None else map_option (\<lambda>(kind, why). act kind (t b) why) (f b)) bs) =
    {(kind, t b) |kind b. b \<in> set bs \<and> \<not> skip b \<and> map_option fst (f b) = Some kind}"
proof -
  have "kinds (List.map_filter h bs) = {(a_Kind a, a_Target a) |a b. b \<in> set bs \<and> h b = Some a}" for h
    by (force simp: kinds_def List.map_filter_def)
  moreover have "(if skip b then None else map_option (\<lambda>(kind, why). act kind (t b) why) (f b)) = Some a
      \<longleftrightarrow> \<not> skip b \<and> (\<exists>kind why. f b = Some (kind, why) \<and> a = act kind (t b) why)" for a b by auto
  moreover have "map_option fst (f b) = Some kind \<longleftrightarrow> (\<exists>why. f b = Some (kind, why))" for kind b by auto
  moreover have "{(a_Kind a, a_Target a) |a b. b \<in> set bs \<and> \<not> skip b \<and> (\<exists>kind why. f b = Some (kind, why) \<and> a = act kind (t b) why)}
      = {(kind, t b) |kind b. b \<in> set bs \<and> \<not> skip b \<and> (\<exists>why. f b = Some (kind, why))}"
    by (auto; metis act_sel)
  ultimately show ?thesis by simp
qed

lemma compr_image: "{(kind, t b) |kind b. b \<in> f ` S \<and> P kind b} = {(kind, t (f r)) |kind r. r \<in> S \<and> P kind (f r)}"
  by blast

lemma kinds_ready:
  "kinds (plan_ready (ListLiveBranches dec d) managed (set (map b_Name (ListExpiredBranches dec (rfc3339 now) d)))
     (\<lambda>n. n \<in> set (map b_Name (filter (\<lambda>b. busy (branchClaim (b_Name b)))
        (filter (\<lambda>b. b_State b = BranchReady \<and> b_Name b \<notin> set (map b_Name (ListExpiredBranches dec (rfc3339 now) d))) (ListLiveBranches dec d))))))
   = ready_drift d now busy managed" (is "kinds (plan_ready ?live _ ?reaping ?busy) = _")
proof -
  define reaping where "reaping = ?reaping"
  define busyn where "busyn = ?busy"
  have reap: "reaping = br_name ` {q \<in> set (branches d). expired_row now q}"
    by (simp add: reaping_def set_by_state image_image)
  have skip: "(br_state r \<noteq> BranchReady \<or> br_name r \<in> reaping \<or> busyn (br_name r)) \<longleftrightarrow>
      \<not> (br_state r = BranchReady \<and> br_name r \<notin> reaping \<and> \<not> busy (branchClaim (br_name r)))" if "r \<in> set (branches d)" for r
    using that by (force simp: busyn_def reaping_def set_by_state live_branch_def)
  have "kinds (plan_ready ?live managed reaping busyn) =
      {(kind, br_name r) |kind r. (r \<in> set (branches d) \<and> live_branch r)
         \<and> \<not> (br_state r \<noteq> BranchReady \<or> br_name r \<in> reaping \<or> busyn (br_name r))
         \<and> map_option fst (readyDrift (scanBranch dec r) (by_id ci_ID managed)) = Some kind}"
    unfolding plan_ready_def kinds_map_filter set_by_state(4) compr_image scan_fields mem_Collect_eq ..
  also have "\<dots> = {(kind, br_name r) |kind r. (r \<in> set (branches d) \<and> live_branch r)
         \<and> (br_state r = BranchReady \<and> br_name r \<notin> reaping \<and> \<not> busy (branchClaim (br_name r)))
         \<and> map_option fst (readyDrift (scanBranch dec r) (by_id ci_ID managed)) = Some kind}"
    using skip by blast
  also have "\<dots> = ready_drift d now busy managed"
  proof -
    have inner: "map_option fst (readyDrift (scanBranch dec r) infos) = Some kind \<longleftrightarrow>
       (case (if br_container_id r = [] then None else infos (br_container_id r)) of
          None \<Rightarrow> kind = ActionRestartBranch
        | Some c \<Rightarrow> if ci_Stopped c then kind = ActionRestartBranch
            else kind = ActionUpdateEndpoint \<and> ci_Running c \<and> ci_Host c \<noteq> [] \<and> ci_Port c \<noteq> 0
              \<and> (ci_Host c \<noteq> br_host r \<or> ci_Port c \<noteq> br_port r))" for r kind infos
      unfolding readyDrift_scan by (auto split: option.split)
    have live: "live_branch r" if "br_state r = BranchReady" for r using that by (simp add: live_branch_def)
    show ?thesis unfolding ready_drift_def reap inner[symmetric] using live by blast
  qed
  finally show ?thesis unfolding reaping_def busyn_def .
qed

lemma kinds_volumes:
  "kinds (plan_volumes now n live plan vols) = {(ActionGCVolume, vi_Name v) |v. v \<in> set vols \<and> vi_Name v \<notin> live
     \<and> (ActionGCLayer, vi_Name v) \<notin> kinds plan \<and> (case vi_Created v of None \<Rightarrow> True | Some c \<Rightarrow> time_sub now c \<ge> n)}"
  unfolding plan_volumes_def kinds_map by (force simp: orphan_volume_def kinds_def)


lemma no_layer_kinds:
  "(ActionGCLayer, v) \<notin> kinds (plan_reap bs)" "(ActionGCLayer, v) \<notin> kinds (plan_stuck n bs)" "(ActionGCLayer, v) \<notin> kinds (plan_destroying n bs)"
  "(ActionGCLayer, v) \<notin> kinds (plan_orphans inst bs cs)" "(ActionGCLayer, v) \<notin> kinds (plan_helpers now n cs)"
  "(ActionGCLayer, v) \<notin> ready_drift d now busy cs" "(ActionGCLayer, v) \<notin> {(ActionFailStuckSource, sr_name s) |s. P s}"
  by (auto simp: plan_reap_def plan_stuck_def plan_destroying_def plan_orphans_def plan_helpers_def kinds_map ready_drift_def
      split: option.splits if_splits)

lemma kinds_plan_of:
  assumes "distinct (map br_id (branches d))"
  shows "kinds (plan_of dec inst d now timeout busy managed helpers vols) = drift inst d now timeout busy managed helpers vols"
proof -
  have vols: "{(ActionGCVolume, vi_Name v) |v. v \<in> set vols \<and> vi_Name v \<notin> (if vols = [] then {} else LiveVolumeSet d) \<and> Q v}
      = {(ActionGCVolume, vi_Name v) |v. v \<in> set vols \<and> vi_Name v \<notin> LiveVolumeSet d \<and> Q v}" for Q
    by auto
  define gc where "gc = {(ActionGCLayer, l_volume l) |l. l \<in> set (layers d) \<and> CountBranchesReferencingLayer (l_id l) d = 0}"
  have gc: "(ActionGCLayer, v) \<in> gc \<longleftrightarrow> v \<in> l_volume ` {l \<in> set (layers d). CountBranchesReferencingLayer (l_id l) d = 0}" for v
    by (auto simp: gc_def)
  show ?thesis
    unfolding plan_of_def drift_def Let_def kinds_append kinds_volumes vols kinds_ready kinds_sources kinds_layers gc_def[symmetric]
    by (simp only: Un_iff no_layer_kinds gc simp_thms)
      (simp only: Un_assoc kinds_reap kinds_stuck kinds_destroying kinds_helpers kinds_orphans[OF assms])
qed

lemma plan_run:
  assumes "alone E" "claims E busy"
  shows "returns (at d s) (PlanReconcile G E now timeout) (\<lambda>plan. \<exists>managed s1 helpers s2 vols s3.
     drv_ListManaged (e_drv E) s = (Inr managed, s1) \<and> drv_ListHelpers (e_drv E) s1 = (Inr helpers, s2)
     \<and> drv_ListManagedVolumes (e_drv E) (g_instanceID G) s2 = (Inr vols, s3)
     \<and> plan = plan_of (read_password (e_crypto E) (e_box E)) (g_instanceID G) d now timeout busy managed helpers vols)"
  unfolding PlanReconcile_def reg_branches_def Let_def driver_defs
  apply (rule returns_read[OF assms(1)])+
  apply (rule returns_pure[OF plan_sources_run[OF assms]], assumption)
  apply (rule returns_read[OF assms(1)])+
  apply (rule returns_call[OF assms(1)])
  apply (rule returns_pure[OF busy_names_run[OF assms]], assumption)
  apply (rule returns_call[OF assms(1)])
  apply (rule returns_read[OF assms(1)])
  apply (rule returns_seq, rule plan_layers_run[OF assms(1)], assumption, assumption, rule returns_given)
  apply (rule returns_call[OF assms(1)])
  apply (rule returns_read_if[OF assms(1)], rule returns_ok)
  apply (auto simp: plan_of_def Let_def)
  done

text \<open>
  (C5) The plan is exactly the drift. With nothing running beside it, a plan that is computed holds, kind by kind and
  target by target, what the registry and the runtime disagree on and nothing else: expired branches, branches and sources
  stuck past the timeout, ready branches whose container is gone, stopped or moved, containers of this instance
  with no row, finished helpers, unreferenced layers and unowned volumes.
\<close>

theorem reconcile_plan_exact:
  assumes "alone E" "claims E busy" "distinct (map br_id (branches (w_db w)))"
    and "run_state (PlanReconcile G E now timeout) w = (Inr plan, w')"
  shows "\<exists>managed s1 helpers s2 vols s3. drv_ListManaged (e_drv E) (w_rt w) = (Inr managed, s1)
    \<and> drv_ListHelpers (e_drv E) s1 = (Inr helpers, s2) \<and> drv_ListManagedVolumes (e_drv E) (g_instanceID G) s2 = (Inr vols, s3)
    \<and> kinds plan = drift (g_instanceID G) (w_db w) now timeout busy managed helpers vols"
  using returnsD[OF plan_run[OF assms(1,2)] _ assms(4), of "w_db w" "w_rt w"] kinds_plan_of[OF assms(3)]
  by (fastforce simp: at_def)

text \<open>In the concrete environment no call of a plan fails.\<close>

definition total :: "('rt, 'a) op \<Rightarrow> bool" where
  "total m \<longleftrightarrow> (\<forall>w. \<exists>x w'. run_state m w = (Inr x, w'))"

lemma total_bind: "(\<And>x. total (k x)) \<Longrightarrow> total (State_Monad.bind m k)"
  by (simp add: total_def split: prod.split)

lemma total_seq: "total m \<Longrightarrow> (\<And>x. total (k x)) \<Longrightarrow> total (seq_ok m k)"
  unfolding total_def
proof
  fix w assume "\<forall>w. \<exists>x w'. run_state m w = (Inr x, w')" and k: "\<And>x. \<forall>w. \<exists>y w'. run_state (k x) w = (Inr y, w')"
  then obtain x w1 where "run_state m w = (Inr x, w1)" by blast
  then show "\<exists>x w'. run_state (seq_ok m k) w = (Inr x, w')" using k by (simp add: run_seq_ok)
qed

lemma total_sim:
  "total (ok x)" "total (reg_read sim_env (\<lambda>d. Inr (f d)))"
  "total (ListManaged sim_env)" "total (ListHelpers sim_env)" "total (ListManagedVolumes sim_env inst)"
  by (simp_all add: total_def sim_reg) (simp_all add: driver_defs drv_call_def run_tick sim_env_def sim_driver_def)

lemma total_plan_layers: "total (plan_layers sim_env ls)"
  by (induction ls) (auto intro!: total_seq total_sim)

lemma total_plan: "total (PlanReconcile G sim_env now timeout)"
  unfolding PlanReconcile_def reg_branches_def Let_def
  by (rule total_seq total_bind total_sim total_plan_layers | simp add: total_sim)+

theorem reconcile_plan_exact_witness:
  "\<exists>plan. fst (run_state (PlanReconcile sim_engine sim_env (noon 0 0) 0) (sim_world demo_db3)) = Inr plan
    \<and> kinds plan = drift ''i'' demo_db3 (noon 0 0) 0 (\<lambda>k. False) [] [] [\<lparr>vi_Name = ''v1'', vi_Created = None, vi_Leftover = False\<rparr>]
    \<and> (ActionRestartBranch, ''pr-1'') \<in> kinds plan"
proof -
  obtain plan w' where r: "run_state (PlanReconcile sim_engine sim_env (noon 0 0) 0) (sim_world demo_db3) = (Inr plan, w')"
    using total_plan unfolding total_def by blast
  have E: "alone sim_env" "claims sim_env (\<lambda>k. False)" by (simp_all add: alone_def claims_def sim_env_def)
  have d: "distinct (map br_id (branches (w_db (sim_world demo_db3))))" by (simp add: sim_world_def demo_eval)
  have "kinds plan = drift ''i'' demo_db3 (noon 0 0) 0 (\<lambda>k. False) [] [] [\<lparr>vi_Name = ''v1'', vi_Created = None, vi_Leftover = False\<rparr>]"
    using reconcile_plan_exact[OF E d r] by (auto simp: sim_env_def sim_driver_def sim_engine_def sim_world_def)
  moreover have "(ActionRestartBranch, ''pr-1'') \<in> ready_drift demo_db3 (noon 0 0) (\<lambda>k. False) []"
    by (auto simp: ready_drift_def demo_eval expired_row_def by_id_def)
  ultimately show ?thesis using r by (simp add: drift_def Let_def)
qed

section \<open>Garbage collection checks again\<close>

definition removes_from :: "db \<Rightarrow> string set \<Rightarrow> ('rt, 'a) act \<Rightarrow> bool" where
  "removes_from d0 S m \<longleftrightarrow> (\<forall>w. reg_step\<^sup>*\<^sup>* d0 (w_db w) \<longrightarrow> removes_only S w (snd (run_state m w)))"

lemma removes_from_keeps: "keeps (removes_only S) m \<Longrightarrow> removes_from d0 S m"
  by (simp add: removes_from_def keeps_def)

lemma removes_from_read:
  assumes "env_ok E" "\<And>x d. reg_step\<^sup>*\<^sup>* d0 d \<Longrightarrow> f d = Inr x \<Longrightarrow> removes_from d S (k x)"
  shows "removes_from d0 S (seq_ok (reg_read E f) k)"
  unfolding removes_from_def
proof (intro allI impI)
  fix w :: "'a world" assume d0: "reg_step\<^sup>*\<^sup>* d0 (w_db w)"
  obtain r w1 where r: "run_state (reg_read E f) w = (r, w1)" by (cases "run_state (reg_read E f) w")
  then have w1: "removes_only S w w1" using keepsD[OF ro.keeps_reg_read] by blast
  show "removes_only S w (snd (run_state (seq_ok (reg_read E f) k) w))"
  proof (cases r)
    case (Inr x)
    then have "f (w_db w1) = Inr x" "reg_step\<^sup>*\<^sup>* (w_db w) (w_db w1)"
      using r assms(1) by (auto simp: run_reg_read Let_def env_ok_def split: option.splits sum.splits)
    then have "removes_from (w_db w1) S (k x)" using assms(2) d0 by (meson rtranclp_trans)
    then show ?thesis using r Inr removes_only_trans[OF w1] by (simp add: run_seq_ok removes_from_def)
  qed (use r w1 in \<open>simp add: run_seq_ok\<close>)
qed

lemma removes_fromD: "removes_from (w_db w) S m \<Longrightarrow> \<exists>es. w_log (snd (run_state m w)) = w_log w @ es \<and> removed es \<subseteq> S"
  by (simp add: removes_from_def removes_only_def)



end
