(* ===== verification/Claims.thy ===== *)
theory Claims
  imports Prelude
begin

text \<open>
  The claims of \<open>reconcileState\<close> (\<^verbatim>\<open>src/internal/engine/reconcile.go\<close>): counters of the work this process has in flight,
  taken by \<open>claim\<close> and \<open>tryClaim\<close> and given back through a release function that acts once. Every method holds
  the mutex for its whole body, so a history of the object is a sequence of calls. A release function is a handle, an
  index into the list of handles given out; its flag is the state of its \<open>sync.Once\<close>.
\<close>

record reconcileState =
  rs_claims :: "string \<rightharpoonup> int"
  rs_handles :: "(string \<times> bool) list"

definition claims_at :: "reconcileState \<Rightarrow> string \<Rightarrow> int" where
  "claims_at s key = (case rs_claims s key of None \<Rightarrow> 0 | Some n \<Rightarrow> n)"

definition claim :: "string \<Rightarrow> reconcileState \<Rightarrow> reconcileState \<times> nat" where
  "claim key s = (s\<lparr>rs_claims := (rs_claims s)(key \<mapsto> claims_at s key + 1), rs_handles := rs_handles s @ [(key, False)]\<rparr>, length (rs_handles s))"

definition tryClaim :: "string \<Rightarrow> reconcileState \<Rightarrow> reconcileState \<times> nat option" where
  "tryClaim key s =
     (if claims_at s key > 0 then (s, None)
      else (s\<lparr>rs_claims := (rs_claims s)(key \<mapsto> 1), rs_handles := rs_handles s @ [(key, False)]\<rparr>, Some (length (rs_handles s))))"

definition release :: "nat \<Rightarrow> reconcileState \<Rightarrow> reconcileState" where
  "release h s =
     (if h \<ge> length (rs_handles s) \<or> snd (rs_handles s ! h) then s
      else let key = fst (rs_handles s ! h); n = claims_at s key - 1
        in s\<lparr>rs_claims := (if n \<le> 0 then (rs_claims s)(key := None) else (rs_claims s)(key \<mapsto> n)), rs_handles := (rs_handles s)[h := (key, True)]\<rparr>)"

definition is_claimed :: "string \<Rightarrow> reconcileState \<Rightarrow> bool" where
  "is_claimed key s \<longleftrightarrow> claims_at s key > 0"

definition rs_init :: reconcileState where "rs_init = \<lparr>rs_claims = Map.empty, rs_handles = []\<rparr>"

inductive claims_reach :: "reconcileState \<Rightarrow> bool" where
  start: "claims_reach rs_init"
| claim: "claims_reach s \<Longrightarrow> claims_reach (fst (claim key s))"
| tryClaim: "claims_reach s \<Longrightarrow> claims_reach (fst (tryClaim key s))"
| release: "claims_reach s \<Longrightarrow> claims_reach (release h s)"

definition holders :: "string \<Rightarrow> reconcileState \<Rightarrow> nat set" where
  "holders key s = {h. h < length (rs_handles s) \<and> rs_handles s ! h = (key, False)}"

lemma holders_finite [simp]: "finite (holders key s)"
  by (simp add: holders_def)

lemma holders_add: "holders key (s\<lparr>rs_claims := m, rs_handles := rs_handles s @ [(k, False)]\<rparr>) =
    holders key s \<union> (if k = key then {length (rs_handles s)} else {})"
  by (auto simp: holders_def nth_append less_Suc_eq split: if_splits)

lemma fresh_not_holder: "length (rs_handles s) \<notin> holders key s"
  by (simp add: holders_def)

lemma holders_release:
  assumes "h < length (rs_handles s)" "\<not> snd (rs_handles s ! h)"
  shows "holders key (release h s) = holders key s - {h}" "h \<in> holders (fst (rs_handles s ! h)) s"
  using assms by (auto simp: holders_def release_def Let_def nth_list_update prod_eq_iff split: if_splits)

definition counts_holders :: "reconcileState \<Rightarrow> bool" where
  "counts_holders s \<longleftrightarrow> (\<forall>key. claims_at s key = int (card (holders key s)))"

lemma release_at: "claims_at (release h s) key =
    (if h < length (rs_handles s) \<and> \<not> snd (rs_handles s ! h) \<and> fst (rs_handles s ! h) = key
     then max 0 (claims_at s key - 1) else claims_at s key)"
  by (auto simp: release_def claims_at_def Let_def split: option.splits)

lemma counts_release: "counts_holders s \<Longrightarrow> counts_holders (release h s)"
proof (cases "h < length (rs_handles s) \<and> \<not> snd (rs_handles s ! h)")
  case True
  assume c: "counts_holders s"
  have out: "h \<notin> holders key s" if "fst (rs_handles s ! h) \<noteq> key" for key using that by (auto simp: holders_def)
  have "0 < card (holders (fst (rs_handles s ! h)) s)" using holders_release(2) True by (auto simp: card_gt_0_iff)
  then show ?thesis using True c out holders_release(2)[of h s]
    by (auto simp: counts_holders_def release_at holders_release(1) card_Diff_singleton_if)
qed (auto simp: counts_holders_def release_at release_def)

lemma reach_counts: "claims_reach s \<Longrightarrow> counts_holders s"
proof (induction rule: claims_reach.induct)
  case (tryClaim s key)
  then show ?case using fresh_not_holder[of s key]
    by (auto simp: tryClaim_def counts_holders_def holders_add) (auto simp: claims_at_def split: option.splits)
next
  case (claim s key)
  then show ?case using fresh_not_holder[of s key]
    by (auto simp: claim_def counts_holders_def holders_add) (auto simp: claims_at_def split: option.splits)
qed (auto simp: counts_release, simp add: counts_holders_def rs_init_def claims_at_def holders_def)

text \<open>
  A claim is held exactly as long as somebody holds it. After any sequence of claims, attempted claims and releases,
  repeated releases of the same handle included, a key counts as claimed exactly when a handle on it has
  not been released, and an attempted claim succeeds exactly when there is none; then the caller is the only holder.
\<close>

theorem claims_exact:
  assumes "claims_reach s"
  shows "(is_claimed key s \<longleftrightarrow> holders key s \<noteq> {}) \<and>
    (case tryClaim key s of (s', None) \<Rightarrow> s' = s \<and> holders key s \<noteq> {}
     | (s', Some h) \<Rightarrow> holders key s = {} \<and> holders key s' = {h})"
  using reach_counts[OF assms]
  by (auto simp: is_claimed_def counts_holders_def card_gt_0_iff tryClaim_def holders_add split: if_splits)

theorem claims_exact_witness:
  "is_claimed ''branch:pr-1'' (release 1 (fst (claim ''branch:pr-1'' (fst (claim ''branch:pr-1'' rs_init)))))
    \<and> \<not> is_claimed ''branch:pr-1'' (release 0 (release 0 (fst (claim ''branch:pr-1'' rs_init))))"
proof -
  let ?two = "release 1 (fst (claim ''branch:pr-1'' (fst (claim ''branch:pr-1'' rs_init))))"
  let ?none = "release 0 (release 0 (fst (claim ''branch:pr-1'' rs_init)))"
  have r: "claims_reach ?two" "claims_reach ?none" by (intro claims_reach.intros)+
  have "0 \<in> holders ''branch:pr-1'' ?two" "holders ''branch:pr-1'' ?none = {}"
    by (auto simp: holders_def release_def claim_def rs_init_def Let_def claims_at_def nth_Cons')
  then show ?thesis using claims_exact[OF r(1)] claims_exact[OF r(2)] by blast
qed

end
