(* ===== verification/Diff.thy ===== *)
theory Diff
  imports Prelude "HOL-Library.Monad_Syntax"
begin

text \<open>
  The line diff (\<^verbatim>\<open>src/internal/diffutil/diffutil.go\<close>): Myers' linear-space search with its cost cap, the edit script and the
  unified rendering. Go slices are lists and a slice index out of range is a panic: \<open>idx\<close> and \<open>put\<close> return \<open>None\<close> there,
  and so does every function whose loop would panic or run forever. Go's 64-bit ints are integers here; every value is a line
  number, a difference of two or one of the sentinels, so nothing wraps as long as the inputs have less than \<open>2 ^ 62\<close> lines.
\<close>

definition idx :: "'a list \<Rightarrow> int \<Rightarrow> 'a option" where
  "idx xs i = (if 0 \<le> i \<and> i < int (length xs) then Some (xs ! nat i) else None)"

definition put :: "'a list \<Rightarrow> int \<Rightarrow> 'a \<Rightarrow> 'a list option" where
  "put xs i v = (if 0 \<le> i \<and> i < int (length xs) then Some (xs[nat i := v]) else None)"

definition MaxInt :: int where "MaxInt = 2 ^ 63 - 1"

section \<open>The search\<close>

definition minTooExpensive :: int where "minTooExpensive = 1024"

record differ =
  d_x :: "nat list"
  d_y :: "nat list"
  d_delX :: "bool list"
  d_insY :: "bool list"
  d_fd :: "int list"
  d_bd :: "int list"
  d_off :: int
  d_tooExpensive :: int

text \<open>\<open>int(math.Sqrt(float64(n)))\<close>, exact for the lengths of slices.\<close>

fun isqrt :: "nat \<Rightarrow> nat" where
  "isqrt 0 = 0"
| "isqrt (Suc n) = (let m = isqrt n in if (m + 1) * (m + 1) \<le> Suc n then m + 1 else m)"

definition newDiffer :: "nat list \<Rightarrow> nat list \<Rightarrow> int \<Rightarrow> differ" where
  "newDiffer x y costCap =
     (let n = length x + length y + 3;
          cap = (if costCap \<le> 0 then max minTooExpensive (int (isqrt n)) else costCap)
      in \<lparr>d_x = x, d_y = y, d_delX = replicate (length x) False, d_insY = replicate (length y) False,
          d_fd = replicate n 0, d_bd = replicate n 0, d_off = int (length y) + 1, d_tooExpensive = cap\<rparr>)"

text \<open>The loops that follow a run of equal lines, forward and backward.\<close>

function fwd_snake :: "differ \<Rightarrow> int \<Rightarrow> int \<Rightarrow> int \<Rightarrow> int \<Rightarrow> (int \<times> int) option" where
  "fwd_snake d xlim ylim x y =
     (if x < xlim \<and> y < ylim
      then do { a \<leftarrow> idx (d_x d) x; b \<leftarrow> idx (d_y d) y;
        if a = b then fwd_snake d xlim ylim (x + 1) (y + 1) else Some (x, y) }
      else Some (x, y))"
  by pat_completeness auto
termination by (relation "measure (\<lambda>(d, xlim, ylim, x, y). nat (xlim - x))") auto

function bwd_snake :: "differ \<Rightarrow> int \<Rightarrow> int \<Rightarrow> int \<Rightarrow> int \<Rightarrow> (int \<times> int) option" where
  "bwd_snake d xoff yoff x y =
     (if x > xoff \<and> y > yoff
      then do { a \<leftarrow> idx (d_x d) (x - 1); b \<leftarrow> idx (d_y d) (y - 1);
        if a = b then bwd_snake d xoff yoff (x - 1) (y - 1) else Some (x, y) }
      else Some (x, y))"
  by pat_completeness auto
termination by (relation "measure (\<lambda>(d, xoff, yoff, x, y). nat (x - xoff))") auto

declare fwd_snake.simps [simp del] bwd_snake.simps [simp del]

text \<open>One round of each search: one more edit on every active diagonal, until it meets the other search.\<close>

function fwd_loop ::
  "int \<Rightarrow> int \<Rightarrow> bool \<Rightarrow> int \<Rightarrow> int \<Rightarrow> int \<Rightarrow> int \<Rightarrow> differ \<Rightarrow> (differ \<times> (int \<times> int) option) option" where
  "fwd_loop xlim ylim isodd bmin bmax fmin k d =
     (if k < fmin then Some (d, None)
      else do { tlo \<leftarrow> idx (d_fd d) (d_off d + k - 1); thi \<leftarrow> idx (d_fd d) (d_off d + k + 1);
        let x0 = (if tlo < thi then thi else tlo + 1)
        in do { (x, y) \<leftarrow> fwd_snake d xlim ylim x0 (x0 - k);
          fd \<leftarrow> put (d_fd d) (d_off d + k) x;
          met \<leftarrow> (if isodd \<and> bmin \<le> k \<and> k \<le> bmax then do { b \<leftarrow> idx (d_bd d) (d_off d + k); Some (b \<le> x) } else Some False);
          if met then Some (d\<lparr>d_fd := fd\<rparr>, Some (x, y))
          else fwd_loop xlim ylim isodd bmin bmax fmin (k - 2) (d\<lparr>d_fd := fd\<rparr>) } })"
  by pat_completeness auto
termination by (relation "measure (\<lambda>(xlim, ylim, isodd, bmin, bmax, fmin, k, d). nat (k + 1 - fmin))") auto

function bwd_loop ::
  "int \<Rightarrow> int \<Rightarrow> bool \<Rightarrow> int \<Rightarrow> int \<Rightarrow> int \<Rightarrow> int \<Rightarrow> differ \<Rightarrow> (differ \<times> (int \<times> int) option) option" where
  "bwd_loop xoff yoff isodd fmin fmax bmin k d =
     (if k < bmin then Some (d, None)
      else do { tlo \<leftarrow> idx (d_bd d) (d_off d + k - 1); thi \<leftarrow> idx (d_bd d) (d_off d + k + 1);
        let x0 = (if tlo < thi then tlo else thi - 1)
        in do { (x, y) \<leftarrow> bwd_snake d xoff yoff x0 (x0 - k);
          bd \<leftarrow> put (d_bd d) (d_off d + k) x;
          met \<leftarrow> (if \<not> isodd \<and> fmin \<le> k \<and> k \<le> fmax then do { f \<leftarrow> idx (d_fd d) (d_off d + k); Some (x \<le> f) } else Some False);
          if met then Some (d\<lparr>d_bd := bd\<rparr>, Some (x, y))
          else bwd_loop xoff yoff isodd fmin fmax bmin (k - 2) (d\<lparr>d_bd := bd\<rparr>) } })"
  by pat_completeness auto
termination by (relation "measure (\<lambda>(xoff, yoff, isodd, fmin, fmax, bmin, k, d). nat (k + 1 - bmin))") auto

declare fwd_loop.simps [simp del] bwd_loop.simps [simp del]

text \<open>The active diagonals of the next round, with the sentinels outside them.\<close>

definition widen :: "int \<Rightarrow> int \<Rightarrow> int \<Rightarrow> int \<Rightarrow> int \<Rightarrow> int \<Rightarrow> int list \<Rightarrow> (int \<times> int \<times> int list) option" where
  "widen off dmin dmax sentinel lo hi v =
     do { (lo', v) \<leftarrow> (if lo > dmin then do { v \<leftarrow> put v (off + (lo - 1) - 1) sentinel; Some (lo - 1, v) } else Some (lo + 1, v));
       (hi', v) \<leftarrow> (if hi < dmax then do { v \<leftarrow> put v (off + (hi + 1) + 1) sentinel; Some (hi + 1, v) } else Some (hi - 1, v));
       Some (lo', hi', v) }"

text \<open>Past the cost cap: the furthest point of either search, clamped into the rectangle.\<close>

function fwd_best :: "differ \<Rightarrow> int \<Rightarrow> int \<Rightarrow> int \<Rightarrow> int \<Rightarrow> int \<times> int \<Rightarrow> (int \<times> int) option" where
  "fwd_best d xlim ylim fmin k best =
     (if k < fmin then Some best
      else do { f \<leftarrow> idx (d_fd d) (d_off d + k);
        let x = min f xlim; y = x - k; (x, y) = (if ylim < y then (ylim + k, ylim) else (x, y))
        in fwd_best d xlim ylim fmin (k - 2) (if fst best < x + y then (x + y, x) else best) })"
  by pat_completeness auto
termination by (relation "measure (\<lambda>(d, xlim, ylim, fmin, k, best). nat (k + 1 - fmin))") auto

function bwd_best :: "differ \<Rightarrow> int \<Rightarrow> int \<Rightarrow> int \<Rightarrow> int \<Rightarrow> int \<times> int \<Rightarrow> (int \<times> int) option" where
  "bwd_best d xoff yoff bmin k best =
     (if k < bmin then Some best
      else do { b \<leftarrow> idx (d_bd d) (d_off d + k);
        let x = max xoff b; y = x - k; (x, y) = (if y < yoff then (yoff + k, yoff) else (x, y))
        in bwd_best d xoff yoff bmin (k - 2) (if x + y < fst best then (x + y, x) else best) })"
  by pat_completeness auto
termination by (relation "measure (\<lambda>(d, xoff, yoff, bmin, k, best). nat (k + 1 - bmin))") auto

declare fwd_best.simps [simp del] bwd_best.simps [simp del]

definition capped_split ::
  "differ \<Rightarrow> int \<Rightarrow> int \<Rightarrow> int \<Rightarrow> int \<Rightarrow> int \<Rightarrow> int \<Rightarrow> int \<Rightarrow> int \<Rightarrow> (differ \<times> int \<times> int \<times> bool \<times> bool) option" where
  "capped_split d xoff xlim yoff ylim fmin fmax bmin bmax =
     do { (fxyBest, fxBest) \<leftarrow> fwd_best d xlim ylim fmin fmax (-1, 0);
       (bxyBest, bxBest) \<leftarrow> bwd_best d xoff yoff bmin bmax (MaxInt, 0);
       Some (if (xlim + ylim) - bxyBest < fxyBest - (xoff + yoff)
             then (d, fxBest, fxyBest - fxBest, True, False) else (d, bxBest, bxyBest - bxBest, False, True)) }"

partial_function (option) split_loop ::
  "int \<Rightarrow> int \<Rightarrow> int \<Rightarrow> int \<Rightarrow> bool \<Rightarrow> int \<Rightarrow> differ \<Rightarrow> int \<Rightarrow> int \<Rightarrow> int \<Rightarrow> int \<Rightarrow> (differ \<times> int \<times> int \<times> bool \<times> bool) option" where
  [code]: "split_loop xoff xlim yoff ylim minimal c d fmin fmax bmin bmax =
     (let dmin = xoff - ylim; dmax = xlim - yoff; isodd = (((xoff - yoff) - (xlim - ylim)) mod 2 \<noteq> 0)
      in do { (fmin, fmax, fd) \<leftarrow> widen (d_off d) dmin dmax (-1) fmin fmax (d_fd d);
        (d, met) \<leftarrow> fwd_loop xlim ylim isodd bmin bmax fmin fmax (d\<lparr>d_fd := fd\<rparr>);
        case met of Some (x, y) \<Rightarrow> Some (d, x, y, True, True)
        | None \<Rightarrow> do { (bmin, bmax, bd) \<leftarrow> widen (d_off d) dmin dmax MaxInt bmin bmax (d_bd d);
            (d, met) \<leftarrow> bwd_loop xoff yoff isodd fmin fmax bmin bmax (d\<lparr>d_bd := bd\<rparr>);
            case met of Some (x, y) \<Rightarrow> Some (d, x, y, True, True)
            | None \<Rightarrow> if minimal \<or> c < d_tooExpensive d
                then split_loop xoff xlim yoff ylim minimal (c + 1) d fmin fmax bmin bmax
                else capped_split d xoff xlim yoff ylim fmin fmax bmin bmax } })"

definition split_at :: "differ \<Rightarrow> int \<Rightarrow> int \<Rightarrow> int \<Rightarrow> int \<Rightarrow> bool \<Rightarrow> (differ \<times> int \<times> int \<times> bool \<times> bool) option" where
  "split_at d xoff xlim yoff ylim minimal =
     (let fmid = xoff - yoff; bmid = xlim - ylim
      in do { fd \<leftarrow> put (d_fd d) (d_off d + fmid) xoff; bd \<leftarrow> put (d_bd d) (d_off d + bmid) xlim;
        split_loop xoff xlim yoff ylim minimal 1 (d\<lparr>d_fd := fd, d_bd := bd\<rparr>) fmid fmid bmid bmid })"

function mark :: "bool list \<Rightarrow> int \<Rightarrow> int \<Rightarrow> bool list option" where
  "mark v i lim = (if i < lim then do { v \<leftarrow> put v i True; mark v (i + 1) lim } else Some v)"
  by pat_completeness auto
termination by (relation "measure (\<lambda>(v, i, lim). nat (lim - i))") auto

declare mark.simps [simp del]

partial_function (option) compare :: "differ \<Rightarrow> int \<Rightarrow> int \<Rightarrow> int \<Rightarrow> int \<Rightarrow> bool \<Rightarrow> differ option" where
  [code]: "compare d xoff xlim yoff ylim minimal =
     do { (xoff, yoff) \<leftarrow> fwd_snake d xlim ylim xoff yoff;
       (xlim, ylim) \<leftarrow> bwd_snake d xoff yoff xlim ylim;
       if xoff = xlim then do { v \<leftarrow> mark (d_insY d) yoff ylim; Some (d\<lparr>d_insY := v\<rparr>) }
       else if yoff = ylim then do { v \<leftarrow> mark (d_delX d) xoff xlim; Some (d\<lparr>d_delX := v\<rparr>) }
       else do { (d, xmid, ymid, loMin, hiMin) \<leftarrow> split_at d xoff xlim yoff ylim minimal;
         d \<leftarrow> compare d xoff xmid yoff ymid loMin;
         compare d xmid xlim ymid ylim hiMin } }"

section \<open>Marking changed lines\<close>

fun common_prefix :: "'a list \<Rightarrow> 'a list \<Rightarrow> nat" where
  "common_prefix (x # xs) (y # ys) = (if x = y then Suc (common_prefix xs ys) else 0)"
| "common_prefix _ _ = 0"

text \<open>The map from lines to ids, as the list of lines in the order of their ids.\<close>

definition intern :: "string \<Rightarrow> string list \<Rightarrow> nat \<times> string list" where
  "intern l ids = (if l \<in> set ids then (length (takeWhile (\<lambda>x. x \<noteq> l) ids), ids) else (length ids, ids @ [l]))"

fun intern_all :: "string list \<Rightarrow> string list \<Rightarrow> nat list \<times> string list" where
  "intern_all [] ids = ([], ids)"
| "intern_all (l # ls) ids = (let (i, ids) = intern l ids; (is, ids) = intern_all ls ids in (i # is, ids))"

definition mark_back :: "nat \<Rightarrow> nat list \<Rightarrow> bool list \<Rightarrow> bool list \<Rightarrow> bool list" where
  "mark_back p index marked v = foldl (\<lambda>v k. if marked ! k then v[p + index ! k := True] else v) v [0..<length marked]"

definition changes :: "string list \<Rightarrow> string list \<Rightarrow> int \<Rightarrow> (bool list \<times> bool list) option" where
  "changes a b costCap =
     (let p = common_prefix a b; s = common_prefix (rev (drop p a)) (rev (drop p b));
          am = take (length a - s - p) (drop p a); bm = take (length b - s - p) (drop p b);
          (ai, ids) = intern_all am []; (bi, ids) = intern_all bm ids;
          xIdx = filter (\<lambda>i. ai ! i \<in> set bi) [0..<length ai]; xs = map ((!) ai) xIdx;
          yIdx = filter (\<lambda>j. bi ! j \<in> set ai) [0..<length bi]; ys = map ((!) bi) yIdx;
          delA = replicate p False @ map (\<lambda>i. i \<notin> set bi) ai @ replicate s False;
          insB = replicate p False @ map (\<lambda>j. j \<notin> set ai) bi @ replicate s False
      in do { d \<leftarrow> compare (newDiffer xs ys costCap) 0 (int (length xs)) 0 (int (length ys)) False;
        Some (mark_back p xIdx (d_delX d) delA, mark_back p yIdx (d_insY d) insB) })"

section \<open>The edit script\<close>

type_synonym diff_op = "char \<times> string"

text \<open>The loop of \<open>diffOpsCap\<close>, on the lines with their marks that are left; a matched pair needs a line on the left.\<close>

function script :: "(bool \<times> string) list \<Rightarrow> (bool \<times> string) list \<Rightarrow> diff_op list option" where
  "script [] [] = Some []"
| "script ((del, l) # as) bs =
     (if del then do { ops \<leftarrow> script as bs; Some ((CHR ''-'', l) # ops) }
      else (case bs of (True, l') # bs' \<Rightarrow> do { ops \<leftarrow> script ((del, l) # as) bs'; Some ((CHR ''+'', l') # ops) }
         | _ \<Rightarrow> do { ops \<leftarrow> script as (tl bs); Some ((CHR '' '', l) # ops) }))"
| "script [] ((ins, l') # bs) = (if ins then do { ops \<leftarrow> script [] bs; Some ((CHR ''+'', l') # ops) } else None)"
  by pat_completeness auto
termination by (relation "measure (\<lambda>(as, bs). length as + length bs)") auto

definition diffOpsCap :: "string list \<Rightarrow> string list \<Rightarrow> int \<Rightarrow> diff_op list option" where
  "diffOpsCap a b costCap = do { (delA, insB) \<leftarrow> changes a b costCap; script (zip delA a) (zip insB b) }"

definition diffOps :: "string list \<Rightarrow> string list \<Rightarrow> diff_op list option" where
  "diffOps a b = diffOpsCap a b 0"

section \<open>Unified hunks\<close>

definition contextLines :: nat where "contextLines = 3"

definition splitLines :: "string \<Rightarrow> string list" where
  "splitLines s = (let ls = split_on (CHR 0x0A) s in if last ls = [] then butlast ls else ls)"

text \<open>Lines of the old and of the new file among some operations.\<close>

definition old_lines :: "diff_op list \<Rightarrow> string list" where "old_lines ops = map snd (filter (\<lambda>x. fst x \<noteq> CHR ''+'') ops)"
definition new_lines :: "diff_op list \<Rightarrow> string list" where "new_lines ops = map snd (filter (\<lambda>x. fst x \<noteq> CHR ''-'') ops)"

text \<open>The last change of the hunk that begins with a change, and the changes after it.\<close>

fun last_near :: "nat \<Rightarrow> nat list \<Rightarrow> nat \<times> nat list" where
  "last_near l [] = (l, [])"
| "last_near l (c # cs) = (if c - l \<le> 2 * contextLines then last_near c cs else (l, c # cs))"

lemma last_near_shorter: "last_near l cs = (l', rest) \<Longrightarrow> length rest \<le> length cs"
  by (induction l cs rule: last_near.induct) (auto split: if_splits)

record hunk =
  h_aStart :: nat
  h_aCount :: nat
  h_bStart :: nat
  h_bCount :: nat
  h_ops :: "diff_op list"

definition hunk_at :: "diff_op list \<Rightarrow> nat \<Rightarrow> nat \<Rightarrow> hunk" where
  "hunk_at ops c l =
     (let start = c - contextLines; stop = min (length ops - 1) (l + contextLines);
          aAt = (\<lambda>i. length (old_lines (take i ops))); bAt = (\<lambda>i. length (new_lines (take i ops)));
          aCount = aAt (stop + 1) - aAt start; bCount = bAt (stop + 1) - bAt start
      in \<lparr>h_aStart = (if aCount = 0 then aAt start else aAt start + 1), h_aCount = aCount,
          h_bStart = (if bCount = 0 then bAt start else bAt start + 1), h_bCount = bCount,
          h_ops = take (stop + 1 - start) (drop start ops)\<rparr>)"

function hunks :: "diff_op list \<Rightarrow> nat list \<Rightarrow> hunk list" where
  "hunks ops [] = []"
| "hunks ops (c # cs) = (let (l, rest) = last_near c cs in hunk_at ops c l # hunks ops rest)"
  by pat_completeness auto
termination
  by (relation "measure (\<lambda>(ops, cs). length cs)") (auto simp: less_Suc_eq_le dest: last_near_shorter[OF sym])

definition render_hunk :: "hunk \<Rightarrow> string" where
  "render_hunk h = ''@@ -'' @ nat_dec (h_aStart h) @ '','' @ nat_dec (h_aCount h) @ '' +'' @ nat_dec (h_bStart h) @ '','' @ nat_dec (h_bCount h) @ '' @@'' @ [CHR 0x0A]
     @ concat (map (\<lambda>(kind, line). kind # line @ [CHR 0x0A]) (h_ops h))"

definition changed_at :: "diff_op list \<Rightarrow> nat list" where
  "changed_at ops = filter (\<lambda>i. fst (ops ! i) \<noteq> CHR '' '') [0..<length ops]"

definition renderHunks :: "diff_op list \<Rightarrow> string" where
  "renderHunks ops = concat (map render_hunk (hunks ops (changed_at ops)))"

definition Unified :: "string \<Rightarrow> string \<Rightarrow> string option" where
  "Unified a b = do { ops \<leftarrow> diffOps (splitLines a) (splitLines b);
     Some (if list_ex (\<lambda>x. fst x \<noteq> CHR '' '') ops then renderHunks ops else []) }"

end
