(* ===== verification/BranchDiff.thy ===== *)
theory BranchDiff
  imports Sagas Diff
begin

text \<open>
  What changed in a branch (\<^verbatim>\<open>src/internal/engine/diff.go\<close>): a throwaway branch is provisioned on the target's own base, both
  instances are dumped and counted, and the two sides are compared. The decoders of \<open>encoding/json\<close> are parameters (\<open>json\<close>, one function per type
  the code decodes into, the text of the error on the left); a decoded row is of any type \<open>'v\<close>. Go maps keyed by tables are
  association lists, and a map is sorted before anything depends on its order. Error texts show \<open>%q\<close> of program output without its escapes.
\<close>

section \<open>Tables\<close>

definition UnknownRows :: int where "UnknownRows = -1"

datatype tableKey = TableKey (tk_schema: string) (tk_table: string)

text \<open>The order of \<open>sortKeys\<close>.\<close>

instantiation tableKey :: linorder
begin

definition less_eq_tableKey :: "tableKey \<Rightarrow> tableKey \<Rightarrow> bool" where
  "less_eq_tableKey x y \<longleftrightarrow> (if tk_schema x \<noteq> tk_schema y then tk_schema x < tk_schema y else tk_table x \<le> tk_table y)"

definition less_tableKey :: "tableKey \<Rightarrow> tableKey \<Rightarrow> bool" where
  "less_tableKey x y \<longleftrightarrow> (if tk_schema x \<noteq> tk_schema y then tk_schema x < tk_schema y else tk_table x < tk_table y)"

instance
  by standard (auto simp: less_eq_tableKey_def less_tableKey_def intro: tableKey.expand split: if_splits)

end

definition sortKeys :: "tableKey list \<Rightarrow> tableKey list" where
  "sortKeys keys = sort keys"

record tableStat =
  ts_rows :: int
  ts_bytes :: int

type_synonym stats = "(tableKey \<times> tableStat) list"

record 'v TableDelta =
  td_Schema :: string
  td_Table :: string
  td_BaseRows :: int
  td_BranchRows :: int
  td_Delta :: int
  td_RowsUnknown :: bool
  td_SampleRows :: "'v list"

definition delta_name :: "'v TableDelta \<Rightarrow> string" where
  "delta_name t = (if td_Schema t = [] \<or> td_Schema t = ''public'' then td_Table t else td_Schema t @ ''.'' @ td_Table t)"

definition Grew :: "'v TableDelta \<Rightarrow> bool" where
  "Grew t \<longleftrightarrow> \<not> td_RowsUnknown t \<and> td_BranchRows t > td_BaseRows t"

definition Cells :: "'v TableDelta \<Rightarrow> string \<times> string \<times> string" where
  "Cells t = (let count = (\<lambda>n. if n < 0 then ''?'' else int_dec n);
       delta = (if td_RowsUnknown t then ''?'' else if td_Delta t = 0 then ''0''
                else if td_Delta t < 0 then int_dec (td_Delta t) else CHR ''+'' # int_dec (td_Delta t))
     in (count (td_BaseRows t), count (td_BranchRows t), delta))"

text \<open>The rows of a table in a map, Go's zero value when it is absent.\<close>

definition rows_of :: "stats \<Rightarrow> tableKey \<Rightarrow> int" where
  "rows_of m k = (case map_of m k of None \<Rightarrow> 0 | Some s \<Rightarrow> ts_rows s)"

definition table_delta :: "stats \<Rightarrow> stats \<Rightarrow> tableKey \<Rightarrow> 'v TableDelta" where
  "table_delta base branch k =
     (let b = rows_of base k; r = rows_of branch k; unknown = (b < 0 \<or> r < 0)
      in \<lparr>td_Schema = tk_schema k, td_Table = tk_table k, td_BaseRows = b, td_BranchRows = r,
          td_Delta = (if unknown then 0 else r - b), td_RowsUnknown = unknown, td_SampleRows = []\<rparr>)"

definition tableDeltas :: "stats \<Rightarrow> stats \<Rightarrow> 'v TableDelta list" where
  "tableDeltas base branch = map (table_delta base branch) (sortKeys (remdups (map fst base @ map fst branch)))"

section \<open>Text helpers\<close>

definition quoteIdent :: "string \<Rightarrow> string" where
  "quoteIdent s = CHR 0x22 # replace_all s [CHR 0x22] [CHR 0x22, CHR 0x22] @ [CHR 0x22]"

text \<open>\<open>strings.NewReplacer\<close> on one-byte patterns replaces byte by byte.\<close>

definition literal_char :: "char \<Rightarrow> string" where
  "literal_char c = (if c = CHR 0x5C then [CHR 0x5C, CHR 0x5C] else if c = CHR 0x27 then [CHR 0x27, CHR 0x27] else [c])"

definition sqlLiteral :: "string \<Rightarrow> string" where
  "sqlLiteral s = CHR ''E'' # CHR 0x27 # concat (map literal_char s) @ [CHR 0x27]"

definition key_sql :: "tableKey \<Rightarrow> string" where
  "key_sql k = quoteIdent (tk_schema k) @ ''.'' @ quoteIdent (tk_table k)"

definition nonEmptyLines :: "string \<Rightarrow> string list" where
  "nonEmptyLines s = filter (\<lambda>l. l \<noteq> []) (map TrimSpace (split_on (CHR 0x0A) s))"

definition truncate_to :: "string \<Rightarrow> nat \<Rightarrow> string" where
  "truncate_to s n = (if length s \<le> n then s else take n s @ [CHR 0xE2, CHR 0x80, CHR 0xA6])"

definition dump_noise :: "string \<Rightarrow> bool" where
  "dump_noise l \<longleftrightarrow> has_prefix (CHR 0x5C # ''restrict '') l \<or> has_prefix (CHR 0x5C # ''unrestrict '') l"

definition stripDumpNoise :: "string \<Rightarrow> string" where
  "stripDumpNoise dump = join_with [CHR 0x0A] (filter (\<lambda>l. \<not> dump_noise l) (split_on (CHR 0x0A) dump))"

definition conn_user :: "source \<Rightarrow> string" where
  "conn_user src = (if src_ConnUser src = [] then ''postgres'' else src_ConnUser src)"

definition conn_db :: "source \<Rightarrow> string" where
  "conn_db src = (if src_ConnDB src = [] then ''postgres'' else src_ConnDB src)"

definition pgDumpSchemaCmd :: "source \<Rightarrow> string list" where
  "pgDumpSchemaCmd src = [''pg_dump'', ''-U'', conn_user src, ''-h'', ''/var/run/postgresql'', ''--schema-only'', ''--no-owner'', ''--no-acl'', conn_db src]"

definition psqlOutput :: "'rt env \<Rightarrow> string \<Rightarrow> source \<Rightarrow> string \<Rightarrow> ('rt, string) op" where
  "psqlOutput E cid src sql = ExecOutput E cid [''psql'', ''-tA'', ''-v'', ''ON_ERROR_STOP=1'', ''-U'', conn_user src, ''-d'', conn_db src,
     ''-h'', ''/var/run/postgresql'', ''-c'', sql]"

section \<open>Row counts\<close>

record statRow =
  jr_Schema :: string
  jr_Table :: string
  jr_Rows :: int
  jr_Bytes :: "int option"

record 'v json =
  js_stats :: "string \<Rightarrow> (string, statRow list) result"
  js_counts :: "string \<Rightarrow> (string, int list) result"
  js_pairs :: "string \<Rightarrow> (string, (string \<times> string) list) result"
  js_row :: "string \<Rightarrow> (string, 'v) result"

definition sq :: "string \<Rightarrow> string" where "sq s = CHR 0x27 # s @ [CHR 0x27]"

definition tableStatsSQL :: string where
  "tableStatsSQL = ''SELECT coalesce(json_agg(json_build_object('' @ sq ''schema'' @ '', n.nspname, '' @ sq ''table'' @ '', c.relname, ''
     @ sq ''rows'' @ '', c.reltuples::bigint, '' @ sq ''bytes'' @ '', pg_relation_size(c.oid))), '' @ sq ''[]''
     @ '') FROM pg_class c JOIN pg_namespace n ON n.oid=c.relnamespace WHERE c.relkind='' @ sq ''r'' @ '' AND c.relpersistence<>'' @ sq ''t''
     @ '' AND n.nspname NOT IN ('' @ sq ''pg_catalog'' @ '','' @ sq ''information_schema'' @ '')''"

definition exactCountMaxBytes :: int where "exactCountMaxBytes = 64 * 2 ^ 20"
definition countChunk :: nat where "countChunk = 100"

definition stat_of :: "statRow \<Rightarrow> tableStat" where
  "stat_of r = \<lparr>ts_rows = (if jr_Rows r < 0 then UnknownRows else jr_Rows r), ts_bytes = (case jr_Bytes r of None \<Rightarrow> 0 | Some n \<Rightarrow> n)\<rparr>"

definition stats_of :: "statRow list \<Rightarrow> stats" where
  "stats_of rows = foldl (\<lambda>m r. AList.update (TableKey (jr_Schema r) (jr_Table r)) (stat_of r) m) [] rows"

text \<open>Output that may be empty, decoded.\<close>

definition decode_or_empty :: "string \<Rightarrow> (string \<Rightarrow> (string, 'a list) result) \<Rightarrow> string \<Rightarrow> ('rt, 'a list) op" where
  "decode_or_empty what dec out =
     (let t = TrimSpace out
      in if t = [] then ok []
         else (case dec t of Inl e \<Rightarrow> fail_with (Wrap (''unparseable '' @ what @ '' '' @ quoted (truncate_to t 200)) (Msg e)) | Inr xs \<Rightarrow> ok xs))"

definition tableStats :: "'rt env \<Rightarrow> 'v json \<Rightarrow> string \<Rightarrow> source \<Rightarrow> ('rt, stats) op" where
  "tableStats E J cid src =
     seq_ok (psqlOutput E cid src tableStatsSQL) (\<lambda>out.
     seq_ok (decode_or_empty ''table stats'' (js_stats J) out) (\<lambda>rows. ok (stats_of rows)))"

definition ctx_done :: "'rt env \<Rightarrow> ('rt, bool) act" where
  "ctx_done E = do { t \<leftarrow> tick E; State_Monad.return (e_cancelled E t) }"

definition set_rows :: "tableKey \<Rightarrow> int \<Rightarrow> stats \<Rightarrow> stats" where
  "set_rows k n m = AList.update k (case map_of m k of None \<Rightarrow> \<lparr>ts_rows = n, ts_bytes = 0\<rparr> | Some s \<Rightarrow> s\<lparr>ts_rows := n\<rparr>) m"

definition count_sql :: "tableKey list \<Rightarrow> string" where
  "count_sql chunk = ''SELECT to_json(ARRAY['' @ join_with '', '' (map (\<lambda>k. ''(SELECT count(*) FROM '' @ key_sql k @ '')'') chunk) @ ''])''"

definition count_chunk :: "'rt env \<Rightarrow> 'v json \<Rightarrow> string \<Rightarrow> source \<Rightarrow> tableKey list \<Rightarrow> ('rt, int list) op" where
  "count_chunk E J cid src chunk =
     seq_ok (psqlOutput E cid src (count_sql chunk)) (\<lambda>out.
     case js_counts J (TrimSpace out) of Inl e \<Rightarrow> fail_with (Msg e)
     | Inr counts \<Rightarrow> if length counts \<noteq> length chunk
         then fail_with (Msg (''got '' @ nat_dec (length counts) @ '' counts for '' @ nat_dec (length chunk) @ '' tables'')) else ok counts)"

function count_loop :: "'rt env \<Rightarrow> 'v json \<Rightarrow> string \<Rightarrow> source \<Rightarrow> stats \<Rightarrow> tableKey list \<Rightarrow> ('rt, stats) op" where
  "count_loop E J cid src m todo =
     (if todo = [] then ok m
      else do { cancelled \<leftarrow> ctx_done E;
        if cancelled then fail_with ctxErr
        else (let chunk = take countChunk todo; rest = drop countChunk todo
          in attempt (count_chunk E J cid src chunk)
               (\<lambda>_. do { cancelled' \<leftarrow> ctx_done E; if cancelled' then fail_with ctxErr else count_loop E J cid src m rest })
               (\<lambda>counts. count_loop E J cid src (foldl (\<lambda>m (k, n). set_rows k n m) m (zip chunk counts)) rest)) })"
  by pat_completeness auto
termination by (relation "measure (\<lambda>(E, J, cid, src, m, todo). length todo)") (auto simp: countChunk_def)

declare count_loop.simps [simp del]

definition countExact :: "'rt env \<Rightarrow> 'v json \<Rightarrow> string \<Rightarrow> source \<Rightarrow> stats \<Rightarrow> tableKey list \<Rightarrow> ('rt, stats) op" where
  "countExact E J cid src m keys =
     count_loop E J cid src m (filter (\<lambda>k. case map_of m k of None \<Rightarrow> False | Some s \<Rightarrow> ts_bytes s \<le> exactCountMaxBytes) keys)"

definition unestimated :: "stats \<Rightarrow> tableKey list" where
  "unestimated m = map fst (filter (\<lambda>(k, s). ts_rows s < 0) m)"

definition countUnestimated :: "'rt env \<Rightarrow> 'v json \<Rightarrow> string \<Rightarrow> string \<Rightarrow> source \<Rightarrow> stats \<Rightarrow> stats \<Rightarrow> ('rt, stats \<times> stats) op" where
  "countUnestimated E J baseCID branchCID src base branch =
     (let keys = sortKeys (remdups (unestimated base @ unestimated branch))
      in if keys = [] then ok (base, branch)
         else seq_ok (countExact E J baseCID src base keys) (\<lambda>base'.
              seq_ok (countExact E J branchCID src branch keys) (\<lambda>branch'. ok (base', branch'))))"

section \<open>Sampling rows\<close>

definition sampleScanKeys :: "nat \<Rightarrow> nat" where "sampleScanKeys capN = max (10 * capN) 1000"
definition keyChunkBytes :: nat where "keyChunkBytes = 32 * 2 ^ 10"

record pkColumn =
  pk_name :: string
  pk_typ :: string

definition primaryKeySQL :: "string \<Rightarrow> string \<Rightarrow> string" where
  "primaryKeySQL schema table = ''SELECT coalesce(json_agg(json_build_array(a.attname, format_type(a.atttypid, a.atttypmod)) ORDER BY array_position(i.indkey, a.attnum)), ''
     @ sq ''[]'' @ '') FROM pg_index i JOIN pg_class c ON c.oid=i.indrelid JOIN pg_namespace n ON n.oid=c.relnamespace JOIN pg_attribute a ON a.attrelid=c.oid AND a.attnum=ANY(i.indkey) WHERE i.indisprimary AND n.nspname=''
     @ schema @ '' AND c.relname='' @ table"

definition primaryKey :: "'rt env \<Rightarrow> 'v json \<Rightarrow> string \<Rightarrow> source \<Rightarrow> tableKey \<Rightarrow> ('rt, pkColumn list) op" where
  "primaryKey E J cid src k =
     seq_ok (psqlOutput E cid src (primaryKeySQL (sqlLiteral (tk_schema k)) (sqlLiteral (tk_table k)))) (\<lambda>out.
     seq_ok (decode_or_empty ''primary key'' (js_pairs J) out) (\<lambda>pairs. ok (map (\<lambda>(n, t). \<lparr>pk_name = n, pk_typ = t\<rparr>) pairs)))"

definition highestKeys :: "'rt env \<Rightarrow> string \<Rightarrow> source \<Rightarrow> tableKey \<Rightarrow> pkColumn list \<Rightarrow> nat \<Rightarrow> ('rt, string list) op" where
  "highestKeys E cid src k pk n =
     seq_ok (psqlOutput E cid src (''SELECT jsonb_build_object('' @ join_with '', '' (map (\<lambda>c. sqlLiteral (pk_name c) @ '', t.'' @ quoteIdent (pk_name c)) pk)
       @ '') FROM '' @ key_sql k @ '' AS t ORDER BY '' @ join_with '', '' (map (\<lambda>c. ''t.'' @ quoteIdent (pk_name c) @ '' DESC'') pk)
       @ '' LIMIT '' @ nat_dec n)) (\<lambda>out. ok (nonEmptyLines out))"

definition keyRecordSQL :: "string \<Rightarrow> pkColumn list \<Rightarrow> bool \<Rightarrow> string" where
  "keyRecordSQL keysJSON pk ordinality = ''jsonb_array_elements('' @ sqlLiteral keysJSON @ ''::jsonb)''
     @ (if ordinality then '' WITH ORDINALITY AS e(k, i)'' else '' AS e(k)'') @ '', LATERAL jsonb_to_record(e.k) AS p(''
     @ join_with '', '' (map (\<lambda>c. quoteIdent (pk_name c) @ '' '' @ pk_typ c) pk) @ '')''"

definition pkMatch :: "pkColumn list \<Rightarrow> string" where
  "pkMatch pk = join_with '' AND '' (map (\<lambda>c. ''t.'' @ quoteIdent (pk_name c) @ '' = p.'' @ quoteIdent (pk_name c)) pk)"

fun mark_present :: "bool list \<Rightarrow> string list \<Rightarrow> (string, bool list) result" where
  "mark_present present [] = Inr present"
| "mark_present present (line # ls) =
     (case atoi line of None \<Rightarrow> Inl line
      | Some i \<Rightarrow> if i < 1 \<or> i > int (length present) then Inl line else mark_present (present[nat (i - 1) := True]) ls)"

definition keysPresent :: "'rt env \<Rightarrow> string \<Rightarrow> source \<Rightarrow> tableKey \<Rightarrow> pkColumn list \<Rightarrow> string list \<Rightarrow> ('rt, bool list) op" where
  "keysPresent E cid src k pk keys =
     seq_ok (psqlOutput E cid src (''SELECT e.i FROM '' @ keyRecordSQL (''['' @ join_with '','' keys @ '']'') pk True
       @ '' WHERE EXISTS (SELECT 1 FROM '' @ key_sql k @ '' AS t WHERE '' @ pkMatch pk @ '')'')) (\<lambda>out.
     case mark_present (replicate (length keys) False) (nonEmptyLines out) of
       Inl line \<Rightarrow> fail_with (Msg (''unexpected key ordinal '' @ quoted line)) | Inr present \<Rightarrow> ok present)"

fun decode_rows :: "'v json \<Rightarrow> string list \<Rightarrow> ('rt, 'v list) op" where
  "decode_rows J [] = ok []"
| "decode_rows J (l # ls) = (case js_row J l of
     Inl e \<Rightarrow> fail_with (Wrap (''decode sample row '' @ quoted (truncate_to l 200)) (Msg e))
   | Inr m \<Rightarrow> seq_ok (decode_rows J ls) (\<lambda>ms. ok (m # ms)))"

definition rowsByKey :: "'rt env \<Rightarrow> 'v json \<Rightarrow> string \<Rightarrow> source \<Rightarrow> tableKey \<Rightarrow> pkColumn list \<Rightarrow> string list \<Rightarrow> ('rt, 'v list) op" where
  "rowsByKey E J cid src k pk keys =
     seq_ok (psqlOutput E cid src (''SELECT to_jsonb(t.*) FROM '' @ keyRecordSQL (''['' @ join_with '','' keys @ '']'') pk False @ '', '' @ key_sql k
       @ '' AS t WHERE '' @ pkMatch pk @ '' ORDER BY '' @ join_with '', '' (map (\<lambda>c. ''t.'' @ quoteIdent (pk_name c)) pk))) (\<lambda>out.
     decode_rows J (nonEmptyLines out))"

text \<open>The keys of one presence check: the first, and more while the list stays within the bound.\<close>

fun more_keys :: "nat \<Rightarrow> string list \<Rightarrow> string list \<times> string list" where
  "more_keys sz [] = ([], [])"
| "more_keys sz (k # ks) = (if sz + length k \<le> keyChunkBytes then (let (c, rest) = more_keys (sz + length k + 1) ks in (k # c, rest)) else ([], k # ks))"

definition key_chunk :: "string list \<Rightarrow> string list \<times> string list" where
  "key_chunk keys = (case keys of [] \<Rightarrow> ([], []) | k # ks \<Rightarrow> (let (c, rest) = more_keys (length k + 1) ks in (k # c, rest)))"

lemma more_keys_append: "more_keys sz ks = (c, rest) \<Longrightarrow> ks = c @ rest"
  by (induction sz ks arbitrary: c rule: more_keys.induct) (auto split: if_splits prod.splits)

lemma key_chunk_shorter: "keys \<noteq> [] \<Longrightarrow> key_chunk keys = (c, rest) \<Longrightarrow> length rest < length keys"
  by (cases keys) (auto simp: key_chunk_def less_Suc_eq_le dest: more_keys_append split: prod.splits)

text \<open>The loop over the chunks; \<open>check\<close> is the presence check on the base.\<close>

definition add_fresh :: "nat \<Rightarrow> string list \<Rightarrow> (string \<times> bool) list \<Rightarrow> string list" where
  "add_fresh capN fresh kps = foldl (\<lambda>fresh (k, p). if \<not> p \<and> length fresh < capN then fresh @ [k] else fresh) fresh kps"

function fresh_loop :: "(string list \<Rightarrow> ('rt, bool list) op) \<Rightarrow> nat \<Rightarrow> string list \<Rightarrow> string list \<Rightarrow> ('rt, string list) op" where
  "fresh_loop check capN keys fresh =
     (if keys = [] \<or> capN \<le> length fresh then ok fresh
      else (let (c, rest) = key_chunk keys
        in seq_ok (check c) (\<lambda>present. fresh_loop check capN rest (add_fresh capN fresh (zip c present)))))"
  by pat_completeness auto
termination
  by (relation "measure (\<lambda>(check, capN, keys, fresh). length keys)") (auto dest: key_chunk_shorter[OF _ sym])

declare fresh_loop.simps [simp del]

definition sampleTable ::
  "'rt env \<Rightarrow> 'v json \<Rightarrow> string \<Rightarrow> string \<Rightarrow> source \<Rightarrow> tableKey \<Rightarrow> bool \<Rightarrow> nat \<Rightarrow> ('rt, 'v list) op" where
  "sampleTable E J branchCID baseCID src k onBase capN =
     seq_ok (primaryKey E J branchCID src k) (\<lambda>pk.
     if pk = [] then ok []
     else seq_ok (highestKeys E branchCID src k pk (sampleScanKeys capN)) (\<lambda>keys.
       seq_ok (if \<not> onBase then ok (take capN keys) else fresh_loop (keysPresent E baseCID src k pk) capN keys []) (\<lambda>fresh.
       if fresh = [] then ok [] else rowsByKey E J branchCID src k pk fresh)))"

fun sampleNewRows ::
  "'rt env \<Rightarrow> 'v json \<Rightarrow> string \<Rightarrow> string \<Rightarrow> source \<Rightarrow> stats \<Rightarrow> nat \<Rightarrow> 'v TableDelta list \<Rightarrow> ('rt, 'v TableDelta list) op" where
  "sampleNewRows E J branchCID baseCID src base capN [] = ok []"
| "sampleNewRows E J branchCID baseCID src base capN (td # tds) =
     (let rest = (\<lambda>td. seq_ok (sampleNewRows E J branchCID baseCID src base capN tds) (\<lambda>tds. ok (td # tds)));
          k = TableKey (td_Schema td) (td_Table td)
      in if \<not> Grew td then rest td
         else attempt (sampleTable E J branchCID baseCID src k (map_of base k \<noteq> None) capN)
           (\<lambda>_. do { cancelled \<leftarrow> ctx_done E; if cancelled then fail_with ctxErr else rest td })
           (\<lambda>rows. rest (td\<lparr>td_SampleRows := rows\<rparr>)))"

section \<open>The diff of a branch\<close>

record diffOptions =
  o_sample :: nat
  o_quiesceParent :: bool

definition defaultSampleRows :: int where "defaultSampleRows = 20"
definition MaxSampleRows :: int where "MaxSampleRows = 500"

definition WithDataSample :: "int \<Rightarrow> diffOptions \<Rightarrow> diffOptions" where
  "WithDataSample n opts = opts\<lparr>o_sample := nat (min (if n \<le> 0 then defaultSampleRows else n) MaxSampleRows)\<rparr>"

definition WithParentQuiesce :: "diffOptions \<Rightarrow> diffOptions" where
  "WithParentQuiesce opts = opts\<lparr>o_quiesceParent := True\<rparr>"

definition apply_options :: "(diffOptions \<Rightarrow> diffOptions) list \<Rightarrow> diffOptions" where
  "apply_options opts = foldl (\<lambda>a f. f a) \<lparr>o_sample = 0, o_quiesceParent = False\<rparr> opts"

record 'v DiffResult =
  dr_SchemaDiff :: string
  dr_Tables :: "'v TableDelta list"

definition hour :: int where "hour = 3600 * 10 ^ 9"

text \<open>The throwaway branch on the target's own base.\<close>

definition throwaway :: "engine \<Rightarrow> branch \<Rightarrow> string \<Rightarrow> string \<Rightarrow> branch" where
  "throwaway G b twName expiresAt =
     (newBranch twName (b_SourceID b) (BranchLayerName (g_planner G) twName) (b_SourceVolume b) expiresAt
        (if csi G then b_ParentBranchName b else []))\<lparr>b_BaseLayerID := b_BaseLayerID b\<rparr>"

definition diff_random :: "'rt env \<Rightarrow> string \<Rightarrow> ('rt, string) op" where
  "diff_random E name = do { t \<leftarrow> tick E;
     case e_rand E t of None \<Rightarrow> fail_with (Wrap (''diff '' @ quoted name) (Msg ''random source failed''))
     | Some buf \<Rightarrow> ok (''diff-'' @ hex_encode (take 3 buf)) }"

definition schema_diff :: "string \<Rightarrow> string \<Rightarrow> ('rt, string) op" where
  "schema_diff baseDump branchDump = (case Unified (stripDumpNoise baseDump) (stripDumpNoise branchDump) of
     Some s \<Rightarrow> ok s | None \<Rightarrow> fail_with (Msg ''panic''))"

definition diffAgainst ::
  "engine \<Rightarrow> 'rt env \<Rightarrow> 'v json \<Rightarrow> diffOptions \<Rightarrow> string \<Rightarrow> branch \<Rightarrow> source \<Rightarrow> branch \<Rightarrow> ('rt, 'v DiffResult) op" where
  "diffAgainst G E J opts name b src tw =
     (let msg = (\<lambda>s. ''diff '' @ quoted name @ '': '' @ s)
      in attempt (provision G E tw src)
           (\<lambda>e. do { _ \<leftarrow> logCompensationErr (reg_transition E (b_ID tw) BranchFailed (err_text (e_regText E) e));
                     fail_with (Wrap (msg ''provision base clone'') e) }) (\<lambda>_.
         seq_ok (reg_branch_by_name E (b_Name tw)) (\<lambda>twRow.
         seq_ok (wrap_err (msg ''dump base schema'') (ExecOutput E (b_ContainerID twRow) (pgDumpSchemaCmd src))) (\<lambda>baseDump.
         seq_ok (wrap_err (msg ''dump branch schema'') (ExecOutput E (b_ContainerID b) (pgDumpSchemaCmd src))) (\<lambda>branchDump.
         seq_ok (wrap_err (msg ''base table stats'') (tableStats E J (b_ContainerID twRow) src)) (\<lambda>baseStats.
         seq_ok (wrap_err (msg ''branch table stats'') (tableStats E J (b_ContainerID b) src)) (\<lambda>branchStats.
         seq_ok (wrap_err (msg ''count rows'') (countUnestimated E J (b_ContainerID twRow) (b_ContainerID b) src baseStats branchStats))
           (\<lambda>(baseStats, branchStats).
         seq_ok (schema_diff baseDump branchDump) (\<lambda>schemaDiff.
         seq_ok (if o_sample opts > 0
                 then wrap_err (msg ''sample rows'') (sampleNewRows E J (b_ContainerID b) (b_ContainerID twRow) src baseStats (o_sample opts)
                        (tableDeltas baseStats branchStats))
                 else ok (tableDeltas baseStats branchStats)) (\<lambda>tables.
         ok \<lparr>dr_SchemaDiff = schemaDiff, dr_Tables = tables\<rparr>))))))))))"

text \<open>The deferred destroy runs on every path.\<close>

definition withThrowaway ::
  "engine \<Rightarrow> 'rt env \<Rightarrow> 'v json \<Rightarrow> diffOptions \<Rightarrow> string \<Rightarrow> branch \<Rightarrow> source \<Rightarrow> branch \<Rightarrow> ('rt, 'v DiffResult) op" where
  "withThrowaway G E J opts name b src tw = do { r \<leftarrow> diffAgainst G E J opts name b src tw;
     _ \<leftarrow> logCompensationErr (DestroyBranch G E (b_Name tw));
     State_Monad.return r }"

definition DiffBranch :: "engine \<Rightarrow> 'rt env \<Rightarrow> 'v json \<Rightarrow> string \<Rightarrow> (diffOptions \<Rightarrow> diffOptions) list \<Rightarrow> ('rt, 'v DiffResult) op" where
  "DiffBranch G E J name opts =
     (let o' = apply_options opts
      in seq_ok (reg_branch_by_name E name) (\<lambda>b.
         if b_State b \<noteq> BranchReady
         then fail_with (Msg (''branch '' @ quoted name @ '' is '' @ branch_state_str (b_State b) @ '', not ready''))
         else seq_ok (wrap_err (''diff '' @ quoted name) (checkCSIChildBase G E b)) (\<lambda>_.
         if csi G \<and> b_ParentBranchName b \<noteq> [] \<and> \<not> o_quiesceParent o'
         then fail_with (Marked ErrParentQuiesce (Msg (''diff '' @ quoted name @ '': its base is the live volume of parent branch ''
                @ quoted (b_ParentBranchName b) @ '', which is stopped briefly around the clone (as for a reset of '' @ quoted name @ ''): ''
                @ sentinel_text ErrParentQuiesce)))
         else seq_ok (wrap_err (''diff '' @ quoted name @ '' needs a temporary branch'') (checkQuota G E)) (\<lambda>_.
         seq_ok (reg_read E (GetSourceByID (b_SourceID b))) (\<lambda>src.
         seq_ok (diff_random E name) (\<lambda>twName. do { t \<leftarrow> tick E;
         seq_ok (wrap_err (''diff '' @ quoted name) (reg_create_branch E (throwaway G b twName (rfc3339 (time_add (e_now E t) hour)))))
           (withThrowaway G E J o' name b src) }))))))"

end
