(* ===== verification/DiffSaga.thy ===== *)
theory DiffSaga
  imports SagaSafety BranchDiff
begin

text \<open>
  The diff of a branch as a saga: it moves the registry by legal steps as long as no other process removes the layer its throwaway branch is about
  to stand on, and when its cleanup reports no failure the throwaway is destroyed. The registry does not check a branch's base layer, and the last
  section shows what the race with a destroy of the target leaves behind.
\<close>

section \<open>The calls of a diff\<close>

context probe_relation
begin

lemma keeps_psql [saga_rules]: "keeps R (psqlOutput E cid src sql)" "keeps R (ctx_done E)" "keeps R (decode_or_empty what dec out)"
  unfolding psqlOutput_def ctx_done_def decode_or_empty_def by (intro saga_rules)+

lemma keeps_tableStats [saga_rules]: "keeps R (tableStats E J cid src)" "keeps R (count_chunk E J cid src chunk)"
  unfolding tableStats_def count_chunk_def by (intro saga_rules)+

lemma keeps_count_loop [saga_rules]: "keeps R (count_loop E J cid src m todo)"
proof (induction "length todo" arbitrary: m todo rule: less_induct)
  case less
  have IH: "keeps R (count_loop E J cid src m' (drop countChunk todo))" if "todo \<noteq> []" for m'
    using that by (intro less) (simp add: countChunk_def)
  show ?case by (subst count_loop.simps, unfold Let_def, intro saga_rules IH)
qed

lemma keeps_countUnestimated [saga_rules]: "keeps R (countUnestimated E J baseCID branchCID src base branch)"
  unfolding countUnestimated_def countExact_def by (intro saga_rules)

lemma keeps_sample_calls [saga_rules]:
  "keeps R (primaryKey E J cid src k)" "keeps R (highestKeys E cid src k pk n)" "keeps R (keysPresent E cid src k pk keys)"
  unfolding primaryKey_def highestKeys_def keysPresent_def by (intro saga_rules)+

lemma keeps_decode_rows [saga_rules]: "keeps R (decode_rows J ls)"
  by (induction ls) (auto intro!: saga_rules)

lemma keeps_fresh_loop [saga_rules]: "(\<And>c. keeps R (check c)) \<Longrightarrow> keeps R (fresh_loop check capN keys fresh)"
proof (induction "length keys" arbitrary: keys fresh rule: less_induct)
  case less
  obtain c rest where c: "key_chunk keys = (c, rest)" by fastforce
  have "keeps R (fresh_loop check capN rest fresh')" if "keys \<noteq> []" for fresh'
    using key_chunk_shorter[OF that c] by (intro less) simp_all
  then show ?case using c less.prems by (subst fresh_loop.simps) (auto intro!: saga_rules)
qed

lemma keeps_sampleTable [saga_rules]: "keeps R (sampleTable E J branchCID baseCID src k onBase capN)"
  unfolding sampleTable_def rowsByKey_def by (intro saga_rules)

lemma keeps_sampleNewRows [saga_rules]: "keeps R (sampleNewRows E J branchCID baseCID src base capN tds)"
proof (induction tds)
  case (Cons td tds)
  show ?case unfolding sampleNewRows.simps Let_def by (intro saga_rules Cons)
qed (simp add: saga_rules)

lemma keeps_schema_diff [saga_rules]: "keeps R (schema_diff a b)" "keeps R (diff_random E name)"
  unfolding schema_diff_def diff_random_def by (intro saga_rules)+

end

context engine_relation
begin

lemma keeps_diffAgainst [saga_rules]: "keeps R (diffAgainst G E J opts name b src tw)"
  unfolding diffAgainst_def Let_def by (intro saga_rules)

end

lemma saga_withThrowaway [saga_rules]: "saga E P (withThrowaway G E J opts name b src tw)"
  unfolding withThrowaway_def by (intro saga_rules)

section \<open>The throwaway's base\<close>

definition layers_stay :: "'rt env \<Rightarrow> bool" where
  "layers_stay E \<longleftrightarrow> (\<forall>n d. set (layers d) \<subseteq> set (layers (e_interfere E n d)))"

definition layers_kept :: "'rt env \<Rightarrow> 'rt world \<Rightarrow> 'rt world \<Rightarrow> bool" where
  "layers_kept E w w' \<longleftrightarrow> (layers_stay E \<longrightarrow> set (layers (w_db w)) \<subseteq> set (layers (w_db w')))"

lemma layers_kept_tick: "keeps (layers_kept E) (tick E)"
  by (simp add: keeps_def layers_kept_def tick_def layers_stay_def)

lemma layers_kept_trans: "layers_kept E w w1 \<Longrightarrow> layers_kept E w1 w2 \<Longrightarrow> layers_kept E w w2"
  by (auto simp: layers_kept_def)

lemma layers_kept_call: "keeps (layers_kept E) (drv_call E ev f)"
  by (rule keeps_drv_call[OF layers_kept_tick layers_kept_trans]) (auto simp: layers_kept_def)

interpretation lk: read_relation "layers_kept E" E for E
  by unfold_locales (auto intro: layers_kept_trans layers_kept_tick layers_kept_call simp: driver_defs layers_kept_call, simp_all add: layers_kept_def)

lemma create_on_base:
  assumes "env_ok E" "layers_stay E" "base_ok (layers (w_db w)) (insert_branch b [])"
  shows "reg_step\<^sup>*\<^sup>* (w_db w) (w_db (snd (run_state (reg_create_branch E b) w)))"
proof -
  let ?d = "e_interfere E (w_tick w) (w_db w)"
  have 1: "reg_step\<^sup>*\<^sup>* (w_db w) ?d" using assms(1) by (simp add: interfere_steps)
  have base: "base_ok (layers ?d) (insert_branch b now)" for now
    using base_ok_mono[OF assms(3)] assms(2) base_ok_cong[of "insert_branch b []" "insert_branch b now"]
    by (auto simp: layers_stay_def insert_branch_def)
  have "reg_step ?d d'" if "CreateBranchCtx (e_actor E) (stamp E (w_tick w)) (e_newID E (w_tick w) ?d) b ?d = Inr (x, d')" for x d'
    by (rule create_branch[OF that]) (use assms(1) base in \<open>simp_all add: env_ok_def\<close>)
  with 1 show ?thesis
    by (auto simp: reg_create_branch_def run_reg_write Let_def split: sum.splits option.splits intro: rtranclp.rtrancl_into_rtrancl)
qed

lemma read_base:
  assumes "db_ok (w_db w')" "run_state (reg_branch_by_name E name) w = (Inr b, w')"
  shows "base_ok (layers (w_db w')) (insert_branch (throwaway G b twName e) now)"
proof -
  from assms(2) obtain r where r: "r \<in> set (branches (w_db w'))" "live_branch r" "b_SourceID b = br_source_id r" "b_BaseLayerID b = null_string (br_base_layer_id r)"
    by (auto simp: reg_branch_by_name_def run_reg_read Let_def GetBranchByName_def getBranch_def scanBranch_def
        split: sum.splits option.splits dest!: find_SomeD)
  have "base_ok (layers (w_db w')) r" using struct_okD(8)[OF db_ok_parts(1)[OF assms(1)]] r by blast
  then show ?thesis using r
    by (auto simp: base_ok_def insert_branch_def throwaway_def newBranch_def nullable_str_def null_string_def split: option.splits if_splits)
qed

text \<open>The part of the saga between the first read and the insert only reads.\<close>

definition diff_checks :: "engine \<Rightarrow> 'rt env \<Rightarrow> string \<Rightarrow> diffOptions \<Rightarrow> branch \<Rightarrow> ('rt, source \<times> branch) op" where
  "diff_checks G E name opts b =
     (if b_State b \<noteq> BranchReady
      then fail_with (Msg (''branch '' @ quoted name @ '' is '' @ branch_state_str (b_State b) @ '', not ready''))
      else seq_ok (wrap_err (''diff '' @ quoted name) (checkCSIChildBase G E b)) (\<lambda>_.
      if csi G \<and> b_ParentBranchName b \<noteq> [] \<and> \<not> o_quiesceParent opts
      then fail_with (Marked ErrParentQuiesce (Msg (''diff '' @ quoted name @ '': its base is the live volume of parent branch ''
                @ quoted (b_ParentBranchName b) @ '', which is stopped briefly around the clone (as for a reset of '' @ quoted name @ ''): ''
                @ sentinel_text ErrParentQuiesce)))
      else seq_ok (wrap_err (''diff '' @ quoted name @ '' needs a temporary branch'') (checkQuota G E)) (\<lambda>_.
      seq_ok (reg_read E (GetSourceByID (b_SourceID b))) (\<lambda>src.
      seq_ok (diff_random E name) (\<lambda>twName. do { t \<leftarrow> tick E;
        ok (src, throwaway G b twName (rfc3339 (time_add (e_now E t) hour))) })))))"

lemma seq_ok_if: "seq_ok (if c then m else m') k = (if c then seq_ok m k else seq_ok m' k)" "seq_ok (fail_with e) k = fail_with e"
  by (auto simp: seq_ok_def attempt_def fail_with_def)

lemma DiffBranch_stages:
  "DiffBranch G E J name opts = seq_ok (reg_branch_by_name E name) (\<lambda>b.
     seq_ok (diff_checks G E name (apply_options opts) b) (\<lambda>(src, tw0).
     seq_ok (wrap_err (''diff '' @ quoted name) (reg_create_branch E tw0)) (withThrowaway G E J (apply_options opts) name b src)))"
  unfolding DiffBranch_def diff_checks_def Let_def by (simp add: seq_ok_if seq_ok_assoc cong: if_cong)

lemma diff_checks_throwaway:
  assumes "run_state (diff_checks G E name opts b) w = (Inr (src, tw0), w')"
  shows "\<exists>twName e. tw0 = throwaway G b twName e"
  using assms unfolding diff_checks_def
  by (auto elim!: run_seq_ok_InrE run_bindE split: if_splits; blast)

lemma diff_checks_keeps: "keeps (layers_kept E) (diff_checks G E name opts b)" "saga E P (diff_checks G E name opts b)"
proof -
  have "keeps (layers_kept E) (diff_random E name)" unfolding diff_random_def by (intro saga_rules)
  then show "keeps (layers_kept E) (diff_checks G E name opts b)" unfolding diff_checks_def by (intro saga_rules)
  show "saga E P (diff_checks G E name opts b)" unfolding diff_checks_def by (intro saga_rules)
qed

lemma run_wrap_err: "snd (run_state (wrap_err s m) w) = snd (run_state m w)"
  by (simp add: wrap_err_def run_attempt split: prod.splits sum.splits)

lemma seq_steps:
  assumes "reg_step\<^sup>*\<^sup>* d (w_db (snd (run_state m w)))"
    and "\<And>x w1. run_state m w = (Inr x, w1) \<Longrightarrow> reg_step\<^sup>*\<^sup>* (w_db w1) (w_db (snd (run_state (k x) w1)))"
  shows "reg_step\<^sup>*\<^sup>* d (w_db (snd (run_state (seq_ok m k) w)))"
proof (cases "run_state m w")
  case (Pair r w1)
  with assms rtranclp_trans show ?thesis by (cases r) (fastforce simp: run_seq_ok)+
qed

text \<open>
  Diffing a branch is an operation like the others: whatever the runtime answers, it moves a well-formed database by legal registry steps only,
  the insert of its throwaway branch included, provided other processes delete no frozen layer while it runs.
\<close>

theorem diff_refines_registry:
  assumes E: "env_ok E" and stay: "layers_stay E" and ok: "db_ok (w_db w)"
  shows "reg_step\<^sup>*\<^sup>* (w_db w) (db_after (DiffBranch G E J name opts) w)"
  unfolding db_after_def DiffBranch_stages
proof (rule seq_steps)
  show "reg_step\<^sup>*\<^sup>* (w_db w) (w_db (snd (run_state (reg_branch_by_name E name) w)))" by (rule sagaD[OF sg.keeps_reads(1) E stable_True]) simp
next
  fix b w1 assume b: "run_state (reg_branch_by_name E name) w = (Inr b, w1)"
  have ok1: "db_ok (w_db w1)" by (rule saga_db_ok[OF sg.keeps_reads(1) E ok b])
  show "reg_step\<^sup>*\<^sup>* (w_db w1) (w_db (snd (run_state (seq_ok (diff_checks G E name (apply_options opts) b) (\<lambda>(src, tw0).
     seq_ok (wrap_err (''diff '' @ quoted name) (reg_create_branch E tw0)) (withThrowaway G E J (apply_options opts) name b src))) w1)))"
  proof (rule seq_steps)
    show "reg_step\<^sup>*\<^sup>* (w_db w1) (w_db (snd (run_state (diff_checks G E name (apply_options opts) b) w1)))"
      by (rule sagaD[OF diff_checks_keeps(2) E stable_True]) simp
  next
    fix p w2 assume p: "run_state (diff_checks G E name (apply_options opts) b) w1 = (Inr p, w2)"
    obtain src tw0 where p': "p = (src, tw0)" by (cases p)
    obtain twName e where tw: "tw0 = throwaway G b twName e" using diff_checks_throwaway p p' by blast
    have "set (layers (w_db w1)) \<subseteq> set (layers (w_db w2))" using keepsD[OF diff_checks_keeps(1) p] stay by (simp add: layers_kept_def)
    then have "base_ok (layers (w_db w2)) (insert_branch tw0 [])" using base_ok_mono[OF read_base[OF ok1 b]] tw by blast
    then have c: "reg_step\<^sup>*\<^sup>* (w_db w2) (w_db (snd (run_state (wrap_err (''diff '' @ quoted name) (reg_create_branch E tw0)) w2)))"
      unfolding run_wrap_err by (rule create_on_base[OF E stay])
    show "reg_step\<^sup>*\<^sup>* (w_db w2) (w_db (snd (run_state (case p of (src, tw0) \<Rightarrow>
       seq_ok (wrap_err (''diff '' @ quoted name) (reg_create_branch E tw0)) (withThrowaway G E J (apply_options opts) name b src)) w2)))"
      unfolding p' prod.case by (rule seq_steps[OF c]) (rule sagaD[OF saga_withThrowaway E stable_True], simp)
  qed
qed

text \<open>Decoders for the witnesses: every list is empty.\<close>

definition sim_json :: "unit json" where
  "sim_json = \<lparr>js_stats = (\<lambda>s. Inr []), js_counts = (\<lambda>s. Inr []), js_pairs = (\<lambda>s. Inr []), js_row = (\<lambda>s. Inr ())\<rparr>"

theorem diff_refines_registry_witness:
  "reg_step\<^sup>*\<^sup>* demo_db3 (db_after (DiffBranch sim_engine sim_env sim_json ''pr-1'' [WithDataSample 5]) (sim_world demo_db3))"
  using diff_refines_registry[OF sim_env_ok, of "sim_world demo_db3" sim_engine sim_json "''pr-1''" "[WithDataSample 5]"]
    reachable_db_ok[OF demo_reachable(2)] by (simp add: sim_world_def layers_stay_def sim_env_def)

section \<open>The throwaway is destroyed\<close>

lemma live_name_unique:
  assumes "db_ok d" "r \<in> set (branches d)" "q \<in> set (branches d)" "live_branch r" "live_branch q" "br_name r = br_name q"
  shows "r = q"
proof (rule distinct_map_unique[OF struct_okD(5)[OF db_ok_parts(1)[OF assms(1)]]])
qed (use assms in simp_all)

lemma destroy_named:
  assumes E: "env_ok E" and ok: "db_ok (w_db w)" and named: "branch_named x name (w_db w)" and r: "run_state (DestroyBranch G E name) w = (Inr u, w')"
  shows "gone x (w_db w')"
proof -
  obtain k where k: "DestroyBranch G E name = seq_ok (reg_branch_by_name E name) k" "\<And>b P. saga E P (k b)"
      "\<And>b. yields (\<lambda>w. db_ok (w_db w)) (k b) (\<lambda>w. gone (b_ID b) (w_db w))" by (rule destroy_parts[OF E, of G name]) (rule that)
  obtain b w1 where b: "run_state (reg_branch_by_name E name) w = (Inr b, w1)" "run_state (k b) w1 = (Inr u, w')"
    using r unfolding k(1) by (rule run_seq_ok_InrE)
  have ok1: "db_ok (w_db w1)" by (rule saga_db_ok[OF sg.keeps_reads(1) E ok b(1)])
  have named1: "branch_named x name (w_db w1)"
    using stableD[OF stable_branch_named sagaD[OF sg.keeps_reads(1) E stable_True] named, of name] b(1) by simp
  obtain q where q: "q \<in> set (branches (w_db w1))" "br_name q = name" "live_branch q" "br_id q = b_ID b"
    using b(1) by (auto simp: reg_branch_by_name_def run_reg_read Let_def GetBranchByName_def getBranch_def scanBranch_def
        split: sum.splits option.splits dest!: find_SomeD)
  show ?thesis
  proof (cases "b_ID b = x")
    case True
    then show ?thesis using yieldsD[OF k(3) _ b(2)] ok1 by blast
  next
    case False
    have "br_state y = BranchDestroyed" if y: "y \<in> set (branches (w_db w1))" "br_id y = x" for y
    proof (rule ccontr)
      assume "br_state y \<noteq> BranchDestroyed"
      then have "live_branch y" by (simp add: live_branch_def)
      then have "y = q" using live_name_unique[OF ok1 y(1) q(1)] q named1 y \<open>live_branch y\<close> by (auto simp: branch_named_def)
      then show False using q y False by simp
    qed
    then have "gone x (w_db w1)" using ok1 named1 by (auto simp: gone_def branch_named_def)
    then show ?thesis using stableD[OF stable_gone sagaD[OF k(2) E stable_gone]] b(2) by (metis snd_conv)
  qed
qed

text \<open>The counter of failed compensations only grows.\<close>

definition counts_up :: "'rt world \<Rightarrow> 'rt world \<Rightarrow> bool" where
  "counts_up w w' \<longleftrightarrow> w_compensationFailures w \<le> w_compensationFailures w'"

lemma counts_up_write: "keeps counts_up (reg_write E f)"
  by (auto simp: keeps_def counts_up_def reg_write_def tick_def split: sum.splits option.splits)

lemma counts_up_tick: "keeps counts_up (tick E)"
  by (simp add: keeps_def counts_up_def tick_def)

lemma counts_up_call: "keeps counts_up (drv_call E ev f)"
  by (rule keeps_drv_call[OF counts_up_tick]) (auto simp: counts_up_def)

lemma counts_up_diagnose: "keeps counts_up (DiagnoseContainer E cid)"
  by (rule keeps_diagnose) (simp_all add: counts_up_def)

interpretation cu: engine_relation counts_up E for E
  by unfold_locales (auto intro: counts_up_tick counts_up_diagnose simp: counts_up_write counts_up_call driver_defs reg_call_defs, auto simp: counts_up_def)

lemma counts_up_gc [saga_rules]: "keeps counts_up (gcLayers G E chain)"
proof (induction G E chain rule: gcLayers.induct)
  case (2 G E l chain)
  have "keeps counts_up (reg_delete_layer E x)" for x unfolding reg_delete_layer_def by (rule counts_up_write)
  then have "keeps counts_up (gcLayer G E l)" unfolding gcLayer_def by (intro saga_rules)
  then show ?case unfolding gcLayers.simps by (intro saga_rules 2)
qed (simp add: saga_rules)

lemma counts_up_destroy [saga_rules]: "keeps counts_up (DestroyBranch G E name)"
  unfolding DestroyBranch_def Let_def by (intro saga_rules)

lemma log_uncounted:
  assumes "run_state (logCompensationErr m) w = (x, w')" "w_compensationFailures w' = w_compensationFailures w" "keeps counts_up m"
  shows "\<exists>y. run_state m w = (Inr y, w')"
  using assms(1,2) keepsD[OF assms(3)]
  by (cases "run_state m w") (fastforce simp: logCompensationErr_def counts_up_def split: sum.splits)

lemma create_branch_named:
  assumes "run_state (reg_create_branch E b0) w = (Inr b, w')"
  shows "branch_named (b_ID b) (b_Name b) (w_db w')"
proof -
  obtain d nid d' t where c: "CreateBranchCtx (e_actor E) t nid b0 d = Inr (b, d')" "w_db w' = d'"
    using assms by (auto simp: reg_create_branch_def run_reg_write Let_def split: sum.splits option.splits)
  show ?thesis using CreateBranchCtx_InrD[OF c(1)]
    by (auto simp: c(2) branch_named_def fresh_journal_id_def insert_branch_def)
qed

text \<open>
  (C18) The throwaway of a diff does not survive it. Once its row is created, and whatever happens after that, on success and on every error, when no
  cleanup step was counted as failed the throwaway is in the final state \<open>destroyed\<close> after the diff returned and stays there.
\<close>

theorem diff_throwaway_gone:
  assumes "env_ok E" "db_ok (w_db w)" "run_state (reg_create_branch E tw0) w0 = (Inr tw, w)"
    and "run_state (withThrowaway G E J opts name b src tw) w = (r, w')" "w_compensationFailures w' = w_compensationFailures w"
    and "reg_step\<^sup>*\<^sup>* (w_db w') d'" "x \<in> set (branches d')" "br_id x = b_ID tw"
  shows "br_state x = BranchDestroyed"
proof -
  obtain r1 w1 where r1: "run_state (diffAgainst G E J opts name b src tw) w = (r1, w1)" by (cases "run_state (diffAgainst G E J opts name b src tw) w")
  obtain y where y: "run_state (logCompensationErr (DestroyBranch G E (b_Name tw))) w1 = (y, w')"
    using assms(4) r1 by (auto simp: withThrowaway_def split: prod.splits)
  have le: "w_compensationFailures w \<le> w_compensationFailures w1" "w_compensationFailures w1 \<le> w_compensationFailures w'"
    using keepsD[OF cu.keeps_diffAgainst r1] keepsD[OF cu.keeps_log[OF counts_up_destroy] y] by (simp_all add: counts_up_def)
  then obtain u where u: "run_state (DestroyBranch G E (b_Name tw)) w1 = (Inr u, w')"
    using log_uncounted[OF y _ counts_up_destroy] assms(5) by auto
  have ok1: "db_ok (w_db w1)" by (rule saga_db_ok[OF sg.keeps_diffAgainst assms(1,2) r1])
  have "branch_named (b_ID tw) (b_Name tw) (w_db w1)"
    using stableD[OF stable_branch_named sagaD[OF sg.keeps_diffAgainst assms(1) stable_True] create_branch_named[OF assms(3)]] r1 by (metis snd_conv)
  from destroy_named[OF assms(1) ok1 this u] have "gone (b_ID tw) (w_db w')" .
  then have "gone (b_ID tw) d'" using stableD[OF stable_gone assms(6)] by blast
  then show ?thesis using assms(7,8) by (simp add: gone_def)
qed

text \<open>A run for the witness: the throwaway's volume name is taken, so its provisioning fails.\<close>

definition demo_throwaway :: branch where
  "demo_throwaway = throwaway sim_engine (demo_branch\<lparr>b_ID := ''b1''\<rparr>) ''diff-0'' []"

definition busy_world :: "db \<Rightarrow> sim world" where
  "busy_world d = (sim_world d)\<lparr>w_rt := \<lparr>sim_vols = [b_RWVolume demo_throwaway], sim_conts = []\<rparr>\<rparr>"

definition id9 :: string where "id9 = sim_newID 0 demo_db3"

lemma id9: "id9 \<noteq> ''b1''" "id9 \<noteq> []"
  by (simp_all add: id9_def sim_newID_def demo_eval)

lemma sim_newID_tick: "sim_newID n d = sim_newID 0 d"
  by (simp add: sim_newID_def)

lemma throwaway_facts:
  "\<exists>d1 d2 d3 d4. CreateBranchCtx no_actor now id9 demo_throwaway demo_db3 = Inr (demo_throwaway\<lparr>b_ID := id9\<rparr>, d1) \<and> LayerChain id9 d1 = Inr []
    \<and> TransitionBranchCtx no_actor now id9 BranchFailed reason d1 = Inr d2
    \<and> (\<forall>dec. \<exists>b. GetBranchByName dec ''diff-0'' d2 = Inr b \<and> b_ID b = id9 \<and> b_Name b = ''diff-0'' \<and> b_State b = BranchFailed \<and> b_ContainerID b = [] \<and> b_SourceVolume b = ''v1'' \<and> b_SourceID b = ''s1'')
    \<and> LayerChain id9 d2 = Inr [] \<and> TransitionBranchCtx no_actor now id9 BranchDestroying reason' d2 = Inr d3
    \<and> TransitionBranchCtx no_actor now id9 BranchDestroyed [] d3 = Inr d4 \<and> (\<exists>s. GetSourceByID ''s1'' d4 = Inr s \<and> src_Volume s = ''v1'')"
  using id9
  by (simp add: demo_throwaway_def throwaway_def newBranch_def demo_eval live_branch_def LayerChain_def getBranch_def scanBranch_def GetBranchByName_def null_string_def
    GetSourceByID_def scanSource_def)

lemma throwaway_run:
  "\<exists>tw w r w'. run_state (reg_create_branch sim_env demo_throwaway) (busy_world demo_db3) = (Inr tw, w)
    \<and> run_state (withThrowaway sim_engine sim_env J opts ''pr-1'' b src tw) w = (r, w') \<and> w_compensationFailures w' = w_compensationFailures w"
proof -
  let ?t = "TimeString (noon 0 0)"
  have st: "stamp sim_env t = ?t" for t by (simp add: stamp_def sim_env_def)
  let ?e = "Wrap ''create rw volume'' (DrvErr ''volume already exists'')"
  obtain d1 d2 d3 d4 s where d: "CreateBranchCtx no_actor ?t id9 demo_throwaway demo_db3 = Inr (demo_throwaway\<lparr>b_ID := id9\<rparr>, d1)" "LayerChain id9 d1 = Inr []"
      "TransitionBranchCtx no_actor ?t id9 BranchFailed (err_text (e_regText sim_env) ?e) d1 = Inr d2"
      "\<forall>dec. \<exists>b. GetBranchByName dec ''diff-0'' d2 = Inr b \<and> b_ID b = id9 \<and> b_Name b = ''diff-0'' \<and> b_State b = BranchFailed \<and> b_ContainerID b = [] \<and> b_SourceVolume b = ''v1'' \<and> b_SourceID b = ''s1''"
      "LayerChain id9 d2 = Inr []" "TransitionBranchCtx no_actor ?t id9 BranchDestroying ''destroy requested'' d2 = Inr d3"
      "TransitionBranchCtx no_actor ?t id9 BranchDestroyed [] d3 = Inr d4" "GetSourceByID ''s1'' d4 = Inr s" "src_Volume s = ''v1''"
    using throwaway_facts[of ?t "err_text (e_regText sim_env) ?e" "''destroy requested''"] by - (elim exE conjE, rule that)
  obtain b2 where b2: "GetBranchByName (read_password demo_crypto None) ''diff-0'' d2 = Inr b2" "b_ID b2 = id9" "b_Name b2 = ''diff-0''" "b_State b2 = BranchFailed"
    "b_ContainerID b2 = []" "b_SourceVolume b2 = ''v1''" "b_SourceID b2 = ''s1''" using d(4) by blast
  have n: "b_Name demo_throwaway = ''diff-0''" by (simp add: demo_throwaway_def throwaway_def newBranch_def)
  let ?tw = "demo_throwaway\<lparr>b_ID := id9\<rparr>" and ?w = "busy_world d1\<lparr>w_tick := Suc 0\<rparr>"
  have create: "run_state (reg_create_branch sim_env demo_throwaway) (busy_world demo_db3) = (Inr ?tw, ?w)"
    by (simp add: reg_create_branch_def sim_run busy_world_def sim_world_def id9_def[symmetric] d(1) st)
  obtain w1 where w1: "run_state (provision sim_engine sim_env ?tw src) ?w = (Inl ?e, w1)" "w_db w1 = d1" "w_compensationFailures w1 = 0"
    by (simp add: provision_def provisionOverlay_def run_seq_ok run_attempt sim_run d(2) PlanBranch_def Let_def unwind_def busy_world_def sim_world_def)
  have "\<exists>r w2. run_state (diffAgainst sim_engine sim_env J opts ''pr-1'' b src ?tw) ?w = (r, w2) \<and> w_db w2 = d2 \<and> w_compensationFailures w2 = 0"
    unfolding diffAgainst_def Let_def run_attempt w1(1) prod.case sum.case
    by (simp add: logCompensationErr_def reg_transition_def sim_run w1(2,3) d(3)[simplified] no_result_def st)
  then obtain r w2 where w2: "run_state (diffAgainst sim_engine sim_env J opts ''pr-1'' b src ?tw) ?w = (r, w2)" "w_db w2 = d2" "w_compensationFailures w2 = 0" by blast
  have "\<exists>w3. run_state (DestroyBranch sim_engine sim_env ''diff-0'') w2 = (Inr (), w3) \<and> w_compensationFailures w3 = 0"
    by (simp add: DestroyBranch_def run_seq_ok run_attempt sim_run reg_branch_by_name_def w2(2,3) b2 d(5-9) enterDestroying_def
      reg_transition_def no_result_def teardownBranch_def wrap_err_def removeBranchLayer_def Let_def st cowModes_forget_def gcSourceVolume_def)
  then obtain w3 where w3: "run_state (DestroyBranch sim_engine sim_env ''diff-0'') w2 = (Inr (), w3)" "w_compensationFailures w3 = 0" by blast
  have "run_state (withThrowaway sim_engine sim_env J opts ''pr-1'' b src ?tw) ?w = (r, w3)"
    by (simp add: withThrowaway_def w2(1) logCompensationErr_def n w3(1))
  then show ?thesis using create w3(2) by (fastforce simp: busy_world_def sim_world_def)
qed

theorem diff_throwaway_gone_witness:
  "\<exists>tw w r w'. run_state (reg_create_branch sim_env demo_throwaway) (busy_world demo_db3) = (Inr tw, w)
    \<and> run_state (withThrowaway sim_engine sim_env sim_json (apply_options []) ''pr-1'' demo_branch demo_source tw) w = (r, w')
    \<and> (\<forall>x \<in> set (branches (w_db w')). br_id x = b_ID tw \<longrightarrow> br_state x = BranchDestroyed)"
proof -
  obtain tw w r w' where r: "run_state (reg_create_branch sim_env demo_throwaway) (busy_world demo_db3) = (Inr tw, w)"
      "run_state (withThrowaway sim_engine sim_env sim_json (apply_options []) ''pr-1'' demo_branch demo_source tw) w = (r, w')" "w_compensationFailures w' = w_compensationFailures w"
    using throwaway_run by blast
  have "db_ok (w_db (busy_world demo_db3))" using reachable_db_ok[OF demo_reachable(2)] by (simp add: busy_world_def sim_world_def)
  moreover have "b_BaseLayerID demo_throwaway = []" by (simp add: demo_throwaway_def throwaway_def demo_branch_def)
  ultimately have "db_ok (w_db w)" using saga_db_ok[OF saga_create_branch sim_env_ok _ r(1)] by blast
  from diff_throwaway_gone[OF sim_env_ok this r rtranclp.rtrancl_refl] r show ?thesis by blast
qed

section \<open>The race with a destroy of the target\<close>

text \<open>An environment in which nothing else runs and the database does not fail.\<close>

definition undisturbed :: "'rt env \<Rightarrow> bool" where
  "undisturbed E \<longleftrightarrow> (\<forall>n d. e_interfere E n d = d) \<and> (\<forall>n. e_regFault E n = None)"

lemma undisturbed_read:
  "undisturbed E \<Longrightarrow> run_state (reg_read E f) w = (case f (w_db w) of Inl e \<Rightarrow> Inl (RegErr e) | Inr x \<Rightarrow> Inr x, w\<lparr>w_tick := w_tick w + 1\<rparr>)"
  by (simp add: run_reg_read undisturbed_def Let_def)

lemma missing_base:
  assumes "find (\<lambda>x. br_id x = i) (branches d) = Some r" "br_base_layer_id r = Some l" "l \<noteq> []" "l \<notin> l_id ` set (layers d)"
  shows "\<exists>e. LayerChain i d = Inl e"
proof -
  have "find (\<lambda>x. l_id x = l) (layers d) = None" using assms(4) by (auto simp: find_None_iff)
  then show ?thesis using assms
    by (auto simp: LayerChain_def getBranch_def scanBranch_def null_string_def GetLayer_def split: option.splits)
qed

lemma destroy_without_base:
  assumes E: "undisturbed E" and b: "GetBranchByName (read_password (e_crypto E) (e_box E)) name (w_db w) = Inr b"
    and chain: "LayerChain (b_ID b) (w_db w) = Inl e"
  shows "\<exists>e' w'. run_state (DestroyBranch G E name) w = (Inl e', w') \<and> w_db w' = w_db w"
  by (cases "zfs G"; cases "CountLiveBranchesByVolume (b_RWVolume b) (w_db w) = 0")
    (simp_all add: DestroyBranch_def run_seq_ok undisturbed_read[OF E] reg_branch_by_name_def b chain)

lemma find_append_new: "find P (xs @ [x]) = (case find P xs of None \<Rightarrow> if P x then Some x else None | Some y \<Rightarrow> Some y)"
  by (induction xs) auto

text \<open>
  The race of a diff with a destroy of its target: the registry does not check the base layer of a new branch, so when the target was destroyed after the
  diff read it, and its base layer collected, the throwaway is still inserted; then no destroy can remove it. Every attempt, undisturbed by
  anything else, fails before its first transition and leaves the throwaway live in an unchanged database.
\<close>

theorem diff_race_strands_throwaway:
  assumes "b_BaseLayerID b \<notin> insert [] (l_id ` set (layers d))" "CreateBranchCtx a now nid (throwaway G b twName expiry) d = Inr (tw, d')"
    and "undisturbed E" "w_db w = d'"
  shows "\<exists>e w'. run_state (DestroyBranch G E twName) w = (Inl e, w') \<and> w_db w' = d'
    \<and> (\<exists>r \<in> set (branches d'). br_id r = b_ID tw \<and> br_name r = twName \<and> live_branch r)"
proof -
  let ?row = "insert_branch (throwaway G b twName expiry\<lparr>b_ID := nid, b_State := BranchCreating\<rparr>) now"
  have row: "br_id ?row = nid" "br_name ?row = twName" "live_branch ?row" "br_base_layer_id ?row = Some (b_BaseLayerID b)"
    using assms(1) by (simp_all add: insert_branch_def throwaway_def newBranch_def nullable_str_def live_branch_def)
  have d': "branches d' = branches d @ [?row]" "layers d' = layers d" "b_ID tw = nid"
    and new: "find (\<lambda>x. br_name x = twName \<and> live_branch x) (branches d) = None" "find (\<lambda>x. br_id x = nid) (branches d) = None"
    using assms(2) by (auto simp: CreateBranchCtx_def Let_def journalTx_def throwaway_def newBranch_def find_None_iff split: if_splits option.splits)
  have "GetBranchByName (read_password (e_crypto E) (e_box E)) twName (w_db w) = Inr (scanBranch (read_password (e_crypto E) (e_box E)) ?row)"
    using row new(1) assms(4) d'(1) by (simp add: GetBranchByName_def getBranch_def find_append_new)
  moreover have "\<exists>e. LayerChain nid d' = Inl e"
    by (rule missing_base[of _ _ ?row]) (use row new(2) d' assms(1) in \<open>auto simp: find_append_new\<close>)
  ultimately show ?thesis
    using destroy_without_base[OF assms(3), of twName w _ _ G] assms(4) row d' by (fastforce simp: scanBranch_def)
qed

text \<open>A target alone on its layer, and the database after its destroy has collected the layer.\<close>

definition solo_db :: db where
  "solo_db = demo_db3\<lparr>branches := [fork_row ''b1'' ''pr-1'' ''rw3''],
     layers := [\<lparr>l_id = ''l2'', l_source_id = ''s1'', l_volume = ''rw2'', l_parent_layer_id = None\<rparr>]\<rparr>"

lemma race_facts:
  "\<exists>b. GetBranchByName Some ''pr-1'' solo_db = Inr b \<and> b_State b = BranchReady \<and> b_BaseLayerID b = ''l2'' \<and> b_SourceID b = ''s1''"
  "\<exists>d1 d2 d3. TransitionBranchCtx no_actor ''t5'' ''b1'' BranchDestroying [] solo_db = Inr d1 \<and> TransitionBranchCtx no_actor ''t6'' ''b1'' BranchDestroyed [] d1 = Inr d2
    \<and> CountBranchesReferencingLayer ''l2'' d2 = 0 \<and> DeleteLayer ''l2'' d2 = Inr d3 \<and> layers d3 = [] \<and> map sr_id (sources d3) = [''s1'']
    \<and> map br_id (branches d3) = [''b1''] \<and> \<not> list_ex live_branch (branches d3)"
  by (simp_all add: solo_db_def fork_eval demo_eval GetBranchByName_def getBranch_def scanBranch_def null_string_def
      CountBranchesReferencingLayer_def references_layer_def DeleteLayer_def)

lemma race_db: "\<exists>d. reg_step\<^sup>*\<^sup>* solo_db d \<and> layers d = [] \<and> ''s1'' \<in> sr_id ` set (sources d)
    \<and> (\<forall>x \<in> set (branches d). br_id x \<noteq> ''b2'' \<and> \<not> live_branch x)"
proof -
  obtain d1 d2 d where d: "TransitionBranchCtx no_actor ''t5'' ''b1'' BranchDestroying [] solo_db = Inr d1" "TransitionBranchCtx no_actor ''t6'' ''b1'' BranchDestroyed [] d1 = Inr d2"
      "CountBranchesReferencingLayer ''l2'' d2 = 0" "DeleteLayer ''l2'' d2 = Inr d" "layers d = []" "map sr_id (sources d) = [''s1'']" "map br_id (branches d) = [''b1'']"
      "\<not> list_ex live_branch (branches d)"
    using race_facts(2) by - (elim exE conjE, rule that)
  have "reg_step\<^sup>*\<^sup>* solo_db d"
    using transition_branch[OF d(1)] transition_branch[OF d(2)] delete_layer[OF d(4,3)] by (meson converse_rtranclp_into_rtranclp rtranclp.rtrancl_refl)
  moreover have "br_id x = ''b1''" if "x \<in> set (branches d)" for x using that d(7) by (cases "branches d") auto
  moreover have "''s1'' \<in> sr_id ` set (sources d)" using d(6) by (metis list.set_intros(1) set_map)
  ultimately show ?thesis using d(5,8) by (auto simp: list_ex_iff)
qed

theorem diff_race_strands_throwaway_witness:
  "\<exists>b d tw d' e w'. GetBranchByName Some ''pr-1'' solo_db = Inr b \<and> b_State b = BranchReady \<and> reg_step\<^sup>*\<^sup>* solo_db d
    \<and> CreateBranchCtx no_actor ''t7'' ''b2'' (throwaway sim_engine b ''diff-0a0b0c'' []) d = Inr (tw, d')
    \<and> run_state (DestroyBranch sim_engine sim_env ''diff-0a0b0c'') (sim_world d') = (Inl e, w') \<and> w_db w' = d'"
proof -
  obtain b where b: "GetBranchByName Some ''pr-1'' solo_db = Inr b" "b_State b = BranchReady" "b_BaseLayerID b = ''l2''" "b_SourceID b = ''s1''"
    using race_facts(1) by blast
  obtain d where d: "reg_step\<^sup>*\<^sup>* solo_db d" "layers d = []" "''s1'' \<in> sr_id ` set (sources d)" "\<forall>x \<in> set (branches d). br_id x \<noteq> ''b2'' \<and> \<not> live_branch x"
    using race_db by blast
  from d(4) have "find (\<lambda>x. br_name x = ''diff-0a0b0c'' \<and> live_branch x) (branches d) = None" by (auto simp: find_None_iff)
  then obtain tw d' where c: "CreateBranchCtx no_actor ''t7'' ''b2'' (throwaway sim_engine b ''diff-0a0b0c'' []) d = Inr (tw, d')"
    using b(4) d(3,4) by (auto simp: CreateBranchCtx_def Let_def throwaway_def newBranch_def)
  have "undisturbed sim_env" "w_db (sim_world d') = d'" by (simp_all add: undisturbed_def sim_env_def sim_world_def)
  then obtain e w' where "run_state (DestroyBranch sim_engine sim_env ''diff-0a0b0c'') (sim_world d') = (Inl e, w')" "w_db w' = d'"
    using diff_race_strands_throwaway[OF _ c, of sim_env "sim_world d'"] b(3) d(2) by auto
  then show ?thesis using b(1,2) d(1) c by blast
qed

end
