(* ===== verification/DiffPaths.thy ===== *)
theory DiffPaths
  imports Main
begin

text \<open>
  The edit graph behind the diff: from a point one may step right (delete a line) or down (insert a line) for one edit, or
  diagonally for free where the lines match. \<open>path m c p q\<close>: \<open>q\<close> is reached from \<open>p\<close> with exactly \<open>c\<close> edits,
  \<open>m\<close> being the matching cells. The searches of the diff leave the rectangle of the two files; a path may do so too,
  but has matches inside only.
\<close>

inductive path :: "(int \<Rightarrow> int \<Rightarrow> bool) \<Rightarrow> nat \<Rightarrow> int \<times> int \<Rightarrow> int \<times> int \<Rightarrow> bool" for m where
  stay: "path m 0 p p"
| diag: "path m c p (x, y) \<Longrightarrow> m x y \<Longrightarrow> path m c p (x + 1, y + 1)"
| right: "path m c p (x, y) \<Longrightarrow> path m (Suc c) p (x + 1, y)"
| down: "path m c p (x, y) \<Longrightarrow> path m (Suc c) p (x, y + 1)"

lemma path_trans: "path m b q r \<Longrightarrow> path m a p q \<Longrightarrow> path m (a + b) p r"
  by (induction rule: path.induct) (auto intro: path.intros)

lemma path_split: "path m n p r \<Longrightarrow> a \<le> n \<Longrightarrow> \<exists>q. path m a p q \<and> path m (n - a) q r"
proof (induction arbitrary: a rule: path.induct)
  case (right c p x y)
  then show ?case
  proof (cases "a = Suc c")
    case False
    with right.prems have "a \<le> c" by simp
    with right.IH obtain q where "path m a p q" "path m (c - a) q (x, y)" by blast
    then show ?thesis using path.right[of m "c - a" q x y] \<open>a \<le> c\<close> by (metis Suc_diff_le)
  qed (auto intro: path.intros)
next
  case (down c p x y)
  then show ?case
  proof (cases "a = Suc c")
    case False
    with down.prems have "a \<le> c" by simp
    with down.IH obtain q where "path m a p q" "path m (c - a) q (x, y)" by blast
    then show ?thesis using path.down[of m "c - a" q x y] \<open>a \<le> c\<close> by (metis Suc_diff_le)
  qed (auto intro: path.intros)
qed (auto intro: path.intros, metis path.diag)

lemma path_one:
  "m x y \<Longrightarrow> path m 0 (x, y) (x + 1, y + 1)" "path m 1 (x, y) (x + 1, y)" "path m 1 (x, y) (x, y + 1)"
  using path.diag[OF path.stay] path.right[OF path.stay] path.down[OF path.stay] by auto

lemma path_straight: "path m n (x, y) (x + int n, y)" "path m n (x, y) (x, y + int n)"
  by (induction n) (auto intro: path.intros dest: path.right path.down simp: add.assoc add.commute[of 1])

text \<open>What the number of edits says about the end points.\<close>

lemma path_counts: "path m c p q \<Longrightarrow> \<exists>j n. fst q = fst p + j + n \<and> snd q = snd p + (int c - j) + n \<and> 0 \<le> j \<and> j \<le> int c \<and> 0 \<le> n"
proof (induction rule: path.induct)
  case (diag c p x y)
  then obtain j n where "x = fst p + j + n" "y = snd p + (int c - j) + n" "0 \<le> j" "j \<le> int c" "0 \<le> n" by auto
  then show ?case by (intro exI[of _ j] exI[of _ "n + 1"]) auto
next
  case (right c p x y)
  then obtain j n where "x = fst p + j + n" "y = snd p + (int c - j) + n" "0 \<le> j" "j \<le> int c" "0 \<le> n" by auto
  then show ?case by (intro exI[of _ "j + 1"] exI[of _ n]) auto
next
  case (down c p x y)
  then obtain j n where "x = fst p + j + n" "y = snd p + (int c - j) + n" "0 \<le> j" "j \<le> int c" "0 \<le> n" by auto
  then show ?case by (intro exI[of _ j] exI[of _ n]) auto
qed auto

lemma path_bounds:
  assumes "path m c (x, y) (x', y')"
  shows "x \<le> x'" "y \<le> y'" "x + y + int c \<le> x' + y'" "\<bar>(x' - y') - (x - y)\<bar> \<le> int c"
    "((x' - y') - (x - y)) mod 2 = int c mod 2"
proof -
  obtain j n where e: "x' = x + j + n" "y' = y + (int c - j) + n" "0 \<le> j" "j \<le> int c" "0 \<le> n"
    using path_counts[OF assms] by auto
  then show "x \<le> x'" "y \<le> y'" "x + y + int c \<le> x' + y'" "\<bar>(x' - y') - (x - y)\<bar> \<le> int c" by auto
  have "(x' - y') - (x - y) = int c + (j - int c) * 2" using e by simp
  then show "((x' - y') - (x - y)) mod 2 = int c mod 2" by (metis mod_mult_self1)
qed

text \<open>A path that leaves the rectangle can be cut off at its border, which saves the edits made outside.\<close>

lemma path_clip:
  assumes m: "\<And>x y. m x y \<Longrightarrow> x < xlim \<and> y < ylim"
  shows "path m c p (x, y) \<Longrightarrow> fst p \<le> xlim \<Longrightarrow> snd p \<le> ylim
    \<Longrightarrow> \<exists>c'. path m c' p (min x xlim, min y ylim) \<and> int c' + (x - min x xlim) + (y - min y ylim) \<le> int c"
proof (induction c p "(x, y)" arbitrary: x y rule: path.induct)
  case (diag c p x y)
  from m[OF diag.hyps(3)] have "x < xlim" "y < ylim" by auto
  with diag show ?case by (auto intro: path.diag)
next
  case (right c p x y)
  then obtain c' where c': "path m c' p (min x xlim, min y ylim)" "int c' + (x - min x xlim) + (y - min y ylim) \<le> int c" by blast
  then show ?case
    using path.right[OF c'(1)] by (cases "x < xlim") (force intro!: exI[of _ "Suc c'"], force intro!: exI[of _ c'])
next
  case (down c p x y)
  then obtain c' where c': "path m c' p (min x xlim, min y ylim)" "int c' + (x - min x xlim) + (y - min y ylim) \<le> int c" by blast
  then show ?case
    using path.down[OF c'(1)] by (cases "y < ylim") (force intro!: exI[of _ "Suc c'"], force intro!: exI[of _ c'])
qed (force intro: path.stay)

text \<open>Paths without edits at an end that does not match.\<close>

lemma path_start: "path m c (x, y) q \<Longrightarrow> (c = 0 \<and> q = (x, y)) \<or> (m x y \<and> path m c (x + 1, y + 1) q)
    \<or> (\<exists>c'. c = Suc c' \<and> (path m c' (x + 1, y) q \<or> path m c' (x, y + 1) q))"
  by (induction c "(x, y)" q rule: path.induct) (auto intro: path.intros)

lemma path_two:
  assumes p: "path m c (x, y) (x', y')" and "x < x'" "y < y'" "\<not> m x y" "\<not> m (x' - 1) (y' - 1)"
  shows "2 \<le> c"
proof (rule ccontr)
  assume "\<not> 2 \<le> c"
  moreover have zero: "q = (a, b) \<or> (\<exists>x y. q = (x + 1, y + 1) \<and> m x y)" if "path m 0 (a, b) q" for a b q
    using that by (cases rule: path.cases) auto
  moreover have "\<exists>c'. c = Suc c' \<and> (path m c' (x + 1, y) (x', y') \<or> path m c' (x, y + 1) (x', y'))"
    using path_start[OF p] assms(2-4) by auto
  ultimately have "path m 0 (x + 1, y) (x', y') \<or> path m 0 (x, y + 1) (x', y')" by (auto simp: not_less_eq_eq)
  then have "(x', y') = (x + 1, y) \<or> (x', y') = (x, y + 1) \<or> m (x' - 1) (y' - 1)" by (auto dest: zero)
  then show False using assms(2,3,5) by auto
qed

section \<open>The furthest points\<close>

text \<open>
  One round of the forward search keeps its promise: if \<open>f\<close> bounds on every diagonal what \<open>c\<close> edits reach inside
  the rectangle, the new value bounds what one more edit reaches.
\<close>

lemma far_step:
  assumes start: "f (k - 1) + 1 \<le> x1" "f (k + 1) \<le> x1" and stop: "\<not> m x1 (x1 - k)"
  shows "path m (Suc c) s (x, y) \<Longrightarrow> (\<And>x y. path m c s (x, y) \<Longrightarrow> x \<le> xlim \<Longrightarrow> y \<le> ylim \<Longrightarrow> x \<le> f (x - y))
    \<Longrightarrow> x \<le> xlim \<Longrightarrow> y \<le> ylim \<Longrightarrow> x - y = k \<Longrightarrow> x \<le> x1"
proof (induction "Suc c" s "(x, y)" arbitrary: x y rule: path.induct)
  case (diag s x y)
  then have "x \<le> x1" by simp
  moreover have "x \<noteq> x1" using diag stop by auto
  ultimately show ?case by simp
next
  case (right s x y)
  then have "x \<le> f (x - y)" by auto
  moreover have "x - y = k - 1" using right by simp
  ultimately have "x \<le> f (k - 1)" by simp
  then show ?case using start by simp
next
  case (down s x y)
  then have "x \<le> f (x - y)" by auto
  moreover have "x - y = k + 1" using down by simp
  ultimately have "x \<le> f (k + 1)" by simp
  then show ?case using start by simp
qed

text \<open>The backward search is the forward search on the mirrored graph.\<close>

definition mirror :: "(int \<Rightarrow> int \<Rightarrow> bool) \<Rightarrow> int \<Rightarrow> int \<Rightarrow> bool" where
  "mirror m x y = m (- x - 1) (- y - 1)"

lemma path_mirror: "path m c (x, y) (x', y') \<Longrightarrow> path (mirror m) c (- x', - y') (- x, - y)"
proof (induction c "(x, y)" "(x', y')" arbitrary: x' y' rule: path.induct)
  case (diag c x' y')
  have "path (mirror m) 0 (- (x' + 1), - (y' + 1)) (- x', - y')"
    using path_one(1)[of "mirror m" "- (x' + 1)" "- (y' + 1)"] diag by (simp add: mirror_def)
  then show ?case using path_trans diag by fastforce
next
  case (right c x' y')
  then show ?case using path_trans[OF right.hyps(2) path_one(2)[of "mirror m" "- (x' + 1)" "- y'", simplified]] by simp
next
  case (down c x' y')
  then show ?case using path_trans[OF down.hyps(2) path_one(3)[of "mirror m" "- x'" "- (y' + 1)", simplified]] by simp
qed (auto intro: path.stay)

lemma mirror_mirror [simp]: "mirror (mirror m) = m"
  by (simp add: mirror_def fun_eq_iff)

lemma path_mirror_iff: "path (mirror m) c (- x', - y') (- x, - y) \<longleftrightarrow> path m c (x, y) (x', y')"
  using path_mirror[of m c x y x' y'] path_mirror[of "mirror m" c "- x'" "- y'" "- x" "- y"] by auto

lemma far_step_back:
  assumes far: "\<And>x y. path m c (x, y) (ex, ey) \<Longrightarrow> xoff \<le> x \<Longrightarrow> yoff \<le> y \<Longrightarrow> b (x - y) \<le> x"
    and start: "x1 \<le> b (k - 1)" "x1 \<le> b (k + 1) - 1" and stop: "\<not> m (x1 - 1) (x1 - k - 1)"
    and p: "path m (Suc c) (x, y) (ex, ey)" "xoff \<le> x" "yoff \<le> y" "x - y = k"
  shows "x1 \<le> x"
proof -
  have "- x \<le> - x1"
  proof (rule far_step[where m = "mirror m" and c = c and s = "(- ex, - ey)" and xlim = "- xoff" and ylim = "- yoff"
        and f = "\<lambda>j. - b (- j)" and k = "- k" and y = "- y"])
    show "x \<le> - b (- (x - y))" if "path (mirror m) c (- ex, - ey) (x, y)" "x \<le> - xoff" "y \<le> - yoff" for x y
      using that far[of "- x" "- y"] path_mirror_iff[of m c ex ey "- x" "- y"] by (simp add: algebra_simps)
    show "\<not> mirror m (- x1) (- x1 - - k)" using stop by (simp add: mirror_def algebra_simps)
  qed (use start p path_mirror_iff[of m "Suc c" ex ey x y] in \<open>auto simp: algebra_simps\<close>)
  then show ?thesis by simp
qed

lemma path_clip_back:
  assumes m: "\<And>x y. m x y \<Longrightarrow> xoff \<le> x \<and> yoff \<le> y" and p: "path m c (x, y) (ex, ey)" "xoff \<le> ex" "yoff \<le> ey"
  shows "\<exists>c'. path m c' (max x xoff, max y yoff) (ex, ey) \<and> int c' + (max x xoff - x) + (max y yoff - y) \<le> int c"
proof -
  have "\<exists>c'. path (mirror m) c' (- ex, - ey) (min (- x) (- xoff), min (- y) (- yoff))
      \<and> int c' + (- x - min (- x) (- xoff)) + (- y - min (- y) (- yoff)) \<le> int c"
    using path_clip[of "mirror m" "- xoff" "- yoff" c "(- ex, - ey)" "- x" "- y"] m p path_mirror[OF p(1)]
    by (fastforce simp: mirror_def)
  moreover have "min (- x) (- xoff) = - max x xoff" "min (- y) (- yoff) = - max y yoff" by (simp_all add: minus_max_eq_min)
  ultimately show ?thesis by (auto simp: path_mirror_iff)
qed

end
