(* ===== verification/DiffFrontier.thy ===== *)
theory DiffFrontier
  imports DiffPaths
begin

text \<open>
  The invariant of one search: after \<open>c\<close> rounds the active diagonals are the ones \<open>c\<close> edits can end on, every value
  on them is reached with \<open>c\<close> edits, and nothing inside the rectangle is reached further. The backward search keeps the
  same invariant on the mirrored graph.
\<close>

definition active :: "int \<Rightarrow> int \<Rightarrow> int \<Rightarrow> bool" where
  "active lo hi k \<longleftrightarrow> lo \<le> k \<and> k \<le> hi \<and> even (k - lo)"

definition diagonals :: "int \<Rightarrow> int \<Rightarrow> int \<Rightarrow> int \<Rightarrow> nat \<Rightarrow> int \<Rightarrow> int \<Rightarrow> bool" where
  "diagonals sx sy ex ey c lo hi \<longleftrightarrow> even (lo - (sx - sy) - int c) \<and> even (hi - lo) \<and> sx - ey \<le> lo \<and> lo \<le> hi \<and> hi \<le> ex - sy
     \<and> (lo = sx - sy - int c \<or> lo \<le> sx - ey + 1) \<and> (hi = sx - sy + int c \<or> ex - sy - 1 \<le> hi)"

definition frontier :: "(int \<Rightarrow> int \<Rightarrow> bool) \<Rightarrow> int \<Rightarrow> int \<Rightarrow> int \<Rightarrow> int \<Rightarrow> nat \<Rightarrow> int \<Rightarrow> int \<Rightarrow> (int \<Rightarrow> int) \<Rightarrow> bool" where
  "frontier m sx sy ex ey c lo hi f \<longleftrightarrow> diagonals sx sy ex ey c lo hi
     \<and> (\<forall>k. active lo hi k \<longrightarrow> path m c (sx, sy) (f k, f k - k))
     \<and> (\<forall>x y. path m c (sx, sy) (x, y) \<longrightarrow> x \<le> ex \<longrightarrow> y \<le> ey \<longrightarrow> x \<le> f (x - y))"

lemma frontierD:
  assumes "frontier m sx sy ex ey c lo hi f"
  shows "diagonals sx sy ex ey c lo hi" "active lo hi k \<Longrightarrow> path m c (sx, sy) (f k, f k - k)"
    "path m c (sx, sy) (x, y) \<Longrightarrow> x \<le> ex \<Longrightarrow> y \<le> ey \<Longrightarrow> x \<le> f (x - y)"
  using assms by (auto simp: frontier_def)

lemma frontier_start: "sx < ex \<Longrightarrow> sy < ey \<Longrightarrow> f (sx - sy) = sx \<Longrightarrow> \<not> m sx sy \<Longrightarrow> frontier m sx sy ex ey 0 (sx - sy) (sx - sy) f"
  unfolding frontier_def diagonals_def active_def
proof (intro conjI allI impI)
  assume "f (sx - sy) = sx"
  then show "path m 0 (sx, sy) (f k, f k - k)" if "sx - sy \<le> k \<and> k \<le> sx - sy \<and> even (k - (sx - sy))" for k
  proof -
    have "k = sx - sy" using that by linarith
    with \<open>f (sx - sy) = sx\<close> show ?thesis by (simp add: path.stay)
  qed
  assume "\<not> m sx sy"
  with \<open>f (sx - sy) = sx\<close> show "x \<le> f (x - y)" if "path m 0 (sx, sy) (x, y)" for x y
    using path_start[OF that] by auto
qed auto

lemma even_gap: "even (b - a) \<Longrightarrow> a \<le> b \<or> b + 2 \<le> (a :: int)"
  by presburger

text \<open>Every diagonal a path inside the rectangle ends on is active.\<close>

lemma path_active:
  assumes "diagonals sx sy ex ey c lo hi" "path m c (sx, sy) (x, y)" "x \<le> ex" "y \<le> ey"
  shows "active lo hi (x - y)"
proof -
  have b: "sx \<le> x" "sy \<le> y" "\<bar>(x - y) - (sx - sy)\<bar> \<le> int c" "((x - y) - (sx - sy)) mod 2 = int c mod 2"
    using path_bounds[OF assms(2)] by auto
  from b(4) have "even ((x - y) - (sx - sy) - int c)" by (simp add: mod_eq_dvd_iff)
  moreover have p: "even (lo - (sx - sy) - int c)" "even (hi - lo)" using assms(1) by (auto simp: diagonals_def)
  moreover have "(x - y) - lo = ((x - y) - (sx - sy) - int c) - (lo - (sx - sy) - int c)" by simp
  ultimately have e: "even ((x - y) - lo)" by (metis dvd_diff)
  have "hi - (x - y) = (hi - lo) - ((x - y) - lo)" by simp
  with e p(2) have e': "even (hi - (x - y))" by (metis dvd_diff)
  have "lo = sx - sy - int c \<or> lo \<le> sx - ey + 1" "hi = sx - sy + int c \<or> ex - sy - 1 \<le> hi"
    using assms(1) by (auto simp: diagonals_def)
  then have "lo \<le> x - y" "x - y \<le> hi" using even_gap[OF e] even_gap[OF e'] assms(3,4) b(1-3) by linarith+
  then show ?thesis using e unfolding active_def by blast
qed

section \<open>One round\<close>

definition widened_lo :: "int \<Rightarrow> int \<Rightarrow> int" where "widened_lo dmin lo = (if lo > dmin then lo - 1 else lo + 1)"
definition widened_hi :: "int \<Rightarrow> int \<Rightarrow> int" where "widened_hi dmax hi = (if hi < dmax then hi + 1 else hi - 1)"

lemma diagonals_widen:
  "diagonals sx sy ex ey c lo hi \<Longrightarrow> sx < ex \<Longrightarrow> sy < ey
    \<Longrightarrow> diagonals sx sy ex ey (Suc c) (widened_lo (sx - ey) lo) (widened_hi (ex - sy) hi)"
  unfolding diagonals_def widened_lo_def widened_hi_def by (auto; presburger)

text \<open>The values a round reads: the last round's, and a sentinel below every real value outside the active diagonals.\<close>

definition read_values :: "int \<Rightarrow> int \<Rightarrow> int \<Rightarrow> int \<Rightarrow> int \<Rightarrow> (int \<Rightarrow> int) \<Rightarrow> (int \<Rightarrow> int) \<Rightarrow> bool" where
  "read_values dmin dmax sentinel lo hi f g \<longleftrightarrow> (\<forall>k. active lo hi k \<longrightarrow> g k = f k)
     \<and> (lo > dmin \<longrightarrow> g (lo - 2) = sentinel) \<and> (hi < dmax \<longrightarrow> g (hi + 2) = sentinel)"

definition start_of :: "(int \<Rightarrow> int) \<Rightarrow> int \<Rightarrow> int" where
  "start_of g k = max (g (k - 1) + 1) (g (k + 1))"

lemma neighbours:
  assumes "diagonals sx sy ex ey c lo hi" "active (widened_lo (sx - ey) lo) (widened_hi (ex - sy) hi) k"
  shows "active lo hi (k - 1) \<or> (k - 1 = lo - 2 \<and> lo > sx - ey \<and> active lo hi (k + 1))"
    and "active lo hi (k + 1) \<or> (k + 1 = hi + 2 \<and> hi < ex - sy \<and> active lo hi (k - 1))"
proof -
  let ?lo = "widened_lo (sx - ey) lo" and ?hi = "widened_hi (ex - sy) hi"
  have l: "(lo > sx - ey \<and> ?lo = lo - 1) \<or> ?lo = lo + 1" and h: "(hi < ex - sy \<and> ?hi = hi + 1) \<or> ?hi = hi - 1"
    by (auto simp: widened_lo_def widened_hi_def)
  have k: "?lo \<le> k" "k \<le> ?hi" "even (k - ?lo)" and d: "even (hi - lo)" "lo \<le> hi" using assms by (auto simp: active_def diagonals_def)
  have "k - 1 - lo = (k - ?lo) + (?lo - lo - 1)" "even (?lo - lo - 1)" using l by auto
  with k(3) have e: "even (k - 1 - lo)" by (metis dvd_add)
  have "k + 1 - lo = (k - 1 - lo) + 2" "hi - (k + 1) = (hi - lo) - (k + 1 - lo)" by simp_all
  with e d(1) have e': "even (k + 1 - lo)" "even (hi - (k + 1))" by (metis dvd_add dvd_refl, metis dvd_add dvd_diff dvd_refl)
  show "active lo hi (k - 1) \<or> (k - 1 = lo - 2 \<and> lo > sx - ey \<and> active lo hi (k + 1))"
  proof (cases "lo \<le> k - 1")
    case True
    then show ?thesis using h k(2) e unfolding active_def by linarith
  next
    case False
    then have "k - 1 = lo - 2" "lo > sx - ey" using even_gap[OF e] l k(1) by linarith+
    then show ?thesis using d(2) e' unfolding active_def by simp
  qed
  show "active lo hi (k + 1) \<or> (k + 1 = hi + 2 \<and> hi < ex - sy \<and> active lo hi (k - 1))"
  proof (cases "k + 1 \<le> hi")
    case True
    then show ?thesis using l k(1) e' unfolding active_def by linarith
  next
    case False
    then have "k + 1 = hi + 2" "hi < ex - sy" using even_gap[OF e'(2)] h k(2) by linarith+
    then show ?thesis using d(2) e unfolding active_def by simp
  qed
qed

lemma start_reached:
  assumes F: "frontier m sx sy ex ey c lo hi f" and g: "read_values (sx - ey) (ex - sy) sentinel lo hi f g" and s: "sentinel < sx"
    and k: "active (widened_lo (sx - ey) lo) (widened_hi (ex - sy) hi) k"
  shows "path m (Suc c) (sx, sy) (start_of g k, start_of g k - k)"
proof -
  have real: "path m c (sx, sy) (g j, g j - j)" "sx \<le> g j" if "active lo hi j" for j
    using frontierD(2)[OF F that] path_bounds(1) g that by (auto simp: read_values_def)
  have lo: "path m (Suc c) (sx, sy) (g (k - 1) + 1, g (k - 1) + 1 - k)" if "active lo hi (k - 1)"
    using path.right[OF real(1)[OF that]] by (simp add: algebra_simps)
  have hi: "path m (Suc c) (sx, sy) (g (k + 1), g (k + 1) - k)" if "active lo hi (k + 1)"
    using path.down[OF real(1)[OF that]] by (simp add: algebra_simps)
  consider "active lo hi (k - 1)" "active lo hi (k + 1)"
    | "g (k - 1) = sentinel" "active lo hi (k + 1)" | "active lo hi (k - 1)" "g (k + 1) = sentinel"
    using neighbours[OF frontierD(1)[OF F] k] g unfolding read_values_def by metis
  then show ?thesis
  proof cases
    case 1
    then show ?thesis using lo hi by (auto simp: start_of_def max_def)
  next
    case 2
    then have "start_of g k = g (k + 1)" using real(2) s by (fastforce simp: start_of_def max_def)
    then show ?thesis using hi 2 by simp
  next
    case 3
    then have "start_of g k = g (k - 1) + 1" using real(2)[of "k - 1"] s by (auto simp: start_of_def max_def)
    then show ?thesis using lo 3 by simp
  qed
qed

text \<open>The new value of a diagonal: from the better neighbour along the run of matches to its end.\<close>

definition advanced :: "(int \<Rightarrow> int \<Rightarrow> bool) \<Rightarrow> (int \<Rightarrow> int) \<Rightarrow> int \<Rightarrow> int \<Rightarrow> bool" where
  "advanced m g k x \<longleftrightarrow> path m 0 (start_of g k, start_of g k - k) (x, x - k) \<and> \<not> m x (x - k)"

lemma advanced_reached:
  assumes "frontier m sx sy ex ey c lo hi f" "read_values (sx - ey) (ex - sy) sentinel lo hi f g" "sentinel < sx"
    and "active (widened_lo (sx - ey) lo) (widened_hi (ex - sy) hi) k" "advanced m g k x"
  shows "path m (Suc c) (sx, sy) (x, x - k)"
  using path_trans[OF _ start_reached[OF assms(1-4)]] assms(5) by (force simp: advanced_def)

lemma frontier_round:
  assumes F: "frontier m sx sy ex ey c lo hi f" and "sx < ex" "sy < ey"
    and g: "read_values (sx - ey) (ex - sy) sentinel lo hi f g" and s: "sentinel < sx"
    and h: "\<And>k. active (widened_lo (sx - ey) lo) (widened_hi (ex - sy) hi) k \<Longrightarrow> advanced m g k (h k)"
  shows "frontier m sx sy ex ey (Suc c) (widened_lo (sx - ey) lo) (widened_hi (ex - sy) hi) h"
proof -
  let ?lo = "widened_lo (sx - ey) lo" and ?hi = "widened_hi (ex - sy) hi"
  have d: "diagonals sx sy ex ey (Suc c) ?lo ?hi" using diagonals_widen frontierD(1)[OF F] assms(2,3) by blast
  have far: "x \<le> g (x - y)" if "path m c (sx, sy) (x, y)" "x \<le> ex" "y \<le> ey" for x y
    using frontierD(3)[OF F that] path_active[OF frontierD(1)[OF F] that] g by (simp add: read_values_def)
  have "x \<le> h (x - y)" if p: "path m (Suc c) (sx, sy) (x, y)" "x \<le> ex" "y \<le> ey" for x y
  proof -
    have "advanced m g (x - y) (h (x - y))" using h path_active[OF d p] by blast
    then have "start_of g (x - y) \<le> h (x - y)" "\<not> m (h (x - y)) (h (x - y) - (x - y))"
      using path_bounds(1) by (auto simp: advanced_def)
    then show ?thesis by (intro far_step[OF _ _ _ p(1) far p(2,3) refl]) (auto simp: start_of_def)
  qed
  then show ?thesis using d advanced_reached[OF F g s] h by (simp add: frontier_def)
qed

section \<open>Two searches\<close>

text \<open>Searches that have not met leave no path with the edits of both together.\<close>

lemma apart_no_path:
  assumes F: "frontier m sx sy ex ey c lo hi f"
    and B: "frontier (mirror m) (- ex) (- ey) (- sx) (- sy) c' (- bhi) (- blo) (\<lambda>k. - b (- k))"
    and apart: "\<And>k. active lo hi k \<Longrightarrow> active blo bhi k \<Longrightarrow> f k < b k"
  shows "\<not> path m (c + c') (sx, sy) (ex, ey)"
proof
  assume "path m (c + c') (sx, sy) (ex, ey)"
  then obtain x y where p: "path m c (sx, sy) (x, y)" "path m c' (x, y) (ex, ey)" using path_split[of m "c + c'" "(sx, sy)" "(ex, ey)" c] by auto
  have in_box: "x \<le> ex" "y \<le> ey" "sx \<le> x" "sy \<le> y" using path_bounds p by auto
  have q: "path (mirror m) c' (- ex, - ey) (- x, - y)" using path_mirror[OF p(2)] .
  have "x \<le> f (x - y)" "active lo hi (x - y)"
    using frontierD(3)[OF F p(1)] path_active[OF frontierD(1)[OF F] p(1)] in_box by auto
  moreover have "- x \<le> - b (- (- x - - y))" "active (- bhi) (- blo) (- x - - y)"
    using frontierD(3)[OF B q] path_active[OF frontierD(1)[OF B] q] in_box by auto
  moreover have "even (bhi - blo)" using frontierD(1)[OF B] by (simp add: diagonals_def)
  ultimately have "b (x - y) \<le> f (x - y)" "active blo bhi (x - y)" by (auto simp: active_def algebra_simps)
  then show False using apart \<open>active lo hi (x - y)\<close> by force
qed

text \<open>
  Where the searches meet: a point of the forward search, on a diagonal the backward search has reached with one
  edit less, lies inside the rectangle and is not its far corner, because no shorter path exists.
\<close>

lemma meet_inside:
  assumes m: "\<And>x y. m x y \<Longrightarrow> x < ex \<and> y < ey" and ext: "sx < ex" "sy < ey" and c: "0 < c"
    and p: "path m c (sx, sy) (x, y)" and q: "\<bar>(ex - ey) - (x - y)\<bar> \<le> int c'" and c': "c' \<le> c" "c \<le> Suc c'"
    and none: "\<And>t. int t < int c + int c' \<Longrightarrow> \<not> path m t (sx, sy) (ex, ey)" and two: "\<not> path m 1 (sx, sy) (ex, ey)"
  shows "x \<le> ex" "y \<le> ey" "(x, y) \<noteq> (ex, ey)"
proof -
  obtain t where t: "path m t (sx, sy) (min x ex, min y ey)" "int t + (x - min x ex) + (y - min y ey) \<le> int c"
    using path_clip[of m ex ey, OF m p] ext by auto
  show "x \<le> ex"
  proof (rule ccontr)
    assume x: "\<not> x \<le> ex"
    then have "path m (t + nat (ey - min y ey)) (sx, sy) (ex, ey)"
      using path_trans[OF path_straight(2)[where n = "nat (ey - min y ey)"] t(1)] by (simp add: min_def split: if_splits)
    moreover have "int (t + nat (ey - min y ey)) < int c + int c'" using t(2) x q by (auto simp: min_def split: if_splits)
    ultimately show False using none by blast
  qed
  show "y \<le> ey"
  proof (rule ccontr)
    assume y: "\<not> y \<le> ey"
    then have "path m (t + nat (ex - min x ex)) (sx, sy) (ex, ey)"
      using path_trans[OF path_straight(1)[where n = "nat (ex - min x ex)"] t(1)] by (simp add: min_def split: if_splits)
    moreover have "int (t + nat (ex - min x ex)) < int c + int c'" using t(2) y q by (auto simp: min_def split: if_splits)
    ultimately show False using none by blast
  qed
  show "(x, y) \<noteq> (ex, ey)"
  proof
    assume e: "(x, y) = (ex, ey)"
    have "c = 1" using none[of c] p e c c' by (cases "c' = 0") auto
    then show False using two p e by simp
  qed
qed

end
