(* ===== verification/DiffSplit.thy ===== *)
theory DiffSplit
  imports Diff DiffFrontier
begin

text \<open>
  The split of the diff: both searches keep their frontiers, no index is out of range, the search ends, and the point
  it returns lies inside the rectangle and is neither corner, so that both halves are smaller.
\<close>

definition cell :: "differ \<Rightarrow> int \<Rightarrow> int \<Rightarrow> int \<Rightarrow> int \<Rightarrow> int \<Rightarrow> int \<Rightarrow> bool" where
  "cell d xoff xlim yoff ylim x y \<longleftrightarrow>
     xoff \<le> x \<and> x < xlim \<and> yoff \<le> y \<and> y < ylim \<and> d_x d ! nat x = d_y d ! nat y"

definition sized :: "differ \<Rightarrow> bool" where
  "sized d \<longleftrightarrow> length (d_fd d) = length (d_x d) + length (d_y d) + 3 \<and> length (d_bd d) = length (d_x d) + length (d_y d) + 3
     \<and> d_off d = int (length (d_y d)) + 1 \<and> length (d_x d) + length (d_y d) < 2 ^ 62
     \<and> length (d_delX d) = length (d_x d) \<and> length (d_insY d) = length (d_y d)"

definition box :: "differ \<Rightarrow> int \<Rightarrow> int \<Rightarrow> int \<Rightarrow> int \<Rightarrow> bool" where
  "box d xoff xlim yoff ylim \<longleftrightarrow> sized d \<and> 0 \<le> xoff \<and> xoff \<le> xlim \<and> xlim \<le> int (length (d_x d))
     \<and> 0 \<le> yoff \<and> yoff \<le> ylim \<and> ylim \<le> int (length (d_y d))"

definition fv :: "differ \<Rightarrow> int \<Rightarrow> int" where "fv d k = d_fd d ! nat (d_off d + k)"
definition bv :: "differ \<Rightarrow> int \<Rightarrow> int" where "bv d k = d_bd d ! nat (d_off d + k)"

lemma cell_upd [simp]:
  "cell (d\<lparr>d_fd := fd\<rparr>) = cell d" "cell (d\<lparr>d_bd := bd\<rparr>) = cell d" "cell (d\<lparr>d_delX := a\<rparr>) = cell d" "cell (d\<lparr>d_insY := b\<rparr>) = cell d"
  by (simp_all add: fun_eq_iff cell_def)

lemma box_upd [simp]:
  "length fd = length (d_fd d) \<Longrightarrow> box (d\<lparr>d_fd := fd\<rparr>) = box d" "length bd = length (d_bd d) \<Longrightarrow> box (d\<lparr>d_bd := bd\<rparr>) = box d"
  by (simp_all add: fun_eq_iff box_def sized_def)

lemma value_upd [simp]: "fv (d\<lparr>d_bd := bd\<rparr>) = fv d" "bv (d\<lparr>d_fd := fd\<rparr>) = bv d"
  by (simp_all add: fun_eq_iff fv_def bv_def)

text \<open>Every diagonal a round touches is in range.\<close>

lemma idx_in_range:
  assumes "box d xoff xlim yoff ylim" "xoff - ylim - 1 \<le> k" "k \<le> xlim - yoff + 1"
  shows "idx (d_fd d) (d_off d + k) = Some (fv d k)" "idx (d_bd d) (d_off d + k) = Some (bv d k)"
    "put (d_fd d) (d_off d + k) v = Some ((d_fd d)[nat (d_off d + k) := v])"
    "put (d_bd d) (d_off d + k) v = Some ((d_bd d)[nat (d_off d + k) := v])"
  using assms by (auto simp: box_def sized_def idx_def put_def fv_def bv_def)

lemma value_put:
  assumes "box d xoff xlim yoff ylim" "xoff - ylim - 1 \<le> k" "k \<le> xlim - yoff + 1" "xoff - ylim - 1 \<le> j" "j \<le> xlim - yoff + 1"
  shows "fv (d\<lparr>d_fd := (d_fd d)[nat (d_off d + k) := v]\<rparr>) j = (if j = k then v else fv d j)"
    "bv (d\<lparr>d_bd := (d_bd d)[nat (d_off d + k) := v]\<rparr>) j = (if j = k then v else bv d j)"
  using assms by (auto simp: box_def sized_def fv_def bv_def nth_list_update)

section \<open>Runs of equal lines\<close>

lemma fwd_snake_run:
  "box d xoff xlim yoff ylim \<Longrightarrow> xoff \<le> x \<Longrightarrow> yoff \<le> y \<Longrightarrow> \<exists>n\<ge>0. fwd_snake d xlim ylim x y = Some (x + n, y + n)
    \<and> path (cell d xoff xlim yoff ylim) 0 (x, y) (x + n, y + n) \<and> \<not> cell d xoff xlim yoff ylim (x + n) (y + n)
    \<and> (n = 0 \<or> (x + n \<le> xlim \<and> y + n \<le> ylim))"
proof (induction d xlim ylim x y rule: fwd_snake.induct)
  case (1 d xlim ylim x y)
  let ?m = "cell d xoff xlim yoff ylim"
  show ?case
  proof (cases "?m x y")
    case True
    then have i: "idx (d_x d) x = Some (d_x d ! nat x)" "idx (d_y d) y = Some (d_y d ! nat y)" "d_x d ! nat x = d_y d ! nat y" "x < xlim" "y < ylim"
      using "1.prems" by (auto simp: idx_def box_def cell_def)
    obtain n where n: "0 \<le> n" "fwd_snake d xlim ylim (x + 1) (y + 1) = Some (x + 1 + n, y + 1 + n)"
      "path ?m 0 (x + 1, y + 1) (x + 1 + n, y + 1 + n)" "\<not> ?m (x + 1 + n) (y + 1 + n)"
      "n = 0 \<or> (x + 1 + n \<le> xlim \<and> y + 1 + n \<le> ylim)"
      using "1.IH"[of "d_x d ! nat x" "d_y d ! nat y"] "1.prems" i by auto
    have "path ?m 0 (x, y) (x + 1 + n, y + 1 + n)" using path_trans[OF n(3) path_one(1)[of ?m x y, OF True]] by simp
    then show ?thesis using n i by (intro exI[of _ "n + 1"]) (auto simp: fwd_snake.simps[of d] algebra_simps)
  next
    case False
    then have "fwd_snake d xlim ylim x y = Some (x, y)"
      using "1.prems" by (auto simp: fwd_snake.simps[of d] cell_def idx_def box_def)
    then show ?thesis using False by (intro exI[of _ 0]) (simp add: path.stay)
  qed
qed

lemma bwd_snake_run:
  "box d xoff xlim yoff ylim \<Longrightarrow> x \<le> xlim \<Longrightarrow> y \<le> ylim \<Longrightarrow> \<exists>n\<ge>0. bwd_snake d xoff yoff x y = Some (x - n, y - n)
    \<and> path (cell d xoff xlim yoff ylim) 0 (x - n, y - n) (x, y) \<and> \<not> cell d xoff xlim yoff ylim (x - n - 1) (y - n - 1)
    \<and> (n = 0 \<or> (xoff \<le> x - n \<and> yoff \<le> y - n))"
proof (induction d xoff yoff x y rule: bwd_snake.induct)
  case (1 d xoff yoff x y)
  let ?m = "cell d xoff xlim yoff ylim"
  show ?case
  proof (cases "?m (x - 1) (y - 1)")
    case True
    then have i: "idx (d_x d) (x - 1) = Some (d_x d ! nat (x - 1))" "idx (d_y d) (y - 1) = Some (d_y d ! nat (y - 1))"
      "d_x d ! nat (x - 1) = d_y d ! nat (y - 1)" "xoff < x" "yoff < y"
      using "1.prems" by (auto simp: idx_def box_def cell_def)
    obtain n where n: "0 \<le> n" "bwd_snake d xoff yoff (x - 1) (y - 1) = Some (x - 1 - n, y - 1 - n)"
      "path ?m 0 (x - 1 - n, y - 1 - n) (x - 1, y - 1)" "\<not> ?m (x - 1 - n - 1) (y - 1 - n - 1)"
      "n = 0 \<or> (xoff \<le> x - 1 - n \<and> yoff \<le> y - 1 - n)"
      using "1.IH"[of "d_x d ! nat (x - 1)" "d_y d ! nat (y - 1)"] "1.prems" i by auto
    have "path ?m 0 (x - 1 - n, y - 1 - n) (x, y)" using path.diag[OF n(3) True] by simp
    then show ?thesis using n i by (intro exI[of _ "n + 1"]) (auto simp: bwd_snake.simps[of d] algebra_simps)
  next
    case False
    then have "bwd_snake d xoff yoff x y = Some (x, y)"
      using "1.prems" by (auto simp: bwd_snake.simps[of d] cell_def idx_def box_def)
    then show ?thesis using False by (intro exI[of _ 0]) (simp add: path.stay)
  qed
qed

section \<open>One round of each search\<close>

text \<open>What a round leaves behind: on its diagonals the advanced values, none of which meets the other search, or the point where one does.\<close>

definition round_done :: "((int \<Rightarrow> int) \<Rightarrow> int \<Rightarrow> int \<Rightarrow> bool) \<Rightarrow> (int \<Rightarrow> int) \<Rightarrow> (int \<Rightarrow> int \<Rightarrow> bool) \<Rightarrow> int \<Rightarrow> int \<Rightarrow> (int \<Rightarrow> int) \<Rightarrow> int \<Rightarrow> int \<Rightarrow> bool" where
  "round_done adv g meets dmin dmax h lo k \<longleftrightarrow> (\<forall>j. dmin - 1 \<le> j \<and> j \<le> dmax + 1 \<longrightarrow>
     (if lo \<le> j \<and> j \<le> k \<and> even (k - j) then adv g j (h j) \<and> \<not> meets j (h j) else h j = g j))"

lemma round_doneD:
  "round_done adv g meets dmin dmax h lo k \<Longrightarrow> dmin - 1 \<le> j \<Longrightarrow> j \<le> dmax + 1 \<Longrightarrow> lo \<le> j \<Longrightarrow> j \<le> k \<Longrightarrow> even (k - j)
    \<Longrightarrow> adv g j (h j) \<and> \<not> meets j (h j)"
  unfolding round_done_def by metis

lemma start_of_cong: "g (k - 1) = g' (k - 1) \<Longrightarrow> g (k + 1) = g' (k + 1) \<Longrightarrow> start_of g k = start_of g' k"
  by (simp add: start_of_def)

lemma advanced_cong: "g (k - 1) = g' (k - 1) \<Longrightarrow> g (k + 1) = g' (k + 1) \<Longrightarrow> advanced m g k = advanced m g' k"
  by (simp add: advanced_def fun_eq_iff start_of_cong[of g k g'])

text \<open>The backward search advances on the mirrored graph.\<close>

definition retreated :: "(int \<Rightarrow> int \<Rightarrow> bool) \<Rightarrow> (int \<Rightarrow> int) \<Rightarrow> int \<Rightarrow> int \<Rightarrow> bool" where
  "retreated m g k x = advanced (mirror m) (\<lambda>j. - g (- j)) (- k) (- x)"

lemma retreated_cong: "g (k - 1) = g' (k - 1) \<Longrightarrow> g (k + 1) = g' (k + 1) \<Longrightarrow> retreated m g k = retreated m g' k"
  using advanced_cong[of "\<lambda>j. - g (- j)" "- k" "\<lambda>j. - g' (- j)" "mirror m"] by (simp add: retreated_def fun_eq_iff algebra_simps)

definition near :: "((int \<Rightarrow> int) \<Rightarrow> int \<Rightarrow> int \<Rightarrow> bool) \<Rightarrow> bool" where
  "near adv \<longleftrightarrow> (\<forall>g g' k. g (k - 1) = g' (k - 1) \<longrightarrow> g (k + 1) = g' (k + 1) \<longrightarrow> adv g k = adv g' k)"

lemma near_adv: "near (advanced m)" "near (retreated m)"
  unfolding near_def using advanced_cong retreated_cong by blast+

lemma near_cong: "near adv \<Longrightarrow> g (k - 1) = g' (k - 1) \<Longrightarrow> g (k + 1) = g' (k + 1) \<Longrightarrow> adv g k = adv g' k"
  unfolding near_def by blast

lemma round_done_step:
  assumes cong: "near adv"
    and "round_done adv g' meets dmin dmax h lo (k - 2)" "adv g k x" "\<not> meets k x" "lo \<le> k" "dmin - 1 \<le> k" "k \<le> dmax + 1" "dmin \<le> lo"
    and g': "\<And>j. dmin - 1 \<le> j \<Longrightarrow> j \<le> dmax + 1 \<Longrightarrow> g' j = (if j = k then x else g j)"
  shows "round_done adv g meets dmin dmax h lo k"
  unfolding round_done_def
proof (intro allI impI)
  fix j assume j: "dmin - 1 \<le> j \<and> j \<le> dmax + 1"
  have old: "if lo \<le> j \<and> j \<le> k - 2 \<and> even (k - 2 - j) then adv g' j (h j) \<and> \<not> meets j (h j) else h j = g' j"
    using assms(2) j unfolding round_done_def by blast
  show "if lo \<le> j \<and> j \<le> k \<and> even (k - j) then adv g j (h j) \<and> \<not> meets j (h j) else h j = g j"
  proof (cases "j = k")
    case True
    then have "h j = x" using old g' j by simp
    then show ?thesis using True assms(3-5) by simp
  next
    case False
    have "(lo \<le> j \<and> j \<le> k \<and> even (k - j)) \<longleftrightarrow> (lo \<le> j \<and> j \<le> k - 2 \<and> even (k - 2 - j))" using False by presburger
    moreover have "adv g' j = adv g j" if "lo \<le> j" "j \<le> k - 2"
      using that assms(6-8) g' by (intro near_cong[OF cong]) auto
    ultimately show ?thesis using old g' j False by auto
  qed
qed

text \<open>
  Both loops are sweeps over the diagonals from the top down by two. \<open>ready\<close> says that the neighbours of a diagonal let the
  loop body run, \<open>step\<close> what the body does.
\<close>

definition outcome :: "((int \<Rightarrow> int) \<Rightarrow> int \<Rightarrow> int \<Rightarrow> bool) \<Rightarrow> (int \<Rightarrow> int \<Rightarrow> bool) \<Rightarrow> int \<Rightarrow> int \<Rightarrow> int \<Rightarrow> (int \<Rightarrow> int) \<Rightarrow> (int \<Rightarrow> int) \<Rightarrow> int
    \<Rightarrow> (int \<times> int) option \<Rightarrow> bool" where
  "outcome adv meets lo dmin dmax g h k met = (case met of None \<Rightarrow> round_done adv g meets dmin dmax h lo k
     | Some p \<Rightarrow> \<exists>j. lo \<le> j \<and> j \<le> k \<and> even (k - j) \<and> adv g j (fst p) \<and> snd p = fst p - j \<and> meets j (fst p))"

locale sweep =
  fixes L :: "int \<Rightarrow> 's \<Rightarrow> ('s \<times> (int \<times> int) option) option" and val :: "'s \<Rightarrow> int \<Rightarrow> int"
    and adv :: "(int \<Rightarrow> int) \<Rightarrow> int \<Rightarrow> int \<Rightarrow> bool" and ready :: "(int \<Rightarrow> int) \<Rightarrow> int \<Rightarrow> bool" and meets :: "int \<Rightarrow> int \<Rightarrow> bool"
    and inv :: "'s \<Rightarrow> bool" and lo dmin dmax :: int
  assumes near_adv: "near adv"
    and near_ready: "g (k - 1) = g' (k - 1) \<Longrightarrow> g (k + 1) = g' (k + 1) \<Longrightarrow> ready g k = ready g' k"
    and stop: "k < lo \<Longrightarrow> L k d = Some (d, None)"
    and step: "inv d \<Longrightarrow> dmin \<le> lo \<Longrightarrow> lo \<le> k \<Longrightarrow> k \<le> dmax \<Longrightarrow> ready (val d) k \<Longrightarrow>
      \<exists>x d'. adv (val d) k x \<and> inv d' \<and> (\<forall>j. dmin - 1 \<le> j \<longrightarrow> j \<le> dmax + 1 \<longrightarrow> val d' j = (if j = k then x else val d j))
        \<and> L k d = (if meets k x then Some (d', Some (x, x - k)) else L (k - 2) d')"
begin

lemma run:
  "inv d \<Longrightarrow> dmin \<le> lo \<Longrightarrow> k \<le> dmax \<Longrightarrow> (\<And>j. lo \<le> j \<Longrightarrow> j \<le> k \<Longrightarrow> even (k - j) \<Longrightarrow> ready (val d) j)
    \<Longrightarrow> \<exists>d' met. L k d = Some (d', met) \<and> inv d' \<and> outcome adv meets lo dmin dmax (val d) (val d') k met"
proof (induction "nat (k + 1 - lo)" arbitrary: k d rule: less_induct)
  case less
  show ?case
  proof (cases "k < lo")
    case True
    then show ?thesis using less.prems(1) stop by (auto simp: outcome_def round_done_def intro!: exI[of _ None])
  next
    case False
    then obtain x d' where x: "adv (val d) k x" "inv d'" "L k d = (if meets k x then Some (d', Some (x, x - k)) else L (k - 2) d')"
      and g': "\<And>j. dmin - 1 \<le> j \<Longrightarrow> j \<le> dmax + 1 \<Longrightarrow> val d' j = (if j = k then x else val d j)"
      using step[OF less.prems(1,2) _ less.prems(3)] less.prems(4)[of k] by auto
    show ?thesis
    proof (cases "meets k x")
      case True
      have "outcome adv meets lo dmin dmax (val d) (val d') k (Some (x, x - k))"
        unfolding outcome_def option.case using x(1) True False by (intro exI[of _ k]) auto
      then show ?thesis using x True by auto
    next
      case no: False
      have near: "adv (val d') j = adv (val d) j" "ready (val d') j = ready (val d) j" if "lo \<le> j" "j \<le> k - 2" for j
        using that less.prems(2,3) g' by (intro near_cong[OF near_adv], simp, simp, intro near_ready) simp_all
      have "even (k - 2 - j) \<Longrightarrow> even (k - j)" for j by presburger
      then obtain d2 met where r: "L (k - 2) d' = Some (d2, met)" "inv d2" "outcome adv meets lo dmin dmax (val d') (val d2) (k - 2) met"
        using less.hyps[of "k - 2" d', OF _ x(2) less.prems(2)] less.prems(3,4) near(2) False by fastforce
      have "outcome adv meets lo dmin dmax (val d) (val d2) k met"
      proof (cases met)
        case None
        with r(3) have "round_done adv (val d') meets dmin dmax (val d2) lo (k - 2)" by (simp add: outcome_def)
        then have "round_done adv (val d) meets dmin dmax (val d2) lo k"
          using x(1) no False less.prems(2,3)
          by (intro round_done_step[where x = x and g' = "val d'" and meets = meets, OF near_adv _ _ _ _ _ _ _ g']) auto
        then show ?thesis using None by (simp add: outcome_def)
      next
        case (Some p)
        then obtain j where j: "lo \<le> j" "j \<le> k - 2" "even (k - 2 - j)" "adv (val d') j (fst p)" "snd p = fst p - j" "meets j (fst p)"
          using r(3) by (auto simp: outcome_def)
        moreover have "even (k - j)" using j(3) by presburger
        ultimately show ?thesis unfolding outcome_def using Some near(1)[OF j(1,2)] by (auto intro!: exI[of _ j])
      qed
      then show ?thesis using r x(3) no by auto
    qed
  qed
qed

end

text \<open>The forward sweep, from a differ \<open>d0\<close> of which only the forward values change.\<close>

definition fwd_from :: "differ \<Rightarrow> int \<Rightarrow> int \<Rightarrow> int \<Rightarrow> int \<Rightarrow> differ \<Rightarrow> bool" where
  "fwd_from d0 xoff xlim yoff ylim d \<longleftrightarrow> box d0 xoff xlim yoff ylim \<and> (\<exists>fd. d = d0\<lparr>d_fd := fd\<rparr> \<and> length fd = length (d_fd d0))"

definition bwd_from :: "differ \<Rightarrow> int \<Rightarrow> int \<Rightarrow> int \<Rightarrow> int \<Rightarrow> differ \<Rightarrow> bool" where
  "bwd_from d0 xoff xlim yoff ylim d \<longleftrightarrow> box d0 xoff xlim yoff ylim \<and> (\<exists>bd. d = d0\<lparr>d_bd := bd\<rparr> \<and> length bd = length (d_bd d0))"

lemma fwd_step:
  assumes d: "fwd_from d0 xoff xlim yoff ylim d" and k: "xoff - ylim \<le> fmin" "fmin \<le> k" "k \<le> xlim - yoff"
    and ready: "xoff \<le> start_of (fv d) k \<and> yoff \<le> start_of (fv d) k - k"
  shows "\<exists>x d'. advanced (cell d0 xoff xlim yoff ylim) (fv d) k x \<and> fwd_from d0 xoff xlim yoff ylim d'
      \<and> (\<forall>j. xoff - ylim - 1 \<le> j \<longrightarrow> j \<le> xlim - yoff + 1 \<longrightarrow> fv d' j = (if j = k then x else fv d j))
      \<and> fwd_loop xlim ylim isodd bmin bmax fmin k d =
        (if isodd \<and> bmin \<le> k \<and> k \<le> bmax \<and> bv d0 k \<le> x then Some (d', Some (x, x - k))
         else fwd_loop xlim ylim isodd bmin bmax fmin (k - 2) d')"
proof -
  let ?st = "start_of (fv d) k"
  have box: "box d xoff xlim yoff ylim" and m: "cell d0 = cell d" and bv: "bv d0 = bv d" using d by (auto simp: fwd_from_def)
  have i: "idx (d_fd d) (d_off d + k - 1) = Some (fv d (k - 1))" "idx (d_fd d) (d_off d + k + 1) = Some (fv d (k + 1))"
      "idx (d_bd d) (d_off d + k) = Some (bv d k)" "put (d_fd d) (d_off d + k) x = Some ((d_fd d)[nat (d_off d + k) := x])" for x
    using idx_in_range[OF box, of "k - 1"] idx_in_range[OF box, of "k + 1"] idx_in_range[OF box, of k] k by (simp_all add: algebra_simps)
  have st: "(if fv d (k - 1) < fv d (k + 1) then fv d (k + 1) else fv d (k - 1) + 1) = ?st" by (auto simp: start_of_def)
  obtain n where n: "fwd_snake d xlim ylim ?st (?st - k) = Some (?st + n, ?st + n - k)"
      "advanced (cell d xoff xlim yoff ylim) (fv d) k (?st + n)"
    using fwd_snake_run[OF box, of ?st "?st - k"] ready by (auto simp: advanced_def algebra_simps)
  let ?d' = "d\<lparr>d_fd := (d_fd d)[nat (d_off d + k) := ?st + n]\<rparr>"
  have "fwd_from d0 xoff xlim yoff ylim ?d'" using d by (auto simp: fwd_from_def)
  moreover have "fwd_loop xlim ylim isodd bmin bmax fmin k d =
        (if isodd \<and> bmin \<le> k \<and> k \<le> bmax \<and> bv d k \<le> ?st + n then Some (?d', Some (?st + n, ?st + n - k))
         else fwd_loop xlim ylim isodd bmin bmax fmin (k - 2) ?d')"
    using k by (subst fwd_loop.simps) (simp add: i st n(1) Let_def)
  ultimately show ?thesis using n(2) value_put(1)[OF box, of k] k unfolding m bv by (intro exI[of _ "?st + n"] exI[of _ ?d']) auto
qed

interpretation fw: sweep "fwd_loop xlim ylim isodd bmin bmax fmin" fv "advanced (cell d0 xoff xlim yoff ylim)"
  "\<lambda>g k. xoff \<le> start_of g k \<and> yoff \<le> start_of g k - k" "\<lambda>j x. isodd \<and> bmin \<le> j \<and> j \<le> bmax \<and> bv d0 j \<le> x"
  "fwd_from d0 xoff xlim yoff ylim" fmin "xoff - ylim" "xlim - yoff" for xoff xlim yoff ylim isodd bmin bmax fmin d0
proof (unfold_locales, goal_cases)
  case (2 g k g')
  then show ?case using start_of_cong[of g k g'] by simp
next
  case (4 d k)
  then show ?case by (intro fwd_step) auto
qed (simp_all add: near_adv fwd_loop.simps)

text \<open>The backward sweep.\<close>

definition start_back :: "(int \<Rightarrow> int) \<Rightarrow> int \<Rightarrow> int" where
  "start_back g k = min (g (k - 1)) (g (k + 1) - 1)"

lemma start_mirror: "start_of (\<lambda>j. - g (- j)) (- k) = - start_back g k"
  by (simp add: start_of_def start_back_def minus_min_eq_max max.commute add.commute)

lemma retreated_iff: "retreated m g k x \<longleftrightarrow> path m 0 (x, x - k) (start_back g k, start_back g k - k) \<and> \<not> m (x - 1) (x - k - 1)"
  using path_mirror_iff[of m 0 "start_back g k" "start_back g k - k" x "x - k"]
  by (simp add: retreated_def advanced_def start_mirror mirror_def algebra_simps)

lemma bwd_step:
  assumes d: "bwd_from d0 xoff xlim yoff ylim d" and k: "xoff - ylim \<le> bmin" "bmin \<le> k" "k \<le> xlim - yoff"
    and ready: "start_back (bv d) k \<le> xlim \<and> start_back (bv d) k - k \<le> ylim"
  shows "\<exists>x d'. retreated (cell d0 xoff xlim yoff ylim) (bv d) k x \<and> bwd_from d0 xoff xlim yoff ylim d'
      \<and> (\<forall>j. xoff - ylim - 1 \<le> j \<longrightarrow> j \<le> xlim - yoff + 1 \<longrightarrow> bv d' j = (if j = k then x else bv d j))
      \<and> bwd_loop xoff yoff isodd fmin fmax bmin k d =
        (if \<not> isodd \<and> fmin \<le> k \<and> k \<le> fmax \<and> x \<le> fv d0 k then Some (d', Some (x, x - k))
         else bwd_loop xoff yoff isodd fmin fmax bmin (k - 2) d')"
proof -
  let ?st = "start_back (bv d) k"
  have box: "box d xoff xlim yoff ylim" and m: "cell d0 = cell d" and fv: "fv d0 = fv d" using d by (auto simp: bwd_from_def)
  have i: "idx (d_bd d) (d_off d + k - 1) = Some (bv d (k - 1))" "idx (d_bd d) (d_off d + k + 1) = Some (bv d (k + 1))"
      "idx (d_fd d) (d_off d + k) = Some (fv d k)" "put (d_bd d) (d_off d + k) x = Some ((d_bd d)[nat (d_off d + k) := x])" for x
    using idx_in_range[OF box, of "k - 1"] idx_in_range[OF box, of "k + 1"] idx_in_range[OF box, of k] k by (simp_all add: algebra_simps)
  have st: "(if bv d (k - 1) < bv d (k + 1) then bv d (k - 1) else bv d (k + 1) - 1) = ?st" by (auto simp: start_back_def)
  obtain n where n: "bwd_snake d xoff yoff ?st (?st - k) = Some (?st - n, ?st - n - k)"
      "retreated (cell d xoff xlim yoff ylim) (bv d) k (?st - n)"
    using bwd_snake_run[OF box, of ?st "?st - k"] ready by (auto simp: retreated_iff algebra_simps)
  let ?d' = "d\<lparr>d_bd := (d_bd d)[nat (d_off d + k) := ?st - n]\<rparr>"
  have "bwd_from d0 xoff xlim yoff ylim ?d'" using d by (auto simp: bwd_from_def)
  moreover have "bwd_loop xoff yoff isodd fmin fmax bmin k d =
        (if \<not> isodd \<and> fmin \<le> k \<and> k \<le> fmax \<and> ?st - n \<le> fv d k then Some (?d', Some (?st - n, ?st - n - k))
         else bwd_loop xoff yoff isodd fmin fmax bmin (k - 2) ?d')"
    using k by (subst bwd_loop.simps) (simp add: i st n(1) Let_def)
  ultimately show ?thesis using n(2) value_put(2)[OF box, of k] k unfolding m fv by (intro exI[of _ "?st - n"] exI[of _ ?d']) auto
qed

interpretation bw: sweep "bwd_loop xoff yoff isodd fmin fmax bmin" bv "retreated (cell d0 xoff xlim yoff ylim)"
  "\<lambda>g k. start_back g k \<le> xlim \<and> start_back g k - k \<le> ylim" "\<lambda>j x. \<not> isodd \<and> fmin \<le> j \<and> j \<le> fmax \<and> x \<le> fv d0 j"
  "bwd_from d0 xoff xlim yoff ylim" bmin "xoff - ylim" "xlim - yoff" for xoff xlim yoff ylim isodd fmin fmax bmin d0
proof (unfold_locales, goal_cases)
  case (2 g k g')
  then show ?case by (simp add: start_back_def)
next
  case (4 d k)
  then show ?case by (intro bwd_step) auto
qed (simp_all add: near_adv bwd_loop.simps)

section \<open>The search\<close>

lemma widen_run:
  assumes "0 \<le> off + dmin - 1" "off + dmax + 1 < int (length v)" "dmin \<le> lo" "lo \<le> hi" "hi \<le> dmax"
  shows "\<exists>v'. widen off dmin dmax sentinel lo hi v = Some (widened_lo dmin lo, widened_hi dmax hi, v') \<and> length v' = length v
    \<and> (\<forall>k. dmin - 1 \<le> k \<longrightarrow> k \<le> dmax + 1 \<longrightarrow> v' ! nat (off + k) =
         (if (lo > dmin \<and> k = lo - 2) \<or> (hi < dmax \<and> k = hi + 2) then sentinel else v ! nat (off + k)))"
proof -
  define v1 where "v1 = (if lo > dmin then v[nat (off + (lo - 1) - 1) := sentinel] else v)"
  define v2 where "v2 = (if hi < dmax then v1[nat (off + (hi + 1) + 1) := sentinel] else v1)"
  have "widen off dmin dmax sentinel lo hi v = Some (widened_lo dmin lo, widened_hi dmax hi, v2)"
    using assms by (auto simp: widen_def put_def widened_lo_def widened_hi_def v1_def v2_def)
  moreover have "v2 ! nat (off + k) = (if (lo > dmin \<and> k = lo - 2) \<or> (hi < dmax \<and> k = hi + 2) then sentinel else v ! nat (off + k))"
    if "dmin - 1 \<le> k" "k \<le> dmax + 1" for k
    using assms that by (auto simp: v1_def v2_def nth_list_update nat_eq_iff2)
  moreover have "length v2 = length v" by (simp add: v1_def v2_def)
  ultimately show ?thesis by blast
qed

lemma read_values_widen:
  assumes "dmin \<le> lo" "lo \<le> hi" "hi \<le> dmax"
    and "\<And>k. dmin - 1 \<le> k \<Longrightarrow> k \<le> dmax + 1 \<Longrightarrow> g k = (if (lo > dmin \<and> k = lo - 2) \<or> (hi < dmax \<and> k = hi + 2) then sentinel else f k)"
  shows "read_values dmin dmax sentinel lo hi f g"
  using assms by (auto simp: read_values_def active_def)

definition backward :: "differ \<Rightarrow> int \<Rightarrow> int" where "backward d k = - bv d (- k)"

text \<open>After \<open>c\<close> rounds: both frontiers, and no path with at most \<open>2 * c\<close> edits.\<close>

definition searching :: "differ \<Rightarrow> int \<Rightarrow> int \<Rightarrow> int \<Rightarrow> int \<Rightarrow> nat \<Rightarrow> int \<Rightarrow> int \<Rightarrow> int \<Rightarrow> int \<Rightarrow> bool" where
  "searching d xoff xlim yoff ylim c fmin fmax bmin bmax \<longleftrightarrow> box d xoff xlim yoff ylim
     \<and> frontier (cell d xoff xlim yoff ylim) xoff yoff xlim ylim c fmin fmax (fv d)
     \<and> frontier (mirror (cell d xoff xlim yoff ylim)) (- xlim) (- ylim) (- xoff) (- yoff) c (- bmax) (- bmin) (backward d)
     \<and> (\<forall>t \<le> 2 * c. \<not> path (cell d xoff xlim yoff ylim) t (xoff, yoff) (xlim, ylim))"

text \<open>A proper rectangle, trimmed at both ends.\<close>

definition trimmed :: "differ \<Rightarrow> int \<Rightarrow> int \<Rightarrow> int \<Rightarrow> int \<Rightarrow> bool" where
  "trimmed d xoff xlim yoff ylim \<longleftrightarrow> box d xoff xlim yoff ylim \<and> xoff < xlim \<and> yoff < ylim
     \<and> \<not> cell d xoff xlim yoff ylim xoff yoff \<and> \<not> cell d xoff xlim yoff ylim (xlim - 1) (ylim - 1)"

definition inside :: "int \<Rightarrow> int \<Rightarrow> int \<Rightarrow> int \<Rightarrow> int \<Rightarrow> int \<Rightarrow> bool" where
  "inside xoff xlim yoff ylim x y \<longleftrightarrow> xoff \<le> x \<and> x \<le> xlim \<and> yoff \<le> y \<and> y \<le> ylim \<and> (x, y) \<noteq> (xoff, yoff) \<and> (x, y) \<noteq> (xlim, ylim)"

definition same_marks :: "differ \<Rightarrow> differ \<Rightarrow> bool" where
  "same_marks d d' \<longleftrightarrow> d_x d' = d_x d \<and> d_y d' = d_y d \<and> d_delX d' = d_delX d \<and> d_insY d' = d_insY d \<and> d_off d' = d_off d
     \<and> d_tooExpensive d' = d_tooExpensive d \<and> length (d_fd d') = length (d_fd d) \<and> length (d_bd d') = length (d_bd d)"

lemma same_marks_refl: "same_marks d d"
  by (simp add: same_marks_def)

lemma same_marks_trans: "same_marks d d' \<Longrightarrow> same_marks d' d'' \<Longrightarrow> same_marks d d''"
  by (simp add: same_marks_def)

lemma same_marks_upd:
  "length fd = length (d_fd d) \<Longrightarrow> same_marks d (d\<lparr>d_fd := fd\<rparr>)" "length bd = length (d_bd d) \<Longrightarrow> same_marks d (d\<lparr>d_bd := bd\<rparr>)"
  by (simp_all add: same_marks_def)

lemma same_marks_keeps:
  "same_marks d d' \<Longrightarrow> box d' = box d" "same_marks d d' \<Longrightarrow> cell d' = cell d" "same_marks d d' \<Longrightarrow> d_tooExpensive d' = d_tooExpensive d"
  "same_marks d d' \<Longrightarrow> trimmed d' = trimmed d"
  by (auto simp: same_marks_def box_def sized_def cell_def trimmed_def fun_eq_iff)

lemma path_parity: "path m t (xoff, yoff) (xlim, ylim) \<Longrightarrow> odd t \<longleftrightarrow> (((xoff - yoff) - (xlim - ylim)) mod 2 \<noteq> 0)"
  using path_bounds(5)[of m t xoff yoff xlim ylim] by presburger

lemma trimmed_two: "trimmed d xoff xlim yoff ylim \<Longrightarrow> \<not> path (cell d xoff xlim yoff ylim) 1 (xoff, yoff) (xlim, ylim)"
  using path_two[of "cell d xoff xlim yoff ylim" 1 xoff yoff xlim ylim] by (auto simp: trimmed_def)

lemma active_top: "even (hi - lo) \<Longrightarrow> active lo hi j \<longleftrightarrow> lo \<le> j \<and> j \<le> hi \<and> even (hi - j)"
  unfolding active_def by presburger

lemma meet_parity:
  "even (a - p - int (Suc c)) \<Longrightarrow> even (j - a) \<Longrightarrow> even (- b - (- ex - - ey) - int c) \<Longrightarrow> (p - (ex - ey)) mod 2 \<noteq> 0 \<Longrightarrow> even (- j - - b)"
  by presburger

text \<open>The forward half of a round.\<close>

definition forward_done :: "differ \<Rightarrow> int \<Rightarrow> int \<Rightarrow> int \<Rightarrow> int \<Rightarrow> nat \<Rightarrow> int \<Rightarrow> int \<Rightarrow> int \<Rightarrow> int \<Rightarrow> bool" where
  "forward_done d xoff xlim yoff ylim c fmin fmax bmin bmax \<longleftrightarrow> box d xoff xlim yoff ylim
     \<and> frontier (cell d xoff xlim yoff ylim) xoff yoff xlim ylim (Suc c) fmin fmax (fv d)
     \<and> frontier (mirror (cell d xoff xlim yoff ylim)) (- xlim) (- ylim) (- xoff) (- yoff) c (- bmax) (- bmin) (backward d)
     \<and> (\<forall>t \<le> 2 * c + 1. \<not> path (cell d xoff xlim yoff ylim) t (xoff, yoff) (xlim, ylim))"

lemma forward_half:
  assumes S: "searching d xoff xlim yoff ylim c fmin fmax bmin bmax" and T: "trimmed d xoff xlim yoff ylim"
    and isodd: "isodd = (((xoff - yoff) - (xlim - ylim)) mod 2 \<noteq> 0)"
  shows "\<exists>fd d' met. widen (d_off d) (xoff - ylim) (xlim - yoff) (-1) fmin fmax (d_fd d) =
        Some (widened_lo (xoff - ylim) fmin, widened_hi (xlim - yoff) fmax, fd)
      \<and> fwd_loop xlim ylim isodd bmin bmax (widened_lo (xoff - ylim) fmin) (widened_hi (xlim - yoff) fmax) (d\<lparr>d_fd := fd\<rparr>) = Some (d', met)
      \<and> same_marks d d' \<and> (case met of None \<Rightarrow> forward_done d' xoff xlim yoff ylim c (widened_lo (xoff - ylim) fmin) (widened_hi (xlim - yoff) fmax) bmin bmax
         | Some (x, y) \<Rightarrow> inside xoff xlim yoff ylim x y)"
proof -
  let ?m = "cell d xoff xlim yoff ylim" and ?lo = "widened_lo (xoff - ylim) fmin" and ?hi = "widened_hi (xlim - yoff) fmax"
  have box: "box d xoff xlim yoff ylim" and F: "frontier ?m xoff yoff xlim ylim c fmin fmax (fv d)"
    and B: "frontier (mirror ?m) (- xlim) (- ylim) (- xoff) (- yoff) c (- bmax) (- bmin) (backward d)"
    and none: "\<And>t. t \<le> 2 * c \<Longrightarrow> \<not> path ?m t (xoff, yoff) (xlim, ylim)" using S by (auto simp: searching_def)
  have proper: "xoff < xlim" "yoff < ylim" "0 \<le> xoff" using T box by (auto simp: trimmed_def box_def)
  have D: "xoff - ylim \<le> fmin" "fmin \<le> fmax" "fmax \<le> xlim - yoff" using frontierD(1)[OF F] by (auto simp: diagonals_def)
  have D': "diagonals xoff yoff xlim ylim (Suc c) ?lo ?hi" using diagonals_widen[OF frontierD(1)[OF F] proper(1,2)] .
  then have top: "active ?lo ?hi j \<longleftrightarrow> ?lo \<le> j \<and> j \<le> ?hi \<and> even (?hi - j)" for j
    by (intro active_top) (auto simp: diagonals_def)
  obtain fd where w: "widen (d_off d) (xoff - ylim) (xlim - yoff) (-1) fmin fmax (d_fd d) = Some (?lo, ?hi, fd)" "length fd = length (d_fd d)"
    and fd: "\<And>k. xoff - ylim - 1 \<le> k \<Longrightarrow> k \<le> xlim - yoff + 1 \<Longrightarrow> fd ! nat (d_off d + k) =
         (if (fmin > xoff - ylim \<and> k = fmin - 2) \<or> (fmax < xlim - yoff \<and> k = fmax + 2) then - 1 else d_fd d ! nat (d_off d + k))"
    using widen_run[of "d_off d" "xoff - ylim" "xlim - yoff" "d_fd d" fmin fmax "-1"] D box by (auto simp: box_def sized_def)
  let ?d1 = "d\<lparr>d_fd := fd\<rparr>"
  have g: "read_values (xoff - ylim) (xlim - yoff) (-1) fmin fmax (fv d) (fv ?d1)"
    using D fd by (intro read_values_widen) (auto simp: fv_def)
  have reach: "path ?m (Suc c) (xoff, yoff) (start_of (fv ?d1) j, start_of (fv ?d1) j - j)" if "active ?lo ?hi j" for j
    using start_reached[OF F g _ that] proper by simp
  have ready: "xoff \<le> start_of (fv ?d1) j \<and> yoff \<le> start_of (fv ?d1) j - j" if "?lo \<le> j" "j \<le> ?hi" "even (?hi - j)" for j
    using path_bounds(1,2)[OF reach[of j]] that top by simp
  have "fwd_from ?d1 xoff xlim yoff ylim ?d1" using box w(2) by (auto simp: fwd_from_def intro!: exI[of _ fd])
  then obtain d' met where r: "fwd_loop xlim ylim isodd bmin bmax ?lo ?hi ?d1 = Some (d', met)" "fwd_from ?d1 xoff xlim yoff ylim d'"
    and o: "outcome (advanced (cell ?d1 xoff xlim yoff ylim)) (\<lambda>j x. isodd \<and> bmin \<le> j \<and> j \<le> bmax \<and> bv ?d1 j \<le> x) ?lo (xoff - ylim) (xlim - yoff)
        (fv ?d1) (fv d') ?hi met"
    using fw.run[of ?d1 xoff xlim yoff ylim ?d1 ?lo ?hi isodd bmin bmax, OF _ _ _ ready] D' by (auto simp: diagonals_def)
  have sm: "same_marks d d'" using r(2) w(2) by (auto simp: fwd_from_def intro!: same_marks_upd)
  have bv: "bv d' = bv d" using r(2) by (auto simp: fwd_from_def)
  have m: "cell d' = cell d" "box d' = box d" using same_marks_keeps sm by auto
  have "case met of None \<Rightarrow> forward_done d' xoff xlim yoff ylim c ?lo ?hi bmin bmax | Some (x, y) \<Rightarrow> inside xoff xlim yoff ylim x y"
  proof (cases met)
    case None
    have h: "advanced ?m (fv ?d1) k (fv d' k) \<and> \<not> (isodd \<and> bmin \<le> k \<and> k \<le> bmax \<and> bv d k \<le> fv d' k)" if "active ?lo ?hi k" for k
    proof -
      have "round_done (advanced ?m) (fv ?d1) (\<lambda>j x. isodd \<and> bmin \<le> j \<and> j \<le> bmax \<and> bv d j \<le> x) (xoff - ylim) (xlim - yoff) (fv d') ?lo ?hi"
        using o None by (simp add: outcome_def)
      from round_doneD[OF this, of k] that top[of k] D' show ?thesis by (auto simp: diagonals_def)
    qed
    then have F': "frontier ?m xoff yoff xlim ylim (Suc c) ?lo ?hi (fv d')"
      using frontier_round[OF F proper(1,2) g] proper(3) by auto
    have "\<not> path ?m (2 * c + 1) (xoff, yoff) (xlim, ylim)"
    proof (cases isodd)
      case True
      have "fv d' k < bv d k" if "active ?lo ?hi k" "active bmin bmax k" for k using h[OF that(1)] that(2) True by (auto simp: active_def)
      from apart_no_path[OF F', of c bmax bmin "bv d"] this show ?thesis using B unfolding backward_def[abs_def] by (simp add: mult_2)
    next
      case False
      then show ?thesis using path_parity[of ?m "2 * c + 1" xoff yoff xlim ylim] isodd by auto
    qed
    with none have "\<forall>t \<le> 2 * c + 1. \<not> path ?m t (xoff, yoff) (xlim, ylim)" by (auto simp: le_Suc_eq)
    moreover have "backward d' = backward d" using bv by (simp add: backward_def[abs_def])
    ultimately show ?thesis using None F' B box m by (simp add: forward_done_def)
  next
    case (Some p)
    obtain x y j where p: "p = (x, y)" "active ?lo ?hi j" "advanced ?m (fv ?d1) j x" "y = x - j" "isodd" "bmin \<le> j" "j \<le> bmax"
      using o Some top by (cases p) (auto simp: outcome_def)
    have P: "path ?m (Suc c) (xoff, yoff) (x, y)" using advanced_reached[OF F g _ p(2,3)] p(4) proper by simp
    have "even (?lo - (xoff - yoff) - int (Suc c))" "even (j - ?lo)" "even (- bmax - (- xlim - - ylim) - int c)"
      using D' p(2) frontierD(1)[OF B] unfolding diagonals_def active_def by blast+
    from meet_parity[OF this] have "active (- bmax) (- bmin) (- j)" using p(5-7) isodd unfolding active_def by linarith
    from path_bounds(4)[OF frontierD(2)[OF B this]] have "\<bar>(xlim - ylim) - (x - y)\<bar> \<le> int c" using p(4) by simp
    with meet_inside[OF _ proper(1,2) _ P, of c] none trimmed_two[OF T] have "x \<le> xlim" "y \<le> ylim" "(x, y) \<noteq> (xlim, ylim)"
      by (auto simp: cell_def)
    then show ?thesis using path_bounds(1-3)[OF P] Some p(1) by (auto simp: inside_def)
  qed
  then show ?thesis using w(1) r(1) sm by blast
qed

lemma widened_mirror: "widened_lo (- dmax) (- hi) = - widened_hi dmax hi" "widened_hi (- dmin) (- lo) = - widened_lo dmin lo"
  by (auto simp: widened_lo_def widened_hi_def)

text \<open>The backward half.\<close>

lemma backward_half:
  assumes S: "forward_done d xoff xlim yoff ylim c fmin fmax bmin bmax" and T: "trimmed d xoff xlim yoff ylim"
    and isodd: "isodd = (((xoff - yoff) - (xlim - ylim)) mod 2 \<noteq> 0)"
  shows "\<exists>bd d' met. widen (d_off d) (xoff - ylim) (xlim - yoff) MaxInt bmin bmax (d_bd d) =
        Some (widened_lo (xoff - ylim) bmin, widened_hi (xlim - yoff) bmax, bd)
      \<and> bwd_loop xoff yoff isodd fmin fmax (widened_lo (xoff - ylim) bmin) (widened_hi (xlim - yoff) bmax) (d\<lparr>d_bd := bd\<rparr>) = Some (d', met)
      \<and> same_marks d d' \<and> (case met of None \<Rightarrow> searching d' xoff xlim yoff ylim (Suc c) fmin fmax (widened_lo (xoff - ylim) bmin) (widened_hi (xlim - yoff) bmax)
         | Some (x, y) \<Rightarrow> inside xoff xlim yoff ylim x y)"
proof -
  let ?m = "cell d xoff xlim yoff ylim" and ?lo = "widened_lo (xoff - ylim) bmin" and ?hi = "widened_hi (xlim - yoff) bmax"
  have box: "box d xoff xlim yoff ylim" and F: "frontier ?m xoff yoff xlim ylim (Suc c) fmin fmax (fv d)"
    and B: "frontier (mirror ?m) (- xlim) (- ylim) (- xoff) (- yoff) c (- bmax) (- bmin) (backward d)"
    and none: "\<And>t. t \<le> 2 * c + 1 \<Longrightarrow> \<not> path ?m t (xoff, yoff) (xlim, ylim)" using S by (auto simp: forward_done_def)
  have proper: "xoff < xlim" "yoff < ylim" "- xlim < - xoff" "- ylim < - yoff" "- MaxInt < - xlim"
    using T box by (auto simp: trimmed_def box_def sized_def MaxInt_def)
  have e: "- xlim - - yoff = - (xlim - yoff)" "- xoff - - ylim = - (xoff - ylim)" by simp_all
  have D: "xoff - ylim \<le> bmin" "bmin \<le> bmax" "bmax \<le> xlim - yoff" using frontierD(1)[OF B] by (auto simp: diagonals_def)
  have D': "diagonals (- xlim) (- ylim) (- xoff) (- yoff) (Suc c) (- ?hi) (- ?lo)"
    using diagonals_widen[OF frontierD(1)[OF B] proper(3,4)] unfolding e widened_mirror .
  then have top: "active (- ?hi) (- ?lo) (- j) \<longleftrightarrow> ?lo \<le> j \<and> j \<le> ?hi \<and> even (?hi - j)" for j
    by (auto simp: active_def diagonals_def)
  obtain bd where w: "widen (d_off d) (xoff - ylim) (xlim - yoff) MaxInt bmin bmax (d_bd d) = Some (?lo, ?hi, bd)" "length bd = length (d_bd d)"
    and bd: "\<And>k. xoff - ylim - 1 \<le> k \<Longrightarrow> k \<le> xlim - yoff + 1 \<Longrightarrow> bd ! nat (d_off d + k) =
         (if (bmin > xoff - ylim \<and> k = bmin - 2) \<or> (bmax < xlim - yoff \<and> k = bmax + 2) then MaxInt else d_bd d ! nat (d_off d + k))"
    using widen_run[of "d_off d" "xoff - ylim" "xlim - yoff" "d_bd d" bmin bmax MaxInt] D box by (auto simp: box_def sized_def)
  let ?d1 = "d\<lparr>d_bd := bd\<rparr>"
  have g: "read_values (- xlim - - yoff) (- xoff - - ylim) (- MaxInt) (- bmax) (- bmin) (backward d) (backward ?d1)"
  proof (intro read_values_widen)
    fix k assume "- xlim - - yoff - 1 \<le> k" "k \<le> - xoff - - ylim + 1"
    then show "backward ?d1 k = (if (- bmax > - xlim - - yoff \<and> k = - bmax - 2) \<or> (- bmin < - xoff - - ylim \<and> k = - bmin + 2) then - MaxInt else backward d k)"
      using bd[of "- k"] by (auto simp: backward_def bv_def split: if_splits)
  qed (use D in auto)
  have reach: "path (mirror ?m) (Suc c) (- xlim, - ylim) (- start_back (bv ?d1) j, - start_back (bv ?d1) j - - j)" if "active (- ?hi) (- ?lo) (- j)" for j
    using start_reached[OF B g proper(5), of "- j"] that unfolding e widened_mirror backward_def[abs_def] start_mirror by simp
  have ready: "start_back (bv ?d1) j \<le> xlim \<and> start_back (bv ?d1) j - j \<le> ylim" if "?lo \<le> j" "j \<le> ?hi" "even (?hi - j)" for j
    using path_bounds(1,2)[OF reach[of j]] that top by simp
  have "bwd_from ?d1 xoff xlim yoff ylim ?d1" using box w(2) by (auto simp: bwd_from_def intro!: exI[of _ bd])
  then obtain d' met where r: "bwd_loop xoff yoff isodd fmin fmax ?lo ?hi ?d1 = Some (d', met)" "bwd_from ?d1 xoff xlim yoff ylim d'"
    and o: "outcome (retreated (cell ?d1 xoff xlim yoff ylim)) (\<lambda>j x. \<not> isodd \<and> fmin \<le> j \<and> j \<le> fmax \<and> x \<le> fv ?d1 j) ?lo (xoff - ylim) (xlim - yoff)
        (bv ?d1) (bv d') ?hi met"
    using bw.run[of ?d1 xoff xlim yoff ylim ?d1 ?lo ?hi isodd fmin fmax, OF _ _ _ ready] D' by (auto simp: diagonals_def)
  have sm: "same_marks d d'" using r(2) w(2) by (auto simp: bwd_from_def intro!: same_marks_upd)
  have fv: "fv d' = fv d" using r(2) by (auto simp: bwd_from_def)
  have m: "cell d' = cell d" "box d' = box d" using same_marks_keeps sm by auto
  have "case met of None \<Rightarrow> searching d' xoff xlim yoff ylim (Suc c) fmin fmax ?lo ?hi | Some (x, y) \<Rightarrow> inside xoff xlim yoff ylim x y"
  proof (cases met)
    case None
    have h: "retreated ?m (bv ?d1) k (bv d' k) \<and> \<not> (\<not> isodd \<and> fmin \<le> k \<and> k \<le> fmax \<and> bv d' k \<le> fv d k)" if "active (- ?hi) (- ?lo) (- k)" for k
    proof -
      have "round_done (retreated ?m) (bv ?d1) (\<lambda>j x. \<not> isodd \<and> fmin \<le> j \<and> j \<le> fmax \<and> x \<le> fv d j) (xoff - ylim) (xlim - yoff) (bv d') ?lo ?hi"
        using o None by (simp add: outcome_def)
      from round_doneD[OF this, of k] that top[of k] D' show ?thesis by (auto simp: diagonals_def)
    qed
    have "advanced (mirror ?m) (backward ?d1) k (backward d' k)" if "active (- ?hi) (- ?lo) k" for k
      using h[of "- k"] that by (simp add: retreated_def backward_def[abs_def])
    then have B': "frontier (mirror ?m) (- xlim) (- ylim) (- xoff) (- yoff) (Suc c) (- ?hi) (- ?lo) (backward d')"
      using frontier_round[OF B proper(3,4) g proper(5)] unfolding e widened_mirror by blast
    have "\<not> path ?m (2 * Suc c) (xoff, yoff) (xlim, ylim)"
    proof (cases isodd)
      case False
      have "fv d k < bv d' k" if "active fmin fmax k" "active ?lo ?hi k" for k
        using h[of k] that False top[of k] D' by (auto simp: active_def diagonals_def)
      from apart_no_path[OF F, of "Suc c" ?hi ?lo "bv d'"] this show ?thesis using B' unfolding backward_def[abs_def] by (simp add: mult_2)
    next
      case True
      then show ?thesis using path_parity[of ?m "2 * Suc c" xoff yoff xlim ylim] isodd by auto
    qed
    with none have "\<forall>t \<le> 2 * Suc c. \<not> path ?m t (xoff, yoff) (xlim, ylim)" by (auto simp: le_Suc_eq)
    then show ?thesis using None F B' box m fv by (simp add: searching_def)
  next
    case (Some p)
    obtain x y j where p: "p = (x, y)" "active (- ?hi) (- ?lo) (- j)" "retreated ?m (bv ?d1) j x" "y = x - j" "\<not> isodd" "fmin \<le> j" "j \<le> fmax"
      using o Some top by (cases p) (auto simp: outcome_def)
    have P: "path (mirror ?m) (Suc c) (- xlim, - ylim) (- x, - y)"
      using advanced_reached[OF B g proper(5), of "- j" "- x"] p(2-4) unfolding e widened_mirror retreated_def backward_def[abs_def] by simp
    have "even (fmin - (xoff - yoff) - int (Suc c))" "even (- j - - ?hi)" "even (- ?hi - (- xlim - - ylim) - int (Suc c))"
      using frontierD(1)[OF F] p(2) D' unfolding diagonals_def active_def by blast+
    then have "active fmin fmax j" using p(5-7) isodd unfolding active_def by presburger
    from path_bounds(4)[OF frontierD(2)[OF F this]] have q: "\<bar>(- xoff - - yoff) - (- x - - y)\<bar> \<le> int (Suc c)" using p(4) by simp
    have "\<not> path (mirror ?m) t (- xlim, - ylim) (- xoff, - yoff)" if "int t < int (Suc c) + int (Suc c)" for t
      using none[of t] that path_mirror_iff[of ?m t xlim ylim xoff yoff] by auto
    with meet_inside[OF _ proper(3,4) _ P q] trimmed_two[OF T] path_mirror_iff[of ?m 1 xlim ylim xoff yoff]
    have "- x \<le> - xoff" "- y \<le> - yoff" "(- x, - y) \<noteq> (- xoff, - yoff)" by (auto simp: cell_def mirror_def)
    then show ?thesis using path_bounds(1-3)[OF P] Some p(1) by (auto simp: inside_def)
  qed
  then show ?thesis using w(1) r(1) sm by blast
qed

section \<open>Giving up\<close>

definition clamp :: "int \<Rightarrow> int \<Rightarrow> int \<Rightarrow> int \<Rightarrow> int \<times> int" where
  "clamp xlim ylim f k = (let x = min f xlim; y = x - k in if ylim < y then (ylim + k, ylim) else (x, y))"

lemma clamp_inside:
  assumes F: "frontier m sx sy ex ey (Suc c) lo hi f" and m: "\<And>x y. m x y \<Longrightarrow> x < ex \<and> y < ey" and "sx < ex" "sy < ey"
    and none: "\<And>t. t \<le> 2 * Suc c \<Longrightarrow> \<not> path m t (sx, sy) (ex, ey)" and k: "active lo hi k"
  shows "case clamp ex ey (f k) k of (x, y) \<Rightarrow> inside sx ex sy ey x y"
proof -
  have p: "path m (Suc c) (sx, sy) (f k, f k - k)" using frontierD(2)[OF F k] .
  have d: "sx - ey \<le> k" "k \<le> ex - sy" using frontierD(1)[OF F] k by (auto simp: diagonals_def active_def)
  obtain t where t: "path m t (sx, sy) (min (f k) ex, min (f k - k) ey)" "int t + (f k - min (f k) ex) + (f k - k - min (f k - k) ey) \<le> int (Suc c)"
    using path_clip[OF m p] assms(3,4) by auto
  have "\<not> (min (f k) ex = ex \<and> min (f k - k) ey = ey)" using none[of t] t by auto
  then show ?thesis using path_bounds(1-3)[OF p] d assms(3,4) by (auto simp: clamp_def Let_def inside_def min_def split: if_splits)
qed

text \<open>Both searches for the furthest point keep the best candidate of a sweep.\<close>

locale best_of =
  fixes L :: "int \<Rightarrow> int \<times> int \<Rightarrow> (int \<times> int) option" and cand :: "int \<Rightarrow> int \<times> int" and better :: "int \<Rightarrow> int \<Rightarrow> bool" and lo dmax :: int
    and ready :: bool
  assumes better_trans: "better a b \<Longrightarrow> better b c \<Longrightarrow> better a c" and better_irrefl: "\<not> better a a"
    and stop: "k < lo \<Longrightarrow> L k best = Some best"
    and step: "ready \<Longrightarrow> lo \<le> k \<Longrightarrow> k \<le> dmax \<Longrightarrow> L k best = L (k - 2) (if better (fst (cand k)) (fst best) then cand k else best)"
begin

lemma run: "ready \<Longrightarrow> k \<le> dmax \<Longrightarrow> \<exists>b. L k best = Some b \<and> (b = best \<or> better (fst b) (fst best) \<and> (\<exists>j. lo \<le> j \<and> j \<le> k \<and> even (k - j) \<and> b = cand j))
    \<and> (lo \<le> k \<longrightarrow> better (fst (cand k)) (fst best) \<longrightarrow> b \<noteq> best)"
proof (induction "nat (k + 1 - lo)" arbitrary: k best rule: less_induct)
  case less
  show ?case
  proof (cases "k < lo")
    case False
    define best' where "best' = (if better (fst (cand k)) (fst best) then cand k else best)"
    have small: "nat (k - 2 + 1 - lo) < nat (k + 1 - lo)" "k - 2 \<le> dmax" using False less.prems by linarith+
    from less.hyps[OF small(1) less.prems(1) small(2), of best'] obtain b where b: "L (k - 2) best' = Some b"
        "b = best' \<or> better (fst b) (fst best') \<and> (\<exists>j. lo \<le> j \<and> j \<le> k - 2 \<and> even (k - 2 - j) \<and> b = cand j)" by blast
    have from_j: "\<exists>j. lo \<le> j \<and> j \<le> k \<and> even (k - j) \<and> b = cand j" if "lo \<le> j" "j \<le> k - 2" "even (k - 2 - j)" "b = cand j" for j
      using that by (intro exI[of _ j]) auto
    have from_k: "\<exists>j. lo \<le> j \<and> j \<le> k \<and> even (k - j) \<and> cand k = cand j" using False by (intro exI[of _ k]) auto
    have "L k best = Some b" using step[OF less.prems(1) _ less.prems(2)] False b(1) by (simp add: best'_def)
    then show ?thesis
    proof (cases "better (fst (cand k)) (fst best)")
      case True
      then have "better (fst b) (fst best)" using b(2) better_trans by (auto simp: best'_def)
      then show ?thesis using \<open>L k best = Some b\<close> b(2) from_j from_k True better_irrefl by (auto simp: best'_def)
    qed (use b(2) from_j \<open>L k best = Some b\<close> in \<open>auto simp: best'_def\<close>)
  qed (simp add: stop)
qed

end

interpretation fb: best_of "fwd_best d xlim ylim fmin" "\<lambda>k. case clamp xlim ylim (fv d k) k of (x, y) \<Rightarrow> (x + y, x)" "\<lambda>a b. b < a" fmin "xlim - yoff"
  "box d xoff xlim yoff ylim \<and> xoff - ylim \<le> fmin" for d xoff xlim yoff ylim fmin
proof (unfold_locales, goal_cases)
  case (4 k best)
  then have "idx (d_fd d) (d_off d + k) = Some (fv d k)" using idx_in_range(1)[of d xoff xlim yoff ylim k] by simp
  then show ?case using 4 by (subst fwd_best.simps) (auto simp: clamp_def Let_def split: if_splits)
qed (simp_all add: fwd_best.simps)

interpretation bb: best_of "bwd_best d xoff yoff bmin" "\<lambda>k. case clamp (- xoff) (- yoff) (backward d (- k)) (- k) of (x, y) \<Rightarrow> (- x - y, - x)" "\<lambda>a b. a < b"
  bmin "xlim - yoff" "box d xoff xlim yoff ylim \<and> xoff - ylim \<le> bmin" for d xoff xlim yoff ylim bmin
proof (unfold_locales, goal_cases)
  case (4 k best)
  then have "idx (d_bd d) (d_off d + k) = Some (bv d k)" using idx_in_range(2)[of d xoff xlim yoff ylim k] by simp
  then show ?case using 4 by (subst bwd_best.simps) (auto simp: clamp_def Let_def backward_def min_def max_def add.commute split: if_splits)
qed (simp_all add: bwd_best.simps)

lemma inside_mirror: "inside (- xlim) (- xoff) (- ylim) (- yoff) x y \<longleftrightarrow> inside xoff xlim yoff ylim (- x) (- y)"
  by (auto simp: inside_def)

lemma capped_split_run:
  assumes S: "searching d xoff xlim yoff ylim (Suc c) fmin fmax bmin bmax" and T: "trimmed d xoff xlim yoff ylim"
  shows "\<exists>x y lo hi. capped_split d xoff xlim yoff ylim fmin fmax bmin bmax = Some (d, x, y, lo, hi) \<and> inside xoff xlim yoff ylim x y"
proof -
  let ?m = "cell d xoff xlim yoff ylim"
  let ?f = "\<lambda>k. clamp xlim ylim (fv d k) k" and ?b = "\<lambda>k. clamp (- xoff) (- yoff) (backward d (- k)) (- k)"
  have box: "box d xoff xlim yoff ylim" and F: "frontier ?m xoff yoff xlim ylim (Suc c) fmin fmax (fv d)"
    and B: "frontier (mirror ?m) (- xlim) (- ylim) (- xoff) (- yoff) (Suc c) (- bmax) (- bmin) (backward d)"
    and none: "\<And>t. t \<le> 2 * Suc c \<Longrightarrow> \<not> path ?m t (xoff, yoff) (xlim, ylim)" using S by (auto simp: searching_def)
  have none': "\<not> path (mirror ?m) t (- xlim, - ylim) (- xoff, - yoff)" if "t \<le> 2 * Suc c" for t
    using none[OF that] path_mirror_iff[of ?m t xlim ylim xoff yoff] by simp
  have proper: "xoff < xlim" "yoff < ylim" using T by (auto simp: trimmed_def)
  have D: "xoff - ylim \<le> fmin" "fmin \<le> fmax" "fmax \<le> xlim - yoff" "even (fmax - fmin)"
      "xoff - ylim \<le> bmin" "bmin \<le> bmax" "bmax \<le> xlim - yoff" "even (bmax - bmin)"
    using frontierD(1)[OF F] frontierD(1)[OF B] by (auto simp: diagonals_def)
  have f: "case ?f k of (x, y) \<Rightarrow> inside xoff xlim yoff ylim x y" if "fmin \<le> k" "k \<le> fmax" "even (fmax - k)" for k
    using clamp_inside[OF F _ proper none] that D(4) active_top[of fmax fmin k] by (auto simp: cell_def)
  have b: "case ?b k of (x, y) \<Rightarrow> inside xoff xlim yoff ylim (- x) (- y)" if "bmin \<le> k" "k \<le> bmax" "even (bmax - k)" for k
    using clamp_inside[OF B _ _ _ none', of "- k"] that proper D(8) by (auto simp: cell_def mirror_def active_def inside_mirror)
  have "- 1 < fst (case ?f fmax of (x, y) \<Rightarrow> (x + y, x))" using f[of fmax] D(2) box by (auto simp: inside_def box_def split: prod.splits)
  with fb.run[OF conjI[OF box D(1)] D(3), of "(- 1, 0)"] D(2)
  obtain p where p: "fwd_best d xlim ylim fmin fmax (- 1, 0) = Some p" "\<exists>k. fmin \<le> k \<and> k \<le> fmax \<and> even (fmax - k) \<and> p = (case ?f k of (x, y) \<Rightarrow> (x + y, x))"
    unfolding fst_conv by blast
  have "fst (case ?b bmax of (x, y) \<Rightarrow> (- x - y, - x)) < MaxInt"
    using b[of bmax] D(6) box by (auto simp: inside_def box_def sized_def MaxInt_def split: prod.splits)
  with bb.run[OF conjI[OF box D(5)] D(7), of "(MaxInt, 0)"] D(6)
  obtain q where q: "bwd_best d xoff yoff bmin bmax (MaxInt, 0) = Some q" "\<exists>k. bmin \<le> k \<and> k \<le> bmax \<and> even (bmax - k) \<and> q = (case ?b k of (x, y) \<Rightarrow> (- x - y, - x))"
    unfolding fst_conv by blast
  have "inside xoff xlim yoff ylim (snd p) (fst p - snd p)" "inside xoff xlim yoff ylim (snd q) (fst q - snd q)"
    using p(2) q(2) f b by (fastforce split: prod.splits)+
  then show ?thesis using p(1) q(1) by (auto simp: capped_split_def split: prod.splits)
qed

section \<open>The split\<close>

text \<open>The search cannot go on for ever: deleting one side and inserting the other is a path.\<close>

lemma searching_bound: "searching d xoff xlim yoff ylim c fmin fmax bmin bmax \<Longrightarrow> 2 * c < nat ((xlim - xoff) + (ylim - yoff))"
proof (rule ccontr)
  assume S: "searching d xoff xlim yoff ylim c fmin fmax bmin bmax" and "\<not> 2 * c < nat ((xlim - xoff) + (ylim - yoff))"
  let ?m = "cell d xoff xlim yoff ylim"
  have b: "xoff \<le> xlim" "yoff \<le> ylim" using S by (auto simp: searching_def box_def)
  then have "path ?m (nat (xlim - xoff) + nat (ylim - yoff)) (xoff, yoff) (xlim, ylim)"
    using path_trans[of ?m "nat (ylim - yoff)" "(xlim, yoff)" "(xlim, ylim)" "nat (xlim - xoff)" "(xoff, yoff)"]
      path_straight(2)[of ?m "nat (ylim - yoff)" xlim yoff] path_straight(1)[of ?m "nat (xlim - xoff)" xoff yoff] by simp
  moreover have "nat (xlim - xoff) + nat (ylim - yoff) \<le> 2 * c" using b \<open>\<not> 2 * c < _\<close> by linarith
  ultimately show False using S by (auto simp: searching_def)
qed

lemma split_loop_run:
  "searching d xoff xlim yoff ylim c fmin fmax bmin bmax \<Longrightarrow> trimmed d xoff xlim yoff ylim \<Longrightarrow>
    \<exists>d' x y lo hi. split_loop xoff xlim yoff ylim minimal (int c + 1) d fmin fmax bmin bmax = Some (d', x, y, lo, hi)
      \<and> same_marks d d' \<and> inside xoff xlim yoff ylim x y"
proof (induction "nat ((xlim - xoff) + (ylim - yoff)) - 2 * c" arbitrary: c d fmin fmax bmin bmax rule: less_induct)
  case less
  define isodd where "isodd = (((xoff - yoff) - (xlim - ylim)) mod 2 \<noteq> 0)"
  let ?flo = "widened_lo (xoff - ylim) fmin" and ?fhi = "widened_hi (xlim - yoff) fmax"
  let ?blo = "widened_lo (xoff - ylim) bmin" and ?bhi = "widened_hi (xlim - yoff) bmax"
  obtain fd d1 met where f: "widen (d_off d) (xoff - ylim) (xlim - yoff) (-1) fmin fmax (d_fd d) = Some (?flo, ?fhi, fd)"
      "fwd_loop xlim ylim isodd bmin bmax ?flo ?fhi (d\<lparr>d_fd := fd\<rparr>) = Some (d1, met)" "same_marks d d1"
      "case met of None \<Rightarrow> forward_done d1 xoff xlim yoff ylim c ?flo ?fhi bmin bmax | Some (x, y) \<Rightarrow> inside xoff xlim yoff ylim x y"
    using forward_half[OF less.prems isodd_def] by blast
  show ?case
  proof (cases met)
    case (Some p)
    then show ?thesis using f by (subst split_loop.simps) (auto simp: isodd_def Let_def split: prod.splits)
  next
    case None
    then have D: "forward_done d1 xoff xlim yoff ylim c ?flo ?fhi bmin bmax" and T: "trimmed d1 xoff xlim yoff ylim"
      using f(3,4) less.prems(2) same_marks_keeps(4) by auto
    obtain bd d2 met2 where b: "widen (d_off d1) (xoff - ylim) (xlim - yoff) MaxInt bmin bmax (d_bd d1) = Some (?blo, ?bhi, bd)"
        "bwd_loop xoff yoff isodd ?flo ?fhi ?blo ?bhi (d1\<lparr>d_bd := bd\<rparr>) = Some (d2, met2)" "same_marks d1 d2"
        "case met2 of None \<Rightarrow> searching d2 xoff xlim yoff ylim (Suc c) ?flo ?fhi ?blo ?bhi | Some (x, y) \<Rightarrow> inside xoff xlim yoff ylim x y"
      using backward_half[OF D T isodd_def] by blast
    have sm: "same_marks d d2" using same_marks_trans f(3) b(3) by blast
    show ?thesis
    proof (cases met2)
      case (Some p)
      then show ?thesis using f b None sm by (subst split_loop.simps) (auto simp: isodd_def Let_def split: prod.splits)
    next
      case no: None
      then have S: "searching d2 xoff xlim yoff ylim (Suc c) ?flo ?fhi ?blo ?bhi" and T: "trimmed d2 xoff xlim yoff ylim"
        using b(4) sm less.prems(2) same_marks_keeps(4) by auto
      have "split_loop xoff xlim yoff ylim minimal (int c + 1) d fmin fmax bmin bmax =
          (if minimal \<or> int c + 1 < d_tooExpensive d2 then split_loop xoff xlim yoff ylim minimal (int (Suc c) + 1) d2 ?flo ?fhi ?blo ?bhi
           else capped_split d2 xoff xlim yoff ylim ?flo ?fhi ?blo ?bhi)"
        using f(1,2) b(1,2) None no by (subst split_loop.simps) (simp add: isodd_def Let_def add.commute)
      moreover have "\<exists>d' x y lo hi. split_loop xoff xlim yoff ylim minimal (int (Suc c) + 1) d2 ?flo ?fhi ?blo ?bhi = Some (d', x, y, lo, hi)
          \<and> same_marks d2 d' \<and> inside xoff xlim yoff ylim x y"
        using searching_bound[OF less.prems(1)] by (intro less.hyps[OF _ S T] diff_less_mono2) simp_all
      ultimately show ?thesis using capped_split_run[OF S T] sm same_marks_trans by fastforce
    qed
  qed
qed

lemma searching_start:
  assumes T: "trimmed d xoff xlim yoff ylim" and "fv d (xoff - yoff) = xoff" "bv d (xlim - ylim) = xlim"
  shows "searching d xoff xlim yoff ylim 0 (xoff - yoff) (xoff - yoff) (xlim - ylim) (xlim - ylim)"
proof -
  let ?m = "cell d xoff xlim yoff ylim"
  have "\<not> path ?m 0 (xoff, yoff) (xlim, ylim)" using path_two[of ?m 0 xoff yoff xlim ylim] T by (auto simp: trimmed_def)
  moreover have "frontier ?m xoff yoff xlim ylim 0 (xoff - yoff) (xoff - yoff) (fv d)"
    using T assms(2) by (intro frontier_start) (auto simp: trimmed_def)
  moreover have "frontier (mirror ?m) (- xlim) (- ylim) (- xoff) (- yoff) 0 (- xlim - - ylim) (- xlim - - ylim) (backward d)"
    using T assms(3) by (intro frontier_start) (auto simp: trimmed_def backward_def mirror_def)
  moreover have "- xlim - - ylim = - (xlim - ylim)" by simp
  ultimately show ?thesis using T by (simp add: searching_def trimmed_def)
qed

theorem split_at_run:
  assumes T: "trimmed d xoff xlim yoff ylim"
  shows "\<exists>d' x y lo hi. split_at d xoff xlim yoff ylim minimal = Some (d', x, y, lo, hi) \<and> same_marks d d' \<and> inside xoff xlim yoff ylim x y"
proof -
  have box: "box d xoff xlim yoff ylim" and p: "xoff < xlim" "yoff < ylim" using T by (auto simp: trimmed_def)
  let ?fd = "(d_fd d)[nat (d_off d + (xoff - yoff)) := xoff]" and ?bd = "(d_bd d)[nat (d_off d + (xlim - ylim)) := xlim]"
  let ?d = "d\<lparr>d_fd := ?fd, d_bd := ?bd\<rparr>"
  have sm: "same_marks d ?d" by (simp add: same_marks_def)
  have "fv ?d (xoff - yoff) = xoff" "bv ?d (xlim - ylim) = xlim"
    using box p by (auto simp: fv_def bv_def box_def sized_def)
  then have "searching ?d xoff xlim yoff ylim 0 (xoff - yoff) (xoff - yoff) (xlim - ylim) (xlim - ylim)"
    using T same_marks_keeps(4)[OF sm] by (intro searching_start) auto
  from split_loop_run[OF this, of minimal] T same_marks_keeps(4)[OF sm] obtain d' x y lo hi
    where r: "split_loop xoff xlim yoff ylim minimal 1 ?d (xoff - yoff) (xoff - yoff) (xlim - ylim) (xlim - ylim) = Some (d', x, y, lo, hi)"
      "same_marks ?d d'" "inside xoff xlim yoff ylim x y" by auto
  have "put (d_fd d) (d_off d + (xoff - yoff)) xoff = Some ?fd" "put (d_bd d) (d_off d + (xlim - ylim)) xlim = Some ?bd"
    using idx_in_range(3,4)[OF box] p by auto
  then show ?thesis using r same_marks_trans[OF sm] by (auto simp: split_at_def Let_def)
qed

end
