(* ===== verification/DiffProps.thy ===== *)
theory DiffProps
  imports DiffSplit
begin

text \<open>
  What the diff promises: the divide and conquer ends and marks a common subsequence, the edit script turns one file
  into the other, and the unified hunks patch it.
\<close>

section \<open>Marks\<close>

text \<open>The lines of a range that are not marked.\<close>

definition kept :: "'a list \<Rightarrow> bool list \<Rightarrow> int \<Rightarrow> int \<Rightarrow> 'a list" where
  "kept xs marks lo hi = map (\<lambda>i. xs ! nat i) (filter (\<lambda>i. \<not> marks ! nat i) [lo..hi - 1])"

lemma kept_split: "lo \<le> mid \<Longrightarrow> mid \<le> hi \<Longrightarrow> kept xs marks lo hi = kept xs marks lo mid @ kept xs marks mid hi"
  by (cases "mid \<le> hi - 1") (auto simp: kept_def upto_split1[of lo mid "hi - 1"])

lemma kept_cong:
  "(\<And>i. lo \<le> i \<Longrightarrow> i < hi \<Longrightarrow> marks ! nat i = marks' ! nat i) \<Longrightarrow> kept xs marks lo hi = kept xs marks' lo hi"
  unfolding kept_def by (rule arg_cong[where f = "map _"], rule filter_cong) auto

lemma kept_none: "(\<And>i. lo \<le> i \<Longrightarrow> i < hi \<Longrightarrow> marks ! nat i) \<Longrightarrow> kept xs marks lo hi = []"
  by (auto simp: kept_def filter_empty_conv)

lemma kept_all: "(\<And>i. lo \<le> i \<Longrightarrow> i < hi \<Longrightarrow> \<not> marks ! nat i) \<Longrightarrow> kept xs marks lo hi = map (\<lambda>i. xs ! nat i) [lo..hi - 1]"
  by (auto simp: kept_def filter_id_conv)

lemma path_zero: "path m c p q \<Longrightarrow> c = 0 \<Longrightarrow> \<exists>n\<ge>0. q = (fst p + n, snd p + n) \<and> (\<forall>i. 0 \<le> i \<and> i < n \<longrightarrow> m (fst p + i) (snd p + i))"
proof (induction rule: path.induct)
  case (diag c p x y)
  then obtain n where n: "n \<ge> 0" "(x, y) = (fst p + n, snd p + n)" "\<forall>i. 0 \<le> i \<and> i < n \<longrightarrow> m (fst p + i) (snd p + i)" by blast
  then have "m (fst p + i) (snd p + i)" if "0 \<le> i" "i < n + 1" for i using that diag.hyps(2) by (cases "i = n") auto
  then show ?case using n by (intro exI[of _ "n + 1"]) auto
qed auto

text \<open>A run of matches that is not marked is kept on both sides.\<close>

lemma kept_run:
  assumes p: "path (cell d xoff xlim yoff ylim) 0 (x, y) (x + n, y + n)"
    and "\<And>i. x \<le> i \<Longrightarrow> i < x + n \<Longrightarrow> \<not> dels ! nat i" "\<And>i. y \<le> i \<Longrightarrow> i < y + n \<Longrightarrow> \<not> inss ! nat i"
  shows "kept (d_x d) dels x (x + n) = kept (d_y d) inss y (y + n)"
proof -
  have e: "d_x d ! nat (x + i) = d_y d ! nat (y + i)" if "0 \<le> i" "i < n" for i
    using path_zero[OF p] that by (auto simp: cell_def)
  have shift: "[a..a + n - 1] = map (\<lambda>i. a + i) [0..n - 1]" for a :: int
    by (rule nth_equalityI) auto
  show ?thesis using assms(2,3) e by (simp add: kept_all shift)
qed

lemma mark_run:
  "0 \<le> i \<Longrightarrow> lim \<le> int (length v) \<Longrightarrow> \<exists>v'. mark v i lim = Some v' \<and> length v' = length v
    \<and> (\<forall>j\<ge>0. v' ! nat j = (if i \<le> j \<and> j < lim then True else v ! nat j))"
proof (induction v i lim rule: mark.induct)
  case (1 v i lim)
  show ?case
  proof (cases "i < lim")
    case True
    then have p: "put v i True = Some (v[nat i := True])" using "1.prems" by (simp add: put_def)
    obtain v' where v': "mark (v[nat i := True]) (i + 1) lim = Some v'" "length v' = length v"
        "\<And>j. j \<ge> 0 \<Longrightarrow> v' ! nat j = (if i + 1 \<le> j \<and> j < lim then True else v[nat i := True] ! nat j)"
      using "1.IH"[OF True p] "1.prems" by auto
    have "v' ! nat j = (if i \<le> j \<and> j < lim then True else v ! nat j)" if "j \<ge> 0" for j
      using v'(3)[OF that] that True "1.prems" by (cases "j = i") (auto simp: nth_list_update)
    then show ?thesis using v' p True by (simp add: mark.simps[of v])
  qed (auto simp: mark.simps)
qed

section \<open>Divide and conquer\<close>

definition unmarked :: "differ \<Rightarrow> int \<Rightarrow> int \<Rightarrow> int \<Rightarrow> int \<Rightarrow> bool" where
  "unmarked d xoff xlim yoff ylim \<longleftrightarrow> (\<forall>i. xoff \<le> i \<and> i < xlim \<longrightarrow> \<not> d_delX d ! nat i) \<and> (\<forall>i. yoff \<le> i \<and> i < ylim \<longrightarrow> \<not> d_insY d ! nat i)"

definition marked_in :: "int \<Rightarrow> int \<Rightarrow> int \<Rightarrow> int \<Rightarrow> differ \<Rightarrow> differ \<Rightarrow> bool" where
  "marked_in xoff xlim yoff ylim d d' \<longleftrightarrow> d_x d' = d_x d \<and> d_y d' = d_y d \<and> (sized d \<longrightarrow> sized d')
     \<and> (\<forall>i\<ge>0. \<not> (xoff \<le> i \<and> i < xlim) \<longrightarrow> d_delX d' ! nat i = d_delX d ! nat i)
     \<and> (\<forall>i\<ge>0. \<not> (yoff \<le> i \<and> i < ylim) \<longrightarrow> d_insY d' ! nat i = d_insY d ! nat i)"

definition agree :: "differ \<Rightarrow> int \<Rightarrow> int \<Rightarrow> int \<Rightarrow> int \<Rightarrow> bool" where
  "agree d xoff xlim yoff ylim \<longleftrightarrow> kept (d_x d) (d_delX d) xoff xlim = kept (d_y d) (d_insY d) yoff ylim"

lemma marked_in_widen:
  "marked_in a b c e d d' \<Longrightarrow> xoff \<le> a \<Longrightarrow> b \<le> xlim \<Longrightarrow> yoff \<le> c \<Longrightarrow> e \<le> ylim \<Longrightarrow> marked_in xoff xlim yoff ylim d d'"
  unfolding marked_in_def by (auto; force)

lemma marked_in_trans: "marked_in xoff xlim yoff ylim d d' \<Longrightarrow> marked_in xoff xlim yoff ylim d' d'' \<Longrightarrow> marked_in xoff xlim yoff ylim d d''"
  unfolding marked_in_def by auto

lemma marked_in_kept:
  assumes "marked_in xoff xlim yoff ylim d d'"
  shows "0 \<le> a \<Longrightarrow> b \<le> xoff \<or> xlim \<le> a \<Longrightarrow> kept xs (d_delX d') a b = kept xs (d_delX d) a b"
    "0 \<le> a \<Longrightarrow> b \<le> yoff \<or> ylim \<le> a \<Longrightarrow> kept ys (d_insY d') a b = kept ys (d_insY d) a b"
  using assms by (auto intro!: kept_cong simp: marked_in_def)

lemma agree_glue:
  assumes "xoff \<le> xmid" "xmid \<le> xlim" "yoff \<le> ymid" "ymid \<le> ylim" "agree d xoff xmid yoff ymid" "agree d xmid xlim ymid ylim"
  shows "agree d xoff xlim yoff ylim"
  using assms(5,6) unfolding agree_def kept_split[OF assms(1,2)] kept_split[OF assms(3,4)] by simp

lemma agree_run:
  assumes "path (cell d xoff xlim yoff ylim) 0 (x, y) (x + n, y + n)" "unmarked d x (x + n) y (y + n)"
  shows "agree d x (x + n) y (y + n)"
  using kept_run[OF assms(1)] assms(2) by (simp add: agree_def unmarked_def)

lemma marked_in_cell: "marked_in a b c e d d' \<Longrightarrow> cell d' = cell d"
  by (simp add: marked_in_def cell_def fun_eq_iff)

lemma marked_in_box: "marked_in a b c e d d' \<Longrightarrow> box d xoff xlim yoff ylim \<Longrightarrow> box d' xoff xlim yoff ylim"
  by (simp add: marked_in_def box_def)

lemma marked_in_unmarked:
  assumes "marked_in a b c e d d'" "unmarked d xoff xlim yoff ylim" "0 \<le> xoff" "0 \<le> yoff" "xlim \<le> a \<or> b \<le> xoff" "ylim \<le> c \<or> e \<le> yoff"
  shows "unmarked d' xoff xlim yoff ylim"
  using assms unfolding marked_in_def unmarked_def by (auto; metis linorder_not_le order_trans order.strict_trans1)

lemma same_marks_marked: "same_marks d d' \<Longrightarrow> marked_in xoff xlim yoff ylim d d'"
  by (simp add: same_marks_def marked_in_def sized_def)

text \<open>The two recursive calls, given that each works.\<close>

lemma compare_halves:
  assumes box: "box d xoff xlim yoff ylim" "unmarked d xoff xlim yoff ylim" and mid: "xoff \<le> xmid" "xmid \<le> xlim" "yoff \<le> ymid" "ymid \<le> ylim"
    and lo: "\<And>d. box d xoff xmid yoff ymid \<Longrightarrow> unmarked d xoff xmid yoff ymid \<Longrightarrow>
        \<exists>d'. compare d xoff xmid yoff ymid m1 = Some d' \<and> marked_in xoff xmid yoff ymid d d' \<and> agree d' xoff xmid yoff ymid"
    and hi: "\<And>d. box d xmid xlim ymid ylim \<Longrightarrow> unmarked d xmid xlim ymid ylim \<Longrightarrow>
        \<exists>d'. compare d xmid xlim ymid ylim m2 = Some d' \<and> marked_in xmid xlim ymid ylim d d' \<and> agree d' xmid xlim ymid ylim"
  shows "\<exists>d'. do { d \<leftarrow> compare d xoff xmid yoff ymid m1; compare d xmid xlim ymid ylim m2 } = Some d'
    \<and> marked_in xoff xlim yoff ylim d d' \<and> agree d' xoff xlim yoff ylim"
proof -
  have z: "0 \<le> xoff" "0 \<le> yoff" using box by (auto simp: box_def)
  have "box d xoff xmid yoff ymid" "unmarked d xoff xmid yoff ymid" using box mid by (auto simp: box_def unmarked_def)
  then obtain d1 where 1: "compare d xoff xmid yoff ymid m1 = Some d1" "marked_in xoff xmid yoff ymid d d1" "agree d1 xoff xmid yoff ymid"
    using lo by blast
  have "box d xmid xlim ymid ylim" "unmarked d xmid xlim ymid ylim" using box mid by (auto simp: box_def unmarked_def)
  then have "box d1 xmid xlim ymid ylim" "unmarked d1 xmid xlim ymid ylim"
    using marked_in_box[OF 1(2)] marked_in_unmarked[OF 1(2)] mid z by auto
  then obtain d2 where 2: "compare d1 xmid xlim ymid ylim m2 = Some d2" "marked_in xmid xlim ymid ylim d1 d2" "agree d2 xmid xlim ymid ylim"
    using hi by blast
  have "agree d2 xoff xmid yoff ymid" using 1(3) 2(2) z marked_in_kept[OF 2(2), of xoff xmid "d_x d1"] marked_in_kept(2)[OF 2(2), of yoff ymid "d_y d1"]
    by (simp add: agree_def marked_in_def)
  then have "agree d2 xoff xlim yoff ylim" using agree_glue[OF mid] 2(3) by blast
  moreover have "marked_in xoff xlim yoff ylim d d2"
    using marked_in_trans[OF marked_in_widen[OF 1(2)] marked_in_widen[OF 2(2)]] mid by simp
  ultimately show ?thesis using 1(1) 2(1) by auto
qed

text \<open>The rest of the body once both ends are trimmed.\<close>

definition compare_body :: "differ \<Rightarrow> int \<Rightarrow> int \<Rightarrow> int \<Rightarrow> int \<Rightarrow> bool \<Rightarrow> differ option" where
  "compare_body d xoff xlim yoff ylim minimal =
     (if xoff = xlim then do { v \<leftarrow> mark (d_insY d) yoff ylim; Some (d\<lparr>d_insY := v\<rparr>) }
      else if yoff = ylim then do { v \<leftarrow> mark (d_delX d) xoff xlim; Some (d\<lparr>d_delX := v\<rparr>) }
      else do { (d, xmid, ymid, loMin, hiMin) \<leftarrow> split_at d xoff xlim yoff ylim minimal;
        d \<leftarrow> compare d xoff xmid yoff ymid loMin;
        compare d xmid xlim ymid ylim hiMin })"

lemma compare_body_run:
  assumes box: "box d xoff xlim yoff ylim" and u: "unmarked d xoff xlim yoff ylim"
    and stop: "\<not> cell d xoff xlim yoff ylim xoff yoff" "\<not> cell d xoff xlim yoff ylim (xlim - 1) (ylim - 1)"
    and IH: "\<And>d a b c e m. nat ((b - a) + (e - c)) < nat ((xlim - xoff) + (ylim - yoff)) \<Longrightarrow> box d a b c e \<Longrightarrow> unmarked d a b c e \<Longrightarrow>
        \<exists>d'. compare d a b c e m = Some d' \<and> marked_in a b c e d d' \<and> agree d' a b c e"
  shows "\<exists>d'. compare_body d xoff xlim yoff ylim minimal = Some d' \<and> marked_in xoff xlim yoff ylim d d' \<and> agree d' xoff xlim yoff ylim"
proof -
  have b: "0 \<le> xoff" "xoff \<le> xlim" "xlim \<le> int (length (d_delX d))" "0 \<le> yoff" "yoff \<le> ylim" "ylim \<le> int (length (d_insY d))" "sized d"
    using box by (auto simp: box_def sized_def)
  consider "xoff = xlim" | "xoff \<noteq> xlim" "yoff = ylim" | "xoff < xlim" "yoff < ylim" using b by linarith
  then show ?thesis
  proof cases
    case 1
    obtain v where v: "mark (d_insY d) yoff ylim = Some v" "length v = length (d_insY d)"
        "\<And>j. j \<ge> 0 \<Longrightarrow> v ! nat j = (if yoff \<le> j \<and> j < ylim then True else d_insY d ! nat j)"
      using mark_run[of yoff ylim "d_insY d"] b by auto
    have "agree (d\<lparr>d_insY := v\<rparr>) xoff xlim yoff ylim" using 1 v(3) b by (auto simp: agree_def kept_none)
    then show ?thesis using 1 v b by (auto simp: compare_body_def marked_in_def sized_def)
  next
    case 2
    obtain v where v: "mark (d_delX d) xoff xlim = Some v" "length v = length (d_delX d)"
        "\<And>j. j \<ge> 0 \<Longrightarrow> v ! nat j = (if xoff \<le> j \<and> j < xlim then True else d_delX d ! nat j)"
      using mark_run[of xoff xlim "d_delX d"] b by auto
    have "agree (d\<lparr>d_delX := v\<rparr>) xoff xlim yoff ylim" using 2 v(3) b by (auto simp: agree_def kept_none)
    then show ?thesis using 2 v b by (auto simp: compare_body_def marked_in_def sized_def)
  next
    case 3
    then have "trimmed d xoff xlim yoff ylim" using box stop by (simp add: trimmed_def)
    then obtain d0 xmid ymid lo hi where s: "split_at d xoff xlim yoff ylim minimal = Some (d0, xmid, ymid, lo, hi)" "same_marks d d0"
        "inside xoff xlim yoff ylim xmid ymid"
      using split_at_run by blast
    have d0: "box d0 xoff xlim yoff ylim" "unmarked d0 xoff xlim yoff ylim"
      using same_marks_keeps(1)[OF s(2)] box u s(2) by (auto simp: unmarked_def same_marks_def)
    have mid: "xoff \<le> xmid" "xmid \<le> xlim" "yoff \<le> ymid" "ymid \<le> ylim" using s(3) by (auto simp: inside_def)
    have small: "nat ((xmid - xoff) + (ymid - yoff)) < nat ((xlim - xoff) + (ylim - yoff))"
        "nat ((xlim - xmid) + (ylim - ymid)) < nat ((xlim - xoff) + (ylim - yoff))"
      using s(3) unfolding inside_def by auto
    from compare_halves[OF d0 mid IH[OF small(1)] IH[OF small(2)]] obtain d'
      where "do { d \<leftarrow> compare d0 xoff xmid yoff ymid lo; compare d xmid xlim ymid ylim hi } = Some d'"
        "marked_in xoff xlim yoff ylim d0 d'" "agree d' xoff xlim yoff ylim" by blast
    then show ?thesis using 3 s(1) marked_in_trans[OF same_marks_marked[OF s(2)]] by (auto simp: compare_body_def)
  qed
qed

lemma compare_run:
  "box d xoff xlim yoff ylim \<Longrightarrow> unmarked d xoff xlim yoff ylim \<Longrightarrow>
    \<exists>d'. compare d xoff xlim yoff ylim minimal = Some d' \<and> marked_in xoff xlim yoff ylim d d' \<and> agree d' xoff xlim yoff ylim"
proof (induction "nat ((xlim - xoff) + (ylim - yoff))" arbitrary: d xoff xlim yoff ylim minimal rule: less_induct)
  case less
  have b: "0 \<le> xoff" "xoff \<le> xlim" "0 \<le> yoff" "yoff \<le> ylim" using less.prems by (auto simp: box_def)
  obtain n where n: "0 \<le> n" "fwd_snake d xlim ylim xoff yoff = Some (xoff + n, yoff + n)"
      "path (cell d xoff xlim yoff ylim) 0 (xoff, yoff) (xoff + n, yoff + n)" "\<not> cell d xoff xlim yoff ylim (xoff + n) (yoff + n)"
      "xoff + n \<le> xlim" "yoff + n \<le> ylim"
    using fwd_snake_run[OF less.prems(1), of xoff yoff] b by auto
  have box1: "box d (xoff + n) xlim (yoff + n) ylim" using less.prems(1) n by (auto simp: box_def)
  obtain k where k: "0 \<le> k" "bwd_snake d (xoff + n) (yoff + n) xlim ylim = Some (xlim - k, ylim - k)"
      "path (cell d (xoff + n) xlim (yoff + n) ylim) 0 (xlim - k, ylim - k) (xlim, ylim)"
      "\<not> cell d (xoff + n) xlim (yoff + n) ylim (xlim - k - 1) (ylim - k - 1)" "xoff + n \<le> xlim - k" "yoff + n \<le> ylim - k"
    using bwd_snake_run[OF box1, of xlim ylim] n by auto
  let ?x = "xoff + n" and ?y = "yoff + n" and ?x' = "xlim - k" and ?y' = "ylim - k"
  have "box d ?x ?x' ?y ?y'" "unmarked d ?x ?x' ?y ?y'" using box1 k less.prems(2) n by (auto simp: box_def unmarked_def)
  moreover have "\<not> cell d ?x ?x' ?y ?y' ?x ?y" "\<not> cell d ?x ?x' ?y ?y' (?x' - 1) (?y' - 1)" using n(1,4) k(1,4) by (auto simp: cell_def)
  moreover have "nat ((?x' - ?x) + (?y' - ?y)) \<le> nat ((xlim - xoff) + (ylim - yoff))" using n k by linarith
  ultimately obtain d' where d': "compare_body d ?x ?x' ?y ?y' minimal = Some d'" "marked_in ?x ?x' ?y ?y' d d'" "agree d' ?x ?x' ?y ?y'"
    using compare_body_run[of d ?x ?x' ?y ?y' minimal] less.hyps by (meson order.strict_trans2)
  have "agree d' xoff ?x yoff ?y" "agree d' ?x' (?x' + k) ?y' (?y' + k)"
    using agree_run[of d' xoff xlim yoff ylim xoff yoff n] agree_run[of d' ?x xlim ?y ylim ?x' ?y' k] n(1,3) k(1,3) b
      marked_in_cell[OF d'(2)] marked_in_unmarked[OF d'(2), of xoff ?x yoff ?y] marked_in_unmarked[OF d'(2), of ?x' xlim ?y' ylim] less.prems(2) k(5,6) n(5,6)
    by (auto simp: unmarked_def)
  then have "agree d' xoff xlim yoff ylim"
    using d'(3) n k agree_glue[of xoff ?x ?x' yoff ?y ?y' d'] agree_glue[of xoff ?x' xlim yoff ?y' ylim d'] by simp
  moreover have "compare d xoff xlim yoff ylim minimal = Some d'"
    using d'(1) n(2) k(2) by (subst compare.simps) (simp add: compare_body_def)
  ultimately show ?case using marked_in_widen[OF d'(2)] n k by auto
qed

section \<open>Changed lines\<close>

definition unmarked_lines :: "bool list \<Rightarrow> 'a list \<Rightarrow> 'a list" where
  "unmarked_lines v xs = map snd (filter (\<lambda>x. \<not> fst x) (zip v xs))"

lemma unmarked_append: "length v = length xs \<Longrightarrow> unmarked_lines (v @ v') (xs @ xs') = unmarked_lines v xs @ unmarked_lines v' xs'"
  by (simp add: unmarked_lines_def)

lemma unmarked_replicate: "n = length xs \<Longrightarrow> unmarked_lines (replicate n False) xs = xs"
  by (induction xs arbitrary: n) (auto simp: unmarked_lines_def)

lemma unmarked_map: "unmarked_lines v (map f xs) = map f (unmarked_lines v xs)"
  by (simp add: unmarked_lines_def zip_map2 filter_map o_def case_prod_beta)

lemma unmarked_nth: "length v = length xs \<Longrightarrow> unmarked_lines v xs = map ((!) xs) (filter (\<lambda>i. \<not> v ! i) [0..<length xs])"
proof (induction v xs rule: list_induct2)
  case (Cons m v x xs)
  have "[0..<length (x # xs)] = 0 # map Suc [0..<length xs]" by (simp add: upt_conv_Cons map_Suc_upt del: upt_Suc)
  with Cons show ?case by (auto simp: unmarked_lines_def filter_map o_def simp del: upt_Suc)
qed (simp add: unmarked_lines_def)

lemma kept_unmarked: "length v = length xs \<Longrightarrow> kept xs v 0 (int (length xs)) = unmarked_lines v xs"
proof -
  have "[0..int n - 1] = map int [0..<n]" for n by (rule nth_equalityI) auto
  then show "length v = length xs \<Longrightarrow> ?thesis" by (simp add: kept_def unmarked_nth filter_map o_def)
qed

lemma common_prefix_take: "take (common_prefix xs ys) xs = take (common_prefix xs ys) ys"
    "common_prefix xs ys \<le> length xs" "common_prefix xs ys \<le> length ys"
  by (induction xs ys rule: common_prefix.induct) auto

lemma intern_run: "intern l ids = (i, ids') \<Longrightarrow> i < length ids' \<and> ids' ! i = l \<and> (\<exists>tl_ids. ids' = ids @ tl_ids)"
proof (cases "l \<in> set ids")
  case True
  assume "intern l ids = (i, ids')"
  with True have e: "i = length (takeWhile (\<lambda>x. x \<noteq> l) ids)" "ids' = ids" by (auto simp: intern_def)
  moreover have "i < length ids" using True e(1) length_takeWhile_le[of "\<lambda>x. x \<noteq> l" ids]
    by (metis (mono_tags, lifting) le_neq_implies_less takeWhile_eq_all_conv takeWhile_eq_take take_all order_refl)
  moreover then have "ids ! i = l" using e(1) nth_length_takeWhile[of "\<lambda>x. x \<noteq> l" ids] by auto
  ultimately show ?thesis by simp
qed (auto simp: intern_def)

lemma intern_all_run: "intern_all ls ids = (is, ids') \<Longrightarrow> map ((!) (ids' @ tl_ids)) is = ls \<and> (\<forall>i \<in> set is. i < length ids') \<and> (\<exists>m. ids' = ids @ m)"
proof (induction ls arbitrary: ids "is" tl_ids)
  case (Cons l ls)
  obtain i ids1 where 1: "intern l ids = (i, ids1)" by fastforce
  obtain js where 2: "intern_all ls ids1 = (js, ids')" "is = i # js" using Cons.prems 1 by (auto split: prod.splits)
  obtain m1 m2 where m: "ids1 = ids @ m1" "ids' = ids1 @ m2" using intern_run[OF 1] Cons.IH[OF 2(1)] by blast
  then show ?case using intern_run[OF 1] Cons.IH[OF 2(1), of tl_ids] 2(2) by (auto simp: nth_append)
qed auto

lemma mark_back_step:
  assumes "length index = length marked"
  shows "mark_back p (index @ [i]) (marked @ [b]) v = (if b then (mark_back p index marked v)[p + i := True] else mark_back p index marked v)"
proof -
  have "foldl (\<lambda>v k. if (marked @ [b]) ! k then v[p + (index @ [i]) ! k := True] else v) v [0..<length marked]
      = foldl (\<lambda>v k. if marked ! k then v[p + index ! k := True] else v) v [0..<length marked]"
    using assms by (intro foldl_cong) (auto simp: nth_append)
  then show ?thesis using assms by (simp add: mark_back_def nth_append)
qed

lemma mark_back_nth:
  "length index = length marked \<Longrightarrow> (\<forall>i \<in> set index. p + i < length v) \<Longrightarrow> length (mark_back p index marked v) = length v
    \<and> (\<forall>j < length v. mark_back p index marked v ! j = (v ! j \<or> (\<exists>k < length marked. marked ! k \<and> j = p + index ! k)))"
proof (induction index arbitrary: marked rule: rev_induct)
  case (snoc i index)
  then obtain ms b where ms: "marked = ms @ [b]" "length index = length ms" by (cases marked rule: rev_cases) auto
  from snoc.IH[OF ms(2)] snoc.prems have IH: "length (mark_back p index ms v) = length v"
      "\<And>j. j < length v \<Longrightarrow> mark_back p index ms v ! j = (v ! j \<or> (\<exists>k < length ms. ms ! k \<and> j = p + index ! k))" by auto
  have "(\<exists>k < length marked. marked ! k \<and> j = p + (index @ [i]) ! k) \<longleftrightarrow> (\<exists>k < length ms. ms ! k \<and> j = p + index ! k) \<or> (b \<and> j = p + i)" for j
  proof -
    have "(\<exists>k < Suc n. P k) \<longleftrightarrow> (\<exists>k < n. P k) \<or> P n" for n and P :: "nat \<Rightarrow> bool" using less_Suc_eq by auto
    moreover have "(marked ! k \<and> j = p + (index @ [i]) ! k) = (ms ! k \<and> j = p + index ! k)" if "k < length ms" for k
      using that ms by (simp add: nth_append)
    ultimately show ?thesis using ms by (simp add: nth_append cong: conj_cong)
  qed
  moreover have "mark_back p (index @ [i]) marked v = (if b then (mark_back p index ms v)[p + i := True] else mark_back p index ms v)"
    using mark_back_step[of index ms p i b v] ms by simp
  ultimately show ?case using IH snoc.prems(2) by (auto simp: nth_list_update)
qed (simp add: mark_back_def)

text \<open>What is left unmarked of a side: the lines of the search that it kept.\<close>

lemma unmarked_side:
  assumes idx: "index = filter (\<lambda>i. ids ! i \<in> S) [0..<length ids]" and marked: "length marked = length index"
  shows "unmarked_lines (mark_back 0 index marked (map (\<lambda>i. i \<notin> S) ids)) ids = unmarked_lines marked (map ((!) ids) index)"
proof -
  let ?v = "mark_back 0 index marked (map (\<lambda>i. i \<notin> S) ids)"
  have v: "length ?v = length ids" "\<And>j. j < length ids \<Longrightarrow> ?v ! j = (ids ! j \<notin> S \<or> (\<exists>k < length marked. marked ! k \<and> j = index ! k))"
    using mark_back_nth[of index marked 0 "map (\<lambda>i. i \<notin> S) ids"] marked idx by auto
  have dist: "distinct index" using idx by simp
  have "filter (\<lambda>j. \<not> ?v ! j) [0..<length ids] = filter (\<lambda>j. \<not> (\<exists>k < length marked. marked ! k \<and> j = index ! k)) index"
    unfolding idx filter_filter using v(2) idx by (intro filter_cong) auto
  also have "\<dots> = map ((!) index) (filter (\<lambda>k. \<not> marked ! k) [0..<length index])"
  proof -
    have "(\<exists>k' < length marked. marked ! k' \<and> index ! k = index ! k') \<longleftrightarrow> marked ! k" if "k < length index" for k
      using that dist marked by (metis nth_eq_iff_index_eq)
    then have "filter (\<lambda>k. \<not> (\<exists>k' < length marked. marked ! k' \<and> index ! k = index ! k')) [0..<length index] = filter (\<lambda>k. \<not> marked ! k) [0..<length index]"
      by (intro filter_cong) auto
    then show ?thesis using filter_map[of "\<lambda>j. \<not> (\<exists>k < length marked. marked ! k \<and> j = index ! k)" "(!) index" "[0..<length index]"]
      by (simp add: map_nth o_def)
  qed
  finally show ?thesis using v(1) marked by (simp add: unmarked_nth o_def)
qed

lemma mark_back_middle:
  "length index = length marked \<Longrightarrow> (\<forall>i \<in> set index. i < length mid)
    \<Longrightarrow> mark_back p index marked (replicate p False @ mid @ suf) = replicate p False @ mark_back 0 index marked mid @ suf"
proof (induction index arbitrary: marked rule: rev_induct)
  case (snoc i index)
  then obtain ms b where ms: "marked = ms @ [b]" "length index = length ms" by (cases marked rule: rev_cases) auto
  have "length (mark_back 0 index ms mid) = length mid" using mark_back_nth[of index ms 0 mid] ms snoc.prems by simp
  then show ?case using snoc ms by (simp add: mark_back_step list_update_append)
qed (simp add: mark_back_def)

lemma common_suffix:
  fixes a b :: "'a list"
  defines "p \<equiv> common_prefix a b" defines "s \<equiv> common_prefix (rev (drop p a)) (rev (drop p b))"
  obtains am bm pre suf where "a = pre @ am @ suf" "b = pre @ bm @ suf" "length pre = p" "length suf = s"
    "am = take (length a - s - p) (drop p a)" "bm = take (length b - s - p) (drop p b)"
proof -
  let ?a = "drop p a" and ?b = "drop p b"
  have le: "s \<le> length ?a" "s \<le> length ?b" "p \<le> length a" "p \<le> length b"
    using common_prefix_take(2,3)[of "rev ?a" "rev ?b"] common_prefix_take(2,3)[of a b] by (auto simp: p_def s_def)
  have "take s (rev ?a) = take s (rev ?b)" using common_prefix_take(1)[of "rev ?a" "rev ?b"] by (simp add: s_def)
  then have suf: "drop (length ?a - s) ?a = drop (length ?b - s) ?b" using le by (metis rev_rev_ident take_rev)
  have pre: "take p a = take p b" using common_prefix_take(1)[of a b] by (simp add: p_def)
  show thesis
  proof (rule that[of "take p a" "take (length ?a - s) ?a" "drop (length ?a - s) ?a" "take (length ?b - s) ?b"])
    show "a = take p a @ take (length ?a - s) ?a @ drop (length ?a - s) ?a" by (metis append_take_drop_id)
    show "b = take p a @ take (length ?b - s) ?b @ drop (length ?a - s) ?a" unfolding suf pre by (metis append_take_drop_id)
  qed (use le in \<open>auto simp: add.commute\<close>)
qed

lemma changes_run:
  assumes "length a + length b < 2 ^ 62"
  shows "\<exists>delA insB. changes a b costCap = Some (delA, insB) \<and> length delA = length a \<and> length insB = length b
    \<and> unmarked_lines delA a = unmarked_lines insB b"
proof -
  define p where "p = common_prefix a b"
  define s where "s = common_prefix (rev (drop p a)) (rev (drop p b))"
  obtain am bm pre suf where dec: "a = pre @ am @ suf" "b = pre @ bm @ suf" "length pre = p" "length suf = s"
      "take (length a - s - p) (drop p a) = am" "take (length b - s - p) (drop p b) = bm"
    using common_suffix[of a b] unfolding p_def s_def by metis
  obtain ai ids1 where ai: "intern_all am [] = (ai, ids1)" by fastforce
  obtain bi ids2 where bi: "intern_all bm ids1 = (bi, ids2)" by fastforce
  from intern_all_run[OF bi, of "[]"] obtain m where m: "ids2 = ids1 @ m" "map ((!) ids2) bi = bm" by auto
  with intern_all_run[OF ai, of m] have lines: "map ((!) ids2) ai = am" "map ((!) ids2) bi = bm" by auto
  then have len: "length ai = length am" "length bi = length bm" by (metis length_map)+
  define xIdx where "xIdx = filter (\<lambda>i. ai ! i \<in> set bi) [0..<length ai]"
  define yIdx where "yIdx = filter (\<lambda>j. bi ! j \<in> set ai) [0..<length bi]"
  let ?xs = "map ((!) ai) xIdx" and ?ys = "map ((!) bi) yIdx"
  have small: "length xIdx \<le> length am" "length yIdx \<le> length bm" using len length_filter_le by (metis xIdx_def yIdx_def length_upt diff_zero)+
  let ?d = "newDiffer ?xs ?ys costCap"
  have "box ?d 0 (int (length ?xs)) 0 (int (length ?ys))" "unmarked ?d 0 (int (length ?xs)) 0 (int (length ?ys))"
    using small assms dec(1,2) by (auto simp: box_def sized_def unmarked_def newDiffer_def Let_def)
  then obtain d where d: "compare ?d 0 (int (length ?xs)) 0 (int (length ?ys)) False = Some d"
      "marked_in 0 (int (length ?xs)) 0 (int (length ?ys)) ?d d" "agree d 0 (int (length ?xs)) 0 (int (length ?ys))"
    using compare_run by blast
  have xy: "d_x d = ?xs" "d_y d = ?ys" "length (d_delX d) = length xIdx" "length (d_insY d) = length yIdx"
    using d(2) \<open>box ?d _ _ _ _\<close> by (auto simp: marked_in_def box_def sized_def newDiffer_def Let_def)
  let ?delM = "mark_back 0 xIdx (d_delX d) (map (\<lambda>i. i \<notin> set bi) ai)" and ?insM = "mark_back 0 yIdx (d_insY d) (map (\<lambda>j. j \<notin> set ai) bi)"
  have "unmarked_lines ?delM ai = unmarked_lines (d_delX d) ?xs" "unmarked_lines ?insM bi = unmarked_lines (d_insY d) ?ys"
    using unmarked_side[OF xIdx_def xy(3)] unmarked_side[OF yIdx_def xy(4)] by auto
  moreover have "unmarked_lines (d_delX d) ?xs = unmarked_lines (d_insY d) ?ys"
    using d(3) kept_unmarked[of "d_delX d" ?xs] kept_unmarked[of "d_insY d" ?ys] xy by (simp add: agree_def)
  ultimately have mid: "unmarked_lines ?delM am = unmarked_lines ?insM bm" using lines by (metis unmarked_map)
  have lm: "length ?delM = length am" "length ?insM = length bm"
    using mark_back_nth[of xIdx "d_delX d" 0 "map (\<lambda>i. i \<notin> set bi) ai"] mark_back_nth[of yIdx "d_insY d" 0 "map (\<lambda>j. j \<notin> set ai) bi"] xy len
    by (auto simp: xIdx_def yIdx_def)
  have "changes a b costCap = Some (replicate p False @ ?delM @ replicate s False, replicate p False @ ?insM @ replicate s False)"
    using ai bi d(1) dec(5,6) mark_back_middle[of xIdx "d_delX d" "map (\<lambda>i. i \<notin> set bi) ai" p "replicate s False"]
      mark_back_middle[of yIdx "d_insY d" "map (\<lambda>j. j \<notin> set ai) bi" p "replicate s False"] xy
    unfolding changes_def p_def[symmetric] s_def[symmetric] by (simp add: Let_def p_def[symmetric] s_def[symmetric] xIdx_def yIdx_def)
  moreover have "unmarked_lines (replicate p False @ ?delM @ replicate s False) a = unmarked_lines (replicate p False @ ?insM @ replicate s False) b"
    using dec(1-4) mid lm by (simp add: unmarked_append unmarked_replicate)
  ultimately show ?thesis using dec(1-4) lm by auto
qed

section \<open>The edit script\<close>

definition op_kinds :: "diff_op list \<Rightarrow> bool" where
  "op_kinds ops \<longleftrightarrow> fst ` set ops \<subseteq> {CHR '' '', CHR ''-'', CHR ''+''}"

definition deletions_first :: "diff_op list \<Rightarrow> bool" where
  "deletions_first ops \<longleftrightarrow> successively (\<lambda>x y. \<not> (fst x = CHR ''+'' \<and> fst y = CHR ''-'')) ops"

lemma op_lines_Cons:
  "old_lines ((k, l) # ops) = (if k = CHR ''+'' then old_lines ops else l # old_lines ops)"
  "new_lines ((k, l) # ops) = (if k = CHR ''-'' then new_lines ops else l # new_lines ops)"
  "old_lines [] = []" "new_lines [] = []"
  by (simp_all add: old_lines_def new_lines_def)

definition script_ok :: "(bool \<times> string) list \<Rightarrow> (bool \<times> string) list \<Rightarrow> diff_op list \<Rightarrow> bool" where
  "script_ok as bs ops \<longleftrightarrow> old_lines ops = map snd as \<and> new_lines ops = map snd bs \<and> op_kinds ops \<and> deletions_first ops
     \<and> (as = [] \<or> \<not> fst (hd as) \<longrightarrow> ops = [] \<or> fst (hd ops) \<noteq> CHR ''-'')"

lemma script_ok_intros:
  "script_ok [] [] []"
  "script_ok as bs ops \<Longrightarrow> script_ok ((True, l) # as) bs ((CHR ''-'', l) # ops)"
  "script_ok as bs ops \<Longrightarrow> (as = [] \<or> \<not> fst (hd as)) \<Longrightarrow> script_ok as ((ins, l) # bs) ((CHR ''+'', l) # ops)"
  "script_ok as bs ops \<Longrightarrow> script_ok ((False, l) # as) ((False, l) # bs) ((CHR '' '', l) # ops)"
  by (auto simp: script_ok_def op_lines_Cons op_kinds_def deletions_first_def successively_Cons)

lemma script_run:
  "map snd (filter (\<lambda>x. \<not> fst x) as) = map snd (filter (\<lambda>x. \<not> fst x) bs) \<Longrightarrow> \<exists>ops. script as bs = Some ops \<and> script_ok as bs ops"
proof (induction as bs rule: script.induct)
  case 1
  then show ?case by (simp add: script_ok_intros)
next
  case (2 del l as bs)
  show ?case
  proof (cases del)
    case True
    then obtain ops where "script as bs = Some ops" "script_ok as bs ops" using 2 by auto
    then show ?thesis using True by (simp add: script_ok_intros)
  next
    case False
    then obtain ins l' bs' where bs: "bs = (ins, l') # bs'" using "2.prems" by (cases bs) auto
    show ?thesis
    proof (cases ins)
      case True
      with False bs obtain ops where "script ((del, l) # as) bs' = Some ops" "script_ok ((del, l) # as) bs' ops" using "2.IH"(3)[of "(ins, l')" bs' ins l'] "2.prems" by (auto simp del: script.simps)
      then show ?thesis using True False bs by (simp add: script_ok_intros)
    next
      case ins: False
      with False bs obtain ops where "script as bs' = Some ops" "script_ok as bs' ops" "l = l'" using "2.IH"(4)[of "(ins, l')" bs' ins l'] "2.prems" by (auto simp del: script.simps)
      then show ?thesis using ins False bs by (simp add: script_ok_intros)
    qed
  qed
next
  case (3 ins l' bs)
  then obtain ops where "script [] bs = Some ops" "script_ok [] bs ops" "ins" by (auto split: if_splits)
  then show ?case by (simp add: script_ok_intros)
qed

lemma zip_unmarked: "length v = length ls \<Longrightarrow> map snd (filter (\<lambda>x. \<not> fst x) (zip v ls)) = unmarked_lines v ls"
  by (simp add: unmarked_lines_def)

lemma diffOpsCap_run:
  assumes "length a + length b < 2 ^ 62"
  shows "\<exists>ops. diffOpsCap a b costCap = Some ops \<and> old_lines ops = a \<and> new_lines ops = b \<and> op_kinds ops \<and> deletions_first ops"
proof -
  obtain delA insB where ch: "changes a b costCap = Some (delA, insB)" "length delA = length a" "length insB = length b"
      "unmarked_lines delA a = unmarked_lines insB b" using changes_run[OF assms] by blast
  then have "map snd (filter (\<lambda>x. \<not> fst x) (zip delA a)) = map snd (filter (\<lambda>x. \<not> fst x) (zip insB b))" by (simp add: zip_unmarked)
  from script_run[OF this] ch show ?thesis by (auto simp: diffOpsCap_def script_ok_def)
qed

end
