(* ===== verification/DiffPatch.thy ===== *)
theory DiffPatch
  imports DiffProps
begin

text \<open>
  The hunks of a unified diff, read back by a patch program: \<open>patch\<close> is the reference reader of the format. It finds a hunk by the
  numbers of its header, refuses one that does not fit the old lines, and writes the new lines. The hunks the renderer cuts from an
  edit script rebuild the new file from the old one, and the text is empty only for equal files.
\<close>

section \<open>The reference reader\<close>

definition hunk_pos :: "nat \<Rightarrow> nat \<Rightarrow> nat" where
  "hunk_pos start count = (if count = 0 then start else start - 1)"

fun patch :: "nat \<Rightarrow> nat \<Rightarrow> hunk list \<Rightarrow> string list \<Rightarrow> string list option" where
  "patch apos bpos [] ls = Some ls"
| "patch apos bpos (h # hs) ls =
     (let apos' = hunk_pos (h_aStart h) (h_aCount h); bpos' = hunk_pos (h_bStart h) (h_bCount h); n = apos' - apos
      in if apos \<le> apos' \<and> n \<le> length ls \<and> bpos' = bpos + n \<and> take (h_aCount h) (drop n ls) = old_lines (h_ops h)
            \<and> h_aCount h = length (old_lines (h_ops h)) \<and> h_bCount h = length (new_lines (h_ops h))
         then do { ls' \<leftarrow> patch (apos' + h_aCount h) (bpos' + h_bCount h) hs (drop (n + h_aCount h) ls);
           Some (take n ls @ new_lines (h_ops h) @ ls') }
         else None)"

section \<open>Lines of a part of a script\<close>

lemma op_lines_append: "old_lines (xs @ ys) = old_lines xs @ old_lines ys" "new_lines (xs @ ys) = new_lines xs @ new_lines ys"
  by (simp_all add: old_lines_def new_lines_def)

lemma context_lines: "(\<forall>x \<in> set ops. fst x = CHR '' '') \<Longrightarrow> old_lines ops = new_lines ops"
  by (induction ops) (auto simp: op_lines_Cons)

lemma between_context:
  assumes "\<And>i. lo \<le> i \<Longrightarrow> i < hi \<Longrightarrow> i < length ops \<Longrightarrow> fst (ops ! i) = CHR '' ''"
  shows "old_lines (take (hi - lo) (drop lo ops)) = new_lines (take (hi - lo) (drop lo ops))"
proof (intro context_lines ballI)
  fix x assume "x \<in> set (take (hi - lo) (drop lo ops))"
  then obtain i where "i < hi - lo" "lo + i < length ops" "x = ops ! (lo + i)" by (auto simp: in_set_conv_nth)
  then show "fst x = CHR '' ''" using assms[of "lo + i"] by simp
qed

section \<open>Cutting the hunks\<close>

lemma last_near_run:
  "last_near c cs = (l, rest) \<Longrightarrow> sorted_wrt (<) (c # cs) \<Longrightarrow>
    c \<le> l \<and> l \<in> set (c # cs) \<and> set rest = {i \<in> set cs. l < i} \<and> sorted_wrt (<) rest \<and> (\<forall>i \<in> set rest. l + 2 * contextLines < i)"
proof (induction c cs rule: last_near.induct)
  case (2 l0 c cs)
  show ?case
  proof (cases "c - l0 \<le> 2 * contextLines")
    case True
    with 2 show ?thesis by (fastforce simp: contextLines_def)
  next
    case False
    with 2(2,3) show ?thesis by (fastforce simp: contextLines_def)
  qed
qed auto

text \<open>A hunk, between the lines before it and the lines after it.\<close>

lemma hunk_at_run:
  fixes ops :: "diff_op list"
  defines "stop \<equiv> \<lambda>l. min (length ops - 1) (l + contextLines)"
  assumes "c \<le> l" "l < length ops"
  shows "let start = c - contextLines; n = length (old_lines (take start ops)); m = length (new_lines (take start ops)); h = hunk_at ops c l in
    h_ops h = take (stop l + 1 - start) (drop start ops) \<and> h_aCount h = length (old_lines (h_ops h)) \<and> h_bCount h = length (new_lines (h_ops h))
    \<and> hunk_pos (h_aStart h) (h_aCount h) = n \<and> hunk_pos (h_bStart h) (h_bCount h) = m"
proof -
  have "c - contextLines \<le> stop l + 1" using assms by (auto simp: contextLines_def)
  then have "take (stop l + 1) ops = take (c - contextLines) ops @ take (stop l + 1 - (c - contextLines)) (drop (c - contextLines) ops)"
    by (metis le_add_diff_inverse take_add)
  then show ?thesis by (simp add: hunk_at_def hunk_pos_def Let_def op_lines_append stop_def)
qed

lemma patch_step:
  assumes "old_lines ctx = new_lines ctx" "h_aCount h = length (old_lines (h_ops h))" "h_bCount h = length (new_lines (h_ops h))"
    and "hunk_pos (h_aStart h) (h_aCount h) = apos + length (old_lines ctx)" "hunk_pos (h_bStart h) (h_bCount h) = bpos + length (new_lines ctx)"
    and "patch (apos + length (old_lines (ctx @ h_ops h))) (bpos + length (new_lines (ctx @ h_ops h))) hs (old_lines rest) = Some ls"
  shows "patch apos bpos (h # hs) (old_lines (ctx @ h_ops h @ rest)) = Some (new_lines (ctx @ h_ops h) @ ls)"
  using assms by (simp add: Let_def op_lines_append add.assoc)

lemma patch_hunks_from:
  assumes "sorted_wrt (<) cs" "set cs = {i. j \<le> i \<and> i < length ops \<and> fst (ops ! i) \<noteq> CHR '' ''}" "\<forall>i \<in> set cs. j \<le> i - contextLines"
    and "apos = length (old_lines (take j ops))" "bpos = length (new_lines (take j ops))"
  shows "patch apos bpos (hunks ops cs) (old_lines (drop j ops)) = Some (new_lines (drop j ops))"
  using assms
proof (induction ops cs arbitrary: j apos bpos rule: hunks.induct)
  case (1 ops)
  then have "fst (ops ! i) = CHR '' ''" if "j \<le> i" "i < length ops" for i using that by auto
  then show ?case using between_context[of j "length ops" ops] by simp
next
  case (2 ops c cs)
  obtain l rest where l: "last_near c cs = (l, rest)" by fastforce
  note near = last_near_run[OF l "2.prems"(1)]
  define start where "start = c - contextLines"
  define stop where "stop = min (length ops - 1) (l + contextLines)"
  have "c \<in> {i. j \<le> i \<and> i < length ops \<and> fst (ops ! i) \<noteq> CHR '' ''}" "l \<in> {i. j \<le> i \<and> i < length ops \<and> fst (ops ! i) \<noteq> CHR '' ''}"
    using near unfolding "2.prems"(2)[symmetric] by auto
  then have lc: "l < length ops" "j \<le> c" "c \<le> l" using near by auto
  then have in_ops: "j \<le> start" "start \<le> stop" "stop < length ops" "l \<le> stop"
    using "2.prems"(3) by (auto simp: start_def stop_def contextLines_def)
  define ctx where "ctx = take (start - j) (drop j ops)"
  let ?h = "hunk_at ops c l"
  note h = hunk_at_run[OF lc(3,1), unfolded Let_def, folded start_def stop_def]
  have h_ops: "h_ops ?h = take (stop + 1 - start) (drop start ops)" using h by blast
  have pre: "take start ops = take j ops @ ctx" using take_add[of j "start - j" ops] in_ops by (simp add: ctx_def)
  have upto: "take (stop + 1) ops = take j ops @ ctx @ h_ops ?h"
    using take_add[of start "stop + 1 - start" ops] in_ops pre by (simp add: h_ops)
  have "drop j (take (stop + 1) ops @ drop (stop + 1) ops) = ctx @ h_ops ?h @ drop (stop + 1) ops"
    unfolding upto using in_ops by simp
  then have dec: "drop j ops = ctx @ h_ops ?h @ drop (stop + 1) ops" by simp
  have "i \<notin> set (c # cs)" if "i < start" for i using that "2.prems"(1) by (auto simp: start_def)
  then have ctx: "old_lines ctx = new_lines ctx" unfolding ctx_def "2.prems"(2) by (intro between_context) auto
  have far: "stop + contextLines < i" if "i \<in> set rest" for i
    using that near by (force simp: stop_def contextLines_def)
  have "i \<in> set rest \<longleftrightarrow> i \<in> set (c # cs) \<and> stop < i" for i using near far[of i] in_ops lc by auto
  moreover have "j \<le> i" if "stop < i" for i using that in_ops by linarith
  ultimately have "set rest = {i. stop < i \<and> i < length ops \<and> fst (ops ! i) \<noteq> CHR '' ''}" unfolding "2.prems"(2) by blast
  then have rest: "set rest = {i. stop + 1 \<le> i \<and> i < length ops \<and> fst (ops ! i) \<noteq> CHR '' ''}" by (simp only: Suc_eq_plus1[symmetric] Suc_le_eq)
  have after: "\<forall>i \<in> set rest. stop + 1 \<le> i - contextLines" using far by (simp add: less_diff_conv Suc_le_eq)
  have sorted: "sorted_wrt (<) rest" using near by blast
  note IH = "2.IH"[OF l[symmetric] refl sorted rest after refl refl]
  have "patch apos bpos (?h # hunks ops rest) (old_lines (ctx @ h_ops ?h @ drop (stop + 1) ops)) = Some (new_lines (ctx @ h_ops ?h) @ new_lines (drop (stop + 1) ops))"
    using h[unfolded pre] IH[unfolded upto] ctx "2.prems"(4,5) by (intro patch_step) (auto simp: op_lines_append add.assoc)
  then show ?case unfolding dec using l by (simp add: op_lines_append del: patch.simps)
qed

lemma patch_hunks: "patch 0 0 (hunks ops (changed_at ops)) (old_lines ops) = Some (new_lines ops)"
  using patch_hunks_from[of "changed_at ops" 0 ops 0 0] by (simp add: changed_at_def op_lines_Cons sorted_wrt_filter)

text \<open>Two changes with exactly six equal lines between them are cut into two adjacent hunks: the comment of \<open>renderHunks\<close> asks for more.\<close>

lemma six_equal_lines_split:
  "map h_aStart (hunks ops (changed_at ops)) = [1, 5] \<and> map h_aCount (hunks ops (changed_at ops)) = [4, 4]"
  if "ops = [(CHR ''-'', ''x'')] @ replicate 6 (CHR '' '', ''c'') @ [(CHR ''-'', ''y'')]"
  unfolding that by (simp add: changed_at_def upt_rec numeral_eq_Suc contextLines_def hunk_at_def Let_def old_lines_def new_lines_def)

section \<open>Equal files\<close>

lemma script_same: "script (zip (replicate (length a) False) a) (zip (replicate (length a) False) a) = Some (map (\<lambda>l. (CHR '' '', l)) a)"
  by (induction a) auto

lemma common_prefix_self: "common_prefix a a = length a"
  by (induction a) auto

lemma changes_same: "changes a a costCap = Some (replicate (length a) False, replicate (length a) False)"
  by (simp add: changes_def common_prefix_self Let_def mark_back_def newDiffer_def compare.simps fwd_snake.simps bwd_snake.simps mark.simps)

lemma diffOps_same: "diffOps a a = Some (map (\<lambda>l. (CHR '' '', l)) a)"
  by (simp add: diffOps_def diffOpsCap_def changes_same script_same)

lemma unchanged_ops: "\<not> list_ex (\<lambda>x. fst x \<noteq> CHR '' '') ops \<Longrightarrow> old_lines ops = new_lines ops"
  by (intro context_lines) (auto simp: list_ex_iff)

lemma renderHunks_nonempty: "list_ex (\<lambda>x. fst x \<noteq> CHR '' '') ops \<Longrightarrow> renderHunks ops \<noteq> []"
proof -
  assume "list_ex (\<lambda>x. fst x \<noteq> CHR '' '') ops"
  then have "changed_at ops \<noteq> []" by (force simp: list_ex_iff changed_at_def filter_empty_conv in_set_conv_nth)
  then obtain c cs where "changed_at ops = c # cs" by (cases "changed_at ops") auto
  then have "hunks ops (changed_at ops) \<noteq> []" by (simp split: prod.splits)
  then show ?thesis by (cases "hunks ops (changed_at ops)") (auto simp: renderHunks_def render_hunk_def)
qed

lemma Unified_run:
  assumes "length (splitLines a) + length (splitLines b) < 2 ^ 62"
  shows "\<exists>ops out. diffOps (splitLines a) (splitLines b) = Some ops \<and> Unified a b = Some out
    \<and> patch 0 0 (hunks ops (changed_at ops)) (splitLines a) = Some (splitLines b)
    \<and> (out = [] \<longleftrightarrow> splitLines a = splitLines b) \<and> (out \<noteq> [] \<longrightarrow> out = concat (map render_hunk (hunks ops (changed_at ops))))"
proof -
  obtain ops where ops: "diffOps (splitLines a) (splitLines b) = Some ops" "old_lines ops = splitLines a" "new_lines ops = splitLines b"
    using diffOpsCap_run[OF assms, of 0] by (auto simp: diffOps_def)
  have same: "\<not> list_ex (\<lambda>x. fst x \<noteq> CHR '' '') ops" if "splitLines a = splitLines b"
    using ops(1) that by (auto simp: diffOps_same list_ex_iff)
  show ?thesis
    using ops patch_hunks[of ops] same unchanged_ops[of ops] renderHunks_nonempty[of ops]
    by (auto simp: Unified_def renderHunks_def split: if_splits)
qed

section \<open>Properties\<close>

text \<open>
  (C15) The line diff returns for every pair of files and every cost cap: no index of a search is out of range and no loop runs forever.
  The script it returns is exact: the lines it keeps or deletes are the old file, those it keeps or inserts are the new
  file, and within a change the deletions come first.
\<close>

theorem diff_script_exact:
  assumes "length a + length b < 2 ^ 62"
  shows "\<exists>ops. diffOpsCap a b costCap = Some ops \<and> old_lines ops = a \<and> new_lines ops = b \<and> op_kinds ops \<and> deletions_first ops"
  by (rule diffOpsCap_run[OF assms])

theorem diff_script_exact_witness:
  "\<exists>ops. diffOpsCap [''a'', ''b'', ''c''] [''b'', ''c'', ''d''] 1 = Some ops \<and> old_lines ops = [''a'', ''b'', ''c''] \<and> new_lines ops = [''b'', ''c'', ''d'']
    \<and> op_kinds ops \<and> deletions_first ops"
  by (rule diff_script_exact) simp

text \<open>
  (C16) The unified diff of two texts is total and loses nothing: its hunks, found by the line numbers of their headers, fit the old lines and
  a patch program rebuilds the new lines from them; and the text is empty exactly when the two texts have the same lines.
\<close>

theorem unified_patches:
  assumes "length (splitLines a) + length (splitLines b) < 2 ^ 62"
  shows "\<exists>ops out. diffOps (splitLines a) (splitLines b) = Some ops \<and> Unified a b = Some out
    \<and> patch 0 0 (hunks ops (changed_at ops)) (splitLines a) = Some (splitLines b)
    \<and> (out = [] \<longleftrightarrow> splitLines a = splitLines b) \<and> (out \<noteq> [] \<longrightarrow> out = concat (map render_hunk (hunks ops (changed_at ops))))"
  by (rule Unified_run[OF assms])

theorem unified_patches_witness:
  "\<exists>ops out. diffOps (splitLines ''ab'') (splitLines ''cd'') = Some ops \<and> Unified ''ab'' ''cd'' = Some out
    \<and> patch 0 0 (hunks ops (changed_at ops)) (splitLines ''ab'') = Some (splitLines ''cd'')
    \<and> (out = [] \<longleftrightarrow> splitLines ''ab'' = splitLines ''cd'') \<and> (out \<noteq> [] \<longrightarrow> out = concat (map render_hunk (hunks ops (changed_at ops))))"
  by (rule unified_patches) (simp add: splitLines_def)

text \<open>
  (C17) The divide step always returns, capped or not: for a rectangle within the files whose corners do not match, the middle point lies in the
  rectangle and is neither corner, so both halves are smaller and the recursion of the search ends; the marks are untouched.
\<close>

theorem split_ends_inside:
  assumes "trimmed d xoff xlim yoff ylim"
  shows "\<exists>d' x y loMin hiMin. split_at d xoff xlim yoff ylim minimal = Some (d', x, y, loMin, hiMin)
    \<and> xoff \<le> x \<and> x \<le> xlim \<and> yoff \<le> y \<and> y \<le> ylim \<and> (x, y) \<noteq> (xoff, yoff) \<and> (x, y) \<noteq> (xlim, ylim)
    \<and> d_delX d' = d_delX d \<and> d_insY d' = d_insY d"
  using split_at_run[OF assms, of minimal] by (auto simp: inside_def same_marks_def)

theorem split_ends_inside_witness:
  "\<exists>d' x y loMin hiMin. split_at (newDiffer [0, 1] [1, 0] 1) 0 2 0 2 False = Some (d', x, y, loMin, hiMin)
    \<and> 0 \<le> x \<and> x \<le> 2 \<and> 0 \<le> y \<and> y \<le> 2 \<and> (x, y) \<noteq> (0, 0) \<and> (x, y) \<noteq> (2, 2)
    \<and> d_delX d' = d_delX (newDiffer [0, 1] [1, 0] 1) \<and> d_insY d' = d_insY (newDiffer [0, 1] [1, 0] 1)"
  by (rule split_ends_inside) (simp add: trimmed_def box_def sized_def cell_def newDiffer_def)

end
