(* ===== verification/BranchDiffProps.thy ===== *)
theory BranchDiffProps
  imports DiffSaga DiffPatch
begin

text \<open>
  What the diff of a branch reports and what it leaves behind: exact table deltas, quoting that a SQL lexer reads back, samples
  that depend on no chunk boundary, a schema diff that is empty only for equal schemas, and a throwaway branch that is gone at the end, with
  the one race in which it cannot be removed.
\<close>

section \<open>Table deltas\<close>

definition delta_key :: "'v TableDelta \<Rightarrow> tableKey" where
  "delta_key t = TableKey (td_Schema t) (td_Table t)"

lemma delta_key_table [simp]: "delta_key (table_delta base branch k) = k"
  by (simp add: delta_key_def table_delta_def Let_def)

lemma delta_keys: "map delta_key (tableDeltas base branch) = sortKeys (remdups (map fst base @ map fst branch))"
  by (simp add: tableDeltas_def o_def)

text \<open>
  The reported tables are exactly the tables of the two sides, each once, in order of schema and name. A table missing on
  a side counts no rows there; the delta is the difference when both counts are known, and an unknown count is never turned into a number.
\<close>

theorem table_deltas_exact:
  fixes base branch :: stats
  assumes "ds = tableDeltas base branch"
  shows "sorted_wrt (<) (map delta_key ds)
   \<and> delta_key ` set ds = fst ` set base \<union> fst ` set branch
   \<and> (\<forall>t \<in> set ds.
        td_BaseRows t = (case map_of base (delta_key t) of None \<Rightarrow> 0 | Some s \<Rightarrow> ts_rows s)
      \<and> td_BranchRows t = (case map_of branch (delta_key t) of None \<Rightarrow> 0 | Some s \<Rightarrow> ts_rows s)
      \<and> (td_RowsUnknown t \<longleftrightarrow> td_BaseRows t < 0 \<or> td_BranchRows t < 0)
      \<and> td_Delta t = (if td_RowsUnknown t then 0 else td_BranchRows t - td_BaseRows t)
      \<and> (Grew t \<longleftrightarrow> 0 < td_Delta t))"
  unfolding assms
proof (intro conjI)
  have "set (map delta_key (tableDeltas base branch)) = fst ` set base \<union> fst ` set branch"
    unfolding delta_keys by (simp add: sortKeys_def)
  then show "delta_key ` set (tableDeltas base branch) = fst ` set base \<union> fst ` set branch" by simp
  show "sorted_wrt (<) (map delta_key (tableDeltas base branch))" unfolding delta_keys by (simp add: sortKeys_def strict_sorted_iff)
qed (auto simp: tableDeltas_def table_delta_def Let_def rows_of_def delta_key_def Grew_def)

theorem table_deltas_exact_witness:
  "delta_key ` set (tableDeltas [(TableKey ''s'' ''a'', \<lparr>ts_rows = 2, ts_bytes = 0\<rparr>)] [(TableKey ''t'' ''a'', \<lparr>ts_rows = 5, ts_bytes = 0\<rparr>)])
     = {TableKey ''s'' ''a'', TableKey ''t'' ''a''}"
  using table_deltas_exact[OF refl, of "[(TableKey ''s'' ''a'', \<lparr>ts_rows = 2, ts_bytes = 0\<rparr>)]" "[(TableKey ''t'' ''a'', \<lparr>ts_rows = 5, ts_bytes = 0\<rparr>)]"]
  by auto

section \<open>Quoting\<close>

text \<open>
  A SQL lexer on the two kinds of token the code writes. After the opening quote of an escape string a doubled quote is a quote, a backslash
  takes the next character, of which only the quote and the backslash itself are read here, and any other quote ends the string; in a quoted identifier only
  the doubled quote is special. The result is the value and the text after the token.
\<close>

fun read_literal :: "string \<Rightarrow> (string \<times> string) option" where
  "read_literal [] = None"
| "read_literal (c # s) =
     (if c = CHR 0x27 then (case s of c' # s' \<Rightarrow> if c' = CHR 0x27 then map_option (\<lambda>(v, r). (CHR 0x27 # v, r)) (read_literal s') else Some ([], s)
        | [] \<Rightarrow> Some ([], []))
      else if c = CHR 0x5C then (case s of c' # s' \<Rightarrow> if c' = CHR 0x5C \<or> c' = CHR 0x27 then map_option (\<lambda>(v, r). (c' # v, r)) (read_literal s') else None
        | [] \<Rightarrow> None)
      else map_option (\<lambda>(v, r). (c # v, r)) (read_literal s))"

fun read_ident :: "string \<Rightarrow> (string \<times> string) option" where
  "read_ident [] = None"
| "read_ident (c # s) =
     (if c = CHR 0x22 then (case s of c' # s' \<Rightarrow> if c' = CHR 0x22 then map_option (\<lambda>(v, r). (CHR 0x22 # v, r)) (read_ident s') else Some ([], s)
        | [] \<Rightarrow> Some ([], []))
      else map_option (\<lambda>(v, r). (c # v, r)) (read_ident s))"

definition lex_literal :: "string \<Rightarrow> (string \<times> string) option" where
  "lex_literal s = (if has_prefix [CHR ''E'', CHR 0x27] s then read_literal (drop 2 s) else None)"

definition lex_ident :: "string \<Rightarrow> (string \<times> string) option" where
  "lex_ident s = (if has_prefix [CHR 0x22] s then read_ident (drop 1 s) else None)"

lemma read_literal_quoted:
  "rest = [] \<or> hd rest \<noteq> CHR 0x27 \<Longrightarrow> read_literal (concat (map literal_char s) @ CHR 0x27 # rest) = Some (s, rest)"
proof (induction s)
  case Nil
  then show ?case by (cases rest) auto
next
  case (Cons c s)
  then show ?case by (simp add: literal_char_def)
qed

lemma replace_all_char: "replace_all (c # s) [q] new = (if c = q then new else [c]) @ replace_all s [q] new"
  by (simp add: has_prefix_def)

lemma read_ident_quoted:
  "rest = [] \<or> hd rest \<noteq> CHR 0x22 \<Longrightarrow> read_ident (replace_all s [CHR 0x22] [CHR 0x22, CHR 0x22] @ CHR 0x22 # rest) = Some (s, rest)"
proof (induction s)
  case Nil
  then show ?case by (cases rest) auto
next
  case (Cons c s)
  then show ?case by (simp only: replace_all_char) simp
qed

text \<open>
  What the code quotes, a SQL lexer reads back whole: no table name, column name, schema or key out can end its literal or
  its identifier early, so nothing of it reaches the statement as SQL.
\<close>

theorem sql_quoting_exact:
  assumes "rest = [] \<or> hd rest \<notin> {CHR 0x27, CHR 0x22}"
  shows "lex_literal (sqlLiteral s @ rest) = Some (s, rest) \<and> lex_ident (quoteIdent s @ rest) = Some (s, rest)"
proof
  show "lex_literal (sqlLiteral s @ rest) = Some (s, rest)"
    using assms read_literal_quoted[of rest s] by (auto simp: lex_literal_def sqlLiteral_def has_prefix_def)
  show "lex_ident (quoteIdent s @ rest) = Some (s, rest)"
    using assms read_ident_quoted[of rest s] by (auto simp: lex_ident_def quoteIdent_def has_prefix_def)
qed

theorem sql_quoting_exact_witness:
  "lex_literal (sqlLiteral [CHR 0x27, CHR 0x5C, CHR 0x27] @ ''::jsonb'') = Some ([CHR 0x27, CHR 0x5C, CHR 0x27], ''::jsonb'')"
  using sql_quoting_exact[of "''::jsonb''" "[CHR 0x27, CHR 0x5C, CHR 0x27]"] by simp

section \<open>The schema diff\<close>

text \<open>The lines of a dump that count: those between the newlines, without a last empty one, less the session-lock directives.\<close>

definition dump_lines :: "string \<Rightarrow> string list" where
  "dump_lines dump = (let ls = filter (\<lambda>l. \<not> dump_noise l) (split_on (CHR 0x0A) dump) in if ls \<noteq> [] \<and> last ls = [] then butlast ls else ls)"

lemma splitLines_strip: "splitLines (stripDumpNoise dump) = dump_lines dump"
proof -
  let ?ls = "filter (\<lambda>l. \<not> dump_noise l) (split_on (CHR 0x0A) dump)"
  have "\<forall>l \<in> set ?ls. CHR 0x0A \<notin> set l" using split_on_no_sep by fastforce
  then have "split_on (CHR 0x0A) (stripDumpNoise dump) = (if ?ls = [] then [[]] else ?ls)"
    unfolding stripDumpNoise_def using split_join[of ?ls "CHR 0x0A"] by auto
  then show ?thesis by (simp add: splitLines_def dump_lines_def Let_def)
qed

text \<open>
  The schema diff of two dumps is always computed and is empty exactly when the dumps have the same lines but for the session-lock directives;
  otherwise a patch program rebuilds the branch's dump lines from those of the base with its hunks.
\<close>

theorem schema_diff_exact:
  assumes "length (dump_lines base) + length (dump_lines branch) < 2 ^ 62"
  shows "\<exists>out ops. run_state (schema_diff base branch) w = (Inr out, w)
    \<and> (out = [] \<longleftrightarrow> dump_lines base = dump_lines branch)
    \<and> (out \<noteq> [] \<longrightarrow> out = concat (map render_hunk (hunks ops (changed_at ops))))
    \<and> patch 0 0 (hunks ops (changed_at ops)) (dump_lines base) = Some (dump_lines branch)"
proof -
  obtain ops out where "Unified (stripDumpNoise base) (stripDumpNoise branch) = Some out"
      "patch 0 0 (hunks ops (changed_at ops)) (dump_lines base) = Some (dump_lines branch)"
      "out = [] \<longleftrightarrow> dump_lines base = dump_lines branch" "out \<noteq> [] \<longrightarrow> out = concat (map render_hunk (hunks ops (changed_at ops)))"
    using Unified_run[of "stripDumpNoise base" "stripDumpNoise branch"] assms unfolding splitLines_strip by blast
  then show ?thesis by (auto simp: schema_diff_def)
qed

theorem schema_diff_exact_witness:
  "\<exists>out ops. run_state (schema_diff ''ab'' (''cd'' @ [CHR 0x0A, CHR 0x5C] @ ''restrict x'')) (sim_world demo_db3) = (Inr out, sim_world demo_db3)
    \<and> (out = [] \<longleftrightarrow> dump_lines ''ab'' = dump_lines (''cd'' @ [CHR 0x0A, CHR 0x5C] @ ''restrict x''))
    \<and> patch 0 0 (hunks ops (changed_at ops)) (dump_lines ''ab'') = Some (dump_lines (''cd'' @ [CHR 0x0A, CHR 0x5C] @ ''restrict x''))"
proof -
  have "length (dump_lines ''ab'') + length (dump_lines (''cd'' @ [CHR 0x0A, CHR 0x5C] @ ''restrict x'')) < 2 ^ 62"
    by (simp add: dump_lines_def dump_noise_def has_prefix_def Let_def)
  from schema_diff_exact[OF this, of "sim_world demo_db3"] show ?thesis by blast
qed

section \<open>Sampling\<close>

lemma add_fresh_append: "add_fresh capN fresh (kps @ kps') = add_fresh capN (add_fresh capN fresh kps) kps'"
  by (simp add: add_fresh_def)

lemma add_fresh_run:
  "length fresh \<le> capN \<Longrightarrow> add_fresh capN fresh (zip c (map p c)) = take capN (fresh @ filter (\<lambda>k. \<not> p k) c)"
proof (induction c arbitrary: fresh)
  case (Cons k c)
  show ?case
  proof (cases "\<not> p k \<and> length fresh < capN")
    case True
    then show ?thesis using Cons.IH[of "fresh @ [k]"] by (simp add: add_fresh_def)
  next
    case False
    then show ?thesis using Cons.IH[of fresh] Cons.prems by (cases "p k") (auto simp: add_fresh_def)
  qed
qed (simp add: add_fresh_def)

lemma key_chunk_append: "key_chunk keys = (c, rest) \<Longrightarrow> keys = c @ rest"
  by (cases keys) (auto simp: key_chunk_def dest: more_keys_append split: prod.splits)

lemma take_take_append: "take n (take n xs @ ys) = take n (xs @ ys)"
  by (cases "n \<le> length xs") simp_all

lemma fresh_loop_run:
  assumes check: "\<And>c w. \<exists>w'. run_state (check c) w = (Inr (map p c), w')"
  shows "length fresh \<le> capN \<Longrightarrow> fst (run_state (fresh_loop check capN keys fresh) w) = Inr (take capN (fresh @ filter (\<lambda>k. \<not> p k) keys))"
proof (induction "length keys" arbitrary: keys fresh w rule: less_induct)
  case less
  show ?case
  proof (cases "keys = [] \<or> capN \<le> length fresh")
    case True
    then show ?thesis using less.prems by (auto simp: fresh_loop.simps[of check])
  next
    case False
    obtain c rest where c: "key_chunk keys = (c, rest)" by fastforce
    obtain w' where w': "run_state (check c) w = (Inr (map p c), w')" using check by blast
    let ?fresh = "take capN (fresh @ filter (\<lambda>k. \<not> p k) c)"
    have "fst (run_state (fresh_loop check capN rest ?fresh) w') = Inr (take capN (?fresh @ filter (\<lambda>k. \<not> p k) rest))"
      by (rule less.hyps) (use key_chunk_shorter[OF _ c] False in auto)
    moreover have "take capN (?fresh @ zs) = take capN (fresh @ filter (\<lambda>k. \<not> p k) c @ zs)" for zs
      using take_take_append[of capN "fresh @ filter (\<lambda>k. \<not> p k) c"] by simp
    ultimately show ?thesis using False c w' key_chunk_append[OF c] add_fresh_run[OF less.prems, of c p]
      by (subst fresh_loop.simps) (simp add: run_seq_ok)
  qed
qed

lemma join_with_length: "ks \<noteq> [] \<Longrightarrow> length (join_with [c] ks) + 1 = sum_list (map (\<lambda>k. length k + 1) ks)"
  by (induction "[c]" ks rule: join_with.induct) auto

lemma more_keys_bound:
  "more_keys sz ks = (c, rest) \<Longrightarrow> c \<noteq> [] \<Longrightarrow> sz + sum_list (map (\<lambda>k. length k + 1) c) \<le> keyChunkBytes + 1"
proof (induction sz ks arbitrary: c rule: more_keys.induct)
  case (2 sz k ks)
  then obtain c' where c': "sz + length k \<le> keyChunkBytes" "more_keys (sz + length k + 1) ks = (c', rest)" "c = k # c'"
    by (auto split: if_splits prod.splits)
  then show ?case using "2.IH"[OF c'(1,2)] by (cases "c' = []") auto
qed simp

lemma key_chunk_bound:
  assumes "key_chunk keys = (c, rest)"
  shows "length c \<le> 1 \<or> length (join_with '','' c) \<le> keyChunkBytes"
proof (cases keys)
  case (Cons k ks)
  then obtain c' where c': "more_keys (length k + 1) ks = (c', rest)" "c = k # c'" using assms by (auto simp: key_chunk_def split: prod.splits)
  show ?thesis
  proof (cases "c' = []")
    case False
    then show ?thesis using more_keys_bound[OF c'(1)] join_with_length[of c "CHR '',''"] c'(2) by simp
  qed (simp add: c')
qed (use assms in \<open>simp add: key_chunk_def\<close>)

text \<open>
  The sampled keys do not depend on how the keys are cut into presence checks: when the base answers each check exactly, the loop
  returns the first keys, up to the cap, that the base lacks, in the order the branch gave them; and no check carries a key list of
  more than 32 KiB unless it is a single key.
\<close>

theorem sample_keys_exact:
  assumes "\<And>c w. \<exists>w'. run_state (keysPresent E cid src k pk c) w = (Inr (map onBase c), w')"
  shows "fst (run_state (fresh_loop (keysPresent E cid src k pk) capN keys []) w) = Inr (take capN (filter (\<lambda>key. \<not> onBase key) keys))
    \<and> (\<forall>c rest. key_chunk keys = (c, rest) \<longrightarrow> length c \<le> 1 \<or> length (join_with '','' c) \<le> keyChunkBytes)"
  using fresh_loop_run[of "keysPresent E cid src k pk" onBase "[]" capN keys w] assms key_chunk_bound by auto

definition silent_env :: "sim env" where
  "silent_env = sim_env\<lparr>e_drv := sim_driver\<lparr>drv_ExecOutput := (\<lambda>cid cmd s. (Inr [], s))\<rparr>\<rparr>"

theorem sample_keys_exact_witness:
  "fst (run_state (fresh_loop (keysPresent silent_env ''c1'' demo_source (TableKey ''public'' ''t'') []) 1 [''{1}'', ''{2}''] []) (sim_world demo_db3)) = Inr [''{1}'']"
proof -
  have "run_state (keysPresent silent_env ''c1'' demo_source (TableKey ''public'' ''t'') [] c) w
      = (Inr (map (\<lambda>k. False) c), snd (run_state (keysPresent silent_env ''c1'' demo_source (TableKey ''public'' ''t'') [] c) w))" for c w
    by (simp add: keysPresent_def psqlOutput_def ExecOutput_def drv_call_def run_seq_ok run_tick silent_env_def nonEmptyLines_def TrimSpace_def map_replicate_const)
  then have "\<exists>w'. run_state (keysPresent silent_env ''c1'' demo_source (TableKey ''public'' ''t'') [] c) w = (Inr (map (\<lambda>k. False) c), w')" for c w by blast
  from sample_keys_exact[OF this, of 1 "[''{1}'', ''{2}'']" "sim_world demo_db3"] show ?thesis by simp
qed

section \<open>Counting\<close>

text \<open>The only error of an operation is that of the context.\<close>

definition only_ctx_err :: "('rt, 'a) op \<Rightarrow> bool" where
  "only_ctx_err m \<longleftrightarrow> (\<forall>w e. fst (run_state m w) = Inl e \<longrightarrow> e = ctxErr)"

lemma only_ctx_err_rules:
  "only_ctx_err (ok x)" "only_ctx_err (fail_with ctxErr)"
  "(\<And>x. only_ctx_err (k x)) \<Longrightarrow> only_ctx_err (State_Monad.bind n k)"
  "(\<And>e. only_ctx_err (h e)) \<Longrightarrow> (\<And>x. only_ctx_err (k' x)) \<Longrightarrow> only_ctx_err (attempt m h k')"
  "only_ctx_err m' \<Longrightarrow> (\<And>x. only_ctx_err (k' x)) \<Longrightarrow> only_ctx_err (seq_ok m' k')"
  "(c \<Longrightarrow> only_ctx_err m1) \<Longrightarrow> (\<not> c \<Longrightarrow> only_ctx_err m2) \<Longrightarrow> only_ctx_err (if c then m1 else m2)"
  by (auto simp: only_ctx_err_def run_attempt run_seq_ok split: prod.splits sum.splits) (metis fst_conv)+

lemma only_ctx_err_count: "only_ctx_err (count_loop E J cid src m todo)"
proof (induction "length todo" arbitrary: m todo rule: less_induct)
  case less
  have IH: "only_ctx_err (count_loop E J cid src m' (drop countChunk todo))" if "todo \<noteq> []" for m'
    using that by (intro less) (simp add: countChunk_def)
  show ?case by (subst count_loop.simps, unfold Let_def, intro only_ctx_err_rules IH)
qed

lemma only_ctx_err_sample: "only_ctx_err (sampleNewRows E J branchCID baseCID src base capN tds)"
proof (induction tds)
  case (Cons td tds)
  show ?case unfolding sampleNewRows.simps Let_def by (intro only_ctx_err_rules Cons)
qed (simp add: only_ctx_err_rules)

text \<open>What an exact count may change: the rows of the listed tables.\<close>

definition counted :: "tableKey set \<Rightarrow> stats \<Rightarrow> stats \<Rightarrow> bool" where
  "counted ks m m' \<longleftrightarrow> (\<forall>k. map_option ts_bytes (map_of m' k) = map_option ts_bytes (map_of m k) \<and> (k \<notin> ks \<longrightarrow> map_of m' k = map_of m k))"

lemma counted_trans: "counted ks m m1 \<Longrightarrow> counted ks m1 m2 \<Longrightarrow> counted ks m m2"
  by (simp add: counted_def)

lemma counted_set_rows: "map_of m k \<noteq> None \<Longrightarrow> k \<in> ks \<Longrightarrow> counted ks m (set_rows k n m)"
  by (auto simp: counted_def set_rows_def update_conv' split: option.splits)

lemma counted_dom: "counted ks m m' \<Longrightarrow> map_of m k \<noteq> None \<Longrightarrow> map_of m' k \<noteq> None"
  unfolding counted_def by (metis option.map_disc_iff)

lemma counted_fold:
  "(\<forall>(k, n) \<in> set kns. map_of m k \<noteq> None \<and> k \<in> ks) \<Longrightarrow> counted ks m (foldl (\<lambda>m (k, n). set_rows k n m) m kns)"
proof (induction kns arbitrary: m)
  case (Cons kn kns)
  obtain k n where kn: "kn = (k, n)" by fastforce
  then have 1: "counted ks m (set_rows k n m)" using Cons.prems by (intro counted_set_rows) auto
  have "counted ks (set_rows k n m) (foldl (\<lambda>m (k, n). set_rows k n m) (set_rows k n m) kns)"
    using Cons.prems counted_dom[OF 1] by (intro Cons.IH) fastforce
  then show ?case using counted_trans[OF 1] kn by simp
qed (simp add: counted_def)

lemma count_loop_frame:
  "run_state (count_loop E J cid src m todo) w = (Inr m', w') \<Longrightarrow> \<forall>k \<in> set todo. map_of m k \<noteq> None \<and> k \<in> ks \<Longrightarrow> counted ks m m'"
proof (induction "length todo" arbitrary: m todo w w' rule: less_induct)
  case less
  show ?case
  proof (cases "todo = []")
    case True
    then show ?thesis using less.prems by (simp add: count_loop.simps counted_def)
  next
    case False
    let ?chunk = "take countChunk todo" and ?rest = "drop countChunk todo"
    have IH: "counted ks m1 m'" if "run_state (count_loop E J cid src m1 ?rest) v = (Inr m', w')" "counted ks m m1" for m1 v
      using that(1) by (rule less.hyps[rotated]) (use False less.prems(2) counted_dom[OF that(2)] in \<open>auto simp: countChunk_def dest: in_set_dropD\<close>)
    have fold: "counted ks m (foldl (\<lambda>m (k, n). set_rows k n m) m (zip ?chunk counts))" for counts
      by (rule counted_fold) (use less.prems(2) in \<open>auto dest!: set_zip_leftD in_set_takeD\<close>)
    have self: "counted ks m m" by (simp add: counted_def)
    from less.prems(1) False obtain v v' counts where
      "run_state (count_loop E J cid src m ?rest) v = (Inr m', w') \<or>
       run_state (count_loop E J cid src (foldl (\<lambda>m (k, n). set_rows k n m) m (zip ?chunk counts)) ?rest) v' = (Inr m', w')"
      by (subst (asm) count_loop.simps) (auto simp: Let_def run_attempt split: prod.splits sum.splits if_splits)
    then show ?thesis using IH[OF _ self] IH[OF _ fold] counted_trans[OF fold] by blast
  qed
qed

lemma countExact_frame:
  assumes "run_state (countExact E J cid src m keys) w = (Inr m', w')"
  shows "counted {k \<in> set keys. \<exists>s. map_of m k = Some s \<and> ts_bytes s \<le> exactCountMaxBytes} m m'"
  using assms unfolding countExact_def by (rule count_loop_frame) (auto split: option.splits)

definition estimated :: "stats \<Rightarrow> tableKey \<Rightarrow> bool" where
  "estimated m k \<longleftrightarrow> (case map_of m k of None \<Rightarrow> True | Some s \<Rightarrow> 0 \<le> ts_rows s)"

definition small_heap :: "stats \<Rightarrow> tableKey \<Rightarrow> bool" where
  "small_heap m k \<longleftrightarrow> (case map_of m k of None \<Rightarrow> False | Some s \<Rightarrow> ts_bytes s \<le> exactCountMaxBytes)"

lemma unestimated_iff: "distinct (map fst m) \<Longrightarrow> k \<in> set (unestimated m) \<longleftrightarrow> \<not> estimated m k"
proof -
  assume dist: "distinct (map fst m)"
  have "k \<in> set (unestimated m) \<longleftrightarrow> (\<exists>s. (k, s) \<in> set m \<and> ts_rows s < 0)" by (auto simp: unestimated_def intro!: image_eqI[of _ fst "(k, _)"])
  then have "k \<in> set (unestimated m) \<longleftrightarrow> (\<exists>s. map_of m k = Some s \<and> ts_rows s < 0)" using map_of_eq_Some_iff[OF dist] by simp
  then show ?thesis by (auto simp: estimated_def not_le split: option.splits)
qed

text \<open>
  Counting and sampling lose precision, never the diff. Their only error is that of a cancelled request, whatever the database answers;
  and the exact counts replace the rows of nothing but tables that lack an estimate on one side and whose heap is within 64 MiB: every other
  table keeps its estimate, and all keep their size.
\<close>

theorem diff_counts_best_effort:
  assumes "distinct (map fst base)" "distinct (map fst branch)"
  shows "only_ctx_err (countUnestimated E J baseCID branchCID src base branch) \<and> only_ctx_err (sampleNewRows E J branchCID baseCID src base capN tds)
    \<and> (\<forall>w base' branch' w'. run_state (countUnestimated E J baseCID branchCID src base branch) w = (Inr (base', branch'), w') \<longrightarrow>
        counted {k. \<not> (estimated base k \<and> estimated branch k) \<and> small_heap base k} base base'
      \<and> counted {k. \<not> (estimated base k \<and> estimated branch k) \<and> small_heap branch k} branch branch')"
proof (intro conjI allI impI)
  show "only_ctx_err (countUnestimated E J baseCID branchCID src base branch)"
    unfolding countUnestimated_def countExact_def Let_def by (intro only_ctx_err_rules only_ctx_err_count)
  show "only_ctx_err (sampleNewRows E J branchCID baseCID src base capN tds)" by (rule only_ctx_err_sample)
next
  fix w base' branch' w'
  assume r: "run_state (countUnestimated E J baseCID branchCID src base branch) w = (Inr (base', branch'), w')"
  let ?keys = "sortKeys (remdups (unestimated base @ unestimated branch))"
  have keys: "set ?keys = {k. \<not> (estimated base k \<and> estimated branch k)}" using assms by (auto simp: sortKeys_def unestimated_iff)
  have small: "{k \<in> set ?keys. \<exists>s. map_of m k = Some s \<and> ts_bytes s \<le> exactCountMaxBytes} = {k. \<not> (estimated base k \<and> estimated branch k) \<and> small_heap m k}" for m
    unfolding keys by (auto simp: small_heap_def split: option.splits)
  show "counted {k. \<not> (estimated base k \<and> estimated branch k) \<and> small_heap base k} base base'"
    "counted {k. \<not> (estimated base k \<and> estimated branch k) \<and> small_heap branch k} branch branch'"
    using r countExact_frame[of E J _ src _ ?keys] unfolding countUnestimated_def Let_def small
    by (auto simp: counted_def split: if_splits elim!: run_seq_ok_InrE)
qed

theorem diff_counts_best_effort_witness:
  "only_ctx_err (countUnestimated sim_env sim_json ''c1'' ''c2'' demo_source [(TableKey ''public'' ''a'', \<lparr>ts_rows = UnknownRows, ts_bytes = 8192\<rparr>)] [])"
  using diff_counts_best_effort[of "[(TableKey ''public'' ''a'', \<lparr>ts_rows = UnknownRows, ts_bytes = 8192\<rparr>)]" "[]" sim_env sim_json "''c1''" "''c2''" demo_source]
  by simp

end
