(* ===== verification/Leader.thy ===== *)
theory Leader
  imports Prelude
begin

text \<open>
  Leader election (\<^verbatim>\<open>src/internal/ha/leader.go\<close>) and the gate it drives (\<^verbatim>\<open>src/internal/api/leader.go\<close>). A context is a number; the lists of ended and
  cancelled contexts say which are done. The elector of client-go is not part of the program: what the code relies on is
  its documented order of callbacks, which the step relation below states. \<open>OnStartedLeading\<close> runs in a goroutine of its own, so it may take the
  lock long after the term it belongs to is over.
\<close>

section \<open>The gate\<close>

record LeaderGate =
  g_leader :: bool
  g_term :: "nat option"
  g_ended :: "nat list"
  g_next :: nat
  g_observers :: nat
  g_calls :: "(nat \<times> bool) list"

text \<open>\<open>g_calls\<close> is the sequence of calls made to the observers, by number.\<close>

definition gate_Set :: "bool \<Rightarrow> LeaderGate \<Rightarrow> LeaderGate" where
  "gate_Set leader g =
     (if leader = g_leader g \<and> g_term g \<noteq> None then g
      else (let g1 = (if leader then g\<lparr>g_term := Some (g_next g), g_next := g_next g + 1\<rparr>
                      else (case g_term g of None \<Rightarrow> g | Some t \<Rightarrow> g\<lparr>g_ended := t # g_ended g\<rparr>))
            in g1\<lparr>g_leader := leader, g_calls := g_calls g @ map (\<lambda>i. (i, leader)) [0..<g_observers g]\<rparr>))"

definition newLeaderGate :: LeaderGate where
  "newLeaderGate = gate_Set True \<lparr>g_leader = False, g_term = None, g_ended = [], g_next = 0, g_observers = 0, g_calls = []\<rparr>"

definition IsLeader :: "LeaderGate \<Rightarrow> bool" where "IsLeader g = g_leader g"

definition Observe :: "LeaderGate \<Rightarrow> LeaderGate" where
  "Observe g = g\<lparr>g_observers := g_observers g + 1, g_calls := g_calls g @ [(g_observers g, g_leader g)]\<rparr>"

definition admit :: "LeaderGate \<Rightarrow> nat option \<times> bool" where
  "admit g = (g_term g, g_leader g)"

section \<open>Mutations in flight\<close>

datatype cause = errLeadershipLost | errShuttingDown | errMutationTimeout

record mutation =
  mu_id :: nat
  mu_term :: nat
  mu_limit :: int
  mu_cause :: "cause option"

record mutations =
  m_draining :: bool
  m_cancelled :: bool
  m_inflight :: "mutation list"

definition newMutations :: mutations where
  "newMutations = \<lparr>m_draining = False, m_cancelled = False, m_inflight = []\<rparr>"

definition begin_mutation :: "nat \<Rightarrow> nat \<Rightarrow> int \<Rightarrow> mutations \<Rightarrow> mutations option" where
  "begin_mutation i term limit m =
     (if m_draining m then None
      else Some (m\<lparr>m_inflight := m_inflight m @ [\<lparr>mu_id = i, mu_term = term, mu_limit = limit, mu_cause = None\<rparr>]\<rparr>))"

definition done_mutation :: "nat \<Rightarrow> mutations \<Rightarrow> mutations" where
  "done_mutation i m = m\<lparr>m_inflight := filter (\<lambda>u. mu_id u \<noteq> i) (m_inflight m)\<rparr>"

text \<open>A context keeps the first cause it was cancelled with.\<close>

definition cancel_mutation :: "nat \<Rightarrow> cause \<Rightarrow> mutations \<Rightarrow> mutations" where
  "cancel_mutation i c m = m\<lparr>m_inflight := upd_where (\<lambda>u. mu_id u = i \<and> mu_cause u = None) (\<lambda>u. u\<lparr>mu_cause := Some c\<rparr>) (m_inflight m)\<rparr>"

definition stopAdmitting :: "mutations \<Rightarrow> mutations" where "stopAdmitting m = m\<lparr>m_draining := True\<rparr>"
definition cancelAll :: "mutations \<Rightarrow> mutations" where "cancelAll m = m\<lparr>m_cancelled := True\<rparr>"
definition wait_returns :: "mutations \<Rightarrow> bool" where "wait_returns m \<longleftrightarrow> m_inflight m = []"

section \<open>The election callbacks\<close>

text \<open>
  The elector's own progress: contending for the Lease, holding it in a term, having cancelled the term's context (or none, when it never acquired the Lease), and inside
  \<open>OnStoppedLeading\<close> after the critical section, waiting for the marker loop given.
\<close>

datatype phase = Contending | Leading nat | Ending "nat option" | Stopping "nat option"

record replica =
  r_gate :: LeaderGate
  r_muts :: mutations
  r_marker :: bool
  r_cancel :: "nat option"
  r_markDone :: "nat option"
  r_phase :: phase
  r_terms :: nat
  r_pending :: "nat list"
  r_cancelled :: "nat list"
  r_marking :: "nat list"
  r_reconciling :: "nat list"
  r_requests :: nat
  r_admitted :: "(nat \<times> nat) list"
  r_label :: bool

text \<open>
  \<open>r_pending\<close> are the terms whose \<open>OnStartedLeading\<close> has not taken the lock, \<open>r_marking\<close> and \<open>r_reconciling\<close> those whose loops run, \<open>r_cancelled\<close> those whose
  context is done; \<open>r_admitted\<close> are requests between the gate and \<open>begin\<close>, numbered; \<open>r_label\<close> is the label of this pod as this replica's own calls left it.
\<close>

definition NewCallbacks :: "bool \<Rightarrow> LeaderGate \<Rightarrow> mutations \<Rightarrow> replica" where
  "NewCallbacks marker g m = \<lparr>r_gate = g, r_muts = m, r_marker = marker, r_cancel = None, r_markDone = None, r_phase = Contending, r_terms = 0,
     r_pending = [], r_cancelled = [], r_marking = [], r_reconciling = [], r_requests = 0, r_admitted = [], r_label = False\<rparr>"

definition OnStartedLeading :: "nat \<Rightarrow> replica \<Rightarrow> replica" where
  "OnStartedLeading n r =
     (let r0 = r\<lparr>r_pending := removeAll n (r_pending r)\<rparr>
      in if n \<in> set (r_cancelled r) then r0
         else (let r1 = r0\<lparr>r_cancel := Some n, r_gate := gate_Set True (r_gate r), r_reconciling := n # r_reconciling r\<rparr>
               in if r_marker r then r1\<lparr>r_markDone := Some n, r_marking := n # r_marking r\<rparr> else r1))"

text \<open>\<open>OnStoppedLeading\<close> up to and including \<open>cancel()\<close>, and the rest after the marker loop is done; \<open>sent\<close> says whether the Unmark call succeeded.\<close>

definition OnStoppedLeading :: "replica \<Rightarrow> replica" where
  "OnStoppedLeading r = r\<lparr>r_gate := gate_Set False (r_gate r), r_cancel := None, r_markDone := None, r_phase := Stopping (r_markDone r),
     r_cancelled := (case r_cancel r of None \<Rightarrow> r_cancelled r | Some n \<Rightarrow> n # r_cancelled r)\<rparr>"

definition finishStopped :: "bool \<Rightarrow> replica \<Rightarrow> replica" where
  "finishStopped sent r = r\<lparr>r_phase := Contending, r_label := (if r_marker r \<and> sent then False else r_label r)\<rparr>"

definition can_finish :: "replica \<Rightarrow> bool" where
  "can_finish r \<longleftrightarrow> (case r_phase r of Stopping None \<Rightarrow> True | Stopping (Some n) \<Rightarrow> n \<notin> set (r_marking r) | _ \<Rightarrow> False)"

text \<open>The gate and \<open>begin\<close> of \<open>requireLeader\<close>: two steps, since neither lock is held across both.\<close>

definition requireLeader_admit :: "replica \<Rightarrow> replica option" where
  "requireLeader_admit r = (case admit (r_gate r) of
     (Some term, True) \<Rightarrow> Some (r\<lparr>r_admitted := (r_requests r, term) # r_admitted r, r_requests := r_requests r + 1\<rparr>) | _ \<Rightarrow> None)"

definition requireLeader_begin :: "nat \<Rightarrow> nat \<Rightarrow> int \<Rightarrow> replica \<Rightarrow> replica" where
  "requireLeader_begin i term limit r = (let r0 = r\<lparr>r_admitted := removeAll (i, term) (r_admitted r)\<rparr>
     in case begin_mutation i term limit (r_muts r) of None \<Rightarrow> r0 | Some m \<Rightarrow> r0\<lparr>r_muts := m\<rparr>)"

text \<open>One step of a replica: the elector, the goroutines it starts, and the requests.\<close>

inductive ha_step :: "replica \<Rightarrow> replica \<Rightarrow> bool" where
  acquire: "r_phase r = Contending \<Longrightarrow>
    ha_step r (r\<lparr>r_phase := Leading (r_terms r), r_terms := r_terms r + 1, r_pending := r_terms r # r_pending r\<rparr>)"
| give_up: "r_phase r = Contending \<Longrightarrow> ha_step r (r\<lparr>r_phase := Ending None\<rparr>)"
| lose: "r_phase r = Leading n \<Longrightarrow> ha_step r (r\<lparr>r_phase := Ending (Some n), r_cancelled := n # r_cancelled r\<rparr>)"
| started: "n \<in> set (r_pending r) \<Longrightarrow> ha_step r (OnStartedLeading n r)"
| stopped: "r_phase r = Ending t \<Longrightarrow> ha_step r (OnStoppedLeading r)"
| finished: "can_finish r \<Longrightarrow> ha_step r (finishStopped sent r)"
| mark: "n \<in> set (r_marking r) \<Longrightarrow> ha_step r (r\<lparr>r_label := True\<rparr>)"
| marker_exit: "n \<in> set (r_marking r) \<Longrightarrow> n \<in> set (r_cancelled r) \<Longrightarrow> ha_step r (r\<lparr>r_marking := removeAll n (r_marking r)\<rparr>)"
| reconcile_exit: "n \<in> set (r_reconciling r) \<Longrightarrow> n \<in> set (r_cancelled r) \<Longrightarrow> ha_step r (r\<lparr>r_reconciling := removeAll n (r_reconciling r)\<rparr>)"
| request: "requireLeader_admit r = Some r' \<Longrightarrow> ha_step r r'"
| begun: "(i, term) \<in> set (r_admitted r) \<Longrightarrow> ha_step r (requireLeader_begin i term limit r)"
| returned: "ha_step r (r\<lparr>r_muts := done_mutation i (r_muts r)\<rparr>)"
| term_over: "u \<in> set (m_inflight (r_muts r)) \<Longrightarrow> mu_term u \<in> set (g_ended (r_gate r)) \<Longrightarrow>
    ha_step r (r\<lparr>r_muts := cancel_mutation (mu_id u) errLeadershipLost (r_muts r)\<rparr>)"
| shut_down: "m_cancelled (r_muts r) \<Longrightarrow> ha_step r (r\<lparr>r_muts := cancel_mutation i errShuttingDown (r_muts r)\<rparr>)"
| timed_out: "u \<in> set (m_inflight (r_muts r)) \<Longrightarrow> 0 < mu_limit u \<Longrightarrow>
    ha_step r (r\<lparr>r_muts := cancel_mutation (mu_id u) errMutationTimeout (r_muts r)\<rparr>)"
| drain: "ha_step r (r\<lparr>r_muts := stopAdmitting (r_muts r)\<rparr>)"
| cancel_all: "ha_step r (r\<lparr>r_muts := cancelAll (r_muts r)\<rparr>)"
| observed: "ha_step r (r\<lparr>r_gate := Observe (r_gate r)\<rparr>)"

text \<open>branchd closes the gate before it starts the election.\<close>

inductive ha_reachable :: "replica \<Rightarrow> bool" where
  start: "ha_reachable (NewCallbacks marker (gate_Set False newLeaderGate) newMutations)"
| step: "ha_reachable r \<Longrightarrow> ha_step r r' \<Longrightarrow> ha_reachable r'"

end
