(* ===== verification/LeaderProps.thy ===== *)
theory LeaderProps
  imports Leader
begin

text \<open>
  What holds in every reachable state of a replica: the gate is open only while the elector is in a term, a term that ended
  takes its loops and its mutations with it, and no label is written between the end of a term and the start of the next.
\<close>

section \<open>The gate\<close>

definition gate_ok :: "LeaderGate \<Rightarrow> bool" where
  "gate_ok g \<longleftrightarrow> (case g_term g of None \<Rightarrow> False | Some t \<Rightarrow> t < g_next g \<and> (g_leader g \<longleftrightarrow> t \<notin> set (g_ended g)))
     \<and> (\<forall>t \<in> set (g_ended g). t < g_next g) \<and> (\<forall>t < g_next g. t \<in> set (g_ended g) \<or> g_term g = Some t)"

definition last_call :: "nat \<Rightarrow> LeaderGate \<Rightarrow> bool option" where
  "last_call i g = map_of (rev (g_calls g)) i"

definition told :: "LeaderGate \<Rightarrow> bool" where
  "told g \<longleftrightarrow> (\<forall>i < g_observers g. last_call i g = Some (g_leader g))"

lemma gate_ok_Set: "gate_ok g \<Longrightarrow> gate_ok (gate_Set b g)"
  unfolding gate_ok_def gate_Set_def by (auto simp: Let_def less_Suc_eq split: option.splits)

lemma gate_Set_keeps: "gate_ok g \<Longrightarrow> set (g_ended g) \<subseteq> set (g_ended (gate_Set b g))" "gate_ok g \<Longrightarrow> g_leader (gate_Set b g) = b"
  "gate_ok g \<Longrightarrow> g_next g \<le> g_next (gate_Set b g)"
  by (auto simp: gate_Set_def gate_ok_def Let_def split: option.splits)

lemma map_of_const: "map_of (rev (map (\<lambda>i. (i, b)) xs)) j = (if j \<in> set xs then Some b else None)"
  by (induction xs) (auto simp: map_add_def split: option.splits)

lemma told_Set: "told g \<Longrightarrow> told (gate_Set b g)"
  by (auto simp: told_def gate_Set_def last_call_def Let_def map_of_const map_add_def split: option.splits)

lemma Observe_keeps: "gate_ok g \<Longrightarrow> gate_ok (Observe g)" "told g \<Longrightarrow> told (Observe g)"
  by (auto simp: Observe_def gate_ok_def told_def last_call_def less_Suc_eq split: option.splits)

section \<open>The callbacks\<close>

definition callbacks_ok :: "replica \<Rightarrow> bool" where
  "callbacks_ok r \<longleftrightarrow>
     (\<forall>n. r_cancel r = Some n \<longrightarrow> (r_phase r = Leading n \<or> r_phase r = Ending (Some n)) \<and> n \<notin> set (r_pending r))
   \<and> (\<forall>n \<in> set (r_pending r). n < r_terms r \<and> (n \<in> set (r_cancelled r) \<or> r_phase r = Leading n))
   \<and> (\<forall>n. r_phase r = Leading n \<longrightarrow> n < r_terms r \<and> n \<notin> set (r_cancelled r))
   \<and> (\<forall>n \<in> set (r_cancelled r). n < r_terms r)
   \<and> (\<forall>n. r_cancel r = Some n \<longrightarrow> n < r_terms r)
   \<and> (\<forall>n \<in> set (r_marking r). r_markDone r = Some n \<or> r_phase r = Stopping (Some n))
   \<and> (\<forall>n. r_markDone r = Some n \<longrightarrow> r_cancel r = Some n)
   \<and> (\<forall>n. r_phase r = Stopping (Some n) \<longrightarrow> n \<in> set (r_cancelled r))
   \<and> (\<forall>n \<in> set (r_reconciling r). n \<in> set (r_cancelled r) \<or> r_cancel r = Some n)"

lemma callbacks_cong:
  "callbacks_ok r \<Longrightarrow> r_cancel r' = r_cancel r \<Longrightarrow> r_phase r' = r_phase r \<Longrightarrow> r_pending r' = r_pending r \<Longrightarrow> r_terms r' = r_terms r
    \<Longrightarrow> r_cancelled r' = r_cancelled r \<Longrightarrow> set (r_marking r') \<subseteq> set (r_marking r) \<Longrightarrow> set (r_reconciling r') \<subseteq> set (r_reconciling r)
    \<Longrightarrow> r_markDone r' = r_markDone r \<Longrightarrow> callbacks_ok r'"
  unfolding callbacks_ok_def by auto

lemma callbacks_started: "callbacks_ok r \<Longrightarrow> n \<in> set (r_pending r) \<Longrightarrow> callbacks_ok (OnStartedLeading n r)"
proof -
  assume ok: "callbacks_ok r" and n: "n \<in> set (r_pending r)"
  have "n \<in> set (r_cancelled r) \<or> r_cancel r = None \<and> r_phase r = Leading n" using ok n by (cases "r_cancel r") (fastforce simp: callbacks_ok_def)+
  then show ?thesis using ok n unfolding callbacks_ok_def OnStartedLeading_def Let_def by (elim disjE) (auto split: if_splits)
qed

lemma callbacks_stopped: "callbacks_ok r \<Longrightarrow> r_phase r = Ending t \<Longrightarrow> callbacks_ok (OnStoppedLeading r)"
  unfolding callbacks_ok_def OnStoppedLeading_def by (auto split: option.splits)

lemma callbacks_finished: "callbacks_ok r \<Longrightarrow> can_finish r \<Longrightarrow> callbacks_ok (finishStopped sent r)"
  unfolding callbacks_ok_def finishStopped_def can_finish_def
  by (auto split: option.splits phase.splits) (metis list.set_intros(1) neq_Nil_conv)

lemma callbacks_elector:
  "callbacks_ok r \<Longrightarrow> r_phase r = Contending \<Longrightarrow>
     callbacks_ok (r\<lparr>r_phase := Leading (r_terms r), r_terms := r_terms r + 1, r_pending := r_terms r # r_pending r\<rparr>)"
  "callbacks_ok r \<Longrightarrow> r_phase r = Contending \<Longrightarrow> callbacks_ok (r\<lparr>r_phase := Ending None\<rparr>)"
  "callbacks_ok r \<Longrightarrow> r_phase r = Leading n \<Longrightarrow> callbacks_ok (r\<lparr>r_phase := Ending (Some n), r_cancelled := n # r_cancelled r\<rparr>)"
  unfolding callbacks_ok_def by (auto simp: less_Suc_eq)

section \<open>Mutations\<close>

text \<open>A mutation belongs to a term the gate has had, and it is cancelled for lost leadership only when that term is over.\<close>

definition cause_ok :: "replica \<Rightarrow> nat \<Rightarrow> int \<Rightarrow> cause \<Rightarrow> bool" where
  "cause_ok r term limit c = (case c of errLeadershipLost \<Rightarrow> term \<in> set (g_ended (r_gate r))
     | errShuttingDown \<Rightarrow> m_cancelled (r_muts r) | errMutationTimeout \<Rightarrow> 0 < limit)"

definition mut_ok :: "replica \<Rightarrow> mutation \<Rightarrow> bool" where
  "mut_ok r u \<longleftrightarrow> mu_term u < g_next (r_gate r) \<and> pred_option (cause_ok r (mu_term u) (mu_limit u)) (mu_cause u)"

definition terms_ok :: "replica \<Rightarrow> bool" where
  "terms_ok r \<longleftrightarrow> list_all (mut_ok r) (m_inflight (r_muts r)) \<and> list_all (\<lambda>t. t < g_next (r_gate r)) (map snd (r_admitted r))"

definition all_ids :: "replica \<Rightarrow> nat list" where
  "all_ids r = map mu_id (m_inflight (r_muts r)) @ map fst (r_admitted r)"

definition ids_ok :: "replica \<Rightarrow> bool" where
  "ids_ok r \<longleftrightarrow> distinct (all_ids r) \<and> list_all (\<lambda>i. i < r_requests r) (all_ids r)"

lemma cause_ok_mono:
  "cause_ok r t l c \<Longrightarrow> set (g_ended (r_gate r)) \<subseteq> set (g_ended (r_gate r')) \<Longrightarrow> (m_cancelled (r_muts r) \<longrightarrow> m_cancelled (r_muts r')) \<Longrightarrow> cause_ok r' t l c"
  by (cases c) (auto simp: cause_ok_def)

lemma mut_ok_mono:
  "mut_ok r u \<Longrightarrow> g_next (r_gate r) \<le> g_next (r_gate r') \<Longrightarrow> set (g_ended (r_gate r)) \<subseteq> set (g_ended (r_gate r'))
     \<Longrightarrow> (m_cancelled (r_muts r) \<longrightarrow> m_cancelled (r_muts r')) \<Longrightarrow> mut_ok r' u"
  unfolding mut_ok_def using cause_ok_mono[of r "mu_term u" "mu_limit u" _ r'] by (auto simp: pred_option_def)

lemma terms_ok_mono:
  assumes "terms_ok r" "g_next (r_gate r) \<le> g_next (r_gate r')" "set (g_ended (r_gate r)) \<subseteq> set (g_ended (r_gate r'))"
    "m_cancelled (r_muts r) \<longrightarrow> m_cancelled (r_muts r')" "set (m_inflight (r_muts r')) \<subseteq> set (m_inflight (r_muts r))" "set (r_admitted r') \<subseteq> set (r_admitted r)"
  shows "terms_ok r'"
  unfolding terms_ok_def list_all_iff
proof (intro conjI ballI)
  fix u assume "u \<in> set (m_inflight (r_muts r'))"
  then have "mut_ok r u" using assms(1,5) by (auto simp: terms_ok_def list_all_iff)
  then show "mut_ok r' u" by (rule mut_ok_mono[OF _ assms(2-4)])
next
  fix t assume "t \<in> set (map snd (r_admitted r'))"
  then have "t < g_next (r_gate r)" using assms(1,6) by (auto simp: terms_ok_def list_all_iff)
  then show "t < g_next (r_gate r')" using assms(2) by simp
qed

lemma terms_same: "terms_ok r \<Longrightarrow> r_gate r' = r_gate r \<Longrightarrow> r_muts r' = r_muts r \<Longrightarrow> r_admitted r' = r_admitted r \<Longrightarrow> terms_ok r'"
  by (rule terms_ok_mono) auto

lemma terms_cancel:
  assumes "terms_ok r" "\<And>u. u \<in> set (m_inflight (r_muts r)) \<Longrightarrow> mu_id u = i \<Longrightarrow> cause_ok r (mu_term u) (mu_limit u) c"
  shows "terms_ok (r\<lparr>r_muts := cancel_mutation i c (r_muts r)\<rparr>)" (is "terms_ok ?r")
proof -
  have "mut_ok r v" if "v \<in> set (m_inflight (r_muts ?r))" for v
    using that assms by (auto simp: cancel_mutation_def set_upd_where terms_ok_def list_all_iff mut_ok_def split: if_splits)
  moreover have "mut_ok ?r v = mut_ok r v" for v by (simp add: mut_ok_def cause_ok_def[abs_def] cancel_mutation_def)
  ultimately show ?thesis using assms(1) by (simp add: terms_ok_def list_all_iff)
qed

lemma ids_cancel: "ids_ok r \<Longrightarrow> ids_ok (r\<lparr>r_muts := cancel_mutation i c (r_muts r)\<rparr>)"
  by (simp add: ids_ok_def all_ids_def cancel_mutation_def map_upd_where_same)

lemma ids_unique: "ids_ok r \<Longrightarrow> u \<in> set (m_inflight (r_muts r)) \<Longrightarrow> v \<in> set (m_inflight (r_muts r)) \<Longrightarrow> mu_id u = mu_id v \<Longrightarrow> u = v"
  unfolding ids_ok_def all_ids_def by (metis distinct_append distinct_map_unique)

lemma ids_done: "ids_ok r \<Longrightarrow> ids_ok (r\<lparr>r_muts := done_mutation i (r_muts r)\<rparr>)"
  unfolding ids_ok_def all_ids_def done_mutation_def list_all_iff by (auto simp: distinct_map_filter)

lemma admit_parts:
  assumes "requireLeader_admit r = Some r'"
  obtains t where "g_term (r_gate r) = Some t" "g_leader (r_gate r)"
    "r' = r\<lparr>r_admitted := (r_requests r, t) # r_admitted r, r_requests := r_requests r + 1\<rparr>"
  using assms by (auto simp: requireLeader_admit_def admit_def split: option.splits bool.splits)

lemma ids_admit: "ids_ok r \<Longrightarrow> requireLeader_admit r = Some r' \<Longrightarrow> ids_ok r'"
proof (erule admit_parts)
  fix t assume "ids_ok r" "r' = r\<lparr>r_admitted := (r_requests r, t) # r_admitted r, r_requests := r_requests r + 1\<rparr>"
  then have b: "distinct (all_ids r)" "\<And>i. i \<in> set (all_ids r) \<Longrightarrow> i < r_requests r" and r': "set (all_ids r') = insert (r_requests r) (set (all_ids r))"
    "distinct (all_ids r') \<longleftrightarrow> r_requests r \<notin> set (all_ids r) \<and> distinct (all_ids r)" "r_requests r' = Suc (r_requests r)"
    unfolding ids_ok_def list_all_iff by (simp_all add: all_ids_def) blast
  show "ids_ok r'" unfolding ids_ok_def list_all_iff r' using b less_SucI by blast
qed

lemma terms_admit:
  assumes "terms_ok r" "gate_ok (r_gate r)" "requireLeader_admit r = Some r'"
  shows "terms_ok r'"
proof -
  obtain t where t: "g_term (r_gate r) = Some t" "r' = r\<lparr>r_admitted := (r_requests r, t) # r_admitted r, r_requests := r_requests r + 1\<rparr>"
    using admit_parts[OF assms(3)] by metis
  have "t < g_next (r_gate r)" using assms(2) t(1) by (simp add: gate_ok_def)
  moreover have "mut_ok r' = mut_ok r" unfolding t(2) by (simp add: mut_ok_def[abs_def] cause_ok_def[abs_def])
  ultimately show ?thesis using assms(1) by (simp add: terms_ok_def) (simp add: t(2))
qed

lemma admitted_unique: "ids_ok r \<Longrightarrow> (i, t) \<in> set (r_admitted r) \<Longrightarrow> i \<notin> fst ` set (removeAll (i, t) (r_admitted r))"
  "ids_ok r \<Longrightarrow> (i, t) \<in> set (r_admitted r) \<Longrightarrow> i \<notin> mu_id ` set (m_inflight (r_muts r))"
proof -
  assume a: "ids_ok r" "(i, t) \<in> set (r_admitted r)"
  then have d: "distinct (map fst (r_admitted r))" "mu_id ` set (m_inflight (r_muts r)) \<inter> fst ` set (r_admitted r) = {}"
    by (simp_all add: ids_ok_def all_ids_def)
  have "u = t" if "(i, u) \<in> set (r_admitted r)" for u using that a(2) d(1) by (meson eq_key_imp_eq_value)
  then show "i \<notin> fst ` set (removeAll (i, t) (r_admitted r))" by force
  show "i \<notin> mu_id ` set (m_inflight (r_muts r))" using d(2) a(2) by force
qed

lemma begin_parts:
  "r_gate (requireLeader_begin i t limit r) = r_gate r" "r_requests (requireLeader_begin i t limit r) = r_requests r"
  "r_admitted (requireLeader_begin i t limit r) = removeAll (i, t) (r_admitted r)"
  "m_cancelled (r_muts (requireLeader_begin i t limit r)) = m_cancelled (r_muts r)"
  "m_inflight (r_muts (requireLeader_begin i t limit r)) = (if m_draining (r_muts r) then m_inflight (r_muts r)
     else m_inflight (r_muts r) @ [\<lparr>mu_id = i, mu_term = t, mu_limit = limit, mu_cause = None\<rparr>])"
  by (simp_all add: requireLeader_begin_def begin_mutation_def Let_def)

lemma terms_begin:
  assumes "terms_ok r" "(i, t) \<in> set (r_admitted r)"
  shows "terms_ok (requireLeader_begin i t limit r)" (is "terms_ok ?r")
proof -
  have "mut_ok ?r = mut_ok r" by (simp add: mut_ok_def[abs_def] cause_ok_def[abs_def] begin_parts)
  moreover have "t < g_next (r_gate r)" using assms by (force simp: terms_ok_def list_all_iff)
  ultimately show ?thesis using assms(1) by (auto simp: terms_ok_def begin_parts list_all_iff mut_ok_def)
qed

lemma ids_begin:
  assumes "ids_ok r" "(i, t) \<in> set (r_admitted r)"
  shows "ids_ok (requireLeader_begin i t limit r)" (is "ids_ok ?r")
proof -
  note u = admitted_unique[OF assms]
  have d: "distinct (map mu_id (m_inflight (r_muts r)))" "distinct (map fst (r_admitted r))"
    "mu_id ` set (m_inflight (r_muts r)) \<inter> fst ` set (r_admitted r) = {}" using assms(1) by (simp_all add: ids_ok_def all_ids_def)
  have sub: "fst ` set (removeAll (i, t) (r_admitted r)) \<subseteq> fst ` set (r_admitted r)" by auto
  have rem: "distinct (map fst (removeAll (i, t) (r_admitted r)))" using d(2) by (simp add: removeAll_filter_not_eq distinct_map_filter)
  have "distinct (all_ids ?r)" unfolding all_ids_def begin_parts using d(1,3) u sub rem by auto
  moreover have "set (all_ids ?r) \<subseteq> set (all_ids r)" 
    using imageI[OF assms(2), of fst] sub by (auto simp: all_ids_def begin_parts)
  ultimately show ?thesis using assms(1) unfolding ids_ok_def list_all_iff begin_parts by blast
qed

section \<open>Every step keeps the invariant\<close>

definition ha_ok :: "replica \<Rightarrow> bool" where
  "ha_ok r \<longleftrightarrow> callbacks_ok r \<and> gate_ok (r_gate r) \<and> told (r_gate r) \<and> terms_ok r \<and> ids_ok r \<and> (g_leader (r_gate r) \<longleftrightarrow> r_cancel r \<noteq> None)"

lemma ha_ok_start: "ha_ok (NewCallbacks marker (gate_Set False newLeaderGate) newMutations)"
  by (auto simp: ha_ok_def callbacks_ok_def gate_ok_def told_def terms_ok_def ids_ok_def all_ids_def NewCallbacks_def newLeaderGate_def gate_Set_def newMutations_def)

lemma ha_ok_elector:
  assumes "ha_ok r" "callbacks_ok r'" "r_gate r' = r_gate r" "r_muts r' = r_muts r" "r_admitted r' = r_admitted r" "r_requests r' = r_requests r"
    "r_cancel r' = r_cancel r"
  shows "ha_ok r'"
  using assms terms_same[of r r'] by (simp add: ha_ok_def ids_ok_def all_ids_def)

lemma ha_ok_muts:
  assumes "ha_ok r" "terms_ok r'" "ids_ok r'" "r_gate r' = r_gate r" "r_cancel r' = r_cancel r" "r_phase r' = r_phase r" "r_pending r' = r_pending r"
    "r_terms r' = r_terms r" "r_cancelled r' = r_cancelled r" "r_marking r' = r_marking r" "r_reconciling r' = r_reconciling r" "r_markDone r' = r_markDone r"
  shows "ha_ok r'"
  using assms callbacks_cong[of r r'] by (simp add: ha_ok_def)

lemma ha_ok_gate:
  assumes "ha_ok r" "callbacks_ok r'" "r_gate r' = gate_Set b (r_gate r)" "r_muts r' = r_muts r" "r_admitted r' = r_admitted r" "r_requests r' = r_requests r"
    "r_cancel r' \<noteq> None \<longleftrightarrow> b"
  shows "ha_ok r'"
proof -
  have g: "gate_ok (r_gate r)" using assms(1) by (simp add: ha_ok_def)
  have t: "terms_ok r" using assms(1) by (simp add: ha_ok_def)
  have "terms_ok r'" by (rule terms_ok_mono[OF t]) (simp_all add: assms(3-6) gate_Set_keeps[OF g])
  then show ?thesis using assms g gate_ok_Set[OF g, of b] told_Set[of "r_gate r" b] gate_Set_keeps(2)[OF g, of b]
    by (simp add: ha_ok_def ids_ok_def all_ids_def)
qed

lemma ha_ok_started:
  assumes "ha_ok r" "n \<in> set (r_pending r)"
  shows "ha_ok (OnStartedLeading n r)"
proof (cases "n \<in> set (r_cancelled r)")
  case True
  then show ?thesis using assms callbacks_started[of r n] by (intro ha_ok_elector[OF assms(1)]) (simp_all add: ha_ok_def OnStartedLeading_def)
next
  case False
  then show ?thesis using assms callbacks_started[of r n] by (intro ha_ok_gate[OF assms(1), of _ True]) (simp_all add: ha_ok_def OnStartedLeading_def Let_def)
qed

lemma ha_ok_admit:
  assumes "ha_ok r" "requireLeader_admit r = Some r'"
  shows "ha_ok r'"
proof -
  have t: "terms_ok r'" "ids_ok r'" using assms terms_admit[OF _ _ assms(2)] ids_admit[OF _ assms(2)] by (simp_all add: ha_ok_def)
  show ?thesis by (rule admit_parts[OF assms(2)], rule ha_ok_muts[OF assms(1) t]) simp_all
qed

lemma ha_ok_cancel:
  assumes "ha_ok r" "\<And>u. u \<in> set (m_inflight (r_muts r)) \<Longrightarrow> mu_id u = i \<Longrightarrow> cause_ok r (mu_term u) (mu_limit u) c"
  shows "ha_ok (r\<lparr>r_muts := cancel_mutation i c (r_muts r)\<rparr>)"
  using assms(1) terms_cancel[OF _ assms(2)] ids_cancel[of r i c] by (intro ha_ok_muts[OF assms(1)]) (simp_all add: ha_ok_def)

lemma ha_step_ok: "ha_step r r' \<Longrightarrow> ha_ok r \<Longrightarrow> ha_ok r'"
proof (induction rule: ha_step.induct)
  case (acquire r)
  then show ?case using callbacks_elector(1)[of r] by - (rule ha_ok_elector[of r], simp_all add: ha_ok_def)
next
  case (give_up r)
  then show ?case using callbacks_elector(2)[of r] by - (rule ha_ok_elector[of r], simp_all add: ha_ok_def)
next
  case (lose r n)
  then show ?case using callbacks_elector(3)[of r n] by - (rule ha_ok_elector[of r], simp_all add: ha_ok_def)
next
  case (started n r)
  then show ?case by (blast intro: ha_ok_started)
next
  case (stopped r t)
  then show ?case using callbacks_stopped[of r t] by - (rule ha_ok_gate[of r _ False], simp_all add: ha_ok_def OnStoppedLeading_def)
next
  case (finished r sent)
  then show ?case using callbacks_finished[of r sent] by - (rule ha_ok_elector[of r], simp_all add: ha_ok_def finishStopped_def)
next
  case (mark n r)
  then show ?case using callbacks_cong[of r "r\<lparr>r_label := True\<rparr>"] by - (rule ha_ok_elector[of r], simp_all add: ha_ok_def)
next
  case (marker_exit n r)
  then have "callbacks_ok (r\<lparr>r_marking := removeAll n (r_marking r)\<rparr>)" by - (rule callbacks_cong[of r], auto simp: ha_ok_def)
  then show ?case using marker_exit by - (rule ha_ok_elector[of r], simp_all)
next
  case (reconcile_exit n r)
  then have "callbacks_ok (r\<lparr>r_reconciling := removeAll n (r_reconciling r)\<rparr>)" by - (rule callbacks_cong[of r], auto simp: ha_ok_def)
  then show ?case using reconcile_exit by - (rule ha_ok_elector[of r], simp_all)
next
  case (request r r')
  then show ?case by (blast intro: ha_ok_admit)
next
  case (begun i t r limit)
  then show ?case using terms_begin[of r i t limit] ids_begin[of r i t limit]
    by - (rule ha_ok_muts[of r], simp_all add: ha_ok_def, simp_all add: requireLeader_begin_def Let_def split: option.splits)
next
  case (returned r i)
  have "terms_ok (r\<lparr>r_muts := done_mutation i (r_muts r)\<rparr>)" using returned by - (rule terms_ok_mono[of r], auto simp: ha_ok_def done_mutation_def)
  then show ?case using returned ids_done[of r i] by - (rule ha_ok_muts[of r], simp_all add: ha_ok_def)
next
  case (term_over u r)
  have "v = u" if "v \<in> set (m_inflight (r_muts r))" "mu_id v = mu_id u" for v
    using ids_unique[OF _ that(1) term_over(1) that(2)] term_over by (simp add: ha_ok_def)
  then show ?case using term_over by - (rule ha_ok_cancel, assumption?, auto simp: cause_ok_def)
next
  case (shut_down r i)
  then show ?case by - (rule ha_ok_cancel, assumption?, simp_all add: cause_ok_def)
next
  case (timed_out u r)
  have "v = u" if "v \<in> set (m_inflight (r_muts r))" "mu_id v = mu_id u" for v
    using ids_unique[OF _ that(1) timed_out(1) that(2)] timed_out by (simp add: ha_ok_def)
  then show ?case using timed_out by - (rule ha_ok_cancel, assumption?, auto simp: cause_ok_def)
next
  case (drain r)
  have "terms_ok (r\<lparr>r_muts := stopAdmitting (r_muts r)\<rparr>)" using drain by - (rule terms_ok_mono[of r], auto simp: ha_ok_def stopAdmitting_def)
  then show ?case using drain by - (rule ha_ok_muts[of r], simp_all add: ha_ok_def ids_ok_def all_ids_def stopAdmitting_def)
next
  case (cancel_all r)
  have "terms_ok (r\<lparr>r_muts := cancelAll (r_muts r)\<rparr>)" using cancel_all by - (rule terms_ok_mono[of r], auto simp: ha_ok_def cancelAll_def)
  then show ?case using cancel_all by - (rule ha_ok_muts[of r], simp_all add: ha_ok_def ids_ok_def all_ids_def cancelAll_def)
next
  case (observed r)
  have "terms_ok (r\<lparr>r_gate := Observe (r_gate r)\<rparr>)" using observed by - (rule terms_ok_mono[of r], auto simp: ha_ok_def Observe_def)
  moreover have "callbacks_ok (r\<lparr>r_gate := Observe (r_gate r)\<rparr>)" using observed callbacks_cong[of r "r\<lparr>r_gate := Observe (r_gate r)\<rparr>"] by (simp add: ha_ok_def)
  ultimately show ?case using observed Observe_keeps[of "r_gate r"] by (simp add: ha_ok_def ids_ok_def all_ids_def) (simp add: Observe_def)
qed

lemma ha_reachable_ok: "ha_reachable r \<Longrightarrow> ha_ok r"
  by (induction rule: ha_reachable.induct) (auto intro: ha_ok_start ha_step_ok)

lemma closed_gate_terms: "ha_ok r \<Longrightarrow> \<not> g_leader (r_gate r) \<Longrightarrow> u \<in> set (m_inflight (r_muts r)) \<Longrightarrow> mu_term u \<in> set (g_ended (r_gate r))"
  by (auto simp: ha_ok_def gate_ok_def terms_ok_def mut_ok_def list_all_iff split: option.splits)

lemma closed_gate_refuses: "\<not> g_leader (r_gate r) \<Longrightarrow> requireLeader_admit r = None"
  by (auto simp: requireLeader_admit_def admit_def split: option.splits bool.splits)

text \<open>
  Leadership is safe in every reachable state (C19): an open gate means that this replica's elector is in the very term the gate was opened for (or that it has ended that
  term and not yet run \<open>OnStoppedLeading\<close>). Once \<open>OnStoppedLeading\<close> has closed the gate, and until the next term, no mutation is admitted, every
  mutation still in flight belongs to a term that is over, every reconcile loop still running has its context cancelled and \<open>OnStoppedLeading\<close> waits only for a marker
  loop whose context is cancelled; while the replica contends again no marker loop runs, so no Mark lands after the Unmark. Observers were told
  the current value last.
\<close>

theorem leadership_safe:
  assumes "ha_reachable r"
  shows "(IsLeader (r_gate r) \<longrightarrow> (\<exists>n. r_cancel r = Some n \<and> (r_phase r = Leading n \<or> r_phase r = Ending (Some n))))
     \<and> (r_phase r = Contending \<or> (\<exists>w. r_phase r = Stopping w) \<longrightarrow>
          requireLeader_admit r = None \<and> (\<forall>u \<in> set (m_inflight (r_muts r)). mu_term u \<in> set (g_ended (r_gate r)))
          \<and> set (r_reconciling r) \<subseteq> set (r_cancelled r))
     \<and> (\<forall>n. r_phase r = Stopping (Some n) \<longrightarrow> n \<in> set (r_cancelled r))
     \<and> (r_phase r = Contending \<longrightarrow> r_marking r = [])
     \<and> (\<forall>i < g_observers (r_gate r). last_call i (r_gate r) = Some (IsLeader (r_gate r)))"
proof (intro conjI)
  note good = ha_reachable_ok[OF assms]
  have led: "g_leader (r_gate r) \<longleftrightarrow> r_cancel r \<noteq> None" and cb: "callbacks_ok r" using good by (simp_all add: ha_ok_def)
  have phase: "r_phase r = Leading n \<or> r_phase r = Ending (Some n)" if "r_cancel r = Some n" for n using cb that by (simp add: callbacks_ok_def)
  show "IsLeader (r_gate r) \<longrightarrow> (\<exists>n. r_cancel r = Some n \<and> (r_phase r = Leading n \<or> r_phase r = Ending (Some n)))"
    using led phase by (auto simp: IsLeader_def)
  show "r_phase r = Contending \<or> (\<exists>w. r_phase r = Stopping w) \<longrightarrow>
          requireLeader_admit r = None \<and> (\<forall>u \<in> set (m_inflight (r_muts r)). mu_term u \<in> set (g_ended (r_gate r)))
          \<and> set (r_reconciling r) \<subseteq> set (r_cancelled r)"
  proof
    assume "r_phase r = Contending \<or> (\<exists>w. r_phase r = Stopping w)"
    then have none: "r_cancel r = None" using phase by (cases "r_cancel r") fastforce+
    have "set (r_reconciling r) \<subseteq> set (r_cancelled r)" using cb none by (auto simp: callbacks_ok_def)
    then show "requireLeader_admit r = None \<and> (\<forall>u \<in> set (m_inflight (r_muts r)). mu_term u \<in> set (g_ended (r_gate r)))
          \<and> set (r_reconciling r) \<subseteq> set (r_cancelled r)" using led none closed_gate_refuses closed_gate_terms[OF good] by simp
  qed
  show "\<forall>n. r_phase r = Stopping (Some n) \<longrightarrow> n \<in> set (r_cancelled r)" using cb by (simp add: callbacks_ok_def)
  have "n \<notin> set (r_marking r)" if "r_phase r = Contending" for n using cb that phase[of n] by (auto simp: callbacks_ok_def)
  then show "r_phase r = Contending \<longrightarrow> r_marking r = []" by (metis list.set_intros(1) neq_Nil_conv)
  show "\<forall>i < g_observers (r_gate r). last_call i (r_gate r) = Some (IsLeader (r_gate r))" using good by (simp add: ha_ok_def told_def IsLeader_def)
qed

text \<open>The first term of a replica is lost before its \<open>OnStartedLeading\<close> takes the lock.\<close>

definition late_start :: replica where
  "late_start = OnStartedLeading 0 (OnStoppedLeading
     (NewCallbacks True (gate_Set False newLeaderGate) newMutations
        \<lparr>r_phase := Ending (Some 0), r_terms := 1, r_pending := [0], r_cancelled := [0]\<rparr>))"

lemma late_start_reachable: "ha_reachable late_start"
proof -
  let ?r0 = "NewCallbacks True (gate_Set False newLeaderGate) newMutations"
  let ?r1 = "?r0\<lparr>r_phase := Leading 0, r_terms := 1, r_pending := [0]\<rparr>"
  let ?r2 = "?r0\<lparr>r_phase := Ending (Some 0), r_terms := 1, r_pending := [0], r_cancelled := [0]\<rparr>"
  have "ha_reachable ?r1" by (rule ha_reachable.step[OF ha_reachable.start]) (use ha_step.acquire[of ?r0] in \<open>simp add: NewCallbacks_def\<close>)
  then have "ha_reachable ?r2" by (rule ha_reachable.step) (use ha_step.lose[of ?r1 0] in \<open>simp add: NewCallbacks_def\<close>)
  then have "ha_reachable (OnStoppedLeading ?r2)" by (rule ha_reachable.step) (rule ha_step.stopped[of _ "Some 0"], simp)
  then show ?thesis unfolding late_start_def by (rule ha_reachable.step) (rule ha_step.started, simp add: OnStoppedLeading_def)
qed

theorem leadership_safe_witness: "r_phase late_start = Stopping None \<and> requireLeader_admit late_start = None \<and> r_marking late_start = []"
  using leadership_safe[OF late_start_reachable] by (simp add: late_start_def OnStartedLeading_def OnStoppedLeading_def NewCallbacks_def)

end
