(* ===== verification/Marker.thy ===== *)
theory Marker
  imports LeaderProps
begin

text \<open>
  The in-cluster marker (\<open>PodLabeler\<close> of \<^verbatim>\<open>src/internal/ha/leader.go\<close>) and the replica's identity. The pods of the namespace are kept by the apiserver, whose
  three calls are parameters; \<open>pods_ok\<close> is what the code relies on of them: a merge patch sets or removes one label of one pod, a list by selector returns the
  pods that carry the label, and a pod that is not found carries none.
\<close>

section \<open>The calls\<close>

record kerr =
  ke_notfound :: bool
  ke_msg :: string

record 'k pods_api =
  pods_get :: "string \<Rightarrow> string \<Rightarrow> 'k \<Rightarrow> (kerr + (string \<rightharpoonup> string)) \<times> 'k"
  pods_list :: "string \<Rightarrow> string \<Rightarrow> 'k \<Rightarrow> (kerr + string list) \<times> 'k"
  pods_patch :: "string \<Rightarrow> string \<Rightarrow> string \<Rightarrow> 'k \<Rightarrow> kerr option \<times> 'k"

record PodLabeler =
  pl_Namespace :: string
  pl_Pod :: string

definition LeaderLabel :: string where "LeaderLabel = ''pgoverlay.leader''"

text \<open>\<open>fmt.Errorf\<close> with \<open>%w\<close> keeps what \<open>IsNotFound\<close> sees; \<open>errors.Join\<close> of no error is nil.\<close>

definition wrapf :: "string \<Rightarrow> kerr \<Rightarrow> kerr" where
  "wrapf prefix e = e\<lparr>ke_msg := prefix @ '': '' @ ke_msg e\<rparr>"

fun join_errs :: "kerr list \<Rightarrow> kerr option" where
  "join_errs [] = None"
| "join_errs (e # es) = Some \<lparr>ke_notfound = list_ex ke_notfound (e # es), ke_msg = concat (ke_msg e # map (\<lambda>x. CHR 0x0A # ke_msg x) es)\<rparr>"

definition label_patch :: "string option \<Rightarrow> string" where
  "label_patch v = ''{\"metadata\":{\"labels\":{\"'' @ LeaderLabel @ ''\":'' @ (case v of None \<Rightarrow> ''null'' | Some x \<Rightarrow> ''\"'' @ x @ ''\"'') @ ''}}}''"

definition setLabel :: "'k pods_api \<Rightarrow> PodLabeler \<Rightarrow> string \<Rightarrow> string option \<Rightarrow> 'k \<Rightarrow> kerr option \<times> 'k" where
  "setLabel A p pod v k = (case pods_patch A (pl_Namespace p) pod (label_patch v) k of
     (e, k1) \<Rightarrow> (map_option (wrapf (''label pod '' @ pl_Namespace p @ ''/'' @ pod)) e, k1))"

fun clear_others :: "'k pods_api \<Rightarrow> PodLabeler \<Rightarrow> string list \<Rightarrow> 'k \<Rightarrow> kerr list \<times> 'k" where
  "clear_others A p [] k = ([], k)"
| "clear_others A p (other # os) k =
     (if other = pl_Pod p then clear_others A p os k
      else (case setLabel A p other None k of (e, k1) \<Rightarrow>
        (case clear_others A p os k1 of (es, k2) \<Rightarrow>
          (case e of Some x \<Rightarrow> if ke_notfound x then (es, k2) else (x # es, k2) | None \<Rightarrow> (es, k2)))))"

definition Mark :: "'k pods_api \<Rightarrow> PodLabeler \<Rightarrow> 'k \<Rightarrow> kerr option \<times> 'k" where
  "Mark A p k = (case pods_get A (pl_Namespace p) (pl_Pod p) k of
       (Inl e, k1) \<Rightarrow> (Some (wrapf (''get own pod '' @ pl_Namespace p @ ''/'' @ pl_Pod p) e), k1)
     | (Inr labels, k1) \<Rightarrow>
        (case (if labels LeaderLabel \<noteq> Some ''true'' then setLabel A p (pl_Pod p) (Some ''true'') k1 else (None, k1)) of
           (Some e, k2) \<Rightarrow> (Some e, k2)
         | (None, k2) \<Rightarrow>
            (case pods_list A (pl_Namespace p) (LeaderLabel @ ''=true'') k2 of
               (Inl e, k3) \<Rightarrow> (Some (wrapf (''list pods labelled '' @ LeaderLabel) e), k3)
             | (Inr labelled, k3) \<Rightarrow> (case clear_others A p labelled k3 of (es, k4) \<Rightarrow> (join_errs es, k4)))))"

definition Unmark :: "'k pods_api \<Rightarrow> PodLabeler \<Rightarrow> 'k \<Rightarrow> kerr option \<times> 'k" where
  "Unmark A p k = (case setLabel A p (pl_Pod p) None k of
     (Some e, k1) \<Rightarrow> if ke_notfound e then (None, k1) else (Some e, k1) | (None, k1) \<Rightarrow> (None, k1))"

text \<open>\<open>Identity\<close>: the value of POD_NAME (empty when unset) and the result of \<open>os.Hostname\<close>.\<close>

definition Identity :: "string \<Rightarrow> string option \<Rightarrow> string" where
  "Identity pod_name hostname = (if pod_name \<noteq> '''' then pod_name
     else case hostname of Some h \<Rightarrow> if h \<noteq> '''' then h else ''branchd'' | None \<Rightarrow> ''branchd'')"

text \<open>The checks of \<open>Run\<close> before the elector is built.\<close>

definition Run_precheck :: "string \<Rightarrow> string \<Rightarrow> string option" where
  "Run_precheck namespace identity =
     (if namespace = '''' then Some ''leader election requires a namespace''
      else if identity = '''' then Some ''leader election requires an identity'' else None)"

text \<open>The case analysis of \<open>watchLeaderless\<close> after a read of the Lease: \<open>rec\<close> is the holder and the time since the last renewal.\<close>

datatype lease_warning = cannot_read | no_live_lease

definition watchLeaderless_tick :: "bool \<Rightarrow> (string \<times> int) option \<Rightarrow> int \<Rightarrow> lease_warning option" where
  "watchLeaderless_tick ctx_over rec stale = (if ctx_over then None
     else case rec of None \<Rightarrow> Some cannot_read
       | Some (holder, since) \<Rightarrow> if holder = '''' \<or> stale < since then Some no_live_lease else None)"

section \<open>What marking achieves\<close>

definition pods_ok :: "'k pods_api \<Rightarrow> string \<Rightarrow> ('k \<Rightarrow> string set) \<Rightarrow> bool" where
  "pods_ok A ns marked \<longleftrightarrow>
     (\<forall>pod k. marked (snd (pods_get A ns pod k)) = marked k
        \<and> (\<forall>ls. fst (pods_get A ns pod k) = Inr ls \<longrightarrow> (ls LeaderLabel = Some ''true'' \<longleftrightarrow> pod \<in> marked k)))
   \<and> (\<forall>k. marked (snd (pods_list A ns (LeaderLabel @ ''=true'') k)) = marked k
        \<and> (\<forall>xs. fst (pods_list A ns (LeaderLabel @ ''=true'') k) = Inr xs \<longrightarrow> set xs = marked k))
   \<and> (\<forall>pod k. case pods_patch A ns pod (label_patch (Some ''true'')) k of
        (None, k1) \<Rightarrow> marked k1 = insert pod (marked k) | (Some e, k1) \<Rightarrow> marked k1 \<in> {marked k, insert pod (marked k)})
   \<and> (\<forall>pod k. case pods_patch A ns pod (label_patch None) k of
        (None, k1) \<Rightarrow> marked k1 = marked k - {pod}
      | (Some e, k1) \<Rightarrow> if ke_notfound e then pod \<notin> marked k \<and> marked k1 = marked k else marked k1 \<in> {marked k, marked k - {pod}})"

lemma setLabel_none:
  assumes "pods_ok A (pl_Namespace p) marked" "setLabel A p pod None k = (e, k1)"
  shows "marked k1 \<subseteq> marked k" "marked k - {pod} \<subseteq> marked k1" "(case e of None \<Rightarrow> True | Some x \<Rightarrow> ke_notfound x) \<Longrightarrow> marked k1 = marked k - {pod}"
proof -
  obtain d where d: "pods_patch A (pl_Namespace p) pod (label_patch None) k = (d, k1)" "e = map_option (wrapf (''label pod '' @ pl_Namespace p @ ''/'' @ pod)) d"
    using assms(2) by (auto simp: setLabel_def split: prod.splits)
  have f: "case d of None \<Rightarrow> marked k1 = marked k - {pod}
      | Some e \<Rightarrow> if ke_notfound e then pod \<notin> marked k \<and> marked k1 = marked k else marked k1 \<in> {marked k, marked k - {pod}}"
    using assms(1) d(1) unfolding pods_ok_def by (elim conjE, drule_tac x = pod in spec, drule_tac x = pod in spec)
      (metis (no_types, lifting) case_prod_conv)
  show "marked k1 \<subseteq> marked k" "marked k - {pod} \<subseteq> marked k1" using f by (auto split: option.splits if_splits)
  show "(case e of None \<Rightarrow> True | Some x \<Rightarrow> ke_notfound x) \<Longrightarrow> marked k1 = marked k - {pod}"
    using f d(2) by (auto simp: wrapf_def split: option.splits if_splits)
qed

lemma clear_others_marks:
  assumes "pods_ok A (pl_Namespace p) marked"
  shows "clear_others A p xs k = (es, k1) \<Longrightarrow> marked k1 \<subseteq> marked k \<and> marked k - (set xs - {pl_Pod p}) \<subseteq> marked k1
     \<and> (es = [] \<longrightarrow> marked k1 = marked k - (set xs - {pl_Pod p}))"
proof (induction xs arbitrary: k es)
  case (Cons x xs)
  show ?case
  proof (cases "x = pl_Pod p")
    case True
    then show ?thesis using Cons by auto
  next
    case False
    obtain e k2 fs where s: "setLabel A p x None k = (e, k2)" "clear_others A p xs k2 = (fs, k1)"
      and es: "es = [] \<longrightarrow> fs = [] \<and> (case e of None \<Rightarrow> True | Some d \<Rightarrow> ke_notfound d)"
      using Cons.prems False by (auto split: prod.splits option.splits if_splits)
    note a = setLabel_none[OF assms s(1)] Cons.IH[OF s(2)]
    have "marked k1 = marked k - (set (x # xs) - {pl_Pod p})" if "es = []" using a es that False by auto
    then show ?thesis using a False by auto
  qed
qed simp

lemma join_errs_None [simp]: "join_errs es = None \<longleftrightarrow> es = []"
  by (cases es) simp_all

lemma pods_ok_read:
  assumes "pods_ok A ns marked"
  shows "marked (snd (pods_get A ns pod k)) = marked k" "fst (pods_get A ns pod k) = Inr ls \<Longrightarrow> ls LeaderLabel = Some ''true'' \<longleftrightarrow> pod \<in> marked k"
    "marked (snd (pods_list A ns (LeaderLabel @ ''=true'') k)) = marked k" "fst (pods_list A ns (LeaderLabel @ ''=true'') k) = Inr xs \<Longrightarrow> set xs = marked k"
  using assms unfolding pods_ok_def by simp_all

lemma setLabel_true:
  assumes "pods_ok A (pl_Namespace p) marked" "setLabel A p pod (Some ''true'') k = (e, k1)"
  shows "marked k \<subseteq> marked k1" "marked k1 \<subseteq> insert pod (marked k)" "e = None \<Longrightarrow> pod \<in> marked k1"
proof -
  obtain d where d: "pods_patch A (pl_Namespace p) pod (label_patch (Some ''true'')) k = (d, k1)" "e = None \<longleftrightarrow> d = None"
    using assms(2) by (auto simp: setLabel_def split: prod.splits)
  have "\<forall>pod k. case pods_patch A (pl_Namespace p) pod (label_patch (Some ''true'')) k of
      (None, k1) \<Rightarrow> marked k1 = insert pod (marked k) | (Some e, k1) \<Rightarrow> marked k1 \<in> {marked k, insert pod (marked k)}"
    using assms(1) unfolding pods_ok_def by (elim conjE)
  from this[THEN spec, THEN spec, of pod k, unfolded d(1)]
  have "case (d, k1) of (None, k1) \<Rightarrow> marked k1 = insert pod (marked k) | (Some e, k1) \<Rightarrow> marked k1 \<in> {marked k, insert pod (marked k)}" .
  then show "marked k \<subseteq> marked k1" "marked k1 \<subseteq> insert pod (marked k)" "e = None \<Longrightarrow> pod \<in> marked k1"
    using d(2) by (auto split: option.splits)
qed

text \<open>\<open>Mark\<close> up to the list: whether the own pod carries the label is read first, and it is patched only if it does not.\<close>

lemma Mark_own:
  assumes "pods_ok A (pl_Namespace p) marked" "pods_get A (pl_Namespace p) (pl_Pod p) k = (Inr ls, k1)"
    "(if ls LeaderLabel \<noteq> Some ''true'' then setLabel A p (pl_Pod p) (Some ''true'') k1 else (None, k1)) = (e, k2)"
  shows "marked k2 \<subseteq> insert (pl_Pod p) (marked k)" "marked k \<subseteq> marked k2" "e = None \<Longrightarrow> pl_Pod p \<in> marked k2"
proof -
  have k1: "marked k1 = marked k" "ls LeaderLabel = Some ''true'' \<longleftrightarrow> pl_Pod p \<in> marked k"
    using pods_ok_read(1,2)[OF assms(1), of "pl_Pod p" k] assms(2) by simp_all
  show "marked k2 \<subseteq> insert (pl_Pod p) (marked k)" "marked k \<subseteq> marked k2" "e = None \<Longrightarrow> pl_Pod p \<in> marked k2"
    using assms(3) k1 setLabel_true[OF assms(1), of "pl_Pod p" k1 e k2] by (auto split: if_splits)
qed

lemma Mark_marks:
  assumes "pods_ok A (pl_Namespace p) marked"
  shows "(fst (Mark A p k) = None \<longrightarrow> marked (snd (Mark A p k)) = {pl_Pod p})
     \<and> marked (snd (Mark A p k)) \<subseteq> insert (pl_Pod p) (marked k) \<and> (pl_Pod p \<in> marked k \<longrightarrow> pl_Pod p \<in> marked (snd (Mark A p k)))"
proof (cases "pods_get A (pl_Namespace p) (pl_Pod p) k")
  case g: (Pair gr k1)
  then have k1: "marked k1 = marked k" using pods_ok_read(1)[OF assms, of "pl_Pod p" k] by simp
  show ?thesis
  proof (cases gr)
    case (Inl e)
    then show ?thesis using k1 by (auto simp: Mark_def g)
  next
    case (Inr ls)
    obtain e k2 where o2: "(if ls LeaderLabel \<noteq> Some ''true'' then setLabel A p (pl_Pod p) (Some ''true'') k1 else (None, k1)) = (e, k2)" by fastforce
    note own = Mark_own[OF assms g[unfolded Inr] o2]
    obtain lr k3 where l: "pods_list A (pl_Namespace p) (LeaderLabel @ ''=true'') k2 = (lr, k3)" by fastforce
    then have k3: "marked k3 = marked k2" "\<And>xs. lr = Inr xs \<Longrightarrow> set xs = marked k2" using pods_ok_read(3,4)[OF assms, of k2] by simp_all
    show ?thesis
    proof (cases "e = None \<and> (\<exists>xs. lr = Inr xs)")
      case True
      then obtain xs where xs: "e = None" "lr = Inr xs" by blast
      obtain es k4 where c: "clear_others A p xs k3 = (es, k4)" by fastforce
      have M: "Mark A p k = (join_errs es, k4)" by (simp only: Mark_def g Inr o2 xs l c prod.case sum.case option.case)
      show ?thesis unfolding M using clear_others_marks[OF assms c] own(1,2) own(3)[OF xs(1)] k3(1) k3(2)[OF xs(2)] by auto
    next
      case False
      have M: "Mark A p k = (case e of Some x \<Rightarrow> (Some x, k2) | None \<Rightarrow>
          (case lr of Inl x \<Rightarrow> (Some (wrapf (''list pods labelled '' @ LeaderLabel) x), k3)
            | Inr xs \<Rightarrow> (case clear_others A p xs k3 of (es, k4) \<Rightarrow> (join_errs es, k4))))"
        by (simp only: Mark_def g Inr o2 l prod.case sum.case)
      show ?thesis unfolding M using False own(1,2) k3(1) by (cases e; cases lr) auto
    qed
  qed
qed

text \<open>
  Marking is exclusive : a \<open>Mark\<close> that returns no error leaves exactly this pod labelled, whatever pods earlier leaders left labelled; a \<open>Mark\<close> that fails labels
  no pod but this one and clears none but the others; an \<open>Unmark\<close> that returns no error leaves this pod without the label and touches no other pod, also when
  the pod is gone already.
\<close>

theorem mark_exclusive:
  assumes "pods_ok A (pl_Namespace p) marked"
  shows "(fst (Mark A p k) = None \<longrightarrow> marked (snd (Mark A p k)) = {pl_Pod p})
     \<and> marked (snd (Mark A p k)) \<subseteq> insert (pl_Pod p) (marked k) \<and> (pl_Pod p \<in> marked k \<longrightarrow> pl_Pod p \<in> marked (snd (Mark A p k)))
     \<and> (fst (Unmark A p k) = None \<longrightarrow> marked (snd (Unmark A p k)) = marked k - {pl_Pod p})"
proof -
  obtain e k1 where u: "setLabel A p (pl_Pod p) None k = (e, k1)" by fastforce
  have "fst (Unmark A p k) = None \<longrightarrow> marked (snd (Unmark A p k)) = marked k - {pl_Pod p}"
    using setLabel_none(3)[OF assms u] by (auto simp: Unmark_def u split: option.splits)
  with Mark_marks[OF assms, of k] show ?thesis by blast
qed

text \<open>An apiserver whose state is the list of the labelled pods; a pod named \<open>gone\<close> does not exist.\<close>

definition sim_pods :: "string list pods_api" where
  "sim_pods = \<lparr>pods_get = (\<lambda>ns pod k. (Inr (\<lambda>l. if l = LeaderLabel \<and> pod \<in> set k then Some ''true'' else None), k)),
     pods_list = (\<lambda>ns sel k. (Inr k, k)),
     pods_patch = (\<lambda>ns pod body k. if body = label_patch None then if pod = ''gone'' \<and> pod \<notin> set k then (Some \<lparr>ke_notfound = True, ke_msg = ''not found''\<rparr>, k)
        else (None, filter (\<lambda>x. x \<noteq> pod) k) else (None, pod # k))\<rparr>"

lemma sim_pods_ok: "pods_ok sim_pods ns set"
  by (auto simp: pods_ok_def sim_pods_def label_patch_def)

theorem mark_exclusive_witness:
  "fst (Mark sim_pods \<lparr>pl_Namespace = ''ns'', pl_Pod = ''b''\<rparr> [''a'', ''c'']) = None
   \<and> set (snd (Mark sim_pods \<lparr>pl_Namespace = ''ns'', pl_Pod = ''b''\<rparr> [''a'', ''c''])) = {''b''}"
proof -
  let ?p = "\<lparr>pl_Namespace = ''ns'', pl_Pod = ''b''\<rparr>"
  have "fst (Mark sim_pods ?p [''a'', ''c'']) = None" by (simp add: Mark_def sim_pods_def setLabel_def label_patch_def)
  then show ?thesis using mark_exclusive[of sim_pods ?p set, OF sim_pods_ok, of "[''a'', ''c'']"] by simp
qed

end
