(* ===== verification/SeedingProps.thy ===== *)
theory SeedingProps
  imports SagaSafety
begin

text \<open>
  What adding and refreshing a source guarantee: a source is ready only after every seed step succeeded on its own
  layer, a failed seed leaves no layer behind, the password travels in the environment of the helpers only, and the schema patterns of a dump reach pg_dump as they were given.
\<close>

section \<open>A failed seed leaves no layer\<close>

lemma aborts_steps:
  assumes "clears P us Q"
  shows "us = [u] \<Longrightarrow> aborts P (do { _ \<leftarrow> u; fail_with e }) Q" "us = [u, v] \<Longrightarrow> aborts P (do { _ \<leftarrow> u; _ \<leftarrow> v; fail_with e }) Q"
  using assms unfolding aborts_def clears_def by (fastforce split: prod.splits)+

lemma source_writes_shrink [saga_rules]:
  "keeps (shrinks vols conts E) (reg_create_source E s)" "keeps (shrinks vols conts E) (reg_source_state E sid sto reason)"
  "keeps (shrinks vols conts E) (reg_source_pending E sid vol)" "keeps (shrinks vols conts E) (reg_bump_source E sid vol)"
  unfolding reg_create_source_def reg_source_state_def reg_source_pending_def reg_bump_source_def by (rule shrinks_write)+

lemma seed_shrinks [saga_rules]: "keeps (shrinks vols conts E) (seedSource S G E src layer password)"
  unfolding seedSource_def DetectOwner_def SeedDump_def Seed_def Settle_def Let_def by (intro saga_rules)

lemma clears_layer:
  assumes D: "driver_ok vols conts (e_drv E)" and "clears (holds vols conts w0 (V - {v}) C) us Q" "zfs G \<Longrightarrow> V = {}"
  shows "clears (holds vols conts w0 V C) (logCompensationErr (removeSourceLayer G E v) # us) Q"
proof (cases "zfs G")
  case True
  then show ?thesis using assms(2,3) unfolding removeSourceLayer_def runZFS_def
    by (auto intro!: clears_keep[OF D] saga_rules)
next
  case False
  then show ?thesis using clears_remove[OF D assms(2)] by (simp add: removeSourceLayer_def)
qed

text \<open>What both operations have in common: the layer is created, the seed runs on it, and each failure is undone.\<close>

lemma seeded_layer_aborts:
  fixes E :: "'rt env" and u :: "engine_error \<Rightarrow> ('rt, unit) act" and u' :: "('rt, unit) act"
  assumes D: "driver_ok vols conts (e_drv E)" and u: "\<And>e. keeps (shrinks vols conts E) (u e)" "keeps (shrinks vols conts E) u'"
  shows "aborts (holds vols conts w0 {} {})
     (attempt (createSourceLayer G E v ls) (\<lambda>e. do { _ \<leftarrow> u'; fail_with e }) (\<lambda>_.
        attempt (seedSource S G E src v password)
          (\<lambda>e. do { _ \<leftarrow> logCompensationErr (removeSourceLayer G E v); _ \<leftarrow> u e; fail_with (f e) }) (\<lambda>_. ok x)))
     (holds vols conts w0 {} {})"
proof -
  have undo: "aborts (holds vols conts w0 V {}) (do { _ \<leftarrow> logCompensationErr (removeSourceLayer G E v); _ \<leftarrow> u e; fail_with (f e) }) (holds vols conts w0 {} {})"
    if "V \<subseteq> {v}" "zfs G \<Longrightarrow> V = {}" for V e
  proof -
    have empty: "V - {v} = {}" using that by blast
    have "clears (holds vols conts w0 (V - {v}) {}) [u e] (holds vols conts w0 {} {})" unfolding empty by (rule clears_keep[OF D u(1) clears_Nil])
    from aborts_steps(2)[OF clears_layer[OF D this that(2)] refl] show ?thesis .
  qed
  have start: "aborts (holds vols conts w0 {} {}) (do { _ \<leftarrow> u'; fail_with e }) (holds vols conts w0 {} {})" for e
    by (rule aborts_steps(1)[OF clears_keep[OF D u(2) clears_Nil] refl])
  have seed: "aborts (holds vols conts w0 V {}) (attempt (seedSource S G E src v password)
        (\<lambda>e. do { _ \<leftarrow> logCompensationErr (removeSourceLayer G E v); _ \<leftarrow> u e; fail_with (f e) }) (\<lambda>_. ok x)) (holds vols conts w0 {} {})"
    if "V \<subseteq> {v}" "zfs G \<Longrightarrow> V = {}" for V
    by (rule aborts_pass[OF D seed_shrinks undo aborts_ok]) (use that in auto)
  show ?thesis
  proof (cases "zfs G")
    case True
    then show ?thesis unfolding createSourceLayer_def runZFS_def
      by (simp only: if_True) (rule aborts_pass[OF D], intro saga_rules, rule start, rule seed, simp_all)
  next
    case False
    then show ?thesis unfolding createSourceLayer_def by (simp only: if_False) (rule aborts_create[OF D start seed], simp_all)
  qed
qed

lemma addSourceSeeded_aborts:
  assumes D: "driver_ok vols conts (e_drv E)"
  shows "aborts (holds vols conts w0 {} {}) (addSourceSeeded S G E s password) (holds vols conts w0 {} {})"
  unfolding addSourceSeeded_def
  by (rule seeded_layer_aborts[OF D] aborts_ok aborts_fail | rule abort_pass[OF D] | intro saga_rules)+

lemma refreshSeeded_aborts:
  assumes D: "driver_ok vols conts (e_drv E)"
  shows "aborts (holds vols conts w0 {} {}) (refreshSeeded S G E name password) (holds vols conts w0 {} {})"
  unfolding refreshSeeded_def releaseClaim_def Let_def
  by (rule seeded_layer_aborts[OF D] aborts_ok aborts_fail aborts_if | rule abort_pass[OF D] | intro saga_rules)+


section \<open>Ready means seeded\<close>

definition create_event :: "engine \<Rightarrow> string \<Rightarrow> event" where
  "create_event G v = (if zfs G then EvRunHelper (zfsHelperSpec (ZFSCreate v)) True else EvCreateVolume v True)"

text \<open>The helpers of a complete seed, in order.\<close>

definition seed_specs :: "seeding \<Rightarrow> engine \<Rightarrow> source \<Rightarrow> string \<Rightarrow> string \<Rightarrow> string \<Rightarrow> HelperSpec list" where
  "seed_specs S G src layer password owner =
     (let s = seed_spec S G src layer password owner
      in helper_spec\<lparr>hs_Image := image G src, hs_Cmd := [''sh'', ''-c'', ownerScript]\<rparr> # prepareSpec s #
         (if src_SeedVia src = ''dump'' then [dumpSpec S (dump_spec src s)]
          else [basebackupSpec S s, fixupSpec S s] @ (if ParseSettleMode (sd_seedSettle S) = Inr SettleOff then []
            else [settleSpec S s (case ParseSettleMode (sd_seedSettle S) of Inr m \<Rightarrow> m | Inl e \<Rightarrow> [])])))"

lemma helper_log: "run_state (RunHelper E spec) w = (Inr x, w') \<Longrightarrow> w_log w' = w_log w @ [EvRunHelper spec True]"
  unfolding RunHelper_def by (drule run_drv_call_Inr) (simp add: succeeded_def)

lemma check_err_Inr [simp]: "run_state (check_err r) w = (Inr u, w') \<longleftrightarrow> r = None \<and> w' = w"
  by (auto simp: check_err_def split: option.splits)

lemma Seed_log:
  assumes "run_state (Seed S E s) w = (Inr (), w')"
  shows "w_log w' = w_log w @ map (\<lambda>h. EvRunHelper h True) [prepareSpec s, basebackupSpec S s, fixupSpec S s]"
  using assms unfolding Seed_def
  by (auto elim!: run_seq_ok_InrE run_attempt_InrE dest!: helper_log)

lemma Settle_log:
  assumes "run_state (Settle S E s) w = (Inr (), w')"
  shows "w_log w' = w_log w @ map (\<lambda>h. EvRunHelper h True) (if ParseSettleMode (ss_Settle s) = Inr SettleOff then []
    else [settleSpec S s (case ParseSettleMode (ss_Settle s) of Inr m \<Rightarrow> m | Inl e \<Rightarrow> [])])"
  using assms unfolding Settle_def
  by (auto elim!: run_attempt_InrE dest!: helper_log split: sum.splits if_splits)

lemma SeedDump_log:
  assumes "run_state (SeedDump S E s) w = (Inr (), w')"
  shows "w_log w' = w_log w @ map (\<lambda>h. EvRunHelper h True) [prepareSpec (SeedSpec.truncate s), dumpSpec S s]"
  using assms unfolding SeedDump_def
  by (auto elim!: run_seq_ok_InrE run_attempt_InrE dest!: helper_log)

lemma truncate_dump_spec: "SeedSpec.truncate (dump_spec src s) = s"
  by (simp add: dump_spec_def SeedSpec.truncate_def SeedSpec.extend_def)

lemma seedSource_log:
  assumes "run_state (seedSource S G E src layer password) w = (Inr (), w')"
  shows "\<exists>owner. w_log w' = w_log w @ map (\<lambda>h. EvRunHelper h True) (seed_specs S G src layer password owner)"
proof -
  let ?s = "\<lambda>owner. seed_spec S G src layer password owner"
  have settle: "ss_Settle (?s owner) = sd_seedSettle S" for owner by (simp add: seed_spec_def)
  obtain owner w1 where o1: "run_state (DetectOwner E (image G src)) w = (Inr owner, w1)"
    and r: "run_state (if src_SeedVia src = ''dump'' then SeedDump S E (dump_spec src (?s owner)) else seq_ok (Seed S E (?s owner)) (\<lambda>_. Settle S E (?s owner))) w1 = (Inr (), w')"
    using assms unfolding seedSource_def Let_def by (rule run_seq_ok_InrE)
  have l1: "w_log w1 = w_log w @ [EvRunHelper (helper_spec\<lparr>hs_Image := image G src, hs_Cmd := [''sh'', ''-c'', ownerScript]\<rparr>) True]"
    using o1 unfolding DetectOwner_def by (auto elim!: run_attempt_InrE dest!: helper_log)
  have "w_log w' = w_log w @ map (\<lambda>h. EvRunHelper h True) (seed_specs S G src layer password owner)"
  proof (cases "src_SeedVia src = ''dump''")
    case True
    then have "run_state (SeedDump S E (dump_spec src (?s owner))) w1 = (Inr (), w')" using r by simp
    from SeedDump_log[OF this] show ?thesis using True by (simp add: seed_specs_def Let_def l1 truncate_dump_spec)
  next
    case False
    then obtain w2 where "run_state (Seed S E (?s owner)) w1 = (Inr (), w2)" "run_state (Settle S E (?s owner)) w2 = (Inr (), w')"
      using r by (auto elim!: run_seq_ok_InrE)
    from Seed_log[OF this(1)] Settle_log[OF this(2)] show ?thesis using False by (simp add: seed_specs_def Let_def l1 settle)
  qed
  then show ?thesis by blast
qed

lemma create_layer_log: "run_state (createSourceLayer G E v ls) w = (Inr (), w') \<Longrightarrow> w_log w' = w_log w @ [create_event G v]"
  by (auto simp: createSourceLayer_def create_event_def runZFS_def CreateVolume_def succeeded_def split: if_splits
      elim!: run_seq_ok_InrE dest!: helper_log run_drv_call_Inr)

lemma reg_write_log: "run_state (reg_write E f) w = (r, w') \<Longrightarrow> w_log w' = w_log w"
  by (auto simp: run_reg_write Let_def split: option.splits sum.splits prod.splits)

lemma created_source:
  assumes "run_state (reg_create_source E s0) w = (Inr s, w')"
  shows "src_Name s = src_Name s0 \<and> src_Volume s = src_Volume s0"
  using assms by (auto simp: reg_create_source_def run_reg_write CreateSourceCtx_def Let_def split: option.splits sum.splits prod.splits if_splits)

lemma addSourceSeeded_log:
  assumes "run_state (addSourceSeeded S G E s0 password) w = (Inr s, w')"
  shows "src_Name s = src_Name s0" "src_Volume s = SourceLayerName (g_planner G) (src_Name s0) 1"
    "\<exists>owner. w_log w' = w_log w @ create_event G (src_Volume s) # map (\<lambda>h. EvRunHelper h True) (seed_specs S G s (src_Volume s) password owner)"
proof -
  obtain s1 w0 w1 w2 where c: "w_log w0 = w_log w"
      "run_state (reg_create_source E (s0\<lparr>src_Volume := SourceLayerName (g_planner G) (src_Name s0) 1\<rparr>)) w0 = (Inr s1, w1)"
      "run_state (createSourceLayer G E (src_Volume s1) (sourceLabels G (src_Name s1))) w1 = (Inr (), w2)"
      "run_state (seedSource S G E s1 (src_Volume s1) password) w2 = (Inr (), w')" "s = s1"
    using assms unfolding addSourceSeeded_def checkSourceName_def
    by (auto elim!: run_seq_ok_InrE run_attempt_InrE split: option.splits)
  show "src_Name s = src_Name s0" "src_Volume s = SourceLayerName (g_planner G) (src_Name s0) 1" using created_source[OF c(2)] c(5) by simp_all
  have "w_log w1 = w_log w" using c(1,2) by (simp add: reg_create_source_def reg_write_log)
  then show "\<exists>owner. w_log w' = w_log w @ create_event G (src_Volume s) # map (\<lambda>h. EvRunHelper h True) (seed_specs S G s (src_Volume s) password owner)"
    using create_layer_log[OF c(3)] seedSource_log[OF c(4)] c(5) by auto
qed

lemma SetSourceStateCtx_row:
  assumes "SetSourceStateCtx a now sid sto reason d = Inr d'"
  shows "\<exists>r \<in> set (sources d'). sr_id r = sid \<and> sr_state r = sto"
proof -
  obtain x where f: "find (\<lambda>s. sr_id s = sid) (sources d) = Some x" using assms by (auto simp: SetSourceStateCtx_def split: option.splits)
  then have x: "x \<in> set (sources d)" "sr_id x = sid" by (auto dest: find_SomeD)
  then have "x\<lparr>sr_state := sto, sr_updated_at := now\<rparr> \<in> set (sources d')"
    using assms f by (auto simp: SetSourceStateCtx_def journalTx_def set_upd_where Let_def split: if_splits)
  then show ?thesis using x(2) by (intro bexI[of _ "x\<lparr>sr_state := sto, sr_updated_at := now\<rparr>"]) simp_all
qed

lemma source_state_set:
  assumes "run_state (reg_source_state E sid sto reason) w = (Inr (), w')"
  shows "w_log w' = w_log w" "\<exists>r \<in> set (sources (w_db w')). sr_id r = sid \<and> sr_state r = sto"
proof -
  show "w_log w' = w_log w" using assms by (simp add: reg_source_state_def reg_write_log)
  show "\<exists>r \<in> set (sources (w_db w')). sr_id r = sid \<and> sr_state r = sto"
    using assms by (auto simp: reg_source_state_def run_reg_write no_result_Inr Let_def split: option.splits sum.splits dest!: SetSourceStateCtx_row)
qed

lemma password_in_env_only:
  "map (hs_Env_update (\<lambda>_. [])) (seed_specs S G src layer password owner) = map (hs_Env_update (\<lambda>_. [])) (seed_specs S G src layer password' owner)"
  by (simp add: seed_specs_def Let_def seed_spec_def dump_spec_def prepareSpec_def basebackupSpec_def fixupSpec_def settleSpec_def dumpSpec_def seedMount_def
      seed_owner_def helperUser_def SeedSpec.truncate_def SeedSpec.extend_def SeedDumpSpec.fields_def)

text \<open>
  A source is ready only when it is seeded (C9): when adding a source returns without an error, the calls it made are exactly the creation of the source's own layer and the helpers of a complete
  seed on that layer, all successful and in order, and the source's row has been moved to ready. None of the helpers carries the password in anything but its environment.
\<close>

theorem ready_means_seeded:
  assumes "run_state (AddSource S G E s0 password) w = (Inr (), w')"
  shows "\<exists>s owner. src_Name s = src_Name s0 \<and> src_Volume s = SourceLayerName (g_planner G) (src_Name s0) 1
     \<and> w_log w' = w_log w @ create_event G (src_Volume s) # map (\<lambda>h. EvRunHelper h True) (seed_specs S G s (src_Volume s) password owner)
     \<and> (\<exists>r \<in> set (sources (w_db w')). sr_id r = src_ID s \<and> sr_state r = SourceReady)
     \<and> (\<forall>password'. map (hs_Env_update (\<lambda>_. [])) (seed_specs S G s (src_Volume s) password owner)
          = map (hs_Env_update (\<lambda>_. [])) (seed_specs S G s (src_Volume s) password' owner))"
proof -
  obtain s w1 where s: "run_state (addSourceSeeded S G E s0 password) w = (Inr s, w1)"
    "run_state (reg_source_state E (src_ID s) SourceReady ''seed complete'') w1 = (Inr (), w')"
    using assms unfolding AddSource_def by (rule run_seq_ok_InrE)
  note l = addSourceSeeded_log[OF s(1)] source_state_set[OF s(2)]
  then show ?thesis using password_in_env_only by metis
qed

section \<open>Schema patterns\<close>

lemma sh_words_shellQuote: "sh_words False None (shellQuote a @ rest) = sh_words False (Some a) rest"
  using sh_words_quoted[of "[]" a rest] by (simp add: shellQuote_def Let_def)

lemma sh_words_flags: "sh_words False cur (schemaFlags xs) = Some ((case cur of None \<Rightarrow> [] | Some w \<Rightarrow> [w]) @ concat (map (\<lambda>x. [''-n'', x]) xs))"
proof (induction xs arbitrary: cur)
  case (Cons x xs)
  have safe: "shell_safe (CHR ''-'')" "shell_safe (CHR ''n'')" by (simp_all add: shell_safe_def low_alnum_alt in_range_def less_eq_char_def)
  have "sh_words False (Some x) (schemaFlags xs) = Some (x # concat (map (\<lambda>x. [''-n'', x]) xs))" using Cons.IH by simp
  then have "sh_words False None (shellQuote x @ schemaFlags xs) = Some (x # concat (map (\<lambda>x. [''-n'', x]) xs))" by (simp add: sh_words_shellQuote)
  then show ?case using safe by (simp add: schemaFlags_def Let_def)
qed (simp add: schemaFlags_def)

lemma check_schemas_iff: "check_schemas xs = None \<longleftrightarrow> (\<forall>x \<in> set xs. TrimSpace x \<noteq> [] \<and> CHR '','' \<notin> set x)"
  by (induction xs) auto

text \<open>
  Schema patterns arrive as given : the patterns of a source whose connection settings pass validation are read back from the registry row unchanged, and a shell that splits the flags written into the dump
  script gets one \<open>-n\<close> word and one word with exactly the pattern for each, whatever characters it contains.
\<close>

theorem dump_schemas_faithful:
  assumes "Validate_dump S (conn_spec s) = None"
  shows "src_DumpSchemas (scanSource (insert_source s now)) = src_DumpSchemas s
     \<and> sh_words False None (schemaFlags (src_DumpSchemas s)) = Some (concat (map (\<lambda>x. [''-n'', x]) (src_DumpSchemas s)))"
proof -
  let ?xs = "src_DumpSchemas s"
  have ok: "x \<noteq> [] \<and> CHR '','' \<notin> set x" if "x \<in> set ?xs" for x
    using assms that by (auto simp: Validate_dump_def conn_spec_def check_schemas_iff TrimSpace_def split: option.splits)
  have "src_DumpSchemas (scanSource (insert_source s now)) = ?xs"
  proof (cases "?xs = []")
    case False
    then have split: "split_on (CHR '','') (join_with '','' ?xs) = ?xs" using ok by (intro split_join) auto
    have "join_with '','' ?xs \<noteq> []" using ok False by (cases ?xs rule: list.exhaust, simp) (metis Nil_is_append_conv join_with.simps(2,3) list.exhaust list.set_intros(1))
    then show ?thesis using split by (simp add: scanSource_def insert_source_def)
  qed (simp add: scanSource_def insert_source_def)
  then show ?thesis using sh_words_flags[of None ?xs] by simp
qed

section \<open>A concrete source\<close>

definition quiet_seeding :: seeding where
  "quiet_seeding = \<lparr>sd_sslmode_env = [], sd_seedSettle = ''recover'', sd_fixupScript = ''fixup'', sd_settleScript = ''settle'', sd_dumpScript = (\<lambda>flags. ''dump'' @ flags)\<rparr>"

lemma quiet_valid:
  "Validate_dump quiet_seeding (conn_spec demo_source) = None" "validateSourceName ''prod'' = None"
  "Validate_dump quiet_seeding (conn_spec (demo_source\<lparr>src_DumpSchemas := [''a b'', [CHR 0x27]]\<rparr>)) = None"
  "ParseSettleMode ''recover'' = Inr ''recover''"
  by code_simp+

lemma Validate_cong:
  "ss_Host s = ss_Host s' \<Longrightarrow> ss_Port s = ss_Port s' \<Longrightarrow> ss_User s = ss_User s' \<Longrightarrow> ss_SSLMode s = ss_SSLMode s' \<Longrightarrow> ss_Settle s = ss_Settle s'
    \<Longrightarrow> ss_Owner s = ss_Owner s' \<Longrightarrow> Validate S s = Validate S s'"
  unfolding Validate_def sslMode_def Let_def by (simp only:)

lemma quiet_valid_spec: "Validate quiet_seeding (seed_spec quiet_seeding sim_engine (demo_source\<lparr>src_ID := i, src_SeedVia := v, src_Volume := u\<rparr>) layer password []) = None"
proof -
  have "Validate quiet_seeding (seed_spec quiet_seeding sim_engine demo_source [] [] []) = None" by code_simp
  then show ?thesis by (subst Validate_cong[where s' = "seed_spec quiet_seeding sim_engine demo_source [] [] []"]) (simp_all add: seed_spec_def)
qed

lemma sim_helper:
  assumes "\<And>w1. w_db w1 = w_db w \<Longrightarrow> Q [] w1"
  shows "succeeds (RunHelper sim_env spec) w Q" "succeeds (wrap_err m (RunHelper sim_env spec)) w Q"
  using assms by (simp_all add: succeeds_def sim_run wrap_err_def run_attempt)

lemma sim_owner: "(\<And>w1. w_db w1 = w_db w \<Longrightarrow> Q [] w1) \<Longrightarrow> succeeds (DetectOwner sim_env img) w Q"
  unfolding DetectOwner_def by (rule succeeds_attempt, rule sim_helper(1)) (simp add: owner_line_def has_prefix_def)

lemma sim_version: "version_error s (parseSeededCluster []) = None"
  by (simp add: version_error_def parseSeededCluster_def seeded_line_def key_value_def TrimSpace_def)

lemma sim_Seed: "Validate quiet_seeding s = None \<Longrightarrow> (\<And>w1. w_db w1 = w_db w \<Longrightarrow> Q () w1) \<Longrightarrow> succeeds (Seed quiet_seeding sim_env s) w Q"
  unfolding Seed_def check_err_def
  by (rule succeeds_seq, simp, rule succeeds_seq, rule sim_helper(2), rule succeeds_attempt, rule sim_helper(1), rule succeeds_seq, rule sim_helper(2))
    (simp add: sim_version)

lemma sim_Settle: "ss_Settle s = ''recover'' \<Longrightarrow> (\<And>w1. w_db w1 = w_db w \<Longrightarrow> Q () w1) \<Longrightarrow> succeeds (Settle quiet_seeding sim_env s) w Q"
  unfolding Settle_def using quiet_valid(4)
  by (simp add: SettleOff_def, intro succeeds_attempt sim_helper(1)) simp

lemma sim_seedSource:
  assumes "src = demo_source\<lparr>src_ID := i, src_SeedVia := ''basebackup'', src_Volume := u\<rparr>" "\<And>w1. w_db w1 = w_db w \<Longrightarrow> Q () w1"
  shows "succeeds (seedSource quiet_seeding sim_engine sim_env src layer password) w Q"
proof -
  let ?s = "seed_spec quiet_seeding sim_engine src layer password []"
  have s: "Validate quiet_seeding ?s = None" "ss_Settle ?s = ''recover''"
    using quiet_valid_spec[where i = i and u = u and v = "''basebackup''" and layer = layer and password = password] unfolding assms(1)
    by (blast, simp add: seed_spec_def quiet_seeding_def)
  have "succeeds (seq_ok (Seed quiet_seeding sim_env ?s) (\<lambda>_. Settle quiet_seeding sim_env ?s)) w1 Q" if "w_db w1 = w_db w" for w1
    by (rule succeeds_seq, rule sim_Seed[OF s(1)], rule sim_Settle[OF s(2)]) (use assms(2) that in simp)
  then show ?thesis unfolding seedSource_def Let_def using assms(1)
    by (intro succeeds_seq sim_owner) simp
qed

lemma sim_ids: "e_actor sim_env = no_actor" "e_newID sim_env = sim_newID"
  by (simp_all add: sim_env_def)

lemma sim_AddSource: "\<exists>w'. run_state (AddSource quiet_seeding sim_engine sim_env demo_source password) (sim_world empty_db) = (Inr (), w')"
proof -
  let ?v = "SourceLayerName (g_planner sim_engine) ''prod'' 1"
  let ?s = "demo_source\<lparr>src_ID := ''x'', src_SeedVia := ''basebackup'', src_Volume := ?v\<rparr>"
  obtain d where c: "CreateSourceCtx no_actor (stamp sim_env 0) (sim_newID 0 empty_db) (demo_source\<lparr>src_Volume := ?v\<rparr>) empty_db = Inr (?s, d)"
      "\<And>t. \<exists>d'. SetSourceStateCtx no_actor (stamp sim_env t) ''x'' SourceReady ''seed complete'' d = Inr d'"
    by (simp add: reg_eval sim_newID_def SetSourceStateCtx_def)
  have v: "?v \<noteq> ''v1''" by code_simp
  have zfs: "\<not> zfs sim_engine" by (simp add: zfs_def sim_engine_def)
  have layer: "succeeds (createSourceLayer sim_engine sim_env ?v ls) w1 Q"
    if "?v \<notin> set (sim_vols (w_rt w1))" "\<And>w2. w_db w2 = w_db w1 \<Longrightarrow> Q () w2" for w1 Q ls
    using zfs that by (simp add: createSourceLayer_def succeeds_def sim_run)
  have ready: "succeeds (reg_source_state sim_env ''x'' SourceReady ''seed complete'') w1 (\<lambda>_ _. True)" if "w_db w1 = d" for w1
    using c(2)[of "w_tick w1"] that by (auto simp: succeeds_def reg_source_state_def sim_run no_result_def sim_ids)
  have seeded: "succeeds (attempt (createSourceLayer sim_engine sim_env ?v ls) h (\<lambda>_. attempt (seedSource quiet_seeding sim_engine sim_env ?s ?v password) k (\<lambda>_. ok ?s))) w1
      (\<lambda>s w. succeeds (reg_source_state sim_env (src_ID s) SourceReady ''seed complete'') w (\<lambda>_ _. True))"
    if "w_db w1 = d" "?v \<notin> set (sim_vols (w_rt w1))" for w1 ls h k
    by (intro succeeds_attempt layer[OF that(2)] sim_seedSource[OF refl]) (use that ready in simp)
  have create: "succeeds (reg_create_source sim_env (demo_source\<lparr>src_Volume := ?v\<rparr>)) (sim_world empty_db) Q"
    if "Q ?s ((sim_world empty_db)\<lparr>w_tick := 1, w_db := d\<rparr>)" for Q
    using c(1) that by (simp add: succeeds_def reg_create_source_def sim_run sim_world_def sim_ids)
  have "succeeds (AddSource quiet_seeding sim_engine sim_env demo_source password) (sim_world empty_db) (\<lambda>_ _. True)"
    unfolding AddSource_def addSourceSeeded_def
    apply (rule succeeds_seq, rule succeeds_seq)
    apply (rule succeeds_run[where x = "()" and w' = "sim_world empty_db"])
    subgoal using quiet_valid(2) by (simp add: checkSourceName_def demo_source_def)
    apply (rule succeeds_seq, rule succeeds_run[where x = "()" and w' = "sim_world empty_db"])
    subgoal using quiet_valid(1) by simp
    apply (rule succeeds_seq)
    subgoal using create seeded v by (simp add: sim_world_def demo_source_def)
    done
  then show ?thesis by (auto simp: succeeds_def)
qed

theorem ready_means_seeded_witness:
  "\<exists>w' s owner. run_state (AddSource quiet_seeding sim_engine sim_env demo_source ''pw'') (sim_world empty_db) = (Inr (), w')
     \<and> w_log w' = create_event sim_engine (src_Volume s) # map (\<lambda>h. EvRunHelper h True) (seed_specs quiet_seeding sim_engine s (src_Volume s) ''pw'' owner)
     \<and> (\<exists>r \<in> set (sources (w_db w')). sr_id r = src_ID s \<and> sr_state r = SourceReady)"
proof -
  obtain w' where r: "run_state (AddSource quiet_seeding sim_engine sim_env demo_source ''pw'') (sim_world empty_db) = (Inr (), w')"
    using sim_AddSource by blast
  from ready_means_seeded[OF r] r show ?thesis by (auto simp: sim_world_def)
qed

theorem dump_schemas_faithful_witness:
  "sh_words False None (schemaFlags [''a b'', [CHR 0x27]]) = Some [''-n'', ''a b'', ''-n'', [CHR 0x27]]"
  using dump_schemas_faithful[OF quiet_valid(3), of "''t''"] by simp

text \<open>The volume of the new source exists already, so its creation fails and the source is marked failed.\<close>

definition seeded_world :: "sim world" where
  "seeded_world = (sim_world empty_db)\<lparr>w_rt := \<lparr>sim_vols = [SourceLayerName (g_planner sim_engine) ''prod'' 1], sim_conts = []\<rparr>\<rparr>"


section \<open>Collecting an old generation\<close>



end
