(* ===== verification/CopyUp.thy ===== *)
theory CopyUp
  imports Seeding BranchDiff "HOL-Library.Word"
begin

text \<open>
  The copy-up probe and branch usage (\<^verbatim>\<open>src/internal/cow/usage.go\<close>, \<^verbatim>\<open>src/internal/cow/fsprobe.go\<close>, \<^verbatim>\<open>src/internal/engine/cowfs.go\<close> and \<open>BranchUsage\<close> of
  \<^verbatim>\<open>src/internal/engine/engine.go\<close>). The embedded files are a parameter (the binaries are build products), and so is the floating-point
  difference of two uptime readings (\<open>openTime\<close>: the rounded duration, \<open>None\<close> when a reading is no number or the second is the earlier one). The probe's answer
  (\<open>Engine.copyUp\<close>) is passed explicitly: \<open>DetectCopyUp\<close> returns the one it leaves behind, \<open>BranchUsage\<close> takes it.
\<close>

section \<open>Numbers and words\<close>

text \<open>\<open>strings.Fields\<close> on ASCII text, and \<open>strconv.ParseInt(s, 10, 64)\<close>: the value (clamped when out of range, 0 for no number) and whether it is exact.\<close>

definition Fields :: "string \<Rightarrow> string list" where
  "Fields s = filter (\<lambda>w. w \<noteq> []) (split_on (CHR '' '') (map (\<lambda>c. if is_space c then CHR '' '' else c) s))"

definition ParseInt64 :: "string \<Rightarrow> int \<times> bool" where
  "ParseInt64 s = (case atoi s of None \<Rightarrow> (0, False)
     | Some n \<Rightarrow> if n < - (2 ^ 63) then (- (2 ^ 63), False) else if n \<ge> 2 ^ 63 then (2 ^ 63 - 1, False) else (n, True))"

definition hex_val :: "char \<Rightarrow> nat option" where
  "hex_val c = (let n = (of_char c :: nat)
     in if 48 \<le> n \<and> n \<le> 57 then Some (n - 48) else if 97 \<le> n \<and> n \<le> 102 then Some (n - 87) else if 65 \<le> n \<and> n \<le> 70 then Some (n - 55) else None)"

fun hex_number :: "nat \<Rightarrow> string \<Rightarrow> nat option" where
  "hex_number acc [] = Some acc"
| "hex_number acc (c # s) = (case hex_val c of None \<Rightarrow> None | Some n \<Rightarrow> hex_number (16 * acc + n) s)"

definition ParseUintHex :: "string \<Rightarrow> nat option" where
  "ParseUintHex s = (if s = [] then None else case hex_number 0 s of None \<Rightarrow> None | Some n \<Rightarrow> if n < 2 ^ 64 then Some n else None)"

definition unlines :: "string list \<Rightarrow> string" where "unlines ls = concat (map (\<lambda>l. l @ [CHR 0x0A]) ls)"

section \<open>The pgoverlay-du binaries\<close>

definition duDistDir :: string where "duDistDir = ''usage/dist''"
definition MaxDuToolSize :: nat where "MaxDuToolSize = 256 * 2 ^ 10"
definition duEnvChunk :: nat where "duEnvChunk = 96 * 2 ^ 10"

definition NormalizeMachine :: "string \<Rightarrow> string" where
  "NormalizeMachine m = (let s = TrimSpace m
     in if s \<in> {''x86_64'', ''amd64''} then ''x86_64'' else if s \<in> {''aarch64'', ''arm64'', ''armv8l''} then ''aarch64'' else [])"

text \<open>\<open>path.Base\<close>.\<close>

definition path_Base :: "string \<Rightarrow> string" where
  "path_Base p = (if p = [] then ''.'' else let q = rev (dropWhile (\<lambda>c. c = CHR ''/'') (rev p))
     in if q = [] then ''/'' else last (split_on (CHR ''/'') q))"

text \<open>A \<open>bufio.Scanner\<close> stops at a line that does not fit its 64 KiB buffer.\<close>

definition scan_lines :: "string \<Rightarrow> string list" where
  "scan_lines s = takeWhile (\<lambda>l. length l < 64 * 2 ^ 10) (split_on (CHR 0x0A) s)"

fun listed_digest :: "string \<Rightarrow> string list \<Rightarrow> string option" where
  "listed_digest name [] = None"
| "listed_digest name (l # ls) = (case Fields l of
     [digest, file] \<Rightarrow> (let f = trim_prefix ''*'' file in if f = name \<or> path_Base f = name then Some (ToLower digest) else listed_digest name ls)
   | _ \<Rightarrow> listed_digest name ls)"

definition sha256Listed :: "string \<Rightarrow> string \<Rightarrow> string option" where
  "sha256Listed sums name = listed_digest name (scan_lines sums)"

text \<open>\<open>files\<close> is the embedded file system.\<close>

definition DuTool :: "crypto \<Rightarrow> (string \<Rightarrow> string option) \<Rightarrow> string \<Rightarrow> string option" where
  "DuTool cr files machine =
     (let m = NormalizeMachine machine; name = ''pgoverlay-du-'' @ m
      in if m = [] then None
         else case files (duDistDir @ ''/'' @ name) of None \<Rightarrow> None
         | Some bin \<Rightarrow>
             if bin = [] \<or> length bin > MaxDuToolSize then None
             else case files (duDistDir @ ''/SHA256SUMS'') of None \<Rightarrow> Some bin
             | Some sums \<Rightarrow> (case sha256Listed sums name of None \<Rightarrow> None
                 | Some want \<Rightarrow> if hex_encode (sha256 cr bin) \<noteq> want then None else Some bin))"

definition DuTools :: "crypto \<Rightarrow> (string \<Rightarrow> string option) \<Rightarrow> (string \<times> string) list" where
  "DuTools cr files = List.map_filter (\<lambda>m. map_option (Pair m) (DuTool cr files m)) [''x86_64'', ''aarch64'']"

text \<open>The encoded binary in chunks: the loop of \<open>duToolEnv\<close> over what is left of the text.\<close>

function du_chunks :: "string \<Rightarrow> nat \<Rightarrow> string \<Rightarrow> (string \<times> string) list" where
  "du_chunks prefix i enc = (if enc = [] then [] else (prefix @ nat_dec i, take duEnvChunk enc) # du_chunks prefix (i + 1) (drop duEnvChunk enc))"
  by pat_completeness auto
termination by (relation "measure (\<lambda>(p, i, enc). length enc)") (auto simp: duEnvChunk_def)

declare du_chunks.simps [simp del]

definition duToolEnv :: "string \<Rightarrow> string \<Rightarrow> string list \<times> string" where
  "duToolEnv prefix bin = (let cs = du_chunks prefix 0 (b64_encode bin)
     in (map (\<lambda>(name, v). name @ ''='' @ v) cs, join_with '' '' (map (\<lambda>(name, v). quoted (CHR ''$'' # name)) cs)))"

definition DuToolPath :: string where "DuToolPath = ''/tmp/pgoverlay-du''"

definition duInstall :: "string \<Rightarrow> string" where
  "duInstall words = unlines [''printf '' @ sq ''%s'' @ '' '' @ words @ '' | base64 -d > '' @ DuToolPath, ''chmod 0755 '' @ DuToolPath]"

definition DuUsageCommand :: "string \<Rightarrow> string \<Rightarrow> string list \<times> string list" where
  "DuUsageCommand bin dir = (let (env, words) = duToolEnv ''PGOVERLAY_DU_'' bin
     in ([''sh'', ''-c'', ''set -eu'' @ [CHR 0x0A] @ duInstall words @ unlines [''exec '' @ DuToolPath @ '' -- \"$1\"''], ''pgoverlay-du'', dir], env))"

definition DuCowExtSizeCommand :: "string \<Rightarrow> string \<Rightarrow> int \<Rightarrow> string list \<times> string list" where
  "DuCowExtSizeCommand bin dir bytes = (let (env, words) = duToolEnv ''PGOVERLAY_DU_'' bin
     in ([''sh'', ''-c'', ''set -eu'' @ [CHR 0x0A] @ duInstall words @ unlines [''exec '' @ DuToolPath @ '' -c \"$1\" \"$2\"''],
          ''pgoverlay-du'', int_dec bytes, dir], env))"

record DuTotals =
  du_Exclusive :: int
  du_Shared :: int
  du_Apparent :: int

definition du_line :: "string \<Rightarrow> DuTotals option" where
  "du_line line = (case split_on (CHR 0x09) (TrimSpace line) of
     a # b # c # _ # _ \<Rightarrow> (case (ParseInt64 a, ParseInt64 b, ParseInt64 c) of
        ((x, True), (y, True), (z, True)) \<Rightarrow> Some \<lparr>du_Exclusive = x, du_Shared = y, du_Apparent = z\<rparr> | _ \<Rightarrow> None)
   | _ \<Rightarrow> None)"

definition ParseDuTotals :: "string \<Rightarrow> (string, DuTotals) result" where
  "ParseDuTotals out = (case List.map_filter du_line (split_on (CHR 0x0A) out) of
     [] \<Rightarrow> Inl (''no pgoverlay-du totals in '' @ quoted out) | t # _ \<Rightarrow> Inr t)"

definition cow_line :: "string \<Rightarrow> string option" where
  "cow_line line = (let l = TrimSpace line in if has_prefix ''cowextsize='' l then Some (trim_prefix ''cowextsize='' l) else None)"

definition ParseCowExtSize :: "string \<Rightarrow> (string, int) result" where
  "ParseCowExtSize out = (case List.map_filter cow_line (split_on (CHR 0x0A) out) of
     [] \<Rightarrow> Inl (''no cowextsize in '' @ quoted out)
   | v # _ \<Rightarrow> (let n = (case cut (CHR 0x09) v of None \<Rightarrow> v | Some (a, _) \<Rightarrow> a)
       in case ParseInt64 n of (k, True) \<Rightarrow> Inr k | _ \<Rightarrow> Inl (''strconv.ParseInt: parsing '' @ quoted n @ (if atoi n = None then '': invalid syntax'' else '': value out of range''))))"

section \<open>The probe\<close>

datatype CopyUpMode = CopyUpUnknown | CopyUpClone | CopyUpCopy

definition DefaultProbeSize :: int where "DefaultProbeSize = 64 * 2 ^ 20"

record ProbeSpec =
  ps_LowerVolume :: string
  ps_UpperVolume :: string
  ps_Labels :: labels
  ps_Size :: int
  ps_DuTools :: "(string \<times> string) list"

record ProbeResult =
  pr_Mode :: CopyUpMode
  pr_FSType :: string
  pr_Machine :: string
  pr_ProbeBytes :: int
  pr_UsedBytes :: int
  pr_SharedBytes :: int
  pr_CopyUpTime :: int

definition no_probe :: ProbeResult where
  "no_probe = \<lparr>pr_Mode = CopyUpUnknown, pr_FSType = [], pr_Machine = [], pr_ProbeBytes = 0, pr_UsedBytes = 0, pr_SharedBytes = -1, pr_CopyUpTime = 0\<rparr>"

definition probeScript :: "string \<Rightarrow> string" where
  "probeScript sel = unlines [
     ''set -eu'',
     ''lo=/pgoverlay-probe/lower'',
     ''up=/pgoverlay-probe/upper'',
     ''m=/pgoverlay-probe-merged'',
     ''mb=$1'',
     ''machine=$(uname -m)'',
     ''echo \"pgoverlay-probe-machine=$machine\"'',
     ''echo \"pgoverlay-probe-fsmagic=$(stat -f -c %t \"$up\")\"'',
     ''mkdir -p \"$lo/d\" \"$up/u\" \"$up/w\" \"$m\"'',
     ''dd if=/dev/urandom of=\"$lo/d/f\" bs=1048576 count=\"$mb\" 2>/dev/null'',
     ''sync -f \"$lo/d/f\" 2>/dev/null || sync'',
     ''mount -t overlay overlay -o \"lowerdir=$lo/d,upperdir=$up/u,workdir=$up/w\" \"$m\"'',
     ''trap '' @ sq ''umount \"$m\" 2>/dev/null || true'' @ '' EXIT'',
     ''bsize=$(stat -f -c %S \"$up\")'',
     ''free0=$(stat -f -c %f \"$up\")'',
     ''t0=$(cut -d'' @ sq '' '' @ '' -f1 /proc/uptime)'',
     ''exec 3<>\"$m/f\"'',
     ''exec 3>&-'',
     ''t1=$(cut -d'' @ sq '' '' @ '' -f1 /proc/uptime)'',
     ''sync -f \"$up/u/f\" 2>/dev/null || sync'',
     ''free1=$(stat -f -c %f \"$up\")'',
     ''echo \"pgoverlay-probe-bytes=$((mb * 1048576))\"'',
     ''echo \"pgoverlay-probe-used=$(((free0 - free1) * bsize))\"'',
     ''echo \"pgoverlay-probe-open=$t0 $t1\"'',
     sel,
     ''if du_b64 > /tmp/pgoverlay-du.b64 2>/dev/null && [ -s /tmp/pgoverlay-du.b64 ]; then'',
     ''  base64 -d < /tmp/pgoverlay-du.b64 > /tmp/pgoverlay-du'',
     ''  chmod 0755 /tmp/pgoverlay-du'',
     ''  echo \"pgoverlay-probe-fiemap=$(/tmp/pgoverlay-du -- \"$up/u/f\")\"'',
     ''fi'']"

definition upper_char :: "char \<Rightarrow> char" where
  "upper_char c = (if CHR ''a'' \<le> c \<and> c \<le> CHR ''z'' then char_of ((of_char c :: nat) - 32) else c)"

definition ToUpper :: "string \<Rightarrow> string" where "ToUpper s = map upper_char s"

definition du_select_line :: "string \<times> string \<Rightarrow> (string \<times> string list) option" where
  "du_select_line t = (let norm = NormalizeMachine (fst t)
     in if norm = [] \<or> snd t = [] then None
        else let (e, words) = duToolEnv (''PGOVERLAY_DU_'' @ ToUpper norm @ ''_'') (snd t)
             in Some ((if norm = ''aarch64'' then ''aarch64|arm64|armv8l'' else norm) @ '') du_b64() { printf '' @ sq ''%s'' @ '' '' @ words @ ''; } ;;'', e))"

definition probeDuSelect :: "(string \<times> string) list \<Rightarrow> string \<times> string list" where
  "probeDuSelect tools = (let ls = List.map_filter du_select_line (sort_key fst tools)
     in (unlines (''case \"$machine\" in'' # map fst ls @ [''*) du_b64() { return 1; } ;;'']) @ ''esac'', concat (map snd ls)))"

text \<open>The probe file in whole MiB; the sum is an \<open>int64\<close> and wraps, the shift is arithmetic.\<close>

definition probe_mib :: "int \<Rightarrow> int" where
  "probe_mib n = sint (word_of_int ((if n \<le> 0 then DefaultProbeSize else n) + (2 ^ 20 - 1)) :: 64 word) div 2 ^ 20"

definition ProbeHelper :: "ProbeSpec \<Rightarrow> HelperSpec" where
  "ProbeHelper spec = (let (sel, env) = probeDuSelect (ps_DuTools spec)
     in helper_spec\<lparr>hs_Cmd := [''sh'', ''-c'', probeScript sel, ''pgoverlay-probe'', int_dec (probe_mib (ps_Size spec))], hs_Env := env, hs_SysAdmin := True,
          hs_Mounts := [vol_mount (ps_LowerVolume spec) ''/pgoverlay-probe/lower'' False, vol_mount (ps_UpperVolume spec) ''/pgoverlay-probe/upper'' False]\<rparr>)"

definition classify :: "ProbeResult \<Rightarrow> CopyUpMode" where
  "classify r = (if pr_SharedBytes r \<ge> 0 then (if pr_SharedBytes r \<ge> pr_ProbeBytes r div 2 then CopyUpClone else CopyUpCopy)
     else if pr_UsedBytes r < pr_ProbeBytes r div 2 then CopyUpClone else CopyUpCopy)"

definition fsMagics :: "(nat \<times> string) list" where
  "fsMagics = [(0x58465342, ''xfs''), (0x9123683e, ''btrfs''), (0xef53, ''ext4''), (0x2fc12fc1, ''zfs''), (0x01021994, ''tmpfs''),
     (0x794c7630, ''overlay''), (0x6969, ''nfs''), (0xf2f52010, ''f2fs''), (0x65735546, ''fuse''), (0xca451a4e, ''bcachefs'')]"

definition fsTypeName :: "string \<Rightarrow> string" where
  "fsTypeName hexMagic = (let s = trim_prefix ''0x'' (ToLower (TrimSpace hexMagic))
     in case ParseUintHex s of None \<Rightarrow> TrimSpace hexMagic
        | Some n \<Rightarrow> (case map_of fsMagics n of Some name \<Rightarrow> name | None \<Rightarrow> ''0x'' @ s))"

text \<open>The report as it is read, with the two flags that say whether the sizes were numbers.\<close>

definition probe_line :: "(string \<Rightarrow> string \<Rightarrow> int option) \<Rightarrow> string \<Rightarrow> ProbeResult \<times> bool \<times> bool \<Rightarrow> ProbeResult \<times> bool \<times> bool" where
  "probe_line openTime line st = (case (cut (CHR ''='') (TrimSpace line), st) of (None, _) \<Rightarrow> st
     | (Some (k, v), (r, haveBytes, haveUsed)) \<Rightarrow>
         if k = ''pgoverlay-probe-machine'' then (r\<lparr>pr_Machine := TrimSpace v\<rparr>, haveBytes, haveUsed)
         else if k = ''pgoverlay-probe-fsmagic'' then (r\<lparr>pr_FSType := fsTypeName v\<rparr>, haveBytes, haveUsed)
         else if k = ''pgoverlay-probe-bytes'' then (case ParseInt64 (TrimSpace v) of (n, exact) \<Rightarrow> (r\<lparr>pr_ProbeBytes := n\<rparr>, exact, haveUsed))
         else if k = ''pgoverlay-probe-used'' then (case ParseInt64 (TrimSpace v) of (n, exact) \<Rightarrow> (r\<lparr>pr_UsedBytes := n\<rparr>, haveBytes, exact))
         else if k = ''pgoverlay-probe-open''
         then (case Fields v of [t0, t1] \<Rightarrow> (case openTime t0 t1 of None \<Rightarrow> st | Some d \<Rightarrow> (r\<lparr>pr_CopyUpTime := d\<rparr>, haveBytes, haveUsed)) | _ \<Rightarrow> st)
         else if k = ''pgoverlay-probe-fiemap''
         then (case ParseDuTotals v of Inl e \<Rightarrow> st | Inr t \<Rightarrow> (r\<lparr>pr_SharedBytes := du_Shared t\<rparr>, haveBytes, haveUsed))
         else st)"

definition ParseProbe :: "(string \<Rightarrow> string \<Rightarrow> int option) \<Rightarrow> string \<Rightarrow> ProbeResult \<times> string option" where
  "ParseProbe openTime out = (case fold (probe_line openTime) (split_on (CHR 0x0A) out) (no_probe, False, False) of
     (r, haveBytes, haveUsed) \<Rightarrow>
        if \<not> haveBytes \<or> \<not> haveUsed \<or> pr_ProbeBytes r \<le> 0 then (r, Some (''unrecognized probe output '' @ quoted out))
        else (r\<lparr>pr_Mode := classify r\<rparr>, None))"

fun create_probe_volumes :: "'rt env \<Rightarrow> labels \<Rightarrow> string list \<Rightarrow> string list \<Rightarrow> ('rt, string list \<times> engine_error option) act" where
  "create_probe_volumes E ls created [] = State_Monad.return (created, None)"
| "create_probe_volumes E ls created (v # vs) = do { r \<leftarrow> CreateVolume E v ls;
     case r of Inl e \<Rightarrow> State_Monad.return (created, Some (Wrap (''copy-up probe: create volume '' @ v) e))
     | Inr _ \<Rightarrow> create_probe_volumes E ls (created @ [v]) vs }"

text \<open>The deferred clean-up: a failed removal becomes the probe's error when it has none.\<close>

fun remove_probe_volumes :: "'rt env \<Rightarrow> string list \<Rightarrow> engine_error option \<Rightarrow> ('rt, engine_error option) act" where
  "remove_probe_volumes E [] err = State_Monad.return err"
| "remove_probe_volumes E (v # vs) err = do { r \<leftarrow> RemoveVolume E v;
     remove_probe_volumes E vs (case (r, err) of (Inl e, None) \<Rightarrow> Some (Wrap (''copy-up probe: remove probe volume '' @ v) e) | _ \<Rightarrow> err) }"

definition run_probe :: "'rt env \<Rightarrow> (string \<Rightarrow> string \<Rightarrow> int option) \<Rightarrow> ProbeSpec \<Rightarrow> ('rt, ProbeResult \<times> engine_error option) act" where
  "run_probe E openTime spec = do { r \<leftarrow> RunHelper E (ProbeHelper spec);
     State_Monad.return (case r of Inl e \<Rightarrow> (no_probe, Some (Wrap ''copy-up probe'' e))
       | Inr out \<Rightarrow> (case ParseProbe openTime out of (res, err) \<Rightarrow> (res, map_option (\<lambda>m. Wrap ''copy-up probe'' (Msg m)) err))) }"

definition ProbeCopyUp :: "'rt env \<Rightarrow> (string \<Rightarrow> string \<Rightarrow> int option) \<Rightarrow> ProbeSpec \<Rightarrow> ('rt, ProbeResult \<times> engine_error option) act" where
  "ProbeCopyUp E openTime spec =
     (if ps_LowerVolume spec = [] \<or> ps_UpperVolume spec = [] \<or> ps_LowerVolume spec = ps_UpperVolume spec
      then State_Monad.return (no_probe, Some (Msg ''copy-up probe: need two distinct volume names''))
      else do {
        (created, cerr) \<leftarrow> create_probe_volumes E (ps_Labels spec) [] [ps_LowerVolume spec, ps_UpperVolume spec];
        (res, err) \<leftarrow> (case cerr of Some e \<Rightarrow> State_Monad.return (no_probe, Some e) | None \<Rightarrow> run_probe E openTime spec);
        err' \<leftarrow> remove_probe_volumes E created err;
        State_Monad.return (res, err') })"

section \<open>The engine's side\<close>

record CopyUpOptions =
  co_Root :: string
  co_CowExtSize :: int
  co_ProbeSize :: int

definition DefaultCowExtSize :: int where "DefaultCowExtSize = 16 * 2 ^ 10"

definition setCowExtSize :: "'rt env \<Rightarrow> (string \<Rightarrow> string option) \<Rightarrow> ProbeResult \<Rightarrow> CopyUpOptions \<Rightarrow> ('rt, engine_error option) act" where
  "setCowExtSize E files res opts =
     (if co_Root opts = [] \<or> co_CowExtSize opts \<le> 0 \<or> pr_Mode res \<noteq> CopyUpClone \<or> pr_FSType res \<noteq> ''xfs'' then State_Monad.return None
      else case DuTool (e_crypto E) files (pr_Machine res) of None \<Rightarrow> State_Monad.return None
      | Some bin \<Rightarrow>
          (let (cmd, env) = DuCowExtSizeCommand bin ''/pgoverlay-root'' (co_CowExtSize opts); wrap = Wrap (''set XFS cowextsize hint on '' @ co_Root opts)
           in do { r \<leftarrow> RunHelper E (helper_spec\<lparr>hs_Cmd := cmd, hs_Env := env, hs_Mounts := [host_mount (co_Root opts) ''/pgoverlay-root'']\<rparr>);
                   State_Monad.return (case r of Inl e \<Rightarrow> Some (wrap e)
                     | Inr out \<Rightarrow> (case ParseCowExtSize out of Inl m \<Rightarrow> Some (wrap (Msg m)) | Inr got \<Rightarrow> None)) }))"

text \<open>The result, the joined errors, and the answer remembered.\<close>

definition DetectCopyUp ::
  "engine \<Rightarrow> 'rt env \<Rightarrow> (string \<Rightarrow> string option) \<Rightarrow> (string \<Rightarrow> string \<Rightarrow> int option) \<Rightarrow> CopyUpOptions \<Rightarrow> ProbeResult option
     \<Rightarrow> ('rt, (ProbeResult \<times> engine_error list) \<times> ProbeResult option) act" where
  "DetectCopyUp G E files openTime opts copyUp =
     (if zfs G \<or> csi G
      then State_Monad.return ((no_probe, [Msg (''copy-up probe: the '' @ (if zfs G then ''zfs'' else ''csi'') @ '' backend has no overlay copy-up'')]), copyUp)
      else do { t \<leftarrow> tick E;
        case e_rand E t of None \<Rightarrow> State_Monad.return ((no_probe, [Msg ''random source failed'']), copyUp)
        | Some eid \<Rightarrow> (let prefix = ''pgoverlay-probe-'' @ hex_encode (take 4 eid) in do {
            (res, err) \<leftarrow> ProbeCopyUp E openTime \<lparr>ps_LowerVolume = prefix @ ''-lower'', ps_UpperVolume = prefix @ ''-upper'',
               ps_Labels = instanceLabels G [(''pgoverlay.managed'', ''true''), (''pgoverlay.role'', ''probe'')],
               ps_Size = co_ProbeSize opts, ps_DuTools = DuTools (e_crypto E) files\<rparr>;
            if err \<noteq> None \<and> pr_Mode res = CopyUpUnknown then State_Monad.return ((res, [the err]), copyUp)
            else do { hint \<leftarrow> setCowExtSize E files res opts;
                      State_Monad.return ((res, List.map_filter id [err, hint]), Some res) } }) })"

definition CopyUpMode_of :: "ProbeResult option \<Rightarrow> CopyUpMode" where
  "CopyUpMode_of copyUp = (case copyUp of Some r \<Rightarrow> pr_Mode r | None \<Rightarrow> CopyUpUnknown)"

section \<open>Branch usage\<close>

definition du_spec :: "string \<Rightarrow> HelperSpec" where
  "du_spec rwVolume = helper_spec\<lparr>hs_Cmd := [''du'', ''-sb'', RWPath], hs_Mounts := [vol_mount rwVolume RWPath True]\<rparr>"

definition usageHelpers :: "engine \<Rightarrow> crypto \<Rightarrow> (string \<Rightarrow> string option) \<Rightarrow> ProbeResult option \<Rightarrow> string \<Rightarrow> HelperSpec list" where
  "usageHelpers G cr files copyUp rwVolume =
     (if zfs G then [zfsHelperSpec (ZFSUsed rwVolume)]
      else case copyUp of None \<Rightarrow> [du_spec rwVolume]
      | Some r \<Rightarrow>
          if pr_Mode r \<noteq> CopyUpClone then [du_spec rwVolume]
          else (case DuTool cr files (pr_Machine r) of None \<Rightarrow> [du_spec rwVolume]
            | Some bin \<Rightarrow> (let (cmd, env) = DuUsageCommand bin RWPath
                in [helper_spec\<lparr>hs_Cmd := cmd, hs_Env := env, hs_Mounts := [vol_mount rwVolume RWPath True]\<rparr>, du_spec rwVolume])))"

definition measureUsage :: "'rt env \<Rightarrow> string \<Rightarrow> HelperSpec \<Rightarrow> ('rt, int) op" where
  "measureUsage E name spec = (let pre = ''measure branch '' @ quoted name @ '' usage'' in
     seq_ok (wrap_err pre (RunHelper E spec)) (\<lambda>out.
     case Fields out of [] \<Rightarrow> fail_with (Msg (pre @ '': empty measurement output''))
     | f # _ \<Rightarrow> (case ParseInt64 f of (n, True) \<Rightarrow> ok n | _ \<Rightarrow> fail_with (Msg (pre @ '': unparseable measurement output '' @ quoted out)))))"

fun try_usage :: "'rt env \<Rightarrow> string \<Rightarrow> HelperSpec list \<Rightarrow> ('rt, int) op" where
  "try_usage E name [] = ok 0"
| "try_usage E name [spec] = measureUsage E name spec"
| "try_usage E name (spec # specs) = attempt (measureUsage E name spec) (\<lambda>_. try_usage E name specs) ok"

definition BranchUsage :: "engine \<Rightarrow> 'rt env \<Rightarrow> (string \<Rightarrow> string option) \<Rightarrow> ProbeResult option \<Rightarrow> string \<Rightarrow> ('rt, int) op" where
  "BranchUsage G E files copyUp name = seq_ok (reg_branch_by_name E name) (\<lambda>b.
     try_usage E name (usageHelpers G (e_crypto E) files copyUp (b_RWVolume b)))"

end
