(* ===== verification/CopyUpProps.thy ===== *)
theory CopyUpProps
  imports CopyUp SimEnv
begin

text \<open>
  The copy-up probe: a binary survives its way through the environment of a helper, a probe takes its volumes with it whatever fails, and a usage measurement falls
  back to \<^verbatim>\<open>du\<close>.
\<close>

section \<open>Shipping a binary in environment variables\<close>

lemma du_chunks_exact:
  "\<exists>vs. du_chunks p i enc = map (\<lambda>(j, v). (p @ nat_dec j, v)) (enumerate i vs) \<and> concat vs = enc
     \<and> list_all (\<lambda>v. v \<noteq> [] \<and> length v \<le> duEnvChunk) vs"
proof (induction p i enc rule: du_chunks.induct)
  case (1 p i enc)
  show ?case
  proof (cases "enc = []")
    case True
    then show ?thesis by (intro exI[of _ "[]"]) (simp add: du_chunks.simps)
  next
    case False
    from "1.IH"[OF False] obtain vs where vs:
      "du_chunks p (i + 1) (drop duEnvChunk enc) = map (\<lambda>(j, v). (p @ nat_dec j, v)) (enumerate (i + 1) vs)"
      "concat vs = drop duEnvChunk enc" "list_all (\<lambda>v. v \<noteq> [] \<and> length v \<le> duEnvChunk) vs"
      by (elim exE conjE) (rule that)
    have "take duEnvChunk enc \<noteq> []" using False by (simp add: duEnvChunk_def)
    moreover have "take duEnvChunk enc @ concat vs = enc" by (simp add: vs(2))
    ultimately show ?thesis
      using vs False by (intro exI[of _ "take duEnvChunk enc # vs"]) (simp add: du_chunks.simps[of p i enc] enumerate_simps)
  qed
qed

lemma map_enumerate_fst: "map (\<lambda>(j, v). f j) (enumerate i vs) = map f [i..<i + length vs]"
  by (induction vs arbitrary: i) (simp_all add: upt_conv_Cons del: upt_Suc)

text \<open>
  Whatever binary is shipped to a helper arrives whole: the environment holds the variables \<open>prefix0\<close>, \<open>prefix1\<close>, ... in order, none empty and none longer than
  96 KiB of text, the shell words name exactly these variables in that order, and the text they expand to decodes to the binary.
\<close>

theorem du_tool_env_exact:
  "\<exists>vs. fst (duToolEnv p bin) = map (\<lambda>(j, v). p @ nat_dec j @ ''='' @ v) (enumerate 0 vs)
     \<and> snd (duToolEnv p bin) = join_with '' '' (map (\<lambda>j. quoted (CHR ''$'' # p @ nat_dec j)) [0..<length vs])
     \<and> list_all (\<lambda>v. v \<noteq> [] \<and> length v \<le> duEnvChunk) vs \<and> b64_decode (concat vs) = Some bin"
proof -
  obtain vs where vs: "du_chunks p 0 (b64_encode bin) = map (\<lambda>(j, v). (p @ nat_dec j, v)) (enumerate 0 vs)" "concat vs = b64_encode bin"
    "list_all (\<lambda>v. v \<noteq> [] \<and> length v \<le> duEnvChunk) vs"
    using du_chunks_exact[of p 0 "b64_encode bin"] by (elim exE conjE) (rule that)
  show ?thesis
    using vs(2,3) map_enumerate_fst[of "\<lambda>j. quoted (CHR ''$'' # p @ nat_dec j)" 0 vs]
    by (intro exI[of _ vs]) (simp add: duToolEnv_def vs(1) b64_roundtrip case_prod_beta' comp_def)
qed

section \<open>The probe's volumes\<close>

abbreviation created_in :: "event list \<Rightarrow> string set" where "created_in l \<equiv> {v. EvCreateVolume v True \<in> set l}"
abbreviation removed_in :: "event list \<Rightarrow> string set" where "removed_in l \<equiv> {v. \<exists>b. EvRemoveVolume v b \<in> set l}"

lemma probe_calls:
  "run_state (CreateVolume E v ls) w = (r, w') \<Longrightarrow> w_log w' = w_log w @ [EvCreateVolume v (succeeded r)]"
  "run_state (RemoveVolume E v) w = (r, w') \<Longrightarrow> w_log w' = w_log w @ [EvRemoveVolume v (succeeded r)]"
  "run_state (RunHelper E spec) w = (r2, w') \<Longrightarrow> w_log w' = w_log w @ [EvRunHelper spec (succeeded r2)]"
  by (auto simp: CreateVolume_def RemoveVolume_def RunHelper_def drv_call_def run_tick succeeded_def split: prod.splits sum.splits)

lemma remove_log:
  "run_state (remove_probe_volumes E vs err) w = (err', w') \<Longrightarrow>
     \<exists>new. w_log w' = w_log w @ new \<and> removed_in new = set vs \<and> created_in new = {} \<and> (err \<noteq> None \<longrightarrow> err' = err)"
proof (induction vs arbitrary: w err)
  case (Cons v vs)
  obtain r w1 where r: "run_state (RemoveVolume E v) w = (r, w1)" by fastforce
  let ?err = "case (r, err) of (Inl e, None) \<Rightarrow> Some (Wrap (''copy-up probe: remove probe volume '' @ v) e) | _ \<Rightarrow> err"
  have "run_state (remove_probe_volumes E vs ?err) w1 = (err', w')" using Cons.prems r by simp
  from Cons.IH[OF this] obtain new where n: "w_log w' = w_log w1 @ new" "removed_in new = set vs" "created_in new = {}" "?err \<noteq> None \<longrightarrow> err' = ?err"
    by (elim exE conjE) (rule that)
  have "removed_in (EvRemoveVolume v (succeeded r) # new) = insert v (set vs)" using n(2) by auto
  moreover have "err \<noteq> None \<longrightarrow> err' = err" using n(4) by (cases r; cases err) auto
  ultimately show ?case
    using n(1,3) probe_calls(2)[OF r] by (intro exI[of _ "EvRemoveVolume v (succeeded r) # new"]) auto
qed auto

lemma create_log:
  "run_state (create_probe_volumes E ls pre vs) w = ((created, err), w') \<Longrightarrow>
     \<exists>new. w_log w' = w_log w @ new \<and> set created = set pre \<union> created_in new \<and> removed_in new = {}"
proof (induction vs arbitrary: w pre)
  case (Cons v vs)
  obtain r w1 where r: "run_state (CreateVolume E v ls) w = (r, w1)" by fastforce
  show ?case
  proof (cases r)
    case (Inl e)
    then show ?thesis using Cons.prems r probe_calls(1)[OF r] by (auto simp: succeeded_def)
  next
    case (Inr u)
    then have "run_state (create_probe_volumes E ls (pre @ [v]) vs) w1 = ((created, err), w')" using Cons.prems r by simp
    from Cons.IH[OF this] obtain new where n: "w_log w' = w_log w1 @ new" "set created = set (pre @ [v]) \<union> created_in new" "removed_in new = {}"
      by (elim exE conjE) (rule that)
    show ?thesis
      using n probe_calls(1)[OF r] Inr by (intro exI[of _ "EvCreateVolume v True # new"]) (auto simp: succeeded_def)
  qed
qed auto

lemma ParseProbe_mode: "ParseProbe ot out = (res, None) \<Longrightarrow> pr_Mode res \<noteq> CopyUpUnknown"
  by (auto simp: ParseProbe_def classify_def split: prod.splits if_splits)

lemma run_probe_log:
  "run_state (run_probe E ot spec) w = ((res, err), w') \<Longrightarrow>
     \<exists>new. w_log w' = w_log w @ new \<and> created_in new = {} \<and> removed_in new = {} \<and> (err = None \<longrightarrow> pr_Mode res \<noteq> CopyUpUnknown)"
proof -
  assume run: "run_state (run_probe E ot spec) w = ((res, err), w')"
  obtain r w1 where r: "run_state (RunHelper E (ProbeHelper spec)) w = (r, w1)" by fastforce
  have "err = None \<longrightarrow> pr_Mode res \<noteq> CopyUpUnknown" "w' = w1"
    using run r by (auto simp: run_probe_def split: sum.splits prod.splits dest: ParseProbe_mode)
  then show ?thesis using probe_calls(3)[OF r] by auto
qed

text \<open>
  (C33) Whatever fails during a copy-up probe, it removes exactly the volumes it created (a failed removal is attempted and reported), and a probe that reports no
  error has decided between copying and cloning.
\<close>

theorem probe_cleans_up:
  assumes "run_state (ProbeCopyUp E ot spec) w = ((res, err), w')"
  shows "\<exists>new. w_log w' = w_log w @ new \<and> removed_in new = created_in new \<and> (err = None \<longrightarrow> pr_Mode res \<noteq> CopyUpUnknown)"
proof (cases "ps_LowerVolume spec = [] \<or> ps_UpperVolume spec = [] \<or> ps_LowerVolume spec = ps_UpperVolume spec")
  case True
  then show ?thesis using assms by (intro exI[of _ "[]"]) (auto simp: ProbeCopyUp_def)
next
  case False
  obtain created cerr w1 where c: "run_state (create_probe_volumes E (ps_Labels spec) [] [ps_LowerVolume spec, ps_UpperVolume spec]) w = ((created, cerr), w1)"
    by (metis surj_pair)
  obtain res1 err1 w2 where p: "run_state (case cerr of Some e \<Rightarrow> State_Monad.return (no_probe, Some e) | None \<Rightarrow> run_probe E ot spec) w1 = ((res1, err1), w2)"
    by (metis surj_pair)
  have d: "run_state (remove_probe_volumes E created err1) w2 = (err, w')" "res1 = res"
    using assms False c p by (auto simp: ProbeCopyUp_def split: prod.splits)
  have q: "\<exists>new. w_log w2 = w_log w1 @ new \<and> created_in new = {} \<and> removed_in new = {} \<and> (err1 = None \<longrightarrow> pr_Mode res \<noteq> CopyUpUnknown)"
    using p run_probe_log[of E ot spec w1 res1 err1 w2] d(2) by (cases cerr) auto
  obtain n1 where n1: "w_log w1 = w_log w @ n1" "set created = created_in n1" "removed_in n1 = {}"
    using create_log[OF c] by (elim exE conjE) (rule that, auto)
  obtain n2 where n2: "w_log w2 = w_log w1 @ n2" "created_in n2 = {}" "removed_in n2 = {}" "err1 = None \<longrightarrow> pr_Mode res \<noteq> CopyUpUnknown"
    using q by (elim exE conjE) (rule that)
  obtain n3 where n3: "w_log w' = w_log w2 @ n3" "removed_in n3 = set created" "created_in n3 = {}" "err1 \<noteq> None \<longrightarrow> err = err1"
    using remove_log[OF d(1)] by (elim exE conjE) (rule that)
  have "removed_in (n1 @ n2 @ n3) = removed_in n3" using n1(3) n2(3) by auto
  moreover have "created_in (n1 @ n2 @ n3) = created_in n1" using n2(2) n3(3) by auto
  ultimately have "removed_in (n1 @ n2 @ n3) = created_in (n1 @ n2 @ n3)" using n3(2) n1(2) by simp
  then show ?thesis using n1(1) n2(1,4) n3(1,4) by (intro exI[of _ "n1 @ n2 @ n3"]) auto
qed

definition demo_probe :: ProbeSpec where
  "demo_probe = \<lparr>ps_LowerVolume = ''lower'', ps_UpperVolume = ''upper'', ps_Labels = [], ps_Size = 0, ps_DuTools = []\<rparr>"

theorem probe_cleans_up_witness:
  "\<exists>res err w' new. run_state (ProbeCopyUp sim_env (\<lambda>_ _. None) demo_probe) (sim_world empty_db) = ((res, err), w')
     \<and> w_log w' = w_log (sim_world empty_db) @ new \<and> EvCreateVolume ''lower'' True \<in> set (w_log w') \<and> removed_in new = created_in new"
proof -
  obtain res err w' where run: "run_state (ProbeCopyUp sim_env (\<lambda>_ _. None) demo_probe) (sim_world empty_db) = ((res, err), w')"
    by (metis surj_pair)
  have "EvCreateVolume ''lower'' True \<in> set (w_log w')"
    using run by (auto simp: ProbeCopyUp_def demo_probe_def sim_run sim_world_def run_probe_def split: prod.splits)
  then show ?thesis using probe_cleans_up[OF run] run by blast
qed

end
