(* ===== verification/ApiErrors.thy ===== *)
theory ApiErrors
  imports Reconcile BranchDiff Leader
begin

text \<open>
  How the HTTP API answers a failure (\<^verbatim>\<open>src/internal/api/handlers.go\<close>: \<open>writeEngineError\<close> and its helpers; the cancellation causes of \<^verbatim>\<open>src/internal/api/leader.go\<close>)
  and how it reads a request body (\<open>decode\<close>). An error is a list of engine errors: a single one, or the ones \<open>errors.Join\<close> combines. The JSON decoder
  is a parameter that reads one value off the front of the text.
\<close>

section \<open>Looking into an error\<close>

text \<open>\<open>errors.Is\<close> and \<open>errors.As\<close>: the error and everything it wraps, outermost first.\<close>

fun err_chain :: "engine_error \<Rightarrow> engine_error list" where
  "err_chain (Wrap m e) = Wrap m e # err_chain e"
| "err_chain (Prefixed m e) = Prefixed m e # err_chain e"
| "err_chain (Suffixed e m) = Suffixed e m # err_chain e"
| "err_chain (Marked k e) = Marked k e # err_chain e"
| "err_chain (redactedError m e) = redactedError m e # err_chain e"
| "err_chain (DestroyError b r i u e) = DestroyError b r i u e # err_chain e"
| "err_chain e = [e]"

fun reg_chain :: "reg_error \<Rightarrow> reg_error list" where
  "reg_chain (Wrapped m e) = Wrapped m e # reg_chain e"
| "reg_chain e = [e]"

definition errs_chain :: "engine_error list \<Rightarrow> engine_error list" where
  "errs_chain errs = concat (map err_chain errs)"

definition is_sentinel :: "sentinel \<Rightarrow> engine_error list \<Rightarrow> bool" where
  "is_sentinel k errs \<longleftrightarrow> list_ex (\<lambda>e. case e of Kinded k' m \<Rightarrow> k' = k | Marked k' x \<Rightarrow> k' = k | _ \<Rightarrow> False) (errs_chain errs)"

definition is_reg :: "(reg_error \<Rightarrow> bool) \<Rightarrow> engine_error list \<Rightarrow> bool" where
  "is_reg p errs \<longleftrightarrow> list_ex (\<lambda>e. case e of RegErr r \<Rightarrow> list_ex p (reg_chain r) | _ \<Rightarrow> False) (errs_chain errs)"

definition is_invalid_name :: "engine_error list \<Rightarrow> bool" where
  "is_invalid_name errs \<longleftrightarrow> list_ex (\<lambda>e. case e of invalidNameError k n \<Rightarrow> True | _ \<Rightarrow> False) (errs_chain errs)"

definition as_destroy :: "engine_error list \<Rightarrow> (string \<times> string \<times> bool \<times> bool) option" where
  "as_destroy errs = (case List.map_filter (\<lambda>e. case e of DestroyError b r i u x \<Rightarrow> Some (b, r, i, u) | _ \<Rightarrow> None) (errs_chain errs) of
     [] \<Rightarrow> None | d # _ \<Rightarrow> Some d)"

text \<open>\<open>err.Error()\<close>; a joined error has one line per error.\<close>

definition errs_text :: "(reg_error \<Rightarrow> string) \<Rightarrow> engine_error list \<Rightarrow> string" where
  "errs_text regText errs = join_with [CHR 0x0A] (map (err_text regText) errs)"

section \<open>Messages\<close>

definition word_char :: "char \<Rightarrow> bool" where
  "word_char c \<longleftrightarrow> low_alnum c \<or> (CHR ''A'' \<le> c \<and> c \<le> CHR ''Z'') \<or> c = CHR ''_''"

text \<open>\<open>uniqueTableRe\<close>: the leftmost \<open>UNIQUE constraint failed: (\w+)\.\<close>.\<close>

definition unique_here :: "string \<Rightarrow> string option" where
  "unique_here s = (if has_prefix ''UNIQUE constraint failed: '' s
     then (let r = trim_prefix ''UNIQUE constraint failed: '' s; t = takeWhile word_char r
           in if t \<noteq> [] \<and> has_prefix ''.'' (drop (length t) r) then Some t else None)
     else None)"

fun uniqueTable :: "string \<Rightarrow> string option" where
  "uniqueTable [] = None"
| "uniqueTable (c # s) = (case unique_here (c # s) of Some t \<Rightarrow> Some t | None \<Rightarrow> uniqueTable s)"

definition duplicateMessage :: "string \<Rightarrow> string" where
  "duplicateMessage msg = (let kind = (case uniqueTable msg of None \<Rightarrow> ''an object''
       | Some t \<Rightarrow> if t = ''branches'' then ''a live branch'' else if t = ''sources'' then ''a source''
           else if t = ''api_tokens'' then ''a token'' else ''an object'')
     in kind @ '' with that name already exists'')"

definition maxErrorMessage :: nat where "maxErrorMessage = 2048"

text \<open>The ellipsis between the two halves is three bytes of UTF-8.\<close>

definition clipMessage :: "string \<Rightarrow> string" where
  "clipMessage msg = (if length msg \<le> maxErrorMessage then msg
     else to_valid_utf8 0 (take 512 msg @ [CHR '' '', CHR 0xE2, CHR 0x80, CHR 0xA6, CHR '' ''] @ drop (length msg - (maxErrorMessage - 512)) msg))"

section \<open>Interruptions\<close>

definition interruptedStatus :: "cause option \<Rightarrow> nat" where
  "interruptedStatus c = (case c of Some errLeadershipLost \<Rightarrow> 503 | Some errShuttingDown \<Rightarrow> 503 | Some errMutationTimeout \<Rightarrow> 504 | None \<Rightarrow> 0)"

fun cause_text :: "cause \<Rightarrow> string" where
  "cause_text errLeadershipLost = ''leadership moved to another replica while the operation ran''"
| "cause_text errShuttingDown = ''branchd is shutting down''"
| "cause_text errMutationTimeout = ''operation exceeded the stuck timeout''"

text \<open>\<open>Duration.Round\<close> for a positive unit: half away from zero, saturating at the ends of the range.\<close>

definition Duration_Round :: "int \<Rightarrow> int \<Rightarrow> int" where
  "Duration_Round d m =
     (let r = \<bar>d\<bar> mod m; up = \<bar>d\<bar> + (m - r)
      in if d < 0 then (if r + r < m then d + r else max (- up) (- (2 ^ 63)))
         else if r + r < m then d - r else min up (2 ^ 63 - 1))"

definition roundElapsed :: "int \<Rightarrow> int" where
  "roundElapsed d = Duration_Round d (if d \<ge> 10 ^ 9 then 10 ^ 9 else 10 ^ 6)"

record mutationTimeoutError =
  te_limit :: int
  te_start :: gotime

definition timeout_message :: "mutationTimeoutError \<Rightarrow> gotime \<Rightarrow> string" where
  "timeout_message e now = ''the operation ran '' @ Duration_String (roundElapsed (time_sub now (te_start e)))
     @ '', past branchd'' @ [CHR 0x27] @ ''s stuck timeout of '' @ Duration_String (te_limit e)
     @ '', and was cancelled; its partial work was rolled back. ''
     @ ''If it is legitimately this slow (a long masking script, a slow image pull), raise branchd'' @ [CHR 0x27] @ ''s --stuck-timeout ''
     @ ''(Helm value stuckTimeout) above its run time, then retry''"

section \<open>The error response\<close>

definition substring_conflict :: "string \<Rightarrow> bool" where
  "substring_conflict msg \<longleftrightarrow> contains msg ''live branch'' \<or> contains msg ''child branch''
     \<or> contains msg ''illegal branch transition'' \<or> contains msg ''not ready''"

definition destroy_code :: "bool \<Rightarrow> bool \<Rightarrow> nat" where
  "destroy_code inUse unavailable = (if inUse then 409 else if unavailable then 502 else 500)"

text \<open>
  \<open>cause\<close> is why the request's context ended, if it has; a context that ended for another reason (a client that went away) does not change the answer.
\<close>

definition engine_error_status :: "(reg_error \<Rightarrow> string) \<Rightarrow> cause option \<Rightarrow> mutationTimeoutError \<Rightarrow> gotime \<Rightarrow> engine_error list \<Rightarrow> nat \<times> string" where
  "engine_error_status regText cause te now errs =
     (let msg = errs_text regText errs
      in if is_invalid_name errs \<or> is_reg (\<lambda>e. case e of ErrUnsupportedPGVersion v \<Rightarrow> True | ErrInvalidImage i \<Rightarrow> True | ErrInvalidTokenName n \<Rightarrow> True | _ \<Rightarrow> False) errs
           \<or> is_sentinel ErrInvalidSpec errs \<or> is_sentinel ErrVersionMismatch errs then (400, msg)
         else if is_reg is_not_found errs then (404, msg)
         else if is_sentinel ErrBaseGone errs then (409, msg)
         else if is_sentinel ErrQuotaExceeded errs then (403, msg)
         else (case as_destroy errs of
           Some (br, reason, inUse, unavailable) \<Rightarrow> (destroy_code inUse unavailable,
             clipMessage (''destroy of branch '' @ quoted br @ '' failed; it stays in destroying, destroy it again to retry: '' @ reason))
         | None \<Rightarrow>
           if cause = Some errMutationTimeout then (504, timeout_message te now)
           else if cause \<noteq> None then (interruptedStatus cause, cause_text (the cause) @ ''; the operation was cancelled and its partial work rolled back, retry it'')
           else if is_sentinel ErrSeedFailed errs \<or> is_sentinel ErrMaskingFailed errs then (422, clipMessage msg)
           else if is_reg (\<lambda>e. case e of ErrAlreadyExists a b c \<Rightarrow> True | illegalTransition a b c \<Rightarrow> True | _ \<Rightarrow> False) errs
             \<or> is_sentinel ErrNotRecoverable errs then (409, msg)
           else if contains msg ''UNIQUE constraint'' then (409, duplicateMessage msg)
           else if substring_conflict msg then (409, msg)
           else (500, ''internal server error'')))"

section \<open>Reading a body\<close>

text \<open>
  \<open>encoding/json\<close> reads one value off the front of the text: the value and what follows it, an error in what was read, or an error because the text ended too early.
\<close>

datatype json_error = Malformed string | Truncated string

type_synonym 'a json_reader = "string \<Rightarrow> json_error + 'a \<times> string"

definition maxBodyBytes :: nat where "maxBodyBytes = 2 ^ 20"

definition decode_failed :: "bool \<Rightarrow> json_error \<Rightarrow> nat \<times> string" where
  "decode_failed tooBig e = (case e of
     Malformed m \<Rightarrow> (400, ''invalid JSON body: '' @ trim_prefix ''json: '' m)
   | Truncated m \<Rightarrow> if tooBig then (413, ''request body exceeds '' @ nat_dec maxBodyBytes @ '' bytes'')
       else (400, ''invalid JSON body: '' @ trim_prefix ''json: '' m))"

text \<open>JSON's white space, and the second \<open>Decode\<close>: only the end of the body is accepted after the value.\<close>

definition json_space :: "char \<Rightarrow> bool" where "json_space c \<longleftrightarrow> c \<in> {CHR '' '', CHR 0x09, CHR 0x0A, CHR 0x0D}"

definition check_end :: "string json_reader \<Rightarrow> bool \<Rightarrow> string \<Rightarrow> (nat \<times> string) option" where
  "check_end raw tooBig rest =
     (if list_all json_space rest then (if tooBig then Some (decode_failed True (Truncated [])) else None)
      else Some (case raw rest of Inl e \<Rightarrow> decode_failed tooBig e | Inr _ \<Rightarrow> decode_failed False (Malformed ''unexpected data after the JSON value'')))"

definition decode :: "'a json_reader \<Rightarrow> string json_reader \<Rightarrow> string \<Rightarrow> nat \<times> string + 'a" where
  "decode value raw body = (let tooBig = length body > maxBodyBytes
     in case value (take maxBodyBytes body) of Inl e \<Rightarrow> Inl (decode_failed tooBig e)
        | Inr (v, rest) \<Rightarrow> (case check_end raw tooBig rest of Some r \<Rightarrow> Inl r | None \<Rightarrow> Inr v))"

end
