(* ===== verification/Api.thy ===== *)
theory Api
  imports ApiErrors CopyUp
begin

text \<open>
  The HTTP control plane (\<^verbatim>\<open>src/internal/api\<close>): the route table and its gates (\<^verbatim>\<open>server.go\<close>, \<^verbatim>\<open>middleware.go\<close>, \<open>requireLeader\<close> of \<^verbatim>\<open>leader.go\<close>) and every handler
  of \<^verbatim>\<open>handlers.go\<close>. A handler runs in the engine's world; the actor resolved from the token becomes the actor of the environment it runs in. A response is a
  status and a body; the wire format of a body (\<open>encoding/json\<close>) is not modelled further.
\<close>

section \<open>Wire types\<close>

record api_source =
  as_Name :: string
  as_PGVersion :: string
  as_Host :: string
  as_Port :: int
  as_User :: string
  as_Database :: string
  as_Network :: string
  as_Via :: string
  as_DumpSchemas :: "string list"
  as_State :: string
  as_Generation :: nat
  as_CreatedAt :: string
  as_Image :: string

record api_branch =
  ab_Name :: string
  ab_Source :: string
  ab_Parent :: string
  ab_State :: string
  ab_Host :: string
  ab_Port :: int
  ab_User :: string
  ab_Password :: string
  ab_PasswordUnavailable :: bool
  ab_Database :: string
  ab_ProxyDatabase :: string
  ab_ExpiresAt :: string
  ab_CreatedAt :: string
  ab_ProxyHost :: string
  ab_ProxyPort :: int

record CreateSourceRequest =
  cs_Name :: string
  cs_Host :: string
  cs_Port :: int
  cs_User :: string
  cs_Database :: string
  cs_Network :: string
  cs_PGVersion :: string
  cs_Password :: string
  cs_Via :: string
  cs_DumpSchemas :: "string list"
  cs_Image :: string

record CreateBranchRequest =
  cb_Name :: string
  cb_Source :: string
  cb_Parent :: string
  cb_TTLSeconds :: int

record CreateTokenRequest =
  ct_Name :: string
  ct_Role :: string

datatype 'v body =
    NoBody
  | ErrorResponse string
  | StatusBody string
  | SourceBody api_source
  | SourcesBody "api_source list"
  | MasksBody "(string \<times> string) list"
  | BranchBody api_branch
  | BranchesBody "api_branch list"
  | UsageBody int
  | DiffBody "'v DiffResult"
  | HistoryBody "transition list"
  | PlanBody ReconcilePlan
  | CreateTokenResponse string
  | TokensBody "(string \<times> string \<times> string) list"

type_synonym 'v response = "nat \<times> 'v body"

definition writeError :: "nat \<Rightarrow> string \<Rightarrow> 'v response" where
  "writeError code msg = (code, ErrorResponse msg)"

section \<open>The server\<close>

record decoders =
  jd_source :: "CreateSourceRequest json_reader"
  jd_password :: "string json_reader"
  jd_masks :: "((string \<times> string) list) json_reader"
  jd_branch :: "CreateBranchRequest json_reader"
  jd_token :: "CreateTokenRequest json_reader"
  jd_raw :: "string json_reader"

record 'v server =
  sv_token :: string
  sv_stuckTimeout :: int
  sv_proxyHost :: string
  sv_proxyPort :: int
  sv_seeding :: seeding
  sv_files :: "string \<Rightarrow> string option"
  sv_copyUp :: "ProbeResult option"
  sv_json :: "'v json"
  sv_decoders :: decoders

definition DefaultStuckTimeout :: int where "DefaultStuckTimeout = 10 * 60 * 10 ^ 9"

definition NewServer :: "string \<Rightarrow> int \<Rightarrow> seeding \<Rightarrow> (string \<Rightarrow> string option) \<Rightarrow> ProbeResult option \<Rightarrow> 'v json \<Rightarrow> decoders \<Rightarrow> 'v server" where
  "NewServer token stuckTimeout sd files copyUp J D = \<lparr>sv_token = token,
     sv_stuckTimeout = (if stuckTimeout \<le> 0 then DefaultStuckTimeout else stuckTimeout), sv_proxyHost = [], sv_proxyPort = 0,
     sv_seeding = sd, sv_files = files, sv_copyUp = copyUp, sv_json = J, sv_decoders = D\<rparr>"

definition SetProxyEndpoint :: "string \<Rightarrow> int \<Rightarrow> 'v server \<Rightarrow> 'v server" where
  "SetProxyEndpoint host port S = S\<lparr>sv_proxyHost := host, sv_proxyPort := port\<rparr>"

text \<open>
  What a handler is given: the path value, the query parameter \<^verbatim>\<open>data\<close>, the body, the role the request was admitted with, and the context it runs on: why it has ended at
  a step, if the mutation was interrupted, and the deadline it carries.
\<close>

record request =
  rq_name :: string
  rq_data :: string
  rq_body :: string
  rq_role :: string
  rq_cause :: "nat \<Rightarrow> cause option"
  rq_timeout :: mutationTimeoutError

type_synonym ('rt, 'v) handler = "request \<Rightarrow> ('rt, 'v response) act"

definition writeEngineError :: "'rt env \<Rightarrow> request \<Rightarrow> engine_error list \<Rightarrow> ('rt, 'v response) act" where
  "writeEngineError E rq errs = do { t \<leftarrow> tick E;
     State_Monad.return (case engine_error_status (e_regText E) (rq_cause rq t) (rq_timeout rq) (e_now E t) errs of (code, msg) \<Rightarrow> writeError code msg) }"

text \<open>\<open>x, err := m; if err != nil { writeEngineError(w, r, err); return }; k(x)\<close>, and the same for a request body.\<close>

definition or_error :: "'rt env \<Rightarrow> request \<Rightarrow> ('rt, 'a) op \<Rightarrow> ('a \<Rightarrow> ('rt, 'v response) act) \<Rightarrow> ('rt, 'v response) act" where
  "or_error E rq m k = do { r \<leftarrow> m; case r of Inl e \<Rightarrow> writeEngineError E rq [e] | Inr x \<Rightarrow> k x }"

definition or_bad :: "nat \<times> string + 'a \<Rightarrow> ('a \<Rightarrow> ('rt, 'v response) act) \<Rightarrow> ('rt, 'v response) act" where
  "or_bad d k = (case d of Inl (code, msg) \<Rightarrow> State_Monad.return (writeError code msg) | Inr v \<Rightarrow> k v)"

definition bad_request :: "string \<Rightarrow> ('rt, 'v response) act" where
  "bad_request msg = State_Monad.return (writeError 400 msg)"

definition body_of :: "'v server \<Rightarrow> (decoders \<Rightarrow> 'a json_reader) \<Rightarrow> request \<Rightarrow> nat \<times> string + 'a" where
  "body_of S sel rq = decode (sel (sv_decoders S)) (jd_raw (sv_decoders S)) (rq_body rq)"

section \<open>Rendering\<close>

definition sourceJSON :: "source \<Rightarrow> api_source" where
  "sourceJSON s = \<lparr>as_Name = src_Name s, as_PGVersion = src_PGVersion s, as_Host = src_ConnHost s, as_Port = src_ConnPort s,
     as_User = src_ConnUser s, as_Database = src_ConnDB s, as_Network = src_Network s, as_Via = src_SeedVia s, as_DumpSchemas = src_DumpSchemas s,
     as_State = source_state_str (src_State s), as_Generation = src_Generation s, as_CreatedAt = src_CreatedAt s, as_Image = src_Image s\<rparr>"

definition renderBranch :: "'v server \<Rightarrow> branch \<Rightarrow> source option \<Rightarrow> api_branch" where
  "renderBranch S b src =
     (let user = (case src of None \<Rightarrow> ''postgres'' | Some s \<Rightarrow> if src_ConnUser s \<noteq> [] then src_ConnUser s else ''postgres'');
          dbname = (case src of None \<Rightarrow> ''postgres'' | Some s \<Rightarrow> if src_ConnDB s \<noteq> [] then src_ConnDB s else ''postgres'');
          srcName = (case src of None \<Rightarrow> [] | Some s \<Rightarrow> src_Name s)
      in \<lparr>ab_Name = b_Name b, ab_Source = srcName, ab_Parent = b_ParentBranchName b, ab_State = branch_state_str (b_State b),
          ab_Host = b_Host b, ab_Port = b_Port b, ab_User = user, ab_Password = b_Password b, ab_PasswordUnavailable = b_PasswordUnavailable b,
          ab_Database = dbname, ab_ProxyDatabase = dbname @ ''@'' @ b_Name b, ab_ExpiresAt = b_ExpiresAt b, ab_CreatedAt = b_CreatedAt b,
          ab_ProxyHost = sv_proxyHost S, ab_ProxyPort = sv_proxyPort S\<rparr>)"

definition branchJSON :: "'v server \<Rightarrow> 'rt env \<Rightarrow> branch \<Rightarrow> ('rt, api_branch) op" where
  "branchJSON S E b = attempt (reg_read E (GetSourceByID (b_SourceID b)))
     (\<lambda>e. if \<not> err_not_found e then fail_with (Wrap (''branch '' @ quoted (b_Name b) @ '': load source'') e) else ok (renderBranch S b None))
     (\<lambda>src. ok (renderBranch S b (Some src)))"

definition writeBranch :: "'v server \<Rightarrow> 'rt env \<Rightarrow> request \<Rightarrow> nat \<Rightarrow> branch \<Rightarrow> ('rt, 'v response) act" where
  "writeBranch S E rq code b = or_error E rq (branchJSON S E b) (\<lambda>out. State_Monad.return (code, BranchBody out))"

section \<open>Sources\<close>

definition SeedViaBasebackup :: string where "SeedViaBasebackup = ''basebackup''"
definition SeedViaDump :: string where "SeedViaDump = ''dump''"

definition or_default :: "string \<Rightarrow> string \<Rightarrow> string" where "or_default s d = (if s = [] then d else s)"

definition request_source :: "CreateSourceRequest \<Rightarrow> source" where
  "request_source rq = \<lparr>src_ID = [], src_Name = cs_Name rq, src_PGVersion = cs_PGVersion rq, src_Volume = [], src_ConnHost = cs_Host rq,
     src_ConnUser = or_default (cs_User rq) ''postgres'', src_ConnDB = or_default (cs_Database rq) ''postgres'', src_Network = cs_Network rq,
     src_SeedVia = or_default (cs_Via rq) SeedViaBasebackup, src_DumpSchemas = cs_DumpSchemas rq,
     src_ConnPort = (if cs_Port rq = 0 then 5432 else cs_Port rq), src_Generation = 0, src_State = SourceSeeding, src_CreatedAt = [], src_Image = cs_Image rq\<rparr>"

definition createSource :: "'v server \<Rightarrow> engine \<Rightarrow> 'rt env \<Rightarrow> ('rt, 'v) handler" where
  "createSource S G E rq = or_bad (body_of S jd_source rq) (\<lambda>req. let via = or_default (cs_Via req) SeedViaBasebackup in
     if cs_Name req = [] \<or> TrimSpace (cs_Host req) = [] then bad_request ''name and host are required''
     else if via \<noteq> SeedViaBasebackup \<and> via \<noteq> SeedViaDump
     then bad_request (''invalid via '' @ quoted via @ '': want '' @ quoted SeedViaBasebackup @ '' or '' @ quoted SeedViaDump)
     else if cs_DumpSchemas req \<noteq> [] \<and> via \<noteq> SeedViaDump then bad_request ''dump_schemas is only valid with via=dump''
     else or_error E rq (AddSource (sv_seeding S) G E (request_source req) (cs_Password req)) (\<lambda>_.
          or_error E rq (reg_read E (GetSourceByName (cs_Name req))) (\<lambda>fresh. State_Monad.return (201, SourceBody (sourceJSON fresh)))))"

definition listSources :: "'rt env \<Rightarrow> ('rt, 'v) handler" where
  "listSources E rq = or_error E rq (reg_read E (\<lambda>d. Inr (ListSources d))) (\<lambda>srcs. State_Monad.return (200, SourcesBody (map sourceJSON srcs)))"

definition removeSource :: "engine \<Rightarrow> 'rt env \<Rightarrow> ('rt, 'v) handler" where
  "removeSource G E rq = or_error E rq (RemoveSource G E (rq_name rq)) (\<lambda>_. State_Monad.return (204, NoBody))"

definition refreshSource :: "'v server \<Rightarrow> engine \<Rightarrow> 'rt env \<Rightarrow> ('rt, 'v) handler" where
  "refreshSource S G E rq = or_bad (body_of S jd_password rq) (\<lambda>password.
     or_error E rq (RefreshSource (sv_seeding S) G E (rq_name rq) password) (\<lambda>_.
     or_error E rq (reg_read E (GetSourceByName (rq_name rq))) (\<lambda>fresh. State_Monad.return (200, SourceBody (sourceJSON fresh)))))"

definition setMaskScripts :: "'v server \<Rightarrow> 'rt env \<Rightarrow> ('rt, 'v) handler" where
  "setMaskScripts S E rq = or_error E rq (reg_read E (GetSourceByName (rq_name rq))) (\<lambda>src.
     or_bad (body_of S jd_masks rq) (\<lambda>scripts.
     if list_ex (\<lambda>sc. snd sc = []) scripts then bad_request ''mask script sql must not be empty''
     else or_error E rq (reg_write E (\<lambda>t d. Inr ((), SetMaskScripts (src_ID src) scripts d))) (\<lambda>_. State_Monad.return (200, MasksBody scripts))))"

definition getMaskScripts :: "'rt env \<Rightarrow> ('rt, 'v) handler" where
  "getMaskScripts E rq = or_error E rq (reg_read E (GetSourceByName (rq_name rq))) (\<lambda>src.
     or_error E rq (reg_read E (\<lambda>d. Inr (GetMaskScripts (src_ID src) d))) (\<lambda>rs. State_Monad.return (200, MasksBody rs)))"

section \<open>Branches\<close>

definition maxTTLSeconds :: int where "maxTTLSeconds = (2 ^ 63 - 1) div 10 ^ 9"

text \<open>\<open>time.Duration(n) * time.Second\<close>: a product of two \<open>int64\<close>.\<close>

definition duration_seconds :: "int \<Rightarrow> int" where
  "duration_seconds n = sint (word_of_int n * word_of_int (10 ^ 9) :: 64 word)"

definition createBranch :: "'v server \<Rightarrow> engine \<Rightarrow> 'rt env \<Rightarrow> ('rt, 'v) handler" where
  "createBranch S G E rq = or_bad (body_of S jd_branch rq) (\<lambda>req.
     if cb_Name req = [] then bad_request ''name is required''
     else if (cb_Source req = []) = (cb_Parent req = []) then bad_request ''exactly one of source or parent is required''
     else if cb_TTLSeconds req < 0 \<or> cb_TTLSeconds req > maxTTLSeconds
     then bad_request (''ttl_seconds must be between 0 and '' @ int_dec maxTTLSeconds)
     else let ttl = duration_seconds (cb_TTLSeconds req)
     in or_error E rq (if cb_Parent req \<noteq> [] then CreateBranchFrom G E (cb_Name req) (cb_Parent req) ttl else CreateBranch G E (cb_Name req) (cb_Source req) ttl)
          (writeBranch S E rq 201))"

definition listBranchesHandler :: "'v server \<Rightarrow> 'rt env \<Rightarrow> ('rt, 'v) handler" where
  "listBranchesHandler S E rq = or_error E rq (reg_branches E ListLiveBranches) (\<lambda>bs.
     or_error E rq (reg_read E (\<lambda>d. Inr (ListSources d))) (\<lambda>srcs.
     State_Monad.return (200, BranchesBody (map (\<lambda>b. renderBranch S b (by_id src_ID srcs (b_SourceID b))) bs))))"

definition getBranchHandler :: "'v server \<Rightarrow> 'rt env \<Rightarrow> ('rt, 'v) handler" where
  "getBranchHandler S E rq = or_error E rq (reg_branch_by_name E (rq_name rq)) (writeBranch S E rq 200)"

definition branchUsage :: "'v server \<Rightarrow> engine \<Rightarrow> 'rt env \<Rightarrow> ('rt, 'v) handler" where
  "branchUsage S G E rq = or_error E rq (BranchUsage G E (sv_files S) (sv_copyUp S) (rq_name rq)) (\<lambda>n. State_Monad.return (200, UsageBody n))"

definition roleRank :: "string \<Rightarrow> nat" where
  "roleRank r = (if r = ''viewer'' then 1 else if r = ''operator'' then 2 else if r = ''admin'' then 3 else 0)"

definition diff_sampling :: "string \<Rightarrow> (string, (diffOptions \<Rightarrow> diffOptions) list) result" where
  "diff_sampling v = (if v = [] then Inr []
     else case ParseInt64 v of (n, exact) \<Rightarrow>
       if \<not> exact \<or> n < 0 \<or> n > MaxSampleRows then Inl (''data must be an integer between 0 and '' @ int_dec MaxSampleRows)
       else Inr (if n > 0 then [WithDataSample n] else []))"

definition branchDiff :: "'v server \<Rightarrow> engine \<Rightarrow> 'rt env \<Rightarrow> ('rt, 'v) handler" where
  "branchDiff S G E rq = (case diff_sampling (rq_data rq) of Inl m \<Rightarrow> bad_request m
     | Inr opts \<Rightarrow> do {
         r \<leftarrow> DiffBranch G E (sv_json S) (rq_name rq) (if roleRank (rq_role rq) \<ge> roleRank ''operator'' then opts @ [WithParentQuiesce] else opts);
         case r of Inl e \<Rightarrow>
             if is_sentinel ErrParentQuiesce [e]
             then State_Monad.return (writeError 403 (''role '' @ rq_role rq @ '' lacks the required operator privilege: '' @ err_text (e_regText E) e))
             else writeEngineError E rq [e]
         | Inr res \<Rightarrow> State_Monad.return (200, DiffBody res) })"

definition branchHistory :: "'rt env \<Rightarrow> ('rt, 'v) handler" where
  "branchHistory E rq = or_error E rq (reg_read E (BranchHistory (rq_name rq))) (\<lambda>rows. State_Monad.return (200, HistoryBody rows))"

definition destroyBranch :: "engine \<Rightarrow> 'rt env \<Rightarrow> ('rt, 'v) handler" where
  "destroyBranch G E rq = or_error E rq (DestroyBranch G E (rq_name rq)) (\<lambda>_. State_Monad.return (204, NoBody))"

definition resetBranch :: "'v server \<Rightarrow> engine \<Rightarrow> 'rt env \<Rightarrow> ('rt, 'v) handler" where
  "resetBranch S G E rq = or_error E rq (ResetBranch G E (rq_name rq)) (writeBranch S E rq 200)"

definition recoverBranch :: "'v server \<Rightarrow> engine \<Rightarrow> 'rt env \<Rightarrow> ('rt, 'v) handler" where
  "recoverBranch S G E rq = or_error E rq (RecoverBranch G E (rq_name rq)) (writeBranch S E rq 200)"

section \<open>Reconcile and tokens\<close>

definition reconcilePlan :: "'v server \<Rightarrow> engine \<Rightarrow> 'rt env \<Rightarrow> ('rt, 'v) handler" where
  "reconcilePlan S G E rq = do { t \<leftarrow> tick E;
     or_error E rq (PlanReconcile G E (e_now E t) (sv_stuckTimeout S)) (\<lambda>plan. State_Monad.return (200, PlanBody plan)) }"

definition reconcileApply :: "'v server \<Rightarrow> engine \<Rightarrow> 'rt env \<Rightarrow> ('rt, 'v) handler" where
  "reconcileApply S G E rq = do { t \<leftarrow> tick E;
     or_error E rq (ApplyReconcile G E (e_now E t) (sv_stuckTimeout S)) (\<lambda>(taken, errs).
     if errs \<noteq> [] then writeEngineError E rq errs else State_Monad.return (200, PlanBody taken)) }"

definition hashToken :: "'rt env \<Rightarrow> string \<Rightarrow> string" where
  "hashToken E s = hex_encode (sha256 (e_crypto E) s)"

definition reg_create_token :: "'rt env \<Rightarrow> string \<Rightarrow> string \<Rightarrow> ('rt, string) op" where
  "reg_create_token E name role = do { t \<leftarrow> tick E;
     case e_rand E t of None \<Rightarrow> fail_with (Msg ''random source failed'')
     | Some b \<Rightarrow> reg_write E (\<lambda>t' d. CreateAPIToken (hashToken E) (stamp E t') (e_newID E t' d) (hex_encode b) name role d) }"

definition createToken :: "'v server \<Rightarrow> 'rt env \<Rightarrow> ('rt, 'v) handler" where
  "createToken S E rq = or_bad (body_of S jd_token rq) (\<lambda>req.
     if ct_Name req = [] then bad_request ''name is required''
     else case ValidateTokenName (ct_Name req) of Some e \<Rightarrow> bad_request (e_regText E e)
     | None \<Rightarrow>
         if \<not> ValidRole (ct_Role req) then bad_request ''invalid role: want admin, operator or viewer''
         else or_error E rq (reg_create_token E (ct_Name req) (ct_Role req)) (\<lambda>plaintext. State_Monad.return (201, CreateTokenResponse plaintext)))"

definition listTokens :: "'rt env \<Rightarrow> ('rt, 'v) handler" where
  "listTokens E rq = or_error E rq (reg_read E (\<lambda>d. Inr (ListAPITokens d))) (\<lambda>ts. State_Monad.return (200, TokensBody ts))"

definition revokeToken :: "'rt env \<Rightarrow> ('rt, 'v) handler" where
  "revokeToken E rq = or_error E rq (reg_write E (\<lambda>t d. no_result (RevokeAPIToken (rq_name rq) d))) (\<lambda>_. State_Monad.return (204, NoBody))"

section \<open>Routes\<close>

datatype endpoint =
    CreateSourceEP | ListSourcesEP | RemoveSourceEP | RefreshSourceEP | SetMaskEP | GetMaskEP
  | CreateBranchEP | ListBranchesEP | GetBranchEP | UsageEP | DiffEP | HistoryEP | DestroyEP | ResetEP | RecoverEP
  | PlanEP | ApplyEP | CreateTokenEP | ListTokensEP | RevokeTokenEP

text \<open>How a route is wrapped: \<open>requireRole\<close>, \<open>mutate\<close> or \<open>mutateBranch\<close>.\<close>

datatype gate = ReadGate | MutateGate | MutateBranchGate

text \<open>A segment of a path pattern: a literal, or the wildcard \<^verbatim>\<open>{name}\<close>, which no empty segment matches.\<close>

datatype segment = Lit string | Name

record api_route =
  rt_method :: string
  rt_path :: "segment list"
  rt_gate :: gate
  rt_min :: string
  rt_endpoint :: endpoint

abbreviation route_of :: "string \<Rightarrow> segment list \<Rightarrow> gate \<Rightarrow> string \<Rightarrow> endpoint \<Rightarrow> api_route" where
  "route_of m p g r e \<equiv> \<lparr>rt_method = m, rt_path = p, rt_gate = g, rt_min = r, rt_endpoint = e\<rparr>"

definition v1_routes :: "api_route list" where
  "v1_routes = [
     route_of ''POST'' [Lit ''sources''] MutateGate ''admin'' CreateSourceEP,
     route_of ''GET'' [Lit ''sources''] ReadGate ''viewer'' ListSourcesEP,
     route_of ''DELETE'' [Lit ''sources'', Name] MutateGate ''admin'' RemoveSourceEP,
     route_of ''POST'' [Lit ''sources'', Name, Lit ''refresh''] MutateGate ''admin'' RefreshSourceEP,
     route_of ''PUT'' [Lit ''sources'', Name, Lit ''mask''] MutateGate ''admin'' SetMaskEP,
     route_of ''GET'' [Lit ''sources'', Name, Lit ''mask''] ReadGate ''viewer'' GetMaskEP,
     route_of ''POST'' [Lit ''branches''] MutateBranchGate ''operator'' CreateBranchEP,
     route_of ''GET'' [Lit ''branches''] ReadGate ''viewer'' ListBranchesEP,
     route_of ''GET'' [Lit ''branches'', Name] ReadGate ''viewer'' GetBranchEP,
     route_of ''GET'' [Lit ''branches'', Name, Lit ''usage''] ReadGate ''viewer'' UsageEP,
     route_of ''GET'' [Lit ''branches'', Name, Lit ''diff''] MutateBranchGate ''operator'' DiffEP,
     route_of ''GET'' [Lit ''branches'', Name, Lit ''history''] ReadGate ''viewer'' HistoryEP,
     route_of ''DELETE'' [Lit ''branches'', Name] MutateBranchGate ''operator'' DestroyEP,
     route_of ''POST'' [Lit ''branches'', Name, Lit ''reset''] MutateBranchGate ''operator'' ResetEP,
     route_of ''POST'' [Lit ''branches'', Name, Lit ''recover''] MutateBranchGate ''operator'' RecoverEP,
     route_of ''GET'' [Lit ''reconcile'', Lit ''plan''] ReadGate ''viewer'' PlanEP,
     route_of ''POST'' [Lit ''reconcile''] MutateBranchGate ''operator'' ApplyEP,
     route_of ''POST'' [Lit ''tokens''] MutateGate ''admin'' CreateTokenEP,
     route_of ''GET'' [Lit ''tokens''] ReadGate ''admin'' ListTokensEP,
     route_of ''DELETE'' [Lit ''tokens'', Name] MutateGate ''admin'' RevokeTokenEP]"

fun match_path :: "segment list \<Rightarrow> string list \<Rightarrow> bool" where
  "match_path [] [] = True"
| "match_path (Lit s # ps) (x # xs) = (x = s \<and> match_path ps xs)"
| "match_path (Name # ps) (x # xs) = (x \<noteq> [] \<and> match_path ps xs)"
| "match_path _ _ = False"

fun path_value :: "segment list \<Rightarrow> string list \<Rightarrow> string" where
  "path_value (Name # ps) (x # xs) = x"
| "path_value (Lit s # ps) (x # xs) = path_value ps xs"
| "path_value _ _ = []"

text \<open>A pattern for GET serves HEAD too.\<close>

definition match_method :: "string \<Rightarrow> string \<Rightarrow> bool" where
  "match_method pattern m \<longleftrightarrow> m = pattern \<or> pattern = ''GET'' \<and> m = ''HEAD''"

definition find_route :: "string \<Rightarrow> string list \<Rightarrow> api_route option" where
  "find_route m path = find (\<lambda>r. match_method (rt_method r) m \<and> match_path (rt_path r) path) v1_routes"

definition handler_of :: "'v server \<Rightarrow> engine \<Rightarrow> 'rt env \<Rightarrow> endpoint \<Rightarrow> ('rt, 'v) handler" where
  "handler_of S G E ep = (case ep of
     CreateSourceEP \<Rightarrow> createSource S G E | ListSourcesEP \<Rightarrow> listSources E | RemoveSourceEP \<Rightarrow> removeSource G E
   | RefreshSourceEP \<Rightarrow> refreshSource S G E | SetMaskEP \<Rightarrow> setMaskScripts S E | GetMaskEP \<Rightarrow> getMaskScripts E
   | CreateBranchEP \<Rightarrow> createBranch S G E | ListBranchesEP \<Rightarrow> listBranchesHandler S E | GetBranchEP \<Rightarrow> getBranchHandler S E
   | UsageEP \<Rightarrow> branchUsage S G E | DiffEP \<Rightarrow> branchDiff S G E | HistoryEP \<Rightarrow> branchHistory E | DestroyEP \<Rightarrow> destroyBranch G E
   | ResetEP \<Rightarrow> resetBranch S G E | RecoverEP \<Rightarrow> recoverBranch S G E | PlanEP \<Rightarrow> reconcilePlan S G E | ApplyEP \<Rightarrow> reconcileApply S G E
   | CreateTokenEP \<Rightarrow> createToken S E | ListTokensEP \<Rightarrow> listTokens E | RevokeTokenEP \<Rightarrow> revokeToken E)"

section \<open>Gates\<close>

text \<open>\<open>resolveActor\<close>: the built-in token first, then the stored ones; a failing lookup counts as an unknown token.\<close>

definition resolveActor :: "'v server \<Rightarrow> 'rt env \<Rightarrow> string \<Rightarrow> ('rt, actor) act" where
  "resolveActor S E authHeader =
     (if \<not> has_prefix ''Bearer '' authHeader then State_Monad.return no_actor
      else let presented = trim_prefix ''Bearer '' authHeader
      in if sv_token S \<noteq> [] \<and> presented = sv_token S then State_Monad.return \<lparr>act_Name = EnvTokenActor, act_Role = ''admin''\<rparr>
         else do { r \<leftarrow> reg_read E (\<lambda>d. Inr (LookupAPITokenActor (hashToken E) presented d));
           State_Monad.return (case r of Inr (Some (name, role)) \<Rightarrow> \<lparr>act_Name = name, act_Role = role\<rparr> | _ \<Rightarrow> no_actor) })"

definition requireRole :: "'v server \<Rightarrow> 'rt env \<Rightarrow> string \<Rightarrow> string \<Rightarrow> (actor \<Rightarrow> ('rt, 'v response) act) \<Rightarrow> ('rt, 'v response) act" where
  "requireRole S E need authHeader next = do { actor \<leftarrow> resolveActor S E authHeader;
     if act_Role actor = [] then State_Monad.return (writeError 401 ''missing or invalid bearer token'')
     else if roleRank (act_Role actor) < roleRank need
     then State_Monad.return (writeError 403 (''role '' @ act_Role actor @ '' lacks the required '' @ need @ '' privilege''))
     else next actor }"

text \<open>
  The replica's state at the gate, and what becomes of the context of an admitted mutation while it runs: the term may end, shutdown may give up waiting, the deadline may
  pass. Only a mutation with a deadline can time out. An open gate has a term (\<open>newLeaderGate\<close> starts one).
\<close>

record gatekeeper =
  gk_gate :: LeaderGate
  gk_muts :: mutations
  gk_request :: nat
  gk_interrupted :: "nat \<Rightarrow> cause option"

definition mutation_cause :: "gatekeeper \<Rightarrow> int \<Rightarrow> nat \<Rightarrow> cause option" where
  "mutation_cause K timeout t = (if gk_interrupted K t = Some errMutationTimeout \<and> timeout \<le> 0 then None else gk_interrupted K t)"

definition requireLeader :: "gatekeeper \<Rightarrow> 'rt env \<Rightarrow> int \<Rightarrow> ('rt, 'v) handler \<Rightarrow> ('rt, 'v) handler" where
  "requireLeader K E timeout next rq = (case admit (gk_gate K) of
     (Some term, True) \<Rightarrow>
       (case begin_mutation (gk_request K) term timeout (gk_muts K) of
          None \<Rightarrow> State_Monad.return (writeError 503 ''shutting down'')
        | Some m \<Rightarrow> do { t \<leftarrow> tick E;
            next (rq\<lparr>rq_cause := mutation_cause K timeout, rq_timeout := \<lparr>te_limit = timeout, te_start = e_now E t\<rparr>\<rparr>) })
   | _ \<Rightarrow> State_Monad.return (writeError 503 ''not leader''))"

definition gate_handler :: "'v server \<Rightarrow> gatekeeper \<Rightarrow> 'rt env \<Rightarrow> gate \<Rightarrow> ('rt, 'v) handler \<Rightarrow> ('rt, 'v) handler" where
  "gate_handler S K E g h = (case g of ReadGate \<Rightarrow> h | MutateGate \<Rightarrow> requireLeader K E 0 h | MutateBranchGate \<Rightarrow> requireLeader K E (sv_stuckTimeout S) h)"

record http_request =
  hr_method :: string
  hr_path :: "string list"
  hr_auth :: string
  hr_data :: string
  hr_body :: string

definition plain_request :: "http_request \<Rightarrow> string \<Rightarrow> actor \<Rightarrow> request" where
  "plain_request h name actor = \<lparr>rq_name = name, rq_data = hr_data h, rq_body = hr_body h, rq_role = act_Role actor, rq_cause = (\<lambda>_. None),
     rq_timeout = \<lparr>te_limit = 0, te_start = of_instant 0\<rparr>\<rparr>"

text \<open>A request below \<^verbatim>\<open>/v1/\<close>: the router's own 404 and 405, or the route's gates and handler. The handler runs as the actor resolved.\<close>

definition serve_v1 :: "'v server \<Rightarrow> engine \<Rightarrow> gatekeeper \<Rightarrow> 'rt env \<Rightarrow> http_request \<Rightarrow> ('rt, 'v response) act" where
  "serve_v1 S G K E h = (case find_route (hr_method h) (hr_path h) of
     None \<Rightarrow> State_Monad.return (if list_ex (\<lambda>r. match_path (rt_path r) (hr_path h)) v1_routes then 405 else 404, NoBody)
   | Some r \<Rightarrow> requireRole S E (rt_min r) (hr_auth h) (\<lambda>actor.
       gate_handler S K E (rt_gate r) (handler_of S G (E\<lparr>e_actor := actor\<rparr>) (rt_endpoint r)) (plain_request h (path_value (rt_path r) (hr_path h)) actor)))"

definition healthz :: "'v response" where "healthz = (200, StatusBody ''ok'')"

text \<open>\<open>ready\<close> is the answer of the injected checker.\<close>

definition readyz :: "string option \<Rightarrow> 'v response" where
  "readyz ready = (case ready of Some err \<Rightarrow> writeError 503 err | None \<Rightarrow> (200, StatusBody ''ready''))"

end
