(* ===== verification/ApiProps.thy ===== *)
theory ApiProps
  imports Api SagaCalculus SimEnv
begin

text \<open>
  What the HTTP API guarantees on top of the engine: who reaches a handler, what a viewer can do, how far a TTL may go, what a client learns from a failure, and that the
  two ways of rendering branches agree.
\<close>

section \<open>Time that passes\<close>

text \<open>A world that only time and other processes have changed.\<close>

fun drifted :: "'rt env \<Rightarrow> nat \<Rightarrow> 'rt world \<Rightarrow> 'rt world" where
  "drifted E 0 w = w"
| "drifted E (Suc n) w = drifted E n (snd (run_state (tick E) w))"

lemma drifted_0_1: "\<exists>n. w = drifted E n w" "\<exists>n. snd (run_state (tick E) w) = drifted E n w"
  by (rule exI[of _ 0], simp) (rule exI[of _ 1], simp)

lemma run_reg_read_drift: "\<exists>x. run_state (reg_read E f) w = (x, snd (run_state (tick E) w))"
  by (simp add: run_reg_read run_tick Let_def)

section \<open>The gates\<close>

text \<open>The header names this actor in this registry.\<close>

definition authenticated :: "'v server \<Rightarrow> 'rt env \<Rightarrow> string \<Rightarrow> actor \<Rightarrow> db \<Rightarrow> bool" where
  "authenticated S E auth actor d \<longleftrightarrow>
     (sv_token S \<noteq> [] \<and> auth = ''Bearer '' @ sv_token S \<and> actor = \<lparr>act_Name = EnvTokenActor, act_Role = ''admin''\<rparr>)
     \<or> (\<exists>t p. t \<in> set (api_tokens d) \<and> p \<noteq> [] \<and> auth = ''Bearer '' @ p \<and> tk_token_hash t = hashToken E p
          \<and> actor = \<lparr>act_Name = tk_name t, act_Role = tk_role t\<rparr>)"

lemma bearer: "has_prefix ''Bearer '' s \<Longrightarrow> s = ''Bearer '' @ trim_prefix ''Bearer '' s"
  by (metis has_prefix_iff trim_prefix_append)

lemma lookup_authenticates:
  "LookupAPITokenActor hash p d = Some (name, role) \<Longrightarrow>
     \<exists>t. t \<in> set (api_tokens d) \<and> p \<noteq> [] \<and> tk_token_hash t = hash p \<and> tk_name t = name \<and> tk_role t = role"
  by (auto simp: LookupAPITokenActor_def find_Some_iff split: if_splits) (metis nth_mem)

lemma resolveActor_sound:
  assumes "run_state (resolveActor S E auth) w = (actor, w1)"
  shows "(\<exists>n. w1 = drifted E n w) \<and> (act_Role actor \<noteq> [] \<longrightarrow> authenticated S E auth actor (w_db w1))"
proof (cases "has_prefix ''Bearer '' auth")
  case False
  then show ?thesis using assms drifted_0_1(1)[of w E] by (auto simp: resolveActor_def no_actor_def)
next
  case True
  define p where "p = trim_prefix ''Bearer '' auth"
  have auth: "auth = ''Bearer '' @ p" unfolding p_def by (rule bearer[OF True])
  show ?thesis
  proof (cases "sv_token S \<noteq> [] \<and> p = sv_token S")
    case env: True
    have "actor = \<lparr>act_Name = EnvTokenActor, act_Role = ''admin''\<rparr> \<and> w1 = w"
      using assms True env by (simp add: resolveActor_def p_def[symmetric] Let_def)
    then show ?thesis using env auth drifted_0_1(1)[of w E] by (auto simp: authenticated_def)
  next
    case False
    let ?m = "reg_read E (\<lambda>d. Inr (LookupAPITokenActor (hashToken E) p d))"
    obtain x where x: "run_state ?m w = (x, snd (run_state (tick E) w))" using run_reg_read_drift by blast
    have w1: "w1 = snd (run_state (tick E) w)" "actor = (case x of Inr (Some (name, role)) \<Rightarrow> \<lparr>act_Name = name, act_Role = role\<rparr> | _ \<Rightarrow> no_actor)"
      using assms True False x by (auto simp: resolveActor_def p_def[symmetric] Let_def)
    have "x = Inr (Some (name, role)) \<Longrightarrow> LookupAPITokenActor (hashToken E) p (w_db w1) = Some (name, role)" for name role
      using x w1(1) by (auto simp: run_reg_read run_tick Let_def split: option.splits)
    then have "act_Role actor \<noteq> [] \<Longrightarrow> authenticated S E auth actor (w_db w1)"
      using w1(2) auth lookup_authenticates[of "hashToken E" p "w_db w1"]
      by (auto simp: authenticated_def no_actor_def split: sum.splits option.splits)
    then show ?thesis using w1(1) drifted_0_1(2)[where E=E and w=w] by auto
  qed
qed

text \<open>A request that passes the gates of a route, and the world and the request its handler starts with.\<close>

definition admitted :: "'v server \<Rightarrow> gatekeeper \<Rightarrow> 'rt env \<Rightarrow> http_request \<Rightarrow> api_route \<Rightarrow> actor \<Rightarrow> db \<Rightarrow> bool" where
  "admitted S K E h r actor d \<longleftrightarrow> find_route (hr_method h) (hr_path h) = Some r \<and> authenticated S E (hr_auth h) actor d
     \<and> roleRank (rt_min r) \<le> roleRank (act_Role actor) \<and> (rt_gate r = ReadGate \<or> IsLeader (gk_gate K) \<and> \<not> m_draining (gk_muts K))"

definition refused :: "'v response \<Rightarrow> bool" where
  "refused resp \<longleftrightarrow> fst resp \<in> {401, 403, 404, 405, 503} \<and> (snd resp = NoBody \<or> (\<exists>m. snd resp = ErrorResponse m))"

lemma gate_runs:
  assumes "run_state (gate_handler S K E g h rq) w = (resp, w')"
  shows "refused resp \<and> w' = w
    \<or> (g = ReadGate \<or> IsLeader (gk_gate K) \<and> \<not> m_draining (gk_muts K))
       \<and> (\<exists>rq' n. run_state (h rq') (drifted E n w) = (resp, w') \<and> rq_name rq' = rq_name rq \<and> rq_body rq' = rq_body rq \<and> rq_role rq' = rq_role rq)"
proof -
  have leader: "refused resp \<and> w' = w \<or> (IsLeader (gk_gate K) \<and> \<not> m_draining (gk_muts K))
       \<and> (\<exists>rq' n. run_state (h rq') (drifted E n w) = (resp, w') \<and> rq_name rq' = rq_name rq \<and> rq_body rq' = rq_body rq \<and> rq_role rq' = rq_role rq)"
    if run: "run_state (requireLeader K E timeout h rq) w = (resp, w')" for timeout
  proof (cases "\<exists>term. admit (gk_gate K) = (Some term, True)")
    case False
    then show ?thesis using run by (auto simp: requireLeader_def refused_def writeError_def split: prod.splits option.splits bool.splits)
  next
    case True
    then obtain tm where a: "admit (gk_gate K) = (Some tm, True)" by blast
    show ?thesis
    proof (cases "m_draining (gk_muts K)")
      case True
      then show ?thesis using run a by (auto simp: requireLeader_def begin_mutation_def refused_def writeError_def)
    next
      case False
      let ?rq = "rq\<lparr>rq_cause := mutation_cause K timeout, rq_timeout := \<lparr>te_limit = timeout, te_start = e_now E (w_tick w)\<rparr>\<rparr>"
      have "run_state (h ?rq) (drifted E 1 w) = (resp, w')"
        using run a False by (simp add: requireLeader_def begin_mutation_def run_tick)
      moreover have "IsLeader (gk_gate K)" using a by (auto simp: admit_def IsLeader_def)
      ultimately show ?thesis using False by (intro disjI2 conjI exI[of _ ?rq] exI[of _ 1]) auto
    qed
  qed
  show ?thesis
  proof (cases g)
    case ReadGate
    then show ?thesis using assms by (intro disjI2 conjI disjI1 exI[of _ rq] exI[of _ 0]) (simp_all add: gate_handler_def)
  next
    case MutateGate
    then show ?thesis using assms leader by (auto simp: gate_handler_def)
  next
    case MutateBranchGate
    then show ?thesis using assms leader by (auto simp: gate_handler_def)
  qed
qed

text \<open>
  (C25) A request reaches a handler only with a bearer token that is the built-in one or stored in the registry, of a role at least the one its route asks for, and, on
  every route but the reads, only on the leader and before a shutdown; the handler then runs as the actor the token names. Any other request is answered with 401, 403,
  404, 405 or 503 and an error message at most, and nothing but time and other processes has changed the world.
\<close>

theorem api_gate:
  assumes "run_state (serve_v1 S G K E h) w = (resp, w')"
  shows "(\<exists>n. refused resp \<and> w' = drifted E n w)
    \<or> (\<exists>r actor rq n1 n2. admitted S K E h r actor (w_db (drifted E n1 w))
         \<and> rq_name rq = path_value (rt_path r) (hr_path h) \<and> rq_body rq = hr_body h \<and> rq_role rq = act_Role actor
         \<and> run_state (handler_of S G (E\<lparr>e_actor := actor\<rparr>) (rt_endpoint r) rq) (drifted E n2 (drifted E n1 w)) = (resp, w'))"
proof (cases "find_route (hr_method h) (hr_path h)")
  case None
  then show ?thesis using assms by (intro disjI1 exI[of _ 0]) (auto simp: serve_v1_def refused_def split: if_splits)
next
  case (Some r)
  obtain actor w1 where a: "run_state (resolveActor S E (hr_auth h)) w = (actor, w1)" by fastforce
  from resolveActor_sound[OF a] obtain n1 where n1: "w1 = drifted E n1 w" and auth: "act_Role actor \<noteq> [] \<Longrightarrow> authenticated S E (hr_auth h) actor (w_db w1)"
    by blast
  show ?thesis
  proof (cases "act_Role actor = [] \<or> roleRank (act_Role actor) < roleRank (rt_min r)")
    case True
    then show ?thesis
      using assms Some a n1 by (intro disjI1 exI[of _ n1]) (auto simp: serve_v1_def requireRole_def refused_def writeError_def split: if_splits)
  next
    case False
    let ?rq = "plain_request h (path_value (rt_path r) (hr_path h)) actor"
    have "run_state (gate_handler S K E (rt_gate r) (handler_of S G (E\<lparr>e_actor := actor\<rparr>) (rt_endpoint r)) ?rq) w1 = (resp, w')"
      using assms Some a False by (simp add: serve_v1_def requireRole_def)
    from gate_runs[OF this] consider (no) "refused resp" "w' = w1"
      | (runs) rq' n2 where "rt_gate r = ReadGate \<or> IsLeader (gk_gate K) \<and> \<not> m_draining (gk_muts K)"
          "run_state (handler_of S G (E\<lparr>e_actor := actor\<rparr>) (rt_endpoint r) rq') (drifted E n2 w1) = (resp, w')"
          "rq_name rq' = rq_name ?rq" "rq_body rq' = rq_body ?rq" "rq_role rq' = rq_role ?rq"
      by blast
    then show ?thesis
    proof cases
      case no
      then show ?thesis using n1 by blast
    next
      case runs
      have "admitted S K E h r actor (w_db (drifted E n1 w))"
        using Some auth False runs(1) n1 by (auto simp: admitted_def)
      then show ?thesis using runs(2-) n1 by (intro disjI2 exI[of _ r] exI[of _ actor] exI[of _ rq'] exI[of _ n1] exI[of _ n2]) (auto simp: plain_request_def)
    qed
  qed
qed

section \<open>Reading\<close>

fun interfered :: "(nat \<Rightarrow> db \<Rightarrow> db) \<Rightarrow> nat \<Rightarrow> nat \<Rightarrow> db \<Rightarrow> db" where
  "interfered f t 0 d = d"
| "interfered f t (Suc n) d = interfered f (Suc t) n (f t d)"

fun read_event :: "event \<Rightarrow> bool" where
  "read_event (EvInspect cid b) = True"
| "read_event (EvListManaged b) = True"
| "read_event (EvListHelpers b) = True"
| "read_event (EvListManagedVolumes b) = True"
| "read_event (EvRunHelper spec b) = list_all mnt_ReadOnly (hs_Mounts spec)"
| "read_event _ = False"

text \<open>The registry changed through other processes only, and the runtime was asked to list, to inspect, or to run a helper that mounts every volume read-only.\<close>

definition read_only :: "(nat \<Rightarrow> db \<Rightarrow> db) \<Rightarrow> 'rt world \<Rightarrow> 'rt world \<Rightarrow> bool" where
  "read_only f w w' \<longleftrightarrow> (\<exists>n. w_tick w' = w_tick w + n \<and> w_db w' = interfered f (w_tick w) n (w_db w))
     \<and> (\<exists>new. w_log w' = w_log w @ new \<and> list_all read_event new)"

lemma interfered_add: "interfered f t (m + n) d = interfered f (t + m) n (interfered f t m d)"
  by (induction m arbitrary: t d) simp_all

lemma read_only_refl: "read_only f w w"
  by (auto simp: read_only_def intro: exI[of _ 0])

lemma read_only_trans: "read_only f w w1 \<Longrightarrow> read_only f w1 w2 \<Longrightarrow> read_only f w w2"
proof -
  assume "read_only f w w1" "read_only f w1 w2"
  then obtain m n new1 new2 where
    "w_tick w1 = w_tick w + m" "w_db w1 = interfered f (w_tick w) m (w_db w)" "w_log w1 = w_log w @ new1" "list_all read_event new1"
    "w_tick w2 = w_tick w1 + n" "w_db w2 = interfered f (w_tick w1) n (w_db w1)" "w_log w2 = w_log w1 @ new2" "list_all read_event new2"
    unfolding read_only_def by (elim exE conjE) (rule that)
  then show "read_only f w w2"
    unfolding read_only_def by (intro conjI exI[of _ "m + n"] exI[of _ "new1 @ new2"]) (simp_all add: interfered_add)
qed

lemma read_only_tick: "keeps (read_only (e_interfere E)) (tick E)"
proof -
  have "\<exists>n. Suc t = t + n \<and> e_interfere E t d = interfered (e_interfere E) t n d" for t d by (rule exI[of _ 1]) simp
  then show ?thesis by (auto simp: keeps_def run_tick read_only_def)
qed

lemma read_only_call: "(\<And>r. read_event (ev r)) \<Longrightarrow> keeps (read_only (e_interfere E)) (drv_call E ev f)"
  by (rule keeps_drv_call[OF read_only_tick read_only_trans]) (auto simp: read_only_def intro: exI[of _ 0])

interpretation ro: read_relation "read_only (e_interfere E)" E for E
proof
  show "read_only (e_interfere E) w w" for w by (rule read_only_refl)
  show "read_only (e_interfere E) w w1 \<Longrightarrow> read_only (e_interfere E) w1 w2 \<Longrightarrow> read_only (e_interfere E) w w2" for w w1 w2 by (rule read_only_trans)
  show "read_only (e_interfere E) w (w\<lparr>w_compensationFailures := w_compensationFailures w + 1\<rparr>)" for w
    by (auto simp: read_only_def intro: exI[of _ 0])
qed (auto simp: driver_defs intro!: read_only_tick read_only_call)

lemma keeps_or_error:
  "keeps (read_only (e_interfere E)) m \<Longrightarrow> (\<And>x. keeps (read_only (e_interfere E)) (k x)) \<Longrightarrow> keeps (read_only (e_interfere E)) (or_error E rq m k)"
  unfolding or_error_def writeEngineError_def by (intro saga_rules)

lemma keeps_measure: "list_all mnt_ReadOnly (hs_Mounts spec) \<Longrightarrow> keeps (read_only (e_interfere E)) (measureUsage E name spec)"
  unfolding measureUsage_def Let_def RunHelper_def by (intro saga_rules read_only_call) simp

lemma keeps_usage: "keeps (read_only (e_interfere E)) (BranchUsage G E files copyUp name)"
proof -
  have "list_all (\<lambda>s. list_all mnt_ReadOnly (hs_Mounts s)) (usageHelpers G cr files copyUp v)" for cr v
    by (auto simp: usageHelpers_def du_spec_def zfsHelperSpec_def zfsSpec_def helper_spec_def vol_mount_def split: option.splits prod.splits)
  moreover have "list_all (\<lambda>s. list_all mnt_ReadOnly (hs_Mounts s)) specs \<Longrightarrow> keeps (read_only (e_interfere E)) (try_usage E name specs)" for specs
    by (induction E name specs rule: try_usage.induct) (auto intro!: saga_rules keeps_measure)
  ultimately show ?thesis unfolding BranchUsage_def by (auto intro!: saga_rules)
qed

lemmas read_handler_defs = listSources_def getMaskScripts_def listBranchesHandler_def getBranchHandler_def writeBranch_def branchJSON_def branchUsage_def
  branchHistory_def reconcilePlan_def

lemma keeps_read_handlers:
  assumes "ep \<in> {ListSourcesEP, GetMaskEP, ListBranchesEP, GetBranchEP, UsageEP, HistoryEP, PlanEP}"
  shows "keeps (read_only (e_interfere E)) (handler_of S G E ep rq)"
  using assms by (auto simp: handler_of_def read_handler_defs intro!: saga_rules keeps_or_error keeps_usage)

lemma drifted_actor: "e_interfere (E\<lparr>e_actor := a\<rparr>) = e_interfere E" by simp

lemma read_only_drifted: "read_only (e_interfere E) w (drifted E n w)"
proof (induction n arbitrary: w)
  case (Suc n)
  then show ?case using keepsD[OF read_only_tick[of E], of w] read_only_trans by (simp add: run_tick) blast
qed (simp add: read_only_refl)

lemma viewer_routes:
  "r \<in> set v1_routes \<Longrightarrow> roleRank (rt_min r) < roleRank ''operator'' \<Longrightarrow>
     rt_endpoint r \<in> {ListSourcesEP, GetMaskEP, ListBranchesEP, GetBranchEP, UsageEP, HistoryEP, PlanEP}"
  by (auto simp: v1_routes_def roleRank_def)

lemma find_route_in: "find_route m path = Some r \<Longrightarrow> r \<in> set v1_routes"
  by (metis find_Some_iff find_route_def nth_mem)

lemma refused_reads:
  assumes "run_state (requireRole S E need auth k) w = (resp, w')"
    "\<And>actor w1. run_state (resolveActor S E auth) w = (actor, w1) \<Longrightarrow> roleRank need \<le> roleRank (act_Role actor) \<Longrightarrow> keeps (read_only (e_interfere E)) (k actor)"
  shows "read_only (e_interfere E) w w'"
proof -
  obtain actor w1 where a: "run_state (resolveActor S E auth) w = (actor, w1)" by fastforce
  have w1: "read_only (e_interfere E) w w1" using resolveActor_sound[OF a] read_only_drifted by blast
  have "read_only (e_interfere E) w1 w'"
    using assms a keepsD[OF assms(2)[OF a]] by (auto simp: requireRole_def read_only_refl split: if_splits)
  with w1 show ?thesis by (rule read_only_trans)
qed


section \<open>A server to run\<close>

definition no_reader :: "'a json_reader" where "no_reader s = Inl (Truncated ''EOF'')"

definition demo_server :: "unit server" where
  "demo_server = NewServer ''secret'' 0 \<lparr>sd_sslmode_env = [], sd_seedSettle = [], sd_fixupScript = [], sd_settleScript = [], sd_dumpScript = (\<lambda>f. [])\<rparr>
     (\<lambda>p. None) None \<lparr>js_stats = (\<lambda>s. Inr []), js_counts = (\<lambda>s. Inr []), js_pairs = (\<lambda>s. Inr []), js_row = (\<lambda>s. Inr ())\<rparr>
     \<lparr>jd_source = no_reader, jd_password = no_reader, jd_masks = no_reader,
      jd_branch = (\<lambda>s. Inr (\<lparr>cb_Name = ''b1'', cb_Source = ''s1'', cb_Parent = [], cb_TTLSeconds = 60\<rparr>, [])), jd_token = no_reader, jd_raw = no_reader\<rparr>"

definition demo_keeper :: gatekeeper where
  "demo_keeper = \<lparr>gk_gate = newLeaderGate, gk_muts = newMutations, gk_request = 0, gk_interrupted = (\<lambda>t. None)\<rparr>"

definition demo_token_db :: db where
  "demo_token_db = empty_db\<lparr>api_tokens := [\<lparr>tk_id = ''t1'', tk_name = ''ci'', tk_token_hash = hashToken sim_env ''tok'', tk_role = ''viewer'', tk_created_at = []\<rparr>]\<rparr>"

definition demo_get :: "string \<Rightarrow> http_request" where
  "demo_get auth = \<lparr>hr_method = ''GET'', hr_path = [''sources''], hr_auth = auth, hr_data = [], hr_body = []\<rparr>"

lemma sim_quiet: "e_regFault sim_env = (\<lambda>n. None)" "e_interfere sim_env = (\<lambda>n d. d)"
  by (simp_all add: sim_env_def)

lemma demo_route: "find_route ''GET'' [''sources''] = Some (route_of ''GET'' [Lit ''sources''] ReadGate ''viewer'' ListSourcesEP)"
  by code_simp

lemma demo_actor:
  "run_state (resolveActor demo_server sim_env ''Bearer tok'') (sim_world demo_token_db) =
     (\<lparr>act_Name = ''ci'', act_Role = ''viewer''\<rparr>, (sim_world demo_token_db)\<lparr>w_tick := 1\<rparr>)"
  by (simp add: resolveActor_def has_prefix_def trim_prefix_def demo_server_def NewServer_def sim_run LookupAPITokenActor_def sim_world_def demo_token_db_def)

theorem api_gate_witness:
  "\<exists>resp w'. run_state (serve_v1 demo_server sim_engine demo_keeper sim_env (demo_get ''Bearer nope'')) (sim_world demo_token_db) = (resp, w')
     \<and> ((\<exists>n. refused resp \<and> w' = drifted sim_env n (sim_world demo_token_db))
       \<or> (\<exists>r actor n. admitted demo_server demo_keeper sim_env (demo_get ''Bearer nope'') r actor (w_db (drifted sim_env n (sim_world demo_token_db)))))"
proof -
  obtain resp w' where run: "run_state (serve_v1 demo_server sim_engine demo_keeper sim_env (demo_get ''Bearer nope'')) (sim_world demo_token_db) = (resp, w')"
    by fastforce
  from api_gate[OF run] show ?thesis using run by blast
qed


section \<open>The bound on a TTL\<close>

lemma duration_exact:
  assumes "- (2 ^ 63) \<le> n * 10 ^ 9" "n * 10 ^ 9 < 2 ^ 63"
  shows "duration_seconds n = n * 10 ^ 9"
proof -
  have "word_of_int n * word_of_int (10 ^ 9) = (word_of_int (n * 10 ^ 9) :: 64 word)" by simp
  then have "duration_seconds n = signed_take_bit 63 (n * 10 ^ 9)" unfolding duration_seconds_def by (simp add: sint_sbintrunc' del: of_int_mult)
  then show ?thesis using assms by (simp add: signed_take_bit_int_eq_self)
qed

text \<open>
  (C32) A branch is created with exactly the TTL the request asks for: \<^verbatim>\<open>ttl_seconds\<close> is accepted from 0 to 9223372036 and refused outside, and on that range the product
  with a second does not wrap. The bound is the largest possible: one second more would be a negative duration, which the engine takes for no TTL at all.
\<close>

theorem ttl_exact:
  assumes "body_of S jd_branch rq = Inr req" "cb_Name req \<noteq> []" "(cb_Source req = []) \<noteq> (cb_Parent req = [])"
  shows "createBranch S G E rq =
      (if 0 \<le> cb_TTLSeconds req \<and> cb_TTLSeconds req \<le> 9223372036
       then or_error E rq (if cb_Parent req \<noteq> [] then CreateBranchFrom G E (cb_Name req) (cb_Parent req) (cb_TTLSeconds req * 10 ^ 9)
              else CreateBranch G E (cb_Name req) (cb_Source req) (cb_TTLSeconds req * 10 ^ 9)) (writeBranch S E rq 201)
       else bad_request (''ttl_seconds must be between 0 and '' @ int_dec 9223372036))
    \<and> duration_seconds (9223372036 + 1) < 0"
proof (rule conjI)
  have "maxTTLSeconds = 9223372036" by (simp add: maxTTLSeconds_def)
  moreover have "duration_seconds (cb_TTLSeconds req) = cb_TTLSeconds req * 10 ^ 9" if "0 \<le> cb_TTLSeconds req" "cb_TTLSeconds req \<le> 9223372036"
    using that by (intro duration_exact) simp_all
  ultimately show "createBranch S G E rq =
      (if 0 \<le> cb_TTLSeconds req \<and> cb_TTLSeconds req \<le> 9223372036
       then or_error E rq (if cb_Parent req \<noteq> [] then CreateBranchFrom G E (cb_Name req) (cb_Parent req) (cb_TTLSeconds req * 10 ^ 9)
              else CreateBranch G E (cb_Name req) (cb_Source req) (cb_TTLSeconds req * 10 ^ 9)) (writeBranch S E rq 201)
       else bad_request (''ttl_seconds must be between 0 and '' @ int_dec 9223372036))"
    using assms by (auto simp: createBranch_def or_bad_def Let_def)
  show "duration_seconds (9223372036 + 1) < 0" by (simp add: duration_seconds_def)
qed

definition demo_create :: request where
  "demo_create = \<lparr>rq_name = [], rq_data = [], rq_body = ''{}'', rq_role = ''operator'', rq_cause = (\<lambda>_. None), rq_timeout = \<lparr>te_limit = 0, te_start = of_instant 0\<rparr>\<rparr>"

lemma demo_body: "body_of demo_server jd_branch demo_create = Inr \<lparr>cb_Name = ''b1'', cb_Source = ''s1'', cb_Parent = [], cb_TTLSeconds = 60\<rparr>"
  by (simp add: body_of_def decode_def check_end_def demo_server_def NewServer_def demo_create_def maxBodyBytes_def)

theorem ttl_exact_witness:
  "createBranch demo_server sim_engine sim_env demo_create = or_error sim_env demo_create (CreateBranch sim_engine sim_env ''b1'' ''s1'' (60 * 10 ^ 9))
     (writeBranch demo_server sim_env demo_create 201)"
  using ttl_exact[OF demo_body, of sim_engine sim_env] by simp

section \<open>Failures\<close>

lemma length_clipMessage: "length (clipMessage msg) \<le> 2053"
proof (cases "length msg \<le> maxErrorMessage")
  case True
  then show ?thesis by (simp add: clipMessage_def maxErrorMessage_def)
next
  case False
  let ?s = "take 512 msg @ [CHR '' '', CHR 0xE2, CHR 0x80, CHR 0xA6, CHR '' ''] @ drop (length msg - (maxErrorMessage - 512)) msg"
  have "length ?s \<le> 2053" by (simp add: maxErrorMessage_def)
  then show ?thesis using False length_to_valid_utf8[of 0 ?s] by (simp add: clipMessage_def)
qed

lemma internal_status:
  "engine_error_status regText cause te now errs = (code, msg) \<Longrightarrow> code \<in> {400, 403, 404, 409, 422, 500, 502, 503, 504}"
  by (auto simp: engine_error_status_def Let_def destroy_code_def interruptedStatus_def split: if_splits option.splits prod.splits cause.splits)

text \<open>
  Whatever error an operation returns, the status is one of nine, an internal error tells the client nothing (only a failed destroy explains itself, with the cause it
  journaled), and a message made of tool output is clipped to 2053 bytes.
\<close>

theorem internal_errors_hidden:
  assumes "engine_error_status regText cause te now errs = (code, msg)"
  shows "code \<in> {400, 403, 404, 409, 422, 500, 502, 503, 504}
    \<and> (code = 500 \<and> as_destroy errs = None \<longrightarrow> msg = ''internal server error'')
    \<and> (code \<in> {422, 500, 502} \<longrightarrow> length msg \<le> 2053)"
  using assms internal_status[OF assms] length_clipMessage
  by (auto simp: engine_error_status_def Let_def destroy_code_def interruptedStatus_def split: if_splits option.splits prod.splits cause.splits)

theorem internal_errors_hidden_witness:
  "\<exists>code msg. engine_error_status (\<lambda>e. []) None \<lparr>te_limit = 0, te_start = of_instant 0\<rparr> (of_instant 0) [Msg ''disk full on /var/lib''] = (code, msg)
     \<and> code = 500 \<and> msg = ''internal server error''"
proof -
  obtain code msg where r: "engine_error_status (\<lambda>e. []) None \<lparr>te_limit = 0, te_start = of_instant 0\<rparr> (of_instant 0) [Msg ''disk full on /var/lib''] = (code, msg)"
    by fastforce
  have "code = 500"
    using r by (simp add: engine_error_status_def Let_def is_invalid_name_def is_reg_def is_sentinel_def errs_chain_def as_destroy_def map_filter_def errs_text_def
        substring_conflict_def has_prefix_def)
  then show ?thesis using internal_errors_hidden[OF r] r by (auto simp: as_destroy_def errs_chain_def map_filter_def)
qed

text \<open>
  A reconcile pass in which one action failed is never answered with 200: the client gets the status of the error and none of the actions that were taken.
\<close>

theorem partial_reconcile_fails:
  assumes "run_state (ApplyReconcile G E (e_now E (w_tick w)) (sv_stuckTimeout S)) (snd (run_state (tick E) w)) = (Inr (taken, e # errs), w1)"
  shows "fst (fst (run_state (reconcileApply S G E rq) w)) \<noteq> 200 \<and> (\<exists>m. snd (fst (run_state (reconcileApply S G E rq) w)) = ErrorResponse m)"
proof -
  have "fst (engine_error_status a b c d x) \<noteq> 200" for a b c d x
    using internal_status[of a b c d x] by (cases "engine_error_status a b c d x") auto
  then show ?thesis
    using assms by (auto simp: reconcileApply_def run_tick or_error_def writeEngineError_def writeError_def split: prod.splits) (metis fst_conv)
qed

definition demo_stuck_env :: "sim env" where
  "demo_stuck_env = sim_env\<lparr>e_drv := sim_driver\<lparr>drv_RemoveVolume := (\<lambda>v s. (Some ''volume is in use'', s))\<rparr>\<rparr>"

lemma demo_stuck:
  "case fst (run_state (ApplyReconcile sim_engine demo_stuck_env (e_now demo_stuck_env (w_tick (sim_world empty_db))) 0)
      (snd (run_state (tick demo_stuck_env) (sim_world empty_db)))) of Inr (taken, e # errs) \<Rightarrow> True | _ \<Rightarrow> False"
  by code_simp

theorem partial_reconcile_fails_witness:
  "fst (fst (run_state (reconcileApply (demo_server\<lparr>sv_stuckTimeout := 0\<rparr>) sim_engine demo_stuck_env demo_create) (sim_world empty_db))) \<noteq> 200"
proof -
  obtain taken e errs w1 where "run_state (ApplyReconcile sim_engine demo_stuck_env (e_now demo_stuck_env (w_tick (sim_world empty_db))) 0)
      (snd (run_state (tick demo_stuck_env) (sim_world empty_db))) = (Inr (taken, e # errs), w1)"
    using demo_stuck by (auto split: sum.splits prod.splits list.splits) (metis prod.collapse)
  then show ?thesis using partial_reconcile_fails[where S = "demo_server\<lparr>sv_stuckTimeout := 0\<rparr>"] by fastforce
qed

section \<open>Two ways to render a branch\<close>

lemma find_by_key: "distinct (map key zs) \<Longrightarrow> find (\<lambda>x. key x = k) zs = Some x \<longleftrightarrow> x \<in> set zs \<and> key x = k"
  by (induction zs) auto

lemma by_id_distinct:
  assumes "distinct (map key xs)"
  shows "by_id key xs k = find (\<lambda>x. key x = k) xs"
proof -
  have "distinct (map fst (rev (map (\<lambda>x. (key x, x)) xs)))" using assms by (simp add: rev_map[symmetric] comp_def)
  then have "by_id key xs k = Some x \<longleftrightarrow> x \<in> set xs \<and> key x = k" for x unfolding by_id_def by (subst map_of_eq_Some_iff) auto
  then show ?thesis using find_by_key[OF assms, of k] by (metis option.exhaust)
qed

lemma find_same_rows:
  assumes "distinct (map key xs)" "set ys = set xs" "distinct (map key ys)"
  shows "find (\<lambda>x. key x = k) xs = find (\<lambda>x. key x = k) ys"
  using find_by_key[OF assms(1), of k] find_by_key[OF assms(3), of k] assms(2) by (metis option.exhaust)

lemma find_scan: "find (\<lambda>s. src_ID s = k) (map scanSource rs) = map_option scanSource (find (\<lambda>r. sr_id r = k) rs)"
  by (induction rs) (simp_all add: scanSource_def)

lemma by_id_sources:
  assumes "distinct (map sr_id (sources d))"
  shows "by_id src_ID (ListSources d) k = (case GetSourceByID k d of Inr s \<Rightarrow> Some s | Inl e \<Rightarrow> None)"
proof -
  let ?rows = "sort_key sr_created_at (sources d)"
  have ids: "map src_ID (map scanSource rs) = map sr_id rs" for rs by (simp add: scanSource_def comp_def)
  have dist: "distinct (map sr_id ?rows)" using assms by (metis distinct_map set_sort distinct_sort)
  have "by_id src_ID (ListSources d) k = find (\<lambda>s. src_ID s = k) (map scanSource ?rows)"
    unfolding ListSources_def by (rule by_id_distinct) (simp only: ids dist)
  also have "\<dots> = map_option scanSource (find (\<lambda>r. sr_id r = k) ?rows)"
    by (rule find_scan)
  also have "find (\<lambda>r. sr_id r = k) ?rows = find (\<lambda>r. sr_id r = k) (sources d)"
    using dist assms by (intro find_same_rows[of sr_id]) simp_all
  finally show ?thesis by (simp add: GetSourceByID_def split: option.splits)
qed

text \<open>
  The list of branches, which reads all sources at once, renders each branch exactly as the request for that branch alone does, the ones whose source is gone
  included (on a registry that answers and that nothing else changes meanwhile).
\<close>

theorem list_matches_single:
  assumes "\<And>t. e_regFault E t = None" "\<And>t d. e_interfere E t d = d" "distinct (map sr_id (sources (w_db w)))"
  shows "\<exists>outs. fst (run_state (listBranchesHandler S E rq) w) = (200, BranchesBody outs)
    \<and> map Inr outs = map (\<lambda>b. fst (run_state (branchJSON S E b) w)) (ListLiveBranches (read_password (e_crypto E) (e_box E)) (w_db w))"
proof -
  let ?bs = "ListLiveBranches (read_password (e_crypto E) (e_box E)) (w_db w)"
  have "fst (run_state (branchJSON S E b) w) = Inr (renderBranch S b (by_id src_ID (ListSources (w_db w)) (b_SourceID b)))" for b
    using assms by (auto simp: branchJSON_def run_attempt run_reg_read Let_def by_id_sources GetSourceByID_def split: sum.splits option.splits)
  moreover have "fst (run_state (listBranchesHandler S E rq) w) = (200, BranchesBody (map (\<lambda>b. renderBranch S b (by_id src_ID (ListSources (w_db w)) (b_SourceID b))) ?bs))"
    using assms(1,2) by (simp add: listBranchesHandler_def or_error_def reg_branches_def run_reg_read Let_def)
  ultimately show ?thesis by (intro exI conjI) (assumption, simp)
qed

theorem list_matches_single_witness:
  "\<exists>outs. fst (run_state (listBranchesHandler demo_server sim_env demo_create) (sim_world demo_db3)) = (200, BranchesBody outs)
    \<and> map Inr outs = map (\<lambda>b. fst (run_state (branchJSON demo_server sim_env b) (sim_world demo_db3)))
        (ListLiveBranches (read_password (e_crypto sim_env) (e_box sim_env)) (w_db (sim_world demo_db3)))"
  by (rule list_matches_single) (simp_all add: sim_quiet sim_world_def demo_eval)

end
