(* ===== verification/ApiClient.thy ===== *)
theory ApiClient
  imports Api
begin

text \<open>
  The client of the HTTP API (\<^verbatim>\<open>src/internal/apiclient/client.go\<close>): the requests it makes, as the server's router reads them, and the retry loop. The transport is a
  parameter over a state of any type: it answers a request with a response or fails in one of the ways \<open>retryable\<close> tells apart. Also a parameter are the jitter drawn for a
  wait, the JSON encoding of a body and the reading of branchd's error body. Building the transport (proxies, TLS) is left out.
\<close>

section \<open>Paths\<close>

text \<open>\<open>url.PathEscape\<close> and its inverse, byte by byte.\<close>

definition path_plain :: "char \<Rightarrow> bool" where
  "path_plain c \<longleftrightarrow> low_alnum c \<or> (CHR ''A'' \<le> c \<and> c \<le> CHR ''Z'') \<or> c \<in> set ''-_.~$&+=:@''"

definition hex_upper :: "nat \<Rightarrow> char" where
  "hex_upper n = (if n < 10 then char_of (48 + n) else char_of (55 + n))"

definition escape_char :: "char \<Rightarrow> string" where
  "escape_char c = (if path_plain c then [c] else let n = (of_char c :: nat) in [CHR ''%'', hex_upper (n div 16), hex_upper (n mod 16)])"

definition PathEscape :: "string \<Rightarrow> string" where "PathEscape s = concat (map escape_char s)"

fun path_unescape :: "string \<Rightarrow> string option" where
  "path_unescape [] = Some []"
| "path_unescape (c # s) =
     (if c \<noteq> CHR ''%'' then map_option (Cons c) (path_unescape s)
      else case s of a # b # r \<Rightarrow>
          (case (hex_val a, hex_val b, path_unescape r) of (Some x, Some y, Some t) \<Rightarrow> Some (char_of (16 * x + y) # t) | _ \<Rightarrow> None)
        | _ \<Rightarrow> None)"

text \<open>The router's view of a request target: the segments below \<^verbatim>\<open>/v1\<close>, unescaped one by one, and the query parameter \<^verbatim>\<open>data\<close>.\<close>

definition parse_target :: "string \<Rightarrow> (string list \<times> string) option" where
  "parse_target t =
     (let (p, q) = (case cut (CHR ''?'') t of None \<Rightarrow> (t, []) | Some pq \<Rightarrow> pq)
      in case split_on (CHR ''/'') p of [] # v # segs \<Rightarrow>
           if v \<noteq> ''v1'' then None else map_option (\<lambda>ss. (ss, if has_prefix ''data='' q then trim_prefix ''data='' q else [])) (those (map path_unescape segs))
         | _ \<Rightarrow> None)"

section \<open>Requests\<close>

text \<open>The methods of \<open>Client\<close>; a body is the value marshalled.\<close>

datatype 'b call =
    CreateSourceC 'b | ListSourcesC | RemoveSourceC string | RefreshSourceC string 'b | SetMaskScriptsC string 'b | GetMaskScriptsC string
  | CreateBranchC 'b | ListBranchesC | GetBranchC string | BranchUsageC string | DiffBranchC string int | BranchHistoryC string
  | DestroyBranchC string | ResetBranchC string | RecoverBranchC string | ReconcilePlanC | ReconcileApplyC
  | CreateTokenC 'b | ListTokensC | RevokeTokenC string

fun call_method :: "'b call \<Rightarrow> string" where
  "call_method (CreateSourceC b) = ''POST''"
| "call_method ListSourcesC = ''GET''"
| "call_method (RemoveSourceC n) = ''DELETE''"
| "call_method (RefreshSourceC n b) = ''POST''"
| "call_method (SetMaskScriptsC n b) = ''PUT''"
| "call_method (GetMaskScriptsC n) = ''GET''"
| "call_method (CreateBranchC b) = ''POST''"
| "call_method ListBranchesC = ''GET''"
| "call_method (GetBranchC n) = ''GET''"
| "call_method (BranchUsageC n) = ''GET''"
| "call_method (DiffBranchC n k) = ''GET''"
| "call_method (BranchHistoryC n) = ''GET''"
| "call_method (DestroyBranchC n) = ''DELETE''"
| "call_method (ResetBranchC n) = ''POST''"
| "call_method (RecoverBranchC n) = ''POST''"
| "call_method ReconcilePlanC = ''GET''"
| "call_method ReconcileApplyC = ''POST''"
| "call_method (CreateTokenC b) = ''POST''"
| "call_method ListTokensC = ''GET''"
| "call_method (RevokeTokenC n) = ''DELETE''"

fun call_path :: "'b call \<Rightarrow> string" where
  "call_path (CreateSourceC b) = ''/v1/sources''"
| "call_path ListSourcesC = ''/v1/sources''"
| "call_path (RemoveSourceC n) = ''/v1/sources/'' @ PathEscape n"
| "call_path (RefreshSourceC n b) = ''/v1/sources/'' @ PathEscape n @ ''/refresh''"
| "call_path (SetMaskScriptsC n b) = ''/v1/sources/'' @ PathEscape n @ ''/mask''"
| "call_path (GetMaskScriptsC n) = ''/v1/sources/'' @ PathEscape n @ ''/mask''"
| "call_path (CreateBranchC b) = ''/v1/branches''"
| "call_path ListBranchesC = ''/v1/branches''"
| "call_path (GetBranchC n) = ''/v1/branches/'' @ PathEscape n"
| "call_path (BranchUsageC n) = ''/v1/branches/'' @ PathEscape n @ ''/usage''"
| "call_path (DiffBranchC n k) = ''/v1/branches/'' @ PathEscape n @ ''/diff'' @ (if k > 0 then ''?data='' @ int_dec k else [])"
| "call_path (BranchHistoryC n) = ''/v1/branches/'' @ PathEscape n @ ''/history''"
| "call_path (DestroyBranchC n) = ''/v1/branches/'' @ PathEscape n"
| "call_path (ResetBranchC n) = ''/v1/branches/'' @ PathEscape n @ ''/reset''"
| "call_path (RecoverBranchC n) = ''/v1/branches/'' @ PathEscape n @ ''/recover''"
| "call_path ReconcilePlanC = ''/v1/reconcile/plan''"
| "call_path ReconcileApplyC = ''/v1/reconcile''"
| "call_path (CreateTokenC b) = ''/v1/tokens''"
| "call_path ListTokensC = ''/v1/tokens''"
| "call_path (RevokeTokenC n) = ''/v1/tokens/'' @ PathEscape n"

fun call_body :: "'b call \<Rightarrow> 'b option" where
  "call_body (CreateSourceC b) = Some b"
| "call_body (RefreshSourceC n b) = Some b"
| "call_body (SetMaskScriptsC n b) = Some b"
| "call_body (CreateBranchC b) = Some b"
| "call_body (CreateTokenC b) = Some b"
| "call_body _ = None"

section \<open>Errors\<close>

text \<open>How a request fails without a response: its context ended, the connection could not be made (with the host name unknown or not), it broke, or anything else.\<close>

datatype net_error = ContextDone string | DialFailed bool string | ConnectionBroken string | OtherError string

datatype client_error =
    StatusError nat string bool
  | Transport net_error
  | GaveUp net_error nat
  | WhileRetrying string client_error
  | BadBody string

fun net_text :: "net_error \<Rightarrow> string" where
  "net_text (ContextDone m) = m"
| "net_text (DialFailed unknown m) = m"
| "net_text (ConnectionBroken m) = m"
| "net_text (OtherError m) = m"

fun client_text :: "client_error \<Rightarrow> string" where
  "client_text (StatusError code m own) = m"
| "client_text (Transport e) = net_text e"
| "client_text (GaveUp e n) = net_text e @ '' (gave up after '' @ nat_dec n @ '' attempts)''"
| "client_text (WhileRetrying c e) = c @ '' (while retrying after: '' @ client_text e @ '')''"
| "client_text (BadBody m) = m"

definition IsNotFound :: "client_error \<Rightarrow> bool" where
  "IsNotFound e \<longleftrightarrow> (case e of StatusError code m own \<Rightarrow> code = 404 | _ \<Rightarrow> False)"

definition idempotent :: "string \<Rightarrow> bool" where
  "idempotent m \<longleftrightarrow> m \<in> {''GET'', ''HEAD'', ''PUT'', ''DELETE'', ''OPTIONS''}"

definition retryable :: "string \<Rightarrow> client_error \<Rightarrow> bool" where
  "retryable m e = (case e of
     Transport (ContextDone t) \<Rightarrow> False
   | StatusError code t fromBranchd \<Rightarrow> if code = 503 then True else if code \<in> {502, 504} then idempotent m \<and> \<not> fromBranchd else False
   | Transport (DialFailed unknown t) \<Rightarrow> \<not> unknown
   | Transport (ConnectionBroken t) \<Rightarrow> idempotent m
   | _ \<Rightarrow> False)"

definition gaveUp :: "client_error \<Rightarrow> nat \<Rightarrow> client_error" where
  "gaveUp e attempts = (case e of
     StatusError code m own \<Rightarrow> StatusError code (m @ '' (gave up after '' @ nat_dec attempts @ '' attempts)'') False
   | Transport n \<Rightarrow> GaveUp n attempts | _ \<Rightarrow> e)"

section \<open>Waiting\<close>

record RetryPolicy =
  rp_MaxAttempts :: int
  rp_BaseDelay :: int
  rp_MaxDelay :: int

definition DefaultRetry :: RetryPolicy where
  "DefaultRetry = \<lparr>rp_MaxAttempts = 6, rp_BaseDelay = 250 * 10 ^ 6, rp_MaxDelay = 4 * 10 ^ 9\<rparr>"

fun doubled :: "int \<Rightarrow> nat \<Rightarrow> int \<Rightarrow> int" where
  "doubled m 0 d = d"
| "doubled m (Suc n) d = (if d < m then doubled m n (d * 2) else d)"

text \<open>\<open>jitter n\<close> is what \<open>rand.N(n)\<close> draws: at least 0 and less than \<open>n\<close>.\<close>

definition backoff :: "RetryPolicy \<Rightarrow> (int \<Rightarrow> int) \<Rightarrow> nat \<Rightarrow> int \<Rightarrow> int" where
  "backoff p jitter att retryAfter =
     (let d1 = doubled (rp_MaxDelay p) (att - 1) (rp_BaseDelay p);
          d2 = (if rp_MaxDelay p > 0 \<and> d1 > rp_MaxDelay p then rp_MaxDelay p else d1);
          d3 = (if d2 > 1 then d2 div 2 + jitter (d2 div 2 + 1) else d2)
      in if retryAfter > d3 then (if rp_MaxDelay p > 0 \<and> retryAfter > rp_MaxDelay p then rp_MaxDelay p else retryAfter) else d3)"

definition retryAfterHeader :: "string \<Rightarrow> int" where
  "retryAfterHeader v = (case ParseInt64 (TrimSpace v) of (n, exact) \<Rightarrow> if \<not> exact \<or> n \<le> 0 then 0 else duration_seconds n)"

section \<open>The loop\<close>

record http_response =
  hp_code :: nat
  hp_body :: string
  hp_retryAfter :: string

record ('b, 's) client =
  cl_Token :: string
  cl_Retry :: RetryPolicy
  cl_send :: "http_request \<Rightarrow> 's \<Rightarrow> (net_error, http_response) result \<times> 's"
  cl_wait :: "int \<Rightarrow> 's \<Rightarrow> string option \<times> 's"
  cl_jitter :: "'s \<Rightarrow> int \<Rightarrow> int"
  cl_marshal :: "'b \<Rightarrow> string"
  cl_errorOf :: "string \<Rightarrow> string"

text \<open>
  \<open>cl_wait\<close> sleeps, or returns the error of the context when it ends first; \<open>cl_errorOf\<close> is the error message in a body, empty when the body is not branchd's. The request
  as the server sees it: a target the router cannot read has no segments.
\<close>

definition client_request :: "('b, 's) client \<Rightarrow> 'b call \<Rightarrow> http_request" where
  "client_request C c = (case parse_target (call_path c) of (None) \<Rightarrow> \<lparr>hr_method = call_method c, hr_path = [], hr_auth = [], hr_data = [], hr_body = []\<rparr>
     | Some (segs, q) \<Rightarrow> \<lparr>hr_method = call_method c, hr_path = segs, hr_auth = (if cl_Token C \<noteq> [] then ''Bearer '' @ cl_Token C else []), hr_data = q,
         hr_body = (case call_body c of None \<Rightarrow> [] | Some b \<Rightarrow> cl_marshal C b)\<rparr>)"

definition status_error :: "('b, 's) client \<Rightarrow> 'b call \<Rightarrow> http_response \<Rightarrow> client_error" where
  "status_error C c r =
     (let own = cl_errorOf C (hp_body r);
          msg = (if own \<noteq> [] then own else ''HTTP '' @ nat_dec (hp_code r)) @ (if hp_code r = 401 \<and> cl_Token C = [] then '' (no bearer token was sent)'' else [])
      in StatusError (hp_code r) (call_method c @ '' '' @ call_path c @ '': '' @ msg) (own \<noteq> []))"

definition once :: "('b, 's) client \<Rightarrow> 'b call \<Rightarrow> 's \<Rightarrow> (client_error \<times> int, string) result \<times> 's" where
  "once C c s = (case cl_send C (client_request C c) s of
     (Inl e, s') \<Rightarrow> (Inl (Transport e, 0), s')
   | (Inr r, s') \<Rightarrow> if 200 \<le> hp_code r \<and> hp_code r \<le> 299 then (Inr (hp_body r), s') else (Inl (status_error C c r, retryAfterHeader (hp_retryAfter r)), s'))"

text \<open>What the loop did: each attempt with its error (none for the last one if it succeeded) and each wait.\<close>

datatype client_event = Attempt "client_error option" | Wait int

fun do_loop :: "nat \<Rightarrow> nat \<Rightarrow> ('b, 's) client \<Rightarrow> 'b call \<Rightarrow> 's \<Rightarrow> (client_error, string) result \<times> client_event list \<times> 's" where
  "do_loop left att C c s = (case once C c s of
     (Inr body, s1) \<Rightarrow> (Inr body, [Attempt None], s1)
   | (Inl (e, retryAfter), s1) \<Rightarrow>
       (case left of 0 \<Rightarrow> (Inl (if att > 1 then gaveUp e att else e), [Attempt (Some e)], s1)
        | Suc left' \<Rightarrow>
            if \<not> retryable (call_method c) e then (Inl (if att > 1 then gaveUp e att else e), [Attempt (Some e)], s1)
            else (let d = backoff (cl_Retry C) (cl_jitter C s1) att retryAfter
                  in case cl_wait C d s1 of
                       (Some cerr, s2) \<Rightarrow> (Inl (WhileRetrying cerr e), [Attempt (Some e), Wait d], s2)
                     | (None, s2) \<Rightarrow> (case do_loop left' (att + 1) C c s2 of (r, evs, s3) \<Rightarrow> (r, Attempt (Some e) # Wait d # evs, s3)))))"

declare do_loop.simps [simp del]

definition client_do :: "('b, 's) client \<Rightarrow> 'b call \<Rightarrow> 's \<Rightarrow> (client_error, string) result \<times> client_event list \<times> 's" where
  "client_do C c s = do_loop (nat (max (rp_MaxAttempts (cl_Retry C)) 1) - 1) 1 C c s"

end
