(* ===== verification/ApiClientProps.thy ===== *)
theory ApiClientProps
  imports ApiClient
begin

text \<open>
  The client meets the server: every method of the client names a route of the API and its argument arrives unchanged. And the retry loop repeats only what may be
  repeated, a bounded number of times with bounded waits.
\<close>

section \<open>Paths survive the way\<close>

lemma hex_upper_val: "n < 16 \<Longrightarrow> hex_val (hex_upper n) = Some n"
  by (auto simp: hex_val_def hex_upper_def Let_def)

lemma path_plain_not: "path_plain c \<Longrightarrow> c \<noteq> CHR ''%'' \<and> c \<noteq> CHR ''/'' \<and> c \<noteq> CHR ''?''"
  by (auto simp: path_plain_def low_alnum_alt)

lemma hex_upper_not: "n < 16 \<Longrightarrow> hex_upper n \<noteq> CHR ''/'' \<and> hex_upper n \<noteq> CHR ''?''"
proof (rule conjI; rule notI)
  assume n: "n < 16"
  have v: "of_char (hex_upper n) = (if n < 10 then 48 + n else 55 + n)" using n by (simp add: hex_upper_def)
  show False if "hex_upper n = CHR ''/''" using v n arg_cong[OF that, of "of_char :: char \<Rightarrow> nat"] by (simp split: if_splits)
  show False if "hex_upper n = CHR ''?''" using v n arg_cong[OF that, of "of_char :: char \<Rightarrow> nat"] by (simp split: if_splits)
qed

lemma unescape_char: "path_unescape (escape_char c @ s) = map_option (Cons c) (path_unescape s)"
proof (cases "path_plain c")
  case True
  then show ?thesis using path_plain_not by (simp add: escape_char_def)
next
  case False
  have "of_char c < (256 :: nat)" by simp
  then have "of_char c div 16 < (16 :: nat)" "of_char c mod 16 < (16 :: nat)" by (simp_all add: less_mult_imp_div_less)
  moreover have "16 * (of_char c div 16 :: nat) + of_char c mod 16 = of_char c" by simp
  ultimately show ?thesis using False by (simp add: escape_char_def Let_def hex_upper_val split: option.splits)
qed

lemma path_escape_roundtrip [simp]: "path_unescape (PathEscape s) = Some s"
  by (induction s) (simp_all add: PathEscape_def unescape_char)

lemma path_escape_plain [simp]: "CHR ''/'' \<notin> set (PathEscape s)" "CHR ''?'' \<notin> set (PathEscape s)"
proof -
  have "c' \<in> set (escape_char c) \<Longrightarrow> c' \<noteq> CHR ''/'' \<and> c' \<noteq> CHR ''?''" for c c'
  proof (cases "path_plain c")
    case True
    moreover assume "c' \<in> set (escape_char c)"
    ultimately show ?thesis using path_plain_not by (simp add: escape_char_def)
  next
    case False
    moreover assume "c' \<in> set (escape_char c)"
    moreover have "of_char c div 16 < (16 :: nat)" "of_char c mod 16 < (16 :: nat)" using nat_of_char_less_256[of c] by (simp_all add: less_mult_imp_div_less)
    ultimately show ?thesis using hex_upper_not by (auto simp: escape_char_def Let_def)
  qed
  then show "CHR ''/'' \<notin> set (PathEscape s)" "CHR ''?'' \<notin> set (PathEscape s)" by (fastforce simp: PathEscape_def)+
qed

lemma cut_no_sep: "c \<notin> set s \<Longrightarrow> cut c s = None"
  by (induction s) auto

text \<open>A target made of clean pieces, as the router reads it.\<close>

lemma parse_segments:
  assumes "list_all (\<lambda>x. CHR ''/'' \<notin> set x \<and> CHR ''?'' \<notin> set x) xs" "xs \<noteq> []" "those (map path_unescape xs) = Some segs"
  shows "parse_target (''/v1/'' @ join_with ''/'' xs) = Some (segs, [])"
    and "parse_target (''/v1/'' @ join_with ''/'' xs @ ''?'' @ q) = Some (segs, if has_prefix ''data='' q then trim_prefix ''data='' q else [])"
proof -
  let ?p = "''/v1/'' @ join_with ''/'' xs"
  have q: "CHR ''?'' \<notin> set ?p" using assms(1) by (induction "''/''" xs rule: join_with.induct) auto
  have "?p = join_with ''/'' ([] # ''v1'' # xs)" using assms(2) by (cases xs) auto
  moreover have "split_on (CHR ''/'') (join_with [CHR ''/''] ([] # ''v1'' # xs)) = [] # ''v1'' # xs"
    by (rule split_join) (use assms(1) in \<open>auto simp: list_all_iff\<close>)
  ultimately have p: "split_on (CHR ''/'') ?p = [] # ''v1'' # xs" by simp
  show "parse_target ?p = Some (segs, [])"
    unfolding parse_target_def cut_no_sep[OF q] by (simp add: p[simplified] assms(3) has_prefix_def)
  have "cut (CHR ''?'') (?p @ CHR ''?'' # q) = Some (?p, q)" by (rule cut_append[OF q])
  then show "parse_target (''/v1/'' @ join_with ''/'' xs @ ''?'' @ q) = Some (segs, if has_prefix ''data='' q then trim_prefix ''data='' q else [])"
    unfolding parse_target_def by (simp add: p[simplified] assms(3))
qed

section \<open>Every call has its route\<close>

fun call_name :: "'b call \<Rightarrow> string option" where
  "call_name (RemoveSourceC n) = Some n" | "call_name (RefreshSourceC n b) = Some n" | "call_name (SetMaskScriptsC n b) = Some n"
| "call_name (GetMaskScriptsC n) = Some n" | "call_name (GetBranchC n) = Some n" | "call_name (BranchUsageC n) = Some n"
| "call_name (DiffBranchC n k) = Some n" | "call_name (BranchHistoryC n) = Some n" | "call_name (DestroyBranchC n) = Some n"
| "call_name (ResetBranchC n) = Some n" | "call_name (RecoverBranchC n) = Some n" | "call_name (RevokeTokenC n) = Some n"
| "call_name _ = None"

fun call_endpoint :: "'b call \<Rightarrow> endpoint" where
  "call_endpoint (CreateSourceC b) = CreateSourceEP" | "call_endpoint ListSourcesC = ListSourcesEP" | "call_endpoint (RemoveSourceC n) = RemoveSourceEP"
| "call_endpoint (RefreshSourceC n b) = RefreshSourceEP" | "call_endpoint (SetMaskScriptsC n b) = SetMaskEP" | "call_endpoint (GetMaskScriptsC n) = GetMaskEP"
| "call_endpoint (CreateBranchC b) = CreateBranchEP" | "call_endpoint ListBranchesC = ListBranchesEP" | "call_endpoint (GetBranchC n) = GetBranchEP"
| "call_endpoint (BranchUsageC n) = UsageEP" | "call_endpoint (DiffBranchC n k) = DiffEP" | "call_endpoint (BranchHistoryC n) = HistoryEP"
| "call_endpoint (DestroyBranchC n) = DestroyEP" | "call_endpoint (ResetBranchC n) = ResetEP" | "call_endpoint (RecoverBranchC n) = RecoverEP"
| "call_endpoint ReconcilePlanC = PlanEP" | "call_endpoint ReconcileApplyC = ApplyEP" | "call_endpoint (CreateTokenC b) = CreateTokenEP"
| "call_endpoint ListTokensC = ListTokensEP" | "call_endpoint (RevokeTokenC n) = RevokeTokenEP"

fun call_data :: "'b call \<Rightarrow> string" where
  "call_data (DiffBranchC n k) = (if k > 0 then int_dec k else [])"
| "call_data _ = []"

fun call_segments :: "'b call \<Rightarrow> string list" where
  "call_segments (CreateSourceC b) = [''sources'']" | "call_segments ListSourcesC = [''sources'']"
| "call_segments (RemoveSourceC n) = [''sources'', n]" | "call_segments (RefreshSourceC n b) = [''sources'', n, ''refresh'']"
| "call_segments (SetMaskScriptsC n b) = [''sources'', n, ''mask'']" | "call_segments (GetMaskScriptsC n) = [''sources'', n, ''mask'']"
| "call_segments (CreateBranchC b) = [''branches'']" | "call_segments ListBranchesC = [''branches'']"
| "call_segments (GetBranchC n) = [''branches'', n]" | "call_segments (BranchUsageC n) = [''branches'', n, ''usage'']"
| "call_segments (DiffBranchC n k) = [''branches'', n, ''diff'']" | "call_segments (BranchHistoryC n) = [''branches'', n, ''history'']"
| "call_segments (DestroyBranchC n) = [''branches'', n]" | "call_segments (ResetBranchC n) = [''branches'', n, ''reset'']"
| "call_segments (RecoverBranchC n) = [''branches'', n, ''recover'']" | "call_segments ReconcilePlanC = [''reconcile'', ''plan'']"
| "call_segments ReconcileApplyC = [''reconcile'']" | "call_segments (CreateTokenC b) = [''tokens'']"
| "call_segments ListTokensC = [''tokens'']" | "call_segments (RevokeTokenC n) = [''tokens'', n]"

lemma parse_pieces:
  assumes "list_all (\<lambda>c. c \<noteq> CHR ''/'' \<and> c \<noteq> CHR ''?'' \<and> c \<noteq> CHR ''%'') k" "list_all (\<lambda>c. c \<noteq> CHR ''/'' \<and> c \<noteq> CHR ''?'' \<and> c \<noteq> CHR ''%'') a"
  shows "parse_target (''/v1/'' @ k) = Some ([k], [])"
    "parse_target (''/v1/'' @ k @ ''/'' @ PathEscape n) = Some ([k, n], [])"
    "parse_target (''/v1/'' @ k @ ''/'' @ PathEscape n @ ''/'' @ a) = Some ([k, n, a], [])"
    "parse_target (''/v1/'' @ k @ ''/'' @ PathEscape n @ ''/'' @ a @ ''?data='' @ q) = Some ([k, n, a], q)"
proof -
  have u: "path_unescape x = Some x" if "list_all (\<lambda>c. c \<noteq> CHR ''/'' \<and> c \<noteq> CHR ''?'' \<and> c \<noteq> CHR ''%'') x" for x
    using that by (induction x) auto
  have s: "CHR ''/'' \<notin> set x \<and> CHR ''?'' \<notin> set x" if "list_all (\<lambda>c. c \<noteq> CHR ''/'' \<and> c \<noteq> CHR ''?'' \<and> c \<noteq> CHR ''%'') x" for x
    using that by (auto simp: list_all_iff)
  show "parse_target (''/v1/'' @ k) = Some ([k], [])"
    using parse_segments(1)[of "[k]" "[k]"] s[OF assms(1)] u[OF assms(1)] by simp
  show "parse_target (''/v1/'' @ k @ ''/'' @ PathEscape n) = Some ([k, n], [])"
    using parse_segments(1)[of "[k, PathEscape n]" "[k, n]"] s[OF assms(1)] u[OF assms(1)] by simp
  show "parse_target (''/v1/'' @ k @ ''/'' @ PathEscape n @ ''/'' @ a) = Some ([k, n, a], [])"
    using parse_segments(1)[of "[k, PathEscape n, a]" "[k, n, a]"] s[OF assms(1)] u[OF assms(1)] s[OF assms(2)] u[OF assms(2)] by simp
  show "parse_target (''/v1/'' @ k @ ''/'' @ PathEscape n @ ''/'' @ a @ ''?data='' @ q) = Some ([k, n, a], q)"
    using parse_segments(2)[of "[k, PathEscape n, a]" "[k, n, a]" "''data='' @ q"] s[OF assms(1)] u[OF assms(1)] s[OF assms(2)] u[OF assms(2)]
    by (simp add: has_prefix_def trim_prefix_def)
qed

lemma parse_call: "parse_target (call_path c) = Some (call_segments c, call_data c)"
proof -
  note one = parse_pieces(1)[of _ "[]", simplified] and two = parse_pieces(2)[of _ "[]", simplified] and three = parse_pieces(3)[simplified] and query = parse_pieces(4)[simplified]
  show ?thesis
  proof (cases c)
    case ReconcilePlanC
    have "parse_target (''/v1/'' @ join_with ''/'' [''reconcile'', ''plan'']) = Some ([''reconcile'', ''plan''], [])" by (rule parse_segments) auto
    then show ?thesis using ReconcilePlanC by simp
  next
    case (DiffBranchC n k)
    then show ?thesis using three[of "''branches''" "''diff''" n] query[of "''branches''" "''diff''" n "int_dec k"] by simp
  qed (use one[of "''sources''"] one[of "''branches''"] one[of "''tokens''"] one[of "''reconcile''"] two[of "''sources''"] two[of "''branches''"] two[of "''tokens''"]
      three[of "''sources''" "''refresh''"] three[of "''sources''" "''mask''"] three[of "''branches''" "''usage''"] three[of "''branches''" "''history''"]
      three[of "''branches''" "''reset''"] three[of "''branches''" "''recover''"] in simp_all)
qed


definition demo_client :: "(string, unit) client" where
  "demo_client = \<lparr>cl_Token = ''secret'', cl_Retry = DefaultRetry, cl_send = (\<lambda>rq s. (Inr \<lparr>hp_code = 503, hp_body = [], hp_retryAfter = ''4''\<rparr>, s)),
     cl_wait = (\<lambda>d s. (None, s)), cl_jitter = (\<lambda>s n. 0), cl_marshal = (\<lambda>b. b), cl_errorOf = (\<lambda>b. [])\<rparr>"


section \<open>Retries\<close>

fun retried :: "client_event list \<Rightarrow> client_error list" where
  "retried (Attempt (Some e) # Wait d # evs) = e # retried evs"
| "retried (x # evs) = retried evs"
| "retried [] = []"

fun waits :: "client_event list \<Rightarrow> int list" where
  "waits (Wait d # evs) = d # waits evs"
| "waits (Attempt e # evs) = waits evs"
| "waits [] = []"

definition attempts :: "client_event list \<Rightarrow> nat" where
  "attempts evs = length (filter (\<lambda>ev. case ev of Attempt e \<Rightarrow> True | Wait d \<Rightarrow> False) evs)"

text \<open>The shape of a run, for any property of a wait that every wait of the policy has.\<close>

lemma loop_shape:
  assumes "do_loop left att C c s = (r, evs, s')"
    and "\<And>s1 e ra s2. once C c s1 = (Inl (e, ra), s2) \<Longrightarrow> Q ra" "\<And>s1 a ra. att \<le> a \<Longrightarrow> Q ra \<Longrightarrow> P a (backoff (cl_Retry C) (cl_jitter C s1) a ra)"
  shows "attempts evs \<le> Suc left \<and> list_all (retryable (call_method c)) (retried evs) \<and> length (waits evs) \<le> left
    \<and> (\<forall>i < length (waits evs). P (att + i) (waits evs ! i))"
  using assms
proof (induction left arbitrary: att s r evs s')
  case 0
  then show ?case by (subst (asm) do_loop.simps) (auto simp: attempts_def split: sum.splits prod.splits if_splits)
next
  case (Suc left)
  obtain x s1 where x: "once C c s = (x, s1)" by fastforce
  show ?case
  proof (cases "\<exists>e ra. x = Inl (e, ra) \<and> retryable (call_method c) e")
    case False
    then show ?thesis using Suc.prems(1) x by (subst (asm) do_loop.simps) (auto simp: attempts_def split: sum.splits prod.splits if_splits)
  next
    case True
    then obtain e ra where e: "x = Inl (e, ra)" "retryable (call_method c) e" by blast
    let ?d = "backoff (cl_Retry C) (cl_jitter C s1) att ra"
    have P: "P att ?d" using Suc.prems(3)[of att ra s1] Suc.prems(2)[of s e ra s1] x e(1) by simp
    obtain wt s2 where w: "cl_wait C ?d s1 = (wt, s2)" by fastforce
    show ?thesis
    proof (cases wt)
      case (Some m)
      then show ?thesis using Suc.prems(1) x e w P by (subst (asm) do_loop.simps) (auto simp: attempts_def)
    next
      case None
      obtain r' evs' s3 where l: "do_loop left (att + 1) C c s2 = (r', evs', s3)" by (metis surj_pair)
      have evs: "evs = Attempt (Some e) # Wait ?d # evs'"
        using Suc.prems(1) x e w None l by (subst (asm) do_loop.simps) simp
      have "attempts evs' \<le> Suc left \<and> list_all (retryable (call_method c)) (retried evs') \<and> length (waits evs') \<le> left
          \<and> (\<forall>i < length (waits evs'). P (att + 1 + i) (waits evs' ! i))"
        by (rule Suc.IH[OF l Suc.prems(2)]) (use Suc.prems(3) in auto)
      then show ?thesis using evs e(2) P by (auto simp: attempts_def nth_Cons split: nat.splits)
    qed
  qed
qed

lemma not_idempotent: "retryable m e \<Longrightarrow> \<not> idempotent m \<Longrightarrow> (\<exists>t own. e = StatusError 503 t own) \<or> (\<exists>t. e = Transport (DialFailed False t))"
  by (auto simp: retryable_def split: client_error.splits net_error.splits if_splits)

text \<open>
  (C31) A request is sent at most as often as the policy allows, and sent again only after a failure that is safe to repeat: for a method that is not idempotent that is a
  503, which branchd answers before it starts or after it rolled back, or a connection that was never made. A failure of branchd itself other than 503 is final.
\<close>

theorem retry_safe:
  assumes "client_do C c s = (r, evs, s')"
  shows "int (attempts evs) \<le> max 1 (rp_MaxAttempts (cl_Retry C))
    \<and> list_all (\<lambda>e. \<not> idempotent (call_method c) \<longrightarrow> (\<exists>t own. e = StatusError 503 t own) \<or> (\<exists>t. e = Transport (DialFailed False t))) (retried evs)
    \<and> list_all (\<lambda>e. \<forall>code t. e = StatusError code t True \<longrightarrow> code = 503) (retried evs)"
proof -
  have l: "attempts evs \<le> Suc (nat (max (rp_MaxAttempts (cl_Retry C)) 1) - 1) \<and> list_all (retryable (call_method c)) (retried evs) \<and> length (waits evs) \<le> nat (max (rp_MaxAttempts (cl_Retry C)) 1) - 1
      \<and> (\<forall>i < length (waits evs). True)"
    by (rule loop_shape[of _ 1 C c s r evs s' "\<lambda>_. True" "\<lambda>_ _. True"]) (use assms in \<open>simp_all add: client_do_def\<close>)
  have own: "retryable m (StatusError code t True) \<Longrightarrow> code = 503" for m code t by (auto simp: retryable_def split: if_splits)
  show ?thesis
  proof (intro conjI)
    show "int (attempts evs) \<le> max 1 (rp_MaxAttempts (cl_Retry C))" using l by linarith
  qed (use l own in \<open>auto simp: list_all_iff dest: not_idempotent\<close>)
qed

theorem retry_safe_witness: "int (attempts (fst (snd (client_do demo_client (CreateBranchC ''{}'') ())))) \<le> 6"
proof -
  obtain r evs s' where "client_do demo_client (CreateBranchC ''{}'') () = (r, evs, s')" by (metis surj_pair)
  then show ?thesis using retry_safe[of demo_client "CreateBranchC ''{}''" "()" r evs s'] by (simp add: demo_client_def DefaultRetry_def)
qed

definition jitter_ok :: "('b, 's) client \<Rightarrow> bool" where
  "jitter_ok C \<longleftrightarrow> (\<forall>s n. 0 < n \<longrightarrow> 0 \<le> cl_jitter C s n \<and> cl_jitter C s n < n)"

lemma doubled_bound: "0 \<le> d \<Longrightarrow> 0 \<le> doubled m n d \<and> doubled m n d \<le> d * 2 ^ n"
proof (induction m n d rule: doubled.induct)
  case (2 m n d)
  show ?case
  proof (cases "d < m")
    case True
    then show ?thesis using 2 by simp
  next
    case False
    have "d * 1 \<le> d * 2 ^ Suc n" by (intro mult_left_mono one_le_power) (use 2(2) in simp_all)
    then show ?thesis using False 2(2) by simp
  qed
qed simp

lemma backoff_bound:
  assumes "\<And>n. 0 < n \<Longrightarrow> 0 \<le> j n \<and> j n < n" "0 \<le> rp_BaseDelay p" "0 < rp_MaxDelay p"
  shows "0 \<le> backoff p j a ra \<and> backoff p j a ra \<le> rp_MaxDelay p \<and> (ra = 0 \<longrightarrow> backoff p j a ra \<le> rp_BaseDelay p * 2 ^ (a - 1))"
proof -
  define d1 where "d1 = doubled (rp_MaxDelay p) (a - 1) (rp_BaseDelay p)"
  define d2 where "d2 = min d1 (rp_MaxDelay p)"
  define d3 where "d3 = (if d2 > 1 then d2 div 2 + j (d2 div 2 + 1) else d2)"
  have d1: "0 \<le> d1" "d1 \<le> rp_BaseDelay p * 2 ^ (a - 1)" using doubled_bound[OF assms(2), of "rp_MaxDelay p" "a - 1"] by (simp_all add: d1_def)
  then have d2: "0 \<le> d2" "d2 \<le> rp_MaxDelay p" "d2 \<le> d1" using assms(3) by (simp_all add: d2_def)
  have "0 \<le> j (d2 div 2 + 1)" "j (d2 div 2 + 1) < d2 div 2 + 1" using assms(1)[of "d2 div 2 + 1"] d2(1) by simp_all
  then have d3: "0 \<le> d3" "d3 \<le> d2" using d2(1) by (auto simp: d3_def)
  have "backoff p j a ra = (if ra > d3 then min ra (rp_MaxDelay p) else d3)"
    using assms(3) by (auto simp: backoff_def Let_def d1_def d2_def d3_def min_def)
  then show ?thesis using d1 d2 d3 assms(3) by auto
qed

lemma sum_waits_max: "list_all (\<lambda>d. d \<le> m) ds \<Longrightarrow> length ds \<le> k \<Longrightarrow> 0 \<le> m \<Longrightarrow> sum_list ds \<le> int k * (m :: int)"
proof (induction ds arbitrary: k)
  case (Cons d ds)
  then obtain k' where k: "k = Suc k'" by (cases k) auto
  have "sum_list ds \<le> int k' * m" using Cons k by simp
  then show ?case using Cons.prems(1) k by (simp add: algebra_simps)
qed simp

lemma empty_header: "retryAfterHeader [] = 0"
  by (simp add: retryAfterHeader_def TrimSpace_def ParseInt64_def atoi_def)

text \<open>
  With the default policy the waits of one request add up to at most 7.75 seconds if no response carries a Retry-After header, and to at most 20 seconds if they do:
  the documented \<open>at most about 8 seconds of waiting\<close> leaves the header out. The second bound is met by a server that answers 503 with \<^verbatim>\<open>Retry-After: 4\<close>.
\<close>

theorem retry_waits_bounded:
  assumes "client_do C c s = (r, evs, s')" "cl_Retry C = DefaultRetry" "jitter_ok C"
  shows "sum_list (waits evs) \<le> 20 * 10 ^ 9
    \<and> ((\<forall>rq s1 p s2. cl_send C rq s1 = (Inr p, s2) \<longrightarrow> hp_retryAfter p = []) \<longrightarrow> sum_list (waits evs) \<le> 7750 * 10 ^ 6)
    \<and> sum_list (waits (fst (snd (client_do demo_client (CreateBranchC ''{}'') ())))) = 20 * 10 ^ 9"
proof (intro conjI impI)
  have loop: "do_loop 5 1 C c s = (r, evs, s')" using assms(1,2) by (simp add: client_do_def DefaultRetry_def)
  have b: "0 \<le> backoff DefaultRetry (cl_jitter C s1) a ra \<and> backoff DefaultRetry (cl_jitter C s1) a ra \<le> 4 * 10 ^ 9
      \<and> (ra = 0 \<longrightarrow> backoff DefaultRetry (cl_jitter C s1) a ra \<le> 250 * 10 ^ 6 * 2 ^ (a - 1))" for s1 a ra
    using backoff_bound[of "cl_jitter C s1" DefaultRetry a ra] assms(3) by (simp add: jitter_ok_def DefaultRetry_def)
  have "length (waits evs) \<le> 5 \<and> (\<forall>i < length (waits evs). waits evs ! i \<le> 4 * 10 ^ 9)"
    using loop_shape[OF loop, of "\<lambda>_. True" "\<lambda>_ d. d \<le> 4 * 10 ^ 9"] b assms(2) by simp
  then show "sum_list (waits evs) \<le> 20 * 10 ^ 9"
    using sum_waits_max[of "4 * 10 ^ 9" "waits evs" 5] by (simp add: list_all_length)
  show "sum_list (waits (fst (snd (client_do demo_client (CreateBranchC ''{}'') ())))) = 20 * 10 ^ 9" by code_simp
  assume none: "\<forall>rq s1 p s2. cl_send C rq s1 = (Inr p, s2) \<longrightarrow> hp_retryAfter p = []"
  have q: "once C c s1 = (Inl (e, ra), s2) \<Longrightarrow> ra = 0" for s1 e ra s2
    using none empty_header by (auto simp: once_def split: prod.splits sum.splits if_splits) (metis+)
  have w: "length (waits evs) \<le> 5 \<and> (\<forall>i < length (waits evs). waits evs ! i \<le> 250 * 10 ^ 6 * 2 ^ i)"
    using loop_shape[OF loop, of "\<lambda>ra. ra = 0" "\<lambda>a d. d \<le> 250 * 10 ^ 6 * 2 ^ (a - 1)"] q b assms(2) by simp
  have "sum_list (waits evs) = (\<Sum>i<length (waits evs). waits evs ! i)" by (simp add: sum_list_sum_nth atLeast0LessThan)
  also have "\<dots> \<le> (\<Sum>i<length (waits evs). 250 * 10 ^ 6 * 2 ^ i)" using w by (intro sum_mono) simp
  also have "\<dots> \<le> (\<Sum>i<5. 250 * 10 ^ 6 * 2 ^ i)" using w by (intro sum_mono2) auto
  also have "\<dots> = 7750 * 10 ^ 6" by (simp add: lessThan_Suc eval_nat_numeral)
  finally show "sum_list (waits evs) \<le> 7750 * 10 ^ 6" .
qed

theorem retry_waits_bounded_witness:
  "sum_list (waits (fst (snd (client_do demo_client (ListBranchesC :: string call) ())))) \<le> 20 * 10 ^ 9"
proof -
  obtain r evs s' where run: "client_do demo_client (ListBranchesC :: string call) () = (r, evs, s')" by (metis surj_pair)
  have "cl_Retry demo_client = DefaultRetry" "jitter_ok demo_client" by (simp_all add: demo_client_def jitter_ok_def)
  from retry_waits_bounded[OF run this] show ?thesis using run by simp
qed

end
