(* ===== verification/Webhook.thy ===== *)
theory Webhook
  imports ApiClient
begin

text \<open>
  The GitHub webhook receiver (\<^verbatim>\<open>src/internal/ghook/service.go\<close>, the REST calls of \<^verbatim>\<open>github.go\<close> and the token cache of \<^verbatim>\<open>githubapp.go\<close>): a delivery is verified,
  de-duplicated and queued per branch; a worker per branch runs the queued operations one by one through the client of theory \<open>ApiClient\<close> and reports to GitHub. HMAC and
  JSON are parameters, and so is the GitHub service: one function that answers a REST call. Everything outside the receiver (branchd, GitHub, time) is one state of any type.
\<close>

section \<open>Configuration and payload\<close>

record hook_config =
  hc_WebhookSecret :: string
  hc_Source :: string
  hc_TTLSeconds :: int
  hc_ResetOnPush :: bool
  hc_Repos :: "string list"
  hc_ProxyHost :: string
  hc_DiffOnPush :: bool
  hc_BranchNaming :: string

record payload =
  py_Action :: string
  py_Number :: int
  py_SHA :: string
  py_Ref :: string
  py_HeadRepo :: "string option"
  py_Repo :: string
  py_Installation :: int
  py_Delivery :: string

text \<open>\<open>strings.EqualFold\<close> on repository names, which are ASCII.\<close>

definition EqualFold :: "string \<Rightarrow> string \<Rightarrow> bool" where "EqualFold a b \<longleftrightarrow> ToLower a = ToLower b"

definition fromFork :: "payload \<Rightarrow> bool" where
  "fromFork p = (case py_HeadRepo p of None \<Rightarrow> True | Some r \<Rightarrow> \<not> EqualFold r (py_Repo p))"

definition repoAllowed :: "hook_config \<Rightarrow> string \<Rightarrow> bool" where
  "repoAllowed H fullName \<longleftrightarrow> hc_Repos H = [] \<or> list_ex (\<lambda>r. EqualFold r fullName) (hc_Repos H)"

definition branchName :: "crypto \<Rightarrow> hook_config \<Rightarrow> payload \<Rightarrow> string" where
  "branchName cr H p =
     (let n = RefBranchName cr (py_Repo p) (py_Ref p)
      in if hc_BranchNaming H = ''git-branch'' \<and> \<not> fromFork p \<and> n \<noteq> [] then n else PRBranchName cr (py_Repo p) (py_Number p))"

section \<open>Signatures\<close>

fun hex_decode :: "string \<Rightarrow> string option" where
  "hex_decode [] = Some []"
| "hex_decode (a # b # s) = (case (hex_val a, hex_val b, hex_decode s) of (Some x, Some y, Some t) \<Rightarrow> Some (char_of (16 * x + y) # t) | _ \<Rightarrow> None)"
| "hex_decode [a] = None"

text \<open>\<open>hmac key body\<close> is HMAC-SHA256.\<close>

definition verifySignature :: "(string \<Rightarrow> string \<Rightarrow> string) \<Rightarrow> string \<Rightarrow> string \<Rightarrow> string \<Rightarrow> bool" where
  "verifySignature hmac secret body header \<longleftrightarrow>
     has_prefix ''sha256='' header \<and> hex_decode (trim_prefix ''sha256='' header) = Some (hmac secret body)"

section \<open>The delivery cache\<close>

text \<open>A ring of the most recent ids; an empty entry is a free one.\<close>

record deliveryCache =
  dc_ids :: "string set"
  dc_ring :: "string list"
  dc_next :: nat

definition deliveryCacheSize :: nat where "deliveryCacheSize = 4096"

definition newDeliveryCache :: "nat \<Rightarrow> deliveryCache" where
  "newDeliveryCache n = \<lparr>dc_ids = {}, dc_ring = replicate n [], dc_next = 0\<rparr>"

definition cache_add :: "string \<Rightarrow> deliveryCache \<Rightarrow> bool \<times> deliveryCache" where
  "cache_add eid c =
     (if eid \<in> dc_ids c then (False, c)
      else let old = dc_ring c ! dc_next c;
               ids = (if old \<noteq> [] then dc_ids c - {old} else dc_ids c)
           in (True, \<lparr>dc_ids = insert eid ids, dc_ring = (dc_ring c)[dc_next c := eid], dc_next = (dc_next c + 1) mod length (dc_ring c)\<rparr>))"

section \<open>Queues\<close>

text \<open>
  A branch has an entry while its worker runs: the worker is at the top of its loop, runs a job, or has finished one and not yet marked it done. \<open>gs_ending\<close> counts
  the workers that retired their queue and have not marked their last job done, \<open>gs_pending\<close> is the wait group. \<open>gs_arrived\<close> and \<open>gs_started\<close> record, for each branch,
  the jobs in the order they arrived and were started.
\<close>

datatype worker = Idle | Working payload | Marking

record service =
  gs_queues :: "(string \<times> worker \<times> payload list) list"
  gs_ending :: nat
  gs_pending :: nat
  gs_seen :: deliveryCache
  gs_arrived :: "string \<Rightarrow> payload list"
  gs_started :: "string \<Rightarrow> payload list"

definition NewService :: service where
  "NewService = \<lparr>gs_queues = [], gs_ending = 0, gs_pending = 0, gs_seen = newDeliveryCache deliveryCacheSize, gs_arrived = (\<lambda>b. []), gs_started = (\<lambda>b. [])\<rparr>"

definition enqueue :: "string \<Rightarrow> payload \<Rightarrow> service \<Rightarrow> service" where
  "enqueue b job s = s\<lparr>gs_pending := gs_pending s + 1, gs_arrived := (gs_arrived s)(b := gs_arrived s b @ [job]),
     gs_queues := (case map_of (gs_queues s) b of
         None \<Rightarrow> gs_queues s @ [(b, Idle, [job])]
       | Some (wk, q) \<Rightarrow> upd_where (\<lambda>e. fst e = b) (\<lambda>e. (b, wk, q @ [job])) (gs_queues s))\<rparr>"

text \<open>The three steps of \<open>drain\<close>: take a job, retire or keep the queue after it, mark it done. \<open>q[0]\<close> of an empty queue would panic.\<close>

definition take_job :: "string \<Rightarrow> service \<Rightarrow> (string + service) option" where
  "take_job b s = (case map_of (gs_queues s) b of
     Some (Idle, []) \<Rightarrow> Some (Inl ''index out of range'')
   | Some (Idle, job # q) \<Rightarrow> Some (Inr (s\<lparr>gs_queues := upd_where (\<lambda>e. fst e = b) (\<lambda>e. (b, Working job, q)) (gs_queues s),
       gs_started := (gs_started s)(b := gs_started s b @ [job])\<rparr>))
   | _ \<Rightarrow> None)"

definition job_done :: "string \<Rightarrow> service \<Rightarrow> service option" where
  "job_done b s = (case map_of (gs_queues s) b of
     Some (Working job, []) \<Rightarrow> Some (s\<lparr>gs_queues := filter (\<lambda>e. fst e \<noteq> b) (gs_queues s), gs_ending := gs_ending s + 1\<rparr>)
   | Some (Working job, q) \<Rightarrow> Some (s\<lparr>gs_queues := upd_where (\<lambda>e. fst e = b) (\<lambda>e. (b, Marking, q)) (gs_queues s)\<rparr>)
   | _ \<Rightarrow> None)"

definition mark_done :: "string \<Rightarrow> service \<Rightarrow> service option" where
  "mark_done b s = (case map_of (gs_queues s) b of
     Some (Marking, q) \<Rightarrow> Some (s\<lparr>gs_queues := upd_where (\<lambda>e. fst e = b) (\<lambda>e. (b, Idle, q)) (gs_queues s), gs_pending := gs_pending s - 1\<rparr>)
   | _ \<Rightarrow> None)"

definition worker_exit :: "service \<Rightarrow> service option" where
  "worker_exit s = (if gs_ending s = 0 then None else Some (s\<lparr>gs_ending := gs_ending s - 1, gs_pending := gs_pending s - 1\<rparr>))"

section \<open>Deliveries\<close>

datatype hook_reply = HookError nat string | HookNoContent | HookReply nat string string

definition dispatch :: "crypto \<Rightarrow> hook_config \<Rightarrow> payload \<Rightarrow> service \<Rightarrow> hook_reply \<times> service" where
  "dispatch cr H p s =
     (if py_Action p \<notin> {''opened'', ''reopened'', ''synchronize'', ''closed''} then (HookNoContent, s)
      else let branch = branchName cr H p;
               (new, seen) = (if py_Delivery p \<noteq> [] then cache_add (py_Delivery p) (gs_seen s) else (True, gs_seen s));
               s1 = s\<lparr>gs_seen := seen\<rparr>
           in if \<not> new then (HookReply 200 branch ''duplicate'', s1) else (HookReply 202 branch ''accepted'', enqueue branch p s1))"

record hook_request =
  hq_body :: string
  hq_readError :: "string option"
  hq_signature :: string
  hq_event :: string
  hq_delivery :: string

definition maxWebhookBody :: nat where "maxWebhookBody = 2 ^ 20"

text \<open>\<open>unmarshal\<close> reads the fields of the payload; the delivery id comes from its header.\<close>

definition handleWebhook ::
  "crypto \<Rightarrow> (string \<Rightarrow> string \<Rightarrow> string) \<Rightarrow> (string \<Rightarrow> (string, payload) result) \<Rightarrow> hook_config \<Rightarrow> hook_request \<Rightarrow> service \<Rightarrow> hook_reply \<times> service" where
  "handleWebhook cr hmac unmarshal H rq s =
     (if length (hq_body rq) > maxWebhookBody then (HookError 413 ''read body: http: request body too large'', s)
      else case hq_readError rq of Some e \<Rightarrow> (HookError 400 (''read body: '' @ e), s)
      | None \<Rightarrow>
        if \<not> verifySignature hmac (hc_WebhookSecret H) (hq_body rq) (hq_signature rq) then (HookError 401 ''invalid signature'', s)
        else if hq_event rq \<noteq> ''pull_request'' then (HookNoContent, s)
        else (case unmarshal (hq_body rq) of Inl e \<Rightarrow> (HookError 400 (''invalid JSON payload: '' @ e), s)
          | Inr p0 \<Rightarrow> (let p = p0\<lparr>py_Delivery := hq_delivery rq\<rparr>
              in if \<not> repoAllowed H (py_Repo p) then (HookNoContent, s) else dispatch cr H p s)))"

text \<open>The receiver with its workers running beside the deliveries.\<close>

inductive hook_step :: "crypto \<Rightarrow> (string \<Rightarrow> string \<Rightarrow> string) \<Rightarrow> (string \<Rightarrow> (string, payload) result) \<Rightarrow> hook_config \<Rightarrow> service \<Rightarrow> service \<Rightarrow> bool"
  for cr hmac unmarshal H where
  delivery: "handleWebhook cr hmac unmarshal H rq s = (reply, s') \<Longrightarrow> hook_step cr hmac unmarshal H s s'"
| taken: "take_job b s = Some (Inr s') \<Longrightarrow> hook_step cr hmac unmarshal H s s'"
| finished: "job_done b s = Some s' \<Longrightarrow> hook_step cr hmac unmarshal H s s'"
| marked: "mark_done b s = Some s' \<Longrightarrow> hook_step cr hmac unmarshal H s s'"
| exited: "worker_exit s = Some s' \<Longrightarrow> hook_step cr hmac unmarshal H s s'"

inductive hook_reachable :: "crypto \<Rightarrow> (string \<Rightarrow> string \<Rightarrow> string) \<Rightarrow> (string \<Rightarrow> (string, payload) result) \<Rightarrow> hook_config \<Rightarrow> service \<Rightarrow> bool"
  for cr hmac unmarshal H where
  start: "hook_reachable cr hmac unmarshal H NewService"
| step: "hook_reachable cr hmac unmarshal H s \<Longrightarrow> hook_step cr hmac unmarshal H s s' \<Longrightarrow> hook_reachable cr hmac unmarshal H s'"

end
