(* ===== verification/HookOps.thy ===== *)
theory HookOps
  imports Webhook
begin

text \<open>
  What a worker of the webhook receiver does with a delivery: the branch operations through the API client (\<open>ensureBranch\<close>, \<open>destroyBranch\<close>), the commit status and the
  comments, and their texts (\<^verbatim>\<open>src/internal/ghook/service.go\<close>, \<^verbatim>\<open>github.go\<close>, \<^verbatim>\<open>githubapp.go\<close>).
\<close>

section \<open>The outside\<close>

text \<open>
  \<open>he_rest token method path body\<close> is a call of the GitHub REST API: a status and a body, or a transport error. \<open>he_sleep\<close> waits, or returns early when the
  operation's deadline passes; \<open>he_ctxDone\<close> tells whether it has passed. \<open>he_token\<close> is the token provider (\<open>None\<close> without GitHub credentials).
\<close>

record ('v, 's) hook_env =
  he_config :: hook_config
  he_client :: "(CreateBranchRequest, 's) client"
  he_branch :: "string \<Rightarrow> (string, api_branch) result"
  he_diff :: "string \<Rightarrow> (string, 'v DiffResult) result"
  he_sleep :: "int \<Rightarrow> 's \<Rightarrow> bool \<times> 's"
  he_ctxDone :: "'s \<Rightarrow> bool"
  he_token :: "(int \<Rightarrow> 's \<Rightarrow> (string, string) result \<times> 's) option"
  he_rest :: "string \<Rightarrow> string \<Rightarrow> string \<Rightarrow> string \<Rightarrow> 's \<Rightarrow> (string, nat \<times> string) result \<times> 's"
  he_json :: "(string \<times> string) list \<Rightarrow> string"
  he_comments :: "string \<Rightarrow> (string, (int \<times> string) list) result"
  he_prState :: "string \<Rightarrow> (string, string) result"

section \<open>Texts\<close>

text \<open>\<open>[]rune(s)\<close>: the encodings of the code points of \<open>s\<close>, with U+FFFD for a byte that starts none.\<close>

function runes :: "string \<Rightarrow> string list" where
  "runes s = (if s = [] then [] else if rune_len s = 0 then [CHR 0xEF, CHR 0xBF, CHR 0xBD] # runes (tl s) else take (rune_len s) s # runes (drop (rune_len s) s))"
  by pat_completeness auto
termination by (relation "measure length") auto

declare runes.simps [simp del]

definition ellipsis :: string where "ellipsis = [CHR 0xE2, CHR 0x80, CHR 0xA6]"
definition em_dash :: string where "em_dash = [CHR 0xE2, CHR 0x80, CHR 0x94]"

definition truncate_runes :: "string \<Rightarrow> nat \<Rightarrow> string" where
  "truncate_runes s n = (if length (runes s) \<le> n then s else concat (take (n - 1) (runes s)) @ ellipsis)"

fun run_lengths :: "char \<Rightarrow> nat \<Rightarrow> nat \<Rightarrow> string \<Rightarrow> nat" where
  "run_lengths c longest run [] = longest"
| "run_lengths c longest run (x # s) = (if x \<noteq> c then run_lengths c longest 0 s else run_lengths c (max longest (run + 1)) (run + 1) s)"

definition longestRun :: "string \<Rightarrow> char \<Rightarrow> nat" where "longestRun s c = run_lengths c 0 0 s"

definition tick_char :: char where "tick_char = CHR 0x60"

definition md_char :: "char \<Rightarrow> string" where
  "md_char c = (if c = CHR 0x0D \<or> c = CHR 0x0A then '' '' else if c = CHR ''|'' then [CHR 0x5C, CHR ''|''] else [c])"

definition mdCode :: "string \<Rightarrow> string" where
  "mdCode s0 = (let s1 = concat (map md_char s0); delim = replicate (longestRun s1 tick_char + 1) tick_char;
       s2 = (if s1 \<noteq> [] \<and> (hd s1 = tick_char \<or> last s1 = tick_char) then '' '' @ s1 @ '' '' else s1)
     in delim @ s2 @ delim)"

text \<open>\<open>net.SplitHostPort\<close>; \<open>None\<close> for its errors.\<close>

fun cut_last :: "char \<Rightarrow> string \<Rightarrow> (string \<times> string) option" where
  "cut_last c [] = None"
| "cut_last c (x # s) = (case cut_last c s of Some (a, b) \<Rightarrow> Some (x # a, b) | None \<Rightarrow> if x = c then Some ([], s) else None)"

definition SplitHostPort :: "string \<Rightarrow> (string \<times> string) option" where
  "SplitHostPort hp = (case cut_last (CHR '':'') hp of None \<Rightarrow> None
     | Some (host, port) \<Rightarrow>
         if has_prefix ''['' hp
         then (case cut (CHR '']'') (tl hp) of None \<Rightarrow> None
           | Some (inner, rest) \<Rightarrow> if rest \<noteq> CHR '':'' # port \<or> CHR ''['' \<in> set inner \<or> CHR ''['' \<in> set port \<or> CHR '']'' \<in> set port then None else Some (inner, port))
         else if CHR '':'' \<in> set host \<or> CHR ''['' \<in> set hp \<or> CHR '']'' \<in> set hp then None else Some (host, port))"

definition psqlCommand :: "string \<Rightarrow> api_branch \<Rightarrow> string" where
  "psqlCommand proxyHost b = (let (host, port) = (case SplitHostPort proxyHost of None \<Rightarrow> (proxyHost, []) | Some hp \<Rightarrow> hp)
     in ''psql -h '' @ host @ (if port \<noteq> [] then '' -p '' @ port else []) @ '' -U '' @ ab_User b @ '' -d '' @ sq (ab_ProxyDatabase b))"

definition commentMarker :: string where "commentMarker = ''<!-- pgoverlay -->''"
definition diffMarker :: string where "diffMarker = ''<!-- pgoverlay-diff -->''"
definition statusContext :: string where "statusContext = ''pgoverlay/branch''"

definition tick_quoted :: "string \<Rightarrow> string" where "tick_quoted s = tick_char # s @ [tick_char]"

definition commentBody :: "string \<Rightarrow> string \<Rightarrow> string \<Rightarrow> api_branch option \<Rightarrow> string" where
  "commentBody proxyHost branch st b =
     unlines ([commentMarker, ''**pgoverlay** '' @ em_dash @ '' Postgres branch for this pull request.'', [], ''| | |'', ''|---|---|'',
        ''| Branch | '' @ tick_quoted branch @ '' |'', ''| State | '' @ st @ '' |'']
      @ (case b of None \<Rightarrow> [] | Some br \<Rightarrow>
           [if proxyHost \<noteq> [] then ''| Connect | '' @ mdCode (psqlCommand proxyHost br) @ '' |''
            else ''| Database | '' @ mdCode (ab_ProxyDatabase br) @ '' (user '' @ mdCode (ab_User br) @ '') through the pgoverlay proxy |'']
           @ (if ab_ExpiresAt br \<noteq> [] then [''| Expires | '' @ ab_ExpiresAt br @ '' |''] else []))
      @ (if st = ''destroyed'' then [[], ''The branch was destroyed when the pull request closed.'']
         else [[], ''The database name routes through the pgoverlay proxy to the branch. The branch is destroyed when the pull request is closed.'']
           @ (if b \<noteq> None \<and> proxyHost = [] then [[], ''No connect command: the proxy address is not configured (GHOOK_PROXY_HOST).''] else [])))"

definition diffSchemaLimit :: nat where "diffSchemaLimit = 3000"
definition diffTableLimit :: nat where "diffTableLimit = 100"

definition unknownCountNote :: "nat \<Rightarrow> string" where
  "unknownCountNote n = (if n = 0 then []
     else if n = 1 then unlines [[], ''_(1 table with an unknown row count is not listed: never analyzed and too large to count exactly. '' @ tick_quoted ''pgb diff --all'' @ '' lists it.)_'']
     else unlines [[], ''_('' @ nat_dec n @ '' tables with an unknown row count are not listed: never analyzed and too large to count exactly. ''
            @ tick_quoted ''pgb diff --all'' @ '' lists them.)_''])"

definition schema_section :: "string \<Rightarrow> string" where
  "schema_section schemaDiff =
     (if schemaDiff = [] then unlines [''Schema: no differences.'']
      else let truncated = length (runes schemaDiff) > diffSchemaLimit;
               schema = (if truncated then concat (take diffSchemaLimit (runes schemaDiff)) else schemaDiff);
               fence = replicate (max 3 (longestRun schema tick_char + 1)) tick_char
           in unlines [''Schema diff:'', [], fence @ ''diff''] @ schema @ (if schema \<noteq> [] \<and> last schema = CHR 0x0A then [] else [CHR 0x0A]) @ unlines [fence]
              @ (if truncated then unlines [[], ''_(schema diff truncated to '' @ nat_dec diffSchemaLimit @ '' characters)_''] else []))"

definition table_row :: "'v TableDelta \<Rightarrow> string" where
  "table_row t = (case Cells t of (base, branch, delta) \<Rightarrow> ''| '' @ mdCode (delta_name t) @ '' | '' @ base @ '' | '' @ branch @ '' | '' @ delta @ '' |'')"

definition diffCommentBody :: "string \<Rightarrow> 'v DiffResult \<Rightarrow> string" where
  "diffCommentBody branch res =
     (let changed = filter (\<lambda>t. td_Delta t \<noteq> 0) (dr_Tables res);
          unknown = length (filter (\<lambda>t. td_Delta t = 0 \<and> td_RowsUnknown t) (dr_Tables res))
      in unlines [diffMarker, ''**pgoverlay diff** '' @ em_dash @ '' what changed in '' @ tick_quoted branch @ '' vs its base.'', []]
         @ schema_section (dr_SchemaDiff res)
         @ (if changed = [] then unlines [[], if unknown > 0 then ''Tables: no known row-count changes.'' else ''Tables: no row-count changes.'']
            else unlines ([[], ''| TABLE | BASE | BRANCH | DELTA |'', ''|---|---|---|---|''] @ map table_row (take diffTableLimit changed)
                   @ (if length changed > diffTableLimit then [[], ''_(and '' @ nat_dec (length changed - diffTableLimit) @ '' more changed tables)_''] else [])
                   @ [[], ''_(row counts are planner estimates)_'']))
         @ unknownCountNote unknown)"

section \<open>GitHub\<close>

text \<open>The cache of installation tokens: \<open>mint\<close> exchanges a signed JWT for a token and its expiry.\<close>

type_synonym inst_cache = "int \<rightharpoonup> string \<times> gotime"

definition app_Token ::
  "gotime \<Rightarrow> (int \<Rightarrow> 's \<Rightarrow> (string, string \<times> gotime) result \<times> 's) \<Rightarrow> int \<Rightarrow> inst_cache \<Rightarrow> 's \<Rightarrow> (string, string) result \<times> inst_cache \<times> 's" where
  "app_Token now mint inst cache s =
     (if inst = 0 then (Inl (''delivery carries no installation.id '' @ em_dash @ '' register the webhook on the GitHub App, not as a plain repo webhook''), cache, s)
      else let fresh = (case mint inst s of (Inl e, s') \<Rightarrow> (Inl e, cache, s') | (Inr (tok, expires), s') \<Rightarrow> (Inr tok, cache(inst \<mapsto> (tok, expires)), s'))
      in case cache inst of None \<Rightarrow> fresh
         | Some (tok, expires) \<Rightarrow> if instant now < instant (time_add expires (- (300 * 10 ^ 9))) then (Inr tok, cache, s) else fresh)"

definition StaticToken :: "string \<Rightarrow> int \<Rightarrow> 's \<Rightarrow> (string, string) result \<times> 's" where
  "StaticToken tok inst s = (Inr tok, s)"

definition gh_do :: "('v, 's) hook_env \<Rightarrow> payload \<Rightarrow> string \<Rightarrow> string \<Rightarrow> string \<Rightarrow> ('s, (string, string) result) state" where
  "gh_do V p meth path body = (case he_token V of None \<Rightarrow> State_Monad.return (Inl ''no GitHub credentials'')
     | Some token \<Rightarrow> do { tk \<leftarrow> State (token (py_Installation p));
         case tk of Inl e \<Rightarrow> State_Monad.return (Inl (''github token: '' @ e))
         | Inr t \<Rightarrow> do { r \<leftarrow> State (he_rest V t meth path body);
             State_Monad.return (case r of Inl e \<Rightarrow> Inl e
               | Inr (code, data) \<Rightarrow> if 200 \<le> code \<and> code \<le> 299 then Inr data
                   else Inl (''github: '' @ meth @ '' '' @ path @ '': HTTP '' @ nat_dec code @ '': '' @ concat (take 200 (runes data)))) } })"

definition wrap_gh :: "string \<Rightarrow> (string, 'a) result \<Rightarrow> (string, 'a) result" where
  "wrap_gh pre r = (case r of Inl e \<Rightarrow> Inl (pre @ '': '' @ e) | Inr x \<Rightarrow> Inr x)"

definition SetStatus :: "('v, 's) hook_env \<Rightarrow> payload \<Rightarrow> string \<Rightarrow> string \<Rightarrow> ('s, (string, string) result) state" where
  "SetStatus V p st desc = do { r \<leftarrow> gh_do V p ''POST'' (''/repos/'' @ py_Repo p @ ''/statuses/'' @ py_SHA p)
       (he_json V [(''state'', st), (''description'', truncate_runes desc 140), (''context'', statusContext)]);
     State_Monad.return (wrap_gh ''set status'' r) }"

definition PullRequestState :: "('v, 's) hook_env \<Rightarrow> payload \<Rightarrow> ('s, (string, string) result) state" where
  "PullRequestState V p = do { r \<leftarrow> gh_do V p ''GET'' (''/repos/'' @ py_Repo p @ ''/pulls/'' @ int_dec (py_Number p)) [];
     State_Monad.return (wrap_gh ''get pull request'' (case r of Inl e \<Rightarrow> Inl e | Inr data \<Rightarrow> he_prState V data)) }"

text \<open>The id of the first comment on the first page that carries the marker, 0 without one.\<close>

definition findMarkerComment :: "('v, 's) hook_env \<Rightarrow> payload \<Rightarrow> string \<Rightarrow> ('s, (string, int) result) state" where
  "findMarkerComment V p marker = do { r \<leftarrow> gh_do V p ''GET'' (''/repos/'' @ py_Repo p @ ''/issues/'' @ int_dec (py_Number p) @ ''/comments?per_page=100'') [];
     State_Monad.return (wrap_gh ''list comments'' (case r of Inl e \<Rightarrow> Inl e
       | Inr data \<Rightarrow> (case he_comments V data of Inl e \<Rightarrow> Inl e
           | Inr cs \<Rightarrow> Inr (case find (\<lambda>c. contains (snd c) marker) cs of None \<Rightarrow> 0 | Some c \<Rightarrow> fst c)))) }"

definition patchComment :: "('v, 's) hook_env \<Rightarrow> payload \<Rightarrow> int \<Rightarrow> string \<Rightarrow> ('s, (string, string) result) state" where
  "patchComment V p cid body = do { r \<leftarrow> gh_do V p ''PATCH'' (''/repos/'' @ py_Repo p @ ''/issues/comments/'' @ int_dec cid) (he_json V [(''body'', body)]);
     State_Monad.return (wrap_gh ''update comment'' r) }"

definition UpsertComment :: "('v, 's) hook_env \<Rightarrow> payload \<Rightarrow> string \<Rightarrow> string \<Rightarrow> ('s, (string, string) result) state" where
  "UpsertComment V p marker body = do { r \<leftarrow> findMarkerComment V p marker;
     case r of Inl e \<Rightarrow> State_Monad.return (Inl e)
     | Inr cid \<Rightarrow> if cid \<noteq> 0 then patchComment V p cid body
         else do { r' \<leftarrow> gh_do V p ''POST'' (''/repos/'' @ py_Repo p @ ''/issues/'' @ int_dec (py_Number p) @ ''/comments'') (he_json V [(''body'', body)]);
                   State_Monad.return (wrap_gh ''create comment'' r') } }"

definition UpdateComment :: "('v, 's) hook_env \<Rightarrow> payload \<Rightarrow> string \<Rightarrow> string \<Rightarrow> ('s, (string, string) result) state" where
  "UpdateComment V p marker body = do { r \<leftarrow> findMarkerComment V p marker;
     case r of Inl e \<Rightarrow> State_Monad.return (Inl e) | Inr cid \<Rightarrow> if cid = 0 then State_Monad.return (Inr []) else patchComment V p cid body }"

text \<open>The best-effort wrappers: a failure is only logged.\<close>

definition setStatus :: "('v, 's) hook_env \<Rightarrow> payload \<Rightarrow> string \<Rightarrow> string \<Rightarrow> ('s, unit) state" where
  "setStatus V p st desc = (if he_token V = None \<or> py_SHA p = [] then State_Monad.return () else do { _ \<leftarrow> SetStatus V p st desc; State_Monad.return () })"

definition upsertComment :: "('v, 's) hook_env \<Rightarrow> payload \<Rightarrow> string \<Rightarrow> string \<Rightarrow> ('s, unit) state" where
  "upsertComment V p marker body = (if he_token V = None then State_Monad.return () else do { _ \<leftarrow> UpsertComment V p marker body; State_Monad.return () })"

section \<open>Branch operations\<close>

datatype hook_error = opError string client_error | stateError string string bool

fun hook_text :: "hook_error \<Rightarrow> string" where
  "hook_text (opError what e) = what @ '': '' @ client_text e"
| "hook_text (stateError branch st timedOut) = (if timedOut then ''timed out waiting for branch '' @ branch @ '' (still '' @ st @ '')'' else ''branch '' @ branch @ '' is '' @ st @ '', not ready'')"

definition hook_not_found :: "hook_error \<Rightarrow> bool" where
  "hook_not_found e = (case e of opError what c \<Rightarrow> IsNotFound c | stateError b st t \<Rightarrow> False)"

definition publicReason :: "hook_error \<Rightarrow> string \<Rightarrow> string" where
  "publicReason e delivery =
     (let public = (case e of stateError b st t \<Rightarrow> True | opError what (StatusError code m own) \<Rightarrow> 400 \<le> code \<and> code < 500 | opError what c \<Rightarrow> False);
          what = (case e of opError w c \<Rightarrow> w | stateError b st t \<Rightarrow> ''branch operation'')
      in if public then hook_text e
         else what @ '' failed; see the pgoverlay-github logs'' @ (if delivery \<noteq> [] then '' (delivery '' @ delivery @ '')'' else []))"

definition pg_call :: "('v, 's) hook_env \<Rightarrow> (string \<Rightarrow> (string, 'a) result) \<Rightarrow> CreateBranchRequest call \<Rightarrow> ('s, (client_error, 'a) result) state" where
  "pg_call V un c = State (\<lambda>s. case client_do (he_client V) c s of (r, evs, s') \<Rightarrow>
     (case r of Inl e \<Rightarrow> Inl e | Inr data \<Rightarrow> (case un data of Inl m \<Rightarrow> Inl (BadBody m) | Inr x \<Rightarrow> Inr x), s'))"

definition opTimeout :: int where "opTimeout = 300 * 10 ^ 9"
definition pollEvery :: int where "pollEvery = 2 * 10 ^ 9"

definition busy_state :: "string \<Rightarrow> bool" where "busy_state st \<longleftrightarrow> st \<in> {''creating'', ''resetting'', ''destroying''}"

text \<open>The loop of \<open>settledBranch\<close>: after \<open>opTimeout div pollEvery\<close> waits the deadline has passed.\<close>

fun settle_loop :: "nat \<Rightarrow> ('v, 's) hook_env \<Rightarrow> string \<Rightarrow> string \<Rightarrow> ('s, (hook_error, api_branch) result) state" where
  "settle_loop polls V branch waiting = do { r \<leftarrow> pg_call V (he_branch V) (GetBranchC branch);
     case r of Inl e \<Rightarrow> State (\<lambda>s. (Inl (if waiting \<noteq> [] \<and> he_ctxDone V s then stateError branch waiting True else opError (''get branch '' @ branch) e), s))
     | Inr b \<Rightarrow>
         if \<not> busy_state (ab_State b) then State_Monad.return (Inr b)
         else (case polls of 0 \<Rightarrow> State_Monad.return (Inl (stateError branch (ab_State b) True))
           | Suc n \<Rightarrow> do { late \<leftarrow> State (he_sleep V pollEvery);
               if late then State_Monad.return (Inl (stateError branch (ab_State b) True)) else settle_loop n V branch (ab_State b) }) }"

declare settle_loop.simps [simp del]

definition settledBranch :: "('v, 's) hook_env \<Rightarrow> string \<Rightarrow> ('s, (hook_error, api_branch) result) state" where
  "settledBranch V branch = settle_loop (nat (opTimeout div pollEvery)) V branch []"

definition requireReady :: "('v, 's) hook_env \<Rightarrow> string \<Rightarrow> api_branch \<Rightarrow> ('s, (hook_error, api_branch) result) state" where
  "requireReady V branch b = (if ab_State b = ''ready'' then State_Monad.return (Inr b)
     else do { r \<leftarrow> settledBranch V branch;
       State_Monad.return (case r of Inl e \<Rightarrow> Inl e | Inr b' \<Rightarrow> if ab_State b' \<noteq> ''ready'' then Inl (stateError branch (ab_State b') False) else Inr b') })"

definition hook_createBranch :: "('v, 's) hook_env \<Rightarrow> string \<Rightarrow> ('s, (hook_error, api_branch) result) state" where
  "hook_createBranch V branch = do {
     r \<leftarrow> pg_call V (he_branch V) (CreateBranchC \<lparr>cb_Name = branch, cb_Source = hc_Source (he_config V), cb_Parent = [], cb_TTLSeconds = hc_TTLSeconds (he_config V)\<rparr>);
     case r of Inl e \<Rightarrow> State_Monad.return (Inl (opError (''create branch '' @ branch) e)) | Inr b \<Rightarrow> requireReady V branch b }"

definition no_reset :: "(hook_error, api_branch) result \<Rightarrow> (hook_error, api_branch \<times> bool) result" where
  "no_reset r = (case r of Inl e \<Rightarrow> Inl e | Inr b \<Rightarrow> Inr (b, False))"

definition ensureBranch :: "('v, 's) hook_env \<Rightarrow> payload \<Rightarrow> string \<Rightarrow> ('s, (hook_error, api_branch \<times> bool) result) state" where
  "ensureBranch V p branch = do { r \<leftarrow> settledBranch V branch;
     case r of
       Inl e \<Rightarrow> if hook_not_found e then do { c \<leftarrow> hook_createBranch V branch; State_Monad.return (no_reset c) } else State_Monad.return (Inl e)
     | Inr b \<Rightarrow>
         if ab_State b = ''ready''
         then (if py_Action p \<noteq> ''synchronize'' \<or> \<not> hc_ResetOnPush (he_config V) then State_Monad.return (Inr (b, False))
               else do { x \<leftarrow> pg_call V (he_branch V) (ResetBranchC branch);
                 case x of Inl e \<Rightarrow> State_Monad.return (Inl (opError (''reset branch '' @ branch) e))
                 | Inr b' \<Rightarrow> do { y \<leftarrow> requireReady V branch b'; State_Monad.return (case y of Inl e \<Rightarrow> Inl e | Inr b2 \<Rightarrow> Inr (b2, True)) } })
         else if ab_State b = ''failed''
         then do { x \<leftarrow> pg_call V (\<lambda>_. Inr ()) (DestroyBranchC branch);
           case x of Inl e \<Rightarrow>
               if \<not> IsNotFound e then State_Monad.return (Inl (opError (''destroy failed branch '' @ branch) e))
               else do { c \<leftarrow> hook_createBranch V branch; State_Monad.return (no_reset c) }
           | Inr _ \<Rightarrow> do { c \<leftarrow> hook_createBranch V branch; State_Monad.return (no_reset c) } }
         else State_Monad.return (Inl (stateError branch (ab_State b) False)) }"

definition hook_destroyBranch :: "('v, 's) hook_env \<Rightarrow> string \<Rightarrow> ('s, (hook_error, unit) result) state" where
  "hook_destroyBranch V branch = do { r \<leftarrow> settledBranch V branch;
     x \<leftarrow> (case r of Inl e \<Rightarrow> State_Monad.return (Inl e)
       | Inr b \<Rightarrow> do { y \<leftarrow> pg_call V (\<lambda>_. Inr ()) (DestroyBranchC branch);
                     State_Monad.return (case y of Inl e \<Rightarrow> Inl (opError (''destroy branch '' @ branch) e) | Inr u \<Rightarrow> Inr u) });
     State_Monad.return (case x of Inl e \<Rightarrow> if hook_not_found e then Inr () else Inl e | Inr u \<Rightarrow> Inr u) }"

section \<open>Handling a delivery\<close>

definition shortSHA :: "string \<Rightarrow> string" where "shortSHA sha = take 7 sha"

definition diffComment :: "('v, 's) hook_env \<Rightarrow> payload \<Rightarrow> string \<Rightarrow> ('s, unit) state" where
  "diffComment V p branch = (if \<not> hc_DiffOnPush (he_config V) \<or> he_token V = None then State_Monad.return ()
     else do { r \<leftarrow> pg_call V (he_diff V) (DiffBranchC branch 0);
       case r of Inl e \<Rightarrow> State_Monad.return () | Inr res \<Rightarrow> do { _ \<leftarrow> UpsertComment V p diffMarker (diffCommentBody branch res); State_Monad.return () } })"

definition handleEnsure :: "('v, 's) hook_env \<Rightarrow> payload \<Rightarrow> string \<Rightarrow> ('s, unit) state" where
  "handleEnsure V p branch =
     (let verb = (if py_Action p = ''synchronize'' \<and> hc_ResetOnPush (he_config V) then ''resetting'' else ''creating''); host = hc_ProxyHost (he_config V)
      in do {
        _ \<leftarrow> setStatus V p ''pending'' (verb @ '' branch '' @ branch);
        _ \<leftarrow> upsertComment V p commentMarker (commentBody host branch verb None);
        r \<leftarrow> ensureBranch V p branch;
        case r of Inl e \<Rightarrow> do {
            _ \<leftarrow> setStatus V p ''failure'' (publicReason e (py_Delivery p));
            upsertComment V p commentMarker (commentBody host branch ''failed (see the pgoverlay/branch status)'' None) }
        | Inr (b, didReset) \<Rightarrow> do {
            _ \<leftarrow> setStatus V p ''success'' (''branch '' @ branch @ '' ready'' @ (if host \<noteq> [] then '' '' @ em_dash @ '' connect via '' @ host else []));
            _ \<leftarrow> upsertComment V p commentMarker (commentBody host branch (if didReset then ''reset @ '' @ shortSHA (py_SHA p) else ''ready'') (Some b));
            diffComment V p branch } })"

definition reopened :: "('v, 's) hook_env \<Rightarrow> payload \<Rightarrow> ('s, bool) state" where
  "reopened V p = (if he_token V = None then State_Monad.return False
     else do { r \<leftarrow> PullRequestState V p; State_Monad.return (case r of Inl e \<Rightarrow> False | Inr st \<Rightarrow> st = ''open'') })"

definition handleClosed :: "('v, 's) hook_env \<Rightarrow> payload \<Rightarrow> string \<Rightarrow> ('s, unit) state" where
  "handleClosed V p branch = do { again \<leftarrow> reopened V p;
     if again then State_Monad.return ()
     else do { r \<leftarrow> hook_destroyBranch V branch;
       case r of Inl e \<Rightarrow> State_Monad.return ()
       | Inr _ \<Rightarrow> if he_token V = None then State_Monad.return ()
           else do { _ \<leftarrow> UpdateComment V p commentMarker (commentBody (hc_ProxyHost (he_config V)) branch ''destroyed'' None); State_Monad.return () } } }"

text \<open>The job a delivery queues.\<close>

definition run_job :: "('v, 's) hook_env \<Rightarrow> payload \<Rightarrow> string \<Rightarrow> ('s, unit) state" where
  "run_job V p branch = (if py_Action p \<in> {''opened'', ''reopened'', ''synchronize''} then handleEnsure V p branch
     else if py_Action p = ''closed'' then handleClosed V p branch else State_Monad.return ())"

end
