(* ===== verification/HookProps.thy ===== *)
theory HookProps
  imports HookOps NamesProps "HOL-Library.Sublist"
begin

text \<open>
  The webhook receiver: only a signed delivery of an allowed repository changes anything, the deliveries of a branch run one at a time in the order they came, a redelivery is
  recognised as long as its id is remembered, an operation that reports success leaves a ready branch, and text from a database cannot break out of a comment.
\<close>

section \<open>A concrete receiver\<close>

definition demo_payload :: payload where
  "demo_payload = \<lparr>py_Action = ''opened'', py_Number = 7, py_SHA = ''abc'', py_Ref = ''pr-7'', py_HeadRepo = Some ''o/r'', py_Repo = ''o/r'', py_Installation = 0, py_Delivery = []\<rparr>"

definition demo_fork :: payload where "demo_fork = demo_payload\<lparr>py_HeadRepo := None, py_Ref := ''main''\<rparr>"

definition demo_hook :: hook_config where
  "demo_hook = \<lparr>hc_WebhookSecret = ''k'', hc_Source = ''src'', hc_TTLSeconds = 0, hc_ResetOnPush = False, hc_Repos = [''O/R''], hc_ProxyHost = [], hc_DiffOnPush = False,
     hc_BranchNaming = ''git-branch''\<rparr>"

definition demo_hmac :: "string \<Rightarrow> string \<Rightarrow> string" where "demo_hmac k b = k"

definition demo_unmarshal :: "string \<Rightarrow> (string, payload) result" where "demo_unmarshal b = Inr demo_payload"

definition demo_delivery :: hook_request where
  "demo_delivery = \<lparr>hq_body = ''{}'', hq_readError = None, hq_signature = ''sha256=6b'', hq_event = ''pull_request'', hq_delivery = ''d1''\<rparr>"

definition demo_delivered :: service where
  "demo_delivered = snd (handleWebhook demo_crypto demo_hmac demo_unmarshal demo_hook demo_delivery NewService)"

definition demo_job :: payload where "demo_job = demo_payload\<lparr>py_Delivery := ''d1''\<rparr>"

lemma demo_delivered_eq:
  "demo_delivered = enqueue (branchName demo_crypto demo_hook demo_job) demo_job
     (NewService\<lparr>gs_seen := snd (cache_add ''d1'' (newDeliveryCache deliveryCacheSize))\<rparr>)"
proof -
  have "verifySignature demo_hmac ''k'' ''{}'' ''sha256=6b''" "EqualFold ''O/R'' ''o/r''" by code_simp+
  moreover have "fst (cache_add ''d1'' (newDeliveryCache deliveryCacheSize))" by (simp add: cache_add_def newDeliveryCache_def Let_def)
  ultimately show ?thesis
    by (auto simp: demo_delivered_def handleWebhook_def demo_delivery_def demo_hook_def demo_unmarshal_def repoAllowed_def dispatch_def maxWebhookBody_def demo_payload_def demo_job_def
        NewService_def Let_def split: prod.splits)
qed

section \<open>Queues\<close>

definition entry_set :: "string \<Rightarrow> worker \<times> payload list \<Rightarrow> (string \<times> worker \<times> payload list) list \<Rightarrow> (string \<times> worker \<times> payload list) list" where
  "entry_set b v qs = upd_where (\<lambda>e. fst e = b) (\<lambda>e. (b, v)) qs"

lemma entry_set_keys: "map fst (entry_set b v qs) = map fst qs"
  by (induction qs) (auto simp: entry_set_def upd_where_def)

lemma entry_set_at: "map_of (entry_set b v qs) k = (if k = b \<and> map_of qs b \<noteq> None then Some v else map_of qs k)"
  by (induction qs) (auto simp: entry_set_def upd_where_def split: if_splits)

lemma entry_set_map: "map_of qs b = Some v0 \<Longrightarrow> map_of (entry_set b v qs) = (map_of qs)(b \<mapsto> v)"
  by (auto simp: entry_set_at fun_eq_iff)

fun load :: "string \<times> worker \<times> payload list \<Rightarrow> nat" where
  "load (b, wk, q) = length q + (if wk = Idle then 0 else 1)"

lemma load_entry_set:
  "distinct (map fst qs) \<Longrightarrow> map_of qs b = Some v0 \<Longrightarrow> sum_list (map load (entry_set b v qs)) + load (b, v0) = sum_list (map load qs) + load (b, v)"
proof (induction qs)
  case (Cons e qs)
  obtain b' v' where e: "e = (b', v')" by (cases e)
  show ?case
  proof (cases "b' = b")
    case True
    then have "entry_set b v qs = qs" using Cons.prems(1) e by (force simp: entry_set_def upd_where_def intro!: map_idI)
    then show ?thesis using Cons.prems True e by (simp add: entry_set_def upd_where_def)
  next
    case False
    then show ?thesis using Cons e by (simp add: entry_set_def upd_where_def)
  qed
qed simp

lemma load_filter:
  "distinct (map fst qs) \<Longrightarrow> map_of qs b = Some v0 \<Longrightarrow> sum_list (map load (filter (\<lambda>e. fst e \<noteq> b) qs)) + load (b, v0) = sum_list (map load qs)"
proof (induction qs)
  case (Cons e qs)
  obtain b' v' where e: "e = (b', v')" by (cases e)
  show ?case
  proof (cases "b' = b")
    case True
    then have "filter (\<lambda>e. fst e \<noteq> b) qs = qs" using Cons.prems(1) e by (auto simp: filter_id_conv)
    then show ?thesis using Cons.prems True e by simp
  next
    case False
    then show ?thesis using Cons e by simp
  qed
qed simp

lemma map_of_filter_key: "map_of (filter (\<lambda>e. fst e \<noteq> b) qs) = (map_of qs)(b := None)"
  by (induction qs) auto

definition queue_of :: "service \<Rightarrow> string \<Rightarrow> payload list" where
  "queue_of s b = (case map_of (gs_queues s) b of None \<Rightarrow> [] | Some (wk, q) \<Rightarrow> q)"

definition hook_inv :: "service \<Rightarrow> bool" where
  "hook_inv s \<longleftrightarrow> distinct (map fst (gs_queues s)) \<and> (\<forall>b. gs_arrived s b = gs_started s b @ queue_of s b)
     \<and> (\<forall>b wk q. map_of (gs_queues s) b = Some (wk, q) \<longrightarrow> (q = [] \<longrightarrow> (\<exists>job. wk = Working job)))
     \<and> (\<forall>b job q. map_of (gs_queues s) b = Some (Working job, q) \<longrightarrow> gs_started s b \<noteq> [] \<and> last (gs_started s b) = job)
     \<and> gs_pending s = gs_ending s + sum_list (map load (gs_queues s))"

lemma inv_set:
  assumes "hook_inv s" "map_of (gs_queues s) b = Some v0"
    "s' = s\<lparr>gs_queues := entry_set b (wk, q) (gs_queues s), gs_pending := pend, gs_arrived := arr, gs_started := st\<rparr>"
    "\<And>b'. b' \<noteq> b \<Longrightarrow> arr b' = gs_arrived s b' \<and> st b' = gs_started s b'" "arr b = st b @ q" "q = [] \<Longrightarrow> \<exists>job. wk = Working job"
    "\<And>job. wk = Working job \<Longrightarrow> st b \<noteq> [] \<and> last (st b) = job" "pend + load (b, v0) = gs_pending s + load (b, wk, q)"
  shows "hook_inv s'"
proof -
  have m: "map_of (gs_queues s') = (map_of (gs_queues s))(b \<mapsto> (wk, q))" using assms(2,3) by (simp add: entry_set_map)
  have q: "queue_of s' b' = (if b' = b then q else queue_of s b')" for b' by (simp add: queue_of_def m)
  have "gs_pending s' = gs_ending s' + sum_list (map load (gs_queues s'))"
    using load_entry_set[of "gs_queues s" b v0 "(wk, q)"] assms(1,2,3,8) by (simp add: hook_inv_def)
  moreover have "\<forall>b'. gs_arrived s' b' = gs_started s' b' @ queue_of s' b'" using assms(1,3,4,5) q by (auto simp: hook_inv_def)
  moreover have "distinct (map fst (gs_queues s'))" using assms(1,3) by (simp add: hook_inv_def entry_set_keys)
  moreover have "\<forall>b' wk' q'. map_of (gs_queues s') b' = Some (wk', q') \<longrightarrow> q' = [] \<longrightarrow> (\<exists>job. wk' = Working job)"
    using assms(1,6) m by (auto simp: hook_inv_def)
  moreover have "\<forall>b' job q'. map_of (gs_queues s') b' = Some (Working job, q') \<longrightarrow> gs_started s' b' \<noteq> [] \<and> last (gs_started s' b') = job"
    using assms(1,3,4,7) m by (auto simp: hook_inv_def)
  ultimately show ?thesis unfolding hook_inv_def by blast
qed

lemma inv_enqueue:
  assumes "hook_inv s"
  shows "hook_inv (enqueue b job s)"
proof (cases "map_of (gs_queues s) b")
  case None
  then have "b \<notin> fst ` set (gs_queues s)" by (simp add: map_of_eq_None_iff)
  moreover have m: "map_of (gs_queues s @ [(b, Idle, [job])]) = (map_of (gs_queues s))(b \<mapsto> (Idle, [job]))"
    using None by (auto simp: fun_eq_iff map_add_def split: option.splits)
  have "queue_of (enqueue b job s) b' = (if b' = b then [job] else queue_of s b')" "queue_of s b = []" for b'
    using None m by (auto simp: queue_of_def enqueue_def)
  ultimately show ?thesis using assms None m by (auto simp: hook_inv_def enqueue_def)
next
  case (Some v)
  obtain wk q where v: "v = (wk, q)" by fastforce
  have a: "gs_arrived s b = gs_started s b @ q" "q = [] \<Longrightarrow> \<exists>job. wk = Working job"
    "\<And>j. wk = Working j \<Longrightarrow> gs_started s b \<noteq> [] \<and> last (gs_started s b) = j"
    using assms Some v by (auto simp: hook_inv_def queue_of_def)
  show ?thesis
    by (rule inv_set[OF assms Some, where wk = wk and q = "q @ [job]" and pend = "gs_pending s + 1"
          and arr = "(gs_arrived s)(b := gs_arrived s b @ [job])" and st = "gs_started s"])
      (use a Some v in \<open>auto simp: enqueue_def entry_set_def\<close>)
qed

lemma inv_take:
  assumes "hook_inv s" "take_job b s = Some (Inr s')"
  shows "hook_inv s'"
proof -
  obtain job q where m: "map_of (gs_queues s) b = Some (Idle, job # q)"
      "s' = s\<lparr>gs_queues := entry_set b (Working job, q) (gs_queues s), gs_started := (gs_started s)(b := gs_started s b @ [job])\<rparr>"
    using assms(2) by (auto simp: take_job_def entry_set_def split: option.splits prod.splits worker.splits list.splits)
  have "gs_arrived s b = gs_started s b @ job # q" using assms(1) m(1) by (auto simp: hook_inv_def queue_of_def)
  then show ?thesis
    by (intro inv_set[OF assms(1) m(1), where wk = "Working job" and q = q and pend = "gs_pending s" and arr = "gs_arrived s"
          and st = "(gs_started s)(b := gs_started s b @ [job])"]) (use m in auto)
qed

lemma inv_mark:
  assumes "hook_inv s" "mark_done b s = Some s'"
  shows "hook_inv s'"
proof -
  obtain q where m: "map_of (gs_queues s) b = Some (Marking, q)"
      "s' = s\<lparr>gs_queues := entry_set b (Idle, q) (gs_queues s), gs_pending := gs_pending s - 1\<rparr>"
    using assms(2) by (auto simp: mark_done_def entry_set_def split: option.splits prod.splits worker.splits)
  have a: "gs_arrived s b = gs_started s b @ q" "q \<noteq> []" using assms(1) m(1) unfolding hook_inv_def queue_of_def by (force, blast)
  have "load (b, Marking, q) \<le> sum_list (map load (gs_queues s))" using map_of_SomeD[OF m(1)] by (intro member_le_sum_list) force+
  then have "1 \<le> gs_pending s" using assms(1) by (simp add: hook_inv_def)
  then show ?thesis
    by (intro inv_set[OF assms(1) m(1), where wk = Idle and q = q and pend = "gs_pending s - 1" and arr = "gs_arrived s" and st = "gs_started s"])
      (use m a in auto)
qed

lemma inv_finish:
  assumes "hook_inv s" "job_done b s = Some s'"
  shows "hook_inv s'"
proof -
  consider (last) job where "map_of (gs_queues s) b = Some (Working job, [])" "s' = s\<lparr>gs_queues := filter (\<lambda>e. fst e \<noteq> b) (gs_queues s), gs_ending := gs_ending s + 1\<rparr>"
    | (more) job q where "map_of (gs_queues s) b = Some (Working job, q)" "q \<noteq> []" "s' = s\<lparr>gs_queues := entry_set b (Marking, q) (gs_queues s)\<rparr>"
    using assms(2) by (auto simp: job_done_def entry_set_def split: option.splits prod.splits worker.splits list.splits)
  then show ?thesis
  proof cases
    case last
    have "map_of (gs_queues s') = (map_of (gs_queues s))(b := None)" using last(2) by (simp add: map_of_filter_key)
    moreover have "queue_of s' b' = queue_of s b'" for b' using last calculation by (auto simp: queue_of_def)
    ultimately show ?thesis
      using assms(1) last load_filter[of "gs_queues s" b "(Working job, [])"] by (auto simp: hook_inv_def distinct_map_filter)
  next
    case more
    have "gs_arrived s b = gs_started s b @ q" using assms(1) more(1) by (auto simp: hook_inv_def queue_of_def)
    then show ?thesis
      by (intro inv_set[OF assms(1) more(1), where wk = Marking and q = q and pend = "gs_pending s" and arr = "gs_arrived s" and st = "gs_started s"])
        (use more in auto)
  qed
qed

lemma inv_cache: "hook_inv (s\<lparr>gs_seen := c\<rparr>) = hook_inv s"
  by (simp add: hook_inv_def queue_of_def)

lemma dispatch_cases:
  assumes "dispatch cr H p s = (reply, s')"
  shows "s' = s \<or> py_Action p \<in> {''opened'', ''reopened'', ''synchronize'', ''closed''} \<and> (\<exists>c. s' = enqueue (branchName cr H p) p (s\<lparr>gs_seen := c\<rparr>))
     \<and> (py_Delivery p \<noteq> [] \<longrightarrow> py_Delivery p \<notin> dc_ids (gs_seen s))"
proof (cases "py_Action p \<in> {''opened'', ''reopened'', ''synchronize'', ''closed''}")
  case act: True
  show ?thesis
  proof (cases "py_Delivery p = []")
    case True
    then have "s' = enqueue (branchName cr H p) p (s\<lparr>gs_seen := gs_seen s\<rparr>)" using assms act by (auto simp: dispatch_def Let_def)
    then show ?thesis using act True by blast
  next
    case False
    obtain new seen where c: "cache_add (py_Delivery p) (gs_seen s) = (new, seen)" by fastforce
    then show ?thesis
      using assms act False by (cases new) (auto simp: dispatch_def Let_def cache_add_def split: if_splits)
  qed
next
  case False
  then show ?thesis using assms by (simp add: dispatch_def)
qed

lemma webhook_cases:
  assumes "handleWebhook cr hmac un H rq s = (reply, s')"
  shows "s' = s \<or> verifySignature hmac (hc_WebhookSecret H) (hq_body rq) (hq_signature rq) \<and> hq_event rq = ''pull_request'' \<and> length (hq_body rq) \<le> maxWebhookBody
     \<and> (\<exists>p0 c. let p = p0\<lparr>py_Delivery := hq_delivery rq\<rparr> in un (hq_body rq) = Inr p0 \<and> repoAllowed H (py_Repo p)
          \<and> py_Action p \<in> {''opened'', ''reopened'', ''synchronize'', ''closed''} \<and> s' = enqueue (branchName cr H p) p (s\<lparr>gs_seen := c\<rparr>)
          \<and> (py_Delivery p \<noteq> [] \<longrightarrow> py_Delivery p \<notin> dc_ids (gs_seen s)))"
proof (cases "s' = s")
  case False
  then obtain p0 where p: "verifySignature hmac (hc_WebhookSecret H) (hq_body rq) (hq_signature rq)" "hq_event rq = ''pull_request''" "length (hq_body rq) \<le> maxWebhookBody"
      "un (hq_body rq) = Inr p0" "repoAllowed H (py_Repo p0)" "dispatch cr H (p0\<lparr>py_Delivery := hq_delivery rq\<rparr>) s = (reply, s')"
    using assms by (auto simp: handleWebhook_def Let_def split: if_splits option.splits sum.splits)
  from dispatch_cases[OF p(6)] False show ?thesis using p by (auto simp: Let_def)
qed simp

theorem hook_inv_reachable: "hook_reachable cr hmac un H s \<Longrightarrow> hook_inv s"
proof (induction rule: hook_reachable.induct)
  case start
  show ?case by (simp add: hook_inv_def NewService_def queue_of_def)
next
  case (step s s')
  from step.hyps(2) show ?case
  proof cases
    case (delivery rq reply)
    from webhook_cases[OF this] show ?thesis
      using step.IH by (auto simp: Let_def inv_cache intro!: inv_enqueue)
  next
    case (taken b)
    with step.IH show ?thesis by (rule inv_take)
  next
    case (finished b)
    with step.IH show ?thesis by (rule inv_finish)
  next
    case (marked b)
    with step.IH show ?thesis by (rule inv_mark)
  next
    case exited
    then show ?thesis using step.IH by (auto simp: worker_exit_def hook_inv_def queue_of_def simp del: map_of_eq_Some_iff split: if_splits)
  qed
qed

text \<open>
  (C27) In every reachable state of the receiver, the jobs of each branch have been started in the order their deliveries arrived, with none skipped and none run twice; a worker
  never finds its queue empty (which would crash the receiver), and when the wait group of the shutdown is done every job that arrived has been started and no worker is left.
\<close>

theorem jobs_in_order:
  assumes "hook_reachable cr hmac un H s"
  shows "gs_arrived s b = gs_started s b @ queue_of s b \<and> take_job b s \<noteq> Some (Inl m)
    \<and> (gs_pending s = 0 \<longrightarrow> gs_queues s = [] \<and> gs_ending s = 0 \<and> gs_arrived s b = gs_started s b)"
proof -
  have inv: "hook_inv s" by (rule hook_inv_reachable[OF assms])
  then have a: "gs_arrived s b = gs_started s b @ queue_of s b" by (simp add: hook_inv_def)
  have "take_job b s = Some (Inl m) \<Longrightarrow> map_of (gs_queues s) b = Some (Idle, [])"
    by (auto simp: take_job_def split: option.splits prod.splits worker.splits list.splits)
  then have t: "take_job b s \<noteq> Some (Inl m)" using inv unfolding hook_inv_def by blast
  have "gs_queues s = [] \<and> gs_ending s = 0" if "gs_pending s = 0"
  proof -
    have l: "load e = 0" if "e \<in> set (gs_queues s)" for e using inv that \<open>gs_pending s = 0\<close> by (simp add: hook_inv_def)
    have "e \<notin> set (gs_queues s)" for e
    proof
      assume e: "e \<in> set (gs_queues s)"
      obtain b' wk q where "e = (b', wk, q)" by (cases e)
      moreover have "map_of (gs_queues s) b' = Some (wk, q)" using e inv calculation by (simp add: hook_inv_def)
      ultimately show False using l[OF e] inv by (auto simp: hook_inv_def split: if_splits)
    qed
    then have "gs_queues s = []" by (metis list.set_intros(1) neq_Nil_conv)
    then show ?thesis using inv that by (simp add: hook_inv_def)
  qed
  then show ?thesis using a t by (auto simp: queue_of_def)
qed

theorem jobs_in_order_witness:
  "gs_arrived demo_delivered (branchName demo_crypto demo_hook demo_job) = [demo_job]
    \<and> queue_of demo_delivered (branchName demo_crypto demo_hook demo_job) = [demo_job]"
proof -
  obtain reply where "handleWebhook demo_crypto demo_hmac demo_unmarshal demo_hook demo_delivery NewService = (reply, demo_delivered)"
    unfolding demo_delivered_def by (metis surjective_pairing)
  then have "hook_reachable demo_crypto demo_hmac demo_unmarshal demo_hook demo_delivered" by (intro hook_reachable.step[OF hook_reachable.start] hook_step.delivery)
  moreover have "gs_arrived demo_delivered (branchName demo_crypto demo_hook demo_job) = [demo_job]"
    "gs_started demo_delivered (branchName demo_crypto demo_hook demo_job) = []" by (simp_all add: demo_delivered_eq enqueue_def NewService_def)
  ultimately show ?thesis using jobs_in_order by (metis append_Nil)
qed

section \<open>The delivery cache\<close>

text \<open>The abstract cache: the most recent ids, at most \<open>n\<close> of them, the oldest first.\<close>

definition remember :: "nat \<Rightarrow> string \<Rightarrow> string list \<Rightarrow> string list" where
  "remember n x xs = (if x \<in> set xs then xs else (if length xs < n then xs else tl xs) @ [x])"

definition recent :: "nat \<Rightarrow> string list \<Rightarrow> string list" where "recent n ids = fold (remember n) ids []"

text \<open>The ring, read from the next slot on, is free slots and then the ids remembered.\<close>

definition cache_rep :: "nat \<Rightarrow> deliveryCache \<Rightarrow> string list \<Rightarrow> bool" where
  "cache_rep n c xs \<longleftrightarrow> dc_ids c = set xs \<and> distinct xs \<and> list_all (\<lambda>x. x \<noteq> []) xs \<and> length xs \<le> n \<and> length (dc_ring c) = n \<and> dc_next c < n
     \<and> drop (dc_next c) (dc_ring c) @ take (dc_next c) (dc_ring c) = replicate (n - length xs) [] @ xs"

lemma ring_update:
  assumes "k < length r"
  shows "(let k' = (k + 1) mod length r; r' = r[k := x] in drop k' r' @ take k' r') = tl (drop k r @ take k r) @ [x]"
proof (cases "k + 1 = length r")
  case True
  then show ?thesis using assms by (simp add: Let_def upd_conv_take_nth_drop drop_Suc[symmetric] tl_drop)
next
  case False
  then have "(k + 1) mod length r = k + 1" using assms by simp
  moreover have "take (k + 1) (r[k := x]) = take k r @ [x]" using assms by (simp add: take_Suc_conv_app_nth)
  moreover have "drop (k + 1) (r[k := x]) = tl (drop k r)" using assms by (simp add: drop_update_cancel tl_drop drop_Suc[symmetric] del: drop_Suc)
  moreover have "drop k r \<noteq> []" using assms by simp
  ultimately show ?thesis by (simp add: Let_def)
qed

lemma cache_add_rep:
  assumes "cache_rep n c xs" "x \<noteq> []"
  shows "fst (cache_add x c) = (x \<notin> set xs) \<and> cache_rep n (snd (cache_add x c)) (remember n x xs)"
proof (cases "x \<in> set xs")
  case True
  then show ?thesis using assms by (simp add: cache_rep_def cache_add_def remember_def)
next
  case False
  let ?R = "drop (dc_next c) (dc_ring c) @ take (dc_next c) (dc_ring c)"
  have k: "dc_next c < length (dc_ring c)" "length (dc_ring c) = n" and R: "?R = replicate (n - length xs) [] @ xs" using assms(1) by (auto simp: cache_rep_def)
  have old: "dc_ring c ! dc_next c = hd ?R" using k by (simp add: hd_append hd_drop_conv_nth)
  have rot: "drop ((dc_next c + 1) mod n) ((dc_ring c)[dc_next c := x]) @ take ((dc_next c + 1) mod n) ((dc_ring c)[dc_next c := x]) = tl ?R @ [x]"
    using ring_update[OF k(1), of x] k(2) by (simp add: Let_def)
  show ?thesis
  proof (cases "length xs < n")
    case True
    then have R': "?R = [] # replicate (n - Suc (length xs)) [] @ xs" using R by (metis Suc_diff_Suc append_Cons replicate_Suc)
    then show ?thesis using False True assms k rot old by (auto simp: cache_rep_def cache_add_def remember_def Let_def)
  next
    case full: False
    then have R': "?R = xs" "xs \<noteq> []" using R assms(1) by (auto simp: cache_rep_def)
    then obtain y ys where xs: "xs = y # ys" by (cases xs) auto
    then show ?thesis using False full assms k rot old R' by (auto simp: cache_rep_def cache_add_def remember_def Let_def)
  qed
qed

lemma cache_run_rep:
  assumes "0 < n" "list_all (\<lambda>x. x \<noteq> []) ids"
  shows "cache_rep n (fold (\<lambda>x c. snd (cache_add x c)) ids (newDeliveryCache n)) (recent n ids)"
proof -
  have "cache_rep n (fold (\<lambda>x c. snd (cache_add x c)) ids c) (fold (remember n) ids xs)" if "cache_rep n c xs" for c xs
    using assms(2) that by (induction ids arbitrary: c xs) (simp_all add: cache_add_rep)
  moreover have "cache_rep n (newDeliveryCache n) []" using assms(1) by (simp add: cache_rep_def newDeliveryCache_def)
  ultimately show ?thesis by (simp add: recent_def)
qed

text \<open>
  (C29) The ring of the delivery cache implements the list of the most recent ids: after any sequence of deliveries an id is new exactly when it is not among the last \<open>n\<close>
  distinct ids remembered.
\<close>

theorem delivery_cache_refines:
  assumes "0 < n" "list_all (\<lambda>x. x \<noteq> []) ids" "eid \<noteq> []"
  shows "fst (cache_add eid (fold (\<lambda>x c. snd (cache_add x c)) ids (newDeliveryCache n))) = (eid \<notin> set (recent n ids))
    \<and> distinct (recent n ids) \<and> length (recent n ids) \<le> n"
  using cache_add_rep[OF cache_run_rep[OF assms(1,2)] assms(3)] cache_run_rep[OF assms(1,2)] by (simp add: cache_rep_def)

theorem delivery_cache_refines_witness:
  "fst (cache_add ''a'' (fold (\<lambda>x c. snd (cache_add x c)) [''a'', ''b'', ''c''] (newDeliveryCache 2))) \<and> ''a'' \<notin> set (recent 2 [''a'', ''b'', ''c''])"
proof -
  have "''a'' \<notin> set (recent 2 [''a'', ''b'', ''c''])" by code_simp
  then show ?thesis using delivery_cache_refines[of 2 "[''a'', ''b'', ''c'']" "''a''"] by simp
qed

section \<open>Deliveries\<close>

text \<open>
  (C28) A delivery changes the receiver only if it is signed with the webhook secret, is a pull request event of an allowed repository with one of the four actions, and carries
  an id that is not remembered; it then queues exactly one job, under the name derived for that pull request. The signature covers the body, so a body without the MAC of the secret is refused.
\<close>

theorem only_signed_deliveries:
  assumes "handleWebhook cr hmac un H rq s = (reply, s')" "s' \<noteq> s"
  shows "\<exists>p. has_prefix ''sha256='' (hq_signature rq) \<and> hex_decode (trim_prefix ''sha256='' (hq_signature rq)) = Some (hmac (hc_WebhookSecret H) (hq_body rq))
    \<and> hq_event rq = ''pull_request'' \<and> (hc_Repos H = [] \<or> (\<exists>r \<in> set (hc_Repos H). EqualFold r (py_Repo p)))
    \<and> py_Action p \<in> {''opened'', ''reopened'', ''synchronize'', ''closed''} \<and> (hq_delivery rq \<noteq> [] \<longrightarrow> hq_delivery rq \<notin> dc_ids (gs_seen s))
    \<and> gs_arrived s' = (gs_arrived s)(branchName cr H p := gs_arrived s (branchName cr H p) @ [p]) \<and> gs_pending s' = gs_pending s + 1"
proof -
  from webhook_cases[OF assms(1)] assms(2) obtain p0 c where
    v: "verifySignature hmac (hc_WebhookSecret H) (hq_body rq) (hq_signature rq)" "hq_event rq = ''pull_request''"
    and p: "repoAllowed H (py_Repo (p0\<lparr>py_Delivery := hq_delivery rq\<rparr>))" "py_Action (p0\<lparr>py_Delivery := hq_delivery rq\<rparr>) \<in> {''opened'', ''reopened'', ''synchronize'', ''closed''}"
      "s' = enqueue (branchName cr H (p0\<lparr>py_Delivery := hq_delivery rq\<rparr>)) (p0\<lparr>py_Delivery := hq_delivery rq\<rparr>) (s\<lparr>gs_seen := c\<rparr>)"
      "hq_delivery rq \<noteq> [] \<longrightarrow> hq_delivery rq \<notin> dc_ids (gs_seen s)"
    unfolding Let_def by auto
  show ?thesis
    by (rule exI[of _ "p0\<lparr>py_Delivery := hq_delivery rq\<rparr>"])
      (use v p in \<open>auto simp: verifySignature_def repoAllowed_def list_ex_iff enqueue_def\<close>)
qed

theorem only_signed_deliveries_witness:
  "\<exists>p. hex_decode ''6b'' = Some (demo_hmac ''k'' ''{}'')
    \<and> gs_arrived demo_delivered = (gs_arrived NewService)(branchName demo_crypto demo_hook p := gs_arrived NewService (branchName demo_crypto demo_hook p) @ [p])"
proof -
  obtain reply where "handleWebhook demo_crypto demo_hmac demo_unmarshal demo_hook demo_delivery NewService = (reply, demo_delivered)"
    unfolding demo_delivered_def by (metis surjective_pairing)
  moreover have "gs_pending demo_delivered \<noteq> gs_pending NewService" by (simp add: demo_delivered_eq enqueue_def)
  then have "demo_delivered \<noteq> NewService" by auto
  ultimately show ?thesis
    using only_signed_deliveries by (fastforce simp: demo_delivery_def demo_hook_def trim_prefix_def)
qed

section \<open>Branches\<close>

lemma requireReady_ready: "run_state (requireReady V branch b) s = (Inr b', s') \<Longrightarrow> ab_State b' = ''ready''"
  by (auto simp: requireReady_def split: if_splits prod.splits sum.splits)

lemma create_ready: "run_state (hook_createBranch V branch) s = (Inr b', s') \<Longrightarrow> ab_State b' = ''ready''"
  by (auto simp: hook_createBranch_def split: prod.splits sum.splits dest: requireReady_ready)

text \<open>
  \<open>ensureBranch\<close> returns without an error only with a branch that branchd reported ready, whatever branchd answers and whatever else runs on the branch; so the success
  status of a commit and the connect comment are only posted for a branch that is there.
\<close>

theorem ensure_returns_ready:
  assumes "run_state (ensureBranch V p branch) s = (Inr (b, didReset), s')"
  shows "ab_State b = ''ready'' \<and> (didReset \<longrightarrow> py_Action p = ''synchronize'' \<and> hc_ResetOnPush (he_config V))"
  using assms by (auto simp: ensureBranch_def no_reset_def split: prod.splits sum.splits if_splits dest: requireReady_ready create_ready)

definition demo_ready :: api_branch where
  "demo_ready = \<lparr>ab_Name = ''b'', ab_Source = ''src'', ab_Parent = [], ab_State = ''ready'', ab_Host = ''h'', ab_Port = 5432, ab_User = ''u'', ab_Password = [], ab_PasswordUnavailable = False,
     ab_Database = ''d'', ab_ProxyDatabase = ''d@b'', ab_ExpiresAt = [], ab_CreatedAt = [], ab_ProxyHost = [], ab_ProxyPort = 0\<rparr>"

definition demo_hook_env :: "(unit, unit) hook_env" where
  "demo_hook_env = \<lparr>he_config = demo_hook, he_client = \<lparr>cl_Token = [], cl_Retry = DefaultRetry, cl_send = (\<lambda>rq s. (Inr \<lparr>hp_code = 200, hp_body = [], hp_retryAfter = []\<rparr>, s)),
       cl_wait = (\<lambda>d s. (None, s)), cl_jitter = (\<lambda>s n. 0), cl_marshal = (\<lambda>b. []), cl_errorOf = (\<lambda>b. [])\<rparr>,
     he_branch = (\<lambda>b. Inr demo_ready), he_diff = (\<lambda>b. Inl []), he_sleep = (\<lambda>d s. (False, s)), he_ctxDone = (\<lambda>s. False), he_token = None,
     he_rest = (\<lambda>t m p b s. (Inl [], s)), he_json = (\<lambda>fs. []), he_comments = (\<lambda>b. Inr []), he_prState = (\<lambda>b. Inl [])\<rparr>"

theorem ensure_returns_ready_witness:
  "\<exists>b r. run_state (ensureBranch demo_hook_env demo_payload ''b'') () = (Inr (b, r), ()) \<and> ab_State b = ''ready'' \<and> \<not> r"
proof -
  have "run_state (pg_call demo_hook_env (he_branch demo_hook_env) (GetBranchC ''b'')) () = (Inr demo_ready, ())" by code_simp
  then have "run_state (ensureBranch demo_hook_env demo_payload ''b'') () = (Inr (demo_ready, False), ())"
    by (simp add: ensureBranch_def settledBranch_def settle_loop.simps busy_state_def demo_ready_def demo_payload_def)
  from this ensure_returns_ready[OF this] show ?thesis by blast
qed

section \<open>Two pull requests, one branch\<close>

lemma sanitize_plain: "list_all (\<lambda>c. low_alnum c \<and> ascii_lower c = c) ds \<Longrightarrow> sanitize_loop b False ds = b @ ds"
  by (induction ds arbitrary: b) (auto simp: Let_def)

lemma digit_plain: "c \<in> set (nat_dec n) \<Longrightarrow> low_alnum c \<and> ascii_lower c = c"
  using nat_dec_digits[of c n] by (auto simp: is_digit_alt low_alnum_alt ascii_lower_def in_range_def less_eq_char_def)

lemma sanitize_pr: "sanitize (''pr-'' @ nat_dec n) 0 = ''pr-'' @ nat_dec n"
proof -
  obtain d ds where d: "nat_dec n = d # ds" using nat_dec_nonempty[of n] by (cases "nat_dec n") auto
  have p: "low_alnum (CHR ''p'')" "low_alnum (CHR ''r'')" "\<not> low_alnum (CHR ''-'')" "ascii_lower (CHR ''p'') = CHR ''p''" "ascii_lower (CHR ''r'') = CHR ''r''"
    "ascii_lower (CHR ''-'') = CHR ''-''" by (simp_all add: low_alnum_alt ascii_lower_def in_range_def less_eq_char_def)
  have "low_alnum d" "ascii_lower d = d" "list_all (\<lambda>c. low_alnum c \<and> ascii_lower c = c) ds" using digit_plain[of _ n] d by (auto simp: list_all_iff)
  then have "sanitize_loop [] False (''pr-'' @ nat_dec n) = ''pr-'' @ nat_dec n" using p by (simp add: d Let_def sanitize_plain)
  then show ?thesis by (simp add: sanitize_def)
qed

lemma repoPrefix_length: "length (repoPrefix cr repo) \<le> 10"
  by (simp add: repoPrefix_def GitHubBranchPrefix_def RepoKey_def shortHash_def repoKeyLen_def)

text \<open>
  With branch naming by git ref, a pull request from a fork shares its branch with the one of the repository's own branch \<^verbatim>\<open>pr-n\<close>, where \<open>n\<close> is the number of the
  fork's pull request: the number of a fork's pull request is not kept apart from the refs, so closing either destroys the database of the other.
\<close>

theorem fork_number_meets_ref:
  assumes "hc_BranchNaming H = ''git-branch''" "fromFork p1" "py_Number p1 = int n" "n < 10 ^ 18"
    "\<not> fromFork p2" "py_Ref p2 = ''pr-'' @ nat_dec n" "py_Repo p2 = py_Repo p1"
  shows "branchName cr H p1 = branchName cr H p2"
proof -
  have "length (nat_dec n) \<le> 18" using nat_dec_length[OF assms(4)] by simp
  then have "length (''pr-'' @ nat_dec n) \<le> MaxBranchNameLen - length (repoPrefix cr (py_Repo p1))"
    using repoPrefix_length[of cr "py_Repo p1"] by (simp add: MaxBranchNameLen_def)
  then have "RefBranchName cr (py_Repo p1) (''pr-'' @ nat_dec n) = PRBranchName cr (py_Repo p1) (int n)"
    by (simp add: RefBranchName_def sanitize_pr[simplified] PRBranchName_def int_dec_def Let_def)
  then show ?thesis using assms by (auto simp: branchName_def PRBranchName_def)
qed

theorem fork_number_meets_ref_witness: "branchName demo_crypto demo_hook demo_fork = branchName demo_crypto demo_hook demo_payload"
proof -
  have "nat_dec 7 = ''7''" by code_simp
  moreover have "fromFork demo_fork" "\<not> fromFork demo_payload" by (simp_all add: fromFork_def demo_fork_def demo_payload_def EqualFold_def)
  ultimately show ?thesis using fork_number_meets_ref[of demo_hook demo_fork 7 demo_payload] by (simp add: demo_hook_def demo_fork_def demo_payload_def)
qed

section \<open>Comments\<close>

lemma sublist_apart: "sublist w (ys @ x # zs) \<Longrightarrow> x \<notin> set w \<Longrightarrow> sublist w ys \<or> sublist w zs"
  by (auto simp: sublist_append sublist_Cons_right prefix_Cons)

lemma run_lengths_mono: "longest \<le> run_lengths c longest run s"
proof (induction s arbitrary: longest run)
  case (Cons x s)
  then show ?case using Cons[of longest 0] le_trans[OF max.cobounded1 Cons[of "max longest (run + 1)" "run + 1"]] by simp
qed simp

lemma run_lengths_bound: "run \<le> longest \<Longrightarrow> sublist (replicate k c) (replicate run c @ s) \<Longrightarrow> k \<le> run_lengths c longest run s"
proof (induction s arbitrary: longest run)
  case Nil
  then show ?case using sublist_length_le by fastforce
next
  case (Cons x s)
  show ?case
  proof (cases "x = c")
    case True
    then show ?thesis using Cons.IH[of "run + 1" "max longest (run + 1)"] Cons.prems by (simp add: replicate_app_Cons_same)
  next
    case False
    then consider "sublist (replicate k c) (replicate run c)" | "sublist (replicate k c) s" using sublist_apart[OF Cons.prems(2)] by auto
    then show ?thesis
    proof cases
      case 1
      then have "k \<le> longest" using Cons.prems(1) sublist_length_le by fastforce
      then show ?thesis using False run_lengths_mono[of longest c 0 s] by simp
    next
      case 2
      then show ?thesis using False Cons.IH[of 0 longest] by simp
    qed
  qed
qed

lemma longestRun_bound: "sublist (replicate k c) s \<Longrightarrow> k \<le> longestRun s c"
  unfolding longestRun_def by (rule run_lengths_bound) simp_all

definition pipes_escaped :: "string \<Rightarrow> bool" where
  "pipes_escaped t \<longleftrightarrow> (\<forall>a b. t = a @ CHR ''|'' # b \<longrightarrow> a \<noteq> [] \<and> last a = CHR 0x5C)"

lemma md_pipes: "concat (map md_char s) = a @ CHR ''|'' # b \<Longrightarrow> a \<noteq> [] \<and> last a = CHR 0x5C"
proof (induction s arbitrary: a)
  case (Cons c s)
  from Cons.prems obtain us where "md_char c = a @ us \<and> us @ concat (map md_char s) = CHR ''|'' # b \<or> md_char c @ us = a \<and> concat (map md_char s) = us @ CHR ''|'' # b"
    by (auto simp: append_eq_append_conv2)
  then show ?case
  proof
    assume a: "md_char c @ us = a \<and> concat (map md_char s) = us @ CHR ''|'' # b"
    then show ?thesis using Cons.IH[of us] by auto
  next
    assume a: "md_char c = a @ us \<and> us @ concat (map md_char s) = CHR ''|'' # b"
    show ?thesis
    proof (cases us)
      case Nil
      then show ?thesis using a Cons.IH[of "[]"] by simp
    next
      case (Cons u us')
      then show ?thesis using a by (auto simp: md_char_def append_eq_Cons_conv Cons_eq_append_conv split: if_splits)
    qed
  qed
qed simp

lemma pipes_padded:
  assumes "pipes_escaped u"
  shows "pipes_escaped (CHR '' '' # u @ '' '')"
  unfolding pipes_escaped_def
proof (intro allI impI)
  fix a b assume e: "CHR '' '' # u @ '' '' = a @ CHR ''|'' # b"
  then obtain a' where a: "a = CHR '' '' # a'" "u @ '' '' = a' @ CHR ''|'' # b" by (cases a) auto
  moreover obtain b' x where "b = b' @ [x]" using a(2) by (cases b rule: rev_cases) auto
  ultimately have "u = a' @ CHR ''|'' # b'" by simp
  with assms have "a' \<noteq> [] \<and> last a' = CHR 0x5C" unfolding pipes_escaped_def by blast
  then show "a \<noteq> [] \<and> last a = CHR 0x5C" using a(1) by simp
qed

text \<open>
  Text from a branch or a database cannot break out of the code span that a comment shows it in: the span is delimited by a run of backticks that does not occur in the text,
  the text neither starts nor ends with a backtick, is on one line, and each bar in it is escaped, so that it also stays in its cell of the table.
\<close>

theorem md_code_contained:
  assumes "s \<noteq> []"
  shows "\<exists>k t. mdCode s = replicate k tick_char @ t @ replicate k tick_char \<and> 0 < k \<and> \<not> sublist (replicate k tick_char) t
    \<and> t \<noteq> [] \<and> hd t \<noteq> tick_char \<and> last t \<noteq> tick_char \<and> CHR 0x0D \<notin> set t \<and> CHR 0x0A \<notin> set t \<and> pipes_escaped t"
proof -
  let ?u = "concat (map md_char s)"
  let ?k = "longestRun ?u tick_char + 1"
  let ?t = "if hd ?u = tick_char \<or> last ?u = tick_char then '' '' @ ?u @ '' '' else ?u"
  have u: "?u \<noteq> []" using assms by (cases s) (auto simp: md_char_def)
  then have "mdCode s = replicate ?k tick_char @ ?t @ replicate ?k tick_char" by (simp add: mdCode_def Let_def)
  moreover have "\<not> sublist (replicate ?k tick_char) ?u" using longestRun_bound[of ?k tick_char ?u] by auto
  then have "\<not> sublist (replicate ?k tick_char) ?t"
    using sublist_apart[of "replicate ?k tick_char" "[]" "CHR '' ''" "?u @ '' ''"] sublist_apart[of "replicate ?k tick_char" ?u "CHR '' ''" "[]"] by (auto simp: tick_char_def)
  moreover have "CHR 0x0D \<notin> set ?t" "CHR 0x0A \<notin> set ?t" by (auto simp: md_char_def)
  moreover have "pipes_escaped ?u" using md_pipes[of s] unfolding pipes_escaped_def by blast
  then have "pipes_escaped ?t" using pipes_padded[of ?u] by simp
  ultimately show ?thesis using u by (intro exI[of _ ?k] exI[of _ ?t]) (auto simp: tick_char_def)
qed

theorem md_code_contained_witness:
  "\<exists>k t. mdCode [tick_char, CHR ''|'', CHR 0x0A] = replicate k tick_char @ t @ replicate k tick_char \<and> \<not> sublist (replicate k tick_char) t \<and> pipes_escaped t"
  using md_code_contained[of "[tick_char, CHR ''|'', CHR 0x0A]"] by blast

end
