(* ===== verification/Docker.thy ===== *)
theory Docker
  imports CopyUp Proxy
begin

text \<open>
  The Docker driver (\<^verbatim>\<open>src/internal/runtime/docker.go\<close>, \<^verbatim>\<open>docker_volumeroot.go\<close>): how each call of the driver interface is made of calls of the Docker client. The client
  is a parameter, a record of functions on a daemon state of any type that may answer anything; so are the clock, the kernel's choice of a port and the JSON codec of
  the label file. The listing script and the label file are shared with the hostPath storage of \<^verbatim>\<open>kube.go\<close>.
\<close>

section \<open>The Docker client\<close>

text \<open>\<open>client.IsErrNotFound\<close> tells the two kinds of errors apart.\<close>

datatype docker_error = NoSuch string | DaemonError string

fun docker_text :: "docker_error \<Rightarrow> string" where
  "docker_text (NoSuch m) = m"
| "docker_text (DaemonError m) = m"

definition IsErrNotFound :: "docker_error \<Rightarrow> bool" where
  "IsErrNotFound e = (case e of NoSuch m \<Rightarrow> True | DaemonError m \<Rightarrow> False)"

record docker_mount =
  dm_Bind :: bool
  dm_Source :: string
  dm_Target :: string
  dm_ReadOnly :: bool

record container_config =
  cc_Image :: string
  cc_Cmd :: "string list"
  cc_Env :: "string list"
  cc_User :: string
  cc_Entrypoint :: "string list"
  cc_Labels :: labels
  cc_Expose5432 :: bool

text \<open>\<open>dh_HostPort\<close> is the port of 127.0.0.1 that 5432 is published on.\<close>

record host_config =
  dh_Mounts :: "docker_mount list"
  dh_NetworkMode :: string
  dh_Privileged :: bool
  dh_CapAdd :: "string list"
  dh_SecurityOpt :: "string list"
  dh_Devices :: "string list"
  dh_RestartPolicy :: string
  dh_HostPort :: "int option"

record docker_volume =
  dv_Name :: string
  dv_Driver :: string
  dv_Options :: labels
  dv_Labels :: labels
  dv_CreatedAt :: string

record docker_container =
  dj_ID :: string
  dj_Labels :: labels
  dj_State :: "(string \<times> int) option"
  dj_Created :: string
  dj_HostPort :: "string option"

record docker_summary =
  dy_ID :: string
  dy_Status :: string
  dy_State :: string
  dy_Labels :: labels
  dy_Created :: int
  dy_Ports :: "(int \<times> int \<times> string) list"

text \<open>Why a wait between two polls ended.\<close>

datatype pause = Elapsed | CtxDone string | DeadlinePassed

text \<open>
  \<open>dk_ImagePull\<close> gives the error of reading the pull's output, if any; \<open>dk_ExecAttach\<close> the bytes of the stream and the error that broke it, if one did. \<open>dk_polls\<close> is the number
  of polls after which the context of a call ends.
\<close>

record 'd docker_api =
  dk_ImageInspect :: "string \<Rightarrow> 'd \<Rightarrow> bool \<times> 'd"
  dk_ImagePull :: "string \<Rightarrow> 'd \<Rightarrow> (docker_error, string option) result \<times> 'd"
  dk_VolumeInspect :: "string \<Rightarrow> 'd \<Rightarrow> (docker_error, docker_volume) result \<times> 'd"
  dk_VolumeCreate :: "docker_volume \<Rightarrow> 'd \<Rightarrow> docker_error option \<times> 'd"
  dk_VolumeRemove :: "string \<Rightarrow> 'd \<Rightarrow> docker_error option \<times> 'd"
  dk_VolumeList :: "labels \<Rightarrow> 'd \<Rightarrow> (docker_error, docker_volume list) result \<times> 'd"
  dk_ContainerCreate :: "container_config \<Rightarrow> host_config \<Rightarrow> string \<Rightarrow> 'd \<Rightarrow> (docker_error, string) result \<times> 'd"
  dk_ContainerStart :: "string \<Rightarrow> 'd \<Rightarrow> docker_error option \<times> 'd"
  dk_ContainerWait :: "string \<Rightarrow> 'd \<Rightarrow> (docker_error, int) result \<times> 'd"
  dk_ContainerLogs :: "string \<Rightarrow> 'd \<Rightarrow> string \<times> 'd"
  dk_ContainerStop :: "string \<Rightarrow> 'd \<Rightarrow> docker_error option \<times> 'd"
  dk_ContainerRemove :: "string \<Rightarrow> 'd \<Rightarrow> docker_error option \<times> 'd"
  dk_ContainerInspect :: "string \<Rightarrow> 'd \<Rightarrow> (docker_error, docker_container) result \<times> 'd"
  dk_ContainerList :: "labels \<Rightarrow> 'd \<Rightarrow> (docker_error, docker_summary list) result \<times> 'd"
  dk_ExecCreate :: "string \<Rightarrow> string \<Rightarrow> string list \<Rightarrow> 'd \<Rightarrow> (docker_error, string) result \<times> 'd"
  dk_ExecAttach :: "string \<Rightarrow> 'd \<Rightarrow> (docker_error, string \<times> string option) result \<times> 'd"
  dk_ExecInspect :: "string \<Rightarrow> 'd \<Rightarrow> (docker_error, bool \<times> int) result \<times> 'd"
  dk_pickHostPort :: "'d \<Rightarrow> (string, int) result \<times> 'd"
  dk_pause :: "int \<Rightarrow> 'd \<Rightarrow> pause \<times> 'd"
  dk_ctxErr :: string
  dk_polls :: nat
  dk_now :: "'d \<Rightarrow> gotime"
  dk_marshal :: "labels \<Rightarrow> string"
  dk_unmarshal :: "string \<Rightarrow> labels"
  dk_volumeRoot :: string

type_synonym ('d, 'a) dop = "('d, (string, 'a) result) state"

definition dfail :: "string \<Rightarrow> ('d, 'a) dop" where "dfail m = State_Monad.return (Inl m)"
definition dok :: "'a \<Rightarrow> ('d, 'a) dop" where "dok x = State_Monad.return (Inr x)"

text \<open>\<open>x, err := m; if err != nil { return h(err) }; k(x)\<close>.\<close>

definition dtry :: "('d, ('e, 'a) result) state \<Rightarrow> ('e \<Rightarrow> ('d, 'b) dop) \<Rightarrow> ('a \<Rightarrow> ('d, 'b) dop) \<Rightarrow> ('d, 'b) dop" where
  "dtry m h k = do { r \<leftarrow> m; case r of Inl e \<Rightarrow> h e | Inr x \<Rightarrow> k x }"

definition derr :: "('d, 'e option) state \<Rightarrow> ('e \<Rightarrow> ('d, 'b) dop) \<Rightarrow> ('d, 'b) dop \<Rightarrow> ('d, 'b) dop" where
  "derr m h k = do { r \<leftarrow> m; case r of Some e \<Rightarrow> h e | None \<Rightarrow> k }"

section \<open>Images and helpers\<close>

definition EnsureImage :: "'d docker_api \<Rightarrow> string \<Rightarrow> ('d, unit) dop" where
  "EnsureImage D ref = do { present \<leftarrow> State (dk_ImageInspect D ref);
     if present then dok ()
     else dtry (State (dk_ImagePull D ref)) (\<lambda>e. dfail (''pull '' @ ref @ '': '' @ docker_text e))
       (\<lambda>readErr. case readErr of Some m \<Rightarrow> dfail m | None \<Rightarrow> dok ()) }"

definition toMounts :: "Mount list \<Rightarrow> docker_mount list" where
  "toMounts ms = map (\<lambda>m. \<lparr>dm_Bind = (mnt_Kind m = MountHostPath), dm_Source = mnt_Volume m, dm_Target = mnt_Target m, dm_ReadOnly = mnt_ReadOnly m\<rparr>) ms"

definition helperHostConfig :: "HelperSpec \<Rightarrow> host_config" where
  "helperHostConfig spec = (let admin = hs_SysAdmin spec \<and> \<not> hs_Privileged spec
     in \<lparr>dh_Mounts = toMounts (hs_Mounts spec), dh_NetworkMode = hs_Network spec, dh_Privileged = hs_Privileged spec,
         dh_CapAdd = (if admin then [''SYS_ADMIN''] else []), dh_SecurityOpt = (if admin then [''apparmor=unconfined''] else []),
         dh_Devices = hs_HostDevices spec, dh_RestartPolicy = [], dh_HostPort = None\<rparr>)"

definition helper_config :: "HelperSpec \<Rightarrow> container_config" where
  "helper_config spec = \<lparr>cc_Image = hs_Image spec, cc_Cmd = hs_Cmd spec, cc_Env = hs_Env spec, cc_User = hs_User spec, cc_Entrypoint = [],
     cc_Labels = [(''pgoverlay.managed'', ''true''), (''pgoverlay.role'', ''helper'')], cc_Expose5432 = False\<rparr>"

definition run_created :: "'d docker_api \<Rightarrow> string \<Rightarrow> ('d, string) dop" where
  "run_created D cid = derr (State (dk_ContainerStart D cid)) (\<lambda>e. dfail (''start helper: '' @ docker_text e))
     (dtry (State (dk_ContainerWait D cid)) (\<lambda>e. dfail (docker_text e))
       (\<lambda>code. do { out \<leftarrow> State (dk_ContainerLogs D cid);
          if code \<noteq> 0 then dfail (''helper exited '' @ int_dec code @ '': '' @ out) else dok out }))"

definition docker_RunHelper :: "'d docker_api \<Rightarrow> HelperSpec \<Rightarrow> ('d, string) dop" where
  "docker_RunHelper D spec = dtry (EnsureImage D (hs_Image spec)) dfail (\<lambda>_.
     dtry (State (dk_ContainerCreate D (helper_config spec) (helperHostConfig spec) [])) (\<lambda>e. dfail (''create helper: '' @ docker_text e))
       (\<lambda>cid. do { r \<leftarrow> run_created D cid; _ \<leftarrow> State (dk_ContainerRemove D cid); State_Monad.return r }))"

section \<open>Removal\<close>

definition removeWait :: int where "removeWait = 120 * 10 ^ 9"
definition removePoll :: int where "removePoll = 100 * 10 ^ 6"

text \<open>After \<open>removeWait div removePoll\<close> polls the deadline has passed.\<close>

fun gone_loop :: "nat \<Rightarrow> 'd docker_api \<Rightarrow> string \<Rightarrow> ('d, string option) state" where
  "gone_loop n D cid = do { r \<leftarrow> State (dk_ContainerInspect D cid);
     let late = (case r of Inl e \<Rightarrow> ''container '' @ cid @ '': removal not confirmed within '' @ Duration_String removeWait @ '': '' @ docker_text e
           | Inr _ \<Rightarrow> ''container '' @ cid @ '' still exists '' @ Duration_String removeWait @ '' after its removal was requested'')
     in case r of Inl (NoSuch m) \<Rightarrow> State_Monad.return None
     | _ \<Rightarrow> (case n of 0 \<Rightarrow> State_Monad.return (Some late)
         | Suc k \<Rightarrow> do { p \<leftarrow> State (dk_pause D removePoll);
             case p of Elapsed \<Rightarrow> gone_loop k D cid
             | CtxDone e \<Rightarrow> State_Monad.return (Some (''waiting for container '' @ cid @ '' to be removed: '' @ e))
             | DeadlinePassed \<Rightarrow> State_Monad.return (Some late) }) }"

declare gone_loop.simps [simp del]

definition docker_StopRemove :: "'d docker_api \<Rightarrow> string \<Rightarrow> ('d, string option) state" where
  "docker_StopRemove D cid = do { _ \<leftarrow> State (dk_ContainerStop D cid); r \<leftarrow> State (dk_ContainerRemove D cid);
     case r of
       Some e \<Rightarrow> if \<not> IsErrNotFound e \<and> \<not> contains (docker_text e) ''already in progress'' then State_Monad.return (Some (docker_text e))
         else gone_loop (nat (removeWait div removePoll)) D cid
     | None \<Rightarrow> gone_loop (nat (removeWait div removePoll)) D cid }"

section \<open>Branches\<close>

definition startBranchAttempts :: nat where "startBranchAttempts = 5"

definition isPortRace :: "string \<Rightarrow> bool" where
  "isPortRace msg \<longleftrightarrow> contains msg ''address already in use'' \<or> contains msg ''port is already allocated''"

definition branch_config :: "BranchSpec \<Rightarrow> container_config" where
  "branch_config spec = \<lparr>cc_Image = bs_Image spec, cc_Cmd = [], cc_Env = bs_Env spec, cc_User = [], cc_Entrypoint = bs_Entrypoint spec, cc_Labels = bs_Labels spec,
     cc_Expose5432 = True\<rparr>"

definition branch_host :: "BranchSpec \<Rightarrow> int \<Rightarrow> host_config" where
  "branch_host spec port = \<lparr>dh_Mounts = toMounts (bs_Mounts spec), dh_NetworkMode = bs_Network spec, dh_Privileged = False, dh_CapAdd = [''SYS_ADMIN''],
     dh_SecurityOpt = [''apparmor=unconfined''], dh_Devices = [], dh_RestartPolicy = ''unless-stopped'', dh_HostPort = Some port\<rparr>"

fun start_loop :: "nat \<Rightarrow> 'd docker_api \<Rightarrow> BranchSpec \<Rightarrow> string \<Rightarrow> ('d, string) dop" where
  "start_loop 0 D spec lastErr = dfail lastErr"
| "start_loop (Suc n) D spec lastErr =
     dtry (State (dk_pickHostPort D)) (\<lambda>e. dfail (''pick host port: '' @ e)) (\<lambda>port.
     dtry (State (dk_ContainerCreate D (branch_config spec) (branch_host spec port) (bs_Name spec))) (\<lambda>e. dfail (''create branch container: '' @ docker_text e)) (\<lambda>cid.
     derr (State (dk_ContainerStart D cid))
       (\<lambda>e. let err = ''start branch container: '' @ docker_text e
         in derr (docker_StopRemove D cid) (\<lambda>rm. dfail (err @ '' (removing the failed container: '' @ rm @ '')''))
              (if isPortRace (docker_text e) then start_loop n D spec err else dfail err))
       (dok cid)))"

definition docker_StartBranch :: "'d docker_api \<Rightarrow> BranchSpec \<Rightarrow> ('d, string) dop" where
  "docker_StartBranch D spec = dtry (EnsureImage D (bs_Image spec)) dfail (\<lambda>_. start_loop startBranchAttempts D spec [])"

section \<open>Commands in a container\<close>

definition execUser :: string where "execUser = ''postgres''"

text \<open>\<open>%v\<close> of a string slice.\<close>

definition show_cmd :: "string list \<Rightarrow> string" where "show_cmd cmd = ''['' @ join_with '' '' cmd @ '']''"

definition unexpectedEOF :: "string option \<Rightarrow> string" where
  "unexpectedEOF broken = (case broken of None \<Rightarrow> ''unexpected EOF'' | Some e \<Rightarrow> e)"

text \<open>\<open>broken\<close> is the error after the last byte, \<open>None\<close> for the end of the stream. The result is both outputs and the error.\<close>

function demuxExecStream :: "string \<Rightarrow> string \<Rightarrow> string \<Rightarrow> string option \<Rightarrow> string \<times> string \<times> string option" where
  "demuxExecStream out err bs broken =
     (if bs = [] then (out, err, broken)
      else if length bs < 8 then (out, err, Some (unexpectedEOF broken))
      else let kind = (of_char (hd bs) :: nat); n = be_nat (take 4 (drop 4 bs)); rest = drop 8 bs; got = take n rest; short = length rest < n
        in if kind = 0 \<or> kind = 1
           then (if short then (out @ got, err, Some (unexpectedEOF broken)) else demuxExecStream (out @ got) err (drop n rest) broken)
           else if kind = 2
           then (if short then (out, err @ got, Some (unexpectedEOF broken)) else demuxExecStream out (err @ got) (drop n rest) broken)
           else if kind = 3 then (out, err, Some (if short then unexpectedEOF broken else ''daemon: '' @ got))
           else (out, err, Some (''unrecognized stream header '' @ nat_dec kind)))"
  by pat_completeness auto
termination by (relation "measure (\<lambda>(out, err, bs, broken). length bs)") auto

declare demuxExecStream.simps [simp del]

fun exit_loop :: "nat \<Rightarrow> 'd docker_api \<Rightarrow> string \<Rightarrow> int \<Rightarrow> ('d, int) dop" where
  "exit_loop n D eid delay = dtry (State (dk_ExecInspect D eid)) (\<lambda>e. dfail (docker_text e)) (\<lambda>(running, code).
     if \<not> running then dok code
     else case n of 0 \<Rightarrow> dfail (''waiting for exec to finish: '' @ dk_ctxErr D)
       | Suc k \<Rightarrow> do { p \<leftarrow> State (dk_pause D delay);
           case p of CtxDone e \<Rightarrow> dfail (''waiting for exec to finish: '' @ e)
           | _ \<Rightarrow> exit_loop k D eid (if delay < 250 * 10 ^ 6 then delay * 2 else delay) })"

declare exit_loop.simps [simp del]

definition execExitCode :: "'d docker_api \<Rightarrow> string \<Rightarrow> ('d, int) dop" where
  "execExitCode D eid = exit_loop (dk_polls D) D eid (10 * 10 ^ 6)"

definition docker_ExecOutput :: "'d docker_api \<Rightarrow> string \<Rightarrow> string list \<Rightarrow> ('d, string) dop" where
  "docker_ExecOutput D cid cmd =
     dtry (State (dk_ExecCreate D cid execUser cmd)) (\<lambda>e. dfail (docker_text e)) (\<lambda>eid.
     dtry (State (dk_ExecAttach D eid)) (\<lambda>e. dfail (docker_text e)) (\<lambda>(bs, broken).
     case demuxExecStream [] [] bs broken of
       (out, err, Some m) \<Rightarrow> dfail (''exec '' @ show_cmd cmd @ '': reading output: '' @ m)
     | (out, err, None) \<Rightarrow>
         dtry (execExitCode D eid) (\<lambda>m. dfail (''exec '' @ show_cmd cmd @ '': '' @ m)) (\<lambda>code.
         if code \<noteq> 0 then dfail (''exec '' @ show_cmd cmd @ '' exited '' @ int_dec code @ '': '' @ err @ out) else dok out)))"

definition docker_Exec :: "'d docker_api \<Rightarrow> string \<Rightarrow> string list \<Rightarrow> ('d, string option) state" where
  "docker_Exec D cid cmd = do { r \<leftarrow> docker_ExecOutput D cid cmd; State_Monad.return (case r of Inl e \<Rightarrow> Some e | Inr _ \<Rightarrow> None) }"

section \<open>Containers\<close>

definition dockerState :: "string \<Rightarrow> bool \<times> bool" where
  "dockerState st = (if st = ''running'' then (True, False) else if st \<in> {''exited'', ''dead'', ''created''} then (False, True) else (False, False))"

definition container_info :: "docker_container \<Rightarrow> ContainerInfo" where
  "container_info j = (let (running, stopped) = (case dj_State j of None \<Rightarrow> (False, False) | Some (st, code) \<Rightarrow> dockerState st)
     in \<lparr>ci_ID = dj_ID j, ci_Running = running, ci_Stopped = stopped,
         ci_Status = (case dj_State j of None \<Rightarrow> [] | Some (st, code) \<Rightarrow> if stopped \<and> st \<noteq> ''created'' then st @ '' ('' @ int_dec code @ '')'' else st),
         ci_Host = (if running then ''127.0.0.1'' else []),
         ci_Port = (case dj_HostPort j of Some p \<Rightarrow> if running then fst (ParseInt64 p) else 0 | None \<Rightarrow> 0),
         ci_Created = parse_rfc3339nano (dj_Created j), ci_Labels = dj_Labels j\<rparr>)"

definition docker_Inspect :: "'d docker_api \<Rightarrow> string \<Rightarrow> ('d, ContainerInfo) dop" where
  "docker_Inspect D cid = dtry (State (dk_ContainerInspect D cid))
     (\<lambda>e. dfail (if IsErrNotFound e then ''container '' @ cid @ '': not found: '' @ docker_text e else docker_text e)) (\<lambda>j. dok (container_info j))"

definition summaryInfo :: "docker_summary \<Rightarrow> ContainerInfo" where
  "summaryInfo c = (let (running, stopped) = dockerState (dy_State c)
     in \<lparr>ci_ID = dy_ID c, ci_Running = running, ci_Stopped = stopped, ci_Status = (if dy_Status c = [] then dy_State c else dy_Status c),
         ci_Host = (if running then ''127.0.0.1'' else []),
         ci_Port = (if running then (case find (\<lambda>(priv, pub, typ). priv = 5432 \<and> pub \<noteq> 0 \<and> (typ = [] \<or> typ = ''tcp'')) (dy_Ports c) of
             None \<Rightarrow> 0 | Some (priv, pub, typ) \<Rightarrow> pub) else 0),
         ci_Created = (if dy_Created c > 0 then Some (of_instant (dy_Created c * 10 ^ 9)) else None), ci_Labels = dy_Labels c\<rparr>)"

definition listByRole :: "'d docker_api \<Rightarrow> string \<Rightarrow> ('d, ContainerInfo list) dop" where
  "listByRole D role = dtry (State (dk_ContainerList D [(''pgoverlay.managed'', ''true''), (''pgoverlay.role'', role)])) (\<lambda>e. dfail (docker_text e))
     (\<lambda>cs. dok (map summaryInfo cs))"

section \<open>Volume names and roots\<close>

definition volumeNameRe :: rx where
  "volumeNameRe = Seq (Chars low_alnum) (rx_upto 200 (Chars (\<lambda>c. low_alnum c \<or> c = CHR ''.'' \<or> c = CHR ''-'')))"

definition validVolumeName :: "string \<Rightarrow> string option" where
  "validVolumeName name = (if \<not> rx_match volumeNameRe name then Some (''invalid volume name '' @ quoted name) else None)"

text \<open>\<open>path.Clean\<close> and \<open>path.Join\<close>.\<close>

fun clean_parts :: "bool \<Rightarrow> string list \<Rightarrow> string list \<Rightarrow> string list" where
  "clean_parts rooted acc [] = rev acc"
| "clean_parts rooted acc (p # ps) =
     (if p = [] \<or> p = ''.'' then clean_parts rooted acc ps
      else if p = ''..'' then (if acc \<noteq> [] \<and> hd acc \<noteq> ''..'' then clean_parts rooted (tl acc) ps
        else if rooted then clean_parts rooted acc ps else clean_parts rooted (p # acc) ps)
      else clean_parts rooted (p # acc) ps)"

definition path_Clean :: "string \<Rightarrow> string" where
  "path_Clean p = (let rooted = has_prefix ''/'' p; body = join_with ''/'' (clean_parts rooted [] (split_on (CHR ''/'') p))
     in if rooted then ''/'' @ body else if body = [] then ''.'' else body)"

definition path_Join :: "string \<Rightarrow> string \<Rightarrow> string" where
  "path_Join a b = (if a = [] then (if b = [] then [] else path_Clean b) else if b = [] then path_Clean a else path_Clean (a @ ''/'' @ b))"

definition ValidateVolumeRoot :: "string \<Rightarrow> string option" where
  "ValidateVolumeRoot dir =
     (if dir = [] then None
      else if \<not> has_prefix ''/'' dir then Some (''volume root '' @ quoted dir @ '': must be an absolute path on the Docker host'')
      else if path_Clean dir \<noteq> dir then Some (''volume root '' @ quoted dir @ '': must be a clean path ('' @ quoted (path_Clean dir) @ '')'')
      else if dir = ''/'' then Some (''volume root '' @ quoted dir @ '': must be a directory below /'')
      else if CHR 0x00 \<in> set dir \<or> CHR 0x0A \<in> set dir then Some (''volume root '' @ quoted dir @ '': contains a NUL or newline'') else None)"

definition LabelVolumeRoot :: string where "LabelVolumeRoot = ''pgoverlay.volume-root''"
definition dataRootMountPath :: string where "dataRootMountPath = ''/pgoverlay-root''"
definition volumeLabelsFile :: string where "volumeLabelsFile = ''.pgoverlay-labels.json''"
definition labelCreated :: string where "labelCreated = ''pgoverlay.created''"

definition withCreatedLabel :: "labels \<Rightarrow> gotime \<Rightarrow> labels" where
  "withCreatedLabel ls now = AList.update labelCreated (int_dec (instant now div 10 ^ 9)) ls"

definition listVolumesSentinel :: string where "listVolumesSentinel = CHR 0x1E # ''--pgoverlay-vol--'' @ [CHR 0x1E]"

definition listVolumesScript :: "string \<Rightarrow> string" where
  "listVolumesScript root = ''for d in '' @ root @ ''/*/; do [ -d '' @ quoted ''$d'' @ '' ] || continue; n=$(basename '' @ quoted ''$d'' @ ''); printf ''
     @ sq (''%s'' @ [CHR 0x5C] @ ''n'') @ '' '' @ quoted ''$n'' @ ''; cat '' @ quoted (''$d/'' @ volumeLabelsFile) @ '' 2>/dev/null; printf ''
     @ sq ([CHR 0x5C] @ ''n'' @ listVolumesSentinel @ [CHR 0x5C] @ ''n'') @ ''; done 2>/dev/null || true''"

text \<open>\<open>strings.Split\<close> with a separator of several bytes.\<close>

fun split_str :: "string \<Rightarrow> string \<Rightarrow> string \<Rightarrow> string list" where
  "split_str sep acc [] = [rev acc]"
| "split_str sep acc (c # s) = (if sep \<noteq> [] \<and> has_prefix sep (c # s) then rev acc # split_str sep [] (drop (length sep - 1) s) else split_str sep (c # acc) s)"

definition volume_entry :: "(string \<Rightarrow> labels) \<Rightarrow> string \<Rightarrow> string \<Rightarrow> VolumeInfo option" where
  "volume_entry unmarshal inst entry =
     (let e = TrimSpace entry; (l0, rest) = (case cut (CHR 0x0A) e of None \<Rightarrow> (e, None) | Some (a, b) \<Rightarrow> (a, Some b));
          name = TrimSpace l0; ls = (case rest of None \<Rightarrow> [] | Some b \<Rightarrow> unmarshal (TrimSpace b));
          get = (\<lambda>k. case map_of ls k of None \<Rightarrow> [] | Some v \<Rightarrow> v)
      in if e = [] \<or> name = [] \<or> name = volumeLabelsFile \<or> get LabelInstance \<noteq> inst then None
         else Some \<lparr>vi_Name = name, vi_Created = (case ParseInt64 (get labelCreated) of (n, okay) \<Rightarrow> if okay \<and> n > 0 then Some (of_instant (n * 10 ^ 9)) else None),
                    vi_Leftover = False\<rparr>)"

definition parseVolumeList :: "(string \<Rightarrow> labels) \<Rightarrow> string \<Rightarrow> string \<Rightarrow> VolumeInfo list" where
  "parseVolumeList unmarshal out inst = List.map_filter (volume_entry unmarshal inst) (split_str listVolumesSentinel [] out)"

section \<open>Volumes\<close>

definition rootHelper :: "'d docker_api \<Rightarrow> string \<Rightarrow> string \<Rightarrow> string list \<Rightarrow> ('d, string) dop" where
  "rootHelper D root sh env =
     (if root = [] then dfail ''no volume root''
      else docker_RunHelper D (helper_spec\<lparr>hs_Cmd := [''sh'', ''-c'', sh], hs_Env := env,
             hs_Mounts := [\<lparr>mnt_Kind = MountHostPath, mnt_Volume = root, mnt_Target = dataRootMountPath, mnt_ReadOnly = False\<rparr>]\<rparr>))"

definition CheckVolumeRoot :: "'d docker_api \<Rightarrow> ('d, unit) dop" where
  "CheckVolumeRoot D = (if dk_volumeRoot D = [] then dok ()
     else dtry (rootHelper D (dk_volumeRoot D) (join_with [CHR 0x0A] [''set -eu'',
            ''[ -d '' @ dataRootMountPath @ '' ] || { echo '' @ quoted ''not a directory'' @ '' >&2; exit 1; }'',
            ''t='' @ dataRootMountPath @ ''/.pgoverlay-check-$$'', ''mkdir '' @ quoted ''$t'', ''rmdir '' @ quoted ''$t'']) [])
       (\<lambda>e. dfail (''volume root '' @ dk_volumeRoot D @ '' on the Docker host is not a usable directory (create it first; it is never created for you): '' @ e)) (\<lambda>_. dok ()))"

definition removeRootDir :: "'d docker_api \<Rightarrow> string \<Rightarrow> string \<Rightarrow> ('d, unit) dop" where
  "removeRootDir D root name = (case validVolumeName name of Some e \<Rightarrow> dfail e
     | None \<Rightarrow> dtry (rootHelper D root (''rm -rf '' @ dataRootMountPath @ ''/'' @ name) [])
         (\<lambda>e. dfail (''remove volume '' @ name @ '': delete '' @ path_Join root name @ '': '' @ e)) (\<lambda>_. dok ()))"

definition create_script :: "string \<Rightarrow> string" where
  "create_script name = join_with [CHR 0x0A] [''set -eu'', ''d='' @ dataRootMountPath @ ''/'' @ name,
     ''if [ -e '' @ quoted ''$d'' @ '' ] || [ -L '' @ quoted ''$d'' @ '' ]; then rm -rf '' @ quoted ''$d'' @ ''; echo pgoverlay-reclaimed; fi'',
     ''mkdir '' @ quoted ''$d'', ''printf '' @ sq ''%s'' @ '' '' @ quoted ''$PGOVERLAY_VOLUME_LABELS'' @ '' > '' @ quoted (''$d/'' @ volumeLabelsFile)]"

definition createRootVolume :: "'d docker_api \<Rightarrow> string \<Rightarrow> labels \<Rightarrow> ('d, unit) dop" where
  "createRootVolume D name ls = (case validVolumeName name of Some e \<Rightarrow> dfail (''create volume: '' @ e)
     | None \<Rightarrow> do { now \<leftarrow> State (\<lambda>s. (dk_now D s, s));
         let root = dk_volumeRoot D; lbl = AList.update LabelVolumeRoot root ls; marker = dk_marshal D (withCreatedLabel lbl now); dir = path_Join root name
         in dtry (rootHelper D root (create_script name) [''PGOVERLAY_VOLUME_LABELS='' @ marker]) (\<lambda>e. dfail (''create volume '' @ name @ '': make '' @ dir @ '': '' @ e)) (\<lambda>_.
            derr (State (dk_VolumeCreate D \<lparr>dv_Name = name, dv_Driver = ''local'', dv_Options = [(''type'', ''none''), (''o'', ''bind''), (''device'', dir)], dv_Labels = lbl, dv_CreatedAt = []\<rparr>))
              (\<lambda>e. do { _ \<leftarrow> removeRootDir D root name; dfail (''create volume '' @ name @ '': '' @ docker_text e) }) (dok ())) })"

definition docker_CreateVolume :: "'d docker_api \<Rightarrow> string \<Rightarrow> labels \<Rightarrow> ('d, unit) dop" where
  "docker_CreateVolume D name ls = (case (if dk_volumeRoot D \<noteq> [] then validVolumeName name else None) of Some e \<Rightarrow> dfail (''create volume: '' @ e)
     | None \<Rightarrow> do { r \<leftarrow> State (dk_VolumeInspect D name);
         case r of Inr v \<Rightarrow> dfail (''create volume '' @ name @ '': volume already exists'')
         | Inl e \<Rightarrow> if \<not> IsErrNotFound e then dfail (''create volume '' @ name @ '': '' @ docker_text e)
             else if dk_volumeRoot D \<noteq> [] then createRootVolume D name ls
             else derr (State (dk_VolumeCreate D \<lparr>dv_Name = name, dv_Driver = [], dv_Options = [], dv_Labels = ls, dv_CreatedAt = []\<rparr>)) (\<lambda>x. dfail (docker_text x)) (dok ()) })"

definition label_of :: "labels \<Rightarrow> string \<Rightarrow> string" where
  "label_of ls k = (case map_of ls k of None \<Rightarrow> [] | Some v \<Rightarrow> v)"

definition rootVolumeDir :: "docker_volume \<Rightarrow> string option" where
  "rootVolumeDir v = (let root = label_of (dv_Labels v) LabelVolumeRoot
     in if root = [] \<or> ValidateVolumeRoot root \<noteq> None \<or> validVolumeName (dv_Name v) \<noteq> None then None
        else if dv_Driver v \<noteq> [] \<and> dv_Driver v \<noteq> ''local'' then None
        else if \<not> list_ex (\<lambda>x. TrimSpace x = ''bind'') (split_on (CHR '','') (label_of (dv_Options v) ''o'')) \<or> label_of (dv_Options v) ''device'' \<noteq> path_Join root (dv_Name v)
        then None else Some root)"

definition docker_RemoveVolume :: "'d docker_api \<Rightarrow> string \<Rightarrow> ('d, unit) dop" where
  "docker_RemoveVolume D name = dtry (State (dk_VolumeInspect D name))
     (\<lambda>e. if \<not> IsErrNotFound e then dfail (''remove volume '' @ name @ '': '' @ docker_text e)
       else if dk_volumeRoot D \<noteq> [] \<and> validVolumeName name = None then removeRootDir D (dk_volumeRoot D) name else dok ())
     (\<lambda>v. derr (State (dk_VolumeRemove D name)) (\<lambda>e. dfail (docker_text e))
       (case rootVolumeDir v of Some root \<Rightarrow> removeRootDir D root name | None \<Rightarrow> dok ()))"

definition docker_CloneVolume :: "'d docker_api \<Rightarrow> string \<Rightarrow> string \<Rightarrow> labels \<Rightarrow> ('d, unit) dop" where
  "docker_CloneVolume D src dst ls = (let pre = ''clone volume '' @ src @ '' -> '' @ dst @ '': ''
     in dtry (docker_CreateVolume D dst ls) (\<lambda>e. dfail (pre @ e)) (\<lambda>_.
        dtry (docker_RunHelper D (helper_spec\<lparr>hs_Cmd := [''sh'', ''-c'', ''cp -a /pgoverlay-clone-src/. /pgoverlay-clone-dst/''],
                hs_Mounts := [vol_mount src ''/pgoverlay-clone-src'' True, vol_mount dst ''/pgoverlay-clone-dst'' False]\<rparr>))
          (\<lambda>e. do { _ \<leftarrow> docker_RemoveVolume D dst; dfail (pre @ e) }) (\<lambda>_. dok ())))"

fun leftovers :: "'d docker_api \<Rightarrow> VolumeInfo list \<Rightarrow> VolumeInfo list \<Rightarrow> ('d, VolumeInfo list) dop" where
  "leftovers D known [] = dok []"
| "leftovers D known (v # vs) =
     (if vi_Name v \<in> vi_Name ` set known \<or> validVolumeName (vi_Name v) \<noteq> None then leftovers D known vs
      else do { r \<leftarrow> State (dk_VolumeInspect D (vi_Name v));
        case r of Inr _ \<Rightarrow> leftovers D known vs
        | Inl e \<Rightarrow> if \<not> IsErrNotFound e then dfail (''list volume root '' @ dk_volumeRoot D @ '': inspect '' @ vi_Name v @ '': '' @ docker_text e)
            else dtry (leftovers D known vs) dfail (\<lambda>left. dok (v\<lparr>vi_Leftover := True\<rparr> # left)) })"

definition leftoverRootDirs :: "'d docker_api \<Rightarrow> string \<Rightarrow> VolumeInfo list \<Rightarrow> ('d, VolumeInfo list) dop" where
  "leftoverRootDirs D inst have = dtry (rootHelper D (dk_volumeRoot D) (listVolumesScript dataRootMountPath) [])
     (\<lambda>e. dfail (''list volume root '' @ dk_volumeRoot D @ '': '' @ e)) (\<lambda>out. leftovers D have (parseVolumeList (dk_unmarshal D) out inst))"

definition docker_ListManagedVolumes :: "'d docker_api \<Rightarrow> string \<Rightarrow> ('d, VolumeInfo list) dop" where
  "docker_ListManagedVolumes D inst = dtry (State (dk_VolumeList D [(''pgoverlay.managed'', ''true''), (LabelInstance, inst)])) (\<lambda>e. dfail (docker_text e)) (\<lambda>vs.
     let out = map (\<lambda>v. \<lparr>vi_Name = dv_Name v, vi_Created = parse_rfc3339nano (dv_CreatedAt v), vi_Leftover = False\<rparr>) vs
     in if dk_volumeRoot D = [] then dok out else dtry (leftoverRootDirs D inst out) dfail (\<lambda>left. dok (out @ left)))"

section \<open>The driver\<close>

definition as_error :: "('d, unit) dop \<Rightarrow> 'd \<Rightarrow> string option \<times> 'd" where
  "as_error m s = (case run_state m s of (Inl e, s') \<Rightarrow> (Some e, s') | (Inr _, s') \<Rightarrow> (None, s'))"

definition docker_driver :: "'d docker_api \<Rightarrow> 'd driver" where
  "docker_driver D = \<lparr>
     drv_CreateVolume = (\<lambda>v ls. as_error (docker_CreateVolume D v ls)), drv_RemoveVolume = (\<lambda>v. as_error (docker_RemoveVolume D v)),
     drv_CloneVolume = (\<lambda>src dst ls. as_error (docker_CloneVolume D src dst ls)), drv_RunHelper = (\<lambda>spec. run_state (docker_RunHelper D spec)),
     drv_StartBranch = (\<lambda>spec. run_state (docker_StartBranch D spec)), drv_Exec = (\<lambda>cid cmd. run_state (docker_Exec D cid cmd)),
     drv_ExecOutput = (\<lambda>cid cmd. run_state (docker_ExecOutput D cid cmd)), drv_Inspect = (\<lambda>cid. run_state (docker_Inspect D cid)),
     drv_StopRemove = (\<lambda>cid. run_state (docker_StopRemove D cid)), drv_ListManaged = run_state (listByRole D ''branch''),
     drv_ListHelpers = run_state (listByRole D ''helper''), drv_ListManagedVolumes = (\<lambda>inst. run_state (docker_ListManagedVolumes D inst)),
     drv_DiagnoseContainer = None\<rparr>"

end
