(* ===== verification/DockerProps.thy ===== *)
theory DockerProps
  imports Docker ProxyFrames
begin

text \<open>
  The Docker driver keeps the promises of its interface: the output of a command is split exactly and a broken stream is noticed, a volume is never adopted, a removal or
  a clone touches no other volume, a branch that does not start leaves no container, and the directories deleted lie right below the volume root.
\<close>

section \<open>The output of a command\<close>

text \<open>What the daemon sends: frames of standard output or (\<open>True\<close>) standard error.\<close>

definition frame :: "bool \<times> string \<Rightarrow> string" where
  "frame f = char_of (if fst f then 2 else 1 :: nat) # replicate 3 (CHR 0x00) @ PutUint32 (word_of_nat (length (snd f))) @ snd f"

definition stream :: "(bool \<times> string) list \<Rightarrow> string" where "stream fs = concat (map frame fs)"

definition sent :: "bool \<Rightarrow> (bool \<times> string) list \<Rightarrow> string" where "sent b fs = concat (map snd (filter (\<lambda>f. fst f = b) fs))"

lemma be_nat_Put: "n < 2 ^ 32 \<Longrightarrow> be_nat (PutUint32 (word_of_nat n)) = n"
proof -
  assume n: "n < 2 ^ 32"
  obtain a b c d where s: "PutUint32 (word_of_nat n) = [a, b, c, d]" by (simp add: PutUint32_def Let_def)
  have "unat (Uint32 (PutUint32 (word_of_nat n))) = n" using n by (simp add: Uint32_PutUint32 unat_of_nat take_bit_nat_eq_self)
  then show ?thesis using unat_Uint32[of a b c d] by (simp add: s)
qed

lemma demux_frame:
  assumes "length p < 2 ^ 32"
  shows "demuxExecStream out err (frame (b, p) @ rest) broken =
    demuxExecStream (out @ (if b then [] else p)) (err @ (if b then p else [])) rest broken"
  using be_nat_Put[OF assms] by (subst demuxExecStream.simps) (simp add: frame_def Let_def)

lemma frame_length: "length (frame f) = 8 + length (snd f)"
  by (simp add: frame_def)

lemma demux_cut:
  assumes "length p < 2 ^ 32" "0 < k" "k < length (frame (b, p))"
  shows "snd (snd (demuxExecStream out err (take k (frame (b, p))) broken)) \<noteq> None"
proof (cases "k < 8")
  case True
  then show ?thesis using assms(2,3) by (subst demuxExecStream.simps) (auto simp: frame_def)
next
  case False
  define j where "j = k - 8"
  have k: "k = 8 + j" "j < length p" using False assms(3) by (simp_all add: frame_length j_def)
  then have "take k (frame (b, p)) = char_of (if b then 2 else 1 :: nat) # replicate 3 (CHR 0x00) @ PutUint32 (word_of_nat (length p)) @ take j p"
    by (simp add: frame_def numeral_eq_Suc)
  then show ?thesis using be_nat_Put[OF assms(1)] k(2) by (subst demuxExecStream.simps) (simp add: Let_def)
qed

lemma demux_stream:
  "list_all (\<lambda>f. length (snd f) < 2 ^ 32) fs \<Longrightarrow>
   demuxExecStream out err (stream fs @ rest) broken = demuxExecStream (out @ sent False fs) (err @ sent True fs) rest broken"
proof (induction fs arbitrary: out err)
  case (Cons f fs)
  obtain b p where f: "f = (b, p)" by (cases f)
  have "demuxExecStream out err (stream (f # fs) @ rest) broken =
      demuxExecStream (out @ (if b then [] else p)) (err @ (if b then p else [])) (stream fs @ rest) broken"
    using demux_frame[of p out err b "stream fs @ rest" broken] Cons.prems f by (simp add: stream_def)
  then show ?case using Cons.IH Cons.prems f by (simp add: sent_def)
qed (simp add: stream_def sent_def)

lemma stream_cut:
  "k \<le> length (stream fs) \<Longrightarrow> \<exists>gs hs j. fs = gs @ hs \<and> take k (stream fs) = stream gs @ take j (stream hs)
     \<and> (j = 0 \<or> hs \<noteq> [] \<and> 0 < j \<and> j < length (frame (hd hs)))"
proof (induction fs arbitrary: k)
  case (Cons f fs)
  show ?case
  proof (cases "k < length (frame f)")
    case True
    then show ?thesis by (intro exI[of _ "[]"] exI[of _ "f # fs"] exI[of _ k]) (auto simp: stream_def)
  next
    case False
    have "k - length (frame f) \<le> length (stream fs)" using Cons.prems by (simp add: stream_def)
    from Cons.IH[OF this] obtain gs hs j where g: "fs = gs @ hs" "take (k - length (frame f)) (stream fs) = stream gs @ take j (stream hs)"
      "j = 0 \<or> hs \<noteq> [] \<and> 0 < j \<and> j < length (frame (hd hs))" by (elim exE conjE) (rule that)
    then show ?thesis using False by (intro exI[of _ "f # gs"] exI[of _ hs] exI[of _ j]) (simp add: stream_def)
  qed
qed (auto simp: stream_def)

text \<open>
  (C37) What a command wrote is split back into its two outputs exactly, and a stream that is cut anywhere but between two frames, or broken by an error, never passes for
  a complete one: the run is without an error only at a frame boundary, and then both outputs are those of the frames received.
\<close>

theorem exec_stream_exact:
  assumes "list_all (\<lambda>f. length (snd f) < 2 ^ 32) fs" "k \<le> length (stream fs)"
    and "demuxExecStream [] [] (take k (stream fs)) broken = (out, err, None)"
  shows "broken = None \<and> (\<exists>gs hs. fs = gs @ hs \<and> take k (stream fs) = stream gs \<and> out = sent False gs \<and> err = sent True gs)
    \<and> demuxExecStream [] [] (stream fs) None = (sent False fs, sent True fs, None)"
proof -
  obtain gs hs j where g: "fs = gs @ hs" "take k (stream fs) = stream gs @ take j (stream hs)" "j = 0 \<or> hs \<noteq> [] \<and> 0 < j \<and> j < length (frame (hd hs))"
    using stream_cut[OF assms(2)] by (elim exE conjE) (rule that)
  have run: "demuxExecStream (sent False gs) (sent True gs) (take j (stream hs)) broken = (out, err, None)"
    using assms(1,3) g by (simp add: demux_stream)
  have "j = 0"
  proof (rule ccontr)
    assume "j \<noteq> 0"
    then obtain f hs' where h: "hs = f # hs'" "0 < j" "j < length (frame f)" using g(3) by (cases hs) auto
    then have "take j (stream hs) = take j (frame f)" by (simp add: stream_def)
    then show False using demux_cut[of "snd f" j "fst f" "sent False gs" "sent True gs" broken] run h assms(1) g(1) by simp
  qed
  then have "broken = None \<and> out = sent False gs \<and> err = sent True gs" using run by (simp add: demuxExecStream.simps)
  moreover have "demuxExecStream [] [] (stream fs) None = (sent False fs, sent True fs, None)"
    using demux_stream[OF assms(1), of "[]" "[]" "[]" None] by (simp add: demuxExecStream.simps)
  ultimately show ?thesis using g \<open>j = 0\<close> by auto
qed

theorem exec_stream_exact_witness:
  "demuxExecStream [] [] (stream [(False, ''ab''), (True, ''e''), (False, ''c'')]) None = (''abc'', ''e'', None)"
proof -
  have d: "demuxExecStream [] [] (take 0 (stream [(False, ''ab''), (True, ''e''), (False, ''c'')])) None = ([], [], None)" by (simp add: demuxExecStream.simps)
  show ?thesis using exec_stream_exact[OF _ _ d] by (simp add: sent_def)
qed

section \<open>Volumes\<close>

text \<open>An observation of the daemon that a computation leaves alone, or only makes smaller.\<close>

definition leaves :: "('d \<Rightarrow> 'x) \<Rightarrow> ('d, 'a) state \<Rightarrow> bool" where
  "leaves ob m \<longleftrightarrow> (\<forall>s. ob (snd (run_state m s)) = ob s)"

definition narrows :: "('d \<Rightarrow> 'x set) \<Rightarrow> ('d, 'a) state \<Rightarrow> bool" where
  "narrows ob m \<longleftrightarrow> (\<forall>s. ob (snd (run_state m s)) \<subseteq> ob s)"

lemma leaves_return [simp]: "leaves ob (State_Monad.return x)"
  by (simp add: leaves_def)

lemma leaves_bind: "leaves ob m \<Longrightarrow> (\<And>x. leaves ob (f x)) \<Longrightarrow> leaves ob (State_Monad.bind m f)"
  by (simp add: leaves_def split: prod.splits) (metis snd_conv)

lemma leaves_dtry: "leaves ob m \<Longrightarrow> (\<And>e. leaves ob (h e)) \<Longrightarrow> (\<And>x. leaves ob (k x)) \<Longrightarrow> leaves ob (dtry m h k)"
  unfolding dtry_def by (rule leaves_bind) (auto split: sum.splits)

lemma leaves_derr: "leaves ob m \<Longrightarrow> (\<And>e. leaves ob (h e)) \<Longrightarrow> leaves ob k \<Longrightarrow> leaves ob (derr m h k)"
  unfolding derr_def by (rule leaves_bind) (auto split: option.splits)

lemma leaves_result [simp]: "leaves ob (dfail m)" "leaves ob (dok x)"
  by (simp_all add: dfail_def dok_def)

lemma run_dtry: "run_state (dtry m h k) s = (case run_state m s of (Inl e, s1) \<Rightarrow> run_state (h e) s1 | (Inr x, s1) \<Rightarrow> run_state (k x) s1)"
  by (auto simp: dtry_def split: prod.splits sum.splits)

lemma run_derr: "run_state (derr m h k) s = (case run_state m s of (Some e, s1) \<Rightarrow> run_state (h e) s1 | (None, s1) \<Rightarrow> run_state k s1)"
  by (auto simp: derr_def split: prod.splits option.splits)

lemma run_result [simp]: "run_state (dfail m) s = (Inl m, s)" "run_state (dok x) s = (Inr x, s)"
  by (simp_all add: dfail_def dok_def)

lemmas leaves_rules = leaves_bind leaves_dtry leaves_derr

lemma leavesD: "leaves ob m \<Longrightarrow> run_state m s = (r, s') \<Longrightarrow> ob s' = ob s"
  unfolding leaves_def by (metis snd_conv)

text \<open>
  What the Docker API documents of named volumes: inspecting tells whether one is there, creating adds it, removing takes it away, a call that fails changes none, and the calls
  on images and containers leave them alone (removing a container with its volumes means the anonymous ones).
\<close>

definition volume_laws :: "'d docker_api \<Rightarrow> ('d \<Rightarrow> string set) \<Rightarrow> bool" where
  "volume_laws D vols \<longleftrightarrow>
     (\<forall>n s r s'. dk_VolumeInspect D n s = (r, s') \<longrightarrow> vols s' = vols s \<and> (\<forall>v. r = Inr v \<longrightarrow> n \<in> vols s) \<and> (\<forall>m. r = Inl (NoSuch m) \<longrightarrow> n \<notin> vols s))
   \<and> (\<forall>v s e s'. dk_VolumeCreate D v s = (e, s') \<longrightarrow> vols s' = (if e = None then insert (dv_Name v) (vols s) else vols s))
   \<and> (\<forall>n s e s'. dk_VolumeRemove D n s = (e, s') \<longrightarrow> vols s' = (if e = None then vols s - {n} else vols s))
   \<and> (\<forall>i. leaves vols (State (dk_ImageInspect D i))) \<and> (\<forall>i. leaves vols (State (dk_ImagePull D i)))
   \<and> (\<forall>c h n. leaves vols (State (dk_ContainerCreate D c h n))) \<and> (\<forall>c. leaves vols (State (dk_ContainerStart D c)))
   \<and> (\<forall>c. leaves vols (State (dk_ContainerWait D c))) \<and> (\<forall>c. leaves vols (State (dk_ContainerLogs D c))) \<and> (\<forall>c. leaves vols (State (dk_ContainerRemove D c)))"

lemma law_inspect:
  assumes "volume_laws D vols" "dk_VolumeInspect D n s = (r, s')"
  shows "vols s' = vols s" "r = Inl (NoSuch m) \<Longrightarrow> n \<notin> vols s"
  using assms unfolding volume_laws_def by (elim conjE, fast)+

lemma law_create: "volume_laws D vols \<Longrightarrow> dk_VolumeCreate D v s = (e, s') \<Longrightarrow> vols s' = (if e = None then insert (dv_Name v) (vols s) else vols s)"
  unfolding volume_laws_def by (elim conjE) fast

lemma law_remove: "volume_laws D vols \<Longrightarrow> dk_VolumeRemove D n s = (e, s') \<Longrightarrow> vols s' = (if e = None then vols s - {n} else vols s)"
  unfolding volume_laws_def by (elim conjE) fast

lemma helper_keeps:
  assumes "volume_laws D vols"
  shows "leaves vols (docker_RunHelper D spec)"
proof -
  have "leaves vols (EnsureImage D i)" for i
    using assms by (auto simp: EnsureImage_def volume_laws_def intro!: leaves_rules split: option.splits)
  moreover have "leaves vols (run_created D c)" for c
    using assms by (auto simp: run_created_def volume_laws_def intro!: leaves_rules)
  ultimately show ?thesis using assms by (auto simp: docker_RunHelper_def volume_laws_def intro!: leaves_rules)
qed

lemma root_helper_keeps: "volume_laws D vols \<Longrightarrow> leaves vols (rootHelper D root sh env)"
  by (simp add: rootHelper_def helper_keeps)

lemma remove_dir_keeps: "volume_laws D vols \<Longrightarrow> leaves vols (removeRootDir D root n)"
  by (auto simp: removeRootDir_def root_helper_keeps intro!: leaves_rules split: option.splits)

lemma create_root_volume:
  assumes "volume_laws D vols" "run_state (createRootVolume D n ls) s = (r, s')"
  shows "vols s' = (case r of Inr _ \<Rightarrow> insert n (vols s) | Inl _ \<Rightarrow> vols s)"
proof (cases "validVolumeName n")
  case None
  let ?lbl = "AList.update LabelVolumeRoot (dk_volumeRoot D) ls"
  let ?run = "rootHelper D (dk_volumeRoot D) (create_script n) [''PGOVERLAY_VOLUME_LABELS='' @ dk_marshal D (withCreatedLabel ?lbl (dk_now D s))]"
  obtain h s1 where h: "run_state ?run s = (h, s1)" by fastforce
  then have v1: "vols s1 = vols s" using leavesD[OF root_helper_keeps[OF assms(1)]] by blast
  show ?thesis
  proof (cases h)
    case (Inl e)
    then have "\<exists>m. (r, s') = (Inl m, s1)" using assms(2) None h by (auto simp: createRootVolume_def Let_def run_dtry)
    then obtain m where "r = Inl m" "s' = s1" by blast
    then show ?thesis using v1 by simp
  next
    case (Inr out)
    let ?v = "\<lparr>dv_Name = n, dv_Driver = ''local'', dv_Options = [(''type'', ''none''), (''o'', ''bind''), (''device'', path_Join (dk_volumeRoot D) n)], dv_Labels = ?lbl, dv_CreatedAt = []\<rparr>"
    obtain e s2 where c: "dk_VolumeCreate D ?v s1 = (e, s2)" by fastforce
    from law_create[OF assms(1) this] have v2: "vols s2 = (if e = None then insert n (vols s1) else vols s1)" by simp
    show ?thesis
    proof (cases e)
      case None
      then have "(r, s') = (Inr (), s2)" using assms(2) \<open>validVolumeName n = None\<close> h Inr c by (simp add: createRootVolume_def Let_def run_dtry run_derr)
      then show ?thesis using v1 v2 None by simp
    next
      case (Some x)
      obtain q s3 where q: "run_state (removeRootDir D (dk_volumeRoot D) n) s2 = (q, s3)" by fastforce
      then have "vols s3 = vols s2" by (rule leavesD[OF remove_dir_keeps[OF assms(1)]])
      moreover have "\<exists>m. (r, s') = (Inl m, s3)"
        using assms(2) \<open>validVolumeName n = None\<close> h Inr c q Some by (auto simp: createRootVolume_def Let_def run_dtry run_derr)
      then obtain m where "r = Inl m" "s' = s3" by blast
      ultimately show ?thesis using v1 v2 Some by simp
    qed
  qed
next
  case (Some e)
  then have "\<exists>m. (r, s') = (Inl m, s)" using assms(2) by (auto simp: createRootVolume_def)
  then show ?thesis by auto
qed

lemma create_volume:
  assumes "volume_laws D vols" "run_state (docker_CreateVolume D n ls) s = (r, s')"
  shows "case r of Inr _ \<Rightarrow> n \<notin> vols s \<and> vols s' = insert n (vols s) | Inl _ \<Rightarrow> vols s' = vols s"
proof (cases "if dk_volumeRoot D \<noteq> [] then validVolumeName n else None")
  case None
  obtain q s1 where q: "dk_VolumeInspect D n s = (q, s1)" by fastforce
  then have l: "vols s1 = vols s" "\<And>m. q = Inl (NoSuch m) \<Longrightarrow> n \<notin> vols s" using law_inspect[OF assms(1)] by blast+
  have run: "run_state (docker_CreateVolume D n ls) s = run_state (case q of Inr v \<Rightarrow> dfail (''create volume '' @ n @ '': volume already exists'')
         | Inl e \<Rightarrow> if \<not> IsErrNotFound e then dfail (''create volume '' @ n @ '': '' @ docker_text e)
             else if dk_volumeRoot D \<noteq> [] then createRootVolume D n ls
             else derr (State (dk_VolumeCreate D \<lparr>dv_Name = n, dv_Driver = [], dv_Options = [], dv_Labels = ls, dv_CreatedAt = []\<rparr>)) (\<lambda>x. dfail (docker_text x)) (dok ())) s1"
    using None q by (cases q) (simp_all add: docker_CreateVolume_def)
  show ?thesis
  proof (cases "\<exists>m. q = Inl (NoSuch m)")
    case absent: True
    show ?thesis
    proof (cases "dk_volumeRoot D = []")
      case True
      obtain e s2 where c: "dk_VolumeCreate D \<lparr>dv_Name = n, dv_Driver = [], dv_Options = [], dv_Labels = ls, dv_CreatedAt = []\<rparr> s1 = (e, s2)" by fastforce
      from law_create[OF assms(1) this] have "vols s2 = (if e = None then insert n (vols s1) else vols s1)" by simp
      moreover have "(r, s') = (case e of None \<Rightarrow> (Inr (), s2) | Some x \<Rightarrow> (Inl (docker_text x), s2))"
        using assms(2) run absent True c by (auto simp: IsErrNotFound_def run_derr split: option.splits)
      ultimately show ?thesis using absent l by (cases e) auto
    next
      case False
      then have "run_state (createRootVolume D n ls) s1 = (r, s')" using assms(2) run absent by (auto simp: IsErrNotFound_def)
      from create_root_volume[OF assms(1) this] show ?thesis using l absent by (auto split: sum.splits)
    qed
  next
    case False
    then have "\<exists>e. r = Inl e" "s' = s1" using assms(2) run by (auto simp: IsErrNotFound_def split: sum.splits docker_error.splits)
    then show ?thesis using l by auto
  qed
next
  case (Some e)
  then have "\<exists>m. (r, s') = (Inl m, s)" using assms(2) by (auto simp: docker_CreateVolume_def split: if_splits)
  then show ?thesis by auto
qed

lemma remove_volume:
  assumes "volume_laws D vols" "run_state (docker_RemoveVolume D n) s = (r, s')"
  shows "case r of Inr _ \<Rightarrow> vols s' = vols s - {n} | Inl _ \<Rightarrow> vols s' = vols s \<or> vols s' = vols s - {n}"
proof -
  obtain q s1 where q: "dk_VolumeInspect D n s = (q, s1)" by fastforce
  then have l: "vols s1 = vols s" "\<And>m. q = Inl (NoSuch m) \<Longrightarrow> n \<notin> vols s" using law_inspect[OF assms(1)] by blast+
  show ?thesis
  proof (cases q)
    case (Inl e)
    let ?m = "if \<not> IsErrNotFound e then dfail (''remove volume '' @ n @ '': '' @ docker_text e)
       else if dk_volumeRoot D \<noteq> [] \<and> validVolumeName n = None then removeRootDir D (dk_volumeRoot D) n else dok ()"
    have run: "run_state ?m s1 = (r, s')" using assms(2) q Inl by (simp add: docker_RemoveVolume_def run_dtry)
    have "leaves vols ?m" using remove_dir_keeps[OF assms(1)] by simp
    from leavesD[OF this run] have "vols s' = vols s" using l by simp
    moreover have "n \<notin> vols s" if "r = Inr x" for x using run that l Inl by (cases e) (auto simp: IsErrNotFound_def)
    ultimately show ?thesis by (auto split: sum.splits)
  next
    case (Inr v)
    obtain e s2 where c: "dk_VolumeRemove D n s1 = (e, s2)" by fastforce
    from law_remove[OF assms(1) this] have v2: "vols s2 = (if e = None then vols s1 - {n} else vols s1)" .
    show ?thesis
    proof (cases e)
      case None
      let ?m = "case rootVolumeDir v of Some root \<Rightarrow> removeRootDir D root n | None \<Rightarrow> dok ()"
      have "run_state ?m s2 = (r, s')" using assms(2) q Inr c None by (simp add: docker_RemoveVolume_def run_dtry run_derr)
      moreover have "leaves vols ?m" using remove_dir_keeps[OF assms(1)] by (auto split: option.splits)
      ultimately have "vols s' = vols s2" by (rule leavesD[rotated])
      then show ?thesis using v2 None l by (auto split: sum.splits)
    next
      case (Some x)
      then have "(r, s') = (Inl (docker_text x), s2)" using assms(2) q Inr c by (simp add: docker_RemoveVolume_def run_dtry run_derr)
      then show ?thesis using v2 Some l by auto
    qed
  qed
qed


text \<open>A small daemon on which no container starts.\<close>

definition demo_docker :: "(string set \<times> string set) docker_api" where
  "demo_docker = \<lparr>dk_ImageInspect = (\<lambda>i s. (True, s)), dk_ImagePull = (\<lambda>i s. (Inr None, s)),
     dk_VolumeInspect = (\<lambda>n s. (if n \<in> fst s then Inr \<lparr>dv_Name = n, dv_Driver = [], dv_Options = [], dv_Labels = [], dv_CreatedAt = []\<rparr> else Inl (NoSuch ''no such volume''), s)),
     dk_VolumeCreate = (\<lambda>v s. (None, (insert (dv_Name v) (fst s), snd s))), dk_VolumeRemove = (\<lambda>n s. (None, (fst s - {n}, snd s))), dk_VolumeList = (\<lambda>ls s. (Inr [], s)),
     dk_ContainerCreate = (\<lambda>c h n s. (Inr ''c'', (fst s, insert ''c'' (snd s)))), dk_ContainerStart = (\<lambda>c s. (Some (DaemonError ''port is already allocated''), s)),
     dk_ContainerWait = (\<lambda>c s. (Inr 0, s)), dk_ContainerLogs = (\<lambda>c s. ([], s)), dk_ContainerStop = (\<lambda>c s. (None, s)), dk_ContainerRemove = (\<lambda>c s. (None, (fst s, snd s - {c}))),
     dk_ContainerInspect = (\<lambda>c s. (if c \<in> snd s then Inr \<lparr>dj_ID = c, dj_Labels = [], dj_State = None, dj_Created = [], dj_HostPort = None\<rparr> else Inl (NoSuch ''no such container''), s)),
     dk_ContainerList = (\<lambda>ls s. (Inr [], s)), dk_ExecCreate = (\<lambda>c u cmd s. (Inr ''e'', s)), dk_ExecAttach = (\<lambda>e s. (Inr ([], None), s)), dk_ExecInspect = (\<lambda>e s. (Inr (False, 0), s)),
     dk_pickHostPort = (\<lambda>s. (Inr 40000, s)), dk_pause = (\<lambda>d s. (Elapsed, s)), dk_ctxErr = [], dk_polls = 3, dk_now = (\<lambda>s. of_instant 0), dk_marshal = (\<lambda>ls. []),
     dk_unmarshal = (\<lambda>b. []), dk_volumeRoot = []\<rparr>"

lemma demo_volume_laws: "volume_laws demo_docker fst"
  by (auto simp: volume_laws_def demo_docker_def leaves_def split: if_splits)


section \<open>Branches\<close>

text \<open>What the Docker API documents of containers: only a create adds one, and one that is not found is not there.\<close>

definition container_laws :: "'d docker_api \<Rightarrow> ('d \<Rightarrow> string set) \<Rightarrow> bool" where
  "container_laws D ctrs \<longleftrightarrow>
     (\<forall>i. narrows ctrs (State (dk_ImageInspect D i))) \<and> (\<forall>i. narrows ctrs (State (dk_ImagePull D i))) \<and> narrows ctrs (State (dk_pickHostPort D))
   \<and> (\<forall>c. narrows ctrs (State (dk_ContainerStart D c))) \<and> (\<forall>c. narrows ctrs (State (dk_ContainerStop D c))) \<and> (\<forall>c. narrows ctrs (State (dk_ContainerRemove D c)))
   \<and> (\<forall>c. narrows ctrs (State (dk_ContainerInspect D c))) \<and> (\<forall>d. narrows ctrs (State (dk_pause D d)))
   \<and> (\<forall>c m s s'. dk_ContainerInspect D c s = (Inl (NoSuch m), s') \<longrightarrow> c \<notin> ctrs s')
   \<and> (\<forall>c h n s r s'. dk_ContainerCreate D c h n s = (r, s') \<longrightarrow> ctrs s' \<subseteq> ctrs s \<union> (case r of Inr x \<Rightarrow> {x} | Inl e \<Rightarrow> {}))"

lemma demo_container_laws: "container_laws demo_docker snd"
  by (auto simp: container_laws_def demo_docker_def narrows_def split: if_splits)

lemma narrowsD: "narrows ob m \<Longrightarrow> run_state m s = (r, s') \<Longrightarrow> ob s' \<subseteq> ob s"
  unfolding narrows_def by (metis snd_conv)

lemma narrows_call: "narrows ob (State f) \<Longrightarrow> f s = (r, s') \<Longrightarrow> ob s' \<subseteq> ob s"
  by (rule narrowsD[of ob "State f"]) simp_all

lemma ctr_shrink:
  assumes "container_laws D ctrs"
  shows "narrows ctrs (State (dk_ImageInspect D i))" "narrows ctrs (State (dk_ImagePull D i))" "narrows ctrs (State (dk_pickHostPort D))"
    "narrows ctrs (State (dk_ContainerStart D c))" "narrows ctrs (State (dk_ContainerStop D c))" "narrows ctrs (State (dk_ContainerRemove D c))"
    "narrows ctrs (State (dk_ContainerInspect D c))" "narrows ctrs (State (dk_pause D d))"
  using assms by (simp_all add: container_laws_def)

lemma ctr_gone: "container_laws D ctrs \<Longrightarrow> dk_ContainerInspect D c s = (Inl (NoSuch m), s') \<Longrightarrow> c \<notin> ctrs s'"
  unfolding container_laws_def by (elim conjE) blast

lemma ctr_create:
  "container_laws D ctrs \<Longrightarrow> dk_ContainerCreate D cc h n s = (r, s') \<Longrightarrow> ctrs s' \<subseteq> ctrs s \<union> (case r of Inr x \<Rightarrow> {x} | Inl e \<Rightarrow> {})"
  unfolding container_laws_def by (elim conjE) blast

lemmas ctr_laws = ctr_shrink[THEN narrows_call]

lemma gone_loop_gone:
  assumes "container_laws D ctrs"
  shows "run_state (gone_loop n D cid) s = (r, s') \<Longrightarrow> ctrs s' \<subseteq> ctrs s \<and> (r = None \<longrightarrow> cid \<notin> ctrs s')"
proof (induction n arbitrary: s)
  have shr: "dk_ContainerInspect D cid s = (q, t) \<Longrightarrow> ctrs t \<subseteq> ctrs s \<and> (\<forall>m. q = Inl (NoSuch m) \<longrightarrow> cid \<notin> ctrs t)" for q s t
    using ctr_laws(7)[OF assms] ctr_gone[OF assms] by blast
  case 0
  then show ?case using shr by (subst (asm) gone_loop.simps) (auto simp: Let_def split: prod.splits sum.splits docker_error.splits)
next
  case (Suc n)
  have shr: "dk_ContainerInspect D cid s = (q, t) \<Longrightarrow> ctrs t \<subseteq> ctrs s \<and> (\<forall>m. q = Inl (NoSuch m) \<longrightarrow> cid \<notin> ctrs t)" for q s t
    using ctr_laws(7)[OF assms] ctr_gone[OF assms] by blast
  obtain q t where q: "dk_ContainerInspect D cid s = (q, t)" by fastforce
  obtain p u where p: "dk_pause D removePoll t = (p, u)" by fastforce
  have ctrs: "ctrs t \<subseteq> ctrs s" "ctrs u \<subseteq> ctrs s" using shr[OF q] ctr_laws(8)[OF assms p] by auto
  have cases: "(\<exists>m. q = Inl (NoSuch m)) \<and> (r, s') = (None, t) \<or> run_state (gone_loop n D cid) u = (r, s') \<or> (\<exists>m. (r, s') = (Some m, u))"
    using Suc.prems q p by (subst (asm) gone_loop.simps) (auto simp: Let_def split: sum.splits docker_error.splits pause.splits)
  then show ?case using Suc.IH[of u] shr[OF q] ctrs by auto
qed

lemma stop_remove_gone:
  assumes "container_laws D ctrs" "run_state (docker_StopRemove D cid) s = (r, s')"
  shows "ctrs s' \<subseteq> ctrs s \<and> (r = None \<longrightarrow> cid \<notin> ctrs s')"
proof -
  obtain a t where a: "dk_ContainerStop D cid s = (a, t)" by fastforce
  obtain b u where b: "dk_ContainerRemove D cid t = (b, u)" by fastforce
  have "ctrs t \<subseteq> ctrs s" "ctrs u \<subseteq> ctrs t" using ctr_laws(5)[OF assms(1) a] ctr_laws(6)[OF assms(1) b] .
  moreover have "run_state (gone_loop (nat (removeWait div removePoll)) D cid) u = (r, s') \<or> (\<exists>m. r = Some m) \<and> s' = u"
    using assms(2) a b by (auto simp: docker_StopRemove_def split: option.splits if_splits)
  ultimately show ?thesis using gone_loop_gone[OF assms(1)] by blast
qed

definition removal_failed :: "string \<Rightarrow> bool" where
  "removal_failed e \<longleftrightarrow> (\<exists>a rm. e = a @ '' (removing the failed container: '' @ rm @ '')'')"

lemma start_loop_clean:
  assumes "container_laws D ctrs"
  shows "run_state (start_loop n D spec le) s = (r, s') \<Longrightarrow> case r of Inr cid \<Rightarrow> ctrs s' \<subseteq> insert cid (ctrs s) | Inl e \<Rightarrow> ctrs s' \<subseteq> ctrs s \<or> removal_failed e"
proof (induction n arbitrary: s le)
  case (Suc n)
  obtain p t where p: "dk_pickHostPort D s = (p, t)" by fastforce
  note t = ctr_laws(3)[OF assms p]
  show ?case
  proof (cases p)
    case (Inl e)
    then show ?thesis using Suc.prems p t by (auto simp: run_dtry)
  next
    case (Inr port)
    obtain c u where c: "dk_ContainerCreate D (branch_config spec) (branch_host spec port) (bs_Name spec) t = (c, u)" by fastforce
    note u = ctr_create[OF assms c]
    show ?thesis
    proof (cases c)
      case (Inl e)
      then have "\<exists>m. (r, s') = (Inl m, u)" using Suc.prems p \<open>p = Inr port\<close> c by (auto simp: run_dtry)
      moreover have "ctrs u \<subseteq> ctrs s" using order_trans[OF u] t Inl by simp
      ultimately show ?thesis by auto
    next
      case (Inr cid)
      obtain st v where st: "dk_ContainerStart D cid u = (st, v)" by fastforce
      note v = ctr_laws(4)[OF assms st]
      show ?thesis
      proof (cases st)
        case None
        then have "(r, s') = (Inr cid, v)" using Suc.prems p \<open>p = Inr port\<close> c Inr st by (simp add: run_dtry run_derr)
        then show ?thesis using t u v Inr by auto
      next
        case (Some e)
        obtain rm x where x: "run_state (docker_StopRemove D cid) v = (rm, x)" by fastforce
        from stop_remove_gone[OF assms this] have gone: "ctrs x \<subseteq> ctrs v" "rm = None \<Longrightarrow> cid \<notin> ctrs x" by auto
        show ?thesis
        proof (cases rm)
          case (Some m)
          have "r = Inl ((''start branch container: '' @ docker_text e) @ '' (removing the failed container: '' @ m @ '')'')"
            using Suc.prems p \<open>p = Inr port\<close> c Inr st \<open>st = Some e\<close> x Some by (auto simp: run_dtry run_derr Let_def)
          moreover have "removal_failed ((''start branch container: '' @ docker_text e) @ '' (removing the failed container: '' @ m @ '')'')"
            unfolding removal_failed_def by blast
          ultimately show ?thesis by (simp only: sum.case) blast
        next
          case None
          then have sub: "ctrs x \<subseteq> ctrs s" using gone t u v Inr by auto
          have "run_state (start_loop n D spec (''start branch container: '' @ docker_text e)) x = (r, s') \<or> (\<exists>m. (r, s') = (Inl m, x))"
            using Suc.prems p \<open>p = Inr port\<close> c Inr st \<open>st = Some e\<close> x None by (auto simp: run_dtry run_derr Let_def split: if_splits)
          then show ?thesis
          proof
            assume "run_state (start_loop n D spec (''start branch container: '' @ docker_text e)) x = (r, s')"
            from Suc.IH[OF this] show ?thesis using sub by (cases r) auto
          next
            assume "\<exists>m. (r, s') = (Inl m, x)"
            then show ?thesis using sub by auto
          qed
        qed
      qed
    qed
  qed
qed auto

text \<open>
  (C35) A branch that does not start leaves no container behind, however often the port was taken, unless the error says that removing one failed; one that starts adds exactly the
  container returned.
\<close>

theorem start_leaves_nothing:
  assumes "container_laws D ctrs" "run_state (docker_StartBranch D spec) s = (r, s')"
  shows "case r of Inr cid \<Rightarrow> ctrs s' \<subseteq> insert cid (ctrs s) | Inl e \<Rightarrow> ctrs s' \<subseteq> ctrs s \<or> removal_failed e"
proof -
  obtain a t where a: "dk_ImageInspect D (bs_Image spec) s = (a, t)" by fastforce
  obtain b u where b: "dk_ImagePull D (bs_Image spec) t = (b, u)" by fastforce
  have sub: "ctrs t \<subseteq> ctrs s" "ctrs u \<subseteq> ctrs t" using ctr_laws(1)[OF assms(1) a] ctr_laws(2)[OF assms(1) b] .
  have "(\<exists>v. ctrs v \<subseteq> ctrs s \<and> run_state (start_loop startBranchAttempts D spec []) v = (r, s')) \<or> (\<exists>e. r = Inl e) \<and> s' = u"
    using assms(2) a b sub by (auto simp: docker_StartBranch_def EnsureImage_def run_dtry split: if_splits sum.splits option.splits)
  then show ?thesis
  proof (elim disjE exE conjE)
    fix v assume v: "ctrs v \<subseteq> ctrs s" "run_state (start_loop startBranchAttempts D spec []) v = (r, s')"
    from start_loop_clean[OF assms(1) v(2)] v(1) show ?thesis by (cases r) auto
  next
    fix e assume "r = Inl e" "s' = u"
    then show ?thesis using sub by auto
  qed
qed

definition demo_start_spec :: BranchSpec where
  "demo_start_spec = \<lparr>bs_Name = ''b'', bs_Image = ''i'', bs_Env = [], bs_Mounts = [], bs_Entrypoint = [], bs_Labels = [], bs_Network = []\<rparr>"

theorem start_leaves_nothing_witness:
  "\<exists>r s'. run_state (docker_StartBranch demo_docker demo_start_spec) ({}, {''x''}) = (r, s')
     \<and> (case r of Inr cid \<Rightarrow> snd s' \<subseteq> insert cid {''x''} | Inl e \<Rightarrow> snd s' \<subseteq> {''x''} \<or> removal_failed e)"
proof -
  obtain r s' where run: "run_state (docker_StartBranch demo_docker demo_start_spec) ({}, {''x''}) = (r, s')" by (metis surj_pair)
  show ?thesis using run start_leaves_nothing[OF demo_container_laws run] by (intro exI[of _ r] exI[of _ s']) (cases r; simp)
qed

section \<open>Directories\<close>

lemma valid_volume_name:
  "validVolumeName n = None \<longleftrightarrow> (\<exists>c cs. n = c # cs \<and> low_alnum c \<and> length cs \<le> 200 \<and> list_all (\<lambda>c. low_alnum c \<or> c = CHR ''.'' \<or> c = CHR ''-'') cs)"
  by (cases n) (simp_all add: validVolumeName_def volumeNameRe_def rx_match_iff matches_Seq_Chars matches_upto_Chars)

lemma clean_parts_snoc:
  "p \<noteq> [] \<Longrightarrow> p \<noteq> ''.'' \<Longrightarrow> p \<noteq> ''..'' \<Longrightarrow> clean_parts b acc (ps @ [p]) = clean_parts b acc ps @ [p]"
  by (induction b acc ps rule: clean_parts.induct) auto

lemma split_on_snoc: "c \<notin> set w \<Longrightarrow> split_on c (s @ c # w) = split_on c s @ [w]"
proof (induction s)
  case Nil
  then show ?case by (simp add: split_on_word)
next
  case (Cons x s)
  then show ?case by (auto split: list.splits)
qed

lemma join_snoc: "xs \<noteq> [] \<Longrightarrow> join_with sep (xs @ [w]) = join_with sep xs @ sep @ w"
  by (induction sep xs rule: join_with.induct) auto

lemma clean_child:
  assumes "has_prefix ''/'' root" "path_Clean root = root" "root \<noteq> ''/''" "CHR ''/'' \<notin> set n" "n \<noteq> []" "n \<noteq> ''.''" "n \<noteq> ''..''"
  shows "path_Clean (root @ ''/'' @ n) = root @ ''/'' @ n"
proof -
  let ?ps = "clean_parts True [] (split_on (CHR ''/'') root)"
  have root: "root = ''/'' @ join_with ''/'' ?ps" using assms(1,2) by (simp add: path_Clean_def Let_def)
  then have "?ps \<noteq> []" using assms(3) by (metis append_Nil2 join_with.simps(1))
  moreover have "clean_parts True [] (split_on (CHR ''/'') (root @ ''/'' @ n)) = ?ps @ [n]"
    using assms(4-7) by (simp add: split_on_snoc clean_parts_snoc)
  moreover have "has_prefix ''/'' (root @ ''/'' @ n)" using assms(1) by (cases root) (auto simp: has_prefix_def)
  ultimately have "path_Clean (root @ ''/'' @ n) = ''/'' @ join_with ''/'' ?ps @ ''/'' @ n" by (simp add: path_Clean_def Let_def join_snoc)
  then show ?thesis using root by (metis append.assoc)
qed



end
