(* ===== verification/Kube.thy ===== *)
theory Kube
  imports Docker
begin

text \<open>
  The Kubernetes driver (\<^verbatim>\<open>src/internal/runtime/kube.go\<close>, \<^verbatim>\<open>kube_podspec.go\<close>, \<^verbatim>\<open>kube_csi.go\<close>, \<^verbatim>\<open>kube_diagnose.go\<close>): the pods, Secrets and claims it builds, the wait for a helper pod, and how each call
  of the driver interface is made of calls of the API server. The API server is a parameter: a record of functions on a cluster state of any type.
\<close>

section \<open>Objects\<close>

text \<open>The fields of the Kubernetes objects that the driver sets or reads. A variable of a container has a value or is a reference into a Secret.\<close>

datatype env_value = Literal string | SecretKeyRef string string

datatype volume_source = HostPath string bool | VolumeClaim string bool

record pod_volume =
  pv_Name :: string
  pv_Source :: volume_source

record volume_mount =
  vm_Name :: string
  vm_Path :: string
  vm_ReadOnly :: bool

datatype seccomp = Unconfined | RuntimeDefault

record security_context =
  sc_Privileged :: bool
  sc_CapAdd :: "string list"
  sc_Seccomp :: "seccomp option"
  sc_AppArmorUnconfined :: bool
  sc_NoEscalation :: bool
  sc_RunAs :: "(int \<times> int) option"

record object_meta =
  om_Name :: string
  om_Namespace :: string
  om_Labels :: labels
  om_Owner :: "(string \<times> string) option"

record kube_container =
  kc_Name :: string
  kc_Image :: string
  kc_Command :: "string list"
  kc_Env :: "(string \<times> env_value) list"
  kc_Mounts :: "volume_mount list"
  kc_Port5432 :: bool
  kc_Security :: security_context

record pod_spec =
  kp_NodeName :: string
  kp_RestartAlways :: bool
  kp_Automount :: bool
  kp_Volumes :: "pod_volume list"
  kp_Containers :: "kube_container list"

record container_status =
  cst_Name :: string
  cst_Waiting :: "(string \<times> string) option"
  cst_Running :: bool
  cst_Terminated :: "(int \<times> string \<times> string) option"
  cst_LastTerminated :: "(int \<times> string \<times> string) option"

record pod_condition =
  pc_Type :: string
  pc_Status :: string
  pc_Reason :: string
  pc_Message :: string

record pod =
  pod_Meta :: object_meta
  pod_Spec :: pod_spec
  pod_Phase :: string
  pod_Reason :: string
  pod_Message :: string
  pod_Conditions :: "pod_condition list"
  pod_Statuses :: "container_status list"
  pod_IP :: string
  pod_Deleting :: bool
  pod_Created :: gotime

record secret =
  se_Meta :: object_meta
  se_Immutable :: bool
  se_Data :: "(string \<times> string) list"

text \<open>A claim's data source: nothing, another claim, or a snapshot.\<close>

datatype data_source = Empty | CloneOf string | RestoreOf string

record volume_claim =
  cl_Meta :: object_meta
  cl_StorageClass :: string
  cl_Size :: string
  cl_DataSource :: data_source

section \<open>Pod specifications\<close>

definition helperContainerName :: string where "helperContainerName = ''helper''"
definition branchContainerName_kube :: string where "branchContainerName_kube = ''postgres''"

definition volumeHostPath :: "string \<Rightarrow> string \<Rightarrow> string" where "volumeHostPath dataRoot volume = path_Join dataRoot volume"

text \<open>\<open>strings.Cut(e, "=")\<close>.\<close>

definition env_key :: "string \<Rightarrow> string" where "env_key e = (case cut (CHR ''='') e of None \<Rightarrow> e | Some (k, v) \<Rightarrow> k)"
definition env_val :: "string \<Rightarrow> string" where "env_val e = (case cut (CHR ''='') e of None \<Rightarrow> [] | Some (k, v) \<Rightarrow> v)"

definition kubeEnv :: "string list \<Rightarrow> (string \<times> env_value) list" where
  "kubeEnv env = map (\<lambda>e. (env_key e, Literal (env_val e))) env"

definition helperEnv :: "string \<Rightarrow> string list \<Rightarrow> (string \<times> env_value) list" where
  "helperEnv secretName env = map (\<lambda>e. (env_key e, SecretKeyRef secretName (env_key e))) env"

definition vol_name :: "nat \<Rightarrow> string" where "vol_name i = ''vol-'' @ nat_dec i"

definition hostPathPodVolumes :: "string \<Rightarrow> Mount list \<Rightarrow> pod_volume list \<times> volume_mount list" where
  "hostPathPodVolumes dataRoot ms =
     (map (\<lambda>(i, m). \<lparr>pv_Name = vol_name i, pv_Source = (if mnt_Kind m = MountHostPath then HostPath (mnt_Volume m) False else HostPath (volumeHostPath dataRoot (mnt_Volume m)) True)\<rparr>) (enumerate 0 ms),
      map (\<lambda>(i, m). \<lparr>vm_Name = vol_name i, vm_Path = mnt_Target m, vm_ReadOnly = mnt_ReadOnly m\<rparr>) (enumerate 0 ms))"

definition csiPodVolumes :: "Mount list \<Rightarrow> pod_volume list \<times> volume_mount list" where
  "csiPodVolumes ms =
     (map (\<lambda>(i, m). \<lparr>pv_Name = vol_name i, pv_Source = (if mnt_Kind m = MountHostPath then HostPath (mnt_Volume m) False else VolumeClaim (mnt_Volume m) (mnt_ReadOnly m))\<rparr>) (enumerate 0 ms),
      map (\<lambda>(i, m). \<lparr>vm_Name = vol_name i, vm_Path = mnt_Target m, vm_ReadOnly = mnt_ReadOnly m\<rparr>) (enumerate 0 ms))"

definition buildHelperSecret :: "object_meta \<Rightarrow> string list \<Rightarrow> secret option" where
  "buildHelperSecret meta env = (if env = [] then None
     else Some \<lparr>se_Meta = meta, se_Immutable = True, se_Data = fold (\<lambda>e d. AList.update (env_key e) (env_val e) d) env []\<rparr>)"

definition helperObjectMeta :: "string \<Rightarrow> string \<Rightarrow> string \<Rightarrow> (string \<times> string) option \<Rightarrow> object_meta" where
  "helperObjectMeta namespace name inst owner = \<lparr>om_Name = name, om_Namespace = namespace,
     om_Labels = [(''pgoverlay.managed'', ''true''), (''pgoverlay.role'', ''helper'')] @ (if inst \<noteq> [] then [(LabelInstance, inst)] else []), om_Owner = owner\<rparr>"

definition no_context :: security_context where
  "no_context = \<lparr>sc_Privileged = False, sc_CapAdd = [], sc_Seccomp = None, sc_AppArmorUnconfined = False, sc_NoEscalation = False, sc_RunAs = None\<rparr>"

definition runAsIDs :: "string \<Rightarrow> int \<times> int" where
  "runAsIDs user = (let (u, g) = (case cut (CHR '':'') user of None \<Rightarrow> (user, None) | Some (a, b) \<Rightarrow> (a, Some b))
     in case ParseInt64 u of (uid, okay) \<Rightarrow>
       if \<not> okay \<or> uid < 0 then (999, 999)
       else (case g of None \<Rightarrow> (uid, uid)
         | Some gs \<Rightarrow> (case ParseInt64 gs of (gid, gok) \<Rightarrow> if \<not> gok \<or> gid < 0 then (999, 999) else (uid, gid))))"

definition helperSecurityContext :: "HelperSpec \<Rightarrow> security_context" where
  "helperSecurityContext spec =
     (let base = (if hs_Privileged spec then no_context\<lparr>sc_Privileged := True\<rparr>
        else if hs_SysAdmin spec then no_context\<lparr>sc_CapAdd := [''SYS_ADMIN''], sc_Seccomp := Some Unconfined, sc_AppArmorUnconfined := True\<rparr>
        else no_context\<lparr>sc_NoEscalation := True, sc_Seccomp := Some RuntimeDefault\<rparr>)
      in if hs_User spec \<noteq> [] then base\<lparr>sc_RunAs := Some (runAsIDs (hs_User spec))\<rparr> else base)"

text \<open>The storage strategies.\<close>

datatype kubeStorage = hostPathStorage string string | csiStorage string string string

fun podVolumes :: "kubeStorage \<Rightarrow> Mount list \<Rightarrow> pod_volume list \<times> volume_mount list" where
  "podVolumes (hostPathStorage node dataRoot) ms = hostPathPodVolumes dataRoot ms"
| "podVolumes (csiStorage sc snap sz) ms = csiPodVolumes ms"

fun nodeName :: "kubeStorage \<Rightarrow> string" where
  "nodeName (hostPathStorage node dataRoot) = node"
| "nodeName (csiStorage sc snap sz) = []"

fun branchSecurityContext :: "kubeStorage \<Rightarrow> security_context" where
  "branchSecurityContext (hostPathStorage node dataRoot) = no_context\<lparr>sc_CapAdd := [''SYS_ADMIN''], sc_Seccomp := Some Unconfined, sc_AppArmorUnconfined := True\<rparr>"
| "branchSecurityContext (csiStorage sc snap sz) = no_context\<lparr>sc_NoEscalation := True, sc_Seccomp := Some RuntimeDefault\<rparr>"

definition new_pod :: "object_meta \<Rightarrow> pod_spec \<Rightarrow> pod" where
  "new_pod meta spec = \<lparr>pod_Meta = meta, pod_Spec = spec, pod_Phase = [], pod_Reason = [], pod_Message = [], pod_Conditions = [], pod_Statuses = [], pod_IP = [], pod_Deleting = False,
     pod_Created = of_instant 0\<rparr>"

definition buildHelperPod :: "object_meta \<Rightarrow> kubeStorage \<Rightarrow> HelperSpec \<Rightarrow> pod" where
  "buildHelperPod meta st spec = (let (vols, mounts) = podVolumes st (hs_Mounts spec)
     in new_pod meta \<lparr>kp_NodeName = nodeName st, kp_RestartAlways = False, kp_Automount = False, kp_Volumes = vols,
          kp_Containers = [\<lparr>kc_Name = helperContainerName, kc_Image = hs_Image spec, kc_Command = hs_Cmd spec, kc_Env = helperEnv (om_Name meta) (hs_Env spec), kc_Mounts = mounts,
            kc_Port5432 = False, kc_Security = helperSecurityContext spec\<rparr>]\<rparr>)"

definition buildBranchPod :: "string \<Rightarrow> kubeStorage \<Rightarrow> BranchSpec \<Rightarrow> pod" where
  "buildBranchPod namespace st spec = (let (vols, mounts) = podVolumes st (bs_Mounts spec)
     in new_pod \<lparr>om_Name = bs_Name spec, om_Namespace = namespace, om_Labels = bs_Labels spec, om_Owner = None\<rparr>
          \<lparr>kp_NodeName = nodeName st, kp_RestartAlways = True, kp_Automount = False, kp_Volumes = vols,
           kp_Containers = [\<lparr>kc_Name = branchContainerName_kube, kc_Image = bs_Image spec, kc_Command = bs_Entrypoint spec, kc_Env = kubeEnv (bs_Env spec), kc_Mounts = mounts,
             kc_Port5432 = True, kc_Security = branchSecurityContext st\<rparr>]\<rparr>)"

definition buildPVC :: "string \<Rightarrow> string \<Rightarrow> string \<Rightarrow> string \<Rightarrow> labels \<Rightarrow> data_source \<Rightarrow> volume_claim" where
  "buildPVC namespace name storageClass sz ls src =
     \<lparr>cl_Meta = \<lparr>om_Name = name, om_Namespace = namespace, om_Labels = ls, om_Owner = None\<rparr>, cl_StorageClass = storageClass, cl_Size = sz, cl_DataSource = src\<rparr>"

definition snapshotName :: "string \<Rightarrow> string" where "snapshotName dst = dst @ ''-snap''"

section \<open>Pod status\<close>

definition startFailureReasons :: "string list" where
  "startFailureReasons = [''ErrImagePull'', ''ImagePullBackOff'', ''InvalidImageName'', ''ErrImageNeverPull'', ''CreateContainerConfigError'']"

definition podContainerStatus :: "pod \<Rightarrow> container_status option" where
  "podContainerStatus p = (case kp_Containers (pod_Spec p) of [] \<Rightarrow> None | c # _ \<Rightarrow> find (\<lambda>cs. cst_Name cs = kc_Name c) (pod_Statuses p))"

definition podStarted :: "pod \<Rightarrow> bool" where
  "podStarted p = (pod_Phase p \<in> {''Running'', ''Succeeded'', ''Failed''}
     \<or> (case podContainerStatus p of None \<Rightarrow> False | Some cs \<Rightarrow> cst_Running cs \<or> cst_Terminated cs \<noteq> None))"

definition reasonMessage :: "string \<Rightarrow> string \<Rightarrow> string" where
  "reasonMessage reason message0 = (let message = TrimSpace message0 in if reason = [] then message else if message = [] then reason else reason @ '': '' @ message)"

definition podStartFailure :: "pod \<Rightarrow> string" where
  "podStartFailure p = (case podContainerStatus p of None \<Rightarrow> []
     | Some cs \<Rightarrow> (case cst_Waiting cs of None \<Rightarrow> []
         | Some (r, m) \<Rightarrow> if r \<notin> set startFailureReasons then [] else ''container '' @ cst_Name cs @ '' waiting: '' @ reasonMessage r m))"

definition podNotRunning :: "pod \<Rightarrow> string" where
  "podNotRunning p = (let cs = podContainerStatus p
     in if pod_Phase p = ''Running'' \<and> (case cs of None \<Rightarrow> True | Some s \<Rightarrow> cst_Running s) then []
        else join_with ''; '' ([''phase '' @ (if pod_Phase p = [] then ''Pending'' else pod_Phase p)]
          @ (if pod_Reason p \<noteq> [] \<or> pod_Message p \<noteq> [] then [reasonMessage (pod_Reason p) (pod_Message p)] else [])
          @ map (\<lambda>c. ''not scheduled: '' @ reasonMessage (pc_Reason c) (pc_Message c)) (filter (\<lambda>c. pc_Type c = ''PodScheduled'' \<and> pc_Status c = ''False'') (pod_Conditions p))
          @ (case cs of None \<Rightarrow> [] | Some s \<Rightarrow>
               (case cst_Waiting s of Some (r, m) \<Rightarrow> if r \<noteq> [] then [''container '' @ cst_Name s @ '' waiting: '' @ reasonMessage r m] else [] | None \<Rightarrow> [])
             @ (case cst_Terminated s of Some (code, r, m) \<Rightarrow> [''container '' @ cst_Name s @ '' exited '' @ int_dec code @ '': '' @ reasonMessage r m]
                | None \<Rightarrow> (case cst_LastTerminated s of Some (code, r, m) \<Rightarrow> [''last exit '' @ int_dec code @ '': '' @ reasonMessage r m] | None \<Rightarrow> [])))))"

definition podInfo :: "pod \<Rightarrow> ContainerInfo" where
  "podInfo p = (let running = (pod_Phase p = ''Running'' \<and> \<not> pod_Deleting p)
     in \<lparr>ci_ID = om_Name (pod_Meta p), ci_Running = running, ci_Stopped = (pod_Phase p = ''Failed'' \<or> pod_Phase p = ''Succeeded''),
         ci_Status = pod_Phase p @ (if pod_Reason p \<noteq> [] then '' ('' @ pod_Reason p @ '')'' else []) @ (if pod_Deleting p then '' (terminating)'' else []),
         ci_Host = (if running then pod_IP p else []), ci_Port = 5432, ci_Created = Some (pod_Created p), ci_Labels = om_Labels (pod_Meta p)\<rparr>)"

definition fatalWaitingReasons :: "string list" where
  "fatalWaitingReasons = [''ImagePullBackOff'', ''InvalidImageName'', ''ErrImageNeverPull'', ''CreateContainerConfigError'', ''CreateContainerError'', ''CrashLoopBackOff'']"

fun diagnose_statuses :: "string \<Rightarrow> container_status list \<Rightarrow> string \<times> bool \<times> bool" where
  "diagnose_statuses name [] = ([], False, False)"
| "diagnose_statuses name (cs # rest) =
     (let after = (case cst_Terminated cs of Some (code, r, m) \<Rightarrow> (''pod '' @ name @ '' container '' @ cst_Name cs @ '' exited '' @ int_dec code @ '': '' @ r @ '' '' @ m, False, True)
            | None \<Rightarrow> diagnose_statuses name rest)
      in case cst_Waiting cs of None \<Rightarrow> after
         | Some (r, m) \<Rightarrow> if r = [] \<or> r = ''ContainerCreating'' \<or> r = ''PodInitializing'' then after
             else (''pod '' @ name @ '' container '' @ cst_Name cs @ '' waiting: '' @ r @ (if m \<noteq> [] then '': '' @ m else [])
                   @ (case cst_LastTerminated cs of Some (code, lr, lm) \<Rightarrow> '' (last exit '' @ int_dec code @ '': '' @ lr @ '')'' | None \<Rightarrow> []),
                   r \<in> set fatalWaitingReasons, cst_LastTerminated cs \<noteq> None))"

definition diagnosePod :: "pod \<Rightarrow> string \<times> bool \<times> bool" where
  "diagnosePod p = (case find (\<lambda>c. pc_Type c = ''PodScheduled'' \<and> pc_Status c = ''False'') (pod_Conditions p) of
     Some c \<Rightarrow> (''pod '' @ om_Name (pod_Meta p) @ '' not scheduled: '' @ pc_Reason c @ '': '' @ pc_Message c, False, False)
   | None \<Rightarrow> diagnose_statuses (om_Name (pod_Meta p)) (pod_Statuses p))"

section \<open>The progress of a helper\<close>

record helperProgress =
  hp_startTimeout :: int
  hp_failureGrace :: int
  hp_created :: gotime
  hp_started :: bool
  hp_failure :: string
  hp_failureSince :: gotime
  hp_last :: "pod option"

text \<open>The phase when it is terminal, and whether this is the first sighting of a started container.\<close>

definition progress_observe :: "pod \<Rightarrow> gotime \<Rightarrow> helperProgress \<Rightarrow> (string option \<times> bool) \<times> helperProgress" where
  "progress_observe pd now p =
     (let just = (\<not> hp_started p \<and> podStarted pd); f = podStartFailure pd;
          p1 = p\<lparr>hp_last := Some pd, hp_started := hp_started p \<or> just\<rparr>;
          p2 = (if f = [] then p1\<lparr>hp_failure := []\<rparr> else if hp_failure p = [] then p1\<lparr>hp_failure := f, hp_failureSince := now\<rparr> else p1\<lparr>hp_failure := f\<rparr>)
      in ((if pod_Phase pd \<in> {''Succeeded'', ''Failed''} then Some (pod_Phase pd) else None, just), p2))"

definition progress_deadline :: "helperProgress \<Rightarrow> gotime option" where
  "progress_deadline p =
     (let start = (if \<not> hp_started p then Some (time_add (hp_created p) (hp_startTimeout p)) else None); f = time_add (hp_failureSince p) (hp_failureGrace p)
      in if hp_failure p = [] then start
         else (case start of None \<Rightarrow> Some f | Some dl \<Rightarrow> if instant f < instant dl then Some f else Some dl))"

definition progress_describe :: "helperProgress \<Rightarrow> string" where
  "progress_describe p = (case hp_last p of None \<Rightarrow> ''no status seen'' | Some pd \<Rightarrow> podNotRunning pd)"

definition progress_check :: "gotime \<Rightarrow> helperProgress \<Rightarrow> string option" where
  "progress_check now p =
     (if hp_failure p \<noteq> [] \<and> \<not> instant now < instant (time_add (hp_failureSince p) (hp_failureGrace p)) then Some (''cannot start: '' @ hp_failure p)
      else if \<not> hp_started p \<and> \<not> instant now < instant (time_add (hp_created p) (hp_startTimeout p))
      then Some (''not started after '' @ Duration_String (hp_startTimeout p) @ '': '' @ progress_describe p) else None)"

definition progress_ctxErr :: "string \<Rightarrow> helperProgress \<Rightarrow> string" where
  "progress_ctxErr e p = (if hp_started p \<or> hp_last p = None then e else e @ '' (pod not started: '' @ progress_describe p @ '')'')"

section \<open>The API server\<close>

text \<open>The errors the driver tells apart; \<open>Refused\<close> is a request that repeating cannot help (forbidden, unauthorized, bad or invalid).\<close>

datatype kube_kind = Missing | Exists | Refused | Other

datatype kube_error = KubeError kube_kind string

fun kube_text :: "kube_error \<Rightarrow> string" where "kube_text (KubeError k m) = m"
fun kube_kind_of :: "kube_error \<Rightarrow> kube_kind" where "kube_kind_of (KubeError k m) = k"

text \<open>
  What the wait for a helper pod sees next: a call that failed, the pod (read, or in an event of the watch), the end of a watch, the deletion of the pod, the timer of the
  progress, or the end of the context.
\<close>

datatype sight = WatchFailed kube_error | GetFailed kube_error | SeenPod pod | WatchLost | PodGone | TimerFired | ContextEnded string

record 'k kube_api =
  kk_CreateSecret :: "secret \<Rightarrow> 'k \<Rightarrow> kube_error option \<times> 'k"
  kk_DeleteSecret :: "string \<Rightarrow> 'k \<Rightarrow> kube_error option \<times> 'k"
  kk_CreatePod :: "pod \<Rightarrow> 'k \<Rightarrow> kube_error option \<times> 'k"
  kk_DeletePod :: "string \<Rightarrow> int option \<Rightarrow> 'k \<Rightarrow> kube_error option \<times> 'k"
  kk_GetPod :: "string \<Rightarrow> 'k \<Rightarrow> (kube_error, pod) result \<times> 'k"
  kk_ListPods :: "string \<Rightarrow> 'k \<Rightarrow> (kube_error, pod list) result \<times> 'k"
  kk_Logs :: "string \<Rightarrow> 'k \<Rightarrow> (string, string) result \<times> 'k"
  kk_Exec :: "string \<Rightarrow> string \<Rightarrow> string list \<Rightarrow> 'k \<Rightarrow> (string, string \<times> string \<times> string option) result \<times> 'k"
  kk_sight :: "string \<Rightarrow> 'k \<Rightarrow> (gotime \<times> sight) \<times> 'k"
  kk_CreateClaim :: "volume_claim \<Rightarrow> 'k \<Rightarrow> kube_error option \<times> 'k"
  kk_DeleteClaim :: "string \<Rightarrow> 'k \<Rightarrow> kube_error option \<times> 'k"
  kk_GetClaim :: "string \<Rightarrow> 'k \<Rightarrow> kube_error option \<times> 'k"
  kk_ListClaims :: "string \<Rightarrow> 'k \<Rightarrow> (kube_error, (string \<times> gotime) list) result \<times> 'k"
  kk_CreateSnapshot :: "string \<Rightarrow> string \<Rightarrow> string \<Rightarrow> labels \<Rightarrow> 'k \<Rightarrow> kube_error option \<times> 'k"
  kk_DeleteSnapshot :: "string \<Rightarrow> 'k \<Rightarrow> kube_error option \<times> 'k"
  kk_GetSnapshot :: "string \<Rightarrow> 'k \<Rightarrow> kube_error option \<times> 'k"
  kk_pause :: "int \<Rightarrow> 'k \<Rightarrow> string option \<times> 'k"
  kk_random :: "'k \<Rightarrow> string \<times> 'k"
  kk_now :: "'k \<Rightarrow> gotime"
  kk_polls :: nat
  kk_ctxErr :: string
  kk_marshal :: "labels \<Rightarrow> string"
  kk_unmarshal :: "string \<Rightarrow> labels"

record 'k KubeDriver =
  kd_api :: "'k kube_api"
  kd_namespace :: string
  kd_storage :: kubeStorage
  kd_helperImage :: string
  kd_instanceID :: string
  kd_owner :: "(string \<times> string) option"
  kd_helperStartTimeout :: int

definition WithOwnerPod :: "string \<Rightarrow> string \<Rightarrow> string \<Rightarrow> 'k KubeDriver \<Rightarrow> 'k KubeDriver" where
  "WithOwnerPod namespace name uid K = (if namespace = [] \<or> name = [] \<or> uid = [] \<or> namespace \<noteq> kd_namespace K then K else K\<lparr>kd_owner := Some (name, uid)\<rparr>)"

section \<open>Helpers\<close>

definition helperNamePrefix :: string where "helperNamePrefix = ''pgoverlay-helper-''"
definition defaultHelperStartTimeout :: int where "defaultHelperStartTimeout = 600 * 10 ^ 9"
definition startFailureGrace :: int where "startFailureGrace = 30 * 10 ^ 9"
definition maxWatchFailures :: nat where "maxWatchFailures = 8"
definition errHelperGone :: string where "errHelperGone = ''pod was deleted before it finished''"

definition deleteHelperSecret :: "'k KubeDriver \<Rightarrow> string \<Rightarrow> ('k, unit) state" where
  "deleteHelperSecret K name = do { _ \<leftarrow> State (kk_DeleteSecret (kd_api K) name); State_Monad.return () }"

definition removeHelper :: "'k KubeDriver \<Rightarrow> string \<Rightarrow> ('k, unit) state" where
  "removeHelper K name = do { _ \<leftarrow> State (kk_DeletePod (kd_api K) name None); deleteHelperSecret K name }"

fun create_loop :: "nat \<Rightarrow> 'k KubeDriver \<Rightarrow> HelperSpec \<Rightarrow> (pod \<Rightarrow> pod) \<Rightarrow> ('k, string) dop" where
  "create_loop retries K spec customize = do { suffix \<leftarrow> State (kk_random (kd_api K));
     let name = helperNamePrefix @ suffix; meta = helperObjectMeta (kd_namespace K) name (kd_instanceID K) (kd_owner K);
         pd = customize (buildHelperPod meta (kd_storage K) spec);
         again = (\<lambda>e m. if kube_kind_of e = Exists then (case retries of Suc n \<Rightarrow> create_loop n K spec customize | 0 \<Rightarrow> dfail m) else dfail m);
         make = derr (State (kk_CreatePod (kd_api K) pd))
           (\<lambda>e. do { _ \<leftarrow> deleteHelperSecret K name; again e (''create helper pod: '' @ kube_text e) }) (dok name)
     in case buildHelperSecret meta (hs_Env spec) of None \<Rightarrow> make
        | Some se \<Rightarrow> derr (State (kk_CreateSecret (kd_api K) se))
            (\<lambda>e. again e (''create helper env secret (branchd needs secrets create/delete in '' @ kd_namespace K @ ''): '' @ kube_text e)) make }"

declare create_loop.simps [simp del]

definition createHelper :: "'k KubeDriver \<Rightarrow> HelperSpec \<Rightarrow> (pod \<Rightarrow> pod) \<Rightarrow> ('k, string) dop" where
  "createHelper K spec customize = create_loop 2 K spec customize"

definition watch_retry :: "string \<Rightarrow> kube_error \<Rightarrow> nat \<Rightarrow> string option" where
  "watch_retry what e failures = (if failures + 1 \<ge> maxWatchFailures \<or> kube_kind_of e = Refused then Some (what @ '': '' @ kube_text e) else None)"

text \<open>The loop of \<open>waitPodDone\<close> and \<open>followPodWatch\<close>, one round per thing seen; the context ends after \<open>kk_polls\<close> of them.\<close>

fun pod_wait_loop :: "nat \<Rightarrow> 'k KubeDriver \<Rightarrow> string \<Rightarrow> helperProgress \<Rightarrow> nat \<Rightarrow> ('k, string) dop" where
  "pod_wait_loop 0 K name p failures = dfail (progress_ctxErr (kk_ctxErr (kd_api K)) p)"
| "pod_wait_loop (Suc n) K name p failures = do { (now, sg) \<leftarrow> State (kk_sight (kd_api K) name);
     case sg of
       ContextEnded e \<Rightarrow> dfail (progress_ctxErr e p)
     | WatchFailed e \<Rightarrow> (case watch_retry ''watch'' e failures of Some m \<Rightarrow> dfail m | None \<Rightarrow> pod_wait_loop n K name p (failures + 1))
     | GetFailed e \<Rightarrow> if kube_kind_of e = Missing then dfail errHelperGone
         else (case watch_retry ''get'' e failures of Some m \<Rightarrow> dfail m | None \<Rightarrow> pod_wait_loop n K name p (failures + 1))
     | PodGone \<Rightarrow> dfail errHelperGone
     | WatchLost \<Rightarrow> pod_wait_loop n K name p failures
     | TimerFired \<Rightarrow> (case progress_check now p of Some m \<Rightarrow> dfail m | None \<Rightarrow> pod_wait_loop n K name p failures)
     | SeenPod pd \<Rightarrow> (case progress_observe pd now p of ((phase, just), p') \<Rightarrow> do {
           _ \<leftarrow> (if just then deleteHelperSecret K name else State_Monad.return ());
           case phase of Some ph \<Rightarrow> dok ph
           | None \<Rightarrow> (case progress_check now p' of Some m \<Rightarrow> dfail m | None \<Rightarrow> pod_wait_loop n K name p' 0) }) }"

declare pod_wait_loop.simps [simp del]

definition waitPodDone :: "'k KubeDriver \<Rightarrow> string \<Rightarrow> ('k, string) dop" where
  "waitPodDone K name = do { now \<leftarrow> State (\<lambda>s. (kk_now (kd_api K) s, s));
     pod_wait_loop (kk_polls (kd_api K)) K name
       \<lparr>hp_startTimeout = (if kd_helperStartTimeout K \<le> 0 then defaultHelperStartTimeout else kd_helperStartTimeout K), hp_failureGrace = startFailureGrace, hp_created = now,
        hp_started = False, hp_failure = [], hp_failureSince = now, hp_last = None\<rparr> 0 }"

definition podLogs :: "'k KubeDriver \<Rightarrow> string \<Rightarrow> ('k, string) state" where
  "podLogs K name = do { r \<leftarrow> State (kk_Logs (kd_api K) name); State_Monad.return (case r of Inl e \<Rightarrow> ''(logs unavailable: '' @ e @ '')'' | Inr out \<Rightarrow> out) }"

definition run_helper_pod :: "'k KubeDriver \<Rightarrow> string \<Rightarrow> ('k, string) dop" where
  "run_helper_pod K name = dtry (waitPodDone K name) (\<lambda>e. dfail (''helper pod '' @ name @ '': '' @ e)) (\<lambda>phase. do { logs \<leftarrow> podLogs K name;
     if phase \<noteq> ''Succeeded'' then dfail (''helper pod '' @ name @ '' failed: '' @ logs) else dok logs })"

definition runHelper :: "'k KubeDriver \<Rightarrow> HelperSpec \<Rightarrow> (pod \<Rightarrow> pod) \<Rightarrow> ('k, string) dop" where
  "runHelper K spec0 customize = (let spec = (if hs_Image spec0 = UtilityImage \<and> kd_helperImage K \<noteq> [] then spec0\<lparr>hs_Image := kd_helperImage K\<rparr> else spec0)
     in dtry (createHelper K spec customize) dfail (\<lambda>name. do { r \<leftarrow> run_helper_pod K name; _ \<leftarrow> removeHelper K name; State_Monad.return r }))"

definition kube_RunHelper :: "'k KubeDriver \<Rightarrow> HelperSpec \<Rightarrow> ('k, string) dop" where
  "kube_RunHelper K spec = runHelper K spec (\<lambda>pd. pd)"

text \<open>The helper with the whole data root mounted.\<close>

definition mount_root :: "string \<Rightarrow> pod \<Rightarrow> pod" where
  "mount_root dataRoot pd = (let sp = pod_Spec pd
     in pd\<lparr>pod_Spec := sp\<lparr>kp_Volumes := kp_Volumes sp @ [\<lparr>pv_Name = ''data-root'', pv_Source = HostPath dataRoot True\<rparr>],
            kp_Containers := (case kp_Containers sp of [] \<Rightarrow> [] | c # cs \<Rightarrow> c\<lparr>kc_Mounts := kc_Mounts c @ [\<lparr>vm_Name = ''data-root'', vm_Path = dataRootMountPath, vm_ReadOnly = False\<rparr>]\<rparr> # cs)\<rparr>\<rparr>)"

definition runRootHelper :: "'k KubeDriver \<Rightarrow> string \<Rightarrow> string \<Rightarrow> string list \<Rightarrow> ('k, string) dop" where
  "runRootHelper K dataRoot cmd env = runHelper K (helper_spec\<lparr>hs_Cmd := [''sh'', ''-c'', cmd], hs_Env := env\<rparr>) (mount_root dataRoot)"

section \<open>Volumes\<close>

definition no_output :: "('k, string) dop \<Rightarrow> ('k, unit) dop" where "no_output m = dtry m dfail (\<lambda>_. dok ())"

definition label_write :: "string \<Rightarrow> string" where
  "label_write dir = ''printf '' @ sq ''%s'' @ '' '' @ quoted ''$PGOVERLAY_VOLUME_LABELS'' @ '' > '' @ dir @ ''/'' @ volumeLabelsFile"

definition claim_call :: "('k, kube_error option) state \<Rightarrow> ('k, unit) dop" where
  "claim_call m = derr m (\<lambda>e. dfail (kube_text e)) (dok ())"

definition hostPath_createVolume :: "string \<Rightarrow> 'k KubeDriver \<Rightarrow> string \<Rightarrow> labels \<Rightarrow> ('k, unit) dop" where
  "hostPath_createVolume dataRoot K name ls = do { now \<leftarrow> State (\<lambda>s. (kk_now (kd_api K) s, s));
     let dir = dataRootMountPath @ ''/'' @ name
     in no_output (runRootHelper K dataRoot (''mkdir -p '' @ dir @ '' && '' @ label_write dir) [''PGOVERLAY_VOLUME_LABELS='' @ kk_marshal (kd_api K) (withCreatedLabel ls now)]) }"

definition csi_createVolume :: "string \<Rightarrow> string \<Rightarrow> 'k KubeDriver \<Rightarrow> string \<Rightarrow> labels \<Rightarrow> ('k, unit) dop" where
  "csi_createVolume sc sz K name ls = claim_call (State (kk_CreateClaim (kd_api K) (buildPVC (kd_namespace K) name sc sz ls Empty)))"

fun storage_createVolume :: "kubeStorage \<Rightarrow> 'k KubeDriver \<Rightarrow> string \<Rightarrow> labels \<Rightarrow> ('k, unit) dop" where
  "storage_createVolume (hostPathStorage node dataRoot) K name ls = hostPath_createVolume dataRoot K name ls"
| "storage_createVolume (csiStorage sc snap sz) K name ls = csi_createVolume sc sz K name ls"

fun claim_gone_loop :: "nat \<Rightarrow> 'k KubeDriver \<Rightarrow> string \<Rightarrow> string \<Rightarrow> ('k, unit) dop" where
  "claim_gone_loop n K snap name = do { g \<leftarrow> State (kk_GetClaim (kd_api K) name);
     again \<leftarrow> State_Monad.return (case n of 0 \<Rightarrow> dfail (''waiting for volume '' @ name @ '' to be deleted: '' @ kk_ctxErr (kd_api K))
       | Suc k \<Rightarrow> do { c \<leftarrow> State (kk_pause (kd_api K) (500 * 10 ^ 6));
           case c of Some e \<Rightarrow> dfail (''waiting for volume '' @ name @ '' to be deleted: '' @ e) | None \<Rightarrow> claim_gone_loop k K snap name });
     case g of None \<Rightarrow> again
     | Some e \<Rightarrow> if kube_kind_of e \<noteq> Missing then dfail (kube_text e)
         else if snap = [] then dok ()
         else do { h \<leftarrow> State (kk_GetSnapshot (kd_api K) (snapshotName name));
           case h of None \<Rightarrow> again | Some x \<Rightarrow> if kube_kind_of x \<noteq> Missing then dfail (kube_text x) else dok () } }"

declare claim_gone_loop.simps [simp del]

definition missing_ok :: "('k, kube_error option) state \<Rightarrow> ('k, unit) dop \<Rightarrow> ('k, unit) dop" where
  "missing_ok m k = derr m (\<lambda>e. if kube_kind_of e \<noteq> Missing then dfail (kube_text e) else k) k"

definition hostPath_removeVolume :: "string \<Rightarrow> 'k KubeDriver \<Rightarrow> string \<Rightarrow> ('k, unit) dop" where
  "hostPath_removeVolume dataRoot K name = no_output (runRootHelper K dataRoot (''rm -rf '' @ dataRootMountPath @ ''/'' @ name) [])"

definition csi_removeVolume :: "string \<Rightarrow> 'k KubeDriver \<Rightarrow> string \<Rightarrow> ('k, unit) dop" where
  "csi_removeVolume snap K name = missing_ok (State (kk_DeleteClaim (kd_api K) name))
     (if snap \<noteq> [] then missing_ok (State (kk_DeleteSnapshot (kd_api K) (snapshotName name))) (claim_gone_loop (kk_polls (kd_api K)) K snap name)
      else claim_gone_loop (kk_polls (kd_api K)) K snap name)"

fun storage_removeVolume :: "kubeStorage \<Rightarrow> 'k KubeDriver \<Rightarrow> string \<Rightarrow> ('k, unit) dop" where
  "storage_removeVolume (hostPathStorage node dataRoot) K name = hostPath_removeVolume dataRoot K name"
| "storage_removeVolume (csiStorage sc snap sz) K name = csi_removeVolume snap K name"

definition hostPath_cloneVolume :: "string \<Rightarrow> 'k KubeDriver \<Rightarrow> string \<Rightarrow> string \<Rightarrow> labels \<Rightarrow> ('k, unit) dop" where
  "hostPath_cloneVolume dataRoot K src dst ls = do { now \<leftarrow> State (\<lambda>s. (kk_now (kd_api K) s, s));
     let s = dataRootMountPath @ ''/'' @ src; d = dataRootMountPath @ ''/'' @ dst
     in no_output (runRootHelper K dataRoot (''rm -rf '' @ d @ '' && mkdir -p '' @ d @ '' && cp -a '' @ s @ ''/. '' @ d @ ''/ && '' @ label_write d)
          [''PGOVERLAY_VOLUME_LABELS='' @ kk_marshal (kd_api K) (withCreatedLabel ls now)]) }"

definition csi_cloneVolume :: "string \<Rightarrow> string \<Rightarrow> string \<Rightarrow> 'k KubeDriver \<Rightarrow> string \<Rightarrow> string \<Rightarrow> labels \<Rightarrow> ('k, unit) dop" where
  "csi_cloneVolume sc snap sz K src dst ls =
     (if snap = [] then claim_call (State (kk_CreateClaim (kd_api K) (buildPVC (kd_namespace K) dst sc sz ls (CloneOf src))))
      else derr (State (kk_CreateSnapshot (kd_api K) (snapshotName dst) snap src ls)) (\<lambda>e. dfail (''create snapshot '' @ snapshotName dst @ '': '' @ kube_text e))
        (derr (State (kk_CreateClaim (kd_api K) (buildPVC (kd_namespace K) dst sc sz ls (RestoreOf (snapshotName dst)))))
          (\<lambda>e. do { _ \<leftarrow> State (kk_DeleteSnapshot (kd_api K) (snapshotName dst)); dfail (kube_text e) }) (dok ())))"

fun storage_cloneVolume :: "kubeStorage \<Rightarrow> 'k KubeDriver \<Rightarrow> string \<Rightarrow> string \<Rightarrow> labels \<Rightarrow> ('k, unit) dop" where
  "storage_cloneVolume (hostPathStorage node dataRoot) K src dst ls = hostPath_cloneVolume dataRoot K src dst ls"
| "storage_cloneVolume (csiStorage sc snap sz) K src dst ls = csi_cloneVolume sc snap sz K src dst ls"

definition hostPath_listVolumes :: "string \<Rightarrow> 'k KubeDriver \<Rightarrow> string \<Rightarrow> ('k, VolumeInfo list) dop" where
  "hostPath_listVolumes dataRoot K inst =
     dtry (runRootHelper K dataRoot (listVolumesScript dataRootMountPath) []) dfail (\<lambda>out. dok (parseVolumeList (kk_unmarshal (kd_api K)) out inst))"

definition csi_listVolumes :: "'k KubeDriver \<Rightarrow> string \<Rightarrow> ('k, VolumeInfo list) dop" where
  "csi_listVolumes K inst = dtry (State (kk_ListClaims (kd_api K) (''pgoverlay.managed=true,'' @ LabelInstance @ ''='' @ inst))) (\<lambda>e. dfail (kube_text e))
     (\<lambda>cs. dok (map (\<lambda>(name, created). \<lparr>vi_Name = name, vi_Created = Some created, vi_Leftover = False\<rparr>) cs))"

fun storage_listVolumes :: "kubeStorage \<Rightarrow> 'k KubeDriver \<Rightarrow> string \<Rightarrow> ('k, VolumeInfo list) dop" where
  "storage_listVolumes (hostPathStorage node dataRoot) K inst = hostPath_listVolumes dataRoot K inst"
| "storage_listVolumes (csiStorage sc snap sz) K inst = csi_listVolumes K inst"

definition prefixed :: "string \<Rightarrow> ('k, unit) dop \<Rightarrow> ('k, unit) dop" where
  "prefixed pre m = dtry m (\<lambda>e. dfail (pre @ e)) dok"

definition kube_CreateVolume :: "'k KubeDriver \<Rightarrow> string \<Rightarrow> labels \<Rightarrow> ('k, unit) dop" where
  "kube_CreateVolume K name ls = (case validVolumeName name of Some e \<Rightarrow> dfail e
     | None \<Rightarrow> prefixed (''create volume '' @ name @ '': '') (storage_createVolume (kd_storage K) K name ls))"

definition kube_RemoveVolume :: "'k KubeDriver \<Rightarrow> string \<Rightarrow> ('k, unit) dop" where
  "kube_RemoveVolume K name = (case validVolumeName name of Some e \<Rightarrow> dfail e
     | None \<Rightarrow> prefixed (''remove volume '' @ name @ '': '') (storage_removeVolume (kd_storage K) K name))"

definition kube_CloneVolume :: "'k KubeDriver \<Rightarrow> string \<Rightarrow> string \<Rightarrow> labels \<Rightarrow> ('k, unit) dop" where
  "kube_CloneVolume K src dst ls = (case validVolumeName src of Some e \<Rightarrow> dfail e
     | None \<Rightarrow> (case validVolumeName dst of Some e \<Rightarrow> dfail e
         | None \<Rightarrow> prefixed (''clone volume '' @ src @ '' -> '' @ dst @ '': '') (storage_cloneVolume (kd_storage K) K src dst ls)))"

section \<open>Pods\<close>

definition kube_StartBranch :: "'k KubeDriver \<Rightarrow> BranchSpec \<Rightarrow> ('k, string) dop" where
  "kube_StartBranch K spec = derr (State (kk_CreatePod (kd_api K) (buildBranchPod (kd_namespace K) (kd_storage K) spec))) (\<lambda>e. dfail (''create branch pod: '' @ kube_text e)) (dok (bs_Name spec))"

definition kube_ExecOutput :: "'k KubeDriver \<Rightarrow> string \<Rightarrow> string list \<Rightarrow> ('k, string) dop" where
  "kube_ExecOutput K cid cmd = dtry (State (kk_GetPod (kd_api K) cid)) (\<lambda>e. dfail (kube_text e)) (\<lambda>pd.
     if podNotRunning pd \<noteq> [] then dfail (''pod '' @ cid @ '' is not running: '' @ podNotRunning pd)
     else case kp_Containers (pod_Spec pd) of [] \<Rightarrow> dfail ''index out of range''
       | c # _ \<Rightarrow> dtry (State (kk_Exec (kd_api K) cid (kc_Name c) cmd)) dfail (\<lambda>(out, err, broken).
           case broken of Some e \<Rightarrow> dfail (''exec '' @ show_cmd cmd @ '': '' @ e @ '': '' @ err @ out) | None \<Rightarrow> dok out))"

definition kube_Exec :: "'k KubeDriver \<Rightarrow> string \<Rightarrow> string list \<Rightarrow> ('k, string option) state" where
  "kube_Exec K cid cmd = do { r \<leftarrow> kube_ExecOutput K cid cmd; State_Monad.return (case r of Inl e \<Rightarrow> Some e | Inr _ \<Rightarrow> None) }"

definition kube_Inspect :: "'k KubeDriver \<Rightarrow> string \<Rightarrow> ('k, ContainerInfo) dop" where
  "kube_Inspect K cid = dtry (State (kk_GetPod (kd_api K) cid))
     (\<lambda>e. dfail (if kube_kind_of e = Missing then ''pod '' @ cid @ '': not found: '' @ kube_text e else kube_text e)) (\<lambda>pd. dok (podInfo pd))"

fun pod_gone_loop :: "nat \<Rightarrow> 'k KubeDriver \<Rightarrow> string \<Rightarrow> ('k, string option) state" where
  "pod_gone_loop n K cid = do { r \<leftarrow> State (kk_GetPod (kd_api K) cid);
     let again = (case n of 0 \<Rightarrow> State_Monad.return (Some (''waiting for pod '' @ cid @ '' to terminate: '' @ kk_ctxErr (kd_api K)))
       | Suc k \<Rightarrow> do { c \<leftarrow> State (kk_pause (kd_api K) (500 * 10 ^ 6));
           case c of Some e \<Rightarrow> State_Monad.return (Some (''waiting for pod '' @ cid @ '' to terminate: '' @ e)) | None \<Rightarrow> pod_gone_loop k K cid })
     in case r of Inl e \<Rightarrow> if kube_kind_of e = Missing then State_Monad.return None else again | Inr _ \<Rightarrow> again }"

declare pod_gone_loop.simps [simp del]

definition kube_StopRemove :: "'k KubeDriver \<Rightarrow> string \<Rightarrow> ('k, string option) state" where
  "kube_StopRemove K cid = do { _ \<leftarrow> (if has_prefix helperNamePrefix cid then deleteHelperSecret K cid else State_Monad.return ());
     r \<leftarrow> State (kk_DeletePod (kd_api K) cid (Some 30));
     case r of Some e \<Rightarrow> State_Monad.return (if kube_kind_of e = Missing then None else Some (kube_text e))
     | None \<Rightarrow> pod_gone_loop (kk_polls (kd_api K)) K cid }"

definition listPods :: "'k KubeDriver \<Rightarrow> string \<Rightarrow> ('k, ContainerInfo list) dop" where
  "listPods K selector = dtry (State (kk_ListPods (kd_api K) selector)) (\<lambda>e. dfail (kube_text e)) (\<lambda>ps. dok (map podInfo ps))"

definition kube_DiagnoseContainer :: "'k KubeDriver \<Rightarrow> string \<Rightarrow> ('k, string \<times> bool) state" where
  "kube_DiagnoseContainer K cid = do { r \<leftarrow> State (kk_GetPod (kd_api K) cid);
     case r of Inl e \<Rightarrow> State_Monad.return ([], False)
     | Inr pd \<Rightarrow> (case diagnosePod pd of (reason, fatal, crashed) \<Rightarrow>
         if reason \<noteq> [] \<and> crashed
         then do { logs \<leftarrow> podLogs K cid;
           State_Monad.return (if TrimSpace logs \<noteq> [] then reason @ ''; last log lines:'' @ [CHR 0x0A] @ TrimSpace logs else reason, fatal) }
         else State_Monad.return (reason, fatal)) }"

section \<open>The driver\<close>

definition kube_driver :: "'k KubeDriver \<Rightarrow> 'k driver" where
  "kube_driver K = \<lparr>
     drv_CreateVolume = (\<lambda>v ls. as_error (kube_CreateVolume K v ls)), drv_RemoveVolume = (\<lambda>v. as_error (kube_RemoveVolume K v)),
     drv_CloneVolume = (\<lambda>src dst ls. as_error (kube_CloneVolume K src dst ls)), drv_RunHelper = (\<lambda>spec. run_state (kube_RunHelper K spec)),
     drv_StartBranch = (\<lambda>spec. run_state (kube_StartBranch K spec)), drv_Exec = (\<lambda>cid cmd. run_state (kube_Exec K cid cmd)),
     drv_ExecOutput = (\<lambda>cid cmd. run_state (kube_ExecOutput K cid cmd)), drv_Inspect = (\<lambda>cid. run_state (kube_Inspect K cid)),
     drv_StopRemove = (\<lambda>cid. run_state (kube_StopRemove K cid)), drv_ListManaged = run_state (listPods K ''pgoverlay.managed=true,pgoverlay.role=branch''),
     drv_ListHelpers = run_state (listPods K ''pgoverlay.managed=true,pgoverlay.role=helper''), drv_ListManagedVolumes = (\<lambda>inst. run_state (storage_listVolumes (kd_storage K) K inst)),
     drv_DiagnoseContainer = Some (\<lambda>cid. run_state (kube_DiagnoseContainer K cid))\<rparr>"

end
