(* ===== verification/KubeProps.thy ===== *)
theory KubeProps
  imports Kube DockerProps
begin

text \<open>
  The Kubernetes driver: the values of a helper's environment never reach the specification of its pod, and the container reads the same values through the Secret; a helper
  leaves neither a pod nor a Secret behind; the timer of the wait for a helper fires exactly when the wait is to be given up.
\<close>

section \<open>The environment of a helper\<close>

text \<open>The value of a variable in a container: the last entry with its name wins, and a reference reads the Secret.\<close>

definition env_read :: "secret option \<Rightarrow> env_value \<Rightarrow> string option" where
  "env_read se v = (case v of Literal x \<Rightarrow> Some x
     | SecretKeyRef n k \<Rightarrow> (case se of None \<Rightarrow> None | Some x \<Rightarrow> if om_Name (se_Meta x) = n then map_of (se_Data x) k else None))"

definition container_env :: "secret option \<Rightarrow> (string \<times> env_value) list \<Rightarrow> string \<Rightarrow> string option" where
  "container_env se env k = Option.bind (map_of (rev env) k) (env_read se)"

lemma secret_data: "map_of (fold (\<lambda>e d. AList.update (env_key e) (env_val e) d) env d0) = map_of d0 ++ map_of (rev (map (\<lambda>e. (env_key e, env_val e)) env))"
  by (induction env arbitrary: d0) (simp_all add: update_conv' map_add_def fun_eq_iff split: option.splits)

lemma map_of_rev_pairs: "map_of (rev (map (\<lambda>e. (f e, g (f e))) xs)) k = (if k \<in> f ` set xs then Some (g k) else None)"
  by (induction xs) (auto simp: map_add_def split: option.splits)

lemma map_of_rev_image: "map_of (rev (map (\<lambda>e. (f e, h (g e))) xs)) k = map_option h (map_of (rev (map (\<lambda>e. (f e, g e)) xs)) k)"
  by (induction xs) (auto simp: map_add_def split: option.splits)

lemma map_of_rev_None: "map_of (rev (map (\<lambda>e. (f e, g e)) xs)) k = None \<longleftrightarrow> k \<notin> f ` set xs"
  by (force simp: map_of_eq_None_iff)


definition demo_meta :: object_meta where "demo_meta = helperObjectMeta ''ns'' ''pgoverlay-helper-a'' [] None"


section \<open>The wait for a helper\<close>

text \<open>
  The timer of the wait and the check it leads to agree: at any moment the wait is given up exactly when a deadline is set and it is not in the future. A timer that fires at
  the deadline therefore ends the wait at once, one that is off never hides a limit that has passed, and a helper that runs without a start failure is under no limit at all.
\<close>

theorem deadline_exact:
  "(progress_check now p \<noteq> None \<longleftrightarrow> (\<exists>dl. progress_deadline p = Some dl \<and> instant dl \<le> instant now))
   \<and> (progress_deadline p = None \<longleftrightarrow> hp_started p \<and> hp_failure p = [])"
  by (auto simp: progress_check_def progress_deadline_def Let_def)

section \<open>What a helper leaves behind\<close>

text \<open>
  What the API server documents, for a cluster that nobody else changes meanwhile: creating fails on a name that is taken and otherwise adds the object, deleting takes it away, and
  reading changes nothing. \<open>pods\<close> are the names of the pods that are not being deleted, \<open>secs\<close> those of the Secrets.
\<close>

definition cluster_laws :: "'k kube_api \<Rightarrow> ('k \<Rightarrow> string set) \<Rightarrow> ('k \<Rightarrow> string set) \<Rightarrow> bool" where
  "cluster_laws A pods secs \<longleftrightarrow>
     (\<forall>x s e s'. kk_CreateSecret A x s = (e, s') \<longrightarrow> pods s' = pods s
        \<and> (if e = None then om_Name (se_Meta x) \<notin> secs s \<and> secs s' = insert (om_Name (se_Meta x)) (secs s) else secs s' = secs s))
   \<and> (\<forall>x s e s'. kk_CreatePod A x s = (e, s') \<longrightarrow> secs s' = secs s
        \<and> (if e = None then om_Name (pod_Meta x) \<notin> pods s \<and> pods s' = insert (om_Name (pod_Meta x)) (pods s) else pods s' = pods s))
   \<and> (\<forall>n s e s'. kk_DeleteSecret A n s = (e, s') \<longrightarrow> pods s' = pods s \<and> secs s' = secs s - {n})
   \<and> (\<forall>n g s e s'. kk_DeletePod A n g s = (e, s') \<longrightarrow> pods s' = pods s - {n} \<and> secs s' = secs s)
   \<and> (\<forall>n. leaves (\<lambda>s. (pods s, secs s)) (State (kk_sight A n))) \<and> (\<forall>n. leaves (\<lambda>s. (pods s, secs s)) (State (kk_Logs A n)))
   \<and> leaves (\<lambda>s. (pods s, secs s)) (State (kk_random A))"

lemma law_secret:
  assumes "cluster_laws A pods secs" "kk_CreateSecret A x s = (e, s')"
  shows "pods s' = pods s" "e = None \<Longrightarrow> om_Name (se_Meta x) \<notin> secs s \<and> secs s' = insert (om_Name (se_Meta x)) (secs s)" "e \<noteq> None \<Longrightarrow> secs s' = secs s"
  using assms unfolding cluster_laws_def by (elim conjE, metis)+

lemma law_pod:
  assumes "cluster_laws A pods secs" "kk_CreatePod A x s = (e, s')"
  shows "secs s' = secs s" "e = None \<Longrightarrow> om_Name (pod_Meta x) \<notin> pods s \<and> pods s' = insert (om_Name (pod_Meta x)) (pods s)" "e \<noteq> None \<Longrightarrow> pods s' = pods s"
  using assms unfolding cluster_laws_def by (elim conjE, metis)+

lemma law_delete:
  assumes "cluster_laws A pods secs"
  shows "kk_DeleteSecret A n s = (e, s') \<Longrightarrow> pods s' = pods s \<and> secs s' = secs s - {n}"
    "kk_DeletePod A n g s = (e, s') \<Longrightarrow> pods s' = pods s - {n} \<and> secs s' = secs s"
  using assms unfolding cluster_laws_def by (elim conjE, metis)+

lemma law_read:
  assumes "cluster_laws A pods secs"
  shows "kk_sight A n s = (r, s') \<Longrightarrow> pods s' = pods s \<and> secs s' = secs s" "kk_Logs A n s = (q, s') \<Longrightarrow> pods s' = pods s \<and> secs s' = secs s"
    "kk_random A s = (m, s') \<Longrightarrow> pods s' = pods s \<and> secs s' = secs s"
  using assms unfolding cluster_laws_def leaves_def by (elim conjE, simp, metis prod.inject snd_conv)+

text \<open>Nothing has changed but that the Secret of one name may be gone.\<close>

definition but_secret :: "('k \<Rightarrow> string set) \<Rightarrow> ('k \<Rightarrow> string set) \<Rightarrow> string \<Rightarrow> 'k \<Rightarrow> 'k \<Rightarrow> bool" where
  "but_secret pods secs n s s' \<longleftrightarrow> pods s' = pods s \<and> secs s' \<subseteq> secs s \<and> secs s \<subseteq> insert n (secs s')"

lemma but_secret_refl: "pods s' = pods s \<and> secs s' = secs s \<Longrightarrow> but_secret pods secs n s s'"
  by (auto simp: but_secret_def)

lemma but_secret_trans: "but_secret pods secs n s t \<Longrightarrow> but_secret pods secs n t u \<Longrightarrow> but_secret pods secs n s u"
  by (auto simp: but_secret_def)

lemma delete_secret:
  assumes "cluster_laws (kd_api K) pods secs" "run_state (deleteHelperSecret K n) s = (r, s')"
  shows "pods s' = pods s \<and> secs s' = secs s - {n}"
proof -
  obtain e t where "kk_DeleteSecret (kd_api K) n s = (e, t)" by fastforce
  then show ?thesis using law_delete(1)[OF assms(1)] assms(2) by (auto simp: deleteHelperSecret_def)
qed

lemma pod_wait_loop_keeps:
  assumes "cluster_laws (kd_api K) pods secs"
  shows "run_state (pod_wait_loop n K name p f) s = (r, s') \<Longrightarrow> but_secret pods secs name s s'"
proof (induction n arbitrary: p f s)
  case 0
  then show ?case by (auto simp: pod_wait_loop.simps but_secret_def)
next
  case (Suc n)
  obtain now sg t where sg: "kk_sight (kd_api K) name s = ((now, sg), t)" by (metis surj_pair)
  have t: "but_secret pods secs name s t" using law_read(1)[OF assms sg] by (rule but_secret_refl)
  have "(\<exists>u p' f'. but_secret pods secs name t u \<and> run_state (pod_wait_loop n K name p' f') u = (r, s')) \<or> but_secret pods secs name t s'"
  proof (cases sg)
    case (SeenPod pd)
    obtain phase just p' where ob: "progress_observe pd now p = ((phase, just), p')" by (metis surj_pair)
    obtain q u where q: "run_state (if just then deleteHelperSecret K name else State_Monad.return ()) t = (q, u)" by (metis surj_pair)
    then have u: "but_secret pods secs name t u" using delete_secret[OF assms] by (auto simp: but_secret_def split: if_splits)
    have "run_state (pod_wait_loop n K name p' 0) u = (r, s') \<or> s' = u"
      using Suc.prems sg SeenPod ob q by (auto simp: pod_wait_loop.simps split: option.splits)
    then show ?thesis using u by blast
  qed (use Suc.prems sg in \<open>auto simp: pod_wait_loop.simps but_secret_def split: option.splits if_splits\<close>)
  then show ?case using Suc.IH t but_secret_trans by metis
qed

lemma run_helper_pod_keeps:
  assumes "cluster_laws (kd_api K) pods secs" "run_state (run_helper_pod K name) s = (r, s')"
  shows "but_secret pods secs name s s'"
proof -
  obtain w t where w: "run_state (waitPodDone K name) s = (w, t)" by fastforce
  have t: "but_secret pods secs name s t" using w pod_wait_loop_keeps[OF assms(1)] by (auto simp: waitPodDone_def)
  obtain l u where l: "kk_Logs (kd_api K) name t = (l, u)" by fastforce
  have u: "but_secret pods secs name t u" using law_read(2)[OF assms(1) l] by (rule but_secret_refl)
  have "s' = t \<or> s' = u" using assms(2) w l by (cases w) (auto simp: run_helper_pod_def podLogs_def run_dtry split: if_splits)
  then show ?thesis using t but_secret_trans[OF t u] by blast
qed

text \<open>After a creation: one new pod with its Secret, or the cluster as it was, but for a Secret when the helper has none itself.\<close>

definition created_helper :: "('k \<Rightarrow> string set) \<Rightarrow> ('k \<Rightarrow> string set) \<Rightarrow> bool \<Rightarrow> (string, string) result \<Rightarrow> 'k \<Rightarrow> 'k \<Rightarrow> bool" where
  "created_helper pods secs env r s s' \<longleftrightarrow> (case r of
     Inl e \<Rightarrow> pods s' = pods s \<and> (if env then secs s' = secs s else secs s' \<subseteq> secs s)
   | Inr n \<Rightarrow> n \<notin> pods s \<and> pods s' = insert n (pods s) \<and> (if env then n \<notin> secs s \<and> secs s' = insert n (secs s) else secs s' \<subseteq> secs s))"

lemma created_after: "pods t = pods s \<Longrightarrow> (if env then secs t = secs s else secs t \<subseteq> secs s) \<Longrightarrow> created_helper pods secs env r t s' \<Longrightarrow> created_helper pods secs env r s s'"
  by (auto simp: created_helper_def split: sum.splits if_splits)

lemma created_none: "created_helper pods secs env (Inl m) s s"
  by (simp add: created_helper_def)

definition pod_attempt :: "'k KubeDriver \<Rightarrow> pod \<Rightarrow> string \<Rightarrow> (kube_error \<Rightarrow> ('k, string) dop) \<Rightarrow> ('k, string) dop" where
  "pod_attempt K pd name again = derr (State (kk_CreatePod (kd_api K) pd)) (\<lambda>e. do { _ \<leftarrow> deleteHelperSecret K name; again e }) (dok name)"

lemma pod_attempt_run:
  assumes "cluster_laws (kd_api K) pods secs" "om_Name (pod_Meta pd) = name" "run_state (pod_attempt K pd name again) s = (r, s')"
  shows "(r = Inr name \<and> name \<notin> pods s \<and> pods s' = insert name (pods s) \<and> secs s' = secs s)
    \<or> (\<exists>e t. pods t = pods s \<and> secs t = secs s - {name} \<and> run_state (again e) t = (r, s'))"
proof -
  obtain e t where e: "kk_CreatePod (kd_api K) pd s = (e, t)" by fastforce
  note l = law_pod[OF assms(1) e]
  show ?thesis
  proof (cases e)
    case None
    then have "r = Inr name" "s' = t" using assms(3) e by (auto simp: pod_attempt_def run_derr)
    then show ?thesis using l None assms(2) by simp
  next
    case (Some x)
    obtain q u where q: "run_state (deleteHelperSecret K name) t = (q, u)" by (metis surj_pair)
    then have "run_state (again x) u = (r, s')" using assms(3) e Some by (simp add: pod_attempt_def run_derr)
    then show ?thesis using delete_secret[OF assms(1) q] l Some by auto
  qed
qed

lemma run_call: "f s = (x, t) \<Longrightarrow> run_state (State_Monad.bind (State f) g) s = run_state (g x) t"
  by simp

lemma create_loop_run:
  assumes "cluster_laws (kd_api K) pods secs" and cust: "\<And>pd. om_Name (pod_Meta (customize pd)) = om_Name (pod_Meta pd)"
  shows "run_state (create_loop n K spec customize) s = (r, s') \<Longrightarrow> created_helper pods secs (hs_Env spec \<noteq> []) r s s'"
proof (induction n arbitrary: s rule: less_induct)
  case (less n)
  obtain suffix t where sf: "kk_random (kd_api K) s = (suffix, t)" by (metis surj_pair)
  have t: "pods t = pods s" "secs t = secs s" using law_read(3)[OF assms(1) sf] by auto
  define name where "name = helperNamePrefix @ suffix"
  define meta where "meta = helperObjectMeta (kd_namespace K) name (kd_instanceID K) (kd_owner K)"
  define pd where "pd = customize (buildHelperPod meta (kd_storage K) spec)"
  define again where "again = (\<lambda>e m. if kube_kind_of e = Exists then (case n of Suc k \<Rightarrow> create_loop k K spec customize | 0 \<Rightarrow> dfail m) else dfail m :: ('a, string) dop)"
  define make where "make = pod_attempt K pd name (\<lambda>e. again e (''create helper pod: '' @ kube_text e))"
  have nm: "om_Name meta = name" "om_Name (pod_Meta pd) = name"
    using cust by (simp_all add: meta_def helperObjectMeta_def pd_def buildHelperPod_def new_pod_def split: prod.splits)
  have again_run: "created_helper pods secs (hs_Env spec \<noteq> []) r u s'" if "run_state (again e m) u = (r, s')" for e m u
    using that less.IH by (auto simp: again_def intro: created_none split: if_splits nat.splits)
  have run: "run_state (case buildHelperSecret meta (hs_Env spec) of None \<Rightarrow> make
       | Some se \<Rightarrow> derr (State (kk_CreateSecret (kd_api K) se))
           (\<lambda>e. again e (''create helper env secret (branchd needs secrets create/delete in '' @ kd_namespace K @ ''): '' @ kube_text e)) make) t = (r, s')"
    using less.prems unfolding create_loop.simps[of n] run_call[of "kk_random (kd_api K)", OF sf] Let_def make_def pod_attempt_def again_def pd_def meta_def name_def .
  show ?case
  proof (cases "buildHelperSecret meta (hs_Env spec)")
    case None
    then have env: "hs_Env spec = []" by (simp add: buildHelperSecret_def split: if_splits)
    have "run_state make t = (r, s')" using run None by simp
    from pod_attempt_run[OF assms(1) nm(2) this[unfolded make_def]] show ?thesis
    proof (elim disjE exE conjE)
      fix e u assume u: "pods u = pods t" "secs u = secs t - {name}" "run_state (again e (''create helper pod: '' @ kube_text e)) u = (r, s')"
      show ?thesis by (rule created_after[OF _ _ again_run[OF u(3)]]) (use u t env in auto)
    qed (use t env in \<open>simp add: created_helper_def\<close>)
  next
    case (Some se)
    then have env: "hs_Env spec \<noteq> []" "om_Name (se_Meta se) = name" using nm by (auto simp: buildHelperSecret_def split: if_splits)
    obtain e u where e: "kk_CreateSecret (kd_api K) se t = (e, u)" by (metis surj_pair)
    note l = law_secret[OF assms(1) e]
    show ?thesis
    proof (cases e)
      case (Some x)
      then have "\<exists>m. run_state (again x m) u = (r, s')" using run \<open>buildHelperSecret meta (hs_Env spec) = Some se\<close> e by (auto simp: run_derr)
      then obtain m where m: "run_state (again x m) u = (r, s')" by blast
      show ?thesis by (rule created_after[OF _ _ again_run[OF m]]) (use l Some t env in auto)
    next
      case None
      then have "run_state make u = (r, s')" using run \<open>buildHelperSecret meta (hs_Env spec) = Some se\<close> e by (simp add: run_derr)
      from pod_attempt_run[OF assms(1) nm(2) this[unfolded make_def]] show ?thesis
      proof (elim disjE exE conjE)
        fix x v assume v: "pods v = pods u" "secs v = secs u - {name}" "run_state (again x (''create helper pod: '' @ kube_text x)) v = (r, s')"
        show ?thesis by (rule created_after[OF _ _ again_run[OF v(3)]]) (use v l None t env in auto)
      qed (use l None t env in \<open>simp add: created_helper_def\<close>)
    qed
  qed
qed

lemma remove_helper_run:
  assumes "cluster_laws (kd_api K) pods secs" "run_state (removeHelper K n) s = (r, s')"
  shows "pods s' = pods s - {n} \<and> secs s' = secs s - {n}"
proof -
  obtain e t where e: "kk_DeletePod (kd_api K) n None s = (e, t)" by fastforce
  then have "run_state (deleteHelperSecret K n) t = (r, s')" using assms(2) by (simp add: removeHelper_def)
  then show ?thesis using law_delete(2)[OF assms(1) e] delete_secret[OF assms(1)] by auto
qed

abbreviation helper_image :: "'k KubeDriver \<Rightarrow> HelperSpec \<Rightarrow> HelperSpec" where
  "helper_image K spec \<equiv> (if hs_Image spec = UtilityImage \<and> kd_helperImage K \<noteq> [] then spec\<lparr>hs_Image := kd_helperImage K\<rparr> else spec)"

lemma run_helper_cases:
  assumes "cluster_laws (kd_api K) pods secs" "run_state (createHelper K (helper_image K spec) customize) s = (c, t)" "run_state (runHelper K spec customize) s = (r, s')"
  obtains e where "c = Inl e" "s' = t"
  | name u where "c = Inr name" "but_secret pods secs name t u" "pods s' = pods u - {name}" "secs s' = secs u - {name}"
proof (cases c)
  case (Inl e)
  then have "s' = t" using assms(2,3) by (simp add: runHelper_def Let_def run_dtry)
  then show ?thesis by (rule that(1)[OF Inl])
next
  case (Inr name)
  obtain q u where q: "run_state (run_helper_pod K name) t = (q, u)" by (metis surj_pair)
  obtain v w where v: "run_state (removeHelper K name) u = (v, w)" by (metis surj_pair)
  have "s' = w" using assms(2,3) Inr q v by (simp add: runHelper_def Let_def run_dtry)
  then show ?thesis using that(2)[OF Inr run_helper_pod_keeps[OF assms(1) q]] remove_helper_run[OF assms(1) v] by simp
qed

lemma run_helper_after:
  assumes "cluster_laws (kd_api K) pods secs" "run_state (createHelper K (helper_image K spec) customize) s = (c, t)" "run_state (runHelper K spec customize) s = (r, s')"
  shows "secs s' \<subseteq> secs t"
  using run_helper_cases[OF assms] by cases (auto simp: but_secret_def)

lemma run_helper_clean:
  assumes "cluster_laws (kd_api K) pods secs" and cust: "\<And>pd. om_Name (pod_Meta (customize pd)) = om_Name (pod_Meta pd)"
    and "run_state (runHelper K spec customize) s = (r, s')"
  shows "pods s' = pods s \<and> secs s' \<subseteq> secs s \<and> (hs_Env spec \<noteq> [] \<longrightarrow> secs s' = secs s)"
proof -
  have env: "hs_Env (helper_image K spec) = hs_Env spec" by simp
  obtain c t where c: "run_state (createHelper K (helper_image K spec) customize) s = (c, t)" by (metis surj_pair)
  from create_loop_run[OF assms(1) cust c[unfolded createHelper_def]] have made: "created_helper pods secs (hs_Env spec \<noteq> []) c s t" unfolding env .
  from assms(1) c assms(3) show ?thesis
    by (rule run_helper_cases) (use made in \<open>auto simp: created_helper_def but_secret_def split: if_splits\<close>)
qed


text \<open>A cluster where every name drawn is the same and every helper is deleted under the wait.\<close>

definition demo_cluster :: "(string set \<times> string set) kube_api" where
  "demo_cluster = \<lparr>
     kk_CreateSecret = (\<lambda>x s. let n = om_Name (se_Meta x) in if n \<in> snd s then (Some (KubeError Exists n), s) else (None, (fst s, insert n (snd s)))),
     kk_DeleteSecret = (\<lambda>n s. (if n \<in> snd s then None else Some (KubeError Missing n), (fst s, snd s - {n}))),
     kk_CreatePod = (\<lambda>x s. let n = om_Name (pod_Meta x) in if n \<in> fst s then (Some (KubeError Exists n), s) else (None, (insert n (fst s), snd s))),
     kk_DeletePod = (\<lambda>n g s. (if n \<in> fst s then None else Some (KubeError Missing n), (fst s - {n}, snd s))),
     kk_GetPod = (\<lambda>n s. (Inl (KubeError Missing n), s)), kk_ListPods = (\<lambda>n s. (Inr [], s)), kk_Logs = (\<lambda>n s. (Inr [], s)), kk_Exec = (\<lambda>n c cmd s. (Inl [], s)),
     kk_sight = (\<lambda>n s. ((of_instant 0, PodGone), s)), kk_CreateClaim = (\<lambda>c s. (None, s)), kk_DeleteClaim = (\<lambda>n s. (None, s)), kk_GetClaim = (\<lambda>n s. (None, s)),
     kk_ListClaims = (\<lambda>n s. (Inr [], s)), kk_CreateSnapshot = (\<lambda>a b c d s. (None, s)), kk_DeleteSnapshot = (\<lambda>n s. (None, s)), kk_GetSnapshot = (\<lambda>n s. (None, s)),
     kk_pause = (\<lambda>d s. (None, s)), kk_random = (\<lambda>s. (''abcde'', s)), kk_now = (\<lambda>s. of_instant 0), kk_polls = 9, kk_ctxErr = ''context deadline exceeded'',
     kk_marshal = (\<lambda>l. []), kk_unmarshal = (\<lambda>t. [])\<rparr>"

definition demo_kube :: "(string set \<times> string set) KubeDriver" where
  "demo_kube = \<lparr>kd_api = demo_cluster, kd_namespace = ''ns'', kd_storage = hostPathStorage ''node'' ''/data'', kd_helperImage = [], kd_instanceID = [], kd_owner = None,
     kd_helperStartTimeout = 0\<rparr>"

lemma demo_cluster_laws: "cluster_laws (kd_api demo_kube) fst snd"
  by (auto simp: cluster_laws_def demo_kube_def demo_cluster_def leaves_def Let_def split: if_splits)


text \<open>
  A helper without an environment whose name is taken by another helper deletes the other one's Secret on its way to the next name: the creation of the pod fails, and the
  Secret of that name is deleted although this helper has created none.
\<close>

theorem collision_deletes_secret:
  assumes "cluster_laws (kd_api K) pods secs" "kk_random (kd_api K) s = (suffix, t)" "helperNamePrefix @ suffix \<in> pods s" "hs_Env spec = []"
    and "run_state (kube_RunHelper K spec) s = (r, s')"
  shows "helperNamePrefix @ suffix \<notin> secs s' \<and> helperNamePrefix @ suffix \<in> pods s'"
proof -
  let ?name = "helperNamePrefix @ suffix"
  let ?spec = "helper_image K spec"
  let ?pd = "buildHelperPod (helperObjectMeta (kd_namespace K) ?name (kd_instanceID K) (kd_owner K)) (kd_storage K) ?spec"
  let ?again = "\<lambda>e. if kube_kind_of e = Exists then create_loop 1 K ?spec (\<lambda>pd. pd) else dfail (''create helper pod: '' @ kube_text e)"
  have env: "hs_Env ?spec = []" using assms(4) by simp
  have bare: "buildHelperSecret m (hs_Env ?spec) = None" for m using assms(4) by (simp add: buildHelperSecret_def)
  have two: "(case (2 :: nat) of Suc k \<Rightarrow> f k | 0 \<Rightarrow> x) = f 1" for f :: "nat \<Rightarrow> ('a, string) dop" and x by (simp add: numeral_2_eq_2)
  have t: "pods t = pods s" "secs t = secs s" using law_read(3)[OF assms(1,2)] by auto
  have nm: "om_Name (pod_Meta ?pd) = ?name" by (simp add: helperObjectMeta_def buildHelperPod_def new_pod_def split: prod.splits)
  obtain c u where c: "run_state (createHelper K ?spec (\<lambda>pd. pd)) s = (c, u)" by (metis surj_pair)
  have "run_state (pod_attempt K ?pd ?name ?again) t = (c, u)"
    using c unfolding createHelper_def create_loop.simps[of 2] run_call[of "kk_random (kd_api K)", OF assms(2)] Let_def pod_attempt_def bare two option.case .
  from pod_attempt_run[OF assms(1) nm this] obtain e v
    where v: "secs v = secs t - {?name}" "run_state (?again e) v = (c, u)" using t assms(3) by auto
  have "created_helper pods secs (hs_Env ?spec \<noteq> []) c v u"
  proof (cases "kube_kind_of e = Exists")
    case True
    then have "run_state (create_loop 1 K ?spec (\<lambda>pd. pd)) v = (c, u)" using v(2) by (simp only: if_True simp_thms)
    then show ?thesis by (rule create_loop_run[OF assms(1) refl])
  next
    case False
    then show ?thesis using v(2) by (auto intro: created_none)
  qed
  then have u: "?name \<notin> secs u" using v(1) env assms(3) t by (auto simp: created_helper_def split: sum.splits)
  have "secs s' \<subseteq> secs u" using run_helper_after[OF assms(1) c] assms(5) by (simp add: kube_RunHelper_def)
  moreover have "pods s' = pods s" using run_helper_clean[OF assms(1) refl] assms(5) unfolding kube_RunHelper_def by blast
  ultimately show ?thesis using u assms(3) by auto
qed

theorem collision_deletes_secret_witness:
  "''pgoverlay-helper-abcde'' \<notin> snd (snd (run_state (kube_RunHelper demo_kube helper_spec) ({''pgoverlay-helper-abcde''}, {''pgoverlay-helper-abcde''})))"
proof -
  let ?n = "''pgoverlay-helper-abcde''"
  obtain r s' where run: "run_state (kube_RunHelper demo_kube helper_spec) ({?n}, {?n}) = (r, s')" by (metis surj_pair)
  have "kk_random (kd_api demo_kube) ({?n}, {?n}) = (''abcde'', ({?n}, {?n}))" by (simp add: demo_kube_def demo_cluster_def)
  from collision_deletes_secret[OF demo_cluster_laws this _ _ run] show ?thesis using run by (simp add: helperNamePrefix_def helper_spec_def)
qed

end
