(* ===== verification/Sdk.thy ===== *)
theory Sdk
  imports HookOps ApiClient
begin

text \<open>
  The client packages for applications and tests (\<^verbatim>\<open>src/pgoverlayconnect/pgoverlayconnect.go\<close>, \<^verbatim>\<open>src/pgoverlaytest/pgoverlaytest.go\<close>): the connection strings they build and the calls
  they make. Parameters are the HTTP client over a state of any type, the environment, the JSON codec, the host of a URL and the random bytes. Error texts show \<open>%q\<close> without escapes.
\<close>

section \<open>Connection strings\<close>

text \<open>\<open>url.Userinfo.String\<close>: the characters that stay as they are in a user name or password.\<close>

definition user_plain :: "char \<Rightarrow> bool" where
  "user_plain c \<longleftrightarrow> low_alnum c \<or> (CHR ''A'' \<le> c \<and> c \<le> CHR ''Z'') \<or> c \<in> set ''-_.~$&+,;=''"

definition user_escape_char :: "char \<Rightarrow> string" where
  "user_escape_char c = (if user_plain c then [c] else let n = (of_char c :: nat) in [CHR ''%'', hex_upper (n div 16), hex_upper (n mod 16)])"

definition user_escape :: "string \<Rightarrow> string" where "user_escape s = concat (map user_escape_char s)"

definition dsn :: "string \<Rightarrow> string \<Rightarrow> string \<Rightarrow> int \<Rightarrow> string \<Rightarrow> string" where
  "dsn user password host port db =
     ''postgres://'' @ user_escape user @ (if password \<noteq> [] then '':'' @ user_escape password else []) @ ''@'' @ JoinHostPort host (int_dec port) @ ''/'' @ db"

definition defaultProxyPort :: int where "defaultProxyPort = 6432"

definition unbracket :: "string \<Rightarrow> string" where
  "unbracket hp = (let s = trim_prefix ''['' hp in if s \<noteq> [] \<and> last s = CHR '']'' then butlast s else s)"

section \<open>The environment\<close>

text \<open>A response is its status, what could be read of the body, and the error of reading it; \<open>sh_decode\<close> and \<open>sh_reasons\<close> decode a branch and a history.\<close>

record wireBranch =
  wb_Name :: string
  wb_State :: string
  wb_Host :: string
  wb_Port :: int
  wb_User :: string
  wb_Password :: string
  wb_Database :: string
  wb_ProxyDatabase :: string

record createBranchRequest =
  cq_Name :: string
  cq_Source :: string
  cq_TTLSeconds :: int

record 'h sdk =
  sh_do :: "string \<Rightarrow> string \<Rightarrow> string \<Rightarrow> createBranchRequest option \<Rightarrow> 'h \<Rightarrow> (string, nat \<times> string \<times> string option) result \<times> 'h"
  sh_decode :: "string \<Rightarrow> (string, wireBranch) result"
  sh_reasons :: "string \<Rightarrow> string list option"
  sh_hostname :: "string \<Rightarrow> string"
  sh_env :: "string \<Rightarrow> string"
  sh_random :: "nat \<Rightarrow> 'h \<Rightarrow> string \<times> 'h"
  sh_pause :: "'h \<Rightarrow> bool \<times> 'h"

definition trim_right_slash :: "string \<Rightarrow> string" where
  "trim_right_slash s = rev (dropWhile (\<lambda>c. c = CHR ''/'') (rev s))"

section \<open>pgoverlayconnect\<close>

record connect_options =
  co_Server :: string
  co_Token :: string
  co_Branch :: string
  co_Repo :: string
  co_PR :: int
  co_Ref :: string
  co_ProxyHost :: string
  co_Password :: string

definition connect_branchName :: "crypto \<Rightarrow> connect_options \<Rightarrow> (string, string) result" where
  "connect_branchName cr opts =
     (if co_Branch opts \<noteq> [] then Inr (co_Branch opts)
      else if co_Ref opts = [] \<and> co_PR opts \<le> 0 then Inl ''pgoverlayconnect: a Branch, or a Repo with a PR or Ref, is required''
      else if co_Repo opts = [] then Inl ''pgoverlayconnect: Repo (owner/name, e.g. $GITHUB_REPOSITORY) is required to derive the branch name from a PR or Ref''
      else let n = RefBranchName cr (co_Repo opts) (co_Ref opts)
        in if n \<noteq> [] then Inr n
           else if co_PR opts > 0 then Inr (PRBranchName cr (co_Repo opts) (co_PR opts))
           else Inl (''pgoverlayconnect: Ref '' @ quoted (co_Ref opts) @ '' has no letters or digits to name a branch after; set PR''))"

definition connect_splitProxyHost :: "string \<Rightarrow> (string, string \<times> int) result" where
  "connect_splitProxyHost hp = (case SplitHostPort hp of
     None \<Rightarrow> Inr (unbracket hp, defaultProxyPort)
   | Some (h, p) \<Rightarrow> (case ParseInt64 p of (n, okay) \<Rightarrow>
       if \<not> okay \<or> n < 1 \<or> n > 65535 then Inl (''pgoverlayconnect: ProxyHost '' @ quoted hp @ '': invalid port '' @ quoted p) else Inr (h, n)))"

definition connect_getBranch :: "'h sdk \<Rightarrow> connect_options \<Rightarrow> string \<Rightarrow> ('h, (string, wireBranch) result) state" where
  "connect_getBranch S opts name = do {
     r \<leftarrow> State (sh_do S ''GET'' (trim_right_slash (co_Server opts) @ ''/v1/branches/'' @ PathEscape name) (co_Token opts) None);
     State_Monad.return (case r of Inl e \<Rightarrow> Inl (''pgoverlayconnect: GET branch '' @ quoted name @ '': '' @ e)
       | Inr (code, body, _) \<Rightarrow>
           if code = 404 then Inl (''pgoverlayconnect: branch '' @ quoted name @ '' not found'')
           else if code \<noteq> 200 then Inl (''pgoverlayconnect: GET branch '' @ quoted name @ '': HTTP '' @ nat_dec code @ '': '' @ TrimSpace body)
           else (case sh_decode S body of Inl e \<Rightarrow> Inl (''pgoverlayconnect: decode branch '' @ quoted name @ '': '' @ e) | Inr w \<Rightarrow> Inr w)) }"

record connect_result =
  cres_Branch :: string
  cres_Host :: string
  cres_Port :: int
  cres_User :: string
  cres_Database :: string
  cres_DSN :: string
  cres_ProxyDSN :: string

definition or_else :: "string \<Rightarrow> string \<Rightarrow> string" where "or_else a b = (if a = [] then b else a)"

definition connect_result_of :: "'h sdk \<Rightarrow> connect_options \<Rightarrow> string \<Rightarrow> string \<times> int \<Rightarrow> wireBranch \<Rightarrow> (string, connect_result) result" where
  "connect_result_of S opts name proxy w =
     (let serverHost = sh_hostname S (co_Server opts); host = or_else (wb_Host w) serverHost; user = or_else (wb_User w) ''postgres'';
          db = or_else (wb_Database w) ''postgres''; password = or_else (wb_Password w) (or_else (co_Password opts) (sh_env S ''PGPASSWORD''))
      in if password = [] then Inl (''pgoverlayconnect: branch '' @ quoted name @ '' returned no password (inherit mode) and no Options.Password/PGPASSWORD set'')
         else Inr \<lparr>cres_Branch = wb_Name w, cres_Host = host, cres_Port = wb_Port w, cres_User = user, cres_Database = db, cres_DSN = dsn user password host (wb_Port w) db,
           cres_ProxyDSN = dsn user password (or_else (fst proxy) serverHost) (snd proxy) (or_else (wb_ProxyDatabase w) (db @ ''@'' @ wb_Name w))\<rparr>)"

definition Resolve :: "crypto \<Rightarrow> 'h sdk \<Rightarrow> connect_options \<Rightarrow> ('h, (string, connect_result) result) state" where
  "Resolve cr S opts =
     (if co_Server opts = [] then State_Monad.return (Inl ''pgoverlayconnect: Server (PGOVERLAY_API) is required'')
      else if co_Token opts = [] then State_Monad.return (Inl ''pgoverlayconnect: Token is required'')
      else case connect_branchName cr opts of Inl e \<Rightarrow> State_Monad.return (Inl e)
        | Inr name \<Rightarrow> (case (if co_ProxyHost opts \<noteq> [] then connect_splitProxyHost (co_ProxyHost opts) else Inr ([], defaultProxyPort)) of
              Inl e \<Rightarrow> State_Monad.return (Inl e)
            | Inr proxy \<Rightarrow> do { r \<leftarrow> connect_getBranch S opts name;
                State_Monad.return (case r of Inl e \<Rightarrow> Inl e | Inr w \<Rightarrow> connect_result_of S opts name proxy w) }))"

section \<open>pgoverlaytest\<close>

text \<open>
  A test name is the list of its runes. \<open>strings.ToLower\<close> maps two runes outside ASCII into it, the Kelvin sign and the dotted capital I; what it does with any other does not matter to
  \<open>branchName\<close>, which reads them all as separators.
\<close>

definition lower_rune :: "nat \<Rightarrow> nat" where
  "lower_rune r = (if 65 \<le> r \<and> r \<le> 90 then r + 32 else if r = 0x212A then 107 else if r = 0x130 then 105 else r)"

fun test_name_loop :: "string \<Rightarrow> bool \<Rightarrow> nat list \<Rightarrow> string" where
  "test_name_loop b dash [] = b"
| "test_name_loop b dash (r # rs) = (let n = lower_rune r
     in if 97 \<le> n \<and> n \<le> 122 \<or> 48 \<le> n \<and> n \<le> 57 then test_name_loop ((if dash \<and> b \<noteq> [] then b @ ''-'' else b) @ [char_of n]) False rs
        else test_name_loop b True rs)"

definition trim_left_dash :: "string \<Rightarrow> string" where "trim_left_dash s = dropWhile (\<lambda>c. c = CHR ''-'') s"

definition test_branchName :: "nat list \<Rightarrow> string \<Rightarrow> string" where
  "test_branchName testName suffix =
     (let s0 = test_name_loop [] False testName; mx = 41 - 2 - 1 - length suffix;
          s1 = (if length s0 > mx then trim_left_dash (drop (length s0 - mx) s0) else s0); s = trim_right_dash (trim_left_dash s1)
      in if s = [] then ''t-'' @ suffix else ''t-'' @ s @ ''-'' @ suffix)"

definition test_randHex :: "string \<Rightarrow> nat \<Rightarrow> string" where "test_randHex bytes n = take n (hex_encode bytes)"

definition terminalState :: "string \<Rightarrow> bool" where "terminalState s \<longleftrightarrow> s \<in> {''failed'', ''destroying'', ''destroyed''}"

text \<open>Go's division truncates; a TTL is a 64-bit count of nanoseconds and so is the result.\<close>

definition ttlSeconds :: "int \<Rightarrow> int" where
  "ttlSeconds d = (if d < 0 then - ((- d) div 10 ^ 9) else d div 10 ^ 9 + (if d mod 10 ^ 9 > 0 then 1 else 0))"

definition test_splitProxyHost :: "string \<Rightarrow> (string, string \<times> int) result" where
  "test_splitProxyHost hp = (let bad = Inl (''invalid host[:port] '' @ quoted hp)
     in case SplitHostPort hp of
          Some (h, p) \<Rightarrow> (case ParseInt64 p of (n, okay) \<Rightarrow> if \<not> okay \<or> n < 1 \<or> n > 65535 \<or> h = [] then bad else Inr (h, n))
        | None \<Rightarrow> (let h = unbracket hp in if h = [] \<or> list_ex (\<lambda>c. c \<in> set ''[]/@ '') h then bad else Inr (h, defaultProxyPort)))"

record test_branch =
  tb_Name :: string
  tb_Host :: string
  tb_Port :: int
  tb_User :: string
  tb_Password :: string
  tb_Database :: string
  tb_DSN :: string
  tb_ProxyDSN :: string

definition test_newBranch :: "'h sdk \<Rightarrow> wireBranch \<Rightarrow> string \<Rightarrow> string \<Rightarrow> int \<Rightarrow> test_branch" where
  "test_newBranch S w baseURL proxyHost proxyPort =
     (let host = or_else (wb_Host w) (sh_hostname S baseURL); user = or_else (wb_User w) ''postgres''; db = or_else (wb_Database w) ''postgres'';
          pw = or_else (wb_Password w) (sh_env S ''PGOVERLAY_PASSWORD'')
      in \<lparr>tb_Name = wb_Name w, tb_Host = host, tb_Port = wb_Port w, tb_User = user, tb_Password = pw, tb_Database = db,
          tb_DSN = dsn user pw host (wb_Port w) db, tb_ProxyDSN = dsn user pw proxyHost proxyPort (or_else (wb_ProxyDatabase w) (db @ ''@'' @ wb_Name w))\<rparr>)"

record test_client =
  tc_base :: string
  tc_token :: string

definition test_do :: "'h sdk \<Rightarrow> test_client \<Rightarrow> string \<Rightarrow> string \<Rightarrow> createBranchRequest option \<Rightarrow> ('h, (string, nat \<times> string) result) state" where
  "test_do S c meth path body = do { r \<leftarrow> State (sh_do S meth (tc_base c @ path) (tc_token c) body);
     State_Monad.return (case r of Inl e \<Rightarrow> Inl e | Inr (code, data, err) \<Rightarrow> (case err of Some e \<Rightarrow> Inl e | None \<Rightarrow> Inr (code, data))) }"

definition decoded :: "'h sdk \<Rightarrow> string \<Rightarrow> nat \<Rightarrow> (string, nat \<times> string) result \<Rightarrow> (string, wireBranch) result" where
  "decoded S what want r = (case r of Inl e \<Rightarrow> Inl e
     | Inr (code, data) \<Rightarrow> if code \<noteq> want then Inl (what @ '': HTTP '' @ nat_dec code @ '': '' @ TrimSpace data)
         else (case sh_decode S data of Inl e \<Rightarrow> Inl (what @ '': decode response: '' @ e) | Inr b \<Rightarrow> Inr b))"

definition test_createBranch :: "'h sdk \<Rightarrow> test_client \<Rightarrow> createBranchRequest \<Rightarrow> ('h, (string, wireBranch) result) state" where
  "test_createBranch S c req = do { r \<leftarrow> test_do S c ''POST'' ''/v1/branches'' (Some req); State_Monad.return (decoded S ''POST /v1/branches'' 201 r) }"

definition test_getBranch :: "'h sdk \<Rightarrow> test_client \<Rightarrow> string \<Rightarrow> ('h, (string, wireBranch) result) state" where
  "test_getBranch S c name = do { r \<leftarrow> test_do S c ''GET'' (''/v1/branches/'' @ PathEscape name) None; State_Monad.return (decoded S (''GET /v1/branches/'' @ name) 200 r) }"

definition lastReason :: "'h sdk \<Rightarrow> test_client \<Rightarrow> string \<Rightarrow> ('h, string) state" where
  "lastReason S c name = do { r \<leftarrow> test_do S c ''GET'' (''/v1/branches/'' @ PathEscape name @ ''/history'') None;
     State_Monad.return (case r of Inl e \<Rightarrow> [] | Inr (code, data) \<Rightarrow> if code \<noteq> 200 then []
       else (case sh_reasons S data of None \<Rightarrow> []
         | Some rs \<Rightarrow> (case find (\<lambda>x. x \<noteq> []) (rev rs) of None \<Rightarrow> [] | Some x \<Rightarrow> '': '' @ x))) }"

definition test_destroyBranch :: "'h sdk \<Rightarrow> test_client \<Rightarrow> string \<Rightarrow> ('h, string option) state" where
  "test_destroyBranch S c name = do { r \<leftarrow> test_do S c ''DELETE'' (''/v1/branches/'' @ PathEscape name) None;
     State_Monad.return (case r of Inl e \<Rightarrow> Some e
       | Inr (code, data) \<Rightarrow> if code \<noteq> 204 \<and> code \<noteq> 404 then Some (''DELETE /v1/branches/'' @ name @ '': HTTP '' @ nat_dec code @ '': '' @ TrimSpace data) else None) }"

text \<open>What a call of \<open>Acquire\<close> comes to: the test is skipped, ended, or goes on with a branch.\<close>

datatype acquired = Skipped | Fatal string | Acquired test_branch

record test_config =
  tcf_source :: string
  tcf_ttl :: int
  tcf_proxyHost :: string

definition WithSource :: "string \<Rightarrow> test_config \<Rightarrow> test_config" where "WithSource name c = c\<lparr>tcf_source := name\<rparr>"
definition WithTTL :: "int \<Rightarrow> test_config \<Rightarrow> test_config" where "WithTTL d c = c\<lparr>tcf_ttl := d\<rparr>"
definition WithProxyHost :: "string \<Rightarrow> test_config \<Rightarrow> test_config" where "WithProxyHost hostport c = c\<lparr>tcf_proxyHost := hostport\<rparr>"

definition acquireTimeout :: int where "acquireTimeout = 5 * 60 * 10 ^ 9"

text \<open>\<open>sh_pause\<close> waits for the poll interval and says whether the context goes on; the interval is a second, so that there are at most 300 rounds in five minutes.\<close>

fun poll_ready :: "nat \<Rightarrow> 'h sdk \<Rightarrow> test_client \<Rightarrow> string \<Rightarrow> wireBranch \<Rightarrow> ('h, (string, wireBranch) result) state" where
  "poll_ready n S c name b =
     (if wb_State b = ''ready'' then State_Monad.return (Inr b)
      else if terminalState (wb_State b)
      then do { why \<leftarrow> lastReason S c name;
        State_Monad.return (Inl (''pgoverlaytest: branch '' @ quoted name @ '' is '' @ wb_State b @ '' and will never become ready'' @ why)) }
      else let late = State_Monad.return (Inl (''pgoverlaytest: branch '' @ quoted name @ '' not ready after '' @ Duration_String acquireTimeout @ '' (state '' @ quoted (wb_State b) @ '')''))
        in case n of 0 \<Rightarrow> late
           | Suc k \<Rightarrow> do { on \<leftarrow> State (sh_pause S);
               if \<not> on then late
               else do { r \<leftarrow> test_getBranch S c name;
                 case r of Inl e \<Rightarrow> State_Monad.return (Inl (''pgoverlaytest: wait for branch '' @ quoted name @ '': '' @ e)) | Inr b' \<Rightarrow> poll_ready k S c name b' } })"

declare poll_ready.simps [simp del]

text \<open>The outcome and the branch that the cleanup registered with the test destroys.\<close>

definition Acquire :: "'h sdk \<Rightarrow> nat list \<Rightarrow> (test_config \<Rightarrow> test_config) list \<Rightarrow> ('h, acquired \<times> string option) state" where
  "Acquire S testName opts =
     (let server = sh_env S ''PGOVERLAY_SERVER'';
          cfg = fold (\<lambda>f c. f c) opts \<lparr>tcf_source = or_else (sh_env S ''PGOVERLAY_TEST_SOURCE'') ''main'', tcf_ttl = 3600 * 10 ^ 9, tcf_proxyHost = sh_env S ''PGOVERLAY_PROXY_HOST''\<rparr>;
          c = \<lparr>tc_base = trim_right_slash server, tc_token = sh_env S ''PGOVERLAY_TOKEN''\<rparr>
      in if server = [] then State_Monad.return (Skipped, None)
         else if tcf_ttl cfg < 0 then State_Monad.return (Fatal (''pgoverlaytest: WithTTL('' @ Duration_String (tcf_ttl cfg) @ ''): the TTL must not be negative''), None)
         else case (if tcf_proxyHost cfg \<noteq> [] then test_splitProxyHost (tcf_proxyHost cfg) else Inr (sh_hostname S (tc_base c), defaultProxyPort)) of
             Inl e \<Rightarrow> State_Monad.return (Fatal (''pgoverlaytest: proxy host: '' @ e), None)
           | Inr (proxyHost, proxyPort) \<Rightarrow> do { bytes \<leftarrow> State (sh_random S 3);
               let name = test_branchName testName (test_randHex bytes 6)
               in do { r \<leftarrow> test_createBranch S c \<lparr>cq_Name = name, cq_Source = tcf_source cfg, cq_TTLSeconds = ttlSeconds (tcf_ttl cfg)\<rparr>;
                 case r of Inl e \<Rightarrow> State_Monad.return (Fatal (''pgoverlaytest: create branch '' @ quoted name @ '' from '' @ quoted (tcf_source cfg) @ '': '' @ e), None)
                 | Inr b \<Rightarrow> do { p \<leftarrow> poll_ready 300 S c name b;
                     State_Monad.return (case p of Inl e \<Rightarrow> Fatal e | Inr w \<Rightarrow> Acquired (test_newBranch S w (tc_base c) proxyHost proxyPort), Some name) } } })"

end
