(* ===== verification/SdkProps.thy ===== *)
theory SdkProps
  imports Sdk ApiClientProps NamesProps
begin

text \<open>
  The client packages: a connection string gives back what it was built from, an application finds the branch the GitHub receiver made, and the branch of a test has a
  name the engine accepts, a lifetime that is not cut short, and a cleanup.
\<close>

section \<open>Connection strings\<close>

text \<open>How a URL parser reads a connection string: the authority ends at the first slash, the user information at its last at sign and the user at the first colon, both parts unescaped.\<close>

definition read_user :: "string \<Rightarrow> (string \<times> string) option" where
  "read_user u = (case cut (CHR '':'') u of None \<Rightarrow> map_option (\<lambda>x. (x, [])) (path_unescape u)
     | Some (a, b) \<Rightarrow> (case (path_unescape a, path_unescape b) of (Some x, Some y) \<Rightarrow> Some (x, y) | _ \<Rightarrow> None))"

definition read_dsn :: "string \<Rightarrow> ((string \<times> string) \<times> (string \<times> string) \<times> string) option" where
  "read_dsn s = (if \<not> has_prefix ''postgres://'' s then None
     else case cut (CHR ''/'') (trim_prefix ''postgres://'' s) of None \<Rightarrow> None
       | Some (authority, db) \<Rightarrow> (case cut_last (CHR ''@'') authority of None \<Rightarrow> None
           | Some (u, hp) \<Rightarrow> (case (read_user u, SplitHostPort hp) of (Some x, Some y) \<Rightarrow> Some (x, y, db) | _ \<Rightarrow> None)))"

lemma cut_last_none: "c \<notin> set b \<Longrightarrow> cut_last c b = None"
  by (induction b) auto

lemma cut_last_at: "c \<notin> set b \<Longrightarrow> cut_last c (a @ c # b) = Some (a, b)"
  by (induction a) (auto simp: cut_last_none)

lemma user_unescape_char: "path_unescape (user_escape_char c @ s) = map_option (Cons c) (path_unescape s)"
proof (cases "user_plain c")
  case True
  then have "c \<noteq> CHR ''%''" by (auto simp: user_plain_def low_alnum_alt)
  then show ?thesis using True by (simp add: user_escape_char_def)
next
  case False
  have "of_char c < (256 :: nat)" by simp
  then have "of_char c div 16 < (16 :: nat)" "of_char c mod 16 < (16 :: nat)" by (simp_all add: less_mult_imp_div_less)
  moreover have "16 * (of_char c div 16 :: nat) + of_char c mod 16 = of_char c" by simp
  ultimately show ?thesis using False by (simp add: user_escape_char_def Let_def hex_upper_val split: option.splits)
qed

lemma user_escape_roundtrip: "path_unescape (user_escape s) = Some s"
  by (induction s) (simp_all add: user_escape_def user_unescape_char)

lemma hex_upper_alnum: "n < 16 \<Longrightarrow> hex_upper n \<notin> set '':/@''"
proof -
  assume n: "n < 16"
  have "of_char (hex_upper n) = (if n < 10 then 48 + n else 55 + n)" using n by (simp add: hex_upper_def)
  then have "of_char (hex_upper n) \<noteq> (58 :: nat)" "of_char (hex_upper n) \<noteq> (47 :: nat)" "of_char (hex_upper n) \<noteq> (64 :: nat)" using n by (simp_all split: if_splits)
  then show ?thesis by auto
qed

lemma user_escape_plain: "set (user_escape s) \<inter> set '':/@'' = {}"
proof -
  have "x \<notin> set '':/@''" if "x \<in> set (user_escape_char c)" for c x
  proof (cases "user_plain c")
    case True
    then show ?thesis using that by (auto simp: user_escape_char_def user_plain_def low_alnum_alt)
  next
    case False
    then have "x = CHR ''%'' \<or> x = hex_upper (of_char c div 16) \<or> x = hex_upper (of_char c mod 16)" using that by (auto simp: user_escape_char_def Let_def)
    then show ?thesis using hex_upper_alnum of_char_halves[of c] by auto
  qed
  then show ?thesis unfolding user_escape_def by fastforce
qed

lemma split_join_host:
  assumes "CHR ''['' \<notin> set h" "CHR '']'' \<notin> set h" "list_all is_digit p"
  shows "SplitHostPort (JoinHostPort h p) = Some (h, p)"
proof -
  have p: "CHR '':'' \<notin> set p" "CHR ''['' \<notin> set p" "CHR '']'' \<notin> set p" using assms(3) by (auto simp: list_all_iff is_digit_alt)
  show ?thesis
  proof (cases "CHR '':'' \<in> set h")
    case True
    have "cut_last (CHR '':'') ((''['' @ h @ '']'') @ CHR '':'' # p) = Some (''['' @ h @ '']'', p)" using p(1) by (rule cut_last_at)
    then show ?thesis using True p assms(1,2) by (simp add: JoinHostPort_def SplitHostPort_def cut_append has_prefix_def)
  next
    case False
    have "\<not> has_prefix ''['' (h @ '':'' @ p)" using assms(1) by (cases h) (auto simp: has_prefix_def)
    then show ?thesis using False p assms(1,2) by (simp add: JoinHostPort_def SplitHostPort_def cut_last_at)
  qed
qed



section \<open>Names\<close>

text \<open>
  An application that knows the repository, the number and, with naming by git ref, the head ref of a pull request of the repository itself looks up exactly the branch the GitHub receiver
  works on, for a fork too when it gives the number only.
\<close>

theorem connect_agrees_with_receiver:
  assumes "co_Branch opts = []" "co_Repo opts = py_Repo p" "co_PR opts = py_Number p" "py_Repo p \<noteq> []" "py_Number p > 0"
    and "co_Ref opts = (if hc_BranchNaming H = ''git-branch'' \<and> \<not> fromFork p then py_Ref p else [])"
  shows "connect_branchName cr opts = Inr (branchName cr H p)"
proof -
  have "RefBranchName cr r [] = []" for r by (simp add: RefBranchName_def sanitize_def)
  then show ?thesis using assms by (auto simp: connect_branchName_def branchName_def Let_def)
qed

definition demo_pull :: payload where
  "demo_pull = \<lparr>py_Action = ''opened'', py_Number = 7, py_SHA = [], py_Ref = ''feat/x'', py_HeadRepo = Some ''o/r'', py_Repo = ''o/r'', py_Installation = 0, py_Delivery = ''d''\<rparr>"

definition demo_naming :: hook_config where
  "demo_naming = \<lparr>hc_WebhookSecret = ''s'', hc_Source = ''main'', hc_TTLSeconds = 0, hc_ResetOnPush = False, hc_Repos = [], hc_ProxyHost = [], hc_DiffOnPush = False,
     hc_BranchNaming = ''git-branch''\<rparr>"

theorem connect_agrees_with_receiver_witness:
  "connect_branchName demo_crypto \<lparr>co_Server = [], co_Token = [], co_Branch = [], co_Repo = ''o/r'', co_PR = 7, co_Ref = ''feat/x'', co_ProxyHost = [], co_Password = []\<rparr> =
     Inr (branchName demo_crypto demo_naming demo_pull)"
  by (rule connect_agrees_with_receiver) (simp_all add: demo_pull_def demo_naming_def fromFork_def EqualFold_def)

lemma test_loop_chars: "list_all name_char b \<Longrightarrow> list_all name_char (test_name_loop b dash rs)"
proof (induction rs arbitrary: b dash)
  case (Cons r rs)
  have "name_char (char_of n)" if "97 \<le> n \<and> n \<le> 122 \<or> 48 \<le> n \<and> n \<le> 57" for n :: nat
    using that by (auto simp: name_char_def low_alnum_alt)
  moreover have "name_char (CHR ''-'')" by (simp add: name_char_def)
  ultimately show ?case using Cons by (simp add: Let_def)
qed simp

lemma trim_left_chars: "list_all P s \<Longrightarrow> list_all P (trim_left_dash s)" "length (trim_left_dash s) \<le> length s"
  by (auto simp: trim_left_dash_def list_all_iff length_dropWhile_le dest: set_dropWhileD)

lemma drop_chars: "list_all P s \<Longrightarrow> list_all P (drop k s)"
  by (auto simp: list_all_iff dest: in_set_dropD)

text \<open>
  The branch of a test has a name the engine accepts, whatever the test is called, and it ends in the random suffix, so that two calls with different random bytes never
  ask for the same branch.
\<close>

theorem test_names_valid:
  assumes "length b1 = 3" "length b2 = 3"
  shows "validateBranchName (test_branchName t1 (test_randHex b1 6)) = None
    \<and> (test_randHex b1 6 \<noteq> test_randHex b2 6 \<longrightarrow> test_branchName t1 (test_randHex b1 6) \<noteq> test_branchName t2 (test_randHex b2 6))"
proof -
  have suffix: "length (test_randHex b 6) = 6 \<and> list_all name_char (test_randHex b 6)" if "length b = 3" for b
  proof -
    have "list_all name_char (hex_encode b)" using hex_encode_low_alnum[of b] by (auto simp: list_all_iff name_char_def)
    then show ?thesis using that by (auto simp: test_randHex_def length_hex_encode list_all_iff dest: in_set_takeD)
  qed
  have ends: "\<exists>x. test_branchName t s = x @ s" for t s by (auto simp: test_branchName_def Let_def)
  have "valid_name (test_branchName t1 s)" if s: "length s = 6" "list_all name_char s" for s
  proof -
    define r where "r = (let s0 = test_name_loop [] False t1 in if length s0 > 32 then trim_left_dash (drop (length s0 - 32) s0) else s0)"
    let ?w = "trim_right_dash (trim_left_dash r)"
    have r: "list_all name_char r" "length r \<le> 32"
      using test_loop_chars[of "[]" False t1] trim_left_chars(2)[of "drop (length (test_name_loop [] False t1) - 32) (test_name_loop [] False t1)"]
      by (auto simp: r_def Let_def intro!: trim_left_chars(1) drop_chars)
    have w: "list_all name_char ?w" "length ?w \<le> 32"
      using r trim_left_chars(1)[of name_char r] trim_left_chars(2)[of r] set_trim_right_dash[of "trim_left_dash r"] length_trim_right_dash[of "trim_left_dash r"]
      by (auto simp: list_all_iff)
    have "test_branchName t1 s = (if ?w = [] then ''t-'' @ s else ''t-'' @ ?w @ ''-'' @ s)" using s(1) by (simp add: test_branchName_def Let_def r_def)
    then show ?thesis using w s by (simp add: valid_name_def name_char_def low_alnum_alt)
  qed
  then have "validateBranchName (test_branchName t1 (test_randHex b1 6)) = None"
    using suffix[OF assms(1)] by (simp add: validateBranchName_def validateName_iff)
  moreover have "test_randHex b1 6 = test_randHex b2 6" if "test_branchName t1 (test_randHex b1 6) = test_branchName t2 (test_randHex b2 6)"
    using that ends[of t1 "test_randHex b1 6"] ends[of t2 "test_randHex b2 6"] suffix[OF assms(1)] suffix[OF assms(2)] by (metis append_eq_append_conv)
  ultimately show ?thesis by blast
qed

theorem test_names_valid_witness: "validateBranchName (test_branchName [84, 101, 115, 116, 47, 0x212A] (test_randHex ''abc'' 6)) = None"
  using test_names_valid[of "''abc''" "''abc''"] by simp

section \<open>The branch of a test\<close>

text \<open>The TTL a test asks for is rounded up to whole seconds, by less than one: a positive one never becomes the zero that switches it off, and none is shortened.\<close>

theorem ttl_rounds_up:
  assumes "0 \<le> d"
  shows "d \<le> ttlSeconds d * 10 ^ 9 \<and> ttlSeconds d * 10 ^ 9 < d + 10 ^ 9 \<and> (0 < d \<longrightarrow> 0 < ttlSeconds d)"
proof -
  define q m where "q = d div 10 ^ 9" and "m = d mod 10 ^ 9"
  have d: "d = q * 10 ^ 9 + m" "0 \<le> m" "m < 10 ^ 9" "0 \<le> q" using assms by (simp_all add: q_def m_def pos_imp_zdiv_nonneg_iff)
  have "ttlSeconds d = q + (if m > 0 then 1 else 0)" using assms by (simp add: ttlSeconds_def q_def m_def)
  then show ?thesis using d by (cases "m > 0") auto
qed

theorem ttl_rounds_up_witness: "ttlSeconds 1 = 1"
  using ttl_rounds_up[of 1] by (simp add: ttlSeconds_def)

text \<open>
  What is asked of the server and of the machine: a branch is made only by a create request, under the name it asks for, and the request is then answered with 201 and a body that can
  be read and decoded. (A create whose answer is lost is what the TTL is for.)
\<close>

definition server_laws :: "'h sdk \<Rightarrow> ('h \<Rightarrow> string set) \<Rightarrow> bool" where
  "server_laws S made \<longleftrightarrow>
     (\<forall>m u tok body s r s'. sh_do S m u tok body s = (r, s') \<longrightarrow> made s' \<subseteq> made s
        \<or> (\<exists>q data w. body = Some q \<and> r = Inr (201, data, None) \<and> sh_decode S data = Inr w \<and> made s' \<subseteq> insert (cq_Name q) (made s)))
   \<and> (\<forall>n s r s'. sh_random S n s = (r, s') \<longrightarrow> made s' \<subseteq> made s) \<and> (\<forall>s r s'. sh_pause S s = (r, s') \<longrightarrow> made s' \<subseteq> made s)"

lemma law_do:
  "server_laws S made \<Longrightarrow> sh_do S m u tok body s = (r, s') \<Longrightarrow> made s' \<subseteq> made s
     \<or> (\<exists>q data w. body = Some q \<and> r = Inr (201, data, None) \<and> sh_decode S data = Inr w \<and> made s' \<subseteq> insert (cq_Name q) (made s))"
  unfolding server_laws_def by (elim conjE) blast

lemma law_quiet:
  assumes "server_laws S made"
  shows "sh_random S n s = (r, s') \<Longrightarrow> made s' \<subseteq> made s" "sh_pause S s = (b, s') \<Longrightarrow> made s' \<subseteq> made s"
  using assms unfolding server_laws_def by (elim conjE, blast)+

lemma do_makes:
  assumes "server_laws S made" "run_state (test_do S c m u body) s = (r, s')"
  shows "made s' \<subseteq> made s \<or> (\<exists>q data w. body = Some q \<and> r = Inr (201, data) \<and> sh_decode S data = Inr w \<and> made s' \<subseteq> insert (cq_Name q) (made s))"
proof -
  obtain x t where x: "sh_do S m (tc_base c @ u) (tc_token c) body s = (x, t)" by fastforce
  then have "t = s'" "r = (case x of Inl e \<Rightarrow> Inl e | Inr (code, data, err) \<Rightarrow> (case err of Some e \<Rightarrow> Inl e | None \<Rightarrow> Inr (code, data)))"
    using assms(2) by (auto simp: test_do_def)
  then show ?thesis using law_do[OF assms(1) x] by fastforce
qed

lemma reads_make_nothing:
  assumes "server_laws S made"
  shows "run_state (test_getBranch S c n) s = (r, s') \<Longrightarrow> made s' \<subseteq> made s" "run_state (lastReason S c n) s = (q, s') \<Longrightarrow> made s' \<subseteq> made s"
  using do_makes[OF assms, of c _ _ None] by (auto simp: test_getBranch_def lastReason_def split: prod.splits)

lemma create_makes:
  assumes "server_laws S made" "run_state (test_createBranch S c q) s = (r, s')"
  shows "made s' \<subseteq> made s \<or> (\<exists>b. r = Inr b) \<and> made s' \<subseteq> insert (cq_Name q) (made s)"
proof -
  obtain x t where x: "run_state (test_do S c ''POST'' ''/v1/branches'' (Some q)) s = (x, t)" by fastforce
  then have "t = s'" "r = decoded S ''POST /v1/branches'' 201 x" using assms(2) by (auto simp: test_createBranch_def)
  then show ?thesis using do_makes[OF assms(1) x] by (auto simp: decoded_def)
qed

lemma poll_makes_nothing:
  assumes "server_laws S made"
  shows "run_state (poll_ready n S c name b) s = (r, s') \<Longrightarrow> made s' \<subseteq> made s \<and> (\<forall>w. r = Inr w \<longrightarrow> wb_State w = ''ready'')"
proof (induction n arbitrary: b s)
  case 0
  then show ?case using reads_make_nothing(2)[OF assms] by (subst (asm) poll_ready.simps) (auto simp: Let_def split: if_splits prod.splits)
next
  case (Suc n)
  obtain on t where on: "sh_pause S s = (on, t)" by fastforce
  obtain x u where x: "run_state (test_getBranch S c name) t = (x, u)" by fastforce
  have t: "made t \<subseteq> made s" "made u \<subseteq> made s" using law_quiet(2)[OF assms on] reads_make_nothing(1)[OF assms x] by auto
  have "(\<exists>b'. run_state (poll_ready n S c name b') u = (r, s')) \<or> (\<exists>e. r = Inl e) \<and> (s' = t \<or> s' = u \<or> (\<exists>q. run_state (lastReason S c name) s = (q, s')))
      \<or> (\<exists>w. r = Inr w \<and> wb_State w = ''ready'') \<and> s' = s"
    using Suc.prems on x by (subst (asm) poll_ready.simps) (auto simp: Let_def split: if_splits prod.splits sum.splits)
  then show ?case
  proof (elim disjE exE conjE)
    fix b' assume "run_state (poll_ready n S c name b') u = (r, s')"
    from Suc.IH[OF this] show ?thesis using t by blast
  qed (use reads_make_nothing(2)[OF assms, of c name s] t in auto)
qed

text \<open>
  A test goes on only with a branch that was reported ready, and whatever happens after the server has made a branch, the cleanup registered with the test
  destroys that very branch.
\<close>

theorem acquire_cleans_up:
  assumes "server_laws S made" "run_state (Acquire S testName opts) s = ((out, cleanup), s')"
  shows "made s' \<subseteq> made s \<union> set_option cleanup \<and> (\<forall>b. out = Acquired b \<longrightarrow> (\<exists>w base h p. b = test_newBranch S w base h p \<and> wb_State w = ''ready'') \<and> cleanup \<noteq> None)"
proof -
  obtain bytes t where bytes: "sh_random S 3 s = (bytes, t)" by fastforce
  define name where "name = test_branchName testName (test_randHex bytes 6)"
  define cfg where "cfg = fold (\<lambda>f c. f c) opts
    \<lparr>tcf_source = or_else (sh_env S ''PGOVERLAY_TEST_SOURCE'') ''main'', tcf_ttl = 3600 * 10 ^ 9, tcf_proxyHost = sh_env S ''PGOVERLAY_PROXY_HOST''\<rparr>"
  define px where "px = (if tcf_proxyHost cfg \<noteq> [] then test_splitProxyHost (tcf_proxyHost cfg)
    else Inr (sh_hostname S (trim_right_slash (sh_env S ''PGOVERLAY_SERVER'')), defaultProxyPort))"
  note t = law_quiet(1)[OF assms(1) bytes]
  have cases: "(\<exists>c q r u. cq_Name q = name \<and> run_state (test_createBranch S c q) t = (r, u)
      \<and> (case r of Inl e \<Rightarrow> s' = u \<and> cleanup = None \<and> (\<exists>m. out = Fatal m)
         | Inr b \<Rightarrow> \<exists>p base h k. run_state (poll_ready 300 S c name b) u = (p, s') \<and> cleanup = Some name
             \<and> out = (case p of Inl e \<Rightarrow> Fatal e | Inr w \<Rightarrow> Acquired (test_newBranch S w base h k))))
    \<or> s' = s \<and> (\<forall>b. out \<noteq> Acquired b)"
  proof (cases "sh_env S ''PGOVERLAY_SERVER'' = [] \<or> tcf_ttl cfg < 0 \<or> (\<exists>e. px = Inl e)")
    case True
    then show ?thesis using assms(2) by (auto simp: Acquire_def Let_def cfg_def px_def split: if_splits)
  next
    case False
    then obtain h k where hk: "px = Inr (h, k)" by (cases px) auto
    have n: "\<not> sh_env S ''PGOVERLAY_SERVER'' = []" "\<not> tcf_ttl cfg < 0" using False by auto
    have draw: "run_state (State_Monad.bind (State (sh_random S 3)) g) s = run_state (g bytes) t" for g :: "string \<Rightarrow> ('a, acquired \<times> string option) state" using bytes by simp
    let ?c = "\<lparr>tc_base = trim_right_slash (sh_env S ''PGOVERLAY_SERVER''), tc_token = sh_env S ''PGOVERLAY_TOKEN''\<rparr>"
    let ?q = "\<lparr>cq_Name = name, cq_Source = tcf_source cfg, cq_TTLSeconds = ttlSeconds (tcf_ttl cfg)\<rparr>"
    have run: "run_state (do { r \<leftarrow> test_createBranch S ?c ?q;
                 case r of Inl e \<Rightarrow> State_Monad.return (Fatal (''pgoverlaytest: create branch '' @ quoted name @ '' from '' @ quoted (tcf_source cfg) @ '': '' @ e), None)
                 | Inr b \<Rightarrow> do { p \<leftarrow> poll_ready 300 S ?c name b;
                     State_Monad.return (case p of Inl e \<Rightarrow> Fatal e | Inr w \<Rightarrow> Acquired (test_newBranch S w (tc_base ?c) h k), Some name) } }) t = ((out, cleanup), s')"
      using assms(2) unfolding Acquire_def Let_def cfg_def[symmetric] test_client.simps px_def[symmetric] if_not_P[OF n(1)] if_not_P[OF n(2)] hk sum.case prod.case draw name_def .
    obtain r u where r: "run_state (test_createBranch S ?c ?q) t = (r, u)" by fastforce
    show ?thesis
    proof (cases r)
      case (Inl e)
      then show ?thesis using run r by (intro disjI1 exI[of _ ?c] exI[of _ ?q] exI[of _ r] exI[of _ u]) auto
    next
      case (Inr b)
      obtain p v where p: "run_state (poll_ready 300 S ?c name b) u = (p, v)" by fastforce
      then show ?thesis using run r Inr by (intro disjI1 exI[of _ ?c] exI[of _ ?q] exI[of _ r] exI[of _ u]) (auto intro!: exI[of _ p])
    qed
  qed
  then show ?thesis
  proof (elim disjE exE conjE)
    fix c q r u assume q: "cq_Name q = name" "run_state (test_createBranch S c q) t = (r, u)" and r: "case r of Inl e \<Rightarrow> s' = u \<and> cleanup = None \<and> (\<exists>m. out = Fatal m)
         | Inr b \<Rightarrow> \<exists>p base h k. run_state (poll_ready 300 S c name b) u = (p, s') \<and> cleanup = Some name
             \<and> out = (case p of Inl e \<Rightarrow> Fatal e | Inr w \<Rightarrow> Acquired (test_newBranch S w base h k))"
    note m = create_makes[OF assms(1) q(2)]
    show ?thesis
    proof (cases r)
      case (Inl e)
      then show ?thesis using r m t by auto
    next
      case (Inr b)
      with r obtain p base h k where p: "run_state (poll_ready 300 S c name b) u = (p, s')" "cleanup = Some name"
        "out = (case p of Inl e \<Rightarrow> Fatal e | Inr w \<Rightarrow> Acquired (test_newBranch S w base h k))" by auto
      have "made s' \<subseteq> insert name (made s)" using poll_makes_nothing[OF assms(1) p(1)] m t q(1) by auto
      moreover have "\<exists>w base h k. b' = test_newBranch S w base h k \<and> wb_State w = ''ready''" if "out = Acquired b'" for b'
        using that p(3) poll_makes_nothing[OF assms(1) p(1)] by (cases p) auto
      ultimately show ?thesis using p(2) by auto
    qed
  qed auto
qed

definition demo_sdk :: "string set sdk" where
  "demo_sdk = \<lparr>sh_do = (\<lambda>m u tok body s. case body of Some q \<Rightarrow> (Inr (201, [], None), insert (cq_Name q) s) | None \<Rightarrow> (Inr (200, [], None), s)),
     sh_decode = (\<lambda>t. Inr \<lparr>wb_Name = ''b'', wb_State = ''failed'', wb_Host = [], wb_Port = 5432, wb_User = [], wb_Password = ''p'', wb_Database = [], wb_ProxyDatabase = []\<rparr>),
     sh_reasons = (\<lambda>t. None), sh_hostname = (\<lambda>u. ''h''), sh_env = (\<lambda>v. if v = ''PGOVERLAY_SERVER'' then ''http://h'' else []), sh_random = (\<lambda>n s. (''abc'', s)), sh_pause = (\<lambda>s. (True, s))\<rparr>"

theorem acquire_cleans_up_witness:
  "\<exists>out cleanup s'. run_state (Acquire demo_sdk [65] []) {''x''} = ((out, cleanup), s') \<and> s' \<subseteq> {''x''} \<union> set_option cleanup"
proof -
  have laws: "server_laws demo_sdk (\<lambda>s. s)" by (auto simp: server_laws_def demo_sdk_def split: option.splits)
  obtain out cleanup s' where run: "run_state (Acquire demo_sdk [65] []) {''x''} = ((out, cleanup), s')" by (metis surj_pair)
  show ?thesis using run acquire_cleans_up[OF laws run] by (intro exI[of _ out] exI[of _ cleanup] exI[of _ s']) simp
qed

end
