(* ===== verification/Spec2Isabelle.thy ===== *)
theory Spec2Isabelle
  imports Tokens Secrets ProxyServe NamesProps ReconcileProps Claims BranchDiffProps Marker SeedingProps CopyUpProps ApiProps ApiClientProps HookProps DockerProps KubeProps SdkProps
begin

text \<open>
  \<^bold>\<open>pgoverlay, verified.\<close> pgoverlay gives every pull request its own copy-on-write Postgres. A \<^emph>\<open>source\<close> is a seeded data
  directory in a volume; a \<^emph>\<open>branch\<close> is a container whose data directory is an overlay of a private volume over the
  source, possibly with \<^emph>\<open>frozen layers\<close> between them when it was branched from another branch. A SQLite \<^emph>\<open>registry\<close> holds
  the rows and an audit journal; the \<^emph>\<open>engine\<close> runs the sagas that change containers and volumes and record the outcome; a
  \<^emph>\<open>reconcile\<close> loop repairs what crashes leave behind; a wire \<^emph>\<open>proxy\<close> routes clients to the branch their database name says. branchd serves the
  engine over an \<^emph>\<open>HTTP API\<close>, on several replicas of which one is the leader; the command line and the \<^emph>\<open>GitHub receiver\<close> are clients of it.

  \<^bold>\<open>Theories and the code they model.\<close>

  \<^item> \<open>Prelude\<close>, \<open>Times\<close>, \<open>Regex\<close>: shared lemmas and the parts of Go's standard library the code uses (decimal rendering, host and
    port, RFC 3339 instants, durations, regular expressions as matchers).
  \<^item> \<open>Registry\<close> (\<^verbatim>\<open>src/internal/registry/registry.go\<close>, \<^verbatim>\<open>schema.go\<close>, \<^verbatim>\<open>actor.go\<close>): the tables as lists of rows, one definition
    per exported call, run as one transaction on the database; constraint failures, not-found and illegal transitions are
    values of \<open>reg_error\<close>. \<open>RegistryInv\<close> states the invariant \<open>db_ok\<close>, \<open>RegistrySteps\<close> the step relation \<open>reg_step\<close> of all
    writing calls. \<open>RegistryProps\<close>: the invariant holds in every reachable database, the journal explains the state of
    every branch and only grows, branches move along legal edges. \<open>RegistryLayers\<close>: layer chains are complete and end,
    reference counts equal chain membership, the protected volumes cover every chain. \<open>RegistryCalls\<close>: contracts of
    single calls (transitions, races, retries of failed sources, stuck-row cutoffs, history after removal).
  \<^item> \<open>Tokens\<close> (\<^verbatim>\<open>tokens.go\<close>) and \<open>Secrets\<close> (\<^verbatim>\<open>crypto.go\<close>, \<^verbatim>\<open>secrets.go\<close>): API tokens cannot impersonate other actors and live until
    revoked; stored passwords round trip and survive key rotation. AES-GCM and SHA-256 are parameters with their documented
    laws as hypotheses.
  \<^item> \<open>Proxy\<close>, \<open>ProxyFrames\<close>, \<open>ProxySessions\<close>, \<open>ProxyServe\<close> (\<^verbatim>\<open>src/internal/pgproxy\<close>): startup frames, the relay of the first
    backend messages, the cancel map against its specification, admission of connections, routing and uniform refusals.
  \<^item> \<open>Names\<close>, \<open>NamesProps\<close> (\<^verbatim>\<open>src/pgoverlayconnect/names.go\<close>, \<^verbatim>\<open>src/internal/cow/plan.go\<close>): branch names from pull requests and refs,
    volume names and their generations, overlay plans and zfs commands.
  \<^item> \<open>Runtime\<close> (\<^verbatim>\<open>src/internal/runtime/runtime.go\<close>): the driver interface as a record of functions on an arbitrary runtime
    state; every call appends an event to a log. \<open>Texts\<close>: redaction, failure reasons and shell quoting. \<open>Engine\<close>
    (\<^verbatim>\<open>src/internal/engine/engine.go\<close>, \<^verbatim>\<open>zfs.go\<close>, \<^verbatim>\<open>csi.go\<close>, \<^verbatim>\<open>cowmode.go\<close>): policies, helper commands, readiness, masking, credential rotation.
    \<open>Sagas\<close> (\<^verbatim>\<open>saga.go\<close>, \<^verbatim>\<open>freeze.go\<close>, \<^verbatim>\<open>recover.go\<close>): create, create-from, reset, recover, destroy, reap, remove-source with their
    compensations, for the overlay, zfs and csi backends. \<open>Reconcile\<close> (\<^verbatim>\<open>reconcile.go\<close>): plan, actions, endpoint refresh.
    \<open>Claims\<close> (\<^verbatim>\<open>reconcile.go\<close>): the in-process claim counters.
  \<^item> \<open>SagaCalculus\<close>: locales for relations between the worlds before and after a step, from \<open>saga_relation\<close> to
    \<open>engine_relation\<close>, each naming the calls its operations make; every operation of the engine keeps a relation its calls
    keep. \<open>SagaSteps\<close>, \<open>SagaRefine\<close>: every engine operation moves the database by registry steps only, so the registry
    invariants hold throughout. \<open>SagaMasking\<close>: a created branch ran every masking script. \<open>SagaCompensation\<close>: a failed
    provisioning leaves nothing behind. \<open>SagaSafety\<close>: which volumes a saga may remove; destroy is final. \<open>ReconcileProps\<close>: the
    plan is the drift and reads only, garbage collection checks again. \<open>SimEnv\<close>: a small concrete runtime for the
    witnesses.

  \<^item> \<open>Diff\<close> (\<^verbatim>\<open>src/internal/diffutil\<close>): the linear-space line diff with its cost cap and the rendering of hunks. \<open>DiffPaths\<close>, \<open>DiffFrontier\<close>,
    \<open>DiffSplit\<close>: the furthest-reaching paths of the search and why its divide step ends inside the rectangle; \<open>DiffProps\<close>, \<open>DiffPatch\<close>: the script
    turns the old lines into the new ones and the hunks apply as a patch.
  \<^item> \<open>BranchDiff\<close> (\<^verbatim>\<open>src/internal/engine/diff.go\<close>): a throwaway branch on the base of a branch, the schema dumps of both, row estimates, exact counts
    and samples. \<open>BranchDiffProps\<close>: quoting, deltas and sampled keys are exact. \<open>DiffSaga\<close>: the throwaway is destroyed, and the diff moves the
    registry by legal steps.
  \<^item> \<open>Leader\<close>, \<open>LeaderProps\<close>, \<open>Marker\<close> (\<^verbatim>\<open>src/internal/ha\<close>, \<^verbatim>\<open>src/internal/api/leader.go\<close>): the leader gate, the mutations in flight, the election
    callbacks as a step relation, the pod label. Nothing runs outside its term.
  \<^item> \<open>Seeding\<close>, \<open>SeedingProps\<close> (\<^verbatim>\<open>src/internal/pgctl\<close>, \<open>AddSource\<close> and \<open>RefreshSource\<close> of \<^verbatim>\<open>engine.go\<close>): validation, the helpers of a base backup or a
    dump, the generations of a source. A ready source is a seeded one, and a failed seed leaves nothing behind.
  \<^item> \<open>CopyUp\<close>, \<open>CopyUpProps\<close> (\<^verbatim>\<open>src/internal/cow/usage.go\<close>, \<^verbatim>\<open>fsprobe.go\<close>, \<^verbatim>\<open>src/internal/engine/cowfs.go\<close>, \<open>BranchUsage\<close>): the probe that finds out whether
    copy-up clones, its output, the embedded measuring tool passed through the environment, and the usage of a branch.
  \<^item> \<open>ApiErrors\<close>, \<open>Api\<close> (\<^verbatim>\<open>src/internal/api\<close>): the mapping of errors to statuses, the decoding of bodies, every handler below \<^verbatim>\<open>/v1\<close>, the routing table with
    roles and the leader gate. \<open>ApiProps\<close>: who gets through, a viewer changes nothing, the TTL does not wrap, internal errors stay inside,
    the list of branches agrees with the single reads.
  \<^item> \<open>ApiClient\<close>, \<open>ApiClientProps\<close> (\<^verbatim>\<open>src/internal/apiclient/client.go\<close>): the calls, their escaping and the retry loop. Every call reaches the
    route it means on the model of the server; retries repeat only what is safe, within a bounded time.
  \<^item> \<open>Webhook\<close>, \<open>HookOps\<close>, \<open>HookProps\<close> (\<^verbatim>\<open>src/internal/ghook/service.go\<close>, \<^verbatim>\<open>github.go\<close>, \<^verbatim>\<open>githubapp.go\<close>): the webhook receiver as a step relation over its
    queues and delivery cache, and what a worker does with a delivery through the API client and the GitHub API. Jobs run in order,
    only signed deliveries count, an ensured branch is ready, comments contain the text they quote.
  \<^item> \<open>Docker\<close>, \<open>DockerProps\<close> (\<^verbatim>\<open>src/internal/runtime/docker.go\<close>, \<^verbatim>\<open>docker_volumeroot.go\<close>): the driver for Docker as calls of a record of the daemon's API, and its value
    \<open>docker_driver\<close> of the type \<open>driver\<close>. Command output is split exactly, volumes are never adopted, failed starts leave no container, and only directories right
    below a volume root are deleted.
  \<^item> \<open>Kube\<close>, \<open>KubeProps\<close> (\<^verbatim>\<open>src/internal/runtime/kube.go\<close>, \<^verbatim>\<open>kube_podspec.go\<close>, \<^verbatim>\<open>kube_csi.go\<close>, \<^verbatim>\<open>kube_diagnose.go\<close>): the driver for Kubernetes over a record of the API server's calls, with
    its two storages, and its value \<open>kube_driver\<close>. Secrets of helpers stay out of pod specifications, a helper leaves neither pod nor Secret behind, and the timer
    of the wait agrees with its limits.
  \<^item> \<open>Sdk\<close>, \<open>SdkProps\<close> (\<^verbatim>\<open>src/pgoverlayconnect/pgoverlayconnect.go\<close>, \<^verbatim>\<open>src/pgoverlaytest/pgoverlaytest.go\<close>): the client packages. Connection strings read back as what they were built from,
    an application looks up the branch the GitHub receiver made, and a test destroys the branch it created.

  \<^bold>\<open>Environment.\<close> An engine operation is a state transformer on a \<open>world\<close>: the database, the runtime state, a clock tick and the log
    of driver calls. Before every call the environment may let other processes and goroutines change the database
    (\<open>e_interfere\<close>; heartbeats are among them), may make the registry fail (\<open>e_regFault\<close>), cancel the context or expire a timeout. \<open>env_ok\<close>
    asks that interference consists of registry steps, that new ids are fresh, and that an unreferenced layer does not
    become referenced. Context values, metrics and log lines carry no state of the model. Claims held by other goroutines
    are the environment's \<open>e_claimed\<close>; \<open>Claims\<close> shows what the counters behind it say.

  \<^bold>\<open>Loops.\<close> \<open>waitReady\<close> polls every second for ninety seconds, so its model takes at most ninety rounds, and \<open>inspectAddr\<close> at
    most thirty-two (once a second for thirty seconds); both report the timeout after the last. The walk of \<open>LayerChain\<close> is
    given as many rounds as there are layers and reports \<open>Diverges\<close> when it finds more; in a reachable database it never does. The search
    for an unused volume name reads the registry as one snapshot.

    The linear-space search of \<open>Diff\<close> has the cost cap of the code as its measure. \<open>settledBranch\<close> reads a branch every two seconds within five minutes,
    so its model takes at most 150 waits and then reports the deadline; the retry loop of the client takes exactly the attempts of its policy.

    The Docker driver starts a branch at most five times and looks for a removed container every 100 milliseconds within two minutes, so \<open>gone_loop\<close> has 1200 rounds; the Kubernetes
    driver draws at most three names for a helper. The waits without a limit of their own end with the context: \<open>dk_polls\<close> and \<open>kk_polls\<close> say after how many rounds, the
    theorems hold for every number, and the round after the last reports the error of the context. A test asks for its branch every second within five minutes, so
    \<open>poll_ready\<close> has 300 rounds.

  \<^bold>\<open>Parameters.\<close> Code outside the repository is an argument of the definitions: SHA-256, AES-GCM and HMAC, the JSON decoders and encoders, the
    clients of Docker (\<open>docker_api\<close>) and Kubernetes (\<open>kube_api\<close>), for the engine any \<open>driver\<close>, the Kubernetes lease and pod API, the HTTP transport of the clients, the environment variables and random bytes of the client packages, the GitHub REST API, the embedded
    binaries and the texts of the shell scripts that seed, and the difference of two uptimes of the probe, which the code computes in floating point.

  \<^bold>\<open>Not modelled.\<close> The construction of the Docker and Kubernetes clients, the Docker context files, the command line and the wiring of the daemon, metrics, the embedded web page, the
    TLS setup of the client, the environment and the App key of the GitHub receiver. SQLite itself, its migrations and
    file locking are represented by atomic transactions. In the proxy, the copy from the client to the backend, timers and half-closes are I/O.
\<close>

end
